(* ===== verification/Prelude.thy ===== *)
theory Prelude
  imports Main "HOL-Library.Monad_Syntax" "HOL-Library.Char_ord"
begin

text \<open>
  The shared layer of the development: results as values of a sum type, tables of a relational
  store as lists of rows, state machines and their reachable states, codecs between records and
  wire values, and the collections of rewrite rules that the component theories extend.

  A statement of the source of the form \<open>SELECT ... LIMIT 1\<close> or \<open>.get(key)\<close> is
  \<^term>\<open>find_row\<close>, \<open>UPDATE ... WHERE\<close> is \<^term>\<open>update_rows\<close>, \<open>DELETE ... WHERE\<close> is
  \<^term>\<open>delete_rows\<close>, and the \<open>changes\<close> count of a statement is \<^term>\<open>count_rows\<close>.
  A transaction that throws is rolled back: it is an \<^term>\<open>Inl\<close> result, which carries no
  new state.
\<close>

named_theorems store_defs \<open>definitions of the store operations\<close>
named_theorems inv_defs \<open>definitions of the invariants\<close>
named_theorems parse_defs \<open>definitions of the parsers\<close>

section \<open>Results\<close>

type_synonym ('e, 'a) result = "'e + 'a"

definition bindR :: "('e, 'a) result \<Rightarrow> ('a \<Rightarrow> ('e, 'b) result) \<Rightarrow> ('e, 'b) result" where
  "bindR r f = (case r of Inl e \<Rightarrow> Inl e | Inr x \<Rightarrow> f x)"

definition of_option :: "'e \<Rightarrow> 'a option \<Rightarrow> ('e, 'a) result" where
  "of_option e x = (case x of None \<Rightarrow> Inl e | Some y \<Rightarrow> Inr y)"

definition guardO :: "bool \<Rightarrow> unit option" where
  "guardO b = (if b then Some () else None)"

lemma bindR_Inl [simp]: "bindR (Inl e) f = Inl e"
  by (simp add: bindR_def)

lemma bindR_Inr [simp]: "bindR (Inr x) f = f x"
  by (simp add: bindR_def)

lemma bindR_eq_Inr: "bindR r f = Inr y \<longleftrightarrow> (\<exists>x. r = Inr x \<and> f x = Inr y)"
  by (cases r) auto

lemma bindR_eq_Inl: "bindR r f = Inl e \<longleftrightarrow> r = Inl e \<or> (\<exists>x. r = Inr x \<and> f x = Inl e)"
  by (cases r) auto

lemma of_option_simps [simp]:
  "of_option e None = Inl e" "of_option e (Some x) = Inr x"
  by (simp_all add: of_option_def)

lemma of_option_eq_Inr [simp]: "of_option e m = Inr y \<longleftrightarrow> m = Some y"
  by (cases m) auto

lemma of_option_eq_Inl [simp]: "of_option e m = Inl e' \<longleftrightarrow> m = None \<and> e' = e"
  by (cases m) auto

lemma guardO_simps [simp]: "guardO True = Some ()" "guardO False = None"
  by (simp_all add: guardO_def)

lemma guardO_eq_Some [simp]: "guardO b = Some u \<longleftrightarrow> b"
  by (cases b) simp_all

lemma guardO_bind_Some [simp]: "Option.bind (guardO b) f = Some y \<longleftrightarrow> b \<and> f () = Some y"
  by (cases b) simp_all

text \<open>The rules with which a successful \<open>do\<close> block is taken apart.\<close>

lemmas opt_conv = bind_eq_Some_conv guardO_eq_Some

fun mapM :: "('a \<Rightarrow> 'b option) \<Rightarrow> 'a list \<Rightarrow> 'b list option" where
  "mapM f [] = Some []"
| "mapM f (x # xs) = do { y \<leftarrow> f x; ys \<leftarrow> mapM f xs; Some (y # ys) }"

lemma mapM_eq_Some: "mapM f xs = Some ys \<longleftrightarrow> list_all2 (\<lambda>x y. f x = Some y) xs ys"
  by (induction xs arbitrary: ys) (auto simp: bind_eq_Some_conv list_all2_Cons1)

lemma mapM_length: "mapM f xs = Some ys \<Longrightarrow> length ys = length xs"
  by (simp add: mapM_eq_Some list_all2_lengthD)

lemma mapM_map_id: "(\<And>x. x \<in> set xs \<Longrightarrow> f (g x) = Some x) \<Longrightarrow> mapM f (map g xs) = Some xs"
  by (induction xs) auto

lemma mapM_all: "mapM f xs = Some ys \<Longrightarrow> (\<And>x y. f x = Some y \<Longrightarrow> P y) \<Longrightarrow> y \<in> set ys \<Longrightarrow> P y"
proof (induction xs arbitrary: ys)
  case (Cons x xs)
  from Cons.prems(1) obtain z zs where "f x = Some z" "mapM f xs = Some zs" "ys = z # zs"
    by (auto simp: bind_eq_Some_conv)
  with Cons.IH Cons.prems(2,3) show ?case by auto
qed simp

section \<open>Tables\<close>

definition find_row :: "('r \<Rightarrow> bool) \<Rightarrow> 'r list \<Rightarrow> 'r option" where
  "find_row P rows = List.find P rows"

definition update_rows :: "('r \<Rightarrow> bool) \<Rightarrow> ('r \<Rightarrow> 'r) \<Rightarrow> 'r list \<Rightarrow> 'r list" where
  "update_rows P f rows = map (\<lambda>r. if P r then f r else r) rows"

definition delete_rows :: "('r \<Rightarrow> bool) \<Rightarrow> 'r list \<Rightarrow> 'r list" where
  "delete_rows P rows = filter (\<lambda>r. \<not> P r) rows"

definition count_rows :: "('r \<Rightarrow> bool) \<Rightarrow> 'r list \<Rightarrow> nat" where
  "count_rows P rows = length (filter P rows)"

abbreviation unique_by :: "('r \<Rightarrow> 'k) \<Rightarrow> 'r list \<Rightarrow> bool" where
  "unique_by key rows \<equiv> distinct (map key rows)"

lemma find_row_Some: "find_row P rows = Some r \<Longrightarrow> r \<in> set rows \<and> P r"
  by (auto simp: find_row_def find_Some_iff)

lemma find_row_None: "find_row P rows = None \<longleftrightarrow> (\<forall>r\<in>set rows. \<not> P r)"
  by (auto simp: find_row_def find_None_iff)

lemma find_row_Nil [simp]: "find_row P [] = None"
  by (simp add: find_row_def)

lemma find_row_Cons [simp]: "find_row P (r # rows) = (if P r then Some r else find_row P rows)"
  by (simp add: find_row_def)

lemma find_row_append:
  "find_row P (xs @ ys) = (case find_row P xs of None \<Rightarrow> find_row P ys | Some r \<Rightarrow> Some r)"
  by (induction xs) simp_all

lemma unique_by_eq:
  assumes "unique_by key rows" "a \<in> set rows" "b \<in> set rows" "key a = key b"
  shows "a = b"
  using assms by (auto simp: distinct_map inj_on_def)

lemma find_row_unique:
  assumes "unique_by key rows" "r \<in> set rows"
  shows "find_row (\<lambda>x. key x = key r) rows = Some r"
proof -
  obtain r' where r': "find_row (\<lambda>x. key x = key r) rows = Some r'"
    using assms(2) find_row_None[of "\<lambda>x. key x = key r" rows] by (cases "find_row (\<lambda>x. key x = key r) rows") auto
  then have "r' \<in> set rows" "key r' = key r" by (auto dest: find_row_Some)
  with assms have "r' = r" by (metis unique_by_eq)
  with r' show ?thesis by simp
qed

lemma update_rows_Nil [simp]: "update_rows P f [] = []"
  by (simp add: update_rows_def)

lemma update_rows_Cons [simp]:
  "update_rows P f (r # rows) = (if P r then f r else r) # update_rows P f rows"
  by (simp add: update_rows_def)

lemma length_update_rows [simp]: "length (update_rows P f rows) = length rows"
  by (simp add: update_rows_def)

lemma set_update_rows:
  "set (update_rows P f rows) = {f r | r. r \<in> set rows \<and> P r} \<union> {r \<in> set rows. \<not> P r}"
  by (auto simp: update_rows_def)

lemma update_rowsE:
  assumes "x \<in> set (update_rows P f rows)"
  obtains r where "r \<in> set rows" "P r" "x = f r" | "x \<in> set rows" "\<not> P x"
  using assms by (auto simp: set_update_rows)

lemma in_update_rows:
  "r \<in> set rows \<Longrightarrow> (if P r then f r else r) \<in> set (update_rows P f rows)"
  by (auto simp: update_rows_def)

lemma map_update_rows:
  "(\<And>r. r \<in> set rows \<Longrightarrow> P r \<Longrightarrow> key (f r) = key r) \<Longrightarrow> map key (update_rows P f rows) = map key rows"
  by (auto simp: update_rows_def)

lemma update_rows_id: "(\<And>r. r \<in> set rows \<Longrightarrow> \<not> P r) \<Longrightarrow> update_rows P f rows = rows"
  by (auto simp: update_rows_def intro: map_idI)

lemma set_delete_rows [simp]: "set (delete_rows P rows) = {r \<in> set rows. \<not> P r}"
  by (auto simp: delete_rows_def)

lemma delete_rows_Nil [simp]: "delete_rows P [] = []"
  by (simp add: delete_rows_def)

lemma delete_rows_Cons [simp]:
  "delete_rows P (r # rows) = (if P r then delete_rows P rows else r # delete_rows P rows)"
  by (simp add: delete_rows_def)

lemma delete_rows_id: "(\<And>r. r \<in> set rows \<Longrightarrow> \<not> P r) \<Longrightarrow> delete_rows P rows = rows"
  by (simp add: delete_rows_def)

lemma unique_delete_rows: "unique_by key rows \<Longrightarrow> unique_by key (delete_rows P rows)"
  by (auto simp: delete_rows_def distinct_map intro: inj_on_subset)

lemma count_rows_Nil [simp]: "count_rows P [] = 0"
  by (simp add: count_rows_def)

lemma count_rows_Cons [simp]: "count_rows P (r # rows) = (if P r then 1 else 0) + count_rows P rows"
  by (simp add: count_rows_def)

lemma count_rows_0: "count_rows P rows = 0 \<longleftrightarrow> (\<forall>r\<in>set rows. \<not> P r)"
  by (auto simp: count_rows_def filter_empty_conv)

lemma count_rows_1D: "count_rows P rows = 1 \<Longrightarrow> \<exists>r\<in>set rows. P r"
  using count_rows_0[of P rows] by fastforce

lemma count_rows_unique:
  assumes "unique_by key rows" "r \<in> set rows" "P r" "\<And>x. P x \<Longrightarrow> key x = key r"
  shows "count_rows P rows = 1"
  using assms(1,2)
proof (induction rows)
  case (Cons x xs)
  show ?case
  proof (cases "x = r")
    case True
    with Cons.prems have "key r \<notin> key ` set xs" by simp
    with assms(4) have "\<forall>y\<in>set xs. \<not> P y" by (metis image_eqI)
    with True assms(3) show ?thesis by (simp add: count_rows_0)
  next
    case False
    with Cons.prems have "r \<in> set xs" "key x \<noteq> key r" by auto
    with Cons assms(4) show ?thesis by auto
  qed
qed simp

lemma update_rows_unique:
  assumes "unique_by key rows" "r \<in> set rows" "P r" "\<And>x. P x \<Longrightarrow> key x = key r"
  shows "update_rows P f rows = update_rows (\<lambda>x. key x = key r) (\<lambda>_. f r) rows"
proof -
  have "(if P x then f x else x) = (if key x = key r then f r else x)" if "x \<in> set rows" for x
  proof (cases "key x = key r")
    case True
    with that assms(1,2) have "x = r" by (metis unique_by_eq)
    with assms(3) show ?thesis by simp
  next
    case False
    then have "\<not> P x" using assms(4) by blast
    with False show ?thesis by simp
  qed
  then show ?thesis by (simp add: update_rows_def)
qed

lemma set_replace_row:
  assumes "unique_by key rows" "r \<in> set rows"
  shows "set (update_rows (\<lambda>x. key x = key r) (\<lambda>_. r') rows) = insert r' (set rows - {r})"
proof -
  have "x \<in> set rows \<Longrightarrow> key x = key r \<longleftrightarrow> x = r" for x
    using assms by (metis unique_by_eq)
  then show ?thesis using assms(2) by (auto simp: set_update_rows)
qed

lemma map_replace_row:
  assumes "unique_by key rows" "r \<in> set rows" "k r' = k r"
  shows "map k (update_rows (\<lambda>x. key x = key r) (\<lambda>_. r') rows) = map k rows"
proof -
  have "x \<in> set rows \<Longrightarrow> key x = key r \<longleftrightarrow> x = r" for x
    using assms by (metis unique_by_eq)
  then show ?thesis using assms(3) by (auto simp: update_rows_def)
qed

lemma count_rows_1_find:
  assumes "unique_by key rows" "count_rows P rows = 1" "\<And>x. P x \<Longrightarrow> key x = k"
  obtains r where "r \<in> set rows" "P r" "find_row (\<lambda>x. key x = k) rows = Some r"
    "update_rows P f rows = update_rows (\<lambda>x. key x = k) (\<lambda>_. f r) rows"
proof -
  from count_rows_1D[OF assms(2)] obtain r where r: "r \<in> set rows" "P r" by blast
  then have k: "key r = k" using assms(3) by blast
  have u: "update_rows P f rows = update_rows (\<lambda>x. key x = key r) (\<lambda>_. f r) rows"
    using update_rows_unique[of key rows r P f] assms(1,3) r k by blast
  show thesis
    using that[OF r] find_row_unique[OF assms(1) r(1)] u k by simp
qed

section \<open>State machines\<close>

inductive reach :: "('s \<Rightarrow> bool) \<Rightarrow> ('s \<Rightarrow> 's \<Rightarrow> bool) \<Rightarrow> 's \<Rightarrow> bool" for init step where
  reach_init: "init s \<Longrightarrow> reach init step s"
| reach_step: "reach init step s \<Longrightarrow> step s t \<Longrightarrow> reach init step t"

lemma rtranclp_reach: "step\<^sup>*\<^sup>* s t \<Longrightarrow> reach init step s \<Longrightarrow> reach init step t"
  by (induction rule: rtranclp_induct) (auto intro: reach_step)

text \<open>
  The contract of a component with state: its initial states satisfy the invariant and every one
  of its steps keeps it. A client then has the invariant in every state it can meet.
\<close>

locale safe_machine =
  fixes init :: "'s \<Rightarrow> bool"
    and step :: "'s \<Rightarrow> 's \<Rightarrow> bool"
    and inv :: "'s \<Rightarrow> bool"
  assumes init_inv: "init s \<Longrightarrow> inv s"
    and step_inv: "inv s \<Longrightarrow> step s t \<Longrightarrow> inv t"
begin

lemma reachable_inv: "reach init step s \<Longrightarrow> inv s"
  by (induction rule: reach.induct) (auto intro: init_inv step_inv)

lemma steps_inv: "step\<^sup>*\<^sup>* s t \<Longrightarrow> inv s \<Longrightarrow> inv t"
  by (induction rule: rtranclp_induct) (auto intro: step_inv)

end

text \<open>
  A machine whose steps never undo something: a preorder on states that every step respects.
\<close>

locale monotone_machine = safe_machine +
  fixes le :: "'a \<Rightarrow> 'a \<Rightarrow> bool"
  assumes le_refl: "le s s"
    and le_trans: "le s t \<Longrightarrow> le t u \<Longrightarrow> le s u"
    and step_le: "inv s \<Longrightarrow> step s t \<Longrightarrow> le s t"
begin

lemma steps_le: "step\<^sup>*\<^sup>* s t \<Longrightarrow> inv s \<Longrightarrow> le s t"
proof (induction rule: rtranclp_induct)
  case base
  show ?case by (rule le_refl)
next
  case (step t u)
  then have "inv t" by (auto intro: steps_inv)
  with step show ?case by (auto intro: le_trans step_le)
qed

end

section \<open>Codecs\<close>

text \<open>
  The contract of a parser and the serialiser beside it: everything the serialiser writes for a
  valid value is read back as that value, and everything the parser accepts is valid. It gives the
  facts the stores rely on: a parsed value can be stored as text and read again, and two valid
  values with the same text are equal.
\<close>

locale codec =
  fixes encode :: "'a \<Rightarrow> 'w"
    and decode :: "'w \<Rightarrow> 'a option"
    and valid :: "'a \<Rightarrow> bool"
  assumes decode_encode: "valid x \<Longrightarrow> decode (encode x) = Some x"
    and decode_valid: "decode w = Some x \<Longrightarrow> valid x"
begin

lemma reparse: "decode w = Some x \<Longrightarrow> decode (encode x) = Some x"
  by (blast intro: decode_encode decode_valid)

lemma encode_inj: "valid x \<Longrightarrow> valid y \<Longrightarrow> encode x = encode y \<Longrightarrow> x = y"
  by (metis decode_encode option.inject)

lemma valid_iff: "valid x \<longleftrightarrow> decode (encode x) = Some x"
  by (blast intro: decode_encode decode_valid)

end

end
