(* ===== verification/Js_Regex.thy ===== *)
theory Js_Regex
  imports Prelude
begin

text \<open>
  The anchored regular expressions of the source. Every pattern literal \<open>/^...$/\<close> that a
  parser tests a field with is a term of \<open>rexp\<close>; \<open>matches\<close> decides it by
  derivatives, and \<open>matches_lang\<close> shows that it accepts exactly the language of the
  pattern. The component theories use the patterns at the end of this theory, and the
  characterisations of the simple ones to compare patterns with each other.
  A string is a list of 8-bit code units; all the patterns are about ASCII.
\<close>

datatype rexp =
    Empty
  | Eps
  | Cls "char \<Rightarrow> bool"
  | Seq rexp rexp
  | Alt rexp rexp
  | Star rexp
  | Rep rexp nat nat  \<comment> \<open>\<open>r{m,n}\<close>\<close>

section \<open>Languages\<close>

definition conc :: "string set \<Rightarrow> string set \<Rightarrow> string set" where
  "conc A B = {u @ v | u v. u \<in> A \<and> v \<in> B}"

fun lpow :: "string set \<Rightarrow> nat \<Rightarrow> string set" where
  "lpow A 0 = {[]}"
| "lpow A (Suc n) = conc A (lpow A n)"

fun lang :: "rexp \<Rightarrow> string set" where
  "lang Empty = {}"
| "lang Eps = {[]}"
| "lang (Cls P) = {[c] | c. P c}"
| "lang (Seq r s) = conc (lang r) (lang s)"
| "lang (Alt r s) = lang r \<union> lang s"
| "lang (Star r) = (\<Union>n. lpow (lang r) n)"
| "lang (Rep r m n) = (\<Union>k\<in>{m..n}. lpow (lang r) k)"

lemma concI: "u \<in> A \<Longrightarrow> v \<in> B \<Longrightarrow> u @ v \<in> conc A B"
  by (auto simp: conc_def)

lemma concE: "w \<in> conc A B \<Longrightarrow> (\<And>u v. w = u @ v \<Longrightarrow> u \<in> A \<Longrightarrow> v \<in> B \<Longrightarrow> thesis) \<Longrightarrow> thesis"
  by (auto simp: conc_def)

lemma Nil_conc [simp]: "[] \<in> conc A B \<longleftrightarrow> [] \<in> A \<and> [] \<in> B"
  by (auto simp: conc_def)

lemma conc_class: "w \<in> conc {[c] | c. P c} B \<longleftrightarrow> (\<exists>c v. w = c # v \<and> P c \<and> v \<in> B)"
proof
  assume "\<exists>c v. w = c # v \<and> P c \<and> v \<in> B"
  then obtain c v where w: "w = [c] @ v" "P c" "v \<in> B" by auto
  then show "w \<in> conc {[c] | c. P c} B" unfolding w(1) by (intro concI) auto
qed (auto simp: conc_def)

lemma Nil_lpow: "[] \<in> lpow A n \<longleftrightarrow> n = 0 \<or> [] \<in> A"
  by (induction n) auto

lemma lpow_pad: "[] \<in> A \<Longrightarrow> w \<in> lpow A k \<Longrightarrow> k \<le> n \<Longrightarrow> w \<in> lpow A n"
proof (induction n arbitrary: k)
  case (Suc n)
  show ?case
  proof (cases "k = Suc n")
    case False
    with Suc have "w \<in> lpow A n" by (meson le_SucE)
    then show ?thesis using concI[OF Suc.prems(1)] by force
  qed (use Suc in simp)
qed simp

section \<open>The matcher\<close>

fun nullable :: "rexp \<Rightarrow> bool" where
  "nullable Empty = False"
| "nullable Eps = True"
| "nullable (Cls P) = False"
| "nullable (Seq r s) = (nullable r \<and> nullable s)"
| "nullable (Alt r s) = (nullable r \<or> nullable s)"
| "nullable (Star r) = True"
| "nullable (Rep r m n) = (m \<le> n \<and> (m = 0 \<or> nullable r))"

fun seq :: "rexp \<Rightarrow> rexp \<Rightarrow> rexp" where
  "seq Empty s = Empty"
| "seq Eps s = s"
| "seq r s = Seq r s"

fun alt :: "rexp \<Rightarrow> rexp \<Rightarrow> rexp" where
  "alt Empty s = s"
| "alt r Empty = r"
| "alt r s = Alt r s"

fun deriv :: "char \<Rightarrow> rexp \<Rightarrow> rexp" where
  "deriv c Empty = Empty"
| "deriv c Eps = Empty"
| "deriv c (Cls P) = (if P c then Eps else Empty)"
| "deriv c (Seq r s) =
     (if nullable r then alt (seq (deriv c r) s) (deriv c s) else seq (deriv c r) s)"
| "deriv c (Alt r s) = alt (deriv c r) (deriv c s)"
| "deriv c (Star r) = seq (deriv c r) (Star r)"
| "deriv c (Rep r m n) =
     (if n = 0 \<or> n < m then Empty else seq (deriv c r) (Rep r (m - 1) (n - 1)))"

fun matches :: "rexp \<Rightarrow> string \<Rightarrow> bool" where
  "matches r [] = nullable r"
| "matches r (c # s) = matches (deriv c r) s"

lemma lang_seq [simp]: "lang (seq r s) = conc (lang r) (lang s)"
  by (cases "(r, s)" rule: seq.cases) (auto simp: conc_def)

lemma lang_alt [simp]: "lang (alt r s) = lang r \<union> lang s"
  by (cases "(r, s)" rule: alt.cases) auto

lemma nullable_lang: "nullable r \<longleftrightarrow> [] \<in> lang r"
  by (induction r) (auto simp: Nil_lpow intro: exI[of _ 0])

lemma Cons_conc:
  "c # w \<in> conc A B \<longleftrightarrow> w \<in> conc {v. c # v \<in> A} B \<or> ([] \<in> A \<and> c # w \<in> B)"
  unfolding conc_def by (auto simp: Cons_eq_append_conv)

lemma Cons_lpow:
  "c # w \<in> lpow A n \<Longrightarrow> \<exists>k. k < n \<and> w \<in> conc {v. c # v \<in> A} (lpow A k) \<and> (k = n - 1 \<or> [] \<in> A)"
proof (induction n)
  case (Suc n)
  from Suc.prems have "w \<in> conc {v. c # v \<in> A} (lpow A n) \<or> ([] \<in> A \<and> c # w \<in> lpow A n)"
    by (simp add: Cons_conc)
  then show ?case
  proof
    assume "w \<in> conc {v. c # v \<in> A} (lpow A n)"
    then show ?thesis by (intro exI[of _ n]) simp
  next
    assume "[] \<in> A \<and> c # w \<in> lpow A n"
    with Suc.IH show ?thesis by (metis less_SucI)
  qed
qed simp

lemma lpow_SucI: "w \<in> conc {v. c # v \<in> A} (lpow A k) \<Longrightarrow> c # w \<in> lpow A (Suc k)"
  by (simp add: Cons_conc)

lemma Cons_lang_Rep:
  "c # w \<in> lang (Rep r m n) \<longleftrightarrow>
     n \<noteq> 0 \<and> m \<le> n \<and> w \<in> conc {v. c # v \<in> lang r} (lang (Rep r (m - 1) (n - 1)))"
  (is "?L \<longleftrightarrow> ?R")
proof
  assume ?L
  then obtain k where k: "k \<in> {m..n}" "c # w \<in> lpow (lang r) k" by auto
  from Cons_lpow[OF k(2)] obtain j where j: "j < k"
      "w \<in> conc {v. c # v \<in> lang r} (lpow (lang r) j)" "j = k - 1 \<or> [] \<in> lang r"
    by blast
  from j(2) obtain u v where uv: "w = u @ v" "c # u \<in> lang r" "v \<in> lpow (lang r) j"
    by (auto simp: conc_def)
  define i where "i = max j (m - 1)"
  have "v \<in> lpow (lang r) i"
  proof (cases "j = k - 1")
    case True
    then have "i = j" using k(1) by (auto simp: i_def)
    with uv show ?thesis by simp
  next
    case False
    with j(3) have "[] \<in> lang r" by simp
    with uv(3) show ?thesis by (auto simp: i_def intro: lpow_pad)
  qed
  moreover have "i \<in> {m - 1..n - 1}" using k(1) j(1) by (auto simp: i_def)
  ultimately have "v \<in> lang (Rep r (m - 1) (n - 1))" by auto
  with uv(1,2) have "w \<in> conc {v. c # v \<in> lang r} (lang (Rep r (m - 1) (n - 1)))"
    by (auto simp del: lang.simps intro: concI)
  then show ?R using k(1) j(1) by auto
next
  assume R: ?R
  then obtain k where k: "k \<in> {m - 1..n - 1}" "w \<in> conc {v. c # v \<in> lang r} (lpow (lang r) k)"
    by (auto simp: conc_def) blast
  from lpow_SucI[OF k(2)] have "c # w \<in> lpow (lang r) (Suc k)" .
  moreover have "Suc k \<in> {m..n}" using k(1) R by auto
  ultimately show ?L unfolding lang.simps UN_iff by blast
qed

lemma deriv_lang: "w \<in> lang (deriv c r) \<longleftrightarrow> c # w \<in> lang r"
proof (induction r arbitrary: w)
  case (Seq r s)
  have "{v. c # v \<in> lang r} = lang (deriv c r)" using Seq.IH(1) by auto
  with Seq.IH(2) show ?case by (auto simp: Cons_conc nullable_lang)
next
  case (Star r)
  have eq: "{v. c # v \<in> lang r} = lang (deriv c r)" using Star.IH by auto
  show ?case
  proof
    assume "w \<in> lang (deriv c (Star r))"
    then obtain n where "w \<in> conc {v. c # v \<in> lang r} (lpow (lang r) n)"
      by (auto simp: conc_def eq[symmetric])
    then have "c # w \<in> lpow (lang r) (Suc n)" by (rule lpow_SucI)
    then show "c # w \<in> lang (Star r)" by (auto simp del: lpow.simps)
  next
    assume "c # w \<in> lang (Star r)"
    then obtain n where "c # w \<in> lpow (lang r) n" by auto
    from Cons_lpow[OF this] show "w \<in> lang (deriv c (Star r))"
      by (auto simp: eq conc_def)
  qed
next
  case (Rep r m n)
  have "{v. c # v \<in> lang r} = lang (deriv c r)" using Rep.IH by auto
  then show ?case using Cons_lang_Rep[of c w r m n] by (auto simp del: lang.simps(7))
qed auto

theorem matches_lang: "matches r s \<longleftrightarrow> s \<in> lang r"
  by (induction s arbitrary: r) (simp_all add: nullable_lang deriv_lang)

section \<open>Shapes that occur often\<close>

lemma lpow_Cls: "s \<in> lpow {[c] | c. P c} n \<longleftrightarrow> length s = n \<and> list_all P s"
proof (induction n arbitrary: s)
  case (Suc n)
  show ?case
  proof (cases s)
    case (Cons c w)
    then show ?thesis using Suc.IH[of w] by (auto simp: conc_class)
  qed simp
qed auto

lemma matches_class: "matches (Rep (Cls P) m n) s \<longleftrightarrow> m \<le> length s \<and> length s \<le> n \<and> list_all P s"
  by (auto simp: matches_lang lpow_Cls)

lemma matches_Seq_Cls: "matches (Seq (Cls P) r) s \<longleftrightarrow> (\<exists>c w. s = c # w \<and> P c \<and> matches r w)"
  by (auto simp: matches_lang conc_class)

lemma matches_Cls: "matches (Cls P) s \<longleftrightarrow> (\<exists>c. s = [c] \<and> P c)"
  by (auto simp: matches_lang)

lemma matches_Empty [simp]: "\<not> matches Empty s"
  by (simp add: matches_lang)

lemma matches_Seq: "matches (Seq r q) s \<longleftrightarrow> (\<exists>u v. s = u @ v \<and> matches r u \<and> matches q v)"
  by (auto simp: matches_lang conc_def)

lemma matches_Alt: "matches (Alt r q) s \<longleftrightarrow> matches r s \<or> matches q s"
  by (auto simp: matches_lang)

text \<open>\<open>r?\<close>, \<open>r+\<close>, \<open>r{n}\<close> and a literal.\<close>

abbreviation opt_rexp :: "rexp \<Rightarrow> rexp" where
  "opt_rexp r \<equiv> Alt Eps r"

abbreviation plus_rexp :: "rexp \<Rightarrow> rexp" where
  "plus_rexp r \<equiv> Seq r (Star r)"

fun lit :: "string \<Rightarrow> rexp" where
  "lit [] = Eps"
| "lit (c # cs) = Seq (Cls (\<lambda>d. d = c)) (lit cs)"

lemma matches_lit: "matches (lit s) t \<longleftrightarrow> t = s"
  by (induction s arbitrary: t) (auto simp: matches_lang conc_def)

section \<open>Character classes\<close>

definition lower :: "char \<Rightarrow> bool" where
  "lower c = (CHR ''a'' \<le> c \<and> c \<le> CHR ''z'')"

definition upper :: "char \<Rightarrow> bool" where
  "upper c = (CHR ''A'' \<le> c \<and> c \<le> CHR ''Z'')"

definition digit :: "char \<Rightarrow> bool" where
  "digit c = (CHR ''0'' \<le> c \<and> c \<le> CHR ''9'')"

definition hex_digit :: "char \<Rightarrow> bool" where
  "hex_digit c = (digit c \<or> (CHR ''a'' \<le> c \<and> c \<le> CHR ''f''))"

definition alnum :: "char \<Rightarrow> bool" where
  "alnum c = (lower c \<or> upper c \<or> digit c)"

definition lower_digit :: "char \<Rightarrow> bool" where
  "lower_digit c = (lower c \<or> digit c)"

definition punct3 :: "char \<Rightarrow> bool" where
  "punct3 c = (c = CHR ''.'' \<or> c = CHR ''_'' \<or> c = CHR ''-'')"

lemmas class_defs = lower_def upper_def digit_def hex_digit_def alnum_def lower_digit_def punct3_def

lemma hex_digit_alnum: "hex_digit c \<Longrightarrow> lower_digit c"
proof -
  have "CHR ''f'' \<le> CHR ''z''" by (simp add: less_eq_char_def)
  then show "hex_digit c \<Longrightarrow> lower_digit c"
    by (auto simp: class_defs intro: order_trans)
qed

section \<open>The patterns of the source\<close>

text \<open>\<open>/^[0-9a-f]{8}-[0-9a-f]{4}-4[0-9a-f]{3}-[89ab][0-9a-f]{3}-[0-9a-f]{12}$/\<close>\<close>

definition uuidPattern :: rexp where
  "uuidPattern = Seq (Rep (Cls hex_digit) 8 8) (Seq (Cls (\<lambda>c. c = CHR ''-''))
     (Seq (Rep (Cls hex_digit) 4 4) (Seq (Cls (\<lambda>c. c = CHR ''-'')) (Seq (Cls (\<lambda>c. c = CHR ''4''))
     (Seq (Rep (Cls hex_digit) 3 3) (Seq (Cls (\<lambda>c. c = CHR ''-''))
     (Seq (Cls (\<lambda>c. c \<in> set ''89ab'')) (Seq (Rep (Cls hex_digit) 3 3)
     (Seq (Cls (\<lambda>c. c = CHR ''-'')) (Rep (Cls hex_digit) 12 12))))))))))"

text \<open>\<open>/^sha256:[0-9a-f]{64}$/\<close>\<close>

definition digestPattern :: rexp where
  "digestPattern = Seq (lit ''sha256:'') (Rep (Cls hex_digit) 64 64)"

text \<open>\<open>/^[0-9a-f]{64}$/\<close> and \<open>/^(?:[0-9a-f]{40}|[0-9a-f]{64})$/\<close>\<close>

definition hex64Pattern :: rexp where
  "hex64Pattern = Rep (Cls hex_digit) 64 64"

definition objectIdPattern :: rexp where
  "objectIdPattern = Alt (Rep (Cls hex_digit) 40 40) (Rep (Cls hex_digit) 64 64)"

text \<open>\<open>/^[a-z0-9][a-z0-9._-]{0,127}$/\<close>\<close>

definition identifierPattern :: rexp where
  "identifierPattern = Seq (Cls lower_digit) (Rep (Cls (\<lambda>c. lower_digit c \<or> punct3 c)) 0 127)"

text \<open>\<open>/^[a-z][a-z0-9-]{0,62}$/\<close>\<close>

definition namePattern :: rexp where
  "namePattern = Seq (Cls lower) (Rep (Cls (\<lambda>c. lower_digit c \<or> c = CHR ''-'')) 0 62)"

text \<open>\<open>/^[A-Za-z0-9][A-Za-z0-9._-]{0,127}$/\<close>\<close>

definition generationPattern :: rexp where
  "generationPattern = Seq (Cls alnum) (Rep (Cls (\<lambda>c. alnum c \<or> punct3 c)) 0 127)"

text \<open>\<open>/^[A-Za-z0-9](?:[A-Za-z0-9._-]{0,126}[A-Za-z0-9])?$/\<close>\<close>

definition revisionPattern :: rexp where
  "revisionPattern = Seq (Cls alnum)
     (opt_rexp (Seq (Rep (Cls (\<lambda>c. alnum c \<or> punct3 c)) 0 126) (Cls alnum)))"

text \<open>\<open>/^[1-9][0-9]*$/\<close> and \<open>/^(?:0|[1-9][0-9]*)$/\<close>\<close>

definition decimalPattern :: rexp where
  "decimalPattern = Seq (Cls (\<lambda>c. digit c \<and> c \<noteq> CHR ''0'')) (Star (Cls digit))"

definition naturalPattern :: rexp where
  "naturalPattern = Alt (lit ''0'') decimalPattern"

text \<open>The pinned image reference: an optional registry host and port, a repository path, a digest.\<close>

definition imagePattern :: rexp where
  "imagePattern =
    (let word = plus_rexp (Cls lower_digit);
         host = Seq word (Star (Seq (Cls (\<lambda>c. c = CHR ''.'' \<or> c = CHR ''-'')) word));
         part = Seq word (Star (Seq (Cls punct3) word))
     in Seq (opt_rexp (Seq host (Seq (opt_rexp (Seq (lit '':'') (plus_rexp (Cls digit)))) (lit ''/''))))
        (Seq part (Seq (Star (Seq (lit ''/'') part))
        (Seq (lit ''@sha256:'') (Rep (Cls hex_digit) 64 64)))))"

text \<open>\<open>/^\d{4}-\d{2}-\d{2}T\d{2}:\d{2}:\d{2}\.\d{3}Z$/\<close>\<close>

definition timestampPattern :: rexp where
  "timestampPattern = Seq (Rep (Cls digit) 4 4) (Seq (lit ''-'') (Seq (Rep (Cls digit) 2 2)
     (Seq (lit ''-'') (Seq (Rep (Cls digit) 2 2) (Seq (lit ''T'') (Seq (Rep (Cls digit) 2 2)
     (Seq (lit '':'') (Seq (Rep (Cls digit) 2 2) (Seq (lit '':'') (Seq (Rep (Cls digit) 2 2)
     (Seq (lit ''.'') (Seq (Rep (Cls digit) 3 3) (lit ''Z'')))))))))))))"

lemmas pattern_defs = uuidPattern_def digestPattern_def hex64Pattern_def objectIdPattern_def
  identifierPattern_def namePattern_def generationPattern_def revisionPattern_def
  decimalPattern_def naturalPattern_def imagePattern_def timestampPattern_def

section \<open>Inclusions between patterns\<close>

lemma matches_head_class:
  "matches (Seq (Cls P) (Rep (Cls Q) 0 n)) s \<longleftrightarrow>
     s \<noteq> [] \<and> P (hd s) \<and> length (tl s) \<le> n \<and> list_all Q (tl s)"
  by (cases s) (auto simp: matches_Seq_Cls matches_class)

text \<open>An eligibility generation is a UUID the scheduler drew, and its stored form is read back with
  the wider generation pattern.\<close>

lemma uuid_generation: "matches uuidPattern s \<Longrightarrow> matches generationPattern s"
proof -
  have c: "hex_digit c \<Longrightarrow> alnum c" "c \<in> set ''89ab'' \<Longrightarrow> alnum c" for c
    using hex_digit_alnum[of c] by (auto simp: class_defs less_eq_char_def)
  have d: "alnum CHR ''4''" by (simp add: class_defs less_eq_char_def)
  assume "matches uuidPattern s"
  then obtain a b e f g x where s: "s = a @ CHR ''-'' # b @ CHR ''-'' # CHR ''4'' # e @ CHR ''-'' # x # f @ CHR ''-'' # g"
    and l: "length a = 8" "length b = 4" "length e = 3" "length f = 3" "length g = 12"
    and h: "list_all hex_digit a" "list_all hex_digit b" "list_all hex_digit e" "list_all hex_digit f"
      "list_all hex_digit g" "x \<in> set ''89ab''"
    unfolding uuidPattern_def
    by (simp only: matches_Seq matches_Cls matches_class) (elim exE conjE, simp)
  obtain a0 a' where a: "a = a0 # a'" using l(1) by (cases a) auto
  have m: "list_all hex_digit u \<Longrightarrow> list_all (\<lambda>c. alnum c \<or> punct3 c) u" for u
    using c(1) by (auto simp: list_all_iff)
  have "alnum a0" "list_all (\<lambda>c. alnum c \<or> punct3 c) a'" using h(1) a c(1) m by auto
  then show ?thesis
    using l h c(2) d m[OF h(2)] m[OF h(3)] m[OF h(4)] m[OF h(5)]
    unfolding generationPattern_def matches_head_class by (auto simp: s a punct3_def)
qed

lemma name_identifier: "matches namePattern s \<Longrightarrow> matches identifierPattern s"
  unfolding namePattern_def identifierPattern_def matches_head_class
  by (auto simp: lower_digit_def punct3_def list_all_iff)

text \<open>Patterns are applied to literals by evaluation or through the lemmas above, never by rewriting
  one character at a time.\<close>

declare matches.simps [simp del]

end
