(* ===== verification/Js_Json.thy ===== *)
theory Js_Json
  imports Js_Regex
begin

text \<open>
  JavaScript values as \<open>JSON.parse\<close> returns them and the reads the source makes of them.
  A column or file that holds \<open>JSON.stringify(v)\<close> is modelled by the value \<open>v\<close> itself with
  its members in the order they were written: two texts are equal exactly when these values are,
  so a comparison of texts is a comparison of values, and \<open>JSON.parse\<close> gives the value back.
  The members of an object have distinct names; \<open>deep_eq\<close> is \<open>isDeepStrictEqual\<close>, which
  does not look at their order. A number is an integer or a number that is none (\<open>JFrac\<close>).
\<close>

datatype json =
    JNull
  | JBool bool
  | JInt int
  | JFrac string
  | JStr string
  | JArr "json list"
  | JObj "(string \<times> json) list"

fun is_record :: "json \<Rightarrow> bool" where
  "is_record (JObj ms) = True"
| "is_record _ = False"

fun members :: "json \<Rightarrow> (string \<times> json) list" where
  "members (JObj ms) = ms"
| "members _ = []"

definition object_keys :: "json \<Rightarrow> string list" where
  "object_keys v = remdups (map fst (members v))"

definition get_field :: "json \<Rightarrow> string \<Rightarrow> json option" where
  "get_field v k = map_of (members v) k"

definition has_own :: "json \<Rightarrow> string \<Rightarrow> bool" where
  "has_own v k = (get_field v k \<noteq> None)"

text \<open>\<open>exact(value, fields)\<close>: a record with exactly the given members.\<close>

definition exact_keys :: "json \<Rightarrow> string list \<Rightarrow> bool" where
  "exact_keys v fields \<longleftrightarrow> length (object_keys v) = length fields \<and> list_all (has_own v) fields"

definition exact :: "json \<Rightarrow> string list \<Rightarrow> bool" where
  "exact v fields \<longleftrightarrow> is_record v \<and> exact_keys v fields"

definition safe_integer :: "int \<Rightarrow> bool" where
  "safe_integer i \<longleftrightarrow> \<bar>i\<bar> \<le> 9007199254740991"

fun as_string :: "json option \<Rightarrow> string option" where
  "as_string (Some (JStr s)) = Some s"
| "as_string _ = None"

fun as_int :: "json option \<Rightarrow> int option" where
  "as_int (Some (JInt i)) = (if safe_integer i then Some i else None)"
| "as_int _ = None"

fun as_array :: "json option \<Rightarrow> json list option" where
  "as_array (Some (JArr vs)) = Some vs"
| "as_array _ = None"

fun as_bool :: "json option \<Rightarrow> bool option" where
  "as_bool (Some (JBool b)) = Some b"
| "as_bool _ = None"

fun as_record :: "json option \<Rightarrow> json option" where
  "as_record (Some (JObj ms)) = Some (JObj ms)"
| "as_record _ = None"

definition as_matching :: "rexp \<Rightarrow> json option \<Rightarrow> string option" where
  "as_matching p v = do { s \<leftarrow> as_string v; guardO (matches p s); Some s }"

definition as_literal :: "json \<Rightarrow> json option \<Rightarrow> unit option" where
  "as_literal w v = guardO (v = Some w)"

section \<open>Reads of an object literal\<close>

lemma as_string_eq [simp]: "as_string v = Some s \<longleftrightarrow> v = Some (JStr s)"
  by (cases v rule: as_string.cases) auto

lemma as_int_eq [simp]: "as_int v = Some i \<longleftrightarrow> v = Some (JInt i) \<and> safe_integer i"
  by (cases v rule: as_int.cases) auto

lemma as_array_eq [simp]: "as_array v = Some vs \<longleftrightarrow> v = Some (JArr vs)"
  by (cases v rule: as_array.cases) auto

lemma as_bool_eq [simp]: "as_bool v = Some b \<longleftrightarrow> v = Some (JBool b)"
  by (cases v rule: as_bool.cases) auto

lemma as_record_eq [simp]: "as_record v = Some w \<longleftrightarrow> v = Some w \<and> is_record w"
  by (cases v rule: as_record.cases; cases w) auto

lemma as_matching_eq [simp]: "as_matching p v = Some s \<longleftrightarrow> v = Some (JStr s) \<and> matches p s"
  by (auto simp: as_matching_def bind_eq_Some_conv)

lemma as_literal_eq [simp]: "as_literal w v = Some u \<longleftrightarrow> v = Some w"
  by (simp add: as_literal_def)

lemma get_field_JObj [simp]: "get_field (JObj ms) k = map_of ms k"
  by (simp add: get_field_def)

lemma object_keys_JObj [simp]: "object_keys (JObj ms) = remdups (map fst ms)"
  by (simp add: object_keys_def)

lemma exact_JObj: "distinct (map fst ms) \<Longrightarrow> exact (JObj ms) (map fst ms)"
  by (auto simp: exact_def exact_keys_def has_own_def list_all_iff distinct_remdups_id map_of_eq_None_iff
      remdups_id_iff_distinct simp del: remdups_map_remdups)

section \<open>Strings\<close>

definition startsWith :: "string \<Rightarrow> string \<Rightarrow> bool" where
  "startsWith p s \<longleftrightarrow> take (length p) s = p"

definition endsWith :: "string \<Rightarrow> string \<Rightarrow> bool" where
  "endsWith p s \<longleftrightarrow> length p \<le> length s \<and> drop (length s - length p) s = p"

fun str_includes :: "string \<Rightarrow> string \<Rightarrow> bool" where
  "str_includes p [] = (p = [])"
| "str_includes p (c # cs) = (startsWith p (c # cs) \<or> str_includes p cs)"

fun split_on :: "char \<Rightarrow> string \<Rightarrow> string list" where
  "split_on d [] = [[]]"
| "split_on d (c # cs) =
     (if c = d then [] # split_on d cs
      else (case split_on d cs of [] \<Rightarrow> [[c]] | p # ps \<Rightarrow> (c # p) # ps))"

text \<open>\<open>String(n)\<close> of a natural number, and the number a decimal text denotes.\<close>

fun dec :: "nat \<Rightarrow> string" where
  "dec n = (if n < 10 then [char_of (48 + n)] else dec (n div 10) @ [char_of (48 + n mod 10)])"

declare dec.simps [simp del]

definition undec :: "string \<Rightarrow> nat" where
  "undec s = foldl (\<lambda>a c. 10 * a + (of_char c - 48)) 0 s"

lemma undec_snoc: "undec (s @ [c]) = 10 * undec s + (of_char c - 48)"
  by (simp add: undec_def)

lemma undec_dec: "undec (dec n) = n"
proof (induction n rule: dec.induct)
  case (1 n)
  show ?case
  proof (cases "n < 10")
    case True
    then show ?thesis by (simp add: dec.simps[of n] undec_def)
  next
    case False
    with 1 have "undec (dec (n div 10)) = n div 10" by simp
    with False show ?thesis by (simp add: dec.simps[of n] undec_snoc)
  qed
qed

lemma dec_inject: "dec m = dec n \<longleftrightarrow> m = n"
  by (metis undec_dec)

lemma dec_digits: "list_all digit (dec n)"
proof (induction n rule: dec.induct)
  case (1 n)
  have d: "k < 10 \<Longrightarrow> digit (char_of (48 + k :: nat))" for k
    by (simp add: digit_def less_eq_char_def)
  with 1 show ?case by (simp add: dec.simps[of n])
qed

text \<open>A sequence of fields, each written as its length, a colon and its bytes. Reading it back
  needs no separator that a field could contain: the encoding is injective.\<close>

definition netstring :: "string \<Rightarrow> string" where
  "netstring f = dec (length f) @ '':'' @ f"

lemma takeWhile_dec: "takeWhile digit (dec n @ CHR '':'' # w) = dec n"
proof -
  have "\<not> digit CHR '':''" by (simp add: digit_def less_eq_char_def)
  then show ?thesis using dec_digits[of n]
    by (simp add: takeWhile_append2 list_all_iff takeWhile_append)
qed

lemma netstring_append_inject:
  assumes "netstring f @ u = netstring g @ v"
  shows "f = g \<and> u = v"
proof -
  from assms have e: "dec (length f) @ CHR '':'' # f @ u = dec (length g) @ CHR '':'' # g @ v"
    by (simp add: netstring_def)
  then have "dec (length f) = dec (length g)" by (metis takeWhile_dec)
  then have "length f = length g" by (simp add: dec_inject)
  with e show ?thesis by simp
qed

lemma netstrings_inject:
  "concat (map netstring fs) = concat (map netstring gs) \<Longrightarrow> fs = gs"
proof (induction fs arbitrary: gs)
  case Nil
  then show ?case by (cases gs) (auto simp: netstring_def)
next
  case (Cons f fs)
  then obtain g gs' where gs: "gs = g # gs'" by (cases gs) (auto simp: netstring_def)
  with Cons.prems have "netstring f @ concat (map netstring fs) = netstring g @ concat (map netstring gs')"
    by simp
  then have "f = g \<and> concat (map netstring fs) = concat (map netstring gs')"
    by (rule netstring_append_inject)
  with Cons.IH gs show ?case by blast
qed

section \<open>\<open>isDeepStrictEqual\<close>\<close>

fun deep_eq :: "json \<Rightarrow> json \<Rightarrow> bool" where
  "deep_eq JNull w = (w = JNull)"
| "deep_eq (JBool b) w = (w = JBool b)"
| "deep_eq (JInt i) w = (w = JInt i)"
| "deep_eq (JFrac s) w = (w = JFrac s)"
| "deep_eq (JStr s) w = (w = JStr s)"
| "deep_eq (JArr vs) w = (case w of JArr ws \<Rightarrow> list_all2 deep_eq vs ws | _ \<Rightarrow> False)"
| "deep_eq (JObj ms) w = (case w of
     JObj ns \<Rightarrow> set (map fst ms) = set (map fst ns)
       \<and> list_all (\<lambda>m. case map_of ns (fst m) of None \<Rightarrow> False | Some w \<Rightarrow> deep_eq (snd m) w) ms
   | _ \<Rightarrow> False)"

fun json_wf :: "json \<Rightarrow> bool" where
  "json_wf (JArr vs) = list_all json_wf vs"
| "json_wf (JObj ms) = (distinct (map fst ms) \<and> list_all (\<lambda>m. json_wf (snd m)) ms)"
| "json_wf _ = True"

lemma deep_eq_refl: "json_wf v \<Longrightarrow> deep_eq v v"
proof (induction v)
  case (JArr vs)
  then show ?case by (auto simp: list_all_iff list.rel_refl_strong)
next
  case (JObj ms)
  have "deep_eq (snd m) (snd m)" if "m \<in> set ms" for m
    using JObj.IH[of m "snd m"] JObj.prems that by (cases m) (auto simp: list_all_iff)
  then show ?case using JObj.prems by (auto simp: list_all_iff)
qed auto

section \<open>The run-time library\<close>

text \<open>What the source calls of Node.js and that is not computed here: the hexadecimal SHA-256
  digest of a text, \<open>Date.parse\<close>, with \<open>None\<close> for NaN, and \<open>new URL(s)\<close>, with \<open>None\<close>
  where the constructor throws.\<close>

record url =
  url_protocol :: string
  url_origin :: string
  url_username :: string
  url_password :: string
  url_hostname :: string
  url_pathname :: string
  url_search :: string
  url_hash :: string

record runtime =
  sha256 :: "string \<Rightarrow> string"
  date_parse :: "string \<Rightarrow> int option"
  parse_url :: "string \<Rightarrow> url option"

end
