(* ===== verification/Qemu_Event.thy ===== *)
theory Qemu_Event
  imports Js_Json
begin

text \<open>
  The wire values of the QEMU scheduler: the review event that announces a job
  (\<open>nativeQemuReviewEvent.ts\<close>), the terminal event a host reports
  (\<open>nativeQemuTerminalEvent.ts\<close>), and the completion and attempt records of the scheduler
  database (\<open>nativeQemuSchedulerRows.ts\<close>). A parser that throws is \<^term>\<open>None\<close>: each
  source module has one error class for everything it refuses. Beside each parser stands the
  member list of the record it returns, which is what \<open>JSON.stringify\<close> writes, and the
  \<^term>\<open>codec\<close> contract is proved for the pair.
\<close>

section \<open>Review events\<close>

record NativeQemuReviewEvent =
  ev_schemaVersion :: int
  ev_type :: string
  ev_eventId :: string
  ev_projectId :: string
  ev_repositoryId :: string
  ev_protectedRef :: string
  ev_reviewId :: string
  ev_envelopeId :: string
  ev_expectedProtectedHead :: string
  ev_candidateCommit :: string
  ev_candidateTree :: string
  ev_policyRevision :: string
  ev_requiredReviewRevision :: string
  ev_qualityRevision :: string
  ev_executionKind :: string
  ev_jobName :: string
  ev_evidenceClass :: string

definition eventFields :: "string list" where
  "eventFields = [''schemaVersion'', ''type'', ''eventId'', ''projectId'', ''repositoryId'',
     ''protectedRef'', ''reviewId'', ''envelopeId'', ''expectedProtectedHead'', ''candidateCommit'',
     ''candidateTree'', ''policyRevision'', ''requiredReviewRevision'', ''qualityRevision'',
     ''executionKind'', ''jobName'', ''evidenceClass'']"

text \<open>The characters \<open>/[\x00-\x20\x7f~^:?*[\]]/\<close> that a head ref may not contain.\<close>

definition ref_forbidden :: "char \<Rightarrow> bool" where
  "ref_forbidden c \<longleftrightarrow> c \<le> CHR 0x20 \<or> c = CHR 0x7F \<or> c \<in> set ''~^:?*[]''"

definition head_ref_ok :: "string \<Rightarrow> bool" where
  "head_ref_ok v \<longleftrightarrow> length v \<le> 1024 \<and> startsWith ''refs/heads/'' v
     \<and> \<not> endsWith ''/'' v \<and> \<not> endsWith ''.'' v \<and> \<not> endsWith ''.lock'' v \<and> \<not> str_includes ''..'' v
     \<and> \<not> str_includes [CHR ''@'', CHR ''{''] v \<and> \<not> str_includes [CHR 0x5C] v \<and> \<not> list_ex ref_forbidden v
     \<and> list_all (\<lambda>part. length part > 0 \<and> \<not> startsWith ''.'' part)
         (split_on CHR ''/'' (drop (length ''refs/heads/'') v))"

definition headRef :: "json option \<Rightarrow> string option" where
  "headRef v = do { s \<leftarrow> as_string v; guardO (head_ref_ok s); Some s }"

lemma headRef_eq [simp]: "headRef v = Some s \<longleftrightarrow> v = Some (JStr s) \<and> head_ref_ok s"
  by (auto simp: headRef_def bind_eq_Some_conv)

text \<open>\<open>JSON.stringify\<close> of a string without characters that need an escape.\<close>

definition quoted :: "string \<Rightarrow> string" where
  "quoted s = CHR 0x22 # s @ [CHR 0x22]"

definition event_preimage :: "string \<Rightarrow> string \<Rightarrow> string" where
  "event_preimage envelopeId jobName =
     ''dim-native-authoritative-review-event-v3'' @ [CHR 0x00] @ ''{'' @ quoted ''envelopeId'' @ '':''
     @ quoted envelopeId @ '','' @ quoted ''executionKind'' @ '':'' @ quoted ''qemu'' @ '',''
     @ quoted ''jobName'' @ '':'' @ quoted jobName @ ''}''"

definition parseNativeQemuReviewEvent :: "runtime \<Rightarrow> json \<Rightarrow> NativeQemuReviewEvent option" where
  "parseNativeQemuReviewEvent rt value = do {
     guardO (exact value eventFields);
     let event = get_field value;
     as_literal (JInt 3) (event ''schemaVersion'');
     as_literal (JStr ''dim.native.review-job.available'') (event ''type'');
     as_literal (JStr ''root'') (event ''repositoryId'');
     as_literal (JStr ''qemu'') (event ''executionKind'');
     as_literal (JStr ''candidate-controlled'') (event ''evidenceClass'');
     eventId \<leftarrow> as_matching hex64Pattern (event ''eventId'');
     projectId \<leftarrow> as_matching namePattern (event ''projectId'');
     protectedRef \<leftarrow> headRef (event ''protectedRef'');
     reviewId \<leftarrow> as_matching hex64Pattern (event ''reviewId'');
     envelopeId \<leftarrow> as_matching hex64Pattern (event ''envelopeId'');
     expectedProtectedHead \<leftarrow> as_matching objectIdPattern (event ''expectedProtectedHead'');
     candidateCommit \<leftarrow> as_matching objectIdPattern (event ''candidateCommit'');
     candidateTree \<leftarrow> as_matching objectIdPattern (event ''candidateTree'');
     policyRevision \<leftarrow> as_matching revisionPattern (event ''policyRevision'');
     requiredReviewRevision \<leftarrow> as_matching revisionPattern (event ''requiredReviewRevision'');
     qualityRevision \<leftarrow> as_matching revisionPattern (event ''qualityRevision'');
     jobName \<leftarrow> as_matching namePattern (event ''jobName'');
     guardO (eventId = sha256 rt (event_preimage envelopeId jobName));
     Some \<lparr>ev_schemaVersion = 3, ev_type = ''dim.native.review-job.available'', ev_eventId = eventId,
       ev_projectId = projectId, ev_repositoryId = ''root'', ev_protectedRef = protectedRef,
       ev_reviewId = reviewId, ev_envelopeId = envelopeId,
       ev_expectedProtectedHead = expectedProtectedHead, ev_candidateCommit = candidateCommit,
       ev_candidateTree = candidateTree, ev_policyRevision = policyRevision,
       ev_requiredReviewRevision = requiredReviewRevision, ev_qualityRevision = qualityRevision,
       ev_executionKind = ''qemu'', ev_jobName = jobName, ev_evidenceClass = ''candidate-controlled''\<rparr> }"

text \<open>The record as \<open>JSON.stringify\<close> writes it.\<close>

definition event_json_of :: "NativeQemuReviewEvent \<Rightarrow> json" where
  "event_json_of e = JObj [(''schemaVersion'', JInt (ev_schemaVersion e)), (''type'', JStr (ev_type e)),
     (''eventId'', JStr (ev_eventId e)), (''projectId'', JStr (ev_projectId e)),
     (''repositoryId'', JStr (ev_repositoryId e)), (''protectedRef'', JStr (ev_protectedRef e)),
     (''reviewId'', JStr (ev_reviewId e)), (''envelopeId'', JStr (ev_envelopeId e)),
     (''expectedProtectedHead'', JStr (ev_expectedProtectedHead e)),
     (''candidateCommit'', JStr (ev_candidateCommit e)), (''candidateTree'', JStr (ev_candidateTree e)),
     (''policyRevision'', JStr (ev_policyRevision e)),
     (''requiredReviewRevision'', JStr (ev_requiredReviewRevision e)),
     (''qualityRevision'', JStr (ev_qualityRevision e)), (''executionKind'', JStr (ev_executionKind e)),
     (''jobName'', JStr (ev_jobName e)), (''evidenceClass'', JStr (ev_evidenceClass e))]"

definition event_valid :: "runtime \<Rightarrow> NativeQemuReviewEvent \<Rightarrow> bool" where
  "event_valid rt e \<longleftrightarrow> ev_schemaVersion e = 3 \<and> ev_type e = ''dim.native.review-job.available''
     \<and> ev_repositoryId e = ''root'' \<and> ev_executionKind e = ''qemu''
     \<and> ev_evidenceClass e = ''candidate-controlled''
     \<and> matches hex64Pattern (ev_eventId e) \<and> matches namePattern (ev_projectId e)
     \<and> head_ref_ok (ev_protectedRef e) \<and> matches hex64Pattern (ev_reviewId e)
     \<and> matches hex64Pattern (ev_envelopeId e) \<and> matches objectIdPattern (ev_expectedProtectedHead e)
     \<and> matches objectIdPattern (ev_candidateCommit e) \<and> matches objectIdPattern (ev_candidateTree e)
     \<and> matches revisionPattern (ev_policyRevision e) \<and> matches revisionPattern (ev_requiredReviewRevision e)
     \<and> matches revisionPattern (ev_qualityRevision e) \<and> matches namePattern (ev_jobName e)
     \<and> ev_eventId e = sha256 rt (event_preimage (ev_envelopeId e) (ev_jobName e))"

lemma exact_event_json: "exact (event_json_of e) eventFields"
proof -
  have "distinct eventFields" by (simp add: eventFields_def)
  then show ?thesis
    using exact_JObj[of "members (event_json_of e)"] by (simp add: event_json_of_def eventFields_def)
qed

lemma parse_event_valid: "parseNativeQemuReviewEvent rt v = Some e \<Longrightarrow> event_valid rt e"
  unfolding parseNativeQemuReviewEvent_def Let_def by (auto simp: opt_conv event_valid_def)

lemma parse_event_json: "event_valid rt e \<Longrightarrow> parseNativeQemuReviewEvent rt (event_json_of e) = Some e"
  unfolding parseNativeQemuReviewEvent_def Let_def opt_conv
  by (cases e) (simp add: exact_event_json, simp add: event_valid_def event_json_of_def)

interpretation event_codec: codec event_json_of "parseNativeQemuReviewEvent rt" "event_valid rt" for rt
  by unfold_locales (rule parse_event_json, assumption, rule parse_event_valid)

lemma event_preimage_inject:
  assumes "length a = length b" "event_preimage a j = event_preimage b k"
  shows "a = b \<and> j = k"
  using assms by (simp add: event_preimage_def quoted_def)

end
