(* ===== verification/Qemu_Terminal.thy ===== *)
theory Qemu_Terminal
  imports Qemu_Event
begin

text \<open>
  The terminal event of a QEMU job (\<open>nativeQemuTerminalEvent.ts\<close>): its parser, the check that
  it belongs to a claim and its attempt, and the stored completion and attempt records with their
  parsers (\<open>nativeQemuSchedulerRows.ts\<close>).
\<close>

section \<open>Terminal events\<close>

record OutputEvidence =
  oe_bytes :: string
  oe_sha256 :: string
  oe_truncated :: bool

datatype Completion =
    Exited int
  | Signaled int
  | TimedOut
  | OutputLimitExceeded
  | Cancelled

record TerminalPayload =
  tp_executionKind :: string
  tp_evidenceClass :: string
  tp_reviewId :: string
  tp_attemptId :: string
  tp_descriptor :: json
  tp_descriptorDigest :: string
  tp_hostId :: string
  tp_capacity :: string
  tp_startedAt :: string
  tp_finishedAt :: string
  tp_result :: string
  tp_completion :: Completion
  tp_stdout :: OutputEvidence
  tp_stderr :: OutputEvidence

record NativeQemuTerminalEvent =
  te_schemaVersion :: int
  te_eventId :: string
  te_occurredAt :: string
  te_eventType :: string
  te_payload :: TerminalPayload

definition timestamp :: "runtime \<Rightarrow> json option \<Rightarrow> string option" where
  "timestamp rt v = do { s \<leftarrow> as_matching timestampPattern v; guardO (date_parse rt s \<noteq> None); Some s }"

definition bounded :: "json option \<Rightarrow> int \<Rightarrow> int \<Rightarrow> int option" where
  "bounded v minimum maximum = do { i \<leftarrow> as_int v; guardO (minimum \<le> i \<and> i \<le> maximum); Some i }"

definition terminalResult :: "json option \<Rightarrow> string option" where
  "terminalResult v = do { s \<leftarrow> as_string v;
     guardO (s = ''success'' \<or> s = ''failure'' \<or> s = ''cancelled''); Some s }"

definition parseCompletionKind :: "json option \<Rightarrow> Completion option" where
  "parseCompletionKind value = do {
     completion \<leftarrow> as_record value;
     kind \<leftarrow> as_string (get_field completion ''kind'');
     if kind = ''exited'' then do {
       guardO (exact_keys completion [''kind'', ''exitCode'']);
       code \<leftarrow> bounded (get_field completion ''exitCode'') 0 255; Some (Exited code) }
     else if kind = ''signaled'' then do {
       guardO (exact_keys completion [''kind'', ''signal'']);
       sig \<leftarrow> bounded (get_field completion ''signal'') 1 64; Some (Signaled sig) }
     else if kind = ''timed-out'' then do { guardO (exact_keys completion [''kind'']); Some TimedOut }
     else if kind = ''output-limit-exceeded'' then
       do { guardO (exact_keys completion [''kind'']); Some OutputLimitExceeded }
     else if kind = ''cancelled'' then do { guardO (exact_keys completion [''kind'']); Some Cancelled }
     else None }"

definition outputEvidence :: "json option \<Rightarrow> OutputEvidence option" where
  "outputEvidence value = do {
     evidence \<leftarrow> as_record value;
     guardO (exact_keys evidence [''bytes'', ''sha256'', ''truncated'']);
     bytes \<leftarrow> as_matching naturalPattern (get_field evidence ''bytes'');
     truncated \<leftarrow> as_bool (get_field evidence ''truncated'');
     digest \<leftarrow> as_matching digestPattern (get_field evidence ''sha256'');
     Some \<lparr>oe_bytes = bytes, oe_sha256 = digest, oe_truncated = truncated\<rparr> }"

definition completion_result :: "Completion \<Rightarrow> string" where
  "completion_result c = (if c = Exited 0 then ''success''
     else if c = Cancelled then ''cancelled'' else ''failure'')"

definition eventKeys :: "string list" where
  "eventKeys = [''schemaVersion'', ''eventId'', ''occurredAt'', ''eventType'', ''payload'']"

definition payloadKeys :: "string list" where
  "payloadKeys = [''executionKind'', ''evidenceClass'', ''reviewId'', ''attemptId'', ''descriptor'',
     ''descriptorDigest'', ''hostId'', ''capacity'', ''startedAt'', ''finishedAt'', ''result'',
     ''completion'', ''stdout'', ''stderr'']"

definition parseTerminalPayload :: "runtime \<Rightarrow> json \<Rightarrow> TerminalPayload option" where
  "parseTerminalPayload rt value = do {
     guardO (exact value payloadKeys);
     let payload = get_field value;
     as_literal (JStr ''qemu'') (payload ''executionKind'');
     as_literal (JStr ''candidate-controlled'') (payload ''evidenceClass'');
     result \<leftarrow> terminalResult (payload ''result'');
     completion \<leftarrow> parseCompletionKind (payload ''completion'');
     guardO (completion_result completion = result);
     startedAt \<leftarrow> timestamp rt (payload ''startedAt'');
     finishedAt \<leftarrow> timestamp rt (payload ''finishedAt'');
     guardO (\<not> the (date_parse rt startedAt) > the (date_parse rt finishedAt));
     reviewId \<leftarrow> as_matching hex64Pattern (payload ''reviewId'');
     attemptId \<leftarrow> as_matching uuidPattern (payload ''attemptId'');
     descriptor \<leftarrow> as_record (payload ''descriptor'');
     descriptorDigest \<leftarrow> as_matching digestPattern (payload ''descriptorDigest'');
     hostId \<leftarrow> as_matching identifierPattern (payload ''hostId'');
     capacity \<leftarrow> as_matching identifierPattern (payload ''capacity'');
     out \<leftarrow> outputEvidence (payload ''stdout'');
     err \<leftarrow> outputEvidence (payload ''stderr'');
     Some \<lparr>tp_executionKind = ''qemu'', tp_evidenceClass = ''candidate-controlled'',
       tp_reviewId = reviewId, tp_attemptId = attemptId, tp_descriptor = descriptor,
       tp_descriptorDigest = descriptorDigest, tp_hostId = hostId, tp_capacity = capacity,
       tp_startedAt = startedAt, tp_finishedAt = finishedAt, tp_result = result,
       tp_completion = completion, tp_stdout = out, tp_stderr = err\<rparr> }"

definition parseNativeQemuTerminalEvent :: "runtime \<Rightarrow> json \<Rightarrow> NativeQemuTerminalEvent option" where
  "parseNativeQemuTerminalEvent rt value = do {
     guardO (exact value eventKeys);
     let event = get_field value;
     payloadValue \<leftarrow> as_record (event ''payload'');
     as_literal (JInt 1) (event ''schemaVersion'');
     as_literal (JStr ''dim.ci.job.completed'') (event ''eventType'');
     payload \<leftarrow> parseTerminalPayload rt payloadValue;
     eventId \<leftarrow> as_matching uuidPattern (event ''eventId'');
     occurredAt \<leftarrow> timestamp rt (event ''occurredAt'');
     Some \<lparr>te_schemaVersion = 1, te_eventId = eventId, te_occurredAt = occurredAt,
       te_eventType = ''dim.ci.job.completed'', te_payload = payload\<rparr> }"

subsection \<open>What \<open>JSON.stringify\<close> writes\<close>

fun completion_json :: "Completion \<Rightarrow> json" where
  "completion_json (Exited c) = JObj [(''kind'', JStr ''exited''), (''exitCode'', JInt c)]"
| "completion_json (Signaled s) = JObj [(''kind'', JStr ''signaled''), (''signal'', JInt s)]"
| "completion_json TimedOut = JObj [(''kind'', JStr ''timed-out'')]"
| "completion_json OutputLimitExceeded = JObj [(''kind'', JStr ''output-limit-exceeded'')]"
| "completion_json Cancelled = JObj [(''kind'', JStr ''cancelled'')]"

definition output_json :: "OutputEvidence \<Rightarrow> json" where
  "output_json e = JObj [(''bytes'', JStr (oe_bytes e)), (''sha256'', JStr (oe_sha256 e)),
     (''truncated'', JBool (oe_truncated e))]"

definition payload_json :: "TerminalPayload \<Rightarrow> json" where
  "payload_json p = JObj [(''executionKind'', JStr (tp_executionKind p)),
     (''evidenceClass'', JStr (tp_evidenceClass p)), (''reviewId'', JStr (tp_reviewId p)),
     (''attemptId'', JStr (tp_attemptId p)), (''descriptor'', tp_descriptor p),
     (''descriptorDigest'', JStr (tp_descriptorDigest p)), (''hostId'', JStr (tp_hostId p)),
     (''capacity'', JStr (tp_capacity p)), (''startedAt'', JStr (tp_startedAt p)),
     (''finishedAt'', JStr (tp_finishedAt p)), (''result'', JStr (tp_result p)),
     (''completion'', completion_json (tp_completion p)), (''stdout'', output_json (tp_stdout p)),
     (''stderr'', output_json (tp_stderr p))]"

definition terminal_json :: "NativeQemuTerminalEvent \<Rightarrow> json" where
  "terminal_json e = JObj [(''schemaVersion'', JInt (te_schemaVersion e)),
     (''eventId'', JStr (te_eventId e)), (''occurredAt'', JStr (te_occurredAt e)),
     (''eventType'', JStr (te_eventType e)), (''payload'', payload_json (te_payload e))]"

subsection \<open>The codec contract\<close>

definition output_valid :: "OutputEvidence \<Rightarrow> bool" where
  "output_valid e \<longleftrightarrow> matches naturalPattern (oe_bytes e) \<and> matches digestPattern (oe_sha256 e)"

fun completion_valid :: "Completion \<Rightarrow> bool" where
  "completion_valid (Exited c) = (0 \<le> c \<and> c \<le> 255)"
| "completion_valid (Signaled s) = (1 \<le> s \<and> s \<le> 64)"
| "completion_valid _ = True"

definition timestamp_valid :: "runtime \<Rightarrow> string \<Rightarrow> bool" where
  "timestamp_valid rt s \<longleftrightarrow> matches timestampPattern s \<and> date_parse rt s \<noteq> None"

definition payload_valid :: "runtime \<Rightarrow> TerminalPayload \<Rightarrow> bool" where
  "payload_valid rt p \<longleftrightarrow> tp_executionKind p = ''qemu'' \<and> tp_evidenceClass p = ''candidate-controlled''
     \<and> matches hex64Pattern (tp_reviewId p) \<and> matches uuidPattern (tp_attemptId p)
     \<and> is_record (tp_descriptor p) \<and> matches digestPattern (tp_descriptorDigest p)
     \<and> matches identifierPattern (tp_hostId p) \<and> matches identifierPattern (tp_capacity p)
     \<and> timestamp_valid rt (tp_startedAt p) \<and> timestamp_valid rt (tp_finishedAt p)
     \<and> the (date_parse rt (tp_startedAt p)) \<le> the (date_parse rt (tp_finishedAt p))
     \<and> tp_result p = completion_result (tp_completion p) \<and> completion_valid (tp_completion p)
     \<and> output_valid (tp_stdout p) \<and> output_valid (tp_stderr p)"

definition terminal_valid :: "runtime \<Rightarrow> NativeQemuTerminalEvent \<Rightarrow> bool" where
  "terminal_valid rt e \<longleftrightarrow> te_schemaVersion e = 1 \<and> te_eventType e = ''dim.ci.job.completed''
     \<and> matches uuidPattern (te_eventId e) \<and> timestamp_valid rt (te_occurredAt e)
     \<and> payload_valid rt (te_payload e)"

lemma timestamp_eq [simp]: "timestamp rt v = Some s \<longleftrightarrow> v = Some (JStr s) \<and> timestamp_valid rt s"
  by (auto simp: timestamp_def opt_conv timestamp_valid_def)

lemma bounded_eq [simp]:
  "bounded v lo hi = Some i \<longleftrightarrow> v = Some (JInt i) \<and> safe_integer i \<and> lo \<le> i \<and> i \<le> hi"
  by (auto simp: bounded_def opt_conv)

lemma terminalResult_eq [simp]:
  "terminalResult v = Some s \<longleftrightarrow> v = Some (JStr s) \<and> s \<in> {''success'', ''failure'', ''cancelled''}"
  by (auto simp: terminalResult_def opt_conv)

lemma output_valid_eq: "outputEvidence v = Some e \<Longrightarrow> output_valid e"
  by (auto simp: outputEvidence_def opt_conv output_valid_def)

lemma output_output_json: "output_valid e \<Longrightarrow> outputEvidence (Some (output_json e)) = Some e"
  by (cases e) (simp add: outputEvidence_def output_json_def output_valid_def opt_conv exact_keys_def has_own_def)

interpretation output_codec: codec output_json "\<lambda>w. outputEvidence (Some w)" output_valid
  by unfold_locales (rule output_output_json, assumption, rule output_valid_eq)

lemma parse_completion_valid: "parseCompletionKind v = Some c \<Longrightarrow> completion_valid c"
  unfolding parseCompletionKind_def by (auto simp: opt_conv split: if_splits)

lemma parse_completion_json: "completion_valid c \<Longrightarrow> parseCompletionKind (Some (completion_json c)) = Some c"
  by (cases c)
    (simp_all add: parseCompletionKind_def opt_conv exact_keys_def has_own_def safe_integer_def)

interpretation completion_codec: codec completion_json "\<lambda>w. parseCompletionKind (Some w)" completion_valid
  by unfold_locales (rule parse_completion_json, assumption, rule parse_completion_valid)

lemma completion_result_mem: "completion_result c \<in> {''success'', ''failure'', ''cancelled''}"
  by (simp add: completion_result_def)

lemma exact_payload_json: "exact (payload_json p) payloadKeys"
  using exact_JObj[of "members (payload_json p)"] by (simp add: payload_json_def payloadKeys_def)

lemma exact_terminal_json: "exact (terminal_json e) eventKeys"
  using exact_JObj[of "members (terminal_json e)"] by (simp add: terminal_json_def eventKeys_def)

lemma is_record_payload_json [simp]: "is_record (payload_json p)"
  by (simp add: payload_json_def)

lemma parse_payload_valid: "parseTerminalPayload rt v = Some p \<Longrightarrow> payload_valid rt p"
  unfolding parseTerminalPayload_def Let_def
  by (auto simp: opt_conv payload_valid_def dest: parse_completion_valid output_valid_eq)

lemma parse_payload_json: "payload_valid rt p \<Longrightarrow> parseTerminalPayload rt (payload_json p) = Some p"
  unfolding parseTerminalPayload_def Let_def opt_conv
  using completion_result_mem[of "tp_completion p"]
  by (cases p) (simp add: exact_payload_json, simp add: payload_valid_def payload_json_def
      parse_completion_json output_output_json)

lemma parse_terminal_valid: "parseNativeQemuTerminalEvent rt v = Some e \<Longrightarrow> terminal_valid rt e"
  unfolding parseNativeQemuTerminalEvent_def Let_def
  by (auto simp: opt_conv terminal_valid_def dest: parse_payload_valid)

lemma parse_terminal_json: "terminal_valid rt e \<Longrightarrow> parseNativeQemuTerminalEvent rt (terminal_json e) = Some e"
  unfolding parseNativeQemuTerminalEvent_def Let_def opt_conv
  by (cases e) (simp add: exact_terminal_json, simp add: terminal_valid_def terminal_json_def parse_payload_json)

interpretation terminal_codec: codec terminal_json "parseNativeQemuTerminalEvent rt" "terminal_valid rt" for rt
  by unfold_locales (rule parse_terminal_json, assumption, rule parse_terminal_valid)

end
