(* ===== verification/Qemu_Store.thy ===== *)
theory Qemu_Store
  imports Qemu_Terminal "HOL-Library.List_Lexorder" "HOL-Library.Product_Lexorder"
begin

text \<open>
  The durable state of the QEMU scheduler: the tables of \<open>nativeQemuSchedulerDatabase.ts\<close>, the
  row parsers of \<open>nativeQemuSchedulerRows.ts\<close> and every operation of the class
  \<open>NativeQemuSchedulerStore\<close> (\<open>nativeQemuSchedulerStore.ts\<close>). A table is the list of its
  rows in insertion order, a \<open>CHECK (state IN ...)\<close> column a datatype, a nullable column an
  option, and a column with JSON text the value that text denotes. The constraints that an insert
  or a delete can violate are written out and are the error \<open>Constraint\<close>.

  The clock and \<open>randomUUID\<close> are arguments. An operation of the source that reads the clock more
  than once takes one argument per reading, in the order of the readings.
\<close>

section \<open>Rows\<close>

record NativeQemuCompletion =
  co_claimId :: string
  co_cleanupComplete :: bool
  co_eventId :: string
  co_result :: string
  co_terminalEvent :: NativeQemuTerminalEvent

record NativeQemuAttempt =
  at_attemptId :: string
  at_descriptorDigest :: string
  at_descriptor :: json

definition completion_row_json :: "NativeQemuCompletion \<Rightarrow> json" where
  "completion_row_json c = JObj [(''claimId'', JStr (co_claimId c)),
     (''cleanupComplete'', JBool (co_cleanupComplete c)), (''eventId'', JStr (co_eventId c)),
     (''result'', JStr (co_result c)), (''terminalEvent'', terminal_json (co_terminalEvent c))]"

definition attempt_json_of :: "NativeQemuAttempt \<Rightarrow> json" where
  "attempt_json_of a = JObj [(''attemptId'', JStr (at_attemptId a)),
     (''descriptorDigest'', JStr (at_descriptorDigest a)), (''descriptor'', at_descriptor a)]"

definition parseCompletion :: "runtime \<Rightarrow> json \<Rightarrow> NativeQemuCompletion option" where
  "parseCompletion rt value = do {
     guardO (is_record value);
     guardO (length (object_keys value) = 5);
     claimId \<leftarrow> as_string (get_field value ''claimId'');
     as_literal (JBool True) (get_field value ''cleanupComplete'');
     eventId \<leftarrow> as_string (get_field value ''eventId'');
     result \<leftarrow> terminalResult (get_field value ''result'');
     terminalValue \<leftarrow> as_record (get_field value ''terminalEvent'');
     terminalEvent \<leftarrow> parseNativeQemuTerminalEvent rt terminalValue;
     Some \<lparr>co_claimId = claimId, co_cleanupComplete = True, co_eventId = eventId, co_result = result,
       co_terminalEvent = terminalEvent\<rparr> }"

definition parseEvent :: "runtime \<Rightarrow> json \<Rightarrow> NativeQemuReviewEvent option" where
  "parseEvent rt serialized = parseNativeQemuReviewEvent rt serialized"

definition parseAttempt :: "json \<Rightarrow> NativeQemuAttempt option" where
  "parseAttempt value = do {
     guardO (exact value [''attemptId'', ''descriptorDigest'', ''descriptor'']);
     attemptId \<leftarrow> as_matching uuidPattern (get_field value ''attemptId'');
     descriptorDigest \<leftarrow> as_matching digestPattern (get_field value ''descriptorDigest'');
     descriptor \<leftarrow> as_record (get_field value ''descriptor'');
     Some \<lparr>at_attemptId = attemptId, at_descriptorDigest = descriptorDigest, at_descriptor = descriptor\<rparr> }"

datatype event_state = Queued | Reserved | Active | Completed | Superseded
datatype claim_state = CReserved | CActive | CCompleted
datatype outbox_state = Pending | Delivered

record eligibility_row =
  el_project_id :: string
  el_eligibility_generation :: string
  el_lease_expires_at :: int
  el_refreshed_at :: int

record event_row =
  er_event_id :: string
  er_admission_generation :: string
  er_event_json :: json
  er_state :: event_state
  er_created_at :: int

record claim_row =
  cr_claim_id :: string
  cr_request_id :: string
  cr_event_id :: string
  cr_host_id :: string
  cr_capacity :: string
  cr_admission_generation :: string
  cr_lease_expires_at :: int
  cr_attempt_id :: "string option"
  cr_descriptor_digest :: "string option"
  cr_attempt_json :: "json option"
  cr_state :: claim_state
  cr_result_json :: "json option"

record outbox_row =
  ob_claim_id :: string
  ob_terminal_event_json :: json
  ob_state :: outbox_state
  ob_created_at :: int
  ob_delivered_at :: "int option"

record scheduler_db =
  db_metadata :: "(string \<times> string) list"
  db_eligibility :: "eligibility_row list"
  db_events :: "event_row list"
  db_claims :: "claim_row list"
  db_outbox :: "outbox_row list"

datatype store_error =
    EventInvalid | EventConflicts | ClaimRequestConflicts | ClaimEventMissing
  | ActivationConflicts | RenewalConflicts | StateInvalid | RequiresCleanup | ClaimNotFound
  | ResultConflicts | ClaimNotActive | ResultNotRecorded | OutboxInvalid | RecoveryNotFound
  | SupersessionConflicts | ReviewEventInvalid | Constraint

section \<open>Creating the database\<close>

definition initialize :: "string \<Rightarrow> string \<Rightarrow> scheduler_db" where
  "initialize uuid executionAuthorityJson =
     \<lparr>db_metadata = [(''schema_version'', ''3''), (''service_generation_id'', uuid),
        (''execution_authority_json'', executionAuthorityJson)],
      db_eligibility = [], db_events = [], db_claims = [], db_outbox = []\<rparr>"

section \<open>Claims as the store returns them\<close>

record NativeQemuClaim =
  cl_claimId :: string
  cl_requestId :: string
  cl_hostId :: string
  cl_capacity :: string
  cl_admissionGeneration :: string
  cl_leaseExpiresAt :: int
  cl_event :: NativeQemuReviewEvent

definition number :: "int \<Rightarrow> (store_error, int) result" where
  "number i = (if safe_integer i then Inr i else Inl StateInvalid)"

definition claim_of :: "runtime \<Rightarrow> scheduler_db \<Rightarrow> claim_row \<Rightarrow> (store_error, NativeQemuClaim) result" where
  "claim_of rt db row =
     (case find_row (\<lambda>e. er_event_id e = cr_event_id row) (db_events db) of
        None \<Rightarrow> Inl ClaimEventMissing
      | Some eventRow \<Rightarrow>
          bindR (number (cr_lease_expires_at row)) (\<lambda>leaseExpiresAt.
          bindR (of_option ReviewEventInvalid (parseEvent rt (er_event_json eventRow))) (\<lambda>event.
            Inr \<lparr>cl_claimId = cr_claim_id row, cl_requestId = cr_request_id row,
              cl_hostId = cr_host_id row, cl_capacity = cr_capacity row,
              cl_admissionGeneration = cr_admission_generation row,
              cl_leaseExpiresAt = leaseExpiresAt, cl_event = event\<rparr>)))"

section \<open>Operations\<close>

definition serviceGenerationId :: "scheduler_db \<Rightarrow> (store_error, string) result" where
  "serviceGenerationId db = of_option StateInvalid (map_of (db_metadata db) ''service_generation_id'')"

datatype intake = Created | Replay

record enqueue_result =
  eq_result :: intake
  eq_eligibilityGeneration :: string
  eq_expiresAt :: int

definition upsert_eligibility ::
  "eligibility_row \<Rightarrow> eligibility_row list \<Rightarrow> (store_error, eligibility_row list) result" where
  "upsert_eligibility row rows =
     (if \<exists>r\<in>set rows. el_project_id r \<noteq> el_project_id row
          \<and> el_eligibility_generation r = el_eligibility_generation row then Inl Constraint
      else if \<exists>r\<in>set rows. el_project_id r = el_project_id row
      then Inr (update_rows (\<lambda>r. el_project_id r = el_project_id row) (\<lambda>_. row) rows)
      else Inr (rows @ [row]))"

definition enqueue ::
  "int \<Rightarrow> string \<Rightarrow> NativeQemuReviewEvent \<Rightarrow> int \<Rightarrow> scheduler_db \<Rightarrow>
     (store_error, enqueue_result \<times> scheduler_db) result" where
  "enqueue now uuid event eligibilityLeaseMilliseconds db =
     (if ev_executionKind event \<noteq> ''qemu'' then Inl EventInvalid else
      let expiresAt = now + eligibilityLeaseMilliseconds;
          eligibilityGeneration =
            (case find_row (\<lambda>r. el_project_id r = ev_projectId event) (db_eligibility db) of
               None \<Rightarrow> uuid | Some existing \<Rightarrow> el_eligibility_generation existing)
      in bindR (upsert_eligibility \<lparr>el_project_id = ev_projectId event,
             el_eligibility_generation = eligibilityGeneration, el_lease_expires_at = expiresAt,
             el_refreshed_at = now\<rparr> (db_eligibility db)) (\<lambda>eligibility.
         let events = update_rows (\<lambda>e. er_state e = Queued
                 \<and> get_field (er_event_json e) ''projectId'' = Some (JStr (ev_projectId event)))
               (\<lambda>e. e\<lparr>er_admission_generation := eligibilityGeneration\<rparr>) (db_events db);
             db' = db\<lparr>db_eligibility := eligibility, db_events := events\<rparr>;
             serialized = event_json_of event
         in case find_row (\<lambda>e. er_event_id e = ev_eventId event) events of
              Some existing \<Rightarrow>
                if er_event_json existing \<noteq> serialized then Inl EventConflicts
                else Inr (\<lparr>eq_result = Replay, eq_eligibilityGeneration = eligibilityGeneration,
                           eq_expiresAt = expiresAt\<rparr>, db')
            | None \<Rightarrow>
                Inr (\<lparr>eq_result = Created, eq_eligibilityGeneration = eligibilityGeneration,
                      eq_expiresAt = expiresAt\<rparr>,
                  db'\<lparr>db_events := events @ [\<lparr>er_event_id = ev_eventId event,
                    er_admission_generation = eligibilityGeneration, er_event_json = serialized,
                    er_state = Queued, er_created_at = now\<rparr>]\<rparr>)))"

definition delete_claims ::
  "(claim_row \<Rightarrow> bool) \<Rightarrow> scheduler_db \<Rightarrow> (store_error, scheduler_db) result" where
  "delete_claims P db =
     (if \<exists>c\<in>set (db_claims db). P c \<and> (\<exists>b\<in>set (db_outbox db). ob_claim_id b = cr_claim_id c)
      then Inl Constraint
      else Inr (db\<lparr>db_claims := delete_rows P (db_claims db)\<rparr>))"

definition expired :: "int \<Rightarrow> claim_row \<Rightarrow> bool" where
  "expired now c \<longleftrightarrow> cr_state c = CReserved \<and> cr_lease_expires_at c \<le> now"

definition expireClaims :: "int \<Rightarrow> int \<Rightarrow> scheduler_db \<Rightarrow> (store_error, scheduler_db) result" where
  "expireClaims now1 now2 db =
     delete_claims (expired now2)
       (db\<lparr>db_events := update_rows
          (\<lambda>e. \<exists>c\<in>set (db_claims db). expired now1 c \<and> cr_event_id c = er_event_id e)
          (\<lambda>e. e\<lparr>er_state := Queued\<rparr>) (db_events db)\<rparr>)"

definition open_claim :: "claim_row \<Rightarrow> bool" where
  "open_claim c \<longleftrightarrow> cr_state c = CReserved \<or> cr_state c = CActive"

definition insert_claim :: "claim_row \<Rightarrow> scheduler_db \<Rightarrow> (store_error, scheduler_db) result" where
  "insert_claim row db =
     (if (\<exists>c\<in>set (db_claims db). cr_claim_id c = cr_claim_id row \<or> cr_request_id c = cr_request_id row
           \<or> cr_event_id c = cr_event_id row
           \<or> (open_claim c \<and> open_claim row \<and> cr_host_id c = cr_host_id row \<and> cr_capacity c = cr_capacity row))
         \<or> (\<forall>e\<in>set (db_events db). er_event_id e \<noteq> cr_event_id row)
      then Inl Constraint
      else Inr (db\<lparr>db_claims := db_claims db @ [row]\<rparr>))"

definition event_eligible :: "int \<Rightarrow> scheduler_db \<Rightarrow> event_row \<Rightarrow> bool" where
  "event_eligible now db e \<longleftrightarrow> er_state e = Queued
     \<and> (\<exists>a\<in>set (db_eligibility db). el_eligibility_generation a = er_admission_generation e
          \<and> el_lease_expires_at a > now)"

definition next_event :: "int \<Rightarrow> scheduler_db \<Rightarrow> event_row option" where
  "next_event now db =
     (case filter (event_eligible now db) (db_events db) of
        [] \<Rightarrow> None
      | rows \<Rightarrow> Some (arg_min_list (\<lambda>e. (er_created_at e, er_event_id e)) rows))"

record ReservationInput =
  ri_requestId :: string
  ri_hostId :: string
  ri_capacity :: string
  ri_leaseMilliseconds :: int

definition reserve ::
  "runtime \<Rightarrow> int \<Rightarrow> int \<Rightarrow> int \<Rightarrow> int \<Rightarrow> string \<Rightarrow> ReservationInput \<Rightarrow> scheduler_db \<Rightarrow>
     (store_error, NativeQemuClaim option \<times> scheduler_db) result" where
  "reserve rt now1 now2 now3 now4 uuid input db0 =
     bindR (expireClaims now1 now2 db0) (\<lambda>db.
       case find_row (\<lambda>c. cr_request_id c = ri_requestId input) (db_claims db) of
         Some replay \<Rightarrow>
           if cr_host_id replay \<noteq> ri_hostId input \<or> cr_capacity replay \<noteq> ri_capacity input
           then Inl ClaimRequestConflicts
           else if cr_state replay = CCompleted then Inr (None, db)
           else bindR (claim_of rt db replay) (\<lambda>claim. Inr (Some claim, db))
       | None \<Rightarrow>
           if \<exists>c\<in>set (db_claims db). cr_host_id c = ri_hostId input \<and> cr_capacity c = ri_capacity input
                \<and> open_claim c
           then Inr (None, db)
           else case next_event now3 db of
             None \<Rightarrow> Inr (None, db)
           | Some row \<Rightarrow>
               let leaseExpiresAt = now4 + ri_leaseMilliseconds input
               in bindR (insert_claim \<lparr>cr_claim_id = uuid, cr_request_id = ri_requestId input,
                     cr_event_id = er_event_id row, cr_host_id = ri_hostId input,
                     cr_capacity = ri_capacity input,
                     cr_admission_generation = er_admission_generation row,
                     cr_lease_expires_at = leaseExpiresAt, cr_attempt_id = None,
                     cr_descriptor_digest = None, cr_attempt_json = None, cr_state = CReserved,
                     cr_result_json = None\<rparr> db) (\<lambda>db1.
                  let db2 = db1\<lparr>db_events := update_rows (\<lambda>e. er_event_id e = er_event_id row)
                        (\<lambda>e. e\<lparr>er_state := Reserved\<rparr>) (db_events db1)\<rparr>
                  in bindR (of_option ReviewEventInvalid (parseEvent rt (er_event_json row))) (\<lambda>event.
                       Inr (Some \<lparr>cl_claimId = uuid, cl_requestId = ri_requestId input,
                         cl_hostId = ri_hostId input, cl_capacity = ri_capacity input,
                         cl_admissionGeneration = er_admission_generation row,
                         cl_leaseExpiresAt = leaseExpiresAt, cl_event = event\<rparr>, db2))))"

definition set_event_state :: "string \<Rightarrow> event_state \<Rightarrow> scheduler_db \<Rightarrow> scheduler_db" where
  "set_event_state eventId st db =
     db\<lparr>db_events := update_rows (\<lambda>e. er_event_id e = eventId) (\<lambda>e. e\<lparr>er_state := st\<rparr>) (db_events db)\<rparr>"

definition activate ::
  "int \<Rightarrow> string \<Rightarrow> NativeQemuAttempt \<Rightarrow> scheduler_db \<Rightarrow> (store_error, scheduler_db) result" where
  "activate now claimId attempt db =
     (let P = (\<lambda>c. cr_claim_id c = claimId \<and> cr_state c = CReserved \<and> cr_lease_expires_at c > now);
          db1 = db\<lparr>db_claims := update_rows P (\<lambda>c. c\<lparr>cr_state := CActive,
             cr_attempt_id := Some (at_attemptId attempt),
             cr_descriptor_digest := Some (at_descriptorDigest attempt),
             cr_attempt_json := Some (attempt_json_of attempt)\<rparr>) (db_claims db)\<rparr>
      in if count_rows P (db_claims db) \<noteq> 1 then Inl ActivationConflicts
         else case find_row (\<lambda>c. cr_claim_id c = claimId) (db_claims db1) of
                None \<Rightarrow> Inr db1
              | Some c \<Rightarrow> Inr (set_event_state (cr_event_id c) Active db1))"

definition assignment ::
  "runtime \<Rightarrow> string \<Rightarrow> string \<Rightarrow> string \<Rightarrow> scheduler_db \<Rightarrow>
     (store_error, (NativeQemuClaim \<times> NativeQemuAttempt) option) result" where
  "assignment rt requestId hostId capacity db =
     (case find_row (\<lambda>c. cr_request_id c = requestId) (db_claims db) of
        None \<Rightarrow> Inr None
      | Some row \<Rightarrow>
          if cr_host_id row \<noteq> hostId \<or> cr_capacity row \<noteq> capacity then Inl ClaimRequestConflicts
          else if cr_state row \<noteq> CActive then Inr None
          else bindR (claim_of rt db row) (\<lambda>claim.
               bindR (of_option StateInvalid (Option.bind (cr_attempt_json row) parseAttempt)) (\<lambda>attempt.
                 Inr (Some (claim, attempt)))))"

definition renew ::
  "int \<Rightarrow> int \<Rightarrow> string \<Rightarrow> string \<Rightarrow> string \<Rightarrow> int \<Rightarrow> scheduler_db \<Rightarrow>
     (store_error, int \<times> scheduler_db) result" where
  "renew now1 now2 claimId hostId capacity leaseMilliseconds db =
     (let leaseExpiresAt = now1 + leaseMilliseconds;
          P = (\<lambda>c. cr_claim_id c = claimId \<and> cr_host_id c = hostId \<and> cr_capacity c = capacity
                 \<and> cr_state c = CActive \<and> cr_lease_expires_at c > now2)
      in if count_rows P (db_claims db) \<noteq> 1 then Inl RenewalConflicts
         else Inr (leaseExpiresAt, db\<lparr>db_claims :=
           update_rows P (\<lambda>c. c\<lparr>cr_lease_expires_at := leaseExpiresAt\<rparr>) (db_claims db)\<rparr>))"

definition current ::
  "runtime \<Rightarrow> int \<Rightarrow> string \<Rightarrow> scheduler_db \<Rightarrow>
     (store_error, (NativeQemuClaim \<times> string \<times> string) option) result" where
  "current rt now claimId db =
     (case find_row (\<lambda>c. cr_claim_id c = claimId \<and> cr_state c = CActive
             \<and> cr_lease_expires_at c > now) (db_claims db) of
        None \<Rightarrow> Inr None
      | Some row \<Rightarrow>
          bindR (claim_of rt db row) (\<lambda>claim.
          bindR (of_option StateInvalid (cr_attempt_id row)) (\<lambda>attemptId.
          bindR (of_option StateInvalid (cr_descriptor_digest row)) (\<lambda>descriptorDigest.
            Inr (Some (claim, attemptId, descriptorDigest))))))"

record NativeQemuFinalization =
  fi_state :: claim_state
  fi_claim :: NativeQemuClaim
  fi_attempt :: NativeQemuAttempt
  fi_result :: "NativeQemuCompletion option"

definition finalization ::
  "runtime \<Rightarrow> string \<Rightarrow> string \<Rightarrow> string \<Rightarrow> scheduler_db \<Rightarrow>
     (store_error, NativeQemuFinalization option) result" where
  "finalization rt claimId hostId capacity db =
     (case find_row (\<lambda>c. cr_claim_id c = claimId \<and> cr_host_id c = hostId \<and> cr_capacity c = capacity
             \<and> (cr_state c = CActive \<or> cr_state c = CCompleted)) (db_claims db) of
        None \<Rightarrow> Inr None
      | Some row \<Rightarrow>
          (case cr_attempt_json row of
             None \<Rightarrow> Inr None
           | Some attemptJson \<Rightarrow>
               bindR (claim_of rt db row) (\<lambda>claim.
               bindR (of_option StateInvalid (parseAttempt attemptJson)) (\<lambda>attempt.
               case cr_result_json row of
                 None \<Rightarrow> Inr (Some \<lparr>fi_state = cr_state row, fi_claim = claim, fi_attempt = attempt,
                   fi_result = None\<rparr>)
               | Some resultJson \<Rightarrow>
                   bindR (of_option StateInvalid (parseCompletion rt resultJson)) (\<lambda>result.
                     Inr (Some \<lparr>fi_state = cr_state row, fi_claim = claim, fi_attempt = attempt,
                       fi_result = Some result\<rparr>))))))"

definition insert_outbox :: "outbox_row \<Rightarrow> scheduler_db \<Rightarrow> (store_error, scheduler_db) result" where
  "insert_outbox row db =
     (if (\<exists>b\<in>set (db_outbox db). ob_claim_id b = ob_claim_id row)
         \<or> (\<forall>c\<in>set (db_claims db). cr_claim_id c \<noteq> ob_claim_id row)
      then Inl Constraint
      else Inr (db\<lparr>db_outbox := db_outbox db @ [row]\<rparr>))"

definition recordResult ::
  "int \<Rightarrow> NativeQemuCompletion \<Rightarrow> scheduler_db \<Rightarrow> (store_error, intake \<times> scheduler_db) result" where
  "recordResult now input db =
     (if \<not> co_cleanupComplete input then Inl RequiresCleanup else
      case find_row (\<lambda>c. cr_claim_id c = co_claimId input) (db_claims db) of
        None \<Rightarrow> Inl ClaimNotFound
      | Some row \<Rightarrow>
          (let serialized = completion_row_json input in
           if cr_state row = CCompleted then
             (case cr_result_json row of
                None \<Rightarrow> Inl StateInvalid
              | Some existing \<Rightarrow> if existing \<noteq> serialized then Inl ResultConflicts else Inr (Replay, db))
           else if cr_state row \<noteq> CActive then Inl ClaimNotActive
           else case cr_result_json row of
             Some existing \<Rightarrow> if existing \<noteq> serialized then Inl ResultConflicts else Inr (Replay, db)
           | None \<Rightarrow>
               bindR (insert_outbox \<lparr>ob_claim_id = co_claimId input,
                   ob_terminal_event_json = terminal_json (co_terminalEvent input), ob_state = Pending,
                   ob_created_at = now, ob_delivered_at = None\<rparr>
                 (db\<lparr>db_claims := update_rows (\<lambda>c. cr_claim_id c = co_claimId input)
                    (\<lambda>c. c\<lparr>cr_result_json := Some serialized\<rparr>) (db_claims db)\<rparr>))
                 (\<lambda>db'. Inr (Created, db'))))"

definition set_claim_state :: "string \<Rightarrow> claim_state \<Rightarrow> scheduler_db \<Rightarrow> scheduler_db" where
  "set_claim_state claimId st db =
     db\<lparr>db_claims := update_rows (\<lambda>c. cr_claim_id c = claimId) (\<lambda>c. c\<lparr>cr_state := st\<rparr>) (db_claims db)\<rparr>"

definition acknowledgeResult :: "int \<Rightarrow> string \<Rightarrow> scheduler_db \<Rightarrow> (store_error, scheduler_db) result" where
  "acknowledgeResult now claimId db =
     (case find_row (\<lambda>c. cr_claim_id c = claimId) (db_claims db) of
        None \<Rightarrow> Inl ResultNotRecorded
      | Some row \<Rightarrow>
          if cr_result_json row = None then Inl ResultNotRecorded
          else if cr_state row = CCompleted then Inr db
          else if cr_state row \<noteq> CActive then Inl ClaimNotActive
          else let db1 = set_event_state (cr_event_id row) Completed (set_claim_state claimId CCompleted db)
               in Inr (db1\<lparr>db_outbox := update_rows (\<lambda>b. ob_claim_id b = claimId)
                    (\<lambda>b. b\<lparr>ob_state := Delivered, ob_delivered_at := Some now\<rparr>) (db_outbox db1)\<rparr>))"

text \<open>\<open>complete\<close> is two transactions: a failing acknowledgement leaves the recorded result.\<close>

definition complete ::
  "int \<Rightarrow> int \<Rightarrow> NativeQemuCompletion \<Rightarrow> scheduler_db \<Rightarrow> (store_error, intake) result \<times> scheduler_db" where
  "complete now1 now2 input db =
     (case recordResult now1 input db of
        Inl e \<Rightarrow> (Inl e, db)
      | Inr (r, db1) \<Rightarrow>
          (case acknowledgeResult now2 (co_claimId input) db1 of
             Inl e \<Rightarrow> (Inl e, db1)
           | Inr db2 \<Rightarrow> (Inr r, db2)))"

definition pending_rows :: "scheduler_db \<Rightarrow> outbox_row list" where
  "pending_rows db = sort_key (\<lambda>b. (ob_created_at b, ob_claim_id b))
     (filter (\<lambda>b. ob_state b = Pending \<and> (\<exists>c\<in>set (db_claims db). cr_claim_id c = ob_claim_id b))
       (db_outbox db))"

fun pendingReports_rows ::
  "runtime \<Rightarrow> scheduler_db \<Rightarrow> outbox_row list \<Rightarrow> (store_error, (NativeQemuClaim \<times> json) list) result" where
  "pendingReports_rows rt db [] = Inr []"
| "pendingReports_rows rt db (b # bs) =
     (case find_row (\<lambda>c. cr_claim_id c = ob_claim_id b) (db_claims db) of
        None \<Rightarrow> Inl OutboxInvalid
      | Some row \<Rightarrow>
          bindR (claim_of rt db row) (\<lambda>claim.
          bindR (pendingReports_rows rt db bs) (\<lambda>rest.
            Inr ((claim, ob_terminal_event_json b) # rest))))"

definition pendingReports :: "runtime \<Rightarrow> scheduler_db \<Rightarrow> (store_error, (NativeQemuClaim \<times> json) list) result" where
  "pendingReports rt db = pendingReports_rows rt db (pending_rows db)"

definition recover :: "string \<Rightarrow> string \<Rightarrow> string \<Rightarrow> scheduler_db \<Rightarrow> (store_error, scheduler_db) result" where
  "recover claimId hostId capacity db =
     (case find_row (\<lambda>c. cr_claim_id c = claimId \<and> cr_host_id c = hostId \<and> cr_capacity c = capacity)
             (db_claims db) of
        None \<Rightarrow> Inl RecoveryNotFound
      | Some row \<Rightarrow>
          if cr_state row = CCompleted then Inr db
          else Inr (set_event_state (cr_event_id row) Completed (set_claim_state claimId CCompleted db)))"

definition supersedeReservation :: "string \<Rightarrow> scheduler_db \<Rightarrow> (store_error, scheduler_db) result" where
  "supersedeReservation claimId db =
     (case find_row (\<lambda>c. cr_claim_id c = claimId) (db_claims db) of
        None \<Rightarrow> Inl SupersessionConflicts
      | Some row \<Rightarrow>
          if cr_state row \<noteq> CReserved then Inl SupersessionConflicts
          else delete_claims (\<lambda>c. cr_claim_id c = claimId)
                 (set_event_state (cr_event_id row) Superseded db))"

record event_status =
  es_event :: NativeQemuReviewEvent
  es_state :: event_state
  es_claimId :: "string option"
  es_hostId :: "string option"
  es_capacity :: "string option"
  es_attemptId :: "string option"
  es_descriptorDigest :: "string option"
  es_eligibilityGeneration :: string
  es_eligibilityExpiresAt :: int
  es_result :: "json option"

definition eventStatus ::
  "runtime \<Rightarrow> string \<Rightarrow> scheduler_db \<Rightarrow> (store_error, event_status option) result" where
  "eventStatus rt eventId db =
     (case find_row (\<lambda>e. er_event_id e = eventId) (db_events db) of
        None \<Rightarrow> Inr None
      | Some e \<Rightarrow>
          let c = find_row (\<lambda>c. cr_event_id c = eventId) (db_claims db);
              a = find_row (\<lambda>a. el_eligibility_generation a = er_admission_generation e) (db_eligibility db)
          in bindR (of_option ReviewEventInvalid (parseEvent rt (er_event_json e))) (\<lambda>event.
             bindR (of_option StateInvalid (map_option el_lease_expires_at a)) (\<lambda>lease.
             bindR (number lease) (\<lambda>expires.
               Inr (Some \<lparr>es_event = event, es_state = er_state e,
                 es_claimId = map_option cr_claim_id c, es_hostId = map_option cr_host_id c,
                 es_capacity = map_option cr_capacity c,
                 es_attemptId = Option.bind c cr_attempt_id,
                 es_descriptorDigest = Option.bind c cr_descriptor_digest,
                 es_eligibilityGeneration = er_admission_generation e,
                 es_eligibilityExpiresAt = expires,
                 es_result = Option.bind c cr_result_json\<rparr>)))))"

lemmas [store_defs] = enqueue_def upsert_eligibility_def expireClaims_def delete_claims_def
  insert_claim_def reserve_def activate_def renew_def recordResult_def insert_outbox_def
  acknowledgeResult_def recover_def supersedeReservation_def set_event_state_def set_claim_state_def

end
