(* ===== verification/Qemu_Descriptor.thy ===== *)
theory Qemu_Descriptor
  imports Qemu_Store
begin

text \<open>
  The execution descriptor of a QEMU job (\<open>nativeQemuAssignment.ts\<close>): its parser, the text that its digest is
  taken of, and that the parser and the written form are inverse on valid descriptors.
\<close>

section \<open>The descriptor\<close>

record QemuBounds =
  bd_cpu :: string
  bd_memoryBytes :: string
  bd_pids :: string
  bd_wallClockSeconds :: string
  bd_outputBytes :: string

record BlobRef =
  br_objectId :: string
  br_sha256 :: string

record ScriptRef =
  sr_path :: string
  sr_objectId :: string
  sr_sha256 :: string

record NativeQemuDescriptor =
  d_schemaVersion :: int
  d_executionKind :: string
  d_admissionGeneration :: string
  d_jobName :: string
  d_runnerBaseImage :: string
  d_bounds :: QemuBounds
  d_projectId :: string
  d_repositoryId :: string
  d_protectedRef :: string
  d_expectedProtectedHead :: string
  d_candidateCommit :: string
  d_candidateTree :: string
  d_policyRevision :: string
  d_requiredReviewRevision :: string
  d_requiredJobSetRevision :: string
  d_evidenceClass :: string
  d_configBlob :: BlobRef
  d_script :: ScriptRef
  d_argv :: "string list"
  d_jobImage :: string

definition descriptorFields :: "string list" where
  "descriptorFields = [''schemaVersion'', ''executionKind'', ''admissionGeneration'', ''jobName'',
     ''runnerBaseImage'', ''bounds'', ''projectId'', ''repositoryId'', ''protectedRef'',
     ''expectedProtectedHead'', ''candidateCommit'', ''candidateTree'', ''policyRevision'',
     ''requiredReviewRevision'', ''requiredJobSetRevision'', ''evidenceClass'', ''configBlob'', ''script'',
     ''argv'', ''jobImage'']"

definition jobArgv :: "string list" where
  "jobArgv = [''/bin/bash'', ''--noprofile'', ''--norc'', ''/run/dim/job/script'']"

definition script_path_ok :: "string \<Rightarrow> bool" where
  "script_path_ok p \<longleftrightarrow> startsWith ''.dim/ci/jobs/'' p \<and> endsWith ''.bash'' p \<and> \<not> str_includes [CHR 0x5C] p
     \<and> list_all (\<lambda>part. length part > 0 \<and> part \<noteq> ''.'' \<and> part \<noteq> ''..'') (split_on CHR ''/'' p)"

definition parseBounds :: "json option \<Rightarrow> QemuBounds option" where
  "parseBounds v = do {
     w \<leftarrow> as_record v;
     guardO (exact w [''cpu'', ''memoryBytes'', ''pids'', ''wallClockSeconds'', ''outputBytes'']);
     cpu \<leftarrow> as_matching decimalPattern (get_field w ''cpu'');
     memoryBytes \<leftarrow> as_matching decimalPattern (get_field w ''memoryBytes'');
     pids \<leftarrow> as_matching decimalPattern (get_field w ''pids'');
     wallClockSeconds \<leftarrow> as_matching decimalPattern (get_field w ''wallClockSeconds'');
     outputBytes \<leftarrow> as_matching decimalPattern (get_field w ''outputBytes'');
     Some \<lparr>bd_cpu = cpu, bd_memoryBytes = memoryBytes, bd_pids = pids,
       bd_wallClockSeconds = wallClockSeconds, bd_outputBytes = outputBytes\<rparr> }"

definition parseConfigBlob :: "json option \<Rightarrow> BlobRef option" where
  "parseConfigBlob v = do {
     w \<leftarrow> as_record v;
     guardO (exact w [''objectId'', ''sha256'']);
     objectId \<leftarrow> as_matching objectIdPattern (get_field w ''objectId'');
     sha \<leftarrow> as_matching digestPattern (get_field w ''sha256'');
     Some \<lparr>br_objectId = objectId, br_sha256 = sha\<rparr> }"

definition parseScript :: "json option \<Rightarrow> ScriptRef option" where
  "parseScript v = do {
     w \<leftarrow> as_record v;
     guardO (exact w [''path'', ''objectId'', ''sha256'']);
     path \<leftarrow> as_string (get_field w ''path'');
     guardO (script_path_ok path);
     objectId \<leftarrow> as_matching objectIdPattern (get_field w ''objectId'');
     sha \<leftarrow> as_matching digestPattern (get_field w ''sha256'');
     Some \<lparr>sr_path = path, sr_objectId = objectId, sr_sha256 = sha\<rparr> }"

definition parseNativeQemuDescriptor :: "json \<Rightarrow> NativeQemuDescriptor option" where
  "parseNativeQemuDescriptor value = do {
     guardO (exact value descriptorFields);
     let descriptor = get_field value;
     as_literal (JInt 1) (descriptor ''schemaVersion'');
     as_literal (JStr ''qemu'') (descriptor ''executionKind'');
     as_literal (JStr ''candidate-controlled'') (descriptor ''evidenceClass'');
     as_literal (JArr (map JStr jobArgv)) (descriptor ''argv'');
     script \<leftarrow> parseScript (descriptor ''script'');
     admissionGeneration \<leftarrow> as_matching generationPattern (descriptor ''admissionGeneration'');
     jobName \<leftarrow> as_matching namePattern (descriptor ''jobName'');
     runnerBaseImage \<leftarrow> as_matching imagePattern (descriptor ''runnerBaseImage'');
     bounds \<leftarrow> parseBounds (descriptor ''bounds'');
     projectId \<leftarrow> as_matching namePattern (descriptor ''projectId'');
     repositoryId \<leftarrow> as_matching namePattern (descriptor ''repositoryId'');
     protectedRef \<leftarrow> as_string (descriptor ''protectedRef'');
     expectedProtectedHead \<leftarrow> as_matching objectIdPattern (descriptor ''expectedProtectedHead'');
     candidateCommit \<leftarrow> as_matching objectIdPattern (descriptor ''candidateCommit'');
     candidateTree \<leftarrow> as_matching objectIdPattern (descriptor ''candidateTree'');
     policyRevision \<leftarrow> as_matching revisionPattern (descriptor ''policyRevision'');
     requiredReviewRevision \<leftarrow> as_matching revisionPattern (descriptor ''requiredReviewRevision'');
     requiredJobSetRevision \<leftarrow> as_matching revisionPattern (descriptor ''requiredJobSetRevision'');
     configBlob \<leftarrow> parseConfigBlob (descriptor ''configBlob'');
     jobImage \<leftarrow> as_matching imagePattern (descriptor ''jobImage'');
     Some \<lparr>d_schemaVersion = 1, d_executionKind = ''qemu'', d_admissionGeneration = admissionGeneration,
       d_jobName = jobName, d_runnerBaseImage = runnerBaseImage, d_bounds = bounds, d_projectId = projectId,
       d_repositoryId = repositoryId, d_protectedRef = protectedRef,
       d_expectedProtectedHead = expectedProtectedHead, d_candidateCommit = candidateCommit,
       d_candidateTree = candidateTree, d_policyRevision = policyRevision,
       d_requiredReviewRevision = requiredReviewRevision, d_requiredJobSetRevision = requiredJobSetRevision,
       d_evidenceClass = ''candidate-controlled'', d_configBlob = configBlob, d_script = script,
       d_argv = jobArgv, d_jobImage = jobImage\<rparr> }"

section \<open>Its digest\<close>

definition descriptor_fields :: "NativeQemuDescriptor \<Rightarrow> string list" where
  "descriptor_fields d = [d_projectId d, d_repositoryId d, d_protectedRef d, d_expectedProtectedHead d,
     d_candidateCommit d, d_candidateTree d, d_policyRevision d, d_requiredReviewRevision d,
     d_requiredJobSetRevision d, d_admissionGeneration d, d_jobName d, d_evidenceClass d,
     br_objectId (d_configBlob d), br_sha256 (d_configBlob d), sr_path (d_script d), sr_objectId (d_script d),
     sr_sha256 (d_script d)] @ d_argv d @ [d_jobImage d, d_runnerBaseImage d, bd_cpu (d_bounds d),
     bd_memoryBytes (d_bounds d), bd_pids (d_bounds d), bd_wallClockSeconds (d_bounds d), bd_outputBytes (d_bounds d)]"

definition descriptor_preimage :: "NativeQemuDescriptor \<Rightarrow> string" where
  "descriptor_preimage d = ''dim-native-qemu-execution-v1'' @ concat (map netstring (descriptor_fields d))"

definition nativeQemuDescriptorDigest :: "runtime \<Rightarrow> NativeQemuDescriptor \<Rightarrow> string" where
  "nativeQemuDescriptorDigest rt d = ''sha256:'' @ sha256 rt (descriptor_preimage d)"

section \<open>What \<open>JSON.stringify\<close> writes\<close>

definition bounds_json :: "QemuBounds \<Rightarrow> json" where
  "bounds_json b = JObj [(''cpu'', JStr (bd_cpu b)), (''memoryBytes'', JStr (bd_memoryBytes b)),
     (''pids'', JStr (bd_pids b)), (''wallClockSeconds'', JStr (bd_wallClockSeconds b)),
     (''outputBytes'', JStr (bd_outputBytes b))]"

definition blob_json :: "BlobRef \<Rightarrow> json" where
  "blob_json b = JObj [(''objectId'', JStr (br_objectId b)), (''sha256'', JStr (br_sha256 b))]"

definition script_json :: "ScriptRef \<Rightarrow> json" where
  "script_json s = JObj [(''path'', JStr (sr_path s)), (''objectId'', JStr (sr_objectId s)),
     (''sha256'', JStr (sr_sha256 s))]"

definition descriptor_json :: "NativeQemuDescriptor \<Rightarrow> json" where
  "descriptor_json d = JObj [(''schemaVersion'', JInt (d_schemaVersion d)),
     (''executionKind'', JStr (d_executionKind d)), (''admissionGeneration'', JStr (d_admissionGeneration d)),
     (''jobName'', JStr (d_jobName d)), (''runnerBaseImage'', JStr (d_runnerBaseImage d)),
     (''bounds'', bounds_json (d_bounds d)), (''projectId'', JStr (d_projectId d)),
     (''repositoryId'', JStr (d_repositoryId d)), (''protectedRef'', JStr (d_protectedRef d)),
     (''expectedProtectedHead'', JStr (d_expectedProtectedHead d)),
     (''candidateCommit'', JStr (d_candidateCommit d)), (''candidateTree'', JStr (d_candidateTree d)),
     (''policyRevision'', JStr (d_policyRevision d)),
     (''requiredReviewRevision'', JStr (d_requiredReviewRevision d)),
     (''requiredJobSetRevision'', JStr (d_requiredJobSetRevision d)),
     (''evidenceClass'', JStr (d_evidenceClass d)), (''configBlob'', blob_json (d_configBlob d)),
     (''script'', script_json (d_script d)), (''argv'', JArr (map JStr (d_argv d))),
     (''jobImage'', JStr (d_jobImage d))]"

definition bounds_valid :: "QemuBounds \<Rightarrow> bool" where
  "bounds_valid b \<longleftrightarrow> matches decimalPattern (bd_cpu b) \<and> matches decimalPattern (bd_memoryBytes b)
     \<and> matches decimalPattern (bd_pids b) \<and> matches decimalPattern (bd_wallClockSeconds b)
     \<and> matches decimalPattern (bd_outputBytes b)"

definition blob_valid :: "BlobRef \<Rightarrow> bool" where
  "blob_valid b \<longleftrightarrow> matches objectIdPattern (br_objectId b) \<and> matches digestPattern (br_sha256 b)"

definition script_valid :: "ScriptRef \<Rightarrow> bool" where
  "script_valid s \<longleftrightarrow> script_path_ok (sr_path s) \<and> matches objectIdPattern (sr_objectId s)
     \<and> matches digestPattern (sr_sha256 s)"

definition descriptor_valid :: "NativeQemuDescriptor \<Rightarrow> bool" where
  "descriptor_valid d \<longleftrightarrow> d_schemaVersion d = 1 \<and> d_executionKind d = ''qemu''
     \<and> d_evidenceClass d = ''candidate-controlled'' \<and> d_argv d = jobArgv
     \<and> matches generationPattern (d_admissionGeneration d) \<and> matches namePattern (d_jobName d)
     \<and> matches imagePattern (d_runnerBaseImage d) \<and> bounds_valid (d_bounds d)
     \<and> matches namePattern (d_projectId d) \<and> matches namePattern (d_repositoryId d)
     \<and> matches objectIdPattern (d_expectedProtectedHead d) \<and> matches objectIdPattern (d_candidateCommit d)
     \<and> matches objectIdPattern (d_candidateTree d) \<and> matches revisionPattern (d_policyRevision d)
     \<and> matches revisionPattern (d_requiredReviewRevision d) \<and> matches revisionPattern (d_requiredJobSetRevision d)
     \<and> blob_valid (d_configBlob d) \<and> script_valid (d_script d) \<and> matches imagePattern (d_jobImage d)"

lemma parseBounds_valid: "parseBounds v = Some b \<Longrightarrow> bounds_valid b"
  by (auto simp: parseBounds_def opt_conv bounds_valid_def)

lemma parseBounds_json: "bounds_valid b \<Longrightarrow> parseBounds (Some (bounds_json b)) = Some b"
  using exact_JObj[of "members (bounds_json b)"]
  by (cases b) (auto simp: parseBounds_def opt_conv bounds_valid_def bounds_json_def)

interpretation bounds_codec: codec bounds_json "\<lambda>w. parseBounds (Some w)" bounds_valid
  by unfold_locales (rule parseBounds_json, assumption, rule parseBounds_valid)

lemma parseConfigBlob_valid: "parseConfigBlob v = Some b \<Longrightarrow> blob_valid b"
  by (auto simp: parseConfigBlob_def opt_conv blob_valid_def)

lemma parseConfigBlob_json: "blob_valid b \<Longrightarrow> parseConfigBlob (Some (blob_json b)) = Some b"
  using exact_JObj[of "members (blob_json b)"]
  by (cases b) (auto simp: parseConfigBlob_def opt_conv blob_valid_def blob_json_def)

lemma parseScript_valid: "parseScript v = Some s \<Longrightarrow> script_valid s"
  by (auto simp: parseScript_def opt_conv script_valid_def)

lemma parseScript_json: "script_valid s \<Longrightarrow> parseScript (Some (script_json s)) = Some s"
  using exact_JObj[of "members (script_json s)"]
  by (cases s) (auto simp: parseScript_def opt_conv script_valid_def script_json_def)

lemma exact_descriptor_json: "exact (descriptor_json d) descriptorFields"
  using exact_JObj[of "members (descriptor_json d)"] by (simp add: descriptor_json_def descriptorFields_def)

lemma parse_descriptor_valid: "parseNativeQemuDescriptor v = Some d \<Longrightarrow> descriptor_valid d"
  unfolding parseNativeQemuDescriptor_def Let_def
  by (auto simp: opt_conv descriptor_valid_def dest: parseBounds_valid parseConfigBlob_valid parseScript_valid)

lemma parse_descriptor_json: "descriptor_valid d \<Longrightarrow> parseNativeQemuDescriptor (descriptor_json d) = Some d"
  unfolding parseNativeQemuDescriptor_def Let_def opt_conv
  by (cases d) (simp add: exact_descriptor_json, simp add: descriptor_valid_def descriptor_json_def
      parseBounds_json parseConfigBlob_json parseScript_json)

interpretation descriptor_codec: codec descriptor_json parseNativeQemuDescriptor descriptor_valid
  by unfold_locales (rule parse_descriptor_json, assumption, rule parse_descriptor_valid)

lemma descriptor_fields_inject:
  assumes "descriptor_valid d" "descriptor_valid e" "descriptor_fields d = descriptor_fields e"
  shows "d = e"
proof -
  have "d_argv d = d_argv e" using assms(1,2) by (simp add: descriptor_valid_def)
  moreover have "d_schemaVersion d = d_schemaVersion e" "d_executionKind d = d_executionKind e"
    using assms(1,2) by (simp_all add: descriptor_valid_def)
  ultimately show ?thesis using assms(3)
    by (auto simp: descriptor_fields_def
        intro!: NativeQemuDescriptor.equality BlobRef.equality ScriptRef.equality QemuBounds.equality)
qed

lemma descriptor_preimage_inject:
  assumes "descriptor_valid d" "descriptor_valid e" "descriptor_preimage d = descriptor_preimage e"
  shows "d = e"
  using descriptor_fields_inject[OF assms(1,2)] netstrings_inject assms(3) by (simp add: descriptor_preimage_def)

end
