(* ===== verification/Js_Base64.thy ===== *)
theory Js_Base64
  imports Js_Json
begin

text \<open>
  Base64 as \<open>Buffer.toString("base64")\<close> writes it, and its URL alphabet without padding as
  \<open>Buffer.from(s, "base64url")\<close> reads it, on 8-bit characters. The source uses the first for the
  \<open>Basic\<close> authorization header and the second for 32-byte access tokens.
\<close>

definition alphabet :: string where
  "alphabet = ''ABCDEFGHIJKLMNOPQRSTUVWXYZabcdefghijklmnopqrstuvwxyz0123456789+/''"

definition url_alphabet :: string where
  "url_alphabet = ''ABCDEFGHIJKLMNOPQRSTUVWXYZabcdefghijklmnopqrstuvwxyz0123456789-_''"

abbreviation byte :: "char \<Rightarrow> nat" where "byte \<equiv> of_char"

fun sextets :: "nat list \<Rightarrow> nat list" where
  "sextets [] = []"
| "sextets [a] = [a div 4, (a mod 4) * 16]"
| "sextets [a, b] = [a div 4, (a mod 4) * 16 + b div 16, (b mod 16) * 4]"
| "sextets (a # b # c # r) =
     (a div 4) # ((a mod 4) * 16 + b div 16) # ((b mod 16) * 4 + c div 64) # (c mod 64) # sextets r"

fun octets :: "nat list \<Rightarrow> nat list" where
  "octets (w # x # y # z # r) =
     (w * 4 + x div 16) # ((x mod 16) * 16 + y div 4) # ((y mod 4) * 64 + z) # octets r"
| "octets [w, x, y] = [w * 4 + x div 16, (x mod 16) * 16 + y div 4]"
| "octets [w, x] = [w * 4 + x div 16]"
| "octets _ = []"

lemma octet_arith:
  fixes a b c :: nat
  assumes "b < 256" "c < 256"
  shows "a div 4 * 4 + ((a mod 4) * 16 + b div 16) div 16 = a"
    "((a mod 4) * 16 + b div 16) mod 16 * 16 + ((b mod 16) * 4 + c div 64) div 4 = b"
    "((b mod 16) * 4 + c div 64) mod 4 * 64 + c mod 64 = c"
proof -
  from assms have h: "b div 16 < 16" "c div 64 < 4" by (simp_all add: less_mult_imp_div_less)
  then show "a div 4 * 4 + ((a mod 4) * 16 + b div 16) div 16 = a"
    "((a mod 4) * 16 + b div 16) mod 16 * 16 + ((b mod 16) * 4 + c div 64) div 4 = b"
    "((b mod 16) * 4 + c div 64) mod 4 * 64 + c mod 64 = c"
    using div_mult_mod_eq[of b 16] div_mult_mod_eq[of c 64] by simp_all
qed

lemma octets_sextets: "list_all (\<lambda>b. b < 256) bs \<Longrightarrow> octets (sextets bs) = bs"
proof (induction bs rule: sextets.induct)
  case (2 a)
  show ?case using octet_arith(1)[of 0 0 a] by simp
next
  case (3 a b)
  then show ?case using octet_arith(1)[of b 0 a] octet_arith(2)[of b 0 a] by simp
next
  case (4 a b c r)
  then show ?case using octet_arith(1,2)[of b c a] octet_arith(3)[of b c] by simp
qed simp

lemma sextets_bound: "list_all (\<lambda>b. b < 256) bs \<Longrightarrow> list_all (\<lambda>x. x < 64) (sextets bs)"
  by (induction bs rule: sextets.induct) auto

definition base64 :: "string \<Rightarrow> string" where
  "base64 s = (let xs = map (\<lambda>i. alphabet ! i) (sextets (map byte s))
     in xs @ replicate ((4 - length xs mod 4) mod 4) CHR ''='')"

lemma alphabet_facts: "distinct alphabet" "length alphabet = 64" "CHR ''='' \<notin> set alphabet"
  by (simp_all add: alphabet_def)

lemma map_alphabet_inject:
  "list_all (\<lambda>x. x < 64) xs \<Longrightarrow> list_all (\<lambda>x. x < 64) ys \<Longrightarrow>
     map ((!) alphabet) xs = map ((!) alphabet) ys \<Longrightarrow> xs = ys"
  using alphabet_facts(1,2) by (intro map_inj_on[of "(!) alphabet"])
    (auto simp: inj_on_def list_all_iff nth_eq_iff_index_eq)

lemma bytes_bound: "list_all (\<lambda>b. b < 256) (map byte s)"
proof -
  have "byte c < (256::nat)" for c :: char using of_char_mod_256[of c] by (metis mod_less_divisor zero_less_numeral)
  then show ?thesis by (simp add: list_all_iff)
qed

lemma takeWhile_base64: "takeWhile (\<lambda>c. c \<noteq> CHR ''='') (base64 s) = map ((!) alphabet) (sextets (map byte s))"
proof -
  have "alphabet ! i \<noteq> CHR ''=''" if "i \<in> set (sextets (map byte s))" for i
    using that alphabet_facts(2,3) sextets_bound[OF bytes_bound, of s] by (auto simp: list_all_iff in_set_conv_nth)
  then have "\<forall>c\<in>set (map ((!) alphabet) (sextets (map byte s))). c \<noteq> CHR ''=''" by auto
  then show ?thesis by (simp add: base64_def Let_def takeWhile_append)
qed

lemma base64_inject: "base64 s = base64 t \<longleftrightarrow> s = t"
proof
  assume "base64 s = base64 t"
  then have "map ((!) alphabet) (sextets (map byte s)) = map ((!) alphabet) (sextets (map byte t))"
    by (metis takeWhile_base64)
  then have "sextets (map byte s) = sextets (map byte t)"
    by (rule map_alphabet_inject[OF sextets_bound[OF bytes_bound] sextets_bound[OF bytes_bound]])
  then have "map byte s = map byte t" by (metis octets_sextets bytes_bound)
  then show "s = t" by (metis (no_types, lifting) char_of_char list.inj_map_strong)
qed simp

section \<open>Access tokens\<close>

fun index_of :: "char \<Rightarrow> string \<Rightarrow> nat" where
  "index_of c [] = 0"
| "index_of c (d # ds) = (if c = d then 0 else Suc (index_of c ds))"

definition base64url_decode :: "string \<Rightarrow> nat list" where
  "base64url_decode s = octets (map (\<lambda>c. index_of c url_alphabet) s)"

definition base64url_encode :: "nat list \<Rightarrow> string" where
  "base64url_encode bs = map (\<lambda>i. url_alphabet ! i) (sextets bs)"

definition tokenPattern :: rexp where
  "tokenPattern = Seq (Cls (\<lambda>c. c \<in> set url_alphabet)) (Star (Cls (\<lambda>c. c \<in> set url_alphabet)))"

definition token :: "json option \<Rightarrow> string option" where
  "token v = do {
     s \<leftarrow> as_matching tokenPattern v;
     guardO (length (base64url_decode s) = 32 \<and> base64url_encode (base64url_decode s) = s);
     Some s }"

definition token_ok :: "string \<Rightarrow> bool" where
  "token_ok s \<longleftrightarrow> matches tokenPattern s \<and> length (base64url_decode s) = 32
     \<and> base64url_encode (base64url_decode s) = s"

lemma token_eq [simp]: "token v = Some s \<longleftrightarrow> v = Some (JStr s) \<and> token_ok s"
  by (auto simp: token_def opt_conv token_ok_def)

end
