(* ===== verification/Qemu_Config.thy ===== *)
theory Qemu_Config
  imports Qemu_Descriptor Js_Base64 "HOL-Library.Multiset"
begin

text \<open>
  The configuration of the QEMU scheduler (\<open>nativeQemuSchedulerConfig.ts\<close>): the parser of its
  contents and the execution authority that is stored with the database and compared at every start.
  Reading the file and checking its owner and mode is left to the file system.
\<close>

record NativeQemuCredential =
  cd_username :: string
  cd_password :: string

record NativeQemuCapacity =
  ca_capacity :: string
  ca_runnerBaseImage :: string
  ca_jobBaseImage :: string
  ca_bounds :: QemuBounds

record QemuHostEntry =
  qh_hostId :: string
  qh_hostToken :: string
  qh_capacities :: "NativeQemuCapacity list"

record NativeGitConfig =
  ng_endpoint :: string
  ng_serviceId :: string
  ng_identity :: NativeQemuCredential
  ng_attemptIssuer :: NativeQemuCredential
  ng_candidateReader :: NativeQemuCredential
  ng_resultReporter :: NativeQemuCredential

record SchedulerCredentials =
  sc_eventIntake :: NativeQemuCredential
  sc_query :: NativeQemuCredential

record NativeQemuSchedulerConfig =
  cf_schemaVersion :: int
  cf_serviceId :: string
  cf_host :: string
  cf_port :: int
  cf_database :: string
  cf_eligibilityLeaseMilliseconds :: int
  cf_claimLeaseMilliseconds :: int
  cf_nativeGit :: NativeGitConfig
  cf_credentials :: SchedulerCredentials
  cf_hosts :: "QemuHostEntry list"

definition capacity_json :: "NativeQemuCapacity \<Rightarrow> json" where
  "capacity_json entry = JObj [(''capacity'', JStr (ca_capacity entry)),
     (''runnerBaseImage'', JStr (ca_runnerBaseImage entry)), (''jobBaseImage'', JStr (ca_jobBaseImage entry)),
     (''bounds'', bounds_json (ca_bounds entry))]"

definition host_authority_json :: "QemuHostEntry \<Rightarrow> json" where
  "host_authority_json host = JObj [(''hostId'', JStr (qh_hostId host)),
     (''capacities'', JArr (map capacity_json (sort_key ca_capacity (qh_capacities host))))]"

definition nativeQemuExecutionAuthorityJson :: "QemuHostEntry list \<Rightarrow> json" where
  "nativeQemuExecutionAuthorityJson hosts = JArr (map host_authority_json (sort_key qh_hostId hosts))"

definition positive :: "json option \<Rightarrow> int option" where
  "positive v = do { i \<leftarrow> as_int v; guardO (\<not> i < 1); Some i }"

definition port :: "json option \<Rightarrow> int option" where
  "port v = do { parsed \<leftarrow> positive v; guardO (\<not> parsed > 65535); Some parsed }"

definition credential :: "json option \<Rightarrow> NativeQemuCredential option" where
  "credential v = do {
     w \<leftarrow> as_record v;
     guardO (exact w [''username'', ''password'']);
     username \<leftarrow> as_matching revisionPattern (get_field w ''username'');
     password \<leftarrow> token (get_field w ''password'');
     Some \<lparr>cd_username = username, cd_password = password\<rparr> }"

definition config_origin :: "runtime \<Rightarrow> json option \<Rightarrow> string option" where
  "config_origin rt v = do {
     s \<leftarrow> as_string v;
     url \<leftarrow> parse_url rt s;
     guardO ((url_protocol url = ''http:'' \<or> url_protocol url = ''https:'') \<and> url_origin url = s
       \<and> url_username url = '''' \<and> url_password url = '''');
     Some s }"

definition parseCapacity :: "json \<Rightarrow> NativeQemuCapacity option" where
  "parseCapacity value = do {
     guardO (exact value [''capacity'', ''runnerBaseImage'', ''jobBaseImage'', ''bounds'']);
     capacity \<leftarrow> as_matching identifierPattern (get_field value ''capacity'');
     runnerBaseImage \<leftarrow> as_matching imagePattern (get_field value ''runnerBaseImage'');
     jobBaseImage \<leftarrow> as_matching imagePattern (get_field value ''jobBaseImage'');
     bounds \<leftarrow> parseBounds (get_field value ''bounds'');
     Some \<lparr>ca_capacity = capacity, ca_runnerBaseImage = runnerBaseImage, ca_jobBaseImage = jobBaseImage,
       ca_bounds = bounds\<rparr> }"

definition parseHost :: "json \<Rightarrow> QemuHostEntry option" where
  "parseHost value = do {
     guardO (exact value [''hostId'', ''hostToken'', ''capacities'']);
     entries \<leftarrow> as_array (get_field value ''capacities'');
     guardO (length entries \<noteq> 0);
     capacities \<leftarrow> mapM parseCapacity entries;
     guardO (distinct (map ca_capacity capacities));
     hostId \<leftarrow> as_matching identifierPattern (get_field value ''hostId'');
     hostToken \<leftarrow> token (get_field value ''hostToken'');
     Some \<lparr>qh_hostId = hostId, qh_hostToken = hostToken, qh_capacities = capacities\<rparr> }"

definition credentials_of :: "NativeQemuSchedulerConfig \<Rightarrow> NativeQemuCredential list" where
  "credentials_of config = [ng_identity (cf_nativeGit config), ng_attemptIssuer (cf_nativeGit config),
     ng_candidateReader (cf_nativeGit config), ng_resultReporter (cf_nativeGit config),
     sc_eventIntake (cf_credentials config), sc_query (cf_credentials config)]"

definition config_authority :: "NativeQemuSchedulerConfig \<Rightarrow> string list" where
  "config_authority config = concat (map (\<lambda>c. [cd_username c, cd_password c]) (credentials_of config))
     @ map qh_hostToken (cf_hosts config)"

definition parseNativeQemuSchedulerConfig :: "runtime \<Rightarrow> json \<Rightarrow> NativeQemuSchedulerConfig option" where
  "parseNativeQemuSchedulerConfig rt value = do {
     guardO (exact value [''schemaVersion'', ''serviceId'', ''host'', ''port'', ''database'',
       ''eligibilityLeaseMilliseconds'', ''claimLeaseMilliseconds'', ''nativeGit'', ''credentials'', ''hosts'']);
     let root = get_field value;
     as_literal (JInt 2) (root ''schemaVersion'');
     as_literal (JStr ''qemu-main'') (root ''serviceId'');
     host \<leftarrow> as_string (root ''host'');
     guardO (length host \<noteq> 0);
     database \<leftarrow> as_string (root ''database'');
     guardO (startsWith ''/'' database \<and> database \<noteq> ''/'');
     claimLeaseMilliseconds \<leftarrow> positive (root ''claimLeaseMilliseconds'');
     guardO (\<not> claimLeaseMilliseconds < 60000);
     nativeGit \<leftarrow> as_record (root ''nativeGit'');
     guardO (exact nativeGit [''endpoint'', ''serviceId'', ''identity'', ''attemptIssuer'', ''candidateReader'',
       ''resultReporter'']);
     as_literal (JStr ''native-main'') (get_field nativeGit ''serviceId'');
     credentials \<leftarrow> as_record (root ''credentials'');
     guardO (exact credentials [''eventIntake'', ''query'']);
     entries \<leftarrow> as_array (root ''hosts'');
     guardO (length entries \<noteq> 0);
     hosts \<leftarrow> mapM parseHost entries;
     guardO (distinct (map qh_hostId hosts));
     port' \<leftarrow> port (root ''port'');
     eligibilityLeaseMilliseconds \<leftarrow> positive (root ''eligibilityLeaseMilliseconds'');
     endpoint \<leftarrow> config_origin rt (get_field nativeGit ''endpoint'');
     identity \<leftarrow> credential (get_field nativeGit ''identity'');
     attemptIssuer \<leftarrow> credential (get_field nativeGit ''attemptIssuer'');
     candidateReader \<leftarrow> credential (get_field nativeGit ''candidateReader'');
     resultReporter \<leftarrow> credential (get_field nativeGit ''resultReporter'');
     eventIntake \<leftarrow> credential (get_field credentials ''eventIntake'');
     query \<leftarrow> credential (get_field credentials ''query'');
     let parsed = \<lparr>cf_schemaVersion = 2, cf_serviceId = ''qemu-main'', cf_host = host, cf_port = port',
       cf_database = database, cf_eligibilityLeaseMilliseconds = eligibilityLeaseMilliseconds,
       cf_claimLeaseMilliseconds = claimLeaseMilliseconds,
       cf_nativeGit = \<lparr>ng_endpoint = endpoint, ng_serviceId = ''native-main'', ng_identity = identity,
         ng_attemptIssuer = attemptIssuer, ng_candidateReader = candidateReader,
         ng_resultReporter = resultReporter\<rparr>,
       cf_credentials = \<lparr>sc_eventIntake = eventIntake, sc_query = query\<rparr>, cf_hosts = hosts\<rparr>;
     guardO (distinct (config_authority parsed));
     Some parsed }"

section \<open>What an accepted configuration guarantees\<close>

lemma mapM_mem: "mapM f xs = Some ys \<Longrightarrow> y \<in> set ys \<Longrightarrow> \<exists>x\<in>set xs. f x = Some y"
  by (force simp: mapM_eq_Some list_all2_conv_all_nth in_set_conv_nth)

lemma credential_ok: "credential v = Some c \<Longrightarrow> matches revisionPattern (cd_username c) \<and> token_ok (cd_password c)"
  by (auto simp: credential_def opt_conv)

lemma config_facts:
  assumes "parseNativeQemuSchedulerConfig rt v = Some config"
  shows "distinct (config_authority config)" "distinct (map qh_hostId (cf_hosts config))"
    "cf_claimLeaseMilliseconds config \<ge> 60000" "cf_eligibilityLeaseMilliseconds config \<ge> 1"
    "\<exists>entries. mapM parseHost entries = Some (cf_hosts config)"
    "\<And>c. c \<in> set (credentials_of config) \<Longrightarrow> matches revisionPattern (cd_username c) \<and> token_ok (cd_password c)"
  using assms
  by (auto simp: parseNativeQemuSchedulerConfig_def opt_conv Let_def positive_def credentials_of_def
      dest: credential_ok)

lemma host_facts:
  assumes "parseNativeQemuSchedulerConfig rt v = Some config" "h \<in> set (cf_hosts config)"
  shows "matches identifierPattern (qh_hostId h)" "token_ok (qh_hostToken h)"
    "\<And>c. c \<in> set (qh_capacities h) \<Longrightarrow> matches identifierPattern (ca_capacity c)"
proof -
  from config_facts(5)[OF assms(1)] mapM_mem[OF _ assms(2)] obtain w where w: "parseHost w = Some h" by metis
  then show "matches identifierPattern (qh_hostId h)" "token_ok (qh_hostToken h)"
    by (auto simp: parseHost_def opt_conv)
  fix c assume "c \<in> set (qh_capacities h)"
  with w obtain u where "parseCapacity u = Some c" by (auto simp: parseHost_def opt_conv dest: mapM_mem)
  then show "matches identifierPattern (ca_capacity c)" by (auto simp: parseCapacity_def opt_conv)
qed

lemma sort_key_perm:
  assumes "distinct (map k xs)" "mset xs = mset ys"
  shows "sort_key k xs = sort_key k ys"
proof -
  have "mset (sort_key k xs) = mset (sort_key k ys)" using assms(2) by simp
  moreover have "sorted (map k (sort_key k xs))" "sorted (map k (sort_key k ys))" by simp_all
  moreover have "inj_on k (set xs)" "set (sort_key k xs) = set xs" using assms(1) by (simp_all add: distinct_map)
  ultimately show ?thesis by (metis properties_for_sort_key map_sorted_distinct_set_unique sorted_map sort_key_inj_key_eq)
qed

end
