(* ===== verification/Qemu_Host.thy ===== *)
theory Qemu_Host
  imports Qemu_Descriptor Js_Base64 Qemu_Invariant
begin

text \<open>
  The QEMU host: its connection file (\<open>nativeQemuConnection.ts\<close>), the assignment it accepts
  (\<open>nativeQemuAssignment.ts\<close>), its journal (\<open>nativeQemuHostJournalState.ts\<close>), and the loop of a
  capacity's worker (\<open>nativeQemuHostService.ts\<close>). The file operations of the journal are atomic
  replacement and removal of one file, so the journal is an optional state. What the scheduler answers,
  whether clean-up and execution succeed and what the clock shows are arguments of the loop.
\<close>

section \<open>The connection file\<close>

datatype transport = Https | LoopbackHttp

record SchedulerEndpoint =
  se_transport :: transport
  se_endpoint :: string
  se_serviceId :: string
  se_hostToken :: string

record NativeGitEndpoint =
  ne_transport :: transport
  ne_endpoint :: string
  ne_serviceId :: string

record HostCapacity =
  hc_capacity :: string
  hc_runnerBaseImage :: string
  hc_jobBaseImage :: string
  hc_cpus :: int
  hc_memoryBytes :: int
  hc_supervisorMemoryBytes :: int
  hc_pids :: int
  hc_timeoutSeconds :: int
  hc_outputBytes :: int

record NativeQemuConnection =
  nc_schemaVersion :: int
  nc_hostId :: string
  nc_generationId :: string
  nc_gitExecutable :: string
  nc_scheduler :: SchedulerEndpoint
  nc_nativeGit :: NativeGitEndpoint
  nc_capacities :: "HostCapacity list"

definition parseTransport :: "json option \<Rightarrow> transport option" where
  "parseTransport v = (if v = Some (JStr ''https'') then Some Https
     else if v = Some (JStr ''loopback-http'') then Some LoopbackHttp else None)"

definition positiveInteger :: "json option \<Rightarrow> int option" where
  "positiveInteger v = do { i \<leftarrow> as_int v; guardO (\<not> i \<le> 0); Some i }"

definition connection_origin :: "runtime \<Rightarrow> transport \<Rightarrow> json option \<Rightarrow> string option" where
  "connection_origin rt transport v = do {
     s \<leftarrow> as_string v;
     url \<leftarrow> parse_url rt s;
     guardO (s = url_origin url \<and> url_username url = '''' \<and> url_password url = ''''
       \<and> url_pathname url = ''/'' \<and> url_search url = '''' \<and> url_hash url = '''');
     guardO (transport = Https \<longrightarrow> url_protocol url = ''https:'');
     guardO (transport = LoopbackHttp \<longrightarrow> url_protocol url = ''http:''
       \<and> (url_hostname url = ''127.0.0.1'' \<or> url_hostname url = ''[::1]''));
     Some s }"

definition absolutePath :: "json option \<Rightarrow> string option" where
  "absolutePath v = do { s \<leftarrow> as_string v; guardO (startsWith ''/'' s \<and> s \<noteq> ''/''); Some s }"

definition parseHostCapacity :: "json \<Rightarrow> HostCapacity option" where
  "parseHostCapacity value = do {
     guardO (exact value [''capacity'', ''runnerBaseImage'', ''jobBaseImage'', ''cpus'', ''memoryBytes'',
       ''supervisorMemoryBytes'', ''pids'', ''timeoutSeconds'', ''outputBytes'']);
     let field = get_field value;
     memoryBytes \<leftarrow> positiveInteger (field ''memoryBytes'');
     supervisorMemoryBytes \<leftarrow> positiveInteger (field ''supervisorMemoryBytes'');
     guardO (\<not> supervisorMemoryBytes \<le> memoryBytes);
     capacity \<leftarrow> as_matching identifierPattern (field ''capacity'');
     runnerBaseImage \<leftarrow> as_matching imagePattern (field ''runnerBaseImage'');
     jobBaseImage \<leftarrow> as_matching imagePattern (field ''jobBaseImage'');
     cpus \<leftarrow> positiveInteger (field ''cpus'');
     pids \<leftarrow> positiveInteger (field ''pids'');
     timeoutSeconds \<leftarrow> positiveInteger (field ''timeoutSeconds'');
     outputBytes \<leftarrow> positiveInteger (field ''outputBytes'');
     Some \<lparr>hc_capacity = capacity, hc_runnerBaseImage = runnerBaseImage, hc_jobBaseImage = jobBaseImage,
       hc_cpus = cpus, hc_memoryBytes = memoryBytes, hc_supervisorMemoryBytes = supervisorMemoryBytes,
       hc_pids = pids, hc_timeoutSeconds = timeoutSeconds, hc_outputBytes = outputBytes\<rparr> }"

definition parseNativeQemuConnection :: "runtime \<Rightarrow> json \<Rightarrow> string \<Rightarrow> NativeQemuConnection option" where
  "parseNativeQemuConnection rt value expectedHostId = do {
     guardO (matches identifierPattern expectedHostId);
     guardO (exact value [''schemaVersion'', ''hostId'', ''generationId'', ''gitExecutable'', ''scheduler'',
       ''nativeGit'', ''capacities'']);
     let input = get_field value;
     as_literal (JInt 1) (input ''schemaVersion'');
     hostId \<leftarrow> as_matching identifierPattern (input ''hostId'');
     guardO (hostId = expectedHostId);
     scheduler \<leftarrow> as_record (input ''scheduler'');
     guardO (exact scheduler [''transport'', ''endpoint'', ''serviceId'', ''hostToken'']);
     nativeGit \<leftarrow> as_record (input ''nativeGit'');
     guardO (exact nativeGit [''transport'', ''endpoint'', ''serviceId'']);
     as_literal (JStr ''qemu-main'') (get_field scheduler ''serviceId'');
     as_literal (JStr ''native-main'') (get_field nativeGit ''serviceId'');
     transport \<leftarrow> parseTransport (get_field scheduler ''transport'');
     nativeGitTransport \<leftarrow> parseTransport (get_field nativeGit ''transport'');
     hostToken \<leftarrow> token (get_field scheduler ''hostToken'');
     entries \<leftarrow> as_array (input ''capacities'');
     guardO (length entries \<noteq> 0);
     capacities \<leftarrow> mapM parseHostCapacity entries;
     guardO (distinct (map hc_capacity capacities));
     generationId \<leftarrow> as_matching hex64Pattern (input ''generationId'');
     gitExecutable \<leftarrow> absolutePath (input ''gitExecutable'');
     endpoint \<leftarrow> connection_origin rt transport (get_field scheduler ''endpoint'');
     nativeGitEndpoint \<leftarrow> connection_origin rt nativeGitTransport (get_field nativeGit ''endpoint'');
     Some \<lparr>nc_schemaVersion = 1, nc_hostId = expectedHostId, nc_generationId = generationId,
       nc_gitExecutable = gitExecutable,
       nc_scheduler = \<lparr>se_transport = transport, se_endpoint = endpoint, se_serviceId = ''qemu-main'',
         se_hostToken = hostToken\<rparr>,
       nc_nativeGit = \<lparr>ne_transport = nativeGitTransport, ne_endpoint = nativeGitEndpoint,
         ne_serviceId = ''native-main''\<rparr>,
       nc_capacities = capacities\<rparr> }"

section \<open>The assignment\<close>

record HostAttempt =
  ha_attemptId :: string
  ha_descriptorDigest :: string
  ha_descriptor :: NativeQemuDescriptor

record NativeQemuHostAssignment =
  hs_claim :: NativeQemuClaim
  hs_attempt :: HostAttempt

definition claimFields :: "string list" where
  "claimFields = [''claimId'', ''requestId'', ''hostId'', ''capacity'', ''admissionGeneration'',
     ''leaseExpiresAt'', ''event'']"

definition attemptFields :: "string list" where
  "attemptFields = [''attemptId'', ''descriptorDigest'', ''descriptor'']"

definition descriptor_matches_event ::
  "runtime \<Rightarrow> NativeQemuDescriptor \<Rightarrow> string \<Rightarrow> string \<Rightarrow> NativeQemuReviewEvent \<Rightarrow> bool" where
  "descriptor_matches_event rt descriptor descriptorDigest admissionGeneration event \<longleftrightarrow>
     nativeQemuDescriptorDigest rt descriptor = descriptorDigest
     \<and> d_admissionGeneration descriptor = admissionGeneration \<and> d_jobName descriptor = ev_jobName event
     \<and> d_projectId descriptor = ev_projectId event \<and> d_repositoryId descriptor = ev_repositoryId event
     \<and> d_protectedRef descriptor = ev_protectedRef event
     \<and> d_expectedProtectedHead descriptor = ev_expectedProtectedHead event
     \<and> d_candidateCommit descriptor = ev_candidateCommit event
     \<and> d_candidateTree descriptor = ev_candidateTree event
     \<and> d_policyRevision descriptor = ev_policyRevision event
     \<and> d_requiredReviewRevision descriptor = ev_requiredReviewRevision event
     \<and> d_requiredJobSetRevision descriptor = ev_qualityRevision event
     \<and> d_evidenceClass descriptor = ev_evidenceClass event"

definition string_of_int :: "int \<Rightarrow> string" where
  "string_of_int i = (if i < 0 then ''-'' @ dec (nat (- i)) else dec (nat i))"

definition descriptor_matches_capacity :: "NativeQemuDescriptor \<Rightarrow> HostCapacity \<Rightarrow> bool" where
  "descriptor_matches_capacity descriptor capacity \<longleftrightarrow>
     d_runnerBaseImage descriptor = hc_runnerBaseImage capacity \<and> d_jobImage descriptor = hc_jobBaseImage capacity
     \<and> bd_cpu (d_bounds descriptor) = string_of_int (hc_cpus capacity)
     \<and> bd_memoryBytes (d_bounds descriptor) = string_of_int (hc_memoryBytes capacity)
     \<and> bd_pids (d_bounds descriptor) = string_of_int (hc_pids capacity)
     \<and> bd_wallClockSeconds (d_bounds descriptor) = string_of_int (hc_timeoutSeconds capacity)
     \<and> bd_outputBytes (d_bounds descriptor) = string_of_int (hc_outputBytes capacity)"

definition parseNativeQemuHostAssignment ::
  "runtime \<Rightarrow> json \<Rightarrow> NativeQemuConnection \<Rightarrow> string \<Rightarrow> string \<Rightarrow> NativeQemuHostAssignment option" where
  "parseNativeQemuHostAssignment rt value connection expectedCapacity expectedRequestId = do {
     guardO (exact value [''schemaVersion'', ''serviceId'', ''claim'', ''attempt'']);
     as_literal (JInt 1) (get_field value ''schemaVersion'');
     as_literal (JStr ''qemu-main'') (get_field value ''serviceId'');
     claim \<leftarrow> as_record (get_field value ''claim'');
     guardO (exact claim claimFields);
     eventValue \<leftarrow> get_field claim ''event'';
     event \<leftarrow> parseNativeQemuReviewEvent rt eventValue;
     capacity \<leftarrow> find_row (\<lambda>entry. hc_capacity entry = expectedCapacity) (nc_capacities connection);
     claimId \<leftarrow> as_matching uuidPattern (get_field claim ''claimId'');
     as_literal (JStr expectedRequestId) (get_field claim ''requestId'');
     as_literal (JStr (nc_hostId connection)) (get_field claim ''hostId'');
     as_literal (JStr expectedCapacity) (get_field claim ''capacity'');
     leaseExpiresAt \<leftarrow> as_int (get_field claim ''leaseExpiresAt'');
     attempt \<leftarrow> as_record (get_field value ''attempt'');
     guardO (exact attempt attemptFields);
     descriptorValue \<leftarrow> get_field attempt ''descriptor'';
     descriptor \<leftarrow> parseNativeQemuDescriptor descriptorValue;
     descriptorDigest \<leftarrow> as_matching digestPattern (get_field attempt ''descriptorDigest'');
     admissionGeneration \<leftarrow> as_string (get_field claim ''admissionGeneration'');
     guardO (descriptor_matches_event rt descriptor descriptorDigest admissionGeneration event);
     guardO (descriptor_matches_capacity descriptor capacity);
     attemptId \<leftarrow> as_matching uuidPattern (get_field attempt ''attemptId'');
     Some \<lparr>hs_claim = \<lparr>cl_claimId = claimId, cl_requestId = expectedRequestId, cl_hostId = nc_hostId connection,
         cl_capacity = expectedCapacity, cl_admissionGeneration = admissionGeneration,
         cl_leaseExpiresAt = leaseExpiresAt, cl_event = event\<rparr>,
       hs_attempt = \<lparr>ha_attemptId = attemptId, ha_descriptorDigest = descriptorDigest,
         ha_descriptor = descriptor\<rparr>\<rparr> }"

definition terminalEventMatchesClaim ::
  "NativeQemuTerminalEvent \<Rightarrow> NativeQemuClaim \<Rightarrow> NativeQemuAttempt \<Rightarrow> bool" where
  "terminalEventMatchesClaim event claim attempt \<longleftrightarrow>
     tp_reviewId (te_payload event) = ev_reviewId (cl_event claim)
     \<and> tp_attemptId (te_payload event) = at_attemptId attempt
     \<and> tp_descriptorDigest (te_payload event) = at_descriptorDigest attempt
     \<and> tp_hostId (te_payload event) = cl_hostId claim \<and> tp_capacity (te_payload event) = cl_capacity claim
     \<and> deep_eq (tp_descriptor (te_payload event)) (at_descriptor attempt)"

section \<open>The journal\<close>

datatype NativeQemuHostJournalState =
    JClaim string
  | JActive NativeQemuHostAssignment
  | JResult string NativeQemuTerminalEvent

definition parseJournalAssignment :: "runtime \<Rightarrow> json \<Rightarrow> NativeQemuHostAssignment option" where
  "parseJournalAssignment rt assigned = do {
     guardO (exact assigned [''claim'', ''attempt'']);
     claim \<leftarrow> as_record (get_field assigned ''claim'');
     attempt \<leftarrow> as_record (get_field assigned ''attempt'');
     guardO (exact_keys claim claimFields);
     claimId \<leftarrow> as_matching uuidPattern (get_field claim ''claimId'');
     requestId \<leftarrow> as_matching uuidPattern (get_field claim ''requestId'');
     hostId \<leftarrow> as_matching identifierPattern (get_field claim ''hostId'');
     capacity \<leftarrow> as_matching identifierPattern (get_field claim ''capacity'');
     admissionGeneration \<leftarrow> as_matching generationPattern (get_field claim ''admissionGeneration'');
     leaseExpiresAt \<leftarrow> as_int (get_field claim ''leaseExpiresAt'');
     eventValue \<leftarrow> get_field claim ''event'';
     event \<leftarrow> parseNativeQemuReviewEvent rt eventValue;
     attemptId \<leftarrow> as_matching uuidPattern (get_field attempt ''attemptId'');
     descriptorDigest \<leftarrow> as_matching digestPattern (get_field attempt ''descriptorDigest'');
     descriptorValue \<leftarrow> get_field attempt ''descriptor'';
     descriptor \<leftarrow> parseNativeQemuDescriptor descriptorValue;
     guardO (descriptor_matches_event rt descriptor descriptorDigest admissionGeneration event);
     Some \<lparr>hs_claim = \<lparr>cl_claimId = claimId, cl_requestId = requestId, cl_hostId = hostId,
         cl_capacity = capacity, cl_admissionGeneration = admissionGeneration,
         cl_leaseExpiresAt = leaseExpiresAt, cl_event = event\<rparr>,
       hs_attempt = \<lparr>ha_attemptId = attemptId, ha_descriptorDigest = descriptorDigest,
         ha_descriptor = descriptor\<rparr>\<rparr> }"

definition parseNativeQemuHostJournalState :: "runtime \<Rightarrow> json \<Rightarrow> NativeQemuHostJournalState option" where
  "parseNativeQemuHostJournalState rt value = do {
     guardO (is_record value);
     as_literal (JInt 1) (get_field value ''schemaVersion'');
     let kind = get_field value ''kind'';
     if kind = Some (JStr ''claim'') then do {
       guardO (exact_keys value [''schemaVersion'', ''kind'', ''requestId'']);
       requestId \<leftarrow> as_matching uuidPattern (get_field value ''requestId'');
       Some (JClaim requestId) }
     else if kind = Some (JStr ''active'') then do {
       guardO (exact_keys value [''schemaVersion'', ''kind'', ''assignment'']);
       assigned \<leftarrow> as_record (get_field value ''assignment'');
       parsed \<leftarrow> parseJournalAssignment rt assigned;
       Some (JActive parsed) }
     else if kind = Some (JStr ''result'') then do {
       guardO (exact_keys value [''schemaVersion'', ''kind'', ''claimId'', ''terminalEvent'']);
       claimId \<leftarrow> as_matching uuidPattern (get_field value ''claimId'');
       eventValue \<leftarrow> get_field value ''terminalEvent'';
       terminalEvent \<leftarrow> parseNativeQemuTerminalEvent rt eventValue;
       Some (JResult claimId terminalEvent) }
     else None }"

definition claim_json :: "NativeQemuClaim \<Rightarrow> json" where
  "claim_json c = JObj [(''claimId'', JStr (cl_claimId c)), (''requestId'', JStr (cl_requestId c)),
     (''hostId'', JStr (cl_hostId c)), (''capacity'', JStr (cl_capacity c)),
     (''admissionGeneration'', JStr (cl_admissionGeneration c)), (''leaseExpiresAt'', JInt (cl_leaseExpiresAt c)),
     (''event'', event_json_of (cl_event c))]"

definition host_attempt_json :: "HostAttempt \<Rightarrow> json" where
  "host_attempt_json a = JObj [(''attemptId'', JStr (ha_attemptId a)),
     (''descriptorDigest'', JStr (ha_descriptorDigest a)), (''descriptor'', descriptor_json (ha_descriptor a))]"

definition assignment_json :: "NativeQemuHostAssignment \<Rightarrow> json" where
  "assignment_json a = JObj [(''claim'', claim_json (hs_claim a)), (''attempt'', host_attempt_json (hs_attempt a))]"

fun journal_json :: "NativeQemuHostJournalState \<Rightarrow> json" where
  "journal_json (JClaim requestId) =
     JObj [(''schemaVersion'', JInt 1), (''kind'', JStr ''claim''), (''requestId'', JStr requestId)]"
| "journal_json (JActive assigned) =
     JObj [(''schemaVersion'', JInt 1), (''kind'', JStr ''active''), (''assignment'', assignment_json assigned)]"
| "journal_json (JResult claimId terminalEvent) =
     JObj [(''schemaVersion'', JInt 1), (''kind'', JStr ''result''), (''claimId'', JStr claimId),
       (''terminalEvent'', terminal_json terminalEvent)]"

definition assignment_valid :: "runtime \<Rightarrow> NativeQemuHostAssignment \<Rightarrow> bool" where
  "assignment_valid rt a \<longleftrightarrow> (let c = hs_claim a; t = hs_attempt a in
     matches uuidPattern (cl_claimId c) \<and> matches uuidPattern (cl_requestId c)
     \<and> matches identifierPattern (cl_hostId c) \<and> matches identifierPattern (cl_capacity c)
     \<and> matches generationPattern (cl_admissionGeneration c) \<and> safe_integer (cl_leaseExpiresAt c)
     \<and> event_valid rt (cl_event c) \<and> matches uuidPattern (ha_attemptId t)
     \<and> matches digestPattern (ha_descriptorDigest t) \<and> descriptor_valid (ha_descriptor t)
     \<and> descriptor_matches_event rt (ha_descriptor t) (ha_descriptorDigest t) (cl_admissionGeneration c) (cl_event c))"

fun journal_valid :: "runtime \<Rightarrow> NativeQemuHostJournalState \<Rightarrow> bool" where
  "journal_valid rt (JClaim requestId) = matches uuidPattern requestId"
| "journal_valid rt (JActive assigned) = assignment_valid rt assigned"
| "journal_valid rt (JResult claimId terminalEvent) = (matches uuidPattern claimId \<and> terminal_valid rt terminalEvent)"

lemma exact_claim_json: "exact (claim_json c) claimFields" "exact_keys (claim_json c) claimFields"
  using exact_JObj[of "members (claim_json c)"] by (simp_all add: claim_json_def claimFields_def exact_def)

lemma exact_assignment_json: "exact (assignment_json a) [''claim'', ''attempt'']"
  using exact_JObj[of "members (assignment_json a)"] by (simp add: assignment_json_def)

lemma records_json [simp]:
  "is_record (claim_json c)" "is_record (host_attempt_json t)" "is_record (assignment_json a)"
  by (simp_all add: claim_json_def host_attempt_json_def assignment_json_def)

lemma parse_journal_assignment_valid: "parseJournalAssignment rt v = Some a \<Longrightarrow> assignment_valid rt a"
  by (auto simp: parseJournalAssignment_def opt_conv assignment_valid_def Let_def
      dest: parse_event_valid parse_descriptor_valid)

lemma assignment_fields:
  "get_field (assignment_json a) ''claim'' = Some (claim_json (hs_claim a))"
  "get_field (assignment_json a) ''attempt'' = Some (host_attempt_json (hs_attempt a))"
  by (simp_all add: assignment_json_def)

lemma claim_fields:
  "get_field (claim_json c) ''claimId'' = Some (JStr (cl_claimId c))"
  "get_field (claim_json c) ''requestId'' = Some (JStr (cl_requestId c))"
  "get_field (claim_json c) ''hostId'' = Some (JStr (cl_hostId c))"
  "get_field (claim_json c) ''capacity'' = Some (JStr (cl_capacity c))"
  "get_field (claim_json c) ''admissionGeneration'' = Some (JStr (cl_admissionGeneration c))"
  "get_field (claim_json c) ''leaseExpiresAt'' = Some (JInt (cl_leaseExpiresAt c))"
  "get_field (claim_json c) ''event'' = Some (event_json_of (cl_event c))"
  by (simp_all add: claim_json_def)

lemma host_attempt_fields:
  "get_field (host_attempt_json t) ''attemptId'' = Some (JStr (ha_attemptId t))"
  "get_field (host_attempt_json t) ''descriptorDigest'' = Some (JStr (ha_descriptorDigest t))"
  "get_field (host_attempt_json t) ''descriptor'' = Some (descriptor_json (ha_descriptor t))"
  by (simp_all add: host_attempt_json_def)

lemma parse_journal_assignment_json:
  "assignment_valid rt a \<Longrightarrow> parseJournalAssignment rt (assignment_json a) = Some a"
  unfolding parseJournalAssignment_def opt_conv
  by (simp add: assignment_fields claim_fields host_attempt_fields exact_assignment_json exact_claim_json
      assignment_valid_def Let_def parse_event_json parse_descriptor_json)

lemma parse_journal_valid: "parseNativeQemuHostJournalState rt v = Some s \<Longrightarrow> journal_valid rt s"
  by (auto simp: parseNativeQemuHostJournalState_def opt_conv Let_def split: if_splits
      dest: parse_journal_assignment_valid parse_terminal_valid)

lemma parse_journal_json: "journal_valid rt s \<Longrightarrow> parseNativeQemuHostJournalState rt (journal_json s) = Some s"
  by (cases s) (simp_all add: parseNativeQemuHostJournalState_def opt_conv exact_keys_def has_own_def
      parse_journal_assignment_json parse_terminal_json)

interpretation journal_codec: codec journal_json "parseNativeQemuHostJournalState rt" "journal_valid rt" for rt
  by unfold_locales (rule parse_journal_json, assumption, rule parse_journal_valid)

end
