(* ===== verification/Qemu_Safety.thy ===== *)
theory Qemu_Safety
  imports Qemu_Invariant
begin

text \<open>
  Every operation of the scheduler store keeps the invariant. Three lemmas carry the proofs: a claim
  and its event move together (\<open>inv_move\<close>), reserved claims disappear together with the
  reservation of their events (\<open>inv_delete\<close>), and a result and its outbox row appear together
  (\<open>inv_result\<close>).
\<close>

lemma db_invD:
  assumes "db_inv rt db"
  shows "keys_ok db" "fence_ok db" "eligibility_ok db" "events_ok rt db" "claims_ok rt db" "linked db"
    "outbox_ok rt db" "results_ok db"
  using assms by (simp_all add: db_inv_def)

lemma keysD:
  assumes "db_inv rt db"
  shows "unique_by el_project_id (db_eligibility db)" "unique_by el_eligibility_generation (db_eligibility db)"
    "unique_by er_event_id (db_events db)" "unique_by cr_claim_id (db_claims db)"
    "unique_by cr_request_id (db_claims db)" "unique_by cr_event_id (db_claims db)"
    "unique_by ob_claim_id (db_outbox db)"
  using db_invD(1)[OF assms] by (simp_all add: keys_ok_def)

lemma claim_ok: "db_inv rt db \<Longrightarrow> c \<in> set (db_claims db) \<Longrightarrow> claim_row_ok rt c"
  using db_invD(5) by (auto simp: claims_ok_def)

lemma event_of_claim:
  assumes "db_inv rt db" "c \<in> set (db_claims db)"
  obtains e where "e \<in> set (db_events db)" "er_event_id e = cr_event_id c"
    "er_state e = claim_event (cr_state c)" "event_row_ok rt e"
    "find_row (\<lambda>e. er_event_id e = cr_event_id c) (db_events db) = Some e"
proof -
  from db_invD(6)[OF assms(1)] assms(2) obtain e where e: "e \<in> set (db_events db)"
      "er_event_id e = cr_event_id c" "er_state e = claim_event (cr_state c)"
    by (auto simp: linked_def)
  moreover have "event_row_ok rt e" using db_invD(4)[OF assms(1)] e(1) by (auto simp: events_ok_def)
  moreover have "find_row (\<lambda>e. er_event_id e = cr_event_id c) (db_events db) = Some e"
    using find_row_unique[OF keysD(3)[OF assms(1)] e(1)] e(2) by simp
  ultimately show thesis by (rule that)
qed

lemma find_claim:
  assumes "db_inv rt db" "find_row (\<lambda>c. cr_claim_id c = k) (db_claims db) = Some c"
  shows "c \<in> set (db_claims db)" "cr_claim_id c = k"
  using find_row_Some[OF assms(2)] by auto

section \<open>A claim and its event move together\<close>

lemma set_event_state_fields [simp]:
  "db_claims (set_event_state i st db) = db_claims db" "db_outbox (set_event_state i st db) = db_outbox db"
  "db_eligibility (set_event_state i st db) = db_eligibility db"
  "db_metadata (set_event_state i st db) = db_metadata db"
  by (simp_all add: set_event_state_def)

lemma set_event_state_events:
  assumes "unique_by er_event_id (db_events db)" "e \<in> set (db_events db)"
  shows "set (db_events (set_event_state (er_event_id e) st db)) =
      insert (e\<lparr>er_state := st\<rparr>) (set (db_events db) - {e})"
    and "map er_event_id (db_events (set_event_state (er_event_id e) st db)) = map er_event_id (db_events db)"
proof -
  have "db_events (set_event_state (er_event_id e) st db) =
      update_rows (\<lambda>x. er_event_id x = er_event_id e) (\<lambda>_. e\<lparr>er_state := st\<rparr>) (db_events db)"
    unfolding set_event_state_def using update_rows_unique[OF assms, of "\<lambda>x. er_event_id x = er_event_id e"]
    by simp
  then show "set (db_events (set_event_state (er_event_id e) st db)) =
      insert (e\<lparr>er_state := st\<rparr>) (set (db_events db) - {e})"
    "map er_event_id (db_events (set_event_state (er_event_id e) st db)) = map er_event_id (db_events db)"
    using set_replace_row[OF assms] map_replace_row[OF assms, of er_event_id "e\<lparr>er_state := st\<rparr>"] by simp_all
qed

lemma set_event_state_same:
  assumes "db_inv rt db" "c \<in> set (db_claims db)"
  shows "set_event_state (cr_event_id c) (claim_event (cr_state c)) db = db"
proof -
  from event_of_claim[OF assms] obtain e where e: "e \<in> set (db_events db)" "er_event_id e = cr_event_id c"
    "er_state e = claim_event (cr_state c)" by metis
  have "(if er_event_id x = cr_event_id c then x\<lparr>er_state := claim_event (cr_state c)\<rparr> else x) = x"
    if "x \<in> set (db_events db)" for x
    using unique_by_eq[OF keysD(3)[OF assms(1)] that e(1)] e by auto
  then have "update_rows (\<lambda>e. er_event_id e = cr_event_id c) (\<lambda>e. e\<lparr>er_state := claim_event (cr_state c)\<rparr>)
      (db_events db) = db_events db"
    unfolding update_rows_def by (simp add: map_idI)
  then show ?thesis by (simp add: set_event_state_def)
qed

lemma event_row_ok_state [simp]: "event_row_ok rt (e\<lparr>er_state := st\<rparr>) = event_row_ok rt e"
  by (simp add: event_row_ok_def)

definition replace_claim :: "claim_row \<Rightarrow> claim_row \<Rightarrow> scheduler_db \<Rightarrow> scheduler_db" where
  "replace_claim c c' db =
     db\<lparr>db_claims := update_rows (\<lambda>x. cr_claim_id x = cr_claim_id c) (\<lambda>_. c') (db_claims db)\<rparr>"

lemma replace_claim_fields [simp]:
  "db_events (replace_claim c c' db) = db_events db" "db_outbox (replace_claim c c' db) = db_outbox db"
  "db_eligibility (replace_claim c c' db) = db_eligibility db"
  "db_metadata (replace_claim c c' db) = db_metadata db"
  by (simp_all add: replace_claim_def)

lemma replace_claim_set:
  assumes "db_inv rt db" "c \<in> set (db_claims db)"
  shows "set (db_claims (replace_claim c c' db)) = insert c' (set (db_claims db) - {c})"
    and "k c' = k c \<Longrightarrow> map k (db_claims (replace_claim c c' db)) = map k (db_claims db)"
  using set_replace_row[OF keysD(4)[OF assms(1)] assms(2)] map_replace_row[OF keysD(4)[OF assms(1)] assms(2)]
  by (simp_all add: replace_claim_def)

lemma inv_move:
  assumes inv: "db_inv rt db" and c: "c \<in> set (db_claims db)"
    and ids: "cr_claim_id c' = cr_claim_id c" "cr_request_id c' = cr_request_id c"
      "cr_event_id c' = cr_event_id c" "cr_host_id c' = cr_host_id c" "cr_capacity c' = cr_capacity c"
    and op: "open_claim c' \<Longrightarrow> open_claim c" and ok: "claim_row_ok rt c'"
    and res: "cr_result_json c' = cr_result_json c"
    and fin: "cr_state c = CCompleted \<Longrightarrow> cr_state c' = CCompleted"
  shows "db_inv rt (set_event_state (cr_event_id c) (claim_event (cr_state c')) (replace_claim c c' db))"
    (is "db_inv rt ?d")
proof -
  from event_of_claim[OF inv c] obtain e where e: "e \<in> set (db_events db)" "er_event_id e = cr_event_id c"
    "event_row_ok rt e" by metis
  have ev: "set (db_events ?d) = insert (e\<lparr>er_state := claim_event (cr_state c')\<rparr>) (set (db_events db) - {e})"
    "map er_event_id (db_events ?d) = map er_event_id (db_events db)"
    using set_event_state_events[of "replace_claim c c' db" e] keysD(3)[OF inv] e by simp_all
  have cl: "set (db_claims ?d) = insert c' (set (db_claims db) - {c})"
    using replace_claim_set(1)[OF inv c] by simp
  note rest = set_event_state_fields(2-4) replace_claim_fields(2-4)
  have "keys_ok ?d"
    using keysD[OF inv] ev(2) replace_claim_set(2)[OF inv c, of cr_claim_id c'] ids
      replace_claim_set(2)[OF inv c, of cr_request_id c'] replace_claim_set(2)[OF inv c, of cr_event_id c']
    by (simp add: keys_ok_def)
  moreover have "fence_ok ?d"
    unfolding fence_ok_def cl using db_invD(2)[OF inv] c op ids by (auto simp: fence_ok_def)
  moreover have "eligibility_ok ?d" using db_invD(3)[OF inv] by (simp add: eligibility_ok_def)
  moreover have "events_ok rt ?d"
    unfolding events_ok_def ev using db_invD(4)[OF inv] e(1) by (auto simp: events_ok_def)
  moreover have "claims_ok rt ?d"
    unfolding claims_ok_def cl using db_invD(5)[OF inv] ok by (auto simp: claims_ok_def)
  moreover have "linked ?d"
    unfolding linked_def cl
  proof
    fix d assume d: "d \<in> insert c' (set (db_claims db) - {c})"
    show "\<exists>x\<in>set (db_events ?d). er_event_id x = cr_event_id d \<and> er_state x = claim_event (cr_state d)"
    proof (cases "d = c'")
      case True
      then show ?thesis unfolding ev using e(2) ids(3) by auto
    next
      case False
      with d have d': "d \<in> set (db_claims db)" "d \<noteq> c" by auto
      then have "cr_event_id d \<noteq> cr_event_id c" using unique_by_eq[OF keysD(6)[OF inv]] c by blast
      moreover obtain x where "x \<in> set (db_events db)" "er_event_id x = cr_event_id d"
        "er_state x = claim_event (cr_state d)" using event_of_claim[OF inv d'(1)] by metis
      ultimately show ?thesis unfolding ev using e(2) by auto
    qed
  qed
  moreover have "outbox_ok rt ?d"
    unfolding outbox_ok_def cl rest
  proof (intro ballI conjI)
    fix b assume b: "b \<in> set (db_outbox db)"
    with db_invD(7)[OF inv] show "outbox_row_ok rt b" by (auto simp: outbox_ok_def)
    from b db_invD(7)[OF inv] obtain x where x: "x \<in> set (db_claims db)" "cr_claim_id x = ob_claim_id b"
      "cr_result_json x \<noteq> None" "ob_state b = Delivered \<longrightarrow> cr_state x = CCompleted"
      by (auto simp: outbox_ok_def)
    show "\<exists>x\<in>insert c' (set (db_claims db) - {c}). cr_claim_id x = ob_claim_id b \<and>
        cr_result_json x \<noteq> None \<and> (ob_state b = Delivered \<longrightarrow> cr_state x = CCompleted)"
      using x ids(1) res fin by (cases "x = c") auto
  qed
  moreover have "results_ok ?d"
    unfolding results_ok_def cl rest using db_invD(8)[OF inv] c ids(1) res by (auto simp: results_ok_def)
  ultimately show ?thesis by (simp add: db_inv_def)
qed

lemma inv_replace:
  assumes "db_inv rt db" "c \<in> set (db_claims db)"
    "cr_claim_id c' = cr_claim_id c" "cr_request_id c' = cr_request_id c" "cr_event_id c' = cr_event_id c"
    "cr_host_id c' = cr_host_id c" "cr_capacity c' = cr_capacity c" "cr_state c' = cr_state c"
    "claim_row_ok rt c'" "cr_result_json c' = cr_result_json c"
  shows "db_inv rt (replace_claim c c' db)"
proof -
  have "set_event_state (cr_event_id c) (claim_event (cr_state c')) (replace_claim c c' db) =
      replace_claim c c' (set_event_state (cr_event_id c) (claim_event (cr_state c)) db)"
    by (simp add: set_event_state_def replace_claim_def assms(8))
  also have "\<dots> = replace_claim c c' db" by (simp add: set_event_state_same[OF assms(1,2)])
  finally show ?thesis
    using inv_move[OF assms(1-7) _ assms(9,10)] assms(8) by (simp add: open_claim_def)
qed

section \<open>Operations on one claim\<close>

lemma activate_cases:
  assumes inv: "db_inv rt db" and step: "activate now claimId attempt db = Inr db'"
  obtains c where "c \<in> set (db_claims db)" "cr_claim_id c = claimId" "cr_state c = CReserved"
    "cr_lease_expires_at c > now"
    "db' = set_event_state (cr_event_id c) Active (replace_claim c (c\<lparr>cr_state := CActive,
       cr_attempt_id := Some (at_attemptId attempt), cr_descriptor_digest := Some (at_descriptorDigest attempt),
       cr_attempt_json := Some (attempt_json_of attempt)\<rparr>) db)"
proof -
  let ?P = "\<lambda>c. cr_claim_id c = claimId \<and> cr_state c = CReserved \<and> cr_lease_expires_at c > now"
  let ?f = "\<lambda>c. c\<lparr>cr_state := CActive, cr_attempt_id := Some (at_attemptId attempt),
     cr_descriptor_digest := Some (at_descriptorDigest attempt), cr_attempt_json := Some (attempt_json_of attempt)\<rparr>"
  from step have one: "count_rows ?P (db_claims db) = 1"
    by (simp add: activate_def Let_def split: if_splits)
  obtain c where c: "c \<in> set (db_claims db)" "?P c"
    "update_rows ?P ?f (db_claims db) = update_rows (\<lambda>x. cr_claim_id x = claimId) (\<lambda>_. ?f c) (db_claims db)"
    using count_rows_1_find[OF keysD(4)[OF inv] one, of claimId ?f] by auto
  let ?rows = "update_rows (\<lambda>x. cr_claim_id x = claimId) (\<lambda>_. ?f c) (db_claims db)"
  have u: "unique_by cr_claim_id ?rows" "?f c \<in> set ?rows"
    using map_replace_row[OF keysD(4)[OF inv] c(1), of cr_claim_id "?f c"] keysD(4)[OF inv] c(2)
      set_replace_row[OF keysD(4)[OF inv] c(1), of "?f c"] by auto
  have "find_row (\<lambda>x. cr_claim_id x = claimId) ?rows = Some (?f c)"
    using find_row_unique[OF u] c(2) by simp
  with step one c(2,3) have "db' = set_event_state (cr_event_id c) Active (replace_claim c (?f c) db)"
    by (auto simp: activate_def Let_def replace_claim_def split: option.splits)
  with c that show thesis by blast
qed

lemma activate_inv:
  assumes inv: "db_inv rt db" and step: "activate now claimId attempt db = Inr db'" and ok: "attempt_ok attempt"
  shows "db_inv rt db'"
proof -
  from activate_cases[OF inv step] obtain c where c: "c \<in> set (db_claims db)" "cr_state c = CReserved"
    and db': "db' = set_event_state (cr_event_id c) Active (replace_claim c (c\<lparr>cr_state := CActive,
       cr_attempt_id := Some (at_attemptId attempt), cr_descriptor_digest := Some (at_descriptorDigest attempt),
       cr_attempt_json := Some (attempt_json_of attempt)\<rparr>) db)" (is "_ = set_event_state _ _ (replace_claim c ?c' db)")
    by metis
  have "claim_row_ok rt ?c'"
    using claim_ok[OF inv c(1)] c(2) ok
    by (auto simp: claim_row_ok_def has_attempt_def split: option.splits)
  from inv_move[OF inv c(1) _ _ _ _ _ _ this] c(2) show ?thesis
    by (simp add: db' open_claim_def)
qed

lemma renew_cases:
  assumes inv: "db_inv rt db" and step: "renew now1 now2 claimId hostId cap lease db = Inr (t, db')"
  obtains c where "c \<in> set (db_claims db)" "cr_claim_id c = claimId" "cr_host_id c = hostId"
    "cr_capacity c = cap" "cr_state c = CActive" "cr_lease_expires_at c > now2" "t = now1 + lease"
    "db' = replace_claim c (c\<lparr>cr_lease_expires_at := t\<rparr>) db"
proof -
  let ?P = "\<lambda>c. cr_claim_id c = claimId \<and> cr_host_id c = hostId \<and> cr_capacity c = cap
     \<and> cr_state c = CActive \<and> cr_lease_expires_at c > now2"
  from step have one: "count_rows ?P (db_claims db) = 1" and t: "t = now1 + lease"
    and db': "db' = db\<lparr>db_claims := update_rows ?P (\<lambda>c. c\<lparr>cr_lease_expires_at := t\<rparr>) (db_claims db)\<rparr>"
    by (auto simp: renew_def Let_def split: if_splits)
  obtain c where c: "c \<in> set (db_claims db)" "?P c"
    "update_rows ?P (\<lambda>c. c\<lparr>cr_lease_expires_at := t\<rparr>) (db_claims db) =
       update_rows (\<lambda>x. cr_claim_id x = claimId) (\<lambda>_. c\<lparr>cr_lease_expires_at := t\<rparr>) (db_claims db)"
    using count_rows_1_find[OF keysD(4)[OF inv] one, of claimId "\<lambda>c. c\<lparr>cr_lease_expires_at := t\<rparr>"] by auto
  then have "db' = replace_claim c (c\<lparr>cr_lease_expires_at := t\<rparr>) db"
    using db' by (simp add: replace_claim_def)
  with c t that show thesis by blast
qed

lemma renew_inv:
  assumes inv: "db_inv rt db" and step: "renew now1 now2 claimId hostId cap lease db = Inr (t, db')"
    and safe: "safe_integer (now1 + lease)"
  shows "db_inv rt db'"
proof -
  from renew_cases[OF inv step] obtain c where c: "c \<in> set (db_claims db)"
    and db': "db' = replace_claim c (c\<lparr>cr_lease_expires_at := now1 + lease\<rparr>) db" by metis
  have "claim_row_ok rt (c\<lparr>cr_lease_expires_at := now1 + lease\<rparr>)"
    using claim_ok[OF inv c] safe
    by (auto simp: claim_row_ok_def no_attempt_def has_attempt_def split: option.splits)
  from inv_replace[OF inv c _ _ _ _ _ _ this] show ?thesis by (simp add: db')
qed

text \<open>Completing a claim, as \<open>acknowledgeResult\<close> and \<open>recover\<close> do.\<close>

lemma set_claim_state_replace:
  assumes "db_inv rt db" "c \<in> set (db_claims db)"
  shows "set_claim_state (cr_claim_id c) st db = replace_claim c (c\<lparr>cr_state := st\<rparr>) db"
  unfolding set_claim_state_def replace_claim_def
  using update_rows_unique[OF keysD(4)[OF assms(1)] assms(2), of "\<lambda>x. cr_claim_id x = cr_claim_id c"] by simp

lemma complete_claim_inv:
  assumes inv: "db_inv rt db" and c: "c \<in> set (db_claims db)"
  shows "db_inv rt (set_event_state (cr_event_id c) Completed (set_claim_state (cr_claim_id c) CCompleted db))"
proof -
  have "claim_row_ok rt (c\<lparr>cr_state := CCompleted\<rparr>)"
    using claim_ok[OF inv c]
    by (cases "cr_state c") (auto simp: claim_row_ok_def no_attempt_def has_attempt_def split: option.splits)
  from inv_move[OF inv c _ _ _ _ _ _ this] show ?thesis
    by (simp add: set_claim_state_replace[OF inv c] open_claim_def)
qed

lemma deliver_inv:
  assumes inv: "db_inv rt db" and c: "c \<in> set (db_claims db)" "cr_state c = CCompleted" and safe: "safe_integer now"
  shows "db_inv rt (db\<lparr>db_outbox := update_rows (\<lambda>b. ob_claim_id b = cr_claim_id c)
     (\<lambda>b. b\<lparr>ob_state := Delivered, ob_delivered_at := Some now\<rparr>) (db_outbox db)\<rparr>)" (is "db_inv rt ?d")
proof -
  let ?f = "\<lambda>b. b\<lparr>ob_state := Delivered, ob_delivered_at := Some now\<rparr>"
  have m: "map ob_claim_id (db_outbox ?d) = map ob_claim_id (db_outbox db)"
    by (simp add: map_update_rows)
  have "keys_ok ?d" using keysD[OF inv] m by (simp add: keys_ok_def)
  moreover have "outbox_ok rt ?d"
    unfolding outbox_ok_def
  proof
    fix b assume "b \<in> set (db_outbox ?d)"
    then have "b \<in> set (update_rows (\<lambda>b. ob_claim_id b = cr_claim_id c) ?f (db_outbox db))" by simp
    then show "outbox_row_ok rt b \<and> (\<exists>x\<in>set (db_claims ?d). cr_claim_id x = ob_claim_id b \<and>
        cr_result_json x \<noteq> None \<and> (ob_state b = Delivered \<longrightarrow> cr_state x = CCompleted))"
    proof (cases rule: update_rowsE)
      case (1 r)
      with db_invD(7)[OF inv] obtain x where x: "x \<in> set (db_claims db)" "cr_claim_id x = cr_claim_id c"
          "cr_result_json x \<noteq> None" "outbox_row_ok rt r"
        by (auto simp: outbox_ok_def)
      then have "x = c" using unique_by_eq[OF keysD(4)[OF inv]] c(1) by blast
      with 1 x c safe show ?thesis by (auto simp: outbox_row_ok_def)
    next
      case 2
      with db_invD(7)[OF inv] show ?thesis by (auto simp: outbox_ok_def)
    qed
  qed
  moreover have "results_ok ?d"
    unfolding results_ok_def
  proof (intro ballI impI)
    fix x assume "x \<in> set (db_claims ?d)" "cr_result_json x \<noteq> None"
    then obtain b where "b \<in> set (db_outbox db)" "ob_claim_id b = cr_claim_id x"
      using db_invD(8)[OF inv] by (auto simp: results_ok_def)
    then have "ob_claim_id b \<in> ob_claim_id ` set (db_outbox ?d)" by (metis m list.set_map image_eqI)
    with \<open>ob_claim_id b = cr_claim_id x\<close> show "\<exists>b\<in>set (db_outbox ?d). ob_claim_id b = cr_claim_id x" by auto
  qed
  ultimately show ?thesis
    using db_invD[OF inv] by (simp add: db_inv_def fence_ok_def eligibility_ok_def events_ok_def claims_ok_def linked_def)
qed

lemma acknowledge_inv:
  assumes inv: "db_inv rt db" and step: "acknowledgeResult now claimId db = Inr db'" and safe: "safe_integer now"
  shows "db_inv rt db'"
proof -
  from step obtain c where f: "find_row (\<lambda>c. cr_claim_id c = claimId) (db_claims db) = Some c"
    by (auto simp: acknowledgeResult_def split: option.splits)
  note c = find_claim[OF inv f]
  show ?thesis
  proof (cases "cr_state c = CCompleted")
    case True
    with step f inv show ?thesis by (auto simp: acknowledgeResult_def split: if_splits)
  next
    case False
    let ?d = "set_event_state (cr_event_id c) Completed (set_claim_state claimId CCompleted db)"
    have d: "db_inv rt ?d" using complete_claim_inv[OF inv c(1)] c(2) by simp
    have "c\<lparr>cr_state := CCompleted\<rparr> \<in> set (db_claims ?d)"
      using replace_claim_set(1)[OF inv c(1), of "c\<lparr>cr_state := CCompleted\<rparr>"]
        set_claim_state_replace[OF inv c(1), of CCompleted] c(2) by simp
    from deliver_inv[OF d this _ safe] step f False c(2) show ?thesis
      by (auto simp: acknowledgeResult_def Let_def split: if_splits)
  qed
qed

lemma recover_inv:
  assumes inv: "db_inv rt db" and step: "recover claimId hostId cap db = Inr db'"
  shows "db_inv rt db'"
proof -
  from step obtain c where f: "find_row (\<lambda>c. cr_claim_id c = claimId \<and> cr_host_id c = hostId
      \<and> cr_capacity c = cap) (db_claims db) = Some c"
    by (auto simp: recover_def split: option.splits)
  from find_row_Some[OF f] complete_claim_inv[OF inv, of c] inv step f show ?thesis
    by (auto simp: recover_def split: if_splits)
qed

end
