(* ===== verification/Qemu_Machine.thy ===== *)
theory Qemu_Machine
  imports Qemu_Safety
begin

text \<open>
  The remaining preservation lemmas (results, expiry, supersession, reservation, intake) and the
  interpretation of \<open>safe_machine\<close> for the scheduler store: every reachable database
  satisfies the invariant.
\<close>

section \<open>Recording a result\<close>

lemma inv_result:
  assumes inv: "db_inv rt db" and c: "c \<in> set (db_claims db)" "cr_state c = CActive" "cr_result_json c = None"
    and ok: "completion_ok rt co" "co_claimId co = cr_claim_id c" and safe: "safe_integer now"
  shows "db_inv rt ((replace_claim c (c\<lparr>cr_result_json := Some (completion_row_json co)\<rparr>) db)
     \<lparr>db_outbox := db_outbox db @ [\<lparr>ob_claim_id = cr_claim_id c,
        ob_terminal_event_json = terminal_json (co_terminalEvent co), ob_state = Pending,
        ob_created_at = now, ob_delivered_at = None\<rparr>]\<rparr>)" (is "db_inv rt ?d")
proof -
  let ?c' = "c\<lparr>cr_result_json := Some (completion_row_json co)\<rparr>"
  have cl: "set (db_claims ?d) = insert ?c' (set (db_claims db) - {c})"
    using replace_claim_set(1)[OF inv c(1), of ?c'] by simp
  have no: "ob_claim_id b \<noteq> cr_claim_id c" if "b \<in> set (db_outbox db)" for b
  proof
    assume "ob_claim_id b = cr_claim_id c"
    with that db_invD(7)[OF inv] obtain x where "x \<in> set (db_claims db)" "cr_claim_id x = cr_claim_id c"
      "cr_result_json x \<noteq> None" by (auto simp: outbox_ok_def)
    with unique_by_eq[OF keysD(4)[OF inv]] c show False by metis
  qed
  from no have "cr_claim_id c \<notin> ob_claim_id ` set (db_outbox db)" by force
  then have "keys_ok ?d"
    using keysD[OF inv] replace_claim_set(2)[OF inv c(1), of cr_claim_id ?c']
      replace_claim_set(2)[OF inv c(1), of cr_request_id ?c'] replace_claim_set(2)[OF inv c(1), of cr_event_id ?c']
    by (auto simp: keys_ok_def)
  moreover have "fence_ok ?d"
    unfolding fence_ok_def cl using db_invD(2)[OF inv] c by (auto simp: fence_ok_def open_claim_def)
  moreover have "claims_ok rt ?d"
    unfolding claims_ok_def cl using db_invD(5)[OF inv] claim_ok[OF inv c(1)] c(2) ok
    by (auto simp: claims_ok_def claim_row_ok_def has_attempt_def)
  moreover have "linked ?d"
    unfolding linked_def cl using db_invD(6)[OF inv] c(1) by (auto simp: linked_def)
  moreover have "outbox_ok rt ?d"
    unfolding outbox_ok_def cl
  proof
    fix b assume "b \<in> set (db_outbox ?d)"
    then consider (new) "ob_claim_id b = cr_claim_id c" "b \<notin> set (db_outbox db)"
        "b = \<lparr>ob_claim_id = cr_claim_id c, ob_terminal_event_json = terminal_json (co_terminalEvent co),
           ob_state = Pending, ob_created_at = now, ob_delivered_at = None\<rparr>"
      | (old) "b \<in> set (db_outbox db)" by auto
    then show "outbox_row_ok rt b \<and> (\<exists>x\<in>insert ?c' (set (db_claims db) - {c}). cr_claim_id x = ob_claim_id b \<and>
        cr_result_json x \<noteq> None \<and> (ob_state b = Delivered \<longrightarrow> cr_state x = CCompleted))"
    proof cases
      case new
      with ok(1) safe show ?thesis by (auto simp: outbox_row_ok_def completion_ok_def)
    next
      case old
      with db_invD(7)[OF inv] no[OF old] show ?thesis by (force simp: outbox_ok_def)
    qed
  qed
  moreover have "results_ok ?d"
    unfolding results_ok_def cl using db_invD(8)[OF inv] by (auto simp: results_ok_def)
  ultimately show ?thesis
    using db_invD(3,4)[OF inv] by (simp add: db_inv_def eligibility_ok_def events_ok_def)
qed

lemma recordResult_cases:
  assumes inv: "db_inv rt db" and step: "recordResult now input db = Inr (r, db')"
  obtains c where "c \<in> set (db_claims db)" "cr_claim_id c = co_claimId input" "r = Replay" "db' = db"
      "cr_result_json c = Some (completion_row_json input)"
  | c where "c \<in> set (db_claims db)" "cr_claim_id c = co_claimId input" "r = Created" "cr_state c = CActive"
      "cr_result_json c = None"
      "db' = (replace_claim c (c\<lparr>cr_result_json := Some (completion_row_json input)\<rparr>) db)
        \<lparr>db_outbox := db_outbox db @ [\<lparr>ob_claim_id = cr_claim_id c,
           ob_terminal_event_json = terminal_json (co_terminalEvent input), ob_state = Pending,
           ob_created_at = now, ob_delivered_at = None\<rparr>]\<rparr>"
proof -
  from step obtain c where f: "find_row (\<lambda>c. cr_claim_id c = co_claimId input) (db_claims db) = Some c"
    by (auto simp: recordResult_def split: option.splits if_splits)
  note c = find_claim[OF inv f]
  have u: "update_rows (\<lambda>c. cr_claim_id c = co_claimId input)
      (\<lambda>c. c\<lparr>cr_result_json := Some (completion_row_json input)\<rparr>) (db_claims db) =
    update_rows (\<lambda>x. cr_claim_id x = cr_claim_id c)
      (\<lambda>_. c\<lparr>cr_result_json := Some (completion_row_json input)\<rparr>) (db_claims db)"
    using update_rows_unique[OF keysD(4)[OF inv] c(1), of "\<lambda>c. cr_claim_id c = co_claimId input"] c(2) by simp
  show thesis
  proof (cases "cr_result_json c")
    case None
    with step f c u show ?thesis
      by (intro that(2)[of c]) (auto simp: recordResult_def Let_def bindR_eq_Inr insert_outbox_def
          replace_claim_def split: if_splits)
  next
    case (Some x)
    with step f c show ?thesis
      by (intro that(1)[of c]) (auto simp: recordResult_def Let_def split: if_splits)
  qed
qed

lemma record_inv:
  assumes inv: "db_inv rt db" and step: "recordResult now input db = Inr (r, db')"
    and ok: "completion_ok rt input" and safe: "safe_integer now"
  shows "db_inv rt db'"
  using inv step
proof (cases rule: recordResult_cases)
  case (1 c)
  with inv show ?thesis by simp
next
  case (2 c)
  with inv_result[OF inv 2(1,4,5) ok _ safe] show ?thesis by simp
qed

section \<open>Deleting reservations\<close>

lemma inv_delete:
  assumes inv: "db_inv rt db"
    and res: "\<And>c. c \<in> set (db_claims db) \<Longrightarrow> P c \<Longrightarrow> cr_state c = CReserved"
    and ev: "\<And>e c. Q e \<Longrightarrow> c \<in> set (db_claims db) \<Longrightarrow> cr_event_id c = er_event_id e \<Longrightarrow> P c"
  shows "db_inv rt (db\<lparr>db_claims := delete_rows P (db_claims db),
     db_events := update_rows Q (\<lambda>e. e\<lparr>er_state := st\<rparr>) (db_events db)\<rparr>)" (is "db_inv rt ?d")
proof -
  have m: "map er_event_id (db_events ?d) = map er_event_id (db_events db)"
    by (simp add: map_update_rows)
  have "keys_ok ?d" using keysD[OF inv] m by (simp add: keys_ok_def unique_delete_rows)
  moreover have "fence_ok ?d" using db_invD(2)[OF inv] by (simp add: fence_ok_def)
  moreover have "eligibility_ok ?d" using db_invD(3)[OF inv] by (simp add: eligibility_ok_def)
  moreover have "events_ok rt ?d"
    using db_invD(4)[OF inv] by (auto simp: events_ok_def set_update_rows)
  moreover have "claims_ok rt ?d" using db_invD(5)[OF inv] by (simp add: claims_ok_def)
  moreover have "linked ?d"
    unfolding linked_def
  proof
    fix c assume "c \<in> set (db_claims ?d)"
    then have c: "c \<in> set (db_claims db)" "\<not> P c" by auto
    from event_of_claim[OF inv c(1)] obtain e where e: "e \<in> set (db_events db)" "er_event_id e = cr_event_id c"
      "er_state e = claim_event (cr_state c)" by metis
    with ev c have "\<not> Q e" by metis
    with e show "\<exists>e\<in>set (db_events ?d). er_event_id e = cr_event_id c \<and> er_state e = claim_event (cr_state c)"
      by (auto simp: set_update_rows)
  qed
  moreover have "outbox_ok rt ?d"
    unfolding outbox_ok_def
  proof
    fix b assume "b \<in> set (db_outbox ?d)"
    with db_invD(7)[OF inv] obtain c where b: "outbox_row_ok rt b" and c: "c \<in> set (db_claims db)"
      "cr_claim_id c = ob_claim_id b" "cr_result_json c \<noteq> None" "ob_state b = Delivered \<longrightarrow> cr_state c = CCompleted"
      by (auto simp: outbox_ok_def)
    with claim_ok[OF inv c(1)] res[OF c(1)] have "\<not> P c" by (auto simp: claim_row_ok_def)
    with b c show "outbox_row_ok rt b \<and> (\<exists>c\<in>set (db_claims ?d). cr_claim_id c = ob_claim_id b \<and>
        cr_result_json c \<noteq> None \<and> (ob_state b = Delivered \<longrightarrow> cr_state c = CCompleted))" by auto
  qed
  moreover have "results_ok ?d" using db_invD(8)[OF inv] by (auto simp: results_ok_def)
  ultimately show ?thesis by (simp add: db_inv_def)
qed

text \<open>A reserved claim has no outbox row, so its deletion violates no foreign key.\<close>

lemma delete_reserved:
  assumes inv: "db_inv rt db" and res: "\<And>c. c \<in> set (db_claims db) \<Longrightarrow> P c \<Longrightarrow> cr_state c = CReserved"
    and same: "db_claims d = db_claims db" "db_outbox d = db_outbox db"
  shows "delete_claims P d = Inr (d\<lparr>db_claims := delete_rows P (db_claims db)\<rparr>)"
proof -
  have "ob_claim_id b \<noteq> cr_claim_id c"
    if c: "c \<in> set (db_claims db)" "P c" and b: "b \<in> set (db_outbox db)" for b c
  proof
    assume eq: "ob_claim_id b = cr_claim_id c"
    from b db_invD(7)[OF inv] obtain x where x: "x \<in> set (db_claims db)" "cr_claim_id x = ob_claim_id b"
      "cr_result_json x \<noteq> None" by (auto simp: outbox_ok_def)
    with eq c unique_by_eq[OF keysD(4)[OF inv]] have "x = c" by metis
    with x(3) claim_ok[OF inv c(1)] res[OF c] show False by (auto simp: claim_row_ok_def)
  qed
  then show ?thesis by (auto simp: delete_claims_def same)
qed

lemma expireClaims_eq:
  assumes inv: "db_inv rt db"
  shows "expireClaims now1 now2 db = Inr (db\<lparr>db_claims := delete_rows (expired now2) (db_claims db),
     db_events := update_rows (\<lambda>e. \<exists>c\<in>set (db_claims db). expired now1 c \<and> cr_event_id c = er_event_id e)
       (\<lambda>e. e\<lparr>er_state := Queued\<rparr>) (db_events db)\<rparr>)"
  unfolding expireClaims_def
  by (subst delete_reserved[OF inv]) (auto simp: expired_def)

lemma expireClaims_inv:
  assumes inv: "db_inv rt db" and le: "now1 \<le> now2"
    and step: "expireClaims now1 now2 db = Inr db'"
  shows "db_inv rt db'"
proof -
  let ?Q = "\<lambda>e. \<exists>c\<in>set (db_claims db). expired now1 c \<and> cr_event_id c = er_event_id e"
  have "expired now2 c" if "?Q e" "c \<in> set (db_claims db)" "cr_event_id c = er_event_id e" for e c
    using that le unique_by_eq[OF keysD(6)[OF inv]] by (fastforce simp: expired_def)
  then have "db_inv rt (db\<lparr>db_claims := delete_rows (expired now2) (db_claims db),
      db_events := update_rows ?Q (\<lambda>e. e\<lparr>er_state := Queued\<rparr>) (db_events db)\<rparr>)"
    by (intro inv_delete[OF inv]) (auto simp: expired_def)
  with step expireClaims_eq[OF inv] show ?thesis by simp
qed

lemma supersede_cases:
  assumes inv: "db_inv rt db" and step: "supersedeReservation claimId db = Inr db'"
  obtains c where "c \<in> set (db_claims db)" "cr_claim_id c = claimId" "cr_state c = CReserved"
    "db' = db\<lparr>db_claims := delete_rows (\<lambda>c. cr_claim_id c = claimId) (db_claims db),
       db_events := update_rows (\<lambda>e. er_event_id e = cr_event_id c) (\<lambda>e. e\<lparr>er_state := Superseded\<rparr>) (db_events db)\<rparr>"
proof -
  from step obtain c where f: "find_row (\<lambda>c. cr_claim_id c = claimId) (db_claims db) = Some c"
      and st: "cr_state c = CReserved"
    by (auto simp: supersedeReservation_def split: option.splits if_splits)
  note c = find_claim[OF inv f]
  have only: "x = c" if "x \<in> set (db_claims db)" "cr_claim_id x = claimId" for x
    using that c unique_by_eq[OF keysD(4)[OF inv]] by metis
  have "delete_claims (\<lambda>c. cr_claim_id c = claimId) (set_event_state (cr_event_id c) Superseded db) =
      Inr ((set_event_state (cr_event_id c) Superseded db)
        \<lparr>db_claims := delete_rows (\<lambda>c. cr_claim_id c = claimId) (db_claims db)\<rparr>)"
    by (rule delete_reserved[OF inv]) (use only st in auto)
  with step f st have "db' = db\<lparr>db_claims := delete_rows (\<lambda>c. cr_claim_id c = claimId) (db_claims db),
       db_events := update_rows (\<lambda>e. er_event_id e = cr_event_id c) (\<lambda>e. e\<lparr>er_state := Superseded\<rparr>) (db_events db)\<rparr>"
    by (auto simp: supersedeReservation_def set_event_state_def)
  with c st that show thesis by blast
qed

lemma supersede_inv:
  assumes inv: "db_inv rt db" and step: "supersedeReservation claimId db = Inr db'"
  shows "db_inv rt db'"
proof -
  obtain c where c: "c \<in> set (db_claims db)" "cr_claim_id c = claimId"
    "cr_state c = CReserved" and db': "db' = db\<lparr>db_claims := delete_rows (\<lambda>c. cr_claim_id c = claimId) (db_claims db),
       db_events := update_rows (\<lambda>e. er_event_id e = cr_event_id c) (\<lambda>e. e\<lparr>er_state := Superseded\<rparr>) (db_events db)\<rparr>"
    by (rule supersede_cases[OF inv step])
  show ?thesis unfolding db'
    by (rule inv_delete[OF inv])
      (use c unique_by_eq[OF keysD(4)[OF inv]] unique_by_eq[OF keysD(6)[OF inv]] in metis)+
qed

section \<open>Reserving\<close>

lemma next_event_Some:
  assumes "next_event now db = Some e"
  shows "e \<in> set (db_events db)" "event_eligible now db e"
    "\<And>x. x \<in> set (db_events db) \<Longrightarrow> event_eligible now db x \<Longrightarrow>
       (er_created_at e, er_event_id e) \<le> (er_created_at x, er_event_id x)"
proof -
  let ?k = "\<lambda>e. (er_created_at e, er_event_id e)" and ?xs = "filter (event_eligible now db) (db_events db)"
  from assms have ne: "?xs \<noteq> []" and e: "e = arg_min_list ?k ?xs"
    by (auto simp: next_event_def split: list.splits)
  from arg_min_list_in[OF ne, of ?k] e have "e \<in> set ?xs" by simp
  then show "e \<in> set (db_events db)" "event_eligible now db e" by auto
  from f_arg_min_list_f[OF ne, of ?k] e have k: "?k e = Min (?k ` set ?xs)" by simp
  show "?k e \<le> ?k x" if "x \<in> set (db_events db)" "event_eligible now db x" for x
    unfolding k by (rule Min_le) (use that in auto)
qed

lemma next_event_None: "next_event now db = None \<longleftrightarrow> (\<forall>e\<in>set (db_events db). \<not> event_eligible now db e)"
proof -
  have "next_event now db = None \<longleftrightarrow> filter (event_eligible now db) (db_events db) = []"
    by (simp add: next_event_def split: list.split)
  then show ?thesis by (simp add: filter_empty_conv)
qed

lemma inv_insert:
  assumes inv: "db_inv rt db" and e: "e \<in> set (db_events db)" "er_state e = Queued"
    and ids: "cr_event_id c = er_event_id e" "cr_state c = CReserved" and ok: "claim_row_ok rt c"
    and ins: "insert_claim c db = Inr db1"
  shows "db_inv rt (set_event_state (er_event_id e) Reserved db1)" (is "db_inv rt ?d")
proof -
  from ins have db1: "db1 = db\<lparr>db_claims := db_claims db @ [c]\<rparr>"
    and new: "\<And>x. x \<in> set (db_claims db) \<Longrightarrow> cr_claim_id x \<noteq> cr_claim_id c \<and> cr_request_id x \<noteq> cr_request_id c
        \<and> cr_event_id x \<noteq> cr_event_id c \<and>
        \<not> (open_claim x \<and> open_claim c \<and> cr_host_id x = cr_host_id c \<and> cr_capacity x = cr_capacity c)"
    by (auto simp: insert_claim_def split: if_splits)
  have ev: "set (db_events ?d) = insert (e\<lparr>er_state := Reserved\<rparr>) (set (db_events db) - {e})"
    "map er_event_id (db_events ?d) = map er_event_id (db_events db)"
    using set_event_state_events[of db1 e Reserved] keysD(3)[OF inv] e(1) by (simp_all add: db1)
  have cl: "set (db_claims ?d) = insert c (set (db_claims db))" by (simp add: db1)
  from new have "cr_claim_id c \<notin> cr_claim_id ` set (db_claims db)"
    "cr_request_id c \<notin> cr_request_id ` set (db_claims db)" "cr_event_id c \<notin> cr_event_id ` set (db_claims db)"
    by force+
  then have "keys_ok ?d" using keysD[OF inv] ev(2) by (simp add: keys_ok_def db1)
  moreover have "fence_ok ?d"
    unfolding fence_ok_def cl using db_invD(2)[OF inv] new by (fastforce simp: fence_ok_def)
  moreover have "events_ok rt ?d"
    unfolding events_ok_def ev using db_invD(4)[OF inv] e(1) by (auto simp: events_ok_def db1)
  moreover have "claims_ok rt ?d"
    unfolding claims_ok_def cl using db_invD(5)[OF inv] ok by (auto simp: claims_ok_def)
  moreover have "linked ?d"
    unfolding linked_def cl ev
    using db_invD(6)[OF inv] ids new e(1) by (fastforce simp: linked_def)
  moreover have "outbox_ok rt ?d"
    unfolding outbox_ok_def cl using db_invD(7)[OF inv] by (auto simp: outbox_ok_def db1)
  moreover have "results_ok ?d"
    unfolding results_ok_def cl using db_invD(8)[OF inv] ok ids(2)
    by (auto simp: results_ok_def db1 claim_row_ok_def)
  ultimately show ?thesis
    using db_invD(3)[OF inv] by (simp add: db_inv_def eligibility_ok_def db1)
qed

definition new_claim :: "string \<Rightarrow> int \<Rightarrow> ReservationInput \<Rightarrow> event_row \<Rightarrow> claim_row" where
  "new_claim uuid now input e = \<lparr>cr_claim_id = uuid, cr_request_id = ri_requestId input,
     cr_event_id = er_event_id e, cr_host_id = ri_hostId input, cr_capacity = ri_capacity input,
     cr_admission_generation = er_admission_generation e,
     cr_lease_expires_at = now + ri_leaseMilliseconds input, cr_attempt_id = None,
     cr_descriptor_digest = None, cr_attempt_json = None, cr_state = CReserved, cr_result_json = None\<rparr>"

lemma reserve_cases:
  assumes step: "reserve rt now1 now2 now3 now4 uuid input db0 = Inr (r, db')"
  obtains (replay) db c where "expireClaims now1 now2 db0 = Inr db" "db' = db"
      "find_row (\<lambda>c. cr_request_id c = ri_requestId input) (db_claims db) = Some c"
      "cr_host_id c = ri_hostId input" "cr_capacity c = ri_capacity input"
      "(cr_state c = CCompleted \<and> r = None) \<or>
       (cr_state c \<noteq> CCompleted \<and> (\<exists>claim. claim_of rt db c = Inr claim \<and> r = Some claim))"
  | (none) db where "expireClaims now1 now2 db0 = Inr db" "db' = db" "r = None"
      "find_row (\<lambda>c. cr_request_id c = ri_requestId input) (db_claims db) = None"
      "(\<exists>c\<in>set (db_claims db). cr_host_id c = ri_hostId input \<and> cr_capacity c = ri_capacity input
          \<and> open_claim c) \<or> next_event now3 db = None"
  | (fresh) db db1 e ev where "expireClaims now1 now2 db0 = Inr db" "next_event now3 db = Some e"
      "find_row (\<lambda>c. cr_request_id c = ri_requestId input) (db_claims db) = None"
      "insert_claim (new_claim uuid now4 input e) db = Inr db1"
      "parseEvent rt (er_event_json e) = Some ev"
      "db' = set_event_state (er_event_id e) Reserved db1"
      "r = Some \<lparr>cl_claimId = uuid, cl_requestId = ri_requestId input, cl_hostId = ri_hostId input,
         cl_capacity = ri_capacity input, cl_admissionGeneration = er_admission_generation e,
         cl_leaseExpiresAt = now4 + ri_leaseMilliseconds input, cl_event = ev\<rparr>"
proof -
  from step obtain db where db: "expireClaims now1 now2 db0 = Inr db"
    by (auto simp: reserve_def bindR_eq_Inr)
  show thesis
  proof (cases "find_row (\<lambda>c. cr_request_id c = ri_requestId input) (db_claims db)")
    case (Some c)
    with step db show ?thesis
      by (intro replay[of db c]) (auto simp: reserve_def bindR_eq_Inr split: if_splits)
  next
    case None
    show ?thesis
    proof (cases "(\<exists>c\<in>set (db_claims db). cr_host_id c = ri_hostId input \<and> cr_capacity c = ri_capacity input
          \<and> open_claim c) \<or> next_event now3 db = None")
      case True
      with step db None show ?thesis
        by (intro none[of db]) (auto simp: reserve_def split: if_splits)
    next
      case False
      then obtain e where e: "next_event now3 db = Some e" by auto
      with step db None False obtain db1 ev where
        "insert_claim (new_claim uuid now4 input e) db = Inr db1" "parseEvent rt (er_event_json e) = Some ev"
        "db' = set_event_state (er_event_id e) Reserved db1"
        "r = Some \<lparr>cl_claimId = uuid, cl_requestId = ri_requestId input, cl_hostId = ri_hostId input,
         cl_capacity = ri_capacity input, cl_admissionGeneration = er_admission_generation e,
         cl_leaseExpiresAt = now4 + ri_leaseMilliseconds input, cl_event = ev\<rparr>"
        by (auto simp: reserve_def bindR_eq_Inr Let_def new_claim_def set_event_state_def split: if_splits)
      with db e None show ?thesis by (intro fresh[of db e db1 ev])
    qed
  qed
qed

lemma reserve_inv:
  assumes inv: "db_inv rt db0" and step: "reserve rt now1 now2 now3 now4 uuid input db0 = Inr (r, db')"
    and le: "now1 \<le> now2" and ok: "matches uuidPattern uuid" "matches uuidPattern (ri_requestId input)"
      "matches identifierPattern (ri_hostId input)" "matches identifierPattern (ri_capacity input)"
      "safe_integer (now4 + ri_leaseMilliseconds input)"
  shows "db_inv rt db'"
  using step
proof (cases rule: reserve_cases)
  case (replay db c)
  with expireClaims_inv[OF inv le] show ?thesis by simp
next
  case (none db)
  with expireClaims_inv[OF inv le] show ?thesis by simp
next
  case (fresh db db1 e ev)
  note e = next_event_Some(1,2)[OF fresh(2)]
  have inv': "db_inv rt db" using expireClaims_inv[OF inv le fresh(1)] .
  have "matches generationPattern (er_admission_generation e)"
    using db_invD(4)[OF inv'] e(1) by (auto simp: events_ok_def event_row_ok_def)
  then have "claim_row_ok rt (new_claim uuid now4 input e)"
    using ok by (simp add: claim_row_ok_def new_claim_def no_attempt_def)
  from inv_insert[OF inv' e(1) _ _ _ this fresh(4)] e(2) show ?thesis
    by (simp add: fresh(6) new_claim_def event_eligible_def)
qed

section \<open>Intake\<close>

lemma upsert_set:
  assumes "upsert_eligibility row rows = Inr rows'" "unique_by el_project_id rows"
    "unique_by el_eligibility_generation rows"
  shows "unique_by el_project_id rows'" "unique_by el_eligibility_generation rows'" "row \<in> set rows'"
    "set rows' \<subseteq> insert row (set rows)"
    "\<And>a. a \<in> set rows \<Longrightarrow> el_project_id a \<noteq> el_project_id row \<Longrightarrow> a \<in> set rows'"
proof -
  have new: "\<And>r. r \<in> set rows \<Longrightarrow> el_project_id r \<noteq> el_project_id row \<Longrightarrow>
      el_eligibility_generation r \<noteq> el_eligibility_generation row"
    using assms(1) by (auto simp: upsert_eligibility_def split: if_splits)
  have all: "unique_by el_project_id rows' \<and> unique_by el_eligibility_generation rows' \<and> row \<in> set rows' \<and>
        set rows' \<subseteq> insert row (set rows) \<and> (\<forall>a. a \<in> set rows \<longrightarrow> el_project_id a \<noteq> el_project_id row \<longrightarrow> a \<in> set rows')"
  proof (cases "\<exists>r\<in>set rows. el_project_id r = el_project_id row")
    case True
    then obtain r where r: "r \<in> set rows" "el_project_id r = el_project_id row" by blast
    with assms(1) have rows': "rows' = update_rows (\<lambda>x. el_project_id x = el_project_id r) (\<lambda>_. row) rows"
      by (auto simp: upsert_eligibility_def split: if_splits)
    have s: "set rows' = insert row (set rows - {r})"
      unfolding rows' by (rule set_replace_row[OF assms(2) r(1)])
    have p: "map el_project_id rows' = map el_project_id rows"
      unfolding rows' by (rule map_replace_row[OF assms(2) r(1)]) (simp add: r(2))
    have "el_eligibility_generation row \<notin> el_eligibility_generation ` (set rows - {r})"
    proof
      assume "el_eligibility_generation row \<in> el_eligibility_generation ` (set rows - {r})"
      then obtain a where "a \<in> set rows - {r}" "el_eligibility_generation row = el_eligibility_generation a"
        by (rule imageE)
      then have a: "a \<in> set rows" "a \<noteq> r" "el_eligibility_generation a = el_eligibility_generation row"
        by auto
      then have "el_project_id a \<noteq> el_project_id row"
        using unique_by_eq[OF assms(2) a(1) r(1)] r(2) by metis
      with new a show False by blast
    qed
    then have "inj_on el_eligibility_generation (set rows')"
      unfolding s using assms(3) by (auto simp: distinct_map intro: inj_on_subset)
    moreover have "distinct rows'" using p assms(2) by (metis distinct_map)
    ultimately show ?thesis
      using p assms(2) r s by (auto simp: distinct_map)
  next
    case False
    with assms(1) have "rows' = rows @ [row]" by (auto simp: upsert_eligibility_def split: if_splits)
    moreover from False new have "el_eligibility_generation row \<notin> el_eligibility_generation ` set rows"
      "el_project_id row \<notin> el_project_id ` set rows" by force+
    ultimately show ?thesis using assms(2,3) by auto
  qed
  from all show "unique_by el_project_id rows'" "unique_by el_eligibility_generation rows'" "row \<in> set rows'"
    "set rows' \<subseteq> insert row (set rows)"
    "\<And>a. a \<in> set rows \<Longrightarrow> el_project_id a \<noteq> el_project_id row \<Longrightarrow> a \<in> set rows'"
    by blast+
qed

lemma enqueue_cases:
  assumes step: "enqueue now uuid ev lease db = Inr (r, db')"
  obtains gen elig evs where
    "gen = (case find_row (\<lambda>r. el_project_id r = ev_projectId ev) (db_eligibility db) of
       None \<Rightarrow> uuid | Some x \<Rightarrow> el_eligibility_generation x)"
    "upsert_eligibility \<lparr>el_project_id = ev_projectId ev, el_eligibility_generation = gen,
       el_lease_expires_at = now + lease, el_refreshed_at = now\<rparr> (db_eligibility db) = Inr elig"
    "evs = update_rows (\<lambda>e. er_state e = Queued
        \<and> get_field (er_event_json e) ''projectId'' = Some (JStr (ev_projectId ev)))
      (\<lambda>e. e\<lparr>er_admission_generation := gen\<rparr>) (db_events db)"
    "eq_eligibilityGeneration r = gen" "eq_expiresAt r = now + lease"
    "(eq_result r = Replay \<and> db' = db\<lparr>db_eligibility := elig, db_events := evs\<rparr> \<and>
       (\<exists>e. find_row (\<lambda>e. er_event_id e = ev_eventId ev) evs = Some e \<and> er_event_json e = event_json_of ev)) \<or>
     (eq_result r = Created \<and> find_row (\<lambda>e. er_event_id e = ev_eventId ev) evs = None \<and>
       db' = db\<lparr>db_eligibility := elig, db_events := evs @ [\<lparr>er_event_id = ev_eventId ev,
         er_admission_generation = gen, er_event_json = event_json_of ev, er_state = Queued,
         er_created_at = now\<rparr>]\<rparr>)"
proof -
  define gen where "gen = (case find_row (\<lambda>r. el_project_id r = ev_projectId ev) (db_eligibility db) of
     None \<Rightarrow> uuid | Some x \<Rightarrow> el_eligibility_generation x)"
  define evs where "evs = update_rows (\<lambda>e. er_state e = Queued
        \<and> get_field (er_event_json e) ''projectId'' = Some (JStr (ev_projectId ev)))
      (\<lambda>e. e\<lparr>er_admission_generation := gen\<rparr>) (db_events db)"
  from step obtain elig where elig: "upsert_eligibility \<lparr>el_project_id = ev_projectId ev,
       el_eligibility_generation = gen, el_lease_expires_at = now + lease, el_refreshed_at = now\<rparr>
       (db_eligibility db) = Inr elig" and q: "ev_executionKind ev = ''qemu''"
    by (auto simp: enqueue_def Let_def bindR_eq_Inr gen_def[symmetric] split: if_splits)
  note unf = enqueue_def Let_def gen_def[symmetric] elig q bindR_Inr evs_def[symmetric]
  show thesis
  proof (cases "find_row (\<lambda>e. er_event_id e = ev_eventId ev) evs")
    case None
    with step show ?thesis by (intro that[OF gen_def elig evs_def]) (auto simp: unf)
  next
    case (Some e)
    with step show ?thesis by (intro that[OF gen_def elig evs_def]) (auto simp: unf split: if_splits)
  qed
qed

lemma map_events_generation:
  "map er_event_id (update_rows P (\<lambda>e. e\<lparr>er_admission_generation := g\<rparr>) es) = map er_event_id es"
  by (simp add: map_update_rows)

lemma enqueue_inv:
  assumes inv: "db_inv rt db" and step: "enqueue now uuid ev lease db = Inr (r, db')"
    and ok: "event_valid rt ev" "matches uuidPattern uuid" "safe_integer now" "safe_integer (now + lease)"
  shows "db_inv rt db'"
  using step
proof (cases rule: enqueue_cases)
  case (1 gen elig evs)
  let ?row = "\<lparr>el_project_id = ev_projectId ev, el_eligibility_generation = gen,
     el_lease_expires_at = now + lease, el_refreshed_at = now\<rparr>"
  let ?e = "\<lparr>er_event_id = ev_eventId ev, er_admission_generation = gen, er_event_json = event_json_of ev,
     er_state = Queued, er_created_at = now\<rparr>"
  let ?b = "db\<lparr>db_eligibility := elig, db_events := evs\<rparr>"
  note up = upsert_set[OF 1(2) keysD(1,2)[OF inv]]
  have g: "matches generationPattern gen"
    using 1(1) ok(2) uuid_generation db_invD(3)[OF inv]
    by (auto simp: eligibility_ok_def eligibility_row_ok_def split: option.splits dest!: find_row_Some)
  have kept: "\<exists>a\<in>set elig. el_eligibility_generation a = el_eligibility_generation x"
    if x: "x \<in> set (db_eligibility db)" for x
  proof (cases "el_project_id x = ev_projectId ev")
    case True
    with x find_row_unique[OF keysD(1)[OF inv] x] 1(1) have "gen = el_eligibility_generation x" by simp
    with up(3) show ?thesis by (intro bexI[of _ ?row]) simp_all
  next
    case False
    with up(5)[OF x] show ?thesis by auto
  qed
  have row: "eligibility_row_ok ?row"
    using ok g name_identifier by (auto simp: eligibility_row_ok_def event_valid_def)
  have evs: "event_row_ok rt e \<and> (\<exists>a\<in>set elig. el_eligibility_generation a = er_admission_generation e)"
    if "e \<in> set evs" for e
    using that unfolding 1(3)
  proof (cases rule: update_rowsE)
    case (1 x)
    with db_invD(4)[OF inv] g up(3) show ?thesis
      by (force simp: events_ok_def event_row_ok_def)
  next
    case 2
    with db_invD(4)[OF inv] kept show ?thesis by (force simp: events_ok_def)
  qed
  have "linked ?b"
    unfolding linked_def
  proof
    fix c assume "c \<in> set (db_claims ?b)"
    then have "c \<in> set (db_claims db)" by simp
    then obtain e where e: "e \<in> set (db_events db)" "er_event_id e = cr_event_id c"
      "er_state e = claim_event (cr_state c)" using event_of_claim[OF inv] by metis
    then have "er_state e \<noteq> Queued" by (cases "cr_state c") auto
    with e show "\<exists>e\<in>set (db_events ?b). er_event_id e = cr_event_id c \<and> er_state e = claim_event (cr_state c)"
      by (auto simp: 1(3) set_update_rows)
  qed
  moreover have "unique_by er_event_id evs" using keysD(3)[OF inv] by (simp add: 1(3) map_events_generation)
  ultimately have base: "db_inv rt ?b"
    using db_invD[OF inv] up evs row
    by (auto simp: db_inv_def keys_ok_def fence_ok_def eligibility_ok_def events_ok_def claims_ok_def
        outbox_ok_def results_ok_def)
  show ?thesis
    using 1(6)
  proof (elim disjE conjE)
    assume "db' = ?b"
    with base show ?thesis by simp
  next
    assume none: "find_row (\<lambda>e. er_event_id e = ev_eventId ev) evs = None"
      and db': "db' = db\<lparr>db_eligibility := elig, db_events := evs @ [?e]\<rparr>"
    have "event_row_ok rt ?e" using ok(1,3) g by (auto simp: event_row_ok_def)
    moreover have "\<exists>a\<in>set elig. el_eligibility_generation a = gen" using up(3) by force
    moreover have "ev_eventId ev \<notin> er_event_id ` set evs" using none by (auto simp: find_row_None)
    ultimately show ?thesis
      using base unfolding db'
      by (auto simp: db_inv_def keys_ok_def fence_ok_def eligibility_ok_def events_ok_def claims_ok_def
          outbox_ok_def results_ok_def linked_def)
  qed
qed

section \<open>The machine\<close>

lemma initialize_inv: "db_inv rt (initialize uuid authority)"
  by (simp add: db_inv_def inv_defs initialize_def)

lemma sched_step_inv: "db_inv rt db \<Longrightarrow> sched_step rt db db' \<Longrightarrow> db_inv rt db'"
  by (erule sched_step.cases)
    (auto intro: enqueue_inv reserve_inv activate_inv renew_inv record_inv acknowledge_inv recover_inv supersede_inv)

interpretation sched: safe_machine sched_init "sched_step rt" "db_inv rt" for rt
  by unfold_locales (auto simp: sched_init_def initialize_inv intro: sched_step_inv)

end
