(* ===== verification/Qemu_Examples.thy ===== *)
theory Qemu_Examples
  imports Qemu_Invariant
begin

text \<open>
  A concrete run of the scheduler store that the witnesses of the properties use: one project, one
  event, one host with one capacity. The run-time library is instantiated with a constant digest.
\<close>

definition demo_rt :: runtime where
  "demo_rt = \<lparr>sha256 = (\<lambda>_. replicate 64 CHR ''a''), date_parse = (\<lambda>_. Some 0),
     parse_url = (\<lambda>s. Some \<lparr>url_protocol = ''https:'', url_origin = s, url_username = [], url_password = [],
       url_hostname = ''demo'', url_pathname = ''/'', url_search = [], url_hash = []\<rparr>)\<rparr>"

definition demo_uuid :: string where "demo_uuid = ''00000000-0000-4000-8000-000000000001''"
definition demo_claim_id :: string where "demo_claim_id = ''00000000-0000-4000-8000-000000000002''"
definition demo_request :: string where "demo_request = ''00000000-0000-4000-8000-000000000003''"
definition demo_attempt_id :: string where "demo_attempt_id = ''00000000-0000-4000-8000-000000000004''"

definition demo_event :: NativeQemuReviewEvent where
  "demo_event = \<lparr>ev_schemaVersion = 3, ev_type = ''dim.native.review-job.available'',
     ev_eventId = replicate 64 CHR ''a'', ev_projectId = ''demo'', ev_repositoryId = ''root'',
     ev_protectedRef = ''refs/heads/main'', ev_reviewId = replicate 64 CHR ''b'',
     ev_envelopeId = replicate 64 CHR ''c'', ev_expectedProtectedHead = replicate 40 CHR ''d'',
     ev_candidateCommit = replicate 40 CHR ''e'', ev_candidateTree = replicate 40 CHR ''f'',
     ev_policyRevision = ''r1'', ev_requiredReviewRevision = ''r1'', ev_qualityRevision = ''r1'',
     ev_executionKind = ''qemu'', ev_jobName = ''test'', ev_evidenceClass = ''candidate-controlled''\<rparr>"

definition demo_input :: ReservationInput where
  "demo_input = \<lparr>ri_requestId = demo_request, ri_hostId = ''host-a'', ri_capacity = ''kvm'',
     ri_leaseMilliseconds = 60000\<rparr>"

definition demo_attempt :: NativeQemuAttempt where
  "demo_attempt = \<lparr>at_attemptId = demo_attempt_id,
     at_descriptorDigest = ''sha256:'' @ replicate 64 CHR ''a'', at_descriptor = JObj []\<rparr>"

definition demo_output :: OutputEvidence where
  "demo_output = \<lparr>oe_bytes = ''0'', oe_sha256 = ''sha256:'' @ replicate 64 CHR ''a'', oe_truncated = False\<rparr>"

definition demo_terminal :: NativeQemuTerminalEvent where
  "demo_terminal = \<lparr>te_schemaVersion = 1, te_eventId = demo_uuid, te_occurredAt = ''2026-01-01T00:00:00.000Z'',
     te_eventType = ''dim.ci.job.completed'',
     te_payload = \<lparr>tp_executionKind = ''qemu'', tp_evidenceClass = ''candidate-controlled'',
       tp_reviewId = replicate 64 CHR ''b'', tp_attemptId = demo_attempt_id, tp_descriptor = JObj [],
       tp_descriptorDigest = ''sha256:'' @ replicate 64 CHR ''a'', tp_hostId = ''host-a'', tp_capacity = ''kvm'',
       tp_startedAt = ''2026-01-01T00:00:00.000Z'', tp_finishedAt = ''2026-01-01T00:00:00.000Z'',
       tp_result = ''success'', tp_completion = Exited 0, tp_stdout = demo_output, tp_stderr = demo_output\<rparr>\<rparr>"

definition demo_completion :: NativeQemuCompletion where
  "demo_completion = \<lparr>co_claimId = demo_claim_id, co_cleanupComplete = True, co_eventId = demo_uuid,
     co_result = ''success'', co_terminalEvent = demo_terminal\<rparr>"

lemma demo_hex: "matches hex64Pattern (replicate 64 CHR ''a'')" "matches hex64Pattern (replicate 64 CHR ''b'')"
  "matches hex64Pattern (replicate 64 CHR ''c'')" "matches objectIdPattern (replicate 40 CHR ''d'')"
  "matches objectIdPattern (replicate 40 CHR ''e'')" "matches objectIdPattern (replicate 40 CHR ''f'')"
  by (simp_all add: hex64Pattern_def objectIdPattern_def matches_Alt matches_class class_defs less_eq_char_def
      list_all_iff)

lemma demo_uuids: "matches uuidPattern demo_uuid" "matches uuidPattern demo_claim_id"
  "matches uuidPattern demo_request" "matches uuidPattern demo_attempt_id"
  by code_simp+

lemma demo_names: "matches namePattern ''demo''" "matches namePattern ''test''"
  "matches revisionPattern ''r1''" "matches identifierPattern ''host-a''" "matches identifierPattern ''kvm''"
  "matches timestampPattern ''2026-01-01T00:00:00.000Z''" "matches naturalPattern ''0''"
  "head_ref_ok ''refs/heads/main''"
  by code_simp+

lemma demo_digest: "matches digestPattern (''sha256:'' @ replicate 64 CHR ''a'')"
  by code_simp

lemma demo_event_valid: "event_valid demo_rt demo_event"
  by (simp add: event_valid_def demo_event_def demo_hex demo_names demo_rt_def)

lemma demo_event_fields:
  "ev_eventId demo_event = replicate 64 CHR ''a''" "ev_projectId demo_event = ''demo''"
  "ev_executionKind demo_event = ''qemu''"
  by (simp_all add: demo_event_def)

lemma demo_attempt_ok: "attempt_ok demo_attempt"
  using demo_digest by (simp add: attempt_ok_def demo_attempt_def demo_uuids)

lemma demo_completion_ok: "completion_ok demo_rt demo_completion"
  using demo_digest
  by (simp add: completion_ok_def demo_completion_def demo_terminal_def terminal_valid_def payload_valid_def
      timestamp_valid_def output_valid_def demo_output_def demo_uuids demo_names demo_hex completion_result_def
      demo_rt_def)

lemma demo_distinct: "demo_uuid \<noteq> demo_claim_id" "demo_uuid \<noteq> demo_request" "demo_claim_id \<noteq> demo_request"
  "demo_request \<noteq> demo_uuid"
  by (simp_all add: demo_uuid_def demo_claim_id_def demo_request_def)

section \<open>The run\<close>

definition demo_db0 :: scheduler_db where "demo_db0 = initialize demo_uuid ''[]''"

definition demo_eligibility :: eligibility_row where
  "demo_eligibility = \<lparr>el_project_id = ''demo'', el_eligibility_generation = demo_uuid,
     el_lease_expires_at = 100000, el_refreshed_at = 1000\<rparr>"

definition demo_event_row :: "event_state \<Rightarrow> event_row" where
  "demo_event_row st = \<lparr>er_event_id = replicate 64 CHR ''a'', er_admission_generation = demo_uuid,
     er_event_json = event_json_of demo_event, er_state = st, er_created_at = 1000\<rparr>"

definition demo_claim_row :: claim_row where
  "demo_claim_row = \<lparr>cr_claim_id = demo_claim_id, cr_request_id = demo_request,
     cr_event_id = replicate 64 CHR ''a'', cr_host_id = ''host-a'', cr_capacity = ''kvm'',
     cr_admission_generation = demo_uuid, cr_lease_expires_at = 62000, cr_attempt_id = None,
     cr_descriptor_digest = None, cr_attempt_json = None, cr_state = CReserved, cr_result_json = None\<rparr>"

definition demo_active_row :: claim_row where
  "demo_active_row = demo_claim_row\<lparr>cr_state := CActive, cr_attempt_id := Some (at_attemptId demo_attempt),
     cr_descriptor_digest := Some (at_descriptorDigest demo_attempt),
     cr_attempt_json := Some (attempt_json_of demo_attempt)\<rparr>"

definition demo_outbox_row :: outbox_row where
  "demo_outbox_row = \<lparr>ob_claim_id = demo_claim_id, ob_terminal_event_json = terminal_json demo_terminal,
     ob_state = Pending, ob_created_at = 4000, ob_delivered_at = None\<rparr>"

definition demo_db1 :: scheduler_db where
  "demo_db1 = demo_db0\<lparr>db_eligibility := [demo_eligibility], db_events := [demo_event_row Queued]\<rparr>"

definition demo_db2 :: scheduler_db where
  "demo_db2 = demo_db1\<lparr>db_events := [demo_event_row Reserved], db_claims := [demo_claim_row]\<rparr>"

definition demo_db3 :: scheduler_db where
  "demo_db3 = demo_db1\<lparr>db_events := [demo_event_row Active], db_claims := [demo_active_row]\<rparr>"

definition demo_db4 :: scheduler_db where
  "demo_db4 = demo_db3\<lparr>db_claims := [demo_active_row\<lparr>cr_result_json := Some (completion_row_json demo_completion)\<rparr>],
     db_outbox := [demo_outbox_row]\<rparr>"

lemmas demo_defs = demo_db0_def demo_db1_def demo_db2_def demo_db3_def demo_db4_def initialize_def
  demo_eligibility_def demo_event_row_def demo_claim_row_def demo_active_row_def demo_outbox_row_def

lemma demo_enqueue:
  "enqueue 1000 demo_uuid demo_event 99000 demo_db0 =
     Inr (\<lparr>eq_result = Created, eq_eligibilityGeneration = demo_uuid, eq_expiresAt = 100000\<rparr>, demo_db1)"
  by (simp add: enqueue_def upsert_eligibility_def demo_defs demo_event_def)

definition demo_claim :: NativeQemuClaim where
  "demo_claim = \<lparr>cl_claimId = demo_claim_id, cl_requestId = demo_request, cl_hostId = ''host-a'',
     cl_capacity = ''kvm'', cl_admissionGeneration = demo_uuid, cl_leaseExpiresAt = 62000, cl_event = demo_event\<rparr>"

lemma demo_parse: "parseEvent demo_rt (event_json_of demo_event) = Some demo_event"
  by (simp add: parseEvent_def parse_event_json demo_event_valid)

lemma demo_reserve:
  "reserve demo_rt 2000 2000 2000 2000 demo_claim_id demo_input demo_db1 = Inr (Some demo_claim, demo_db2)"
  by (simp add: reserve_def expireClaims_def delete_claims_def next_event_def event_eligible_def insert_claim_def
      demo_defs demo_input_def demo_parse demo_claim_def open_claim_def)

lemma demo_activate: "activate 3000 demo_claim_id demo_attempt demo_db2 = Inr demo_db3"
  by (simp add: activate_def set_event_state_def demo_defs)

lemma demo_record: "recordResult 4000 demo_completion demo_db3 = Inr (Created, demo_db4)"
  by (simp add: recordResult_def insert_outbox_def demo_defs demo_completion_def)

lemma demo_safe: "safe_integer 1000" "safe_integer 4000" "safe_integer 5000" "safe_integer 62000" "safe_integer 100000"
  by (simp_all add: safe_integer_def)

lemma demo_reach:
  assumes init: "init demo_db0"
  shows "reach init (sched_step demo_rt) demo_db1" "reach init (sched_step demo_rt) demo_db2"
    "reach init (sched_step demo_rt) demo_db3" "reach init (sched_step demo_rt) demo_db4"
proof -
  have "sched_step demo_rt demo_db0 demo_db1"
    by (rule sched_step.step_enqueue[OF demo_enqueue demo_event_valid demo_uuids(1)]) (simp_all add: demo_safe)
  then show r1: "reach init (sched_step demo_rt) demo_db1"
    by (rule reach.reach_step[of init "sched_step demo_rt" demo_db0, OF reach.reach_init[of init, OF init]])
  have "sched_step demo_rt demo_db1 demo_db2"
    by (rule sched_step.step_reserve[OF demo_reserve])
      (simp_all add: demo_uuids demo_names demo_input_def demo_safe)
  then show r2: "reach init (sched_step demo_rt) demo_db2" by (rule reach.reach_step[of init "sched_step demo_rt" demo_db1, OF r1])
  have "sched_step demo_rt demo_db2 demo_db3"
    by (rule sched_step.step_activate[OF demo_activate demo_attempt_ok])
  then show r3: "reach init (sched_step demo_rt) demo_db3" by (rule reach.reach_step[of init "sched_step demo_rt" demo_db2, OF r2])
  have "sched_step demo_rt demo_db3 demo_db4"
    by (rule sched_step.step_record[OF demo_record demo_completion_ok demo_safe(2)])
  then show "reach init (sched_step demo_rt) demo_db4" by (rule reach.reach_step[of init "sched_step demo_rt" demo_db3, OF r3])
qed

lemma demo_init: "sched_init demo_db0"
  unfolding sched_init_def demo_db0_def using demo_uuids(1) by blast

end
