(* ===== verification/Qemu_Reopen.thy ===== *)
theory Qemu_Reopen
  imports Qemu_Machine Qemu_Examples
begin

text \<open>
  \<open>validateExisting\<close> of \<open>nativeQemuSchedulerDatabase.ts\<close>: what the scheduler checks of a
  database file it finds when it starts, and that every database the scheduler itself can write
  passes. The checks of the file (owner, mode, integrity pragma, schema objects) are the file
  system's and SQLite's; here are the checks of the contents.
\<close>

definition validateEligibility :: "eligibility_row \<Rightarrow> bool" where
  "validateEligibility row \<longleftrightarrow> matches identifierPattern (el_project_id row)
     \<and> matches generationPattern (el_eligibility_generation row)
     \<and> safe_integer (el_lease_expires_at row) \<and> safe_integer (el_refreshed_at row)"

definition validateEvent :: "runtime \<Rightarrow> event_row \<Rightarrow> bool" where
  "validateEvent rt row \<longleftrightarrow>
     (case parseNativeQemuReviewEvent rt (er_event_json row) of
        None \<Rightarrow> False
      | Some event \<Rightarrow> er_event_id row = ev_eventId event
          \<and> matches generationPattern (er_admission_generation row) \<and> safe_integer (er_created_at row))"

definition validateAttempt :: "string \<Rightarrow> string \<Rightarrow> json \<Rightarrow> bool" where
  "validateAttempt attemptId descriptorDigest attemptJson \<longleftrightarrow>
     matches uuidPattern attemptId \<and> matches digestPattern descriptorDigest
     \<and> exact attemptJson [''attemptId'', ''descriptorDigest'', ''descriptor'']
     \<and> get_field attemptJson ''attemptId'' = Some (JStr attemptId)
     \<and> get_field attemptJson ''descriptorDigest'' = Some (JStr descriptorDigest)
     \<and> as_record (get_field attemptJson ''descriptor'') \<noteq> None"

definition validateResult :: "runtime \<Rightarrow> string \<Rightarrow> json \<Rightarrow> bool" where
  "validateResult rt claimId result \<longleftrightarrow>
     exact result [''claimId'', ''cleanupComplete'', ''eventId'', ''result'', ''terminalEvent'']
     \<and> get_field result ''claimId'' = Some (JStr claimId)
     \<and> get_field result ''cleanupComplete'' = Some (JBool True)
     \<and> as_matching uuidPattern (get_field result ''eventId'') \<noteq> None
     \<and> terminalResult (get_field result ''result'') \<noteq> None
     \<and> Option.bind (as_record (get_field result ''terminalEvent'')) (parseNativeQemuTerminalEvent rt) \<noteq> None"

definition validateClaim :: "runtime \<Rightarrow> claim_row \<Rightarrow> bool" where
  "validateClaim rt row \<longleftrightarrow> matches uuidPattern (cr_claim_id row) \<and> matches uuidPattern (cr_request_id row)
     \<and> matches hex64Pattern (cr_event_id row) \<and> matches identifierPattern (cr_host_id row)
     \<and> matches identifierPattern (cr_capacity row) \<and> matches generationPattern (cr_admission_generation row)
     \<and> safe_integer (cr_lease_expires_at row)
     \<and> (let hasAttempt = cr_attempt_id row \<noteq> None \<and> cr_descriptor_digest row \<noteq> None \<and> cr_attempt_json row \<noteq> None;
            hasNoAttempt = cr_attempt_id row = None \<and> cr_descriptor_digest row = None \<and> cr_attempt_json row = None
        in \<not> (cr_state row = CReserved \<and> \<not> hasNoAttempt) \<and> \<not> (cr_state row = CActive \<and> \<not> hasAttempt)
         \<and> \<not> (cr_state row = CCompleted \<and> \<not> hasAttempt \<and> \<not> hasNoAttempt)
         \<and> (hasAttempt \<longrightarrow> validateAttempt (the (cr_attempt_id row)) (the (cr_descriptor_digest row))
              (the (cr_attempt_json row))))
     \<and> (case cr_result_json row of None \<Rightarrow> True | Some result \<Rightarrow> validateResult rt (cr_claim_id row) result)"

definition validateOutbox :: "runtime \<Rightarrow> outbox_row \<Rightarrow> bool" where
  "validateOutbox rt row \<longleftrightarrow> matches uuidPattern (ob_claim_id row)
     \<and> parseNativeQemuTerminalEvent rt (ob_terminal_event_json row) \<noteq> None
     \<and> safe_integer (ob_created_at row)
     \<and> (case ob_delivered_at row of None \<Rightarrow> True | Some t \<Rightarrow> safe_integer t)
     \<and> \<not> (ob_state row = Pending \<and> ob_delivered_at row \<noteq> None)
     \<and> \<not> (ob_state row = Delivered \<and> ob_delivered_at row = None)"

definition foreign_keys_ok :: "scheduler_db \<Rightarrow> bool" where
  "foreign_keys_ok db \<longleftrightarrow>
     list_all (\<lambda>c. list_ex (\<lambda>e. er_event_id e = cr_event_id c) (db_events db)) (db_claims db)
     \<and> list_all (\<lambda>b. list_ex (\<lambda>c. cr_claim_id c = ob_claim_id b) (db_claims db)) (db_outbox db)"

definition validateExisting :: "runtime \<Rightarrow> string \<Rightarrow> scheduler_db \<Rightarrow> bool" where
  "validateExisting rt executionAuthorityJson db \<longleftrightarrow>
     (case sort_key fst (db_metadata db) of
        [(k0, v0), (k1, v1), (k2, v2)] \<Rightarrow>
          k0 = ''execution_authority_json'' \<and> v0 = executionAuthorityJson \<and> k1 = ''schema_version''
          \<and> v1 = ''3'' \<and> k2 = ''service_generation_id'' \<and> matches uuidPattern v2
      | _ \<Rightarrow> False)
     \<and> foreign_keys_ok db
     \<and> list_all validateEligibility (db_eligibility db) \<and> list_all (validateEvent rt) (db_events db)
     \<and> list_all (validateClaim rt) (db_claims db) \<and> list_all (validateOutbox rt) (db_outbox db)"

section \<open>Rows of a database that satisfies the invariant\<close>

lemma validateAttempt_ok:
  "attempt_ok a \<Longrightarrow> validateAttempt (at_attemptId a) (at_descriptorDigest a) (attempt_json_of a)"
  using exact_JObj[of "members (attempt_json_of a)"]
  by (cases "at_descriptor a") (auto simp: validateAttempt_def attempt_ok_def attempt_json_of_def)

lemma bind_terminal_record: "Option.bind (as_record (Some (terminal_json t))) f = f (terminal_json t)"
  by (simp add: terminal_json_def)

lemma validateResult_ok:
  assumes "completion_ok rt co"
  shows "validateResult rt (co_claimId co) (completion_row_json co)"
proof -
  from assms have t: "terminal_valid rt (co_terminalEvent co)" by (simp add: completion_ok_def)
  show ?thesis
    using exact_JObj[of "members (completion_row_json co)"] assms terminal_valid_result[OF t] t
    by (auto simp: validateResult_def completion_row_json_def completion_ok_def terminal_valid_def
        terminalResult_def as_matching_def bind_terminal_record parse_terminal_json[OF t])
qed

lemma validateClaim_attempt:
  assumes "claim_row_ok rt c"
  shows "(no_attempt c \<and> cr_state c \<noteq> CActive) \<or>
    (has_attempt c \<and> cr_state c \<noteq> CReserved \<and> cr_attempt_id c \<noteq> None \<and> cr_descriptor_digest c \<noteq> None \<and> cr_attempt_json c \<noteq> None
     \<and> validateAttempt (the (cr_attempt_id c)) (the (cr_descriptor_digest c)) (the (cr_attempt_json c)))"
  using assms by (cases "cr_state c") (auto simp: claim_row_ok_def has_attempt_def validateAttempt_ok)

lemma validateClaim_ok:
  assumes inv: "db_inv rt db" and c: "c \<in> set (db_claims db)"
  shows "validateClaim rt c"
proof -
  note ok = claim_ok[OF inv c]
  from event_of_claim[OF inv c] obtain e where e: "er_event_id e = cr_event_id c" "event_row_ok rt e" by metis
  then have h: "matches hex64Pattern (cr_event_id c)" by (auto simp: event_row_ok_def event_valid_def)
  have r: "case cr_result_json c of None \<Rightarrow> True | Some result \<Rightarrow> validateResult rt (cr_claim_id c) result"
    using ok validateResult_ok by (fastforce simp: claim_row_ok_def split: option.splits)
  show ?thesis
    using validateClaim_attempt[OF ok]
    unfolding validateClaim_def Let_def
    by (intro conjI r h) (use ok in \<open>auto simp: claim_row_ok_def no_attempt_def\<close>)
qed

lemma validateOutbox_ok:
  assumes inv: "db_inv rt db" and b: "b \<in> set (db_outbox db)"
  shows "validateOutbox rt b"
proof -
  from db_invD(7)[OF inv] b obtain c where "c \<in> set (db_claims db)" "cr_claim_id c = ob_claim_id b"
    and ok: "outbox_row_ok rt b" by (auto simp: outbox_ok_def)
  then have "matches uuidPattern (ob_claim_id b)" using claim_ok[OF inv] by (metis claim_row_ok_def)
  with ok show ?thesis
    by (auto simp: validateOutbox_def outbox_row_ok_def parse_terminal_json split: option.splits)
qed

lemma validate_rows:
  assumes inv: "db_inv rt db"
  shows "foreign_keys_ok db" "list_all validateEligibility (db_eligibility db)"
    "list_all (validateEvent rt) (db_events db)" "list_all (validateClaim rt) (db_claims db)"
    "list_all (validateOutbox rt) (db_outbox db)"
proof -
  show "foreign_keys_ok db"
    using db_invD(6,7)[OF inv] by (fastforce simp: foreign_keys_ok_def list_all_iff list_ex_iff linked_def outbox_ok_def)
  show "list_all validateEligibility (db_eligibility db)"
    using db_invD(3)[OF inv]
    by (auto simp: list_all_iff eligibility_ok_def eligibility_row_ok_def validateEligibility_def)
  show "list_all (validateEvent rt) (db_events db)"
    using db_invD(4)[OF inv]
    by (auto simp: list_all_iff events_ok_def event_row_ok_def validateEvent_def parse_event_json)
qed (simp_all add: list_all_iff validateClaim_ok[OF inv] validateOutbox_ok[OF inv])

section \<open>The metadata never changes\<close>

lemma metadata_ops:
  "enqueue now uuid ev lease db = Inr (q, db') \<Longrightarrow> db_metadata db' = db_metadata db"
  "reserve rt now1 now2 now3 now4 uuid input db = Inr (c, db') \<Longrightarrow> db_metadata db' = db_metadata db"
  "activate now claimId attempt db = Inr db' \<Longrightarrow> db_metadata db' = db_metadata db"
  "renew now1 now2 claimId hostId cap lease db = Inr (t, db') \<Longrightarrow> db_metadata db' = db_metadata db"
  "recordResult now co db = Inr (r, db') \<Longrightarrow> db_metadata db' = db_metadata db"
  "acknowledgeResult now claimId db = Inr db' \<Longrightarrow> db_metadata db' = db_metadata db"
  "recover claimId hostId cap db = Inr db' \<Longrightarrow> db_metadata db' = db_metadata db"
  "supersedeReservation claimId db = Inr db' \<Longrightarrow> db_metadata db' = db_metadata db"
  by (auto elim!: enqueue_cases reserve_cases simp: expireClaims_def delete_claims_def insert_claim_def
      activate_def renew_def recordResult_def insert_outbox_def acknowledgeResult_def recover_def
      supersedeReservation_def set_event_state_def set_claim_state_def Let_def bindR_eq_Inr
      split: if_splits option.splits)

lemma step_metadata: "sched_step rt db db' \<Longrightarrow> db_metadata db' = db_metadata db"
  by (erule sched_step.cases) (auto simp: metadata_ops)

definition sched_started :: "string \<Rightarrow> string \<Rightarrow> scheduler_db \<Rightarrow> bool" where
  "sched_started uuid authority db \<longleftrightarrow> db = initialize uuid authority"

interpretation metadata: safe_machine "sched_started uuid authority" "sched_step rt"
  "\<lambda>db. db_inv rt db \<and> db_metadata db = db_metadata (initialize uuid authority)" for rt uuid authority
  by unfold_locales (auto simp: sched_started_def initialize_inv step_metadata intro: sched_step_inv)

lemma sorted_metadata:
  "sort_key fst (db_metadata (initialize uuid authority)) =
     [(''execution_authority_json'', authority), (''schema_version'', ''3''), (''service_generation_id'', uuid)]"
  by (simp add: initialize_def less_eq_char_def less_char_def less_le)

text \<open>C30: A scheduler can always restart on its own database. In every database reachable from a
  freshly initialised one by the operations of the store, all of \<open>validateExisting\<close> succeeds:
  the metadata, the foreign keys and every row of the four tables pass the checks of start-up.\<close>

theorem reachable_database_reopens:
  assumes "matches uuidPattern uuid" "reach (sched_started uuid authority) (sched_step rt) db"
  shows "validateExisting rt authority db"
proof -
  from metadata.reachable_inv[OF assms(2)] have inv: "db_inv rt db"
    and m: "db_metadata db = db_metadata (initialize uuid authority)" by auto
  show ?thesis
    using assms(1) validate_rows[OF inv] by (simp add: validateExisting_def m sorted_metadata)
qed

theorem reachable_database_reopens_witness:
  "matches uuidPattern demo_uuid \<and> validateExisting demo_rt ''[]'' demo_db4"
  using reachable_database_reopens[OF demo_uuids(1) demo_reach(4)[of "sched_started demo_uuid ''[]''"]]
  by (simp add: demo_uuids sched_started_def demo_db0_def)

end
