(* ===== verification/Qemu_Progress.thy ===== *)
theory Qemu_Progress
  imports Qemu_Reopen
begin

text \<open>
  What no operation of the scheduler store undoes. An event is never removed or rewritten, an active
  event only completes, a completed or superseded one stays so; a claim that has been activated is
  never removed, keeps its attempt and its result; a delivered report is never touched again.
\<close>

fun state_le :: "event_state \<Rightarrow> event_state \<Rightarrow> bool" where
  "state_le Queued _ = True"
| "state_le Reserved _ = True"
| "state_le Active s = (s = Active \<or> s = Completed)"
| "state_le Completed s = (s = Completed)"
| "state_le Superseded s = (s = Superseded)"

definition event_moves :: "event_row \<Rightarrow> event_row \<Rightarrow> bool" where
  "event_moves e e' \<longleftrightarrow> er_event_id e' = er_event_id e \<and> er_event_json e' = er_event_json e
     \<and> er_created_at e' = er_created_at e \<and> state_le (er_state e) (er_state e')"

definition claim_moves :: "claim_row \<Rightarrow> claim_row \<Rightarrow> bool" where
  "claim_moves c c' \<longleftrightarrow> cr_claim_id c' = cr_claim_id c \<and> cr_request_id c' = cr_request_id c
     \<and> cr_event_id c' = cr_event_id c \<and> cr_host_id c' = cr_host_id c \<and> cr_capacity c' = cr_capacity c
     \<and> cr_admission_generation c' = cr_admission_generation c \<and> cr_attempt_json c' = cr_attempt_json c
     \<and> (cr_state c' = cr_state c \<or> cr_state c' = CCompleted)
     \<and> (cr_result_json c \<noteq> None \<longrightarrow> cr_result_json c' = cr_result_json c)"

definition outbox_moves :: "outbox_row \<Rightarrow> outbox_row \<Rightarrow> bool" where
  "outbox_moves b b' \<longleftrightarrow> ob_claim_id b' = ob_claim_id b \<and> ob_terminal_event_json b' = ob_terminal_event_json b
     \<and> ob_created_at b' = ob_created_at b \<and> (ob_state b = Delivered \<longrightarrow> b' = b)"

definition keeps :: "('r \<Rightarrow> 'r \<Rightarrow> bool) \<Rightarrow> 'r set \<Rightarrow> 'r list \<Rightarrow> bool" where
  "keeps R rows rows' \<longleftrightarrow> (\<forall>r\<in>rows. \<exists>r'\<in>set rows'. R r r')"

definition activated :: "scheduler_db \<Rightarrow> claim_row set" where
  "activated db = {c \<in> set (db_claims db). cr_state c \<noteq> CReserved}"

definition progress :: "scheduler_db \<Rightarrow> scheduler_db \<Rightarrow> bool" where
  "progress db db' \<longleftrightarrow> keeps event_moves (set (db_events db)) (db_events db')
     \<and> keeps claim_moves (activated db) (db_claims db')
     \<and> keeps outbox_moves (set (db_outbox db)) (db_outbox db')"

section \<open>A preorder\<close>

lemma state_le_refl [simp]: "state_le s s"
  by (cases s) simp_all

lemma state_le_trans: "state_le s t \<Longrightarrow> state_le t u \<Longrightarrow> state_le s u"
  by (cases s; cases t) simp_all

lemma moves_refl [simp]: "event_moves e e" "claim_moves c c" "outbox_moves b b"
  by (simp_all add: event_moves_def claim_moves_def outbox_moves_def)

lemma moves_trans:
  "event_moves e f \<Longrightarrow> event_moves f g \<Longrightarrow> event_moves e g"
  "claim_moves c d \<Longrightarrow> claim_moves d x \<Longrightarrow> claim_moves c x"
  "outbox_moves b o1 \<Longrightarrow> outbox_moves o1 o2 \<Longrightarrow> outbox_moves b o2"
  by (auto simp: event_moves_def claim_moves_def outbox_moves_def intro: state_le_trans)

lemma keeps_refl: "(\<And>r. R r r) \<Longrightarrow> rows \<subseteq> set rows' \<Longrightarrow> keeps R rows rows'"
  by (auto simp: keeps_def)

lemma progress_refl: "progress db db"
  by (auto simp: progress_def activated_def intro!: keeps_refl)

lemma activated_moves: "c \<in> activated db \<Longrightarrow> claim_moves c c' \<Longrightarrow> c' \<in> set (db_claims db') \<Longrightarrow> c' \<in> activated db'"
  by (auto simp: activated_def claim_moves_def)

lemma progress_trans: "progress a b \<Longrightarrow> progress b c \<Longrightarrow> progress a c"
  unfolding progress_def keeps_def by (meson activated_moves moves_trans)

section \<open>Every operation respects it\<close>

lemma keeps_update:
  assumes "\<And>r. r \<in> rows \<Longrightarrow> P r \<Longrightarrow> R r (f r)" "\<And>r. R r r" "rows \<subseteq> set xs"
  shows "keeps R rows (update_rows P f xs)"
proof -
  have "R r (if P r then f r else r)" if "r \<in> rows" for r using assms(1,2) that by simp
  moreover have "(if P r then f r else r) \<in> set (update_rows P f xs)" if "r \<in> rows" for r
    using in_update_rows[of r xs P f] assms(3) that by blast
  ultimately show ?thesis unfolding keeps_def by blast
qed

lemma keeps_append: "keeps R rows xs \<Longrightarrow> keeps R rows (xs @ ys)"
  by (auto simp: keeps_def)

lemma keeps_claims: "keeps claim_moves (activated db) (db_claims db)"
  by (auto simp: activated_def intro!: keeps_refl)

lemmas keeps_outbox = keeps_refl[of outbox_moves, OF moves_refl(3) subset_refl]
lemmas keeps_events = keeps_refl[of event_moves, OF moves_refl(1) subset_refl]

lemma set_state_progress:
  assumes inv: "db_inv rt db" and c: "c \<in> set (db_claims db)"
    and st: "state_le (claim_event (cr_state c)) st" and same: "db_events d = db_events db"
  shows "keeps event_moves (set (db_events db)) (db_events (set_event_state (cr_event_id c) st d))"
proof -
  from event_of_claim[OF inv c] obtain e where e: "e \<in> set (db_events db)" "er_event_id e = cr_event_id c"
    "er_state e = claim_event (cr_state c)" by metis
  have only: "x = e" if "x \<in> set (db_events db)" "er_event_id x = cr_event_id c" for x
    using unique_by_eq[OF keysD(3)[OF inv] that(1) e(1)] that(2) e(2) by simp
  then have "event_moves x (x\<lparr>er_state := st\<rparr>)"
    if "x \<in> set (db_events db)" "er_event_id x = cr_event_id c" for x
    using that e(3) st by (auto simp: event_moves_def)
  then show ?thesis
    unfolding set_event_state_def same[symmetric] by (simp add: keeps_update)
qed

lemma replace_claim_keeps:
  assumes "db_inv rt db" "c \<in> set (db_claims db)" "cr_state c \<noteq> CReserved \<Longrightarrow> claim_moves c c'"
  shows "keeps claim_moves (activated db) (db_claims (replace_claim c c' db))"
  unfolding keeps_def
proof
  fix r assume r: "r \<in> activated db"
  show "\<exists>r'\<in>set (db_claims (replace_claim c c' db)). claim_moves r r'"
  proof (cases "r = c")
    case True
    with r assms(3) replace_claim_set(1)[OF assms(1,2), of c'] show ?thesis by (auto simp: activated_def)
  next
    case False
    with r have "r \<in> set (db_claims (replace_claim c c' db))"
      unfolding replace_claim_set(1)[OF assms(1,2)] by (simp add: activated_def)
    then show ?thesis by (rule bexI[rotated]) simp
  qed
qed

lemma move_progress:
  assumes "db_inv rt db" "c \<in> set (db_claims db)" "cr_state c \<noteq> CReserved \<Longrightarrow> claim_moves c c'"
    "state_le (claim_event (cr_state c)) st"
  shows "progress db (set_event_state (cr_event_id c) st (replace_claim c c' db))"
  unfolding progress_def
  using set_state_progress[OF assms(1,2,4)] replace_claim_keeps[OF assms(1-3)] keeps_outbox by simp

lemma expire_progress:
  assumes inv: "db_inv rt db" and step: "expireClaims now1 now2 db = Inr db'"
  shows "progress db db'"
proof -
  let ?Q = "\<lambda>e. \<exists>c\<in>set (db_claims db). expired now1 c \<and> cr_event_id c = er_event_id e"
  have "er_state e = Reserved" if "e \<in> set (db_events db)" "?Q e" for e
  proof -
    from that(2) obtain c where c: "c \<in> set (db_claims db)" "expired now1 c" "cr_event_id c = er_event_id e" by blast
    then obtain x where "x \<in> set (db_events db)" "er_event_id x = cr_event_id c" "er_state x = Reserved"
      using event_of_claim[OF inv c(1)] by (metis expired_def claim_event.simps(1))
    with unique_by_eq[OF keysD(3)[OF inv], of x e] that(1) c(3) show ?thesis by simp
  qed
  then have "keeps event_moves (set (db_events db)) (update_rows ?Q (\<lambda>e. e\<lparr>er_state := Queued\<rparr>) (db_events db))"
    by (intro keeps_update) (auto simp: event_moves_def)
  moreover have "keeps claim_moves (activated db) (delete_rows (expired now2) (db_claims db))"
    by (intro keeps_refl) (auto simp: activated_def expired_def)
  ultimately show ?thesis
    using step expireClaims_eq[OF inv] keeps_outbox by (auto simp: progress_def)
qed

lemma reserve_progress:
  assumes inv: "db_inv rt db0" and le: "now1 \<le> now2"
    and step: "reserve rt now1 now2 now3 now4 uuid input db0 = Inr (r, db')"
  shows "progress db0 db'"
  using step
proof (cases rule: reserve_cases)
  case (fresh db db1 e ev)
  note e = next_event_Some(1,2)[OF fresh(2)]
  from fresh have cl: "db_claims db1 = db_claims db @ [new_claim uuid now4 input e]"
      "db_events db1 = db_events db" "db_outbox db1 = db_outbox db"
    by (auto simp: insert_claim_def split: if_splits)
  have only: "x = e" if "x \<in> set (db_events db)" "er_event_id x = er_event_id e" for x
    using unique_by_eq[OF keysD(3)[OF expireClaims_inv[OF inv le fresh(1)]] that(1) e(1) that(2)] .
  have "event_moves x (x\<lparr>er_state := Reserved\<rparr>)"
    if "x \<in> set (db_events db)" "er_event_id x = er_event_id e" for x
    using only[OF that] e(2) by (simp add: event_moves_def event_eligible_def)
  then have "keeps event_moves (set (db_events db)) (db_events db')"
    unfolding fresh(6) set_event_state_def cl by (simp add: cl keeps_update)
  then have "progress db db'"
    using keeps_append[OF keeps_claims[of db]] keeps_outbox by (simp add: progress_def fresh(6) cl)
  with expire_progress[OF inv fresh(1)] show ?thesis by (rule progress_trans)
qed (auto intro: expire_progress[OF inv])

lemma enqueue_progress:
  assumes "enqueue now uuid ev lease db = Inr (r, db')"
  shows "progress db db'"
  using assms
proof (cases rule: enqueue_cases)
  case (1 gen elig evs)
  have "keeps event_moves (set (db_events db)) evs"
    unfolding 1(3) by (rule keeps_update) (auto simp: event_moves_def)
  with 1(6) keeps_append[of event_moves "set (db_events db)" evs] show ?thesis
    by (auto simp: progress_def keeps_outbox keeps_claims)
qed

lemma activate_progress:
  assumes inv: "db_inv rt db" and step: "activate now claimId attempt db = Inr db'"
  shows "progress db db'"
proof (rule activate_cases[OF inv step])
  fix c assume c: "c \<in> set (db_claims db)" "cr_state c = CReserved"
    and db': "db' = set_event_state (cr_event_id c) Active (replace_claim c (c\<lparr>cr_state := CActive,
       cr_attempt_id := Some (at_attemptId attempt), cr_descriptor_digest := Some (at_descriptorDigest attempt),
       cr_attempt_json := Some (attempt_json_of attempt)\<rparr>) db)"
  show ?thesis unfolding db' by (rule move_progress[OF inv c(1)]) (simp_all add: c(2))
qed

lemma renew_progress:
  assumes inv: "db_inv rt db" and step: "renew now1 now2 claimId hostId cap lease db = Inr (t, db')"
  shows "progress db db'"
proof (rule renew_cases[OF inv step])
  fix c assume c: "c \<in> set (db_claims db)" "db' = replace_claim c (c\<lparr>cr_lease_expires_at := t\<rparr>) db"
  then show ?thesis
    unfolding progress_def using replace_claim_keeps[OF inv c(1), of "c\<lparr>cr_lease_expires_at := t\<rparr>"]
    by (simp add: keeps_events keeps_outbox claim_moves_def)
qed

lemma record_progress:
  assumes inv: "db_inv rt db" and step: "recordResult now input db = Inr (r, db')"
  shows "progress db db'"
  using inv step
proof (cases rule: recordResult_cases)
  case (1 c)
  then show ?thesis by (simp add: progress_refl)
next
  case (2 c)
  have "keeps claim_moves (activated db)
      (db_claims (replace_claim c (c\<lparr>cr_result_json := Some (completion_row_json input)\<rparr>) db))"
    by (rule replace_claim_keeps[OF inv 2(1)]) (simp add: claim_moves_def 2)
  then show ?thesis
    using keeps_append[OF keeps_outbox[of "db_outbox db"]] by (simp add: progress_def 2(6) keeps_events)
qed

lemma complete_claim_progress:
  assumes inv: "db_inv rt db" and c: "c \<in> set (db_claims db)"
  shows "progress db (set_event_state (cr_event_id c) Completed (set_claim_state (cr_claim_id c) CCompleted db))"
  unfolding set_claim_state_replace[OF inv c]
  by (rule move_progress[OF inv c]) (auto simp: claim_moves_def intro: claim_event.cases[of "cr_state c"])

lemma recover_progress:
  assumes inv: "db_inv rt db" and step: "recover claimId hostId cap db = Inr db'"
  shows "progress db db'"
proof -
  from step obtain c where f: "find_row (\<lambda>c. cr_claim_id c = claimId \<and> cr_host_id c = hostId
      \<and> cr_capacity c = cap) (db_claims db) = Some c"
    by (auto simp: recover_def split: option.splits)
  from find_row_Some[OF f] complete_claim_progress[OF inv, of c] step f show ?thesis
    by (auto simp: recover_def progress_refl split: if_splits)
qed

lemma acknowledge_progress:
  assumes inv: "db_inv rt db" and step: "acknowledgeResult now claimId db = Inr db'"
  shows "progress db db'"
proof -
  from step obtain c where f: "find_row (\<lambda>c. cr_claim_id c = claimId) (db_claims db) = Some c"
    by (auto simp: acknowledgeResult_def split: option.splits)
  note c = find_claim[OF inv f]
  show ?thesis
  proof (cases "cr_state c = CCompleted")
    case True
    with step f show ?thesis by (auto simp: acknowledgeResult_def progress_refl split: if_splits)
  next
    case False
    let ?d = "set_event_state (cr_event_id c) Completed (set_claim_state claimId CCompleted db)"
    have p: "ob_state b = Pending" if "b \<in> set (db_outbox db)" "ob_claim_id b = claimId" for b
    proof -
      from db_invD(7)[OF inv] that obtain x where x: "x \<in> set (db_claims db)" "cr_claim_id x = claimId"
        "ob_state b = Delivered \<longrightarrow> cr_state x = CCompleted" by (auto simp: outbox_ok_def)
      then have "x = c" using unique_by_eq[OF keysD(4)[OF inv] x(1) c(1)] c(2) by simp
      with x False show ?thesis by (cases "ob_state b") auto
    qed
    have "keeps outbox_moves (set (db_outbox db)) (db_outbox db')"
      using step f False c(2) p
      by (auto simp: acknowledgeResult_def Let_def set_claim_state_def outbox_moves_def
          split: if_splits intro!: keeps_update)
    moreover have "progress db ?d" using complete_claim_progress[OF inv c(1)] c(2) by simp
    ultimately show ?thesis
      using step f False by (auto simp: acknowledgeResult_def Let_def progress_def split: if_splits)
  qed
qed

lemma supersede_progress:
  assumes inv: "db_inv rt db" and step: "supersedeReservation claimId db = Inr db'"
  shows "progress db db'"
proof (rule supersede_cases[OF inv step])
  fix c assume c: "c \<in> set (db_claims db)" "cr_claim_id c = claimId" "cr_state c = CReserved"
    and db': "db' = db\<lparr>db_claims := delete_rows (\<lambda>c. cr_claim_id c = claimId) (db_claims db),
       db_events := update_rows (\<lambda>e. er_event_id e = cr_event_id c) (\<lambda>e. e\<lparr>er_state := Superseded\<rparr>) (db_events db)\<rparr>"
  have "x = c" if "x \<in> set (db_claims db)" "cr_claim_id x = claimId" for x
    using unique_by_eq[OF keysD(4)[OF inv] that(1) c(1)] that(2) c(2) by simp
  then have "keeps claim_moves (activated db) (db_claims db')"
    unfolding db' using c(3) by (intro keeps_refl) (auto simp: activated_def)
  moreover have "keeps event_moves (set (db_events db)) (db_events db')"
    using set_state_progress[OF inv c(1), of Superseded db] c(3) by (simp add: db' set_event_state_def)
  ultimately show ?thesis by (simp add: progress_def db' keeps_outbox)
qed

lemma sched_step_progress: "db_inv rt db \<Longrightarrow> sched_step rt db db' \<Longrightarrow> progress db db'"
  by (erule sched_step.cases)
    (auto intro: enqueue_progress reserve_progress activate_progress renew_progress record_progress
      acknowledge_progress recover_progress supersede_progress)

interpretation sched_progress: monotone_machine sched_init "sched_step rt" "db_inv rt" progress for rt
  by unfold_locales (auto intro: progress_refl progress_trans sched_step_progress)

end
