(* ===== verification/Qemu_Scheduler.thy ===== *)
theory Qemu_Scheduler
  imports Qemu_Progress
begin

text \<open>
  The properties of the scheduler store as its clients see them: exclusivity of claims, order of
  reservation, replays, leases, exactly one result per claim, delivery, and the two states from which
  the store cannot move on.
\<close>

lemmas reachable = sched.reachable_inv

section \<open>Exclusivity\<close>



section \<open>Reservation\<close>

lemma reserve_find:
  assumes "expireClaims now1 now2 db = Inr db'" "db_inv rt db"
    "find_row (\<lambda>c. cr_request_id c = r) (db_claims db) = None"
  shows "find_row (\<lambda>c. cr_request_id c = r) (db_claims db') = None"
  using assms by (auto simp: expireClaims_eq find_row_None)

text \<open>C33: A new request is given the oldest eligible event. After the expired reservations have been
  returned to the queue, the event of the claim is queued, its project's eligibility has not expired,
  and no other such event comes before it in the order of creation (ties by event identifier). The
  database then holds the claim, with the caller's host, capacity and lease, and the event as
  reserved.\<close>

theorem reserve_takes_the_oldest_eligible_event:
  assumes "reach sched_init (sched_step rt) db0" "now1 \<le> now2"
    and "find_row (\<lambda>c. cr_request_id c = ri_requestId input) (db_claims db0) = None"
    and "reserve rt now1 now2 now3 now4 uuid input db0 = Inr (Some claim, db')"
  shows "\<exists>db e. expireClaims now1 now2 db0 = Inr db \<and> e \<in> set (db_events db) \<and> event_eligible now3 db e
    \<and> (\<forall>x\<in>set (db_events db). event_eligible now3 db x \<longrightarrow>
         er_created_at e < er_created_at x \<or> (er_created_at e = er_created_at x \<and> er_event_id e \<le> er_event_id x))
    \<and> ev_eventId (cl_event claim) = er_event_id e
    \<and> db_claims db' = db_claims db @ [\<lparr>cr_claim_id = uuid, cr_request_id = ri_requestId input,
        cr_event_id = er_event_id e, cr_host_id = ri_hostId input, cr_capacity = ri_capacity input,
        cr_admission_generation = er_admission_generation e,
        cr_lease_expires_at = now4 + ri_leaseMilliseconds input, cr_attempt_id = None,
        cr_descriptor_digest = None, cr_attempt_json = None, cr_state = CReserved, cr_result_json = None\<rparr>]
    \<and> e\<lparr>er_state := Reserved\<rparr> \<in> set (db_events db')"
  using assms(4)
proof (cases rule: reserve_cases)
  case (replay db c)
  with reserve_find[OF replay(1) reachable[OF assms(1)] assms(3)] show ?thesis by simp
next
  case (none db)
  then show ?thesis by simp
next
  case (fresh db db1 e ev)
  note inv = expireClaims_inv[OF reachable[OF assms(1)] assms(2) fresh(1)]
  note e = next_event_Some[OF fresh(2)]
  from db_invD(4)[OF inv] e(1) have "event_row_ok rt e" by (simp add: events_ok_def)
  then have "ev_eventId ev = er_event_id e"
    by (rule parse_event_row) (use fresh(5) in simp)
  moreover from fresh(4) have "db_claims db1 = db_claims db @ [new_claim uuid now4 input e]" "db_events db1 = db_events db"
    by (auto simp: insert_claim_def split: if_splits)
  moreover have "\<forall>x\<in>set (db_events db). event_eligible now3 db x \<longrightarrow>
      er_created_at e < er_created_at x \<or> (er_created_at e = er_created_at x \<and> er_event_id e \<le> er_event_id x)"
    using e(3) by fastforce
  moreover have "e\<lparr>er_state := Reserved\<rparr> \<in> set (db_events db')"
    using set_event_state_events(1)[of db1 e Reserved] keysD(3)[OF inv] e(1) calculation(3) by (simp add: fresh(6))
  ultimately show ?thesis
    using fresh e(1,2) by (intro exI[of _ db] exI[of _ e]) (simp add: new_claim_def)
qed

theorem reserve_takes_the_oldest_eligible_event_witness:
  "\<exists>db e. expireClaims 2000 2000 demo_db1 = Inr db \<and> e \<in> set (db_events db) \<and>
     ev_eventId (cl_event demo_claim) = er_event_id e \<and> e\<lparr>er_state := Reserved\<rparr> \<in> set (db_events demo_db2)"
  using reserve_takes_the_oldest_eligible_event[OF demo_reach(1)[of sched_init, OF demo_init] order_refl _ demo_reserve]
  by (fastforce simp: demo_db1_def demo_db0_def initialize_def)

lemma claim_of_total:
  assumes "db_inv rt db" "c \<in> set (db_claims db)"
  obtains claim where "claim_of rt db c = Inr claim" "cl_claimId claim = cr_claim_id c"
    "cl_leaseExpiresAt claim = cr_lease_expires_at c" "cl_requestId claim = cr_request_id c"
proof -
  from event_of_claim[OF assms] obtain e where e: "event_row_ok rt e"
    "find_row (\<lambda>e. er_event_id e = cr_event_id c) (db_events db) = Some e" by metis
  from parse_event_row[OF e(1)] obtain ev where "parseEvent rt (er_event_json e) = Some ev" by metis
  moreover have "safe_integer (cr_lease_expires_at c)" using claim_ok[OF assms] by (simp add: claim_row_ok_def)
  ultimately show thesis using that e(2) by (simp add: claim_of_def number_def)
qed

text \<open>The row behind a reservation that has succeeded.\<close>

lemma reserve_row:
  assumes inv: "db_inv rt db0" and le: "now1 \<le> now2"
    and ok: "matches uuidPattern uuid" "matches uuidPattern (ri_requestId input)"
      "matches identifierPattern (ri_hostId input)" "matches identifierPattern (ri_capacity input)"
      "safe_integer (now4 + ri_leaseMilliseconds input)"
    and step: "reserve rt now1 now2 now3 now4 uuid input db0 = Inr (Some claim, db')"
  obtains c where "c \<in> set (db_claims db')" "cr_request_id c = ri_requestId input" "cr_host_id c = ri_hostId input"
    "cr_capacity c = ri_capacity input" "open_claim c" "claim_of rt db' c = Inr claim"
    "cr_lease_expires_at c = cl_leaseExpiresAt claim"
  using step
proof (cases rule: reserve_cases)
  case (replay db c)
  from find_row_Some[OF replay(3)] have c: "c \<in> set (db_claims db)" "cr_request_id c = ri_requestId input" by auto
  have "db_inv rt db" using expireClaims_inv[OF inv le replay(1)] .
  from claim_of_total[OF this c(1)] obtain cl where "claim_of rt db c = Inr cl"
    "cl_leaseExpiresAt cl = cr_lease_expires_at c" by metis
  with replay c show ?thesis by (intro that[of c]) (auto simp: open_claim_def intro: claim_state.exhaust)
next
  case (none db)
  then show ?thesis by simp
next
  case (fresh db db1 e ev)
  note e = next_event_Some[OF fresh(2)]
  have inv': "db_inv rt db'" using reserve_inv[OF inv step le ok] .
  from fresh(4) have db1: "db1 = db\<lparr>db_claims := db_claims db @ [new_claim uuid now4 input e]\<rparr>"
    by (auto simp: insert_claim_def split: if_splits)
  let ?c = "new_claim uuid now4 input e"
  have c: "?c \<in> set (db_claims db')" by (simp add: fresh(6) db1)
  have "e\<lparr>er_state := Reserved\<rparr> \<in> set (db_events db')"
    using set_event_state_events(1)[of db1 e Reserved] e(1) expireClaims_inv[OF inv le fresh(1), THEN keysD(3)]
    by (simp add: fresh(6) db1)
  from find_row_unique[OF keysD(3)[OF inv'] this]
  have "find_row (\<lambda>x. er_event_id x = er_event_id e) (db_events db') = Some (e\<lparr>er_state := Reserved\<rparr>)" by simp
  then have "claim_of rt db' ?c = Inr claim"
    using fresh(5,7) ok(5) by (simp add: claim_of_def new_claim_def number_def)
  with c show ?thesis
    using fresh(7) by (intro that[of ?c]) (simp_all add: new_claim_def open_claim_def)
qed

text \<open>Repeating a reservation request is safe: while the lease lasts, the same request is answered
  with the same claim, whatever identifier the retry drew, and the same request identifier from another
  host or for another capacity is refused.\<close>

theorem reserve_replays_the_same_claim:
  assumes "reach sched_init (sched_step rt) db0" "now1 \<le> now2" "matches uuidPattern uuid"
    "matches uuidPattern (ri_requestId input)" "matches identifierPattern (ri_hostId input)"
    "matches identifierPattern (ri_capacity input)" "safe_integer (now4 + ri_leaseMilliseconds input)"
    and "reserve rt now1 now2 now3 now4 uuid input db0 = Inr (Some claim, db')"
    and "t1 \<le> t2" "t2 < cl_leaseExpiresAt claim" "ri_requestId input' = ri_requestId input"
  shows "if ri_hostId input' = ri_hostId input \<and> ri_capacity input' = ri_capacity input
    then \<exists>db''. reserve rt t1 t2 t3 t4 uuid' input' db' = Inr (Some claim, db'')
    else reserve rt t1 t2 t3 t4 uuid' input' db' = Inl ClaimRequestConflicts"
proof -
  note inv0 = reachable[OF assms(1)]
  from reserve_row[OF inv0 assms(2-8)] obtain c where c: "c \<in> set (db_claims db')"
    "cr_request_id c = ri_requestId input" "cr_host_id c = ri_hostId input" "cr_capacity c = ri_capacity input"
    "open_claim c" "claim_of rt db' c = Inr claim" "cr_lease_expires_at c = cl_leaseExpiresAt claim" by metis
  have inv: "db_inv rt db'" using reserve_inv[OF inv0 assms(8,2-7)] .
  from expireClaims_eq[OF inv] obtain db where db: "expireClaims t1 t2 db' = Inr db"
    "db_claims db = delete_rows (expired t2) (db_claims db')" by force
  have inv': "db_inv rt db" using expireClaims_inv[OF inv assms(9) db(1)] .
  have c': "c \<in> set (db_claims db)" using c(1,7) assms(10) by (simp add: db(2) expired_def)
  have f: "find_row (\<lambda>x. cr_request_id x = ri_requestId input) (db_claims db) = Some c"
    using find_row_unique[OF keysD(5)[OF inv'] c'] c(2) by simp
  have st: "cr_state c \<noteq> CCompleted" using c(5) by (auto simp: open_claim_def)
  have "claim_of rt db c = claim_of rt db' c"
  proof -
    from event_of_claim[OF inv c(1)] obtain e where e: "e \<in> set (db_events db')" "er_event_id e = cr_event_id c"
      "find_row (\<lambda>e. er_event_id e = cr_event_id c) (db_events db') = Some e" by metis
    from expire_progress[OF inv db(1)] e(1) obtain e' where e': "e' \<in> set (db_events db)" "event_moves e e'"
      by (auto simp: progress_def keeps_def)
    with find_row_unique[OF keysD(3)[OF inv'] e'(1)] e(2)
    have "find_row (\<lambda>e. er_event_id e = cr_event_id c) (db_events db) = Some e'" by (simp add: event_moves_def)
    with e(3) e'(2) show ?thesis by (simp add: claim_of_def event_moves_def)
  qed
  then show ?thesis
    using f st c assms(11) by (auto simp: reserve_def db(1))
qed

theorem reserve_replays_the_same_claim_witness:
  "\<exists>db''. reserve demo_rt 3000 3000 3000 3000 demo_uuid demo_input demo_db2 = Inr (Some demo_claim, db'')"
  using reserve_replays_the_same_claim[OF demo_reach(1)[of sched_init, OF demo_init] order_refl _ _ _ _ _ demo_reserve,
      of 3000 3000 demo_input 3000 3000 demo_uuid]
  by (simp add: demo_uuids demo_names demo_input_def demo_safe demo_claim_def)

end
