(* ===== verification/Qemu_Delivery.thy ===== *)
theory Qemu_Delivery
  imports Qemu_Scheduler
begin

text \<open>
  Admission, leases, results and their delivery, and the two situations in which the store loses
  track of an event or of a report.
\<close>

section \<open>Admission\<close>

lemma find_event_json:
  assumes "find_row (\<lambda>e. er_event_id e = k) (update_rows P (\<lambda>e. e\<lparr>er_admission_generation := g\<rparr>) es) = Some e'"
  obtains e where "find_row (\<lambda>e. er_event_id e = k) es = Some e" "er_event_json e' = er_event_json e"
  using assms by (induction es) (auto split: if_splits)

lemma upsert_ok:
  assumes "\<And>r. r \<in> set rows \<Longrightarrow> el_project_id r \<noteq> el_project_id row \<Longrightarrow>
    el_eligibility_generation r \<noteq> el_eligibility_generation row"
  obtains rows' where "upsert_eligibility row rows = Inr rows'"
  using assms unfolding upsert_eligibility_def by (metis (mono_tags, lifting))

lemma enqueue_conflict:
  assumes inv: "db_inv rt db" and q: "ev_executionKind ev = ''qemu''"
    and new: "uuid \<notin> el_eligibility_generation ` set (db_eligibility db)"
    and err: "enqueue now uuid ev lease db = Inl e"
  shows "e = EventConflicts \<and> (\<exists>x\<in>set (db_events db). er_event_id x = ev_eventId ev \<and> er_event_json x \<noteq> event_json_of ev)"
proof -
  define gen where "gen = (case find_row (\<lambda>r. el_project_id r = ev_projectId ev) (db_eligibility db) of
     None \<Rightarrow> uuid | Some x \<Rightarrow> el_eligibility_generation x)"
  have "el_eligibility_generation r \<noteq> gen" if "r \<in> set (db_eligibility db)" "el_project_id r \<noteq> ev_projectId ev" for r
  proof
    assume g: "el_eligibility_generation r = gen"
    show False
    proof (cases "find_row (\<lambda>r. el_project_id r = ev_projectId ev) (db_eligibility db)")
      case None
      with g new that(1) show False by (auto simp: gen_def)
    next
      case (Some x)
      with g unique_by_eq[OF keysD(2)[OF inv] that(1), of x] that(2) show False
        by (auto simp: gen_def dest!: find_row_Some)
    qed
  qed
  then obtain elig where up: "upsert_eligibility \<lparr>el_project_id = ev_projectId ev, el_eligibility_generation = gen,
      el_lease_expires_at = now + lease, el_refreshed_at = now\<rparr> (db_eligibility db) = Inr elig"
    using upsert_ok[of "db_eligibility db" "\<lparr>el_project_id = ev_projectId ev, el_eligibility_generation = gen,
      el_lease_expires_at = now + lease, el_refreshed_at = now\<rparr>"] by auto
  define evs where "evs = update_rows (\<lambda>e. er_state e = Queued
        \<and> get_field (er_event_json e) ''projectId'' = Some (JStr (ev_projectId ev)))
      (\<lambda>e. e\<lparr>er_admission_generation := gen\<rparr>) (db_events db)"
  note unf = enqueue_def Let_def gen_def[symmetric] up q bindR_Inr evs_def[symmetric]
  from err obtain x where x: "find_row (\<lambda>e. er_event_id e = ev_eventId ev) evs = Some x"
      "er_event_json x \<noteq> event_json_of ev" "e = EventConflicts"
    by (auto simp: unf split: option.splits if_splits)
  from x(1)[unfolded evs_def] obtain y where "find_row (\<lambda>e. er_event_id e = ev_eventId ev) (db_events db) = Some y"
      "er_event_json x = er_event_json y" by (rule find_event_json)
  with x(2,3) show ?thesis by (auto dest!: find_row_Some)
qed

lemma enqueue_rows:
  assumes inv: "db_inv rt db" and step: "enqueue now uuid ev lease db = Inr (r, db')"
  shows "if eq_result r = Created then ev_eventId ev \<notin> er_event_id ` set (db_events db)
             \<and> map er_event_id (db_events db') = map er_event_id (db_events db) @ [ev_eventId ev]
         else (\<exists>x\<in>set (db_events db). er_event_id x = ev_eventId ev \<and> er_event_json x = event_json_of ev)
             \<and> map er_event_id (db_events db') = map er_event_id (db_events db)
             \<and> map er_state (db_events db') = map er_state (db_events db)"
  using step
proof (cases rule: enqueue_cases)
  case (1 gen elig evs)
  have ids: "map er_event_id evs = map er_event_id (db_events db)" "map er_state evs = map er_state (db_events db)"
    by (simp_all add: 1(3) map_update_rows)
  then have mem: "er_event_id ` set evs = er_event_id ` set (db_events db)" by (metis list.set_map)
  from 1(6) show ?thesis
  proof
    assume a: "eq_result r = Replay \<and> db' = db\<lparr>db_eligibility := elig, db_events := evs\<rparr> \<and>
      (\<exists>e. find_row (\<lambda>e. er_event_id e = ev_eventId ev) evs = Some e \<and> er_event_json e = event_json_of ev)"
    then obtain e where e: "find_row (\<lambda>e. er_event_id e = ev_eventId ev) evs = Some e"
      "er_event_json e = event_json_of ev" by blast
    from e(1)[unfolded 1(3)] obtain x where x: "find_row (\<lambda>e. er_event_id e = ev_eventId ev) (db_events db) = Some x"
      "er_event_json e = er_event_json x" by (rule find_event_json)
    from find_row_Some[OF x(1)] x(2) e(2)
    have "\<exists>x\<in>set (db_events db). er_event_id x = ev_eventId ev \<and> er_event_json x = event_json_of ev" by auto
    with a ids show ?thesis by simp
  next
    assume a: "eq_result r = Created \<and> find_row (\<lambda>e. er_event_id e = ev_eventId ev) evs = None \<and>
      db' = db\<lparr>db_eligibility := elig, db_events := evs @ [\<lparr>er_event_id = ev_eventId ev,
        er_admission_generation = gen, er_event_json = event_json_of ev, er_state = Queued, er_created_at = now\<rparr>]\<rparr>"
    then have "ev_eventId ev \<notin> er_event_id ` set (db_events db)"
      unfolding mem[symmetric] by (auto simp: find_row_None)
    with a ids show ?thesis by simp
  qed
qed

lemma enqueue_eligible:
  assumes inv: "db_inv rt db" and step: "enqueue now uuid ev lease db = Inr (r, db')"
    and e: "t < now + lease" "e \<in> set (db_events db')" "er_state e = Queued"
      "get_field (er_event_json e) ''projectId'' = Some (JStr (ev_projectId ev))"
  shows "event_eligible t db' e"
  using step
proof (cases rule: enqueue_cases)
  case (1 gen elig evs)
  have "er_admission_generation x = gen" if "x \<in> set evs" "er_state x = Queued"
    "get_field (er_event_json x) ''projectId'' = Some (JStr (ev_projectId ev))" for x
    using that by (auto simp: 1(3) elim!: update_rowsE)
  with 1(6) e(2-4) have "er_admission_generation e = gen" "db_eligibility db' = elig" by auto
  with upsert_set(3)[OF 1(2) keysD(1,2)[OF inv]] e(1,3) show ?thesis by (force simp: event_eligible_def)
qed

text \<open>An event enters the queue once. Admitting an event whose identifier is new appends it as
  queued; admitting it again with the same content changes no event but renews the eligibility of its
  project; admitting other content under the same identifier is refused, and nothing else
  is. After every successful
  admission each queued event of that project is eligible until the new deadline.\<close>

theorem enqueue_admits_once:
  assumes "reach sched_init (sched_step rt) db" "ev_executionKind ev = ''qemu''"
    and "uuid \<notin> el_eligibility_generation ` set (db_eligibility db)" "enqueue now uuid ev lease db = res"
  shows "case res of
      Inl e \<Rightarrow> e = EventConflicts \<and> (\<exists>x\<in>set (db_events db).
        er_event_id x = ev_eventId ev \<and> er_event_json x \<noteq> event_json_of ev)
    | Inr (r, db') \<Rightarrow>
        (if eq_result r = Created then ev_eventId ev \<notin> er_event_id ` set (db_events db)
             \<and> map er_event_id (db_events db') = map er_event_id (db_events db) @ [ev_eventId ev]
         else (\<exists>x\<in>set (db_events db). er_event_id x = ev_eventId ev \<and> er_event_json x = event_json_of ev)
             \<and> map er_event_id (db_events db') = map er_event_id (db_events db)
             \<and> map er_state (db_events db') = map er_state (db_events db))
        \<and> (\<forall>t e. t < now + lease \<longrightarrow> e \<in> set (db_events db') \<longrightarrow> er_state e = Queued \<longrightarrow>
             get_field (er_event_json e) ''projectId'' = Some (JStr (ev_projectId ev)) \<longrightarrow> event_eligible t db' e)"
proof (cases res)
  case (Inl e)
  with enqueue_conflict[OF reachable[OF assms(1)] assms(2,3)] assms(4) show ?thesis by simp
next
  case (Inr p)
  then obtain r db' where p: "res = Inr (r, db')" by (cases p) simp
  note inv = reachable[OF assms(1)]
  from assms(4) p have step: "enqueue now uuid ev lease db = Inr (r, db')" by simp
  show ?thesis
    using enqueue_rows[OF inv step] enqueue_eligible[OF inv step] by (simp add: p)
qed

theorem enqueue_admits_once_witness:
  "case enqueue 5000 demo_request demo_event 99000 demo_db1 of Inl _ \<Rightarrow> False
   | Inr (r, db') \<Rightarrow> eq_result r = Replay \<and> map er_state (db_events db') = map er_state (db_events demo_db1)"
  using enqueue_admits_once[OF demo_reach(1)[of sched_init, OF demo_init] _ _ refl,
      of demo_event demo_request 5000 99000]
  by (simp add: demo_defs demo_event_fields demo_distinct enqueue_def upsert_eligibility_def Let_def)

section \<open>Leases\<close>

text \<open>A lease is honoured exactly. A claim can be activated if and only if it is still reserved and
  its lease has not expired, and it can be renewed if and only if the caller is its host and capacity,
  it is active and its lease has not expired; every other attempt is refused and changes nothing.\<close>

theorem lease_guards_are_exact:
  assumes "reach sched_init (sched_step rt) db"
  shows "(if \<exists>c\<in>set (db_claims db). cr_claim_id c = claimId \<and> cr_state c = CReserved \<and> cr_lease_expires_at c > now
          then \<exists>db'. activate now claimId attempt db = Inr db'
          else activate now claimId attempt db = Inl ActivationConflicts)
    \<and> (if \<exists>c\<in>set (db_claims db). cr_claim_id c = claimId \<and> cr_host_id c = hostId \<and> cr_capacity c = cap
            \<and> cr_state c = CActive \<and> cr_lease_expires_at c > now2
       then \<exists>db'. renew now1 now2 claimId hostId cap lease db = Inr (now1 + lease, db')
       else renew now1 now2 claimId hostId cap lease db = Inl RenewalConflicts)"
proof -
  note u = keysD(4)[OF reachable[OF assms]]
  have count: "count_rows P (db_claims db) = (if \<exists>c\<in>set (db_claims db). P c then 1 else 0)"
    if "\<And>x. P x \<Longrightarrow> cr_claim_id x = claimId" for P
    using count_rows_unique[OF u, of _ P] that count_rows_0[of P "db_claims db"] by auto
  let ?A = "\<lambda>c. cr_claim_id c = claimId \<and> cr_state c = CReserved \<and> cr_lease_expires_at c > now"
  let ?R = "\<lambda>c. cr_claim_id c = claimId \<and> cr_host_id c = hostId \<and> cr_capacity c = cap
     \<and> cr_state c = CActive \<and> cr_lease_expires_at c > now2"
  show ?thesis
    using count[of ?A] count[of ?R] by (auto simp: activate_def renew_def Let_def split: option.splits)
qed

theorem lease_guards_are_exact_witness:
  "(\<exists>db'. activate 3000 demo_claim_id demo_attempt demo_db2 = Inr db') \<and>
    activate 62000 demo_claim_id demo_attempt demo_db2 = Inl ActivationConflicts"
  using lease_guards_are_exact[OF demo_reach(2)[of sched_init, OF demo_init], of demo_claim_id 3000 demo_attempt]
    lease_guards_are_exact[OF demo_reach(2)[of sched_init, OF demo_init], of demo_claim_id 62000 demo_attempt]
  by (simp add: demo_db2_def demo_db1_def demo_claim_row_def)

section \<open>Results\<close>

lemma completion_json_inject:
  "completion_ok rt a \<Longrightarrow> completion_ok rt b \<Longrightarrow> completion_row_json a = completion_row_json b \<longleftrightarrow> a = b"
  using parse_completion_row_json by (metis option.inject)

lemma record_again:
  assumes inv: "db_inv rt db" and c: "c \<in> set (db_claims db)" "cr_result_json c = Some (completion_row_json co)"
    and ok: "completion_ok rt co" "completion_ok rt co'" "co_claimId co' = cr_claim_id c"
  shows "recordResult now co' db = (if co' = co then Inr (Replay, db) else Inl ResultConflicts)"
proof -
  have "find_row (\<lambda>x. cr_claim_id x = co_claimId co') (db_claims db) = Some c"
    using find_row_unique[OF keysD(4)[OF inv] c(1)] ok(3) by simp
  moreover have "cr_state c \<noteq> CReserved" using claim_ok[OF inv c(1)] c(2) by (simp add: claim_row_ok_def)
  ultimately show ?thesis
    using c(2) ok completion_json_inject[OF ok(1,2)]
    by (cases "cr_state c") (auto simp: recordResult_def completion_ok_def)
qed

lemma record_row:
  assumes inv: "db_inv rt db" and step: "recordResult now co db = Inr (r, db')"
  obtains c where "c \<in> set (db_claims db')" "cr_claim_id c = co_claimId co" "cr_state c \<noteq> CReserved"
    "cr_result_json c = Some (completion_row_json co)"
  using inv step
proof (cases rule: recordResult_cases)
  case (1 c)
  with claim_ok[OF inv 1(1)] that[of c] show ?thesis by (auto simp: claim_row_ok_def)
next
  case (2 c)
  with replace_claim_set(1)[OF inv 2(1)] show ?thesis
    by (intro that[of "c\<lparr>cr_result_json := Some (completion_row_json co)\<rparr>"]) auto
qed

text \<open>C6: A claim has exactly one result, for ever. Once a result has been accepted for a claim, and
  whatever the scheduler does afterwards, reporting the same result again is answered as a replay and
  changes nothing, and reporting any other result for that claim is refused.\<close>

theorem result_is_recorded_exactly_once:
  assumes "reach sched_init (sched_step rt) db" "recordResult now co db = Inr (r, db')"
    "completion_ok rt co" "safe_integer now" "(sched_step rt)\<^sup>*\<^sup>* db' db''"
    "completion_ok rt co'" "co_claimId co' = co_claimId co"
  shows "recordResult now' co' db'' = (if co' = co then Inr (Replay, db'') else Inl ResultConflicts)"
proof -
  note inv = reachable[OF assms(1)]
  have inv': "db_inv rt db'" using record_inv[OF inv assms(2-4)] .
  from record_row[OF inv assms(2)] obtain c where c: "c \<in> set (db_claims db')" "cr_claim_id c = co_claimId co"
    "cr_state c \<noteq> CReserved" "cr_result_json c = Some (completion_row_json co)" by metis
  from sched_progress.steps_le[OF assms(5) inv'] c(1,3) obtain d where "d \<in> set (db_claims db'')" "claim_moves c d"
    by (auto simp: progress_def keeps_def activated_def)
  with record_again[OF sched.steps_inv[OF assms(5) inv'], of d co co' now'] assms(3,6,7) c(2,4) show ?thesis
    by (simp add: claim_moves_def)
qed

theorem result_is_recorded_exactly_once_witness:
  "recordResult 5000 demo_completion demo_db4 = Inr (Replay, demo_db4)"
  using result_is_recorded_exactly_once[OF demo_reach(3)[of sched_init, OF demo_init] demo_record demo_completion_ok
      demo_safe(2) rtranclp.rtrancl_refl demo_completion_ok refl, of 5000] by simp

end
