(* ===== verification/Qemu_Stuck.thy ===== *)
theory Qemu_Stuck
  imports Qemu_Delivery
begin

text \<open>
  Delivery of results, and the two situations in which the store loses track of an event or of a
  report: a reservation that expires between the two clock readings of \<open>expireClaims\<close>, and a
  recovery of a claim whose result has already been recorded.
\<close>

section \<open>Delivery\<close>

lemma set_claim_state_set:
  assumes "db_inv rt db" "c \<in> set (db_claims db)"
  shows "set (db_claims (set_claim_state (cr_claim_id c) st db)) = insert (c\<lparr>cr_state := st\<rparr>) (set (db_claims db) - {c})"
  using set_claim_state_replace[OF assms] replace_claim_set(1)[OF assms] by simp

lemma acknowledge_active:
  assumes inv: "db_inv rt db" and c: "c \<in> set (db_claims db)" "cr_state c = CActive" "cr_result_json c \<noteq> None"
  shows "\<exists>db'. acknowledgeResult now (cr_claim_id c) db = Inr db' \<and> c\<lparr>cr_state := CCompleted\<rparr> \<in> set (db_claims db')
    \<and> (\<exists>e\<in>set (db_events db'). er_event_id e = cr_event_id c \<and> er_state e = Completed)
    \<and> (\<exists>b\<in>set (db_outbox db'). ob_claim_id b = cr_claim_id c \<and> ob_state b = Delivered \<and> ob_delivered_at b = Some now)"
proof -
  have f: "find_row (\<lambda>x. cr_claim_id x = cr_claim_id c) (db_claims db) = Some c"
    by (rule find_row_unique[OF keysD(4)[OF inv] c(1)])
  let ?d = "set_event_state (cr_event_id c) Completed (set_claim_state (cr_claim_id c) CCompleted db)"
  let ?d' = "?d\<lparr>db_outbox := update_rows (\<lambda>b. ob_claim_id b = cr_claim_id c)
     (\<lambda>b. b\<lparr>ob_state := Delivered, ob_delivered_at := Some now\<rparr>) (db_outbox ?d)\<rparr>"
  have "acknowledgeResult now (cr_claim_id c) db = Inr ?d'"
    using f c(2,3) by (simp add: acknowledgeResult_def Let_def)
  moreover have "c\<lparr>cr_state := CCompleted\<rparr> \<in> set (db_claims ?d')"
    using set_claim_state_set[OF inv c(1)] by simp
  moreover have "\<exists>e\<in>set (db_events ?d'). er_event_id e = cr_event_id c \<and> er_state e = Completed"
  proof -
    from event_of_claim[OF inv c(1)] obtain e where "e \<in> set (db_events db)" "er_event_id e = cr_event_id c" by metis
    then have "e\<lparr>er_state := Completed\<rparr> \<in> set (db_events ?d)" "er_event_id e = cr_event_id c"
      using in_update_rows[of e "db_events db" "\<lambda>x. er_event_id x = cr_event_id c" "\<lambda>e. e\<lparr>er_state := Completed\<rparr>"]
      by (simp_all add: set_event_state_def set_claim_state_def)
    then show ?thesis by (intro bexI[of _ "e\<lparr>er_state := Completed\<rparr>"]) simp_all
  qed
  moreover have "\<exists>b\<in>set (db_outbox ?d'). ob_claim_id b = cr_claim_id c \<and> ob_state b = Delivered \<and> ob_delivered_at b = Some now"
  proof -
    from db_invD(8)[OF inv] c(1,3) obtain b where b: "b \<in> set (db_outbox db)" "ob_claim_id b = cr_claim_id c"
      by (auto simp: results_ok_def)
    then have "b\<lparr>ob_state := Delivered, ob_delivered_at := Some now\<rparr> \<in> set (db_outbox ?d')"
      using in_update_rows[of b "db_outbox db" "\<lambda>b. ob_claim_id b = cr_claim_id c"]
      by (simp add: set_claim_state_def)
    with b(2) show ?thesis by (intro bexI[of _ "b\<lparr>ob_state := Delivered, ob_delivered_at := Some now\<rparr>"]) simp_all
  qed
  ultimately show ?thesis by (intro exI[of _ ?d'] conjI)
qed

lemma record_first:
  assumes inv: "db_inv rt db" and c: "c \<in> set (db_claims db)" "cr_state c = CActive" "cr_result_json c = None"
    and co: "completion_ok rt co" "co_claimId co = cr_claim_id c"
  obtains db' where "recordResult now co db = Inr (Created, db')"
    "c\<lparr>cr_result_json := Some (completion_row_json co)\<rparr> \<in> set (db_claims db')"
proof -
  have f: "find_row (\<lambda>x. cr_claim_id x = co_claimId co) (db_claims db) = Some c"
    using find_row_unique[OF keysD(4)[OF inv] c(1)] co(2) by simp
  have no: "ob_claim_id b \<noteq> cr_claim_id c" if "b \<in> set (db_outbox db)" for b
  proof
    assume "ob_claim_id b = cr_claim_id c"
    with db_invD(7)[OF inv] that obtain x where x: "x \<in> set (db_claims db)" "cr_claim_id x = cr_claim_id c"
      "cr_result_json x \<noteq> None" by (auto simp: outbox_ok_def)
    from unique_by_eq[OF keysD(4)[OF inv] x(1) c(1) x(2)] x(3) c(3) show False by simp
  qed
  have yes: "\<not> (\<forall>x\<in>set (update_rows (\<lambda>x. cr_claim_id x = cr_claim_id c)
      (\<lambda>x. x\<lparr>cr_result_json := Some (completion_row_json co)\<rparr>) (db_claims db)). cr_claim_id x \<noteq> cr_claim_id c)"
    using in_update_rows[OF c(1), of "\<lambda>x. cr_claim_id x = cr_claim_id c"
        "\<lambda>x. x\<lparr>cr_result_json := Some (completion_row_json co)\<rparr>"] by fastforce
  have "\<exists>d. insert_outbox \<lparr>ob_claim_id = cr_claim_id c,
      ob_terminal_event_json = terminal_json (co_terminalEvent co), ob_state = Pending,
      ob_created_at = now, ob_delivered_at = None\<rparr>
    (db\<lparr>db_claims := update_rows (\<lambda>x. cr_claim_id x = cr_claim_id c)
       (\<lambda>x. x\<lparr>cr_result_json := Some (completion_row_json co)\<rparr>) (db_claims db)\<rparr>) = Inr d"
    unfolding insert_outbox_def using yes no by auto
  moreover have "co_cleanupComplete co" using co(1) by (simp add: completion_ok_def)
  ultimately obtain db' where r: "recordResult now co db = Inr (Created, db')"
    using f c(2,3) co(2) by (auto simp: recordResult_def)
  from inv r show thesis
  proof (cases rule: recordResult_cases)
    case (2 x)
    with unique_by_eq[OF keysD(4)[OF inv] 2(1) c(1)] co(2) have "x = c" by simp
    with 2(6) replace_claim_set(1)[OF inv c(1)]
    have "c\<lparr>cr_result_json := Some (completion_row_json co)\<rparr> \<in> set (db_claims db')" by simp
    with r show ?thesis by (rule that)
  qed simp
qed

text \<open>\<open>complete\<close> does the whole job for an active claim without a result: it succeeds,
  afterwards the claim is completed and carries exactly the reported result, its event is completed,
  and its report is marked delivered.\<close>

theorem complete_finishes_the_claim:
  assumes "reach sched_init (sched_step rt) db" "c \<in> set (db_claims db)" "cr_state c = CActive"
    "cr_result_json c = None" "completion_ok rt co" "co_claimId co = cr_claim_id c" "safe_integer now1"
  shows "\<exists>db'. complete now1 now2 co db = (Inr Created, db')
    \<and> c\<lparr>cr_result_json := Some (completion_row_json co), cr_state := CCompleted\<rparr> \<in> set (db_claims db')
    \<and> (\<exists>e\<in>set (db_events db'). er_event_id e = cr_event_id c \<and> er_state e = Completed)
    \<and> (\<exists>b\<in>set (db_outbox db'). ob_claim_id b = cr_claim_id c \<and> ob_state b = Delivered \<and> ob_delivered_at b = Some now2)"
proof -
  note inv = reachable[OF assms(1)]
  from record_first[OF inv assms(2-6), of now1] obtain db1 where r: "recordResult now1 co db = Inr (Created, db1)"
    and c: "c\<lparr>cr_result_json := Some (completion_row_json co)\<rparr> \<in> set (db_claims db1)" by blast
  have inv1: "db_inv rt db1" using record_inv[OF inv r assms(5,7)] .
  from acknowledge_active[OF inv1 c, of now2] assms(3) obtain db2 where
    "acknowledgeResult now2 (cr_claim_id c) db1 = Inr db2"
    "c\<lparr>cr_result_json := Some (completion_row_json co)\<rparr>\<lparr>cr_state := CCompleted\<rparr> \<in> set (db_claims db2)"
    "\<exists>e\<in>set (db_events db2). er_event_id e = cr_event_id c \<and> er_state e = Completed"
    "\<exists>b\<in>set (db_outbox db2). ob_claim_id b = cr_claim_id c \<and> ob_state b = Delivered \<and> ob_delivered_at b = Some now2"
    by (simp del: claim_row.update_convs) blast
  with r assms(6) show ?thesis by (simp add: complete_def)
qed

theorem complete_finishes_the_claim_witness:
  "\<exists>db'. complete 4000 5000 demo_completion demo_db3 = (Inr Created, db') \<and>
     (\<exists>e\<in>set (db_events db'). er_event_id e = cr_event_id demo_active_row \<and> er_state e = Completed)"
  using complete_finishes_the_claim[OF demo_reach(3)[of sched_init, OF demo_init] _ _ _ demo_completion_ok _ demo_safe(2),
      of demo_active_row 5000]
  by (fastforce simp: demo_defs demo_completion_def)

text \<open>C28: A finished event never runs again. When an event has been completed or superseded, then
  whatever the scheduler does afterwards the event stays so with the same content, and no claim for it
  is reserved or active.\<close>

theorem finished_event_never_runs_again:
  assumes "reach sched_init (sched_step rt) db" "e \<in> set (db_events db)"
    "er_state e = Completed \<or> er_state e = Superseded" "(sched_step rt)\<^sup>*\<^sup>* db db'"
  shows "(\<exists>e'\<in>set (db_events db'). er_event_id e' = er_event_id e \<and> er_event_json e' = er_event_json e
      \<and> er_state e' = er_state e)
    \<and> (\<forall>c\<in>set (db_claims db'). cr_event_id c = er_event_id e \<longrightarrow> cr_state c = CCompleted)"
proof -
  note inv = reachable[OF assms(1)]
  have inv': "db_inv rt db'" using sched.steps_inv[OF assms(4) inv] .
  from sched_progress.steps_le[OF assms(4) inv] assms(2) obtain e' where e': "e' \<in> set (db_events db')" "event_moves e e'"
    by (auto simp: progress_def keeps_def)
  then have st: "er_state e' = er_state e" "er_event_id e' = er_event_id e" "er_event_json e' = er_event_json e"
    using assms(3) by (auto simp: event_moves_def)
  moreover have "cr_state c = CCompleted" if "c \<in> set (db_claims db')" "cr_event_id c = er_event_id e" for c
  proof -
    from event_of_claim[OF inv' that(1)] obtain x where x: "x \<in> set (db_events db')" "er_event_id x = cr_event_id c"
      "er_state x = claim_event (cr_state c)" by metis
    with unique_by_eq[OF keysD(3)[OF inv'] x(1) e'(1)] that(2) st(2) have "x = e'" by simp
    with x(3) st(1) assms(3) show ?thesis by (cases "cr_state c") auto
  qed
  ultimately show ?thesis using e'(1) by blast
qed

definition demo_db5 :: scheduler_db where
  "demo_db5 = demo_db3\<lparr>db_events := [demo_event_row Completed], db_claims := [demo_active_row\<lparr>cr_state := CCompleted\<rparr>]\<rparr>"

lemma demo_recover: "recover demo_claim_id ''host-a'' ''kvm'' demo_db3 = Inr demo_db5"
  by (simp add: recover_def demo_db5_def demo_defs set_event_state_def set_claim_state_def)

lemma demo_reach5: "reach sched_init (sched_step demo_rt) demo_db5"
  by (rule reach.reach_step[of sched_init _ demo_db3, OF demo_reach(3)[of sched_init, OF demo_init]])
    (rule sched_step.step_recover[OF demo_recover])

theorem finished_event_never_runs_again_witness:
  "list_all (\<lambda>c. cr_state c = CCompleted) (db_claims demo_db5)"
  using finished_event_never_runs_again[OF demo_reach5 _ _ rtranclp.rtrancl_refl, of "demo_event_row Completed"]
  by (simp add: demo_db5_def demo_event_row_def demo_active_row_def demo_claim_row_def)

lemma pendingReports_rows_total:
  assumes inv: "db_inv rt db" and rows: "\<And>b. b \<in> set bs \<Longrightarrow> \<exists>c\<in>set (db_claims db). cr_claim_id c = ob_claim_id b"
  shows "\<exists>rs. pendingReports_rows rt db bs = Inr rs \<and>
    map (\<lambda>(claim, t). (cl_claimId claim, t)) rs = map (\<lambda>b. (ob_claim_id b, ob_terminal_event_json b)) bs"
  using rows
proof (induction bs)
  case (Cons b bs)
  from Cons obtain rs where rs: "pendingReports_rows rt db bs = Inr rs"
    "map (\<lambda>(claim, t). (cl_claimId claim, t)) rs = map (\<lambda>b. (ob_claim_id b, ob_terminal_event_json b)) bs" by auto
  from Cons.prems obtain c where c: "c \<in> set (db_claims db)" "cr_claim_id c = ob_claim_id b" by auto
  from claim_of_total[OF inv c(1)] obtain cl where "claim_of rt db c = Inr cl" "cl_claimId cl = cr_claim_id c" by metis
  with rs c find_row_unique[OF keysD(4)[OF inv] c(1)] show ?case by simp
qed simp

text \<open>The outbox can always be read. In every reachable database \<open>pendingReports\<close> succeeds
  and returns one report per undelivered outbox row, oldest first, each with the claim it belongs to
  and the terminal event that was recorded.\<close>

theorem pendingReports_never_fails:
  assumes "reach sched_init (sched_step rt) db"
  shows "\<exists>rs. pendingReports rt db = Inr rs
    \<and> map (\<lambda>(claim, t). (cl_claimId claim, t)) rs = map (\<lambda>b. (ob_claim_id b, ob_terminal_event_json b)) (pending_rows db)
    \<and> set (pending_rows db) = {b \<in> set (db_outbox db). ob_state b = Pending}
    \<and> sorted (map (\<lambda>b. (ob_created_at b, ob_claim_id b)) (pending_rows db))"
proof -
  note inv = reachable[OF assms]
  have "set (pending_rows db) = {b \<in> set (db_outbox db). ob_state b = Pending}"
    using db_invD(7)[OF inv] by (auto simp: pending_rows_def outbox_ok_def)
  moreover have "sorted (map (\<lambda>b. (ob_created_at b, ob_claim_id b)) (pending_rows db))"
    by (simp add: pending_rows_def)
  ultimately show ?thesis
    using pendingReports_rows_total[OF inv, of "pending_rows db"] by (auto simp: pendingReports_def pending_rows_def)
qed

theorem pendingReports_never_fails_witness:
  "\<exists>rs. pendingReports demo_rt demo_db4 = Inr rs \<and> length rs = 1"
proof -
  from pendingReports_never_fails[OF demo_reach(4)[of sched_init, OF demo_init]] obtain rs where
    rs: "pendingReports demo_rt demo_db4 = Inr rs"
    "map (\<lambda>(claim, t). (cl_claimId claim, t)) rs = map (\<lambda>b. (ob_claim_id b, ob_terminal_event_json b)) (pending_rows demo_db4)"
    by blast
  have "length (pending_rows demo_db4) = 1" by (simp add: pending_rows_def demo_defs)
  with rs(2) have "length rs = 1" by (metis length_map)
  with rs(1) show ?thesis by blast
qed

section \<open>Events without a claim\<close>

definition stranded :: "string \<Rightarrow> scheduler_db \<Rightarrow> bool" where
  "stranded k db \<longleftrightarrow> (\<exists>e\<in>set (db_events db). er_event_id e = k \<and> er_state e = Reserved)
     \<and> (\<forall>c\<in>set (db_claims db). cr_event_id c \<noteq> k)"

lemma stranded_keep:
  assumes "stranded k db"
    and "\<And>c'. c' \<in> set (db_claims db') \<Longrightarrow> cr_event_id c' = k \<Longrightarrow> \<exists>c\<in>set (db_claims db). cr_event_id c = k"
    and "\<And>e. e \<in> set (db_events db) \<Longrightarrow> er_event_id e = k \<Longrightarrow> er_state e = Reserved \<Longrightarrow> e \<in> set (db_events db')"
  shows "stranded k db'"
  using assms unfolding stranded_def by blast

lemma stranded_no_event: "stranded k db \<Longrightarrow> c \<in> set (db_claims db) \<Longrightarrow> cr_event_id c \<noteq> k"
  by (simp add: stranded_def)

lemma set_event_state_other:
  "e \<in> set (db_events db) \<Longrightarrow> er_event_id e \<noteq> i \<Longrightarrow> e \<in> set (db_events (set_event_state i st db))"
  by (auto simp: set_event_state_def set_update_rows)

lemma stranded_move:
  assumes "db_inv rt db" "stranded k db" "c \<in> set (db_claims db)" "cr_event_id c' = cr_event_id c"
  shows "stranded k (set_event_state (cr_event_id c) st (replace_claim c c' db))"
  using assms(2)
proof (rule stranded_keep)
  fix x assume "x \<in> set (db_claims (set_event_state (cr_event_id c) st (replace_claim c c' db)))" "cr_event_id x = k"
  then show "\<exists>c\<in>set (db_claims db). cr_event_id c = k"
    using replace_claim_set(1)[OF assms(1,3), of c'] assms(3,4) by auto
next
  fix e assume "e \<in> set (db_events db)" "er_event_id e = k" "er_state e = Reserved"
  with stranded_no_event[OF assms(2,3)] show "e \<in> set (db_events (set_event_state (cr_event_id c) st (replace_claim c c' db)))"
    by (intro set_event_state_other) auto
qed

lemma stranded_complete:
  assumes "db_inv rt db" "stranded k db" "c \<in> set (db_claims db)"
  shows "stranded k (set_event_state (cr_event_id c) Completed (set_claim_state (cr_claim_id c) CCompleted db))"
  unfolding set_claim_state_replace[OF assms(1,3)] by (rule stranded_move[OF assms]) simp

lemma stranded_outbox [simp]: "stranded k (db\<lparr>db_outbox := x\<rparr>) = stranded k db"
  by (simp add: stranded_def)

lemma stranded_expire:
  assumes "db_inv rt db" "stranded k db" "expireClaims now1 now2 db = Inr db'"
  shows "stranded k db'"
  using assms(2)
proof (rule stranded_keep)
  fix e assume "e \<in> set (db_events db)" "er_event_id e = k" "er_state e = Reserved"
  with stranded_no_event[OF assms(2)] expireClaims_eq[OF assms(1)] assms(3) show "e \<in> set (db_events db')"
    by (auto simp: set_update_rows)
qed (use expireClaims_eq[OF assms(1)] assms(3) in auto)

lemma stranded_reserve:
  assumes inv: "db_inv rt db0" and le: "now1 \<le> now2"
    and step: "reserve rt now1 now2 now3 now4 uuid input db0 = Inr (r, db')"
    and exp: "expireClaims now1 now2 db0 = Inr db" and str: "stranded k db"
  shows "stranded k db'"
  using step
proof (cases rule: reserve_cases)
  case (fresh d db1 e ev)
  with exp have d: "d = db" by simp
  note e = next_event_Some(1,2)[OF fresh(2), unfolded d]
  have inv': "db_inv rt db" using expireClaims_inv[OF inv le exp] .
  have ne: "er_event_id e \<noteq> k"
  proof
    assume "er_event_id e = k"
    with str unique_by_eq[OF keysD(3)[OF inv'] _ e(1)] have "er_state e = Reserved"
      unfolding stranded_def by metis
    with e(2) show False by (simp add: event_eligible_def)
  qed
  from fresh(4) d have db1: "db1 = db\<lparr>db_claims := db_claims db @ [new_claim uuid now4 input e]\<rparr>"
    by (auto simp: insert_claim_def split: if_splits)
  from str show ?thesis
  proof (rule stranded_keep)
    fix x assume "x \<in> set (db_events db)" "er_event_id x = k"
    with ne show "x \<in> set (db_events db')" unfolding fresh(6) db1 by (intro set_event_state_other) auto
  next
    fix c assume "c \<in> set (db_claims db')" "cr_event_id c = k"
    with ne show "\<exists>c\<in>set (db_claims db). cr_event_id c = k" by (auto simp: fresh(6) db1 new_claim_def)
  qed
qed (use exp str in auto)

lemma stranded_enqueue:
  assumes str: "stranded k db" and step: "enqueue now uuid ev lease db = Inr (r, db')"
  shows "stranded k db'"
  using step
proof (cases rule: enqueue_cases)
  case (1 gen elig evs)
  have "e \<in> set evs" if "e \<in> set (db_events db)" "er_state e = Reserved" for e
    using that by (auto simp: 1(3) set_update_rows)
  with 1(6) show ?thesis by (intro stranded_keep[OF str]) auto
qed

lemma stranded_step:
  assumes inv: "db_inv rt db" and str: "stranded k db" and step: "sched_step rt db db'"
  shows "stranded k db'"
  using step
proof cases
  case (step_reserve now1 now2 now3 now4 uuid input r)
  from expireClaims_eq[OF inv] obtain d where "expireClaims now1 now2 db = Inr d" by blast
  with stranded_reserve[OF inv step_reserve(2,1)] stranded_expire[OF inv str] show ?thesis by blast
next
  case (step_activate now claimId attempt)
  show ?thesis by (rule activate_cases[OF inv step_activate(1)]) (simp add: stranded_move[OF inv str])
next
  case (step_renew now1 now2 claimId hostId cap lease t)
  show ?thesis
  proof (rule renew_cases[OF inv step_renew(1)])
    fix c assume c: "c \<in> set (db_claims db)" "db' = replace_claim c (c\<lparr>cr_lease_expires_at := t\<rparr>) db"
    with replace_claim_set(1)[OF inv c(1)] show ?thesis by (intro stranded_keep[OF str]) auto
  qed
next
  case (step_record now input r)
  from inv step_record(1) show ?thesis
  proof (cases rule: recordResult_cases)
    case (2 c)
    with replace_claim_set(1)[OF inv 2(1)] show ?thesis by (intro stranded_keep[OF str]) auto
  qed (simp add: str)
next
  case (step_acknowledge now claimId)
  then obtain c where f: "find_row (\<lambda>c. cr_claim_id c = claimId) (db_claims db) = Some c"
    by (auto simp: acknowledgeResult_def split: option.splits)
  from stranded_complete[OF inv str find_claim(1)[OF inv f]] find_claim(2)[OF inv f] step_acknowledge(1) f str
  show ?thesis by (auto simp: acknowledgeResult_def Let_def split: if_splits)
next
  case (step_recover claimId hostId cap)
  then obtain c where f: "find_row (\<lambda>c. cr_claim_id c = claimId \<and> cr_host_id c = hostId \<and> cr_capacity c = cap) (db_claims db) = Some c"
    by (auto simp: recover_def split: option.splits)
  from find_row_Some[OF f] stranded_complete[OF inv str, of c] step_recover(1) f str
  show ?thesis by (auto simp: recover_def split: if_splits)
next
  case (step_supersede claimId)
  show ?thesis
  proof (rule supersede_cases[OF inv step_supersede(1)])
    fix c assume c: "c \<in> set (db_claims db)" and db': "db' = db\<lparr>db_claims := delete_rows (\<lambda>c. cr_claim_id c = claimId) (db_claims db),
       db_events := update_rows (\<lambda>e. er_event_id e = cr_event_id c) (\<lambda>e. e\<lparr>er_state := Superseded\<rparr>) (db_events db)\<rparr>"
    with stranded_no_event[OF str c] show ?thesis by (intro stranded_keep[OF str]) (auto simp: set_update_rows)
  qed
qed (simp add: stranded_enqueue[OF str])

interpretation stranding: safe_machine "\<lambda>db. db_inv rt db \<and> stranded k db" "sched_step rt"
  "\<lambda>db. db_inv rt db \<and> stranded k db" for rt k
  by unfold_locales (auto intro: sched_step_inv stranded_step)

lemma expire_strands:
  assumes inv: "db_inv rt db" and c: "c \<in> set (db_claims db)" "cr_state c = CReserved"
    and t: "now1 < cr_lease_expires_at c" "cr_lease_expires_at c \<le> now2" and exp: "expireClaims now1 now2 db = Inr db'"
  shows "stranded (cr_event_id c) db'"
proof -
  from event_of_claim[OF inv c(1)] c(2) obtain e where e: "e \<in> set (db_events db)" "er_event_id e = cr_event_id c"
    "er_state e = Reserved" by (metis claim_event.simps(1))
  have only: "x = c" if "x \<in> set (db_claims db)" "cr_event_id x = cr_event_id c" for x
    using unique_by_eq[OF keysD(6)[OF inv] that(1) c(1) that(2)] .
  have "\<not> (\<exists>x\<in>set (db_claims db). expired now1 x \<and> cr_event_id x = er_event_id e)"
    using t(1) e(2) by (auto simp: expired_def dest!: only)
  with e exp expireClaims_eq[OF inv] have "e \<in> set (db_events db')" by (auto simp: set_update_rows)
  moreover have "cr_event_id x \<noteq> cr_event_id c" if "x \<in> set (db_claims db')" for x
  proof
    assume eq: "cr_event_id x = cr_event_id c"
    from that exp expireClaims_eq[OF inv] have x: "x \<in> set (db_claims db)" "\<not> expired now2 x" by auto
    from only[OF x(1) eq] x(2) t(2) c(2) show False by (simp add: expired_def)
  qed
  ultimately show ?thesis using e(2,3) by (auto simp: stranded_def)
qed

text \<open>C34: A reservation whose lease ends between the two clock readings of \<open>expireClaims\<close> is lost:
  the second statement deletes the claim, the first has not returned its event to the queue. From then
  on the event stays reserved without a claim, whatever the scheduler does, so it is never run and never
  superseded.\<close>

theorem expiry_between_readings_strands_the_event:
  assumes "reach sched_init (sched_step rt) db" "c \<in> set (db_claims db)" "cr_state c = CReserved"
    "now1 < cr_lease_expires_at c" "cr_lease_expires_at c \<le> now2"
    "reserve rt now1 now2 now3 now4 uuid input db = Inr (r, db')" "matches uuidPattern uuid"
    "matches uuidPattern (ri_requestId input)" "matches identifierPattern (ri_hostId input)"
    "matches identifierPattern (ri_capacity input)" "safe_integer (now4 + ri_leaseMilliseconds input)"
    "(sched_step rt)\<^sup>*\<^sup>* db' db''"
  shows "(\<exists>e\<in>set (db_events db''). er_event_id e = cr_event_id c \<and> er_state e = Reserved)
    \<and> (\<forall>d\<in>set (db_claims db''). cr_event_id d \<noteq> cr_event_id c)"
proof -
  note inv = reachable[OF assms(1)]
  have le: "now1 \<le> now2" using assms(4,5) by simp
  from expireClaims_eq[OF inv] obtain d where d: "expireClaims now1 now2 db = Inr d" by blast
  have "stranded (cr_event_id c) db'"
    by (rule stranded_reserve[OF inv le assms(6) d expire_strands[OF inv assms(2-5) d]])
  moreover have "db_inv rt db'" by (rule reserve_inv[OF inv assms(6) le assms(7-11)])
  ultimately have "stranded (cr_event_id c) db''" using stranding.steps_inv[OF assms(12)] by blast
  then show ?thesis by (simp add: stranded_def)
qed

theorem expiry_between_readings_strands_the_event_witness:
  "\<exists>db'. reserve demo_rt 61999 62000 62000 62000 demo_uuid demo_input demo_db2 = Inr (None, db') \<and>
     (\<exists>e\<in>set (db_events db'). er_event_id e = replicate 64 CHR ''a'' \<and> er_state e = Reserved) \<and>
     list_all (\<lambda>d. cr_event_id d \<noteq> replicate 64 CHR ''a'') (db_claims db')"
proof -
  obtain db' where db': "reserve demo_rt 61999 62000 62000 62000 demo_uuid demo_input demo_db2 = Inr (None, db')"
    by (simp add: reserve_def expireClaims_def delete_claims_def next_event_def event_eligible_def expired_def
        demo_defs demo_input_def)
  with expiry_between_readings_strands_the_event[OF demo_reach(2)[of sched_init, OF demo_init] _ _ _ _ db' _ _ _ _ _ rtranclp.rtrancl_refl,
      of demo_claim_row]
  show ?thesis
    by (simp add: demo_uuids demo_names demo_input_def safe_integer_def demo_db2_def demo_claim_row_def list_all_iff)
qed

lemma expire_reserved_event:
  assumes inv: "db_inv rt db" and exp: "expireClaims now1 now2 db = Inr db'"
    and e: "e \<in> set (db_events db')" "er_state e = Reserved"
  shows "e \<in> set (db_events db)" "\<And>c. c \<in> set (db_claims db) \<Longrightarrow> cr_event_id c = er_event_id e \<Longrightarrow> \<not> expired now1 c"
  using e exp expireClaims_eq[OF inv] by (auto simp: set_update_rows)

text \<open>And only then. Where every reserved event has its claim, an expiry leaves it so exactly if
  no lease ends between the two readings; with one reading every expired reservation is back in the
  queue.\<close>

theorem expiry_strands_only_between_readings:
  assumes "reach sched_init (sched_step rt) db" "expireClaims now1 now2 db = Inr db'"
    "\<forall>e\<in>set (db_events db). er_state e = Reserved \<longrightarrow> (\<exists>c\<in>set (db_claims db). cr_event_id c = er_event_id e)"
  shows "(\<forall>e\<in>set (db_events db'). er_state e = Reserved \<longrightarrow> (\<exists>c\<in>set (db_claims db'). cr_event_id c = er_event_id e))
    \<longleftrightarrow> \<not> (\<exists>c\<in>set (db_claims db). cr_state c = CReserved \<and> now1 < cr_lease_expires_at c \<and> cr_lease_expires_at c \<le> now2)"
    (is "?all \<longleftrightarrow> \<not> ?between")
proof
  note inv = reachable[OF assms(1)]
  show "\<not> ?between" if all: ?all
  proof
    assume ?between
    then obtain c where c: "c \<in> set (db_claims db)" "cr_state c = CReserved" "now1 < cr_lease_expires_at c"
      "cr_lease_expires_at c \<le> now2" by blast
    from expire_strands[OF inv c assms(2)] obtain e where e: "e \<in> set (db_events db')" "er_event_id e = cr_event_id c"
      "er_state e = Reserved" "\<forall>d\<in>set (db_claims db'). cr_event_id d \<noteq> cr_event_id c" by (auto simp: stranded_def)
    from all e(1,3) have "\<exists>d\<in>set (db_claims db'). cr_event_id d = er_event_id e" by blast
    with e(2,4) show False by auto
  qed
  show ?all if "\<not> ?between"
  proof (intro ballI impI)
    fix e assume e: "e \<in> set (db_events db')" "er_state e = Reserved"
    note old = expire_reserved_event[OF inv assms(2) e]
    from assms(3) old(1) e(2) obtain c where c: "c \<in> set (db_claims db)" "cr_event_id c = er_event_id e" by blast
    from that c(1) old(2)[OF c] have "\<not> expired now2 c" unfolding expired_def by (meson not_le)
    with c assms(2) expireClaims_eq[OF inv] show "\<exists>c\<in>set (db_claims db'). cr_event_id c = er_event_id e" by auto
  qed
qed

theorem expiry_strands_only_between_readings_witness:
  "\<exists>db'. expireClaims 62000 62000 demo_db2 = Inr db' \<and>
     list_all (\<lambda>e. if er_state e = Reserved then list_ex (\<lambda>c. cr_event_id c = er_event_id e) (db_claims db') else True)
       (db_events db')"
proof -
  obtain db' where db': "expireClaims 62000 62000 demo_db2 = Inr db'"
    by (simp add: expireClaims_def delete_claims_def demo_defs)
  from expiry_strands_only_between_readings[OF demo_reach(2)[of sched_init, OF demo_init] db']
  have "(\<forall>e\<in>set (db_events db'). er_state e = Reserved \<longrightarrow> (\<exists>c\<in>set (db_claims db'). cr_event_id c = er_event_id e))"
    by (rule iffD2) (simp_all add: demo_db2_def demo_event_row_def demo_claim_row_def)
  with db' show ?thesis by (intro exI[of _ db'] conjI) (simp_all add: list_all_iff list_ex_iff)
qed

section \<open>Reports that are never delivered\<close>

definition lost_report :: "string \<Rightarrow> scheduler_db \<Rightarrow> bool" where
  "lost_report k db \<longleftrightarrow> (\<exists>c\<in>set (db_claims db). cr_claim_id c = k \<and> cr_state c = CCompleted \<and> cr_result_json c \<noteq> None)
     \<and> (\<exists>b\<in>set (db_outbox db). ob_claim_id b = k \<and> ob_state b = Pending)"

lemma acknowledge_completed:
  assumes inv: "db_inv rt db" and c: "c \<in> set (db_claims db)" "cr_state c = CCompleted" "cr_result_json c \<noteq> None"
  shows "acknowledgeResult now (cr_claim_id c) db = Inr db"
  using find_row_unique[OF keysD(4)[OF inv] c(1)] c(2,3) by (auto simp: acknowledgeResult_def)

lemma outbox_ops:
  "enqueue now uuid ev lease db = Inr (q, db') \<Longrightarrow> db_outbox db' = db_outbox db"
  "reserve rt now1 now2 now3 now4 uuid input db = Inr (c, db') \<Longrightarrow> db_outbox db' = db_outbox db"
  "activate now claimId attempt db = Inr db' \<Longrightarrow> db_outbox db' = db_outbox db"
  "renew now1 now2 claimId hostId cap lease db = Inr (t, db') \<Longrightarrow> db_outbox db' = db_outbox db"
  "recordResult now co db = Inr (r, db') \<Longrightarrow> set (db_outbox db) \<subseteq> set (db_outbox db')"
  "recover claimId hostId cap db = Inr db' \<Longrightarrow> db_outbox db' = db_outbox db"
  "supersedeReservation claimId db = Inr db' \<Longrightarrow> db_outbox db' = db_outbox db"
  by (auto elim!: enqueue_cases reserve_cases simp: expireClaims_def delete_claims_def insert_claim_def
      activate_def renew_def recordResult_def insert_outbox_def recover_def
      supersedeReservation_def set_event_state_def set_claim_state_def Let_def bindR_eq_Inr
      split: if_splits option.splits)

lemma lost_step:
  assumes inv: "db_inv rt db" and lost: "lost_report k db" and step: "sched_step rt db db'"
  shows "lost_report k db'"
proof -
  from lost obtain c b where c: "c \<in> set (db_claims db)" "cr_claim_id c = k" "cr_state c = CCompleted" "cr_result_json c \<noteq> None"
    and b: "b \<in> set (db_outbox db)" "ob_claim_id b = k" "ob_state b = Pending" by (auto simp: lost_report_def)
  from sched_step_progress[OF inv step] c(1,3) obtain c' where "c' \<in> set (db_claims db')" "claim_moves c c'"
    by (auto simp: progress_def keeps_def activated_def)
  then have 1: "\<exists>c\<in>set (db_claims db'). cr_claim_id c = k \<and> cr_state c = CCompleted \<and> cr_result_json c \<noteq> None"
    using c by (intro bexI[of _ c']) (auto simp: claim_moves_def)
  have "b \<in> set (db_outbox db')"
    using step
  proof cases
    case (step_acknowledge now claimId)
    show ?thesis
    proof (cases "claimId = k")
      case True
      with step_acknowledge(1) acknowledge_completed[OF inv c(1,3,4)] c(2) b(1) show ?thesis by simp
    next
      case False
      with step_acknowledge(1) b(1,2) show ?thesis
        by (auto simp: acknowledgeResult_def Let_def set_claim_state_def set_update_rows split: option.splits if_splits)
    qed
  qed (use b(1) in \<open>auto dest: outbox_ops\<close>)
  with 1 b show ?thesis by (auto simp: lost_report_def)
qed

interpretation losing: safe_machine "\<lambda>db. db_inv rt db \<and> lost_report k db" "sched_step rt"
  "\<lambda>db. db_inv rt db \<and> lost_report k db" for rt k
  by unfold_locales (auto intro: sched_step_inv lost_step)

text \<open>C35: Recovering an active claim whose result has been recorded but not yet acknowledged loses
  the report: the claim is then completed while its outbox row is pending, acknowledging it succeeds
  without marking the row, and so the row stays among the pending reports for ever.\<close>

theorem recover_after_result_never_delivers:
  assumes "reach sched_init (sched_step rt) db" "c \<in> set (db_claims db)" "cr_state c = CActive"
    "cr_result_json c \<noteq> None" "recover (cr_claim_id c) (cr_host_id c) (cr_capacity c) db = Inr db'"
    "(sched_step rt)\<^sup>*\<^sup>* db' db''"
  shows "acknowledgeResult now (cr_claim_id c) db'' = Inr db''
    \<and> (\<exists>b\<in>set (pending_rows db''). ob_claim_id b = cr_claim_id c)"
proof -
  note inv = reachable[OF assms(1)]
  have f: "find_row (\<lambda>x. cr_claim_id x = cr_claim_id c \<and> cr_host_id x = cr_host_id c \<and> cr_capacity x = cr_capacity c)
      (db_claims db) = Some c"
  proof -
    obtain x where x: "find_row (\<lambda>x. cr_claim_id x = cr_claim_id c \<and> cr_host_id x = cr_host_id c \<and> cr_capacity x = cr_capacity c)
      (db_claims db) = Some x" using assms(5) by (auto simp: recover_def split: option.splits)
    from find_row_Some[OF x] unique_by_eq[OF keysD(4)[OF inv] _ assms(2), of x] x show ?thesis by simp
  qed
  with assms(3,5) have db': "db' = set_event_state (cr_event_id c) Completed (set_claim_state (cr_claim_id c) CCompleted db)"
    by (simp add: recover_def)
  from db_invD(8)[OF inv] assms(2,4) obtain b where b: "b \<in> set (db_outbox db)" "ob_claim_id b = cr_claim_id c"
    by (auto simp: results_ok_def)
  with db_invD(7)[OF inv] obtain x where x: "x \<in> set (db_claims db)" "cr_claim_id x = cr_claim_id c"
    "ob_state b = Delivered \<longrightarrow> cr_state x = CCompleted" by (auto simp: outbox_ok_def)
  from unique_by_eq[OF keysD(4)[OF inv] x(1) assms(2) x(2)] x(3) assms(3) have "ob_state b = Pending"
    by (cases "ob_state b") auto
  with b assms(4) have "lost_report (cr_claim_id c) db'"
    using set_claim_state_set[OF inv assms(2), of CCompleted] by (auto simp: lost_report_def db' set_claim_state_def)
  moreover have "db_inv rt db'" by (rule recover_inv[OF inv assms(5)])
  ultimately have l: "db_inv rt db''" "lost_report (cr_claim_id c) db''" using losing.steps_inv[OF assms(6)] by blast+
  from l(2) obtain d b where d: "d \<in> set (db_claims db'')" "cr_claim_id d = cr_claim_id c" "cr_state d = CCompleted"
    "cr_result_json d \<noteq> None" and b: "b \<in> set (db_outbox db'')" "ob_claim_id b = cr_claim_id c" "ob_state b = Pending"
    by (auto simp: lost_report_def)
  then have "b \<in> set (pending_rows db'')" by (auto simp: pending_rows_def)
  with acknowledge_completed[OF l(1) d(1,3,4), of now] d(2) b(2) show ?thesis by auto
qed

theorem recover_after_result_never_delivers_witness:
  "\<exists>db'. recover demo_claim_id ''host-a'' ''kvm'' demo_db4 = Inr db' \<and>
     (\<exists>b\<in>set (pending_rows db'). ob_claim_id b = demo_claim_id)"
proof -
  let ?c = "demo_active_row\<lparr>cr_result_json := Some (completion_row_json demo_completion)\<rparr>"
  have ids: "cr_claim_id ?c = demo_claim_id" "cr_host_id ?c = ''host-a''" "cr_capacity ?c = ''kvm''" "cr_state ?c = CActive"
    by (simp_all add: demo_defs)
  obtain db' where db': "recover demo_claim_id ''host-a'' ''kvm'' demo_db4 = Inr db'"
    by (simp add: recover_def demo_defs)
  with recover_after_result_never_delivers[OF demo_reach(4)[of sched_init, OF demo_init], of ?c db' db'] ids
  have "\<exists>b\<in>set (pending_rows db'). ob_claim_id b = demo_claim_id" by (simp add: demo_db4_def)
  with db' show ?thesis by blast
qed

end
