(* ===== verification/Qemu_Service.thy ===== *)
theory Qemu_Service
  imports Qemu_Config Qemu_Host Qemu_Stuck
begin

text \<open>
  The HTTP service of the QEMU scheduler (\<open>nativeQemuSchedulerService.ts\<close>) and the reporter that
  drains its outbox (\<open>nativeQemuResultReporter.ts\<close>). A handler takes the request, what the native
  Git authority answers and the clock readings, and gives the response and the new database. The
  authority is another service: its answers are fields of the environment records.
\<close>

section \<open>Requests, responses and the environment\<close>

datatype http_method = GET | POST | OtherMethod

record http_request =
  rq_method :: http_method
  rq_pathname :: string
  rq_search :: string
  rq_authorization :: "string option"
  rq_contentType :: "string option"
  rq_body :: "json option"  \<comment> \<open>\<open>None\<close> for a body that is too large or not JSON\<close>

datatype http_response = Reply nat json | EmptyReply

definition unavailable :: http_response where
  "unavailable = Reply 503 (JObj [(''error'', JStr ''native QEMU scheduler is unavailable'')])"

definition badRequest :: http_response where
  "badRequest = Reply 400 (JObj [(''error'', JStr ''invalid native QEMU request'')])"

definition notFound :: http_response where
  "notFound = Reply 404 (JObj [(''error'', JStr ''not found'')])"

datatype prove_outcome = Proved | Stale nat | ProveFailed

datatype issue_outcome = Issued NativeQemuAttempt | IssueRejected | IssueFailed

record loop_env =
  le_now1 :: int
  le_now2 :: int
  le_now3 :: int
  le_now4 :: int
  le_uuid :: string
  le_issue :: "NativeQemuClaim \<Rightarrow> NativeQemuCapacity \<Rightarrow> issue_outcome"
  le_activate :: int

record service_env =
  sv_now1 :: int
  sv_now2 :: int
  sv_uuid :: string
  sv_prove :: "NativeQemuReviewEvent \<Rightarrow> prove_outcome"
  sv_loop :: "nat \<Rightarrow> loop_env"
  sv_lease :: "NativeQemuClaim \<Rightarrow> string \<Rightarrow> string \<Rightarrow> (string \<times> json) list option"
  sv_revoke :: "NativeQemuClaim \<Rightarrow> string \<Rightarrow> bool"

section \<open>Authentication\<close>

definition basic :: "string \<Rightarrow> string \<Rightarrow> string" where
  "basic username password = ''Basic '' @ base64 (username @ '':'' @ password)"

definition authorized :: "http_request \<Rightarrow> NativeQemuCredential \<Rightarrow> bool" where
  "authorized request c \<longleftrightarrow>
     (case rq_authorization request of None \<Rightarrow> '''' | Some a \<Rightarrow> a) = basic (cd_username c) (cd_password c)"

definition host_credential :: "QemuHostEntry \<Rightarrow> NativeQemuCredential" where
  "host_credential host = \<lparr>cd_username = qh_hostId host, cd_password = qh_hostToken host\<rparr>"

definition authenticatedHost :: "NativeQemuSchedulerConfig \<Rightarrow> http_request \<Rightarrow> QemuHostEntry option" where
  "authenticatedHost config request = find_row (\<lambda>host. authorized request (host_credential host)) (cf_hosts config)"

definition authenticationFailure :: "NativeQemuSchedulerConfig \<Rightarrow> http_request \<Rightarrow> http_response" where
  "authenticationFailure config request =
     (let known = [sc_eventIntake (cf_credentials config), sc_query (cf_credentials config),
            ng_identity (cf_nativeGit config), ng_attemptIssuer (cf_nativeGit config),
            ng_candidateReader (cf_nativeGit config), ng_resultReporter (cf_nativeGit config)]
            @ map host_credential (cf_hosts config)
      in if list_ex (authorized request) known then Reply 403 (JObj [(''error'', JStr ''forbidden'')])
         else Reply 401 (JObj [(''error'', JStr ''unauthorized'')]))"

definition capacityFor :: "NativeQemuCapacity list \<Rightarrow> json option \<Rightarrow> NativeQemuCapacity option" where
  "capacityFor capacities v = (case v of Some (JStr s) \<Rightarrow> find_row (\<lambda>c. ca_capacity c = s) capacities | _ \<Rightarrow> None)"

definition readRecord :: "http_request \<Rightarrow> json option" where
  "readRecord request = (if rq_contentType request \<noteq> Some ''application/json'' then None
     else as_record (rq_body request))"

definition isUuid :: "json option \<Rightarrow> bool" where
  "isUuid v \<longleftrightarrow> as_matching uuidPattern v \<noteq> None"

section \<open>The claim loop\<close>

definition assignment_reply :: "NativeQemuClaim \<Rightarrow> NativeQemuAttempt \<Rightarrow> json" where
  "assignment_reply claim attempt = JObj [(''schemaVersion'', JInt 1), (''serviceId'', JStr ''qemu-main''),
     (''claim'', claim_json claim), (''attempt'', attempt_json_of attempt)]"

text \<open>One pass of \<open>for (;;)\<close>: either the response, or the next pass.\<close>

definition claim_pass ::
  "runtime \<Rightarrow> loop_env \<Rightarrow> ReservationInput \<Rightarrow> NativeQemuCapacity \<Rightarrow> scheduler_db \<Rightarrow>
     http_response option \<times> scheduler_db" where
  "claim_pass rt env input capacity db =
     (case reserve rt (le_now1 env) (le_now2 env) (le_now3 env) (le_now4 env) (le_uuid env) input db of
        Inl _ \<Rightarrow> (Some unavailable, db)
      | Inr (None, db1) \<Rightarrow> (Some EmptyReply, db1)
      | Inr (Some claim, db1) \<Rightarrow>
          (case le_issue env claim capacity of
             IssueFailed \<Rightarrow> (Some unavailable, db1)
           | Issued attempt \<Rightarrow>
               (case activate (le_activate env) (cl_claimId claim) attempt db1 of
                  Inl _ \<Rightarrow> (Some unavailable, db1)
                | Inr db2 \<Rightarrow> (Some (Reply 201 (assignment_reply claim attempt)), db2))
           | IssueRejected \<Rightarrow>
               (case supersedeReservation (cl_claimId claim) db1 of
                  Inl _ \<Rightarrow> (Some unavailable, db1)
                | Inr db2 \<Rightarrow> (None, db2))))"

fun claim_loop ::
  "nat \<Rightarrow> runtime \<Rightarrow> (nat \<Rightarrow> loop_env) \<Rightarrow> nat \<Rightarrow> ReservationInput \<Rightarrow> NativeQemuCapacity \<Rightarrow> scheduler_db \<Rightarrow>
     (http_response \<times> scheduler_db) option" where
  "claim_loop 0 rt env i input capacity db = None"
| "claim_loop (Suc fuel) rt env i input capacity db =
     (case claim_pass rt (env i) input capacity db of
        (Some response, db') \<Rightarrow> Some (response, db')
      | (None, db') \<Rightarrow> claim_loop fuel rt env (Suc i) input capacity db')"

section \<open>The handlers\<close>

definition eventStatusPath :: "string \<Rightarrow> string option" where
  "eventStatusPath p =
     (let prefix = ''/v1/qemu-events/''; suffix = ''/status'';
          eventId = take 64 (drop (length prefix) p)
      in if p = prefix @ eventId @ suffix \<and> matches hex64Pattern eventId then Some eventId else None)"

fun event_state_text :: "event_state \<Rightarrow> string" where
  "event_state_text Queued = ''queued''"
| "event_state_text Reserved = ''reserved''"
| "event_state_text Active = ''active''"
| "event_state_text Completed = ''completed''"
| "event_state_text Superseded = ''superseded''"

definition optional_member :: "string \<Rightarrow> string option \<Rightarrow> (string \<times> json) list" where
  "optional_member k v = (case v of None \<Rightarrow> [] | Some s \<Rightarrow> [(k, JStr s)])"

definition status_reply :: "string \<Rightarrow> event_status \<Rightarrow> json" where
  "status_reply eventId st = JObj ([(''schemaVersion'', JInt 1), (''serviceId'', JStr ''qemu-main''),
     (''eventId'', JStr eventId), (''event'', event_json_of (es_event st)),
     (''state'', JStr (event_state_text (es_state st)))]
     @ optional_member ''claimId'' (es_claimId st) @ optional_member ''hostId'' (es_hostId st)
     @ optional_member ''capacity'' (es_capacity st) @ optional_member ''attemptId'' (es_attemptId st)
     @ optional_member ''descriptorDigest'' (es_descriptorDigest st)
     @ [(''eligibilityGeneration'', JStr (es_eligibilityGeneration st)),
        (''eligibilityExpiresAt'', JInt (es_eligibilityExpiresAt st))]
     @ (case es_result st of None \<Rightarrow> [] | Some r \<Rightarrow> [(''result'', r)]))"

definition handleEventStatus ::
  "runtime \<Rightarrow> NativeQemuSchedulerConfig \<Rightarrow> http_request \<Rightarrow> string \<Rightarrow> scheduler_db \<Rightarrow> http_response" where
  "handleEventStatus rt config request eventId db =
     (if \<not> authorized request (sc_query (cf_credentials config)) then authenticationFailure config request
      else case eventStatus rt eventId db of
        Inl _ \<Rightarrow> unavailable
      | Inr None \<Rightarrow> notFound
      | Inr (Some st) \<Rightarrow> Reply 200 (status_reply eventId st))"

definition handleIntake ::
  "runtime \<Rightarrow> NativeQemuSchedulerConfig \<Rightarrow> service_env \<Rightarrow> http_request \<Rightarrow> scheduler_db \<Rightarrow>
     http_response \<times> scheduler_db" where
  "handleIntake rt config env request db =
     (if \<not> authorized request (sc_eventIntake (cf_credentials config)) then (authenticationFailure config request, db)
      else case readRecord request of None \<Rightarrow> (unavailable, db) | Some body \<Rightarrow>
        if \<not> (exact_keys body [''schemaVersion'', ''requestId'', ''event'']
            \<and> get_field body ''schemaVersion'' = Some (JInt 1) \<and> isUuid (get_field body ''requestId''))
        then (badRequest, db)
        else case Option.bind (get_field body ''event'') (parseNativeQemuReviewEvent rt) of
          None \<Rightarrow> (unavailable, db)
        | Some event \<Rightarrow>
            (case sv_prove env event of
               Stale status \<Rightarrow> (Reply status (JObj [(''error'', JStr ''native QEMU event is stale'')]), db)
             | ProveFailed \<Rightarrow> (unavailable, db)
             | Proved \<Rightarrow>
                 (case enqueue (sv_now1 env) (sv_uuid env) event (cf_eligibilityLeaseMilliseconds config) db of
                    Inl _ \<Rightarrow> (unavailable, db)
                  | Inr (intake, db1) \<Rightarrow>
                      (case serviceGenerationId db1 of
                         Inl _ \<Rightarrow> (unavailable, db1)
                       | Inr generation \<Rightarrow>
                           (Reply (if eq_result intake = Created then 201 else 200)
                              (JObj [(''schemaVersion'', JInt 2), (''serviceId'', JStr (cf_serviceId config)),
                                 (''serviceGenerationId'', JStr generation), (''eventId'', JStr (ev_eventId event)),
                                 (''eligibilityGeneration'', JStr (eq_eligibilityGeneration intake)),
                                 (''eligibilityExpiresAt'', JInt (eq_expiresAt intake)), (''recorded'', JBool True)]),
                            db1)))))"

definition handleClaim ::
  "nat \<Rightarrow> runtime \<Rightarrow> NativeQemuSchedulerConfig \<Rightarrow> service_env \<Rightarrow> http_request \<Rightarrow> scheduler_db \<Rightarrow>
     (http_response \<times> scheduler_db) option" where
  "handleClaim fuel rt config env request db =
     (case authenticatedHost config request of None \<Rightarrow> Some (authenticationFailure config request, db)
      | Some host \<Rightarrow>
        case readRecord request of None \<Rightarrow> Some (unavailable, db) | Some body \<Rightarrow>
        if \<not> (exact_keys body [''schemaVersion'', ''requestId'', ''capacity'']
            \<and> get_field body ''schemaVersion'' = Some (JInt 1) \<and> isUuid (get_field body ''requestId''))
        then Some (badRequest, db)
        else case (capacityFor (qh_capacities host) (get_field body ''capacity''), as_string (get_field body ''requestId'')) of
          (Some capacity, Some requestId) \<Rightarrow>
            (case assignment rt requestId (qh_hostId host) (ca_capacity capacity) db of
               Inl _ \<Rightarrow> Some (unavailable, db)
             | Inr (Some (claim, attempt)) \<Rightarrow> Some (Reply 200 (assignment_reply claim attempt), db)
             | Inr None \<Rightarrow>
                 claim_loop fuel rt (sv_loop env) 0 \<lparr>ri_requestId = requestId, ri_hostId = qh_hostId host,
                   ri_capacity = ca_capacity capacity, ri_leaseMilliseconds = cf_claimLeaseMilliseconds config\<rparr>
                   capacity db)
        | _ \<Rightarrow> Some (notFound, db))"

definition handleRenewal ::
  "NativeQemuSchedulerConfig \<Rightarrow> service_env \<Rightarrow> http_request \<Rightarrow> scheduler_db \<Rightarrow> http_response \<times> scheduler_db" where
  "handleRenewal config env request db =
     (case authenticatedHost config request of None \<Rightarrow> (authenticationFailure config request, db)
      | Some host \<Rightarrow>
        case readRecord request of None \<Rightarrow> (unavailable, db) | Some body \<Rightarrow>
        if \<not> (exact_keys body [''schemaVersion'', ''requestId'', ''claimId'', ''capacity'']
            \<and> get_field body ''schemaVersion'' = Some (JInt 1) \<and> isUuid (get_field body ''requestId''))
        then (notFound, db)
        else case (as_matching uuidPattern (get_field body ''claimId''),
                   capacityFor (qh_capacities host) (get_field body ''capacity'')) of
          (Some claimId, Some capacity) \<Rightarrow>
            (case renew (sv_now1 env) (sv_now2 env) claimId (qh_hostId host) (ca_capacity capacity)
                    (cf_claimLeaseMilliseconds config) db of
               Inl _ \<Rightarrow> (unavailable, db)
             | Inr (leaseExpiresAt, db1) \<Rightarrow>
                 (Reply 200 (JObj [(''schemaVersion'', JInt 1), (''claimId'', JStr claimId),
                    (''leaseExpiresAt'', JInt leaseExpiresAt)]), db1))
        | _ \<Rightarrow> (notFound, db))"

definition handleCandidateLease ::
  "runtime \<Rightarrow> NativeQemuSchedulerConfig \<Rightarrow> service_env \<Rightarrow> http_request \<Rightarrow> scheduler_db \<Rightarrow> http_response" where
  "handleCandidateLease rt config env request db =
     (case authenticatedHost config request of None \<Rightarrow> authenticationFailure config request
      | Some host \<Rightarrow>
        case readRecord request of None \<Rightarrow> unavailable | Some body \<Rightarrow>
        if \<not> (exact_keys body [''schemaVersion'', ''requestId'', ''claimId'', ''attemptId'', ''descriptorDigest'']
            \<and> get_field body ''schemaVersion'' = Some (JInt 1))
        then badRequest
        else case (as_matching uuidPattern (get_field body ''requestId''), as_matching uuidPattern (get_field body ''claimId''),
                   as_matching uuidPattern (get_field body ''attemptId''), as_string (get_field body ''descriptorDigest'')) of
          (Some requestId, Some claimId, Some attemptId, Some descriptorDigest) \<Rightarrow>
            (case current rt (sv_now1 env) claimId db of
               Inl _ \<Rightarrow> unavailable
             | Inr None \<Rightarrow> notFound
             | Inr (Some (claim, currentAttempt, currentDigest)) \<Rightarrow>
                 if cl_hostId claim \<noteq> qh_hostId host \<or> currentAttempt \<noteq> attemptId \<or> currentDigest \<noteq> descriptorDigest
                 then notFound
                 else case sv_lease env claim attemptId descriptorDigest of
                   None \<Rightarrow> unavailable
                 | Some lease \<Rightarrow> Reply 201 (JObj ([(''schemaVersion'', JInt 1), (''serviceId'', JStr ''qemu-main''),
                     (''requestId'', JStr requestId)] @ lease)))
        | _ \<Rightarrow> badRequest)"

definition handleResult ::
  "runtime \<Rightarrow> NativeQemuSchedulerConfig \<Rightarrow> service_env \<Rightarrow> http_request \<Rightarrow> scheduler_db \<Rightarrow>
     http_response \<times> scheduler_db" where
  "handleResult rt config env request db =
     (case authenticatedHost config request of None \<Rightarrow> (authenticationFailure config request, db)
      | Some host \<Rightarrow>
        case readRecord request of None \<Rightarrow> (unavailable, db) | Some body \<Rightarrow>
        if \<not> (exact_keys body [''schemaVersion'', ''requestId'', ''claimId'', ''capacity'', ''cleanupComplete'', ''terminalEvent'']
            \<and> get_field body ''schemaVersion'' = Some (JInt 1) \<and> isUuid (get_field body ''requestId'')
            \<and> get_field body ''cleanupComplete'' = Some (JBool True))
        then (badRequest, db)
        else case (as_matching uuidPattern (get_field body ''claimId''), as_string (get_field body ''capacity'')) of
          (Some claimId, Some capacityName) \<Rightarrow>
            (case capacityFor (qh_capacities host) (get_field body ''capacity'') of
               None \<Rightarrow> (notFound, db)
             | Some _ \<Rightarrow>
               case finalization rt claimId (qh_hostId host) capacityName db of
                 Inl _ \<Rightarrow> (unavailable, db)
               | Inr None \<Rightarrow> (notFound, db)
               | Inr (Some owned) \<Rightarrow>
                   (case Option.bind (get_field body ''terminalEvent'') (parseNativeQemuTerminalEvent rt) of
                      None \<Rightarrow> (badRequest, db)
                    | Some terminalEvent \<Rightarrow>
                        if \<not> terminalEventMatchesClaim terminalEvent (fi_claim owned) (fi_attempt owned) then (notFound, db)
                        else if fi_state owned = CCompleted \<and> fi_result owned = None then (notFound, db)
                        else if (case fi_result owned of None \<Rightarrow> False
                                 | Some r \<Rightarrow> terminal_json (co_terminalEvent r) \<noteq> terminal_json terminalEvent)
                        then (notFound, db)
                        else case recordResult (sv_now1 env) \<lparr>co_claimId = cl_claimId (fi_claim owned),
                               co_cleanupComplete = True, co_eventId = te_eventId terminalEvent,
                               co_result = tp_result (te_payload terminalEvent), co_terminalEvent = terminalEvent\<rparr> db of
                          Inl _ \<Rightarrow> (unavailable, db)
                        | Inr (_, db1) \<Rightarrow>
                            (Reply 202 (JObj [(''schemaVersion'', JInt 1), (''claimId'', JStr (cl_claimId (fi_claim owned))),
                               (''accepted'', JBool True)]), db1)))
        | _ \<Rightarrow> (badRequest, db))"

definition handleRecovery ::
  "runtime \<Rightarrow> NativeQemuSchedulerConfig \<Rightarrow> service_env \<Rightarrow> http_request \<Rightarrow> scheduler_db \<Rightarrow>
     http_response \<times> scheduler_db" where
  "handleRecovery rt config env request db =
     (case authenticatedHost config request of None \<Rightarrow> (authenticationFailure config request, db)
      | Some host \<Rightarrow>
        case readRecord request of None \<Rightarrow> (unavailable, db) | Some body \<Rightarrow>
        if \<not> (exact_keys body [''schemaVersion'', ''requestId'', ''claimId'', ''capacity'', ''cleanupComplete'']
            \<and> get_field body ''schemaVersion'' = Some (JInt 1) \<and> isUuid (get_field body ''requestId'')
            \<and> get_field body ''cleanupComplete'' = Some (JBool True))
        then (badRequest, db)
        else case (as_matching uuidPattern (get_field body ''claimId''),
                   capacityFor (qh_capacities host) (get_field body ''capacity'')) of
          (Some claimId, Some capacity) \<Rightarrow>
            (case finalization rt claimId (qh_hostId host) (ca_capacity capacity) db of
               Inl _ \<Rightarrow> (unavailable, db)
             | Inr None \<Rightarrow> (notFound, db)
             | Inr (Some owned) \<Rightarrow>
                 if fi_result owned \<noteq> None then (notFound, db)
                 else if fi_state owned = CCompleted then (EmptyReply, db)
                 else if \<not> sv_revoke env (fi_claim owned) (at_attemptId (fi_attempt owned)) then (unavailable, db)
                 else case recover (cl_claimId (fi_claim owned)) (qh_hostId host) (cl_capacity (fi_claim owned)) db of
                   Inl _ \<Rightarrow> (unavailable, db)
                 | Inr db1 \<Rightarrow> (EmptyReply, db1))
        | _ \<Rightarrow> (badRequest, db))"

definition handleIdentity :: "NativeQemuSchedulerConfig \<Rightarrow> http_request \<Rightarrow> http_response" where
  "handleIdentity config request =
     (case authenticatedHost config request of None \<Rightarrow> authenticationFailure config request
      | Some host \<Rightarrow> Reply 200 (JObj [(''schemaVersion'', JInt 1), (''serviceId'', JStr ''qemu-main''),
          (''role'', JStr ''qemu-host''), (''hostId'', JStr (qh_hostId host)),
          (''capacities'', JArr (map (\<lambda>c. JStr (ca_capacity c)) (qh_capacities host)))]))"

definition handle ::
  "nat \<Rightarrow> runtime \<Rightarrow> NativeQemuSchedulerConfig \<Rightarrow> service_env \<Rightarrow> http_request \<Rightarrow> scheduler_db \<Rightarrow>
     (http_response \<times> scheduler_db) option" where
  "handle fuel rt config env request db =
     (let get = rq_method request = GET; post = rq_method request = POST; path = rq_pathname request in
      if rq_search request \<noteq> '''' then Some (notFound, db)
      else if get \<and> path = ''/healthz'' then Some (Reply 200 (JObj [(''schemaVersion'', JInt 1),
        (''serviceId'', JStr ''qemu-main''), (''status'', JStr ''ready'')]), db)
      else if get \<and> path = ''/v1/qemu-host-identity'' then Some (handleIdentity config request, db)
      else if get \<and> eventStatusPath path \<noteq> None then
        Some (handleEventStatus rt config request (the (eventStatusPath path)) db, db)
      else if post \<and> path = ''/v1/qemu-events'' then Some (handleIntake rt config env request db)
      else if post \<and> path = ''/v1/qemu-host-claims'' then handleClaim fuel rt config env request db
      else if post \<and> path = ''/v1/qemu-host-claim-renewals'' then Some (handleRenewal config env request db)
      else if post \<and> path = ''/v1/qemu-host-candidate-leases'' then
        Some (handleCandidateLease rt config env request db, db)
      else if post \<and> path = ''/v1/qemu-host-results'' then Some (handleResult rt config env request db)
      else if post \<and> path = ''/v1/qemu-host-recoveries'' then Some (handleRecovery rt config env request db)
      else Some (notFound, db))"

section \<open>The reporter\<close>

text \<open>\<open>#drain\<close> of an open reporter: \<open>report\<close> says whether the authority accepts a report, and \<open>now\<close>
  what the clock shows when the claim is acknowledged. The flag of the result says whether a retry is scheduled.\<close>

fun drain_reports ::
  "(NativeQemuClaim \<Rightarrow> json \<Rightarrow> bool) \<Rightarrow> (string \<Rightarrow> int) \<Rightarrow> (NativeQemuClaim \<times> json) list \<Rightarrow> scheduler_db \<Rightarrow>
     bool \<times> scheduler_db" where
  "drain_reports report now [] db = (False, db)"
| "drain_reports report now ((claim, terminalEvent) # reports) db =
     (if \<not> report claim terminalEvent then (True, db)
      else case acknowledgeResult (now (cl_claimId claim)) (cl_claimId claim) db of
        Inl _ \<Rightarrow> (True, db)
      | Inr db1 \<Rightarrow> drain_reports report now reports db1)"

definition drain ::
  "runtime \<Rightarrow> (NativeQemuClaim \<Rightarrow> json \<Rightarrow> bool) \<Rightarrow> (string \<Rightarrow> int) \<Rightarrow> scheduler_db \<Rightarrow> bool \<times> scheduler_db" where
  "drain rt report now db =
     (case pendingReports rt db of Inl _ \<Rightarrow> (False, db) | Inr reports \<Rightarrow> drain_reports report now reports db)"

end
