(* ===== verification/Qemu_Worker.thy ===== *)
theory Qemu_Worker
  imports Qemu_Host Qemu_Examples
begin

text \<open>
  The loop of a QEMU host's worker (\<open>runNativeQemuHost\<close>, \<open>claimNativeQemuHostAssignment\<close>,
  \<open>executeNativeQemuHostAssignment\<close>, \<open>replayNativeQemuHostJournal\<close> of
  \<open>nativeQemuHostService.ts\<close>). An iteration yields the list of its effects, in order; a process that
  is killed has performed a prefix of them, and the next process starts from the journal it left.
\<close>

section \<open>One iteration\<close>

datatype host_effect =
    ESave NativeQemuHostJournalState
  | EClear
  | EClaim string
  | ECleanup string
  | EReport string NativeQemuTerminalEvent bool
  | ERecover string bool
  | EExecute NativeQemuHostAssignment

datatype worker_outcome = Continue | Idle | Failed

text \<open>What the environment answers during the iteration: \<open>None\<close> stands for a rejected promise. The
  execution is rejected as well when a renewal of the lease fails.\<close>

record host_env =
  he_uuid :: string
  he_claim :: "string \<Rightarrow> NativeQemuHostAssignment option option"
  he_now :: int
  he_cleanup :: "string \<Rightarrow> bool option"
  he_report :: "string \<Rightarrow> NativeQemuTerminalEvent \<Rightarrow> bool"
  he_recover :: "string \<Rightarrow> bool"
  he_execute :: "NativeQemuHostAssignment \<Rightarrow> NativeQemuTerminalEvent option"

definition claimIdFrom :: "NativeQemuHostAssignment \<Rightarrow> string" where
  "claimIdFrom a = cl_claimId (hs_claim a)"

definition replayNativeQemuHostJournal ::
  "host_env \<Rightarrow> NativeQemuHostJournalState option \<Rightarrow> host_effect list \<times> worker_outcome" where
  "replayNativeQemuHostJournal env j =
     (case j of
        None \<Rightarrow> ([], Continue)
      | Some (JClaim requestId) \<Rightarrow> ([], Failed)
      | Some (JActive a) \<Rightarrow>
          (let claimId = claimIdFrom a in
           if he_cleanup env claimId \<noteq> Some True then ([ECleanup claimId], Failed)
           else if he_recover env claimId then ([ECleanup claimId, ERecover claimId True, EClear], Continue)
           else ([ECleanup claimId, ERecover claimId False], Failed))
      | Some (JResult claimId terminalEvent) \<Rightarrow>
          if he_cleanup env claimId \<noteq> Some True then ([ECleanup claimId], Failed)
          else if he_report env claimId terminalEvent
          then ([ECleanup claimId, EReport claimId terminalEvent True, EClear], Continue)
          else ([ECleanup claimId, EReport claimId terminalEvent False], Failed))"

definition claimNativeQemuHostAssignment ::
  "host_env \<Rightarrow> NativeQemuHostJournalState option \<Rightarrow>
     host_effect list \<times> (unit, NativeQemuHostAssignment option) result" where
  "claimNativeQemuHostAssignment env j =
     (case j of
        Some (JActive _) \<Rightarrow> ([], Inl ())
      | Some (JResult _ _) \<Rightarrow> ([], Inl ())
      | _ \<Rightarrow>
          (let requestId = (case j of Some (JClaim r) \<Rightarrow> r | _ \<Rightarrow> he_uuid env);
               saved = (if j = None then [ESave (JClaim requestId)] else []) @ [EClaim requestId]
           in case he_claim env requestId of
                None \<Rightarrow> (saved, Inl ())
              | Some None \<Rightarrow> (saved @ [EClear], Inr None)
              | Some (Some a) \<Rightarrow>
                  (saved @ [ESave (JActive a)],
                   if cl_leaseExpiresAt (hs_claim a) \<le> he_now env then Inr None else Inr (Some a))))"

definition executeNativeQemuHostAssignment ::
  "host_env \<Rightarrow> NativeQemuHostAssignment \<Rightarrow> host_effect list \<times> (unit, unit) result" where
  "executeNativeQemuHostAssignment env a =
     (let claimId = claimIdFrom a in
      case he_execute env a of
        None \<Rightarrow> ([ESave (JActive a), EExecute a], Inl ())
      | Some terminalEvent \<Rightarrow>
          ([ESave (JActive a), EExecute a, ESave (JResult claimId terminalEvent),
            EReport claimId terminalEvent (he_report env claimId terminalEvent)],
           if he_report env claimId terminalEvent then Inr () else Inl ()))"

definition worker_iteration ::
  "host_env \<Rightarrow> NativeQemuHostJournalState option \<Rightarrow> host_effect list \<times> worker_outcome" where
  "worker_iteration env j =
     (case j of
        Some (JActive _) \<Rightarrow> replayNativeQemuHostJournal env j
      | Some (JResult _ _) \<Rightarrow> replayNativeQemuHostJournal env j
      | _ \<Rightarrow>
          (case claimNativeQemuHostAssignment env j of
             (effects, Inl _) \<Rightarrow> (effects, Failed)
           | (effects, Inr None) \<Rightarrow> (effects, Idle)
           | (effects, Inr (Some a)) \<Rightarrow>
               (case executeNativeQemuHostAssignment env a of
                  (later, Inl _) \<Rightarrow> (effects @ later, Failed)
                | (later, Inr _) \<Rightarrow> (effects @ later @ [EClear], Continue))))"

section \<open>Runs\<close>

fun apply_effect :: "NativeQemuHostJournalState option \<Rightarrow> host_effect \<Rightarrow> NativeQemuHostJournalState option" where
  "apply_effect j (ESave s) = Some s"
| "apply_effect j EClear = None"
| "apply_effect j _ = j"

definition journal_of :: "host_effect list \<Rightarrow> NativeQemuHostJournalState option" where
  "journal_of tr = foldl apply_effect None tr"

text \<open>A history of the worker: iterations one after the other, each cut off after any of its effects.\<close>

inductive host_run :: "host_effect list \<Rightarrow> bool" where
  run_start: "host_run []"
| run_iterate: "host_run tr \<Longrightarrow> host_run (tr @ take n (fst (worker_iteration env (journal_of tr))))"

lemma journal_of_append: "journal_of (p @ q) = foldl apply_effect (journal_of p) q"
  by (simp add: journal_of_def)

lemma journal_of_snoc: "journal_of (p @ [e]) = apply_effect (journal_of p) e"
  by (simp add: journal_of_def)

text \<open>A property of every point of a history follows from the same property of one iteration.\<close>

fun holds_along :: "(NativeQemuHostJournalState option \<Rightarrow> host_effect list \<Rightarrow> host_effect \<Rightarrow> bool) \<Rightarrow>
    host_effect list \<Rightarrow> host_effect list \<Rightarrow> bool" where
  "holds_along P past [] = True"
| "holds_along P past (e # es) = (P (journal_of past) past e \<and> holds_along P (past @ [e]) es)"

lemma holds_along_append: "holds_along P past (xs @ ys) \<longleftrightarrow> holds_along P past xs \<and> holds_along P (past @ xs) ys"
  by (induction xs arbitrary: past) auto

lemma holds_along_take: "holds_along P past xs \<Longrightarrow> holds_along P past (take n xs)"
  using holds_along_append[of P past "take n xs" "drop n xs"] by simp

lemma holds_along_split: "holds_along P past xs \<Longrightarrow> xs = ys @ e # zs \<Longrightarrow> P (journal_of (past @ ys)) (past @ ys) e"
  by (simp add: holds_along_append)

lemma host_run_along:
  assumes "host_run tr"
    and "\<And>tr env. host_run tr \<Longrightarrow> holds_along P tr (fst (worker_iteration env (journal_of tr)))"
  shows "holds_along P [] tr"
  using assms(1)
proof induction
  case (run_iterate tr n env)
  then show ?case using assms(2)[OF run_iterate.hyps, of env] by (simp add: holds_along_append holds_along_take)
qed simp

lemmas iteration_defs = worker_iteration_def replayNativeQemuHostJournal_def claimNativeQemuHostAssignment_def
  executeNativeQemuHostAssignment_def Let_def

lemmas iteration_splits = option.splits NativeQemuHostJournalState.splits sum.splits prod.splits if_splits

lemma execute_journaled:
  "holds_along (\<lambda>j past e. \<forall>a. e = EExecute a \<longrightarrow> j = Some (JActive a)) tr (fst (worker_iteration env (journal_of tr)))"
  by (auto simp: iteration_defs journal_of_append split: iteration_splits)

lemma report_journaled:
  "holds_along (\<lambda>j past e. \<forall>c t ok. e = EReport c t ok \<longrightarrow> j = Some (JResult c t)) tr
     (fst (worker_iteration env (journal_of tr)))"
  by (auto simp: iteration_defs journal_of_append split: iteration_splits)

definition settles :: "NativeQemuHostJournalState \<Rightarrow> host_effect \<Rightarrow> bool" where
  "settles s e = (case s of
      JClaim r \<Rightarrow> e = EClaim r
    | JActive a \<Rightarrow> e = ERecover (claimIdFrom a) True
    | JResult c t \<Rightarrow> e = EReport c t True)"

lemma clear_settled:
  "holds_along (\<lambda>j past e. e = EClear \<longrightarrow> (\<exists>s. j = Some s \<and> past \<noteq> [] \<and> settles s (last past))) tr
     (fst (worker_iteration env (journal_of tr)))"
  by (auto simp: iteration_defs journal_of_append settles_def claimIdFrom_def split: iteration_splits)


section \<open>No execution is repeated\<close>

lemma save_claim_fresh:
  "holds_along (\<lambda>j past e. \<forall>r. e = ESave (JClaim r) \<longrightarrow> j = None) tr (fst (worker_iteration env (journal_of tr)))"
  by (auto simp: iteration_defs journal_of_append split: iteration_splits)

fun owned :: "NativeQemuHostJournalState option \<Rightarrow> bool" where
  "owned (Some (JActive _)) = True"
| "owned (Some (JResult _ _)) = True"
| "owned _ = False"

definition unsettled :: "host_effect list \<Rightarrow> bool" where
  "unsettled tr \<longleftrightarrow> (\<exists>p a m. tr = p @ EExecute a # m \<and> EClear \<notin> set m)"

lemma unsettled_snoc: "unsettled (tr @ [e]) \<longleftrightarrow> (\<exists>a. e = EExecute a) \<or> (unsettled tr \<and> e \<noteq> EClear)"
proof
  assume "unsettled (tr @ [e])"
  then obtain p a m where m: "tr @ [e] = p @ EExecute a # m" "EClear \<notin> set m" by (auto simp: unsettled_def)
  then show "(\<exists>a. e = EExecute a) \<or> (unsettled tr \<and> e \<noteq> EClear)"
    by (cases m rule: rev_cases) (auto simp: unsettled_def)
next
  assume "(\<exists>a. e = EExecute a) \<or> (unsettled tr \<and> e \<noteq> EClear)"
  then show "unsettled (tr @ [e])"
  proof
    assume "unsettled tr \<and> e \<noteq> EClear"
    then obtain p a m where "tr = p @ EExecute a # m" "EClear \<notin> set m" "e \<noteq> EClear" by (auto simp: unsettled_def)
    then have "tr @ [e] = p @ EExecute a # (m @ [e])" "EClear \<notin> set (m @ [e])" by auto
    then show ?thesis unfolding unsettled_def by blast
  next
    assume "\<exists>a. e = EExecute a"
    then obtain a where "tr @ [e] = tr @ EExecute a # []" by auto
    then show ?thesis unfolding unsettled_def by (metis empty_iff empty_set)
  qed
qed

lemma unsettled_owned:
  assumes "holds_along (\<lambda>j past e. \<forall>a. e = EExecute a \<longrightarrow> j = Some (JActive a)) [] tr"
    "holds_along (\<lambda>j past e. \<forall>r. e = ESave (JClaim r) \<longrightarrow> j = None) [] tr" "unsettled tr"
  shows "owned (journal_of tr)"
  using assms
proof (induction tr rule: rev_induct)
  case Nil
  then show ?case by (simp add: unsettled_def)
next
  case (snoc e tr)
  then have IH: "unsettled tr \<Longrightarrow> owned (journal_of tr)" by (simp add: holds_along_append)
  from snoc.prems(1,2) have e: "\<And>a. e = EExecute a \<Longrightarrow> journal_of tr = Some (JActive a)"
    "\<And>r. e = ESave (JClaim r) \<Longrightarrow> journal_of tr = None" by (simp_all add: holds_along_append)
  from snoc.prems(3) show ?case unfolding unsettled_snoc
  proof
    assume "\<exists>a. e = EExecute a"
    with e(1) show ?case by (auto simp: journal_of_snoc)
  next
    assume u: "unsettled tr \<and> e \<noteq> EClear"
    with IH have o: "owned (journal_of tr)" by blast
    show ?case
    proof (cases e)
      case (ESave st)
      with o e(2) show ?thesis by (cases st) (auto simp: journal_of_snoc)
    qed (use o u in \<open>auto simp: journal_of_snoc\<close>)
  qed
qed

lemma iteration_executes_once:
  assumes "fst (worker_iteration env j) = xs @ EExecute b # ys"
  shows "\<not> owned j" "\<exists>r. EClaim r \<in> set xs" "\<And>a. EExecute a \<notin> set xs"
proof -
  let ?pre = "\<lambda>es. (\<forall>xs b ys. es = xs @ EExecute b # ys \<longrightarrow> \<not> owned j \<and> (\<exists>r. EClaim r \<in> set xs) \<and> (\<forall>a. EExecute a \<notin> set xs))"
  have "?pre (fst (worker_iteration env j))"
    by (auto simp: iteration_defs append_eq_Cons_conv Cons_eq_append_conv append_eq_append_conv2 split: iteration_splits)
  with assms show "\<not> owned j" "\<exists>r. EClaim r \<in> set xs" "\<And>a. EExecute a \<notin> set xs" by blast+
qed

lemma holds_along_iff:
  "holds_along P past xs \<longleftrightarrow> (\<forall>ys e zs. xs = ys @ e # zs \<longrightarrow> P (journal_of (past @ ys)) (past @ ys) e)"
proof
  assume "holds_along P past xs"
  then show "\<forall>ys e zs. xs = ys @ e # zs \<longrightarrow> P (journal_of (past @ ys)) (past @ ys) e"
    by (blast intro: holds_along_split)
next
  assume "\<forall>ys e zs. xs = ys @ e # zs \<longrightarrow> P (journal_of (past @ ys)) (past @ ys) e"
  then show "holds_along P past xs"
  proof (induction xs arbitrary: past)
    case (Cons x xs)
    from Cons.prems have "P (journal_of past) past x" by (metis append_Nil append_Nil2)
    moreover have "holds_along P (past @ [x]) xs"
    proof (rule Cons.IH, intro allI impI)
      fix ys e zs assume "xs = ys @ e # zs"
      with Cons.prems[rule_format, of "x # ys" e zs]
      show "P (journal_of ((past @ [x]) @ ys)) ((past @ [x]) @ ys) e" by simp
    qed
    ultimately show ?case by simp
  qed simp
qed

lemma rerun_iteration:
  assumes run: "host_run tr"
  shows "holds_along (\<lambda>j past e. \<forall>b. e = EExecute b \<longrightarrow> (\<forall>p a m. past = p @ EExecute a # m \<longrightarrow>
      EClear \<in> set m \<and> (\<exists>r. EClaim r \<in> set m))) tr (fst (worker_iteration env (journal_of tr)))"
  unfolding holds_along_iff
proof (intro allI impI)
  fix ys e zs b p a m
  assume it: "fst (worker_iteration env (journal_of tr)) = ys @ e # zs" "e = EExecute b" and past: "tr @ ys = p @ EExecute a # m"
  note once = iteration_executes_once[OF it(1)[unfolded it(2)]]
  obtain m' where m': "tr = p @ EExecute a # m'" "m = m' @ ys"
    using past once(3)[of a] by (auto simp: append_eq_append_conv2 append_eq_Cons_conv Cons_eq_append_conv)
  have "EClear \<in> set m'"
  proof (rule ccontr)
    assume "EClear \<notin> set m'"
    then have "unsettled tr" using m'(1) by (auto simp: unsettled_def)
    with unsettled_owned[OF host_run_along[OF run execute_journaled] host_run_along[OF run save_claim_fresh]] once(1)
    show False by blast
  qed
  with m'(2) once(2) show "EClear \<in> set m \<and> (\<exists>r. EClaim r \<in> set m)" by auto
qed

text \<open>A job is never executed again on its own. Between two executions in the history of a worker,
  whatever fails and wherever the process is killed, the journal of the first one has been settled and
  removed and the scheduler has been asked for a new claim.\<close>

theorem host_never_reruns_without_a_new_claim:
  assumes "host_run tr" "tr = p @ EExecute a # m @ EExecute b # s"
  shows "EClear \<in> set m \<and> (\<exists>r. EClaim r \<in> set m)"
proof -
  have "tr = (p @ EExecute a # m) @ EExecute b # s" using assms(2) by simp
  from holds_along_split[OF host_run_along[OF assms(1) rerun_iteration] this] show ?thesis by simp
qed

section \<open>A concrete host\<close>

definition demo_image :: string where "demo_image = ''job@sha256:'' @ replicate 64 CHR ''a''"

definition demo_bounds :: QemuBounds where
  "demo_bounds = \<lparr>bd_cpu = ''2'', bd_memoryBytes = ''1024'', bd_pids = ''64'', bd_wallClockSeconds = ''60'',
     bd_outputBytes = ''4096''\<rparr>"

definition demo_descriptor :: NativeQemuDescriptor where
  "demo_descriptor = \<lparr>d_schemaVersion = 1, d_executionKind = ''qemu'', d_admissionGeneration = demo_uuid,
     d_jobName = ''test'', d_runnerBaseImage = demo_image, d_bounds = demo_bounds, d_projectId = ''demo'',
     d_repositoryId = ''root'', d_protectedRef = ''refs/heads/main'',
     d_expectedProtectedHead = replicate 40 CHR ''d'', d_candidateCommit = replicate 40 CHR ''e'',
     d_candidateTree = replicate 40 CHR ''f'', d_policyRevision = ''r1'', d_requiredReviewRevision = ''r1'',
     d_requiredJobSetRevision = ''r1'', d_evidenceClass = ''candidate-controlled'',
     d_configBlob = \<lparr>br_objectId = replicate 40 CHR ''d'', br_sha256 = ''sha256:'' @ replicate 64 CHR ''a''\<rparr>,
     d_script = \<lparr>sr_path = ''.dim/ci/jobs/test.bash'', sr_objectId = replicate 40 CHR ''d'',
       sr_sha256 = ''sha256:'' @ replicate 64 CHR ''a''\<rparr>,
     d_argv = jobArgv, d_jobImage = demo_image\<rparr>"

definition demo_assignment :: NativeQemuHostAssignment where
  "demo_assignment = \<lparr>hs_claim = demo_claim, hs_attempt = \<lparr>ha_attemptId = demo_attempt_id,
     ha_descriptorDigest = ''sha256:'' @ replicate 64 CHR ''a'', ha_descriptor = demo_descriptor\<rparr>\<rparr>"

lemma demo_image_ok: "matches imagePattern demo_image"
  by code_simp

lemma demo_bounds_ok: "bounds_valid demo_bounds"
  by code_simp

lemma demo_script_ok: "script_path_ok ''.dim/ci/jobs/test.bash''"
  by code_simp

lemma demo_root_ok: "matches namePattern ''root''"
  by code_simp

lemma demo_descriptor_valid: "descriptor_valid demo_descriptor"
  using demo_digest demo_hex demo_names demo_image_ok demo_bounds_ok demo_script_ok demo_root_ok
    uuid_generation[OF demo_uuids(1)]
  by (simp add: descriptor_valid_def demo_descriptor_def blob_valid_def script_valid_def)

lemma demo_digest_eq: "nativeQemuDescriptorDigest demo_rt d = ''sha256:'' @ replicate 64 CHR ''a''"
  by (simp add: nativeQemuDescriptorDigest_def demo_rt_def)

lemma demo_matches_event:
  "descriptor_matches_event demo_rt demo_descriptor (''sha256:'' @ replicate 64 CHR ''a'') demo_uuid demo_event"
  unfolding descriptor_matches_event_def demo_digest_eq by (simp add: demo_descriptor_def demo_event_def)

definition demo_env :: host_env where
  "demo_env = \<lparr>he_uuid = demo_request, he_claim = (\<lambda>_. Some (Some demo_assignment)), he_now = 0,
     he_cleanup = (\<lambda>_. Some True), he_report = (\<lambda>_ _. True), he_recover = (\<lambda>_. True),
     he_execute = (\<lambda>_. Some demo_terminal)\<rparr>"

definition demo_trace :: "host_effect list" where
  "demo_trace = [ESave (JClaim demo_request), EClaim demo_request, ESave (JActive demo_assignment),
     ESave (JActive demo_assignment), EExecute demo_assignment, ESave (JResult demo_claim_id demo_terminal),
     EReport demo_claim_id demo_terminal True, EClear]"

lemma demo_iteration: "worker_iteration demo_env None = (demo_trace, Continue)"
  by (simp add: iteration_defs demo_env_def demo_trace_def demo_assignment_def demo_claim_def claimIdFrom_def)

lemma demo_runs: "host_run demo_trace" "host_run (demo_trace @ demo_trace)"
proof -
  have n: "length demo_trace = 8" by (simp add: demo_trace_def)
  have j: "journal_of [] = None" "journal_of demo_trace = None" by (simp_all add: journal_of_def demo_trace_def)
  show 1: "host_run demo_trace"
    using host_run.run_iterate[OF host_run.run_start, of 8 demo_env] by (simp add: j demo_iteration n)
  show "host_run (demo_trace @ demo_trace)"
    using host_run.run_iterate[OF 1, of 8 demo_env] by (simp add: j demo_iteration n)
qed


theorem host_never_reruns_without_a_new_claim_witness:
  "host_run (demo_trace @ demo_trace) \<and> EClear \<in> set (drop 5 demo_trace @ take 4 demo_trace)"
proof -
  have "demo_trace @ demo_trace = take 4 demo_trace @ EExecute demo_assignment #
      (drop 5 demo_trace @ take 4 demo_trace) @ EExecute demo_assignment # drop 5 demo_trace"
    by (simp add: demo_trace_def)
  from host_never_reruns_without_a_new_claim[OF demo_runs(2) this] demo_runs(2) show ?thesis by blast
qed

end
