(* ===== verification/Qemu_Wire.thy ===== *)
theory Qemu_Wire
  imports Qemu_Worker
begin

text \<open>
  What the wire formats of the QEMU components guarantee: what a parser accepts it accepts again after
  serialisation, identifiers and digests bind the fields they are computed from, an accepted terminal
  event tells the truth about its completion, and an accepted assignment survives a restart of the host.
\<close>

text \<open>An event identifier names one job of one envelope. If two accepted review events carry the
  same identifier, and SHA-256 does not collide on what they hash, they are for the same envelope and
  the same job; and every accepted event is accepted again, unchanged, after it has been stored as
  text.\<close>

theorem review_event_identifier_binds:
  assumes "parseNativeQemuReviewEvent rt v = Some a" "parseNativeQemuReviewEvent rt w = Some b"
    "ev_eventId a = ev_eventId b"
    "sha256 rt (event_preimage (ev_envelopeId a) (ev_jobName a)) = sha256 rt (event_preimage (ev_envelopeId b) (ev_jobName b)) \<Longrightarrow>
       event_preimage (ev_envelopeId a) (ev_jobName a) = event_preimage (ev_envelopeId b) (ev_jobName b)"
  shows "ev_envelopeId a = ev_envelopeId b \<and> ev_jobName a = ev_jobName b
    \<and> parseNativeQemuReviewEvent rt (event_json_of a) = Some a"
proof -
  note a = parse_event_valid[OF assms(1)] and b = parse_event_valid[OF assms(2)]
  from a b assms(3,4) have "event_preimage (ev_envelopeId a) (ev_jobName a) = event_preimage (ev_envelopeId b) (ev_jobName b)"
    by (simp add: event_valid_def)
  with a b have "ev_envelopeId a = ev_envelopeId b \<and> ev_jobName a = ev_jobName b"
    by (intro event_preimage_inject) (simp_all add: event_valid_def hex64Pattern_def matches_class)
  with event_codec.reparse[OF assms(1)] show ?thesis by simp
qed

theorem review_event_identifier_binds_witness:
  "parseNativeQemuReviewEvent demo_rt (event_json_of demo_event) = Some demo_event"
  using review_event_identifier_binds[OF demo_parse[unfolded parseEvent_def] demo_parse[unfolded parseEvent_def]] by simp

text \<open>A descriptor digest names one descriptor. If two accepted descriptors have the same digest,
  and SHA-256 does not collide on what they hash, they are equal in every field.\<close>

theorem descriptor_digest_binds:
  assumes "parseNativeQemuDescriptor v = Some d" "parseNativeQemuDescriptor w = Some e"
    "nativeQemuDescriptorDigest rt d = nativeQemuDescriptorDigest rt e"
    "sha256 rt (descriptor_preimage d) = sha256 rt (descriptor_preimage e) \<Longrightarrow>
       descriptor_preimage d = descriptor_preimage e"
  shows "d = e"
  using descriptor_preimage_inject[OF parse_descriptor_valid[OF assms(1)] parse_descriptor_valid[OF assms(2)]] assms(3,4)
  by (simp add: nativeQemuDescriptorDigest_def)

theorem descriptor_digest_binds_witness:
  "parseNativeQemuDescriptor (descriptor_json demo_descriptor) = Some demo_descriptor \<and>
   (case parseNativeQemuDescriptor (descriptor_json demo_descriptor) of Some d \<Rightarrow> d = demo_descriptor | None \<Rightarrow> False)"
proof -
  have p: "parseNativeQemuDescriptor (descriptor_json demo_descriptor) = Some demo_descriptor"
    by (rule parse_descriptor_json[OF demo_descriptor_valid])
  from descriptor_digest_binds[OF p p refl refl] p show ?thesis by simp
qed

text \<open>A terminal event tells the truth about its completion. In every accepted terminal event the
  result is success exactly for exit status zero, cancelled exactly for a cancelled run and failure
  otherwise; the exit status fits in a byte and the signal number in its range; the run does not end
  before it starts; and the event is accepted again, unchanged, after it has been stored.\<close>

theorem terminal_event_is_truthful:
  assumes "parseNativeQemuTerminalEvent rt v = Some t"
  shows "(tp_result (te_payload t) = ''success'' \<longleftrightarrow> tp_completion (te_payload t) = Exited 0)
    \<and> (tp_result (te_payload t) = ''cancelled'' \<longleftrightarrow> tp_completion (te_payload t) = Cancelled)
    \<and> tp_result (te_payload t) \<in> {''success'', ''failure'', ''cancelled''}
    \<and> (case tp_completion (te_payload t) of Exited n \<Rightarrow> 0 \<le> n \<and> n \<le> 255 | Signaled n \<Rightarrow> 1 \<le> n \<and> n \<le> 64 | _ \<Rightarrow> True)
    \<and> the (date_parse rt (tp_startedAt (te_payload t))) \<le> the (date_parse rt (tp_finishedAt (te_payload t)))
    \<and> parseNativeQemuTerminalEvent rt (terminal_json t) = Some t"
proof -
  have p: "payload_valid rt (te_payload t)" using parse_terminal_valid[OF assms] by (simp add: terminal_valid_def)
  then have "tp_result (te_payload t) = completion_result (tp_completion (te_payload t))"
    "completion_valid (tp_completion (te_payload t))"
    "the (date_parse rt (tp_startedAt (te_payload t))) \<le> the (date_parse rt (tp_finishedAt (te_payload t)))"
    by (simp_all add: payload_valid_def not_less)
  then show ?thesis
    using terminal_codec.reparse[OF assms]
    by (cases "tp_completion (te_payload t)") (auto simp: completion_result_def)
qed

theorem terminal_event_is_truthful_witness:
  "tp_result (te_payload demo_terminal) = ''success'' \<and> tp_completion (te_payload demo_terminal) = Exited 0"
proof -
  have "terminal_valid demo_rt demo_terminal" using demo_completion_ok by (simp add: completion_ok_def demo_completion_def)
  from terminal_event_is_truthful[OF parse_terminal_json[OF this]] show ?thesis by (simp add: demo_terminal_def)
qed

section \<open>Accepted assignments\<close>

lemma mapM_set: "mapM f xs = Some ys \<Longrightarrow> y \<in> set ys \<Longrightarrow> \<exists>x\<in>set xs. f x = Some y"
  by (force simp: mapM_eq_Some list_all2_conv_all_nth in_set_conv_nth)

lemma connection_identifiers:
  assumes "parseNativeQemuConnection rt v h = Some conn"
  shows "matches identifierPattern (nc_hostId conn)" "nc_hostId conn = h"
    "\<And>c. c \<in> set (nc_capacities conn) \<Longrightarrow> matches identifierPattern (hc_capacity c)"
  using assms
  by (auto simp: parseNativeQemuConnection_def opt_conv Let_def dest!: mapM_set,
      auto simp: parseHostCapacity_def opt_conv Let_def)

lemma host_assignment_valid:
  assumes "parseNativeQemuHostAssignment rt v conn cap req = Some a" "matches uuidPattern req"
    "matches identifierPattern (nc_hostId conn)" "\<And>c. c \<in> set (nc_capacities conn) \<Longrightarrow> matches identifierPattern (hc_capacity c)"
  shows "assignment_valid rt a"
  using assms
  by (auto simp: parseNativeQemuHostAssignment_def opt_conv assignment_valid_def descriptor_matches_event_def
      dest!: find_row_Some parse_descriptor_valid parse_event_valid, auto simp: descriptor_valid_def)

text \<open>C37: A host can always restart on what it accepted. An assignment accepted by a host with a valid
  connection file for a request identifier it drew is for that host, capacity and request, its descriptor
  agrees with the review event and carries the digest it was issued with, and reading the journal that
  holds it gives back the same assignment.\<close>

theorem accepted_assignment_survives_restart:
  assumes "parseNativeQemuConnection rt cv host = Some conn" "matches uuidPattern req"
    "parseNativeQemuHostAssignment rt v conn cap req = Some a"
  shows "cl_hostId (hs_claim a) = host \<and> cl_capacity (hs_claim a) = cap \<and> cl_requestId (hs_claim a) = req
    \<and> cap \<in> hc_capacity ` set (nc_capacities conn)
    \<and> nativeQemuDescriptorDigest rt (ha_descriptor (hs_attempt a)) = ha_descriptorDigest (hs_attempt a)
    \<and> d_candidateCommit (ha_descriptor (hs_attempt a)) = ev_candidateCommit (cl_event (hs_claim a))
    \<and> d_candidateTree (ha_descriptor (hs_attempt a)) = ev_candidateTree (cl_event (hs_claim a))
    \<and> parseNativeQemuHostJournalState rt (journal_json (JActive a)) = Some (JActive a)"
proof -
  note conn = connection_identifiers[OF assms(1)]
  have valid: "assignment_valid rt a" by (rule host_assignment_valid[OF assms(3,2) conn(1)]) (rule conn(3))
  have "cl_hostId (hs_claim a) = nc_hostId conn \<and> cl_capacity (hs_claim a) = cap \<and> cl_requestId (hs_claim a) = req
      \<and> cap \<in> hc_capacity ` set (nc_capacities conn)"
    using assms(3) by (auto simp: parseNativeQemuHostAssignment_def opt_conv dest!: find_row_Some)
  moreover have "journal_valid rt (JActive a)" using valid by simp
  ultimately show ?thesis
    using valid conn(2) parse_journal_json[of rt "JActive a"]
    by (simp add: assignment_valid_def descriptor_matches_event_def Let_def)
qed

definition demo_capacity_json :: json where
  "demo_capacity_json = JObj [(''capacity'', JStr ''kvm''), (''runnerBaseImage'', JStr demo_image),
     (''jobBaseImage'', JStr demo_image), (''cpus'', JInt 2), (''memoryBytes'', JInt 1024),
     (''supervisorMemoryBytes'', JInt 2048), (''pids'', JInt 64), (''timeoutSeconds'', JInt 60),
     (''outputBytes'', JInt 4096)]"

definition demo_host_capacity :: HostCapacity where
  "demo_host_capacity = \<lparr>hc_capacity = ''kvm'', hc_runnerBaseImage = demo_image, hc_jobBaseImage = demo_image,
     hc_cpus = 2, hc_memoryBytes = 1024, hc_supervisorMemoryBytes = 2048, hc_pids = 64, hc_timeoutSeconds = 60,
     hc_outputBytes = 4096\<rparr>"

definition demo_token :: string where "demo_token = replicate 43 CHR ''A''"

definition demo_connection_json :: json where
  "demo_connection_json = JObj [(''schemaVersion'', JInt 1), (''hostId'', JStr ''host-a''),
     (''generationId'', JStr (replicate 64 CHR ''a'')), (''gitExecutable'', JStr ''/usr/bin/git''),
     (''scheduler'', JObj [(''transport'', JStr ''https''), (''endpoint'', JStr ''https://demo''),
       (''serviceId'', JStr ''qemu-main''), (''hostToken'', JStr demo_token)]),
     (''nativeGit'', JObj [(''transport'', JStr ''https''), (''endpoint'', JStr ''https://demo''),
       (''serviceId'', JStr ''native-main'')]),
     (''capacities'', JArr [demo_capacity_json])]"

definition demo_connection :: NativeQemuConnection where
  "demo_connection = \<lparr>nc_schemaVersion = 1, nc_hostId = ''host-a'', nc_generationId = replicate 64 CHR ''a'',
     nc_gitExecutable = ''/usr/bin/git'',
     nc_scheduler = \<lparr>se_transport = Https, se_endpoint = ''https://demo'', se_serviceId = ''qemu-main'',
       se_hostToken = demo_token\<rparr>,
     nc_nativeGit = \<lparr>ne_transport = Https, ne_endpoint = ''https://demo'', ne_serviceId = ''native-main''\<rparr>,
     nc_capacities = [demo_host_capacity]\<rparr>"

lemma demo_token_ok: "token_ok demo_token"
  by code_simp

lemma demo_capacity_parse: "parseHostCapacity demo_capacity_json = Some demo_host_capacity"
  by (simp add: parseHostCapacity_def demo_capacity_json_def demo_host_capacity_def opt_conv exact_def exact_keys_def
      has_own_def positiveInteger_def safe_integer_def demo_names demo_image_ok)

lemma demo_connection_parse: "parseNativeQemuConnection demo_rt demo_connection_json ''host-a'' = Some demo_connection"
  unfolding parseNativeQemuConnection_def opt_conv Let_def
  by (simp add: demo_connection_json_def demo_connection_def opt_conv exact_def exact_keys_def has_own_def demo_names
      demo_token_ok demo_capacity_parse demo_hex parseTransport_def absolutePath_def connection_origin_def
      startsWith_def demo_rt_def)

definition demo_assignment_response :: json where
  "demo_assignment_response = JObj [(''schemaVersion'', JInt 1), (''serviceId'', JStr ''qemu-main''),
     (''claim'', claim_json demo_claim), (''attempt'', host_attempt_json (hs_attempt demo_assignment))]"

lemma demo_matches_capacity: "descriptor_matches_capacity demo_descriptor demo_host_capacity"
  by (simp add: descriptor_matches_capacity_def demo_descriptor_def demo_host_capacity_def demo_bounds_def string_of_int_def)
    (simp add: dec.simps char_of_def bit_Suc_0_iff)

lemma demo_assignment_parse:
  "parseNativeQemuHostAssignment demo_rt demo_assignment_response demo_connection ''kvm'' demo_request = Some demo_assignment"
proof -
  have e: "exact (host_attempt_json t) attemptFields" for t
    using exact_JObj[of "members (host_attempt_json t)"] by (simp add: host_attempt_json_def attemptFields_def)
  have r: "exact demo_assignment_response [''schemaVersion'', ''serviceId'', ''claim'', ''attempt'']"
    using exact_JObj[of "members demo_assignment_response"] by (simp add: demo_assignment_response_def)
  have f: "get_field demo_assignment_response ''claim'' = Some (claim_json demo_claim)"
    "get_field demo_assignment_response ''attempt'' = Some (host_attempt_json (hs_attempt demo_assignment))"
    "get_field demo_assignment_response ''schemaVersion'' = Some (JInt 1)"
    "get_field demo_assignment_response ''serviceId'' = Some (JStr ''qemu-main'')"
    by (simp_all add: demo_assignment_response_def)
  have c: "find_row (\<lambda>entry. hc_capacity entry = ''kvm'') (nc_capacities demo_connection) = Some demo_host_capacity"
    "nc_hostId demo_connection = ''host-a''"
    by (simp_all add: demo_connection_def demo_host_capacity_def)
  show ?thesis
    unfolding parseNativeQemuHostAssignment_def opt_conv
    using demo_digest demo_matches_event
    by (simp add: r f exact_claim_json claim_fields e host_attempt_fields c parse_event_json demo_event_valid
        demo_assignment_def demo_claim_def parse_descriptor_json demo_descriptor_valid
        demo_matches_capacity demo_uuids safe_integer_def)
qed

theorem accepted_assignment_survives_restart_witness:
  "parseNativeQemuHostJournalState demo_rt (journal_json (JActive demo_assignment)) = Some (JActive demo_assignment)"
  using accepted_assignment_survives_restart[OF demo_connection_parse demo_uuids(3) demo_assignment_parse] by blast

end
