(* ===== verification/Qemu_Serving.thy ===== *)
theory Qemu_Serving
  imports Qemu_Service Qemu_Wire
begin

text \<open>
  The service uses the store correctly: whatever it is asked and whatever the authority answers, it
  performs steps of the store's machine only; a request without a valid credential changes nothing;
  the credentials of an accepted configuration tell callers apart; the claim loop ends.
\<close>

section \<open>Every request is a sequence of store steps\<close>

definition loop_env_ok :: "int \<Rightarrow> loop_env \<Rightarrow> bool" where
  "loop_env_ok lease env \<longleftrightarrow> le_now1 env \<le> le_now2 env \<and> matches uuidPattern (le_uuid env)
     \<and> safe_integer (le_now4 env + lease)
     \<and> (\<forall>claim capacity attempt. le_issue env claim capacity = Issued attempt \<longrightarrow> attempt_ok attempt)"

definition service_env_ok :: "NativeQemuSchedulerConfig \<Rightarrow> service_env \<Rightarrow> bool" where
  "service_env_ok config env \<longleftrightarrow> safe_integer (sv_now1 env) \<and> matches uuidPattern (sv_uuid env)
     \<and> safe_integer (sv_now1 env + cf_eligibilityLeaseMilliseconds config)
     \<and> safe_integer (sv_now1 env + cf_claimLeaseMilliseconds config)
     \<and> (\<forall>i. loop_env_ok (cf_claimLeaseMilliseconds config) (sv_loop env i))"

definition input_ok :: "ReservationInput \<Rightarrow> bool" where
  "input_ok input \<longleftrightarrow> matches uuidPattern (ri_requestId input) \<and> matches identifierPattern (ri_hostId input)
     \<and> matches identifierPattern (ri_capacity input)"

lemma pass_cases:
  assumes "claim_pass rt env input capacity db = (r, db')"
  obtains (refused) "db' = db" "r \<noteq> None"
  | (reserved) c where "reserve rt (le_now1 env) (le_now2 env) (le_now3 env) (le_now4 env) (le_uuid env) input db = Inr (c, db')"
      "r \<noteq> None"
  | (issued) c db1 a where "reserve rt (le_now1 env) (le_now2 env) (le_now3 env) (le_now4 env) (le_uuid env) input db = Inr (Some c, db1)"
      "le_issue env c capacity = Issued a" "activate (le_activate env) (cl_claimId c) a db1 = Inr db'"
      "r = Some (Reply 201 (assignment_reply c a))"
  | (superseded) c db1 where "reserve rt (le_now1 env) (le_now2 env) (le_now3 env) (le_now4 env) (le_uuid env) input db = Inr (Some c, db1)"
      "supersedeReservation (cl_claimId c) db1 = Inr db'" "r = None"
  using assms by (auto simp: claim_pass_def split: sum.splits option.splits prod.splits issue_outcome.splits)

lemma reserve_steps:
  assumes "loop_env_ok (ri_leaseMilliseconds input) env" "input_ok input"
    "reserve rt (le_now1 env) (le_now2 env) (le_now3 env) (le_now4 env) (le_uuid env) input db = Inr (c, db')"
  shows "sched_step rt db db'"
  using sched_step.step_reserve[OF assms(3)] assms(1,2) by (simp add: loop_env_ok_def input_ok_def)

lemma pass_steps:
  assumes "loop_env_ok (ri_leaseMilliseconds input) env" "input_ok input"
    "claim_pass rt env input capacity db = (r, db')"
  shows "(sched_step rt)\<^sup>*\<^sup>* db db'"
  using assms(3)
proof (cases rule: pass_cases)
  case (reserved c)
  then show ?thesis using reserve_steps[OF assms(1,2)] by blast
next
  case (issued c db1 a)
  moreover have "attempt_ok a" using issued(2) assms(1) by (auto simp: loop_env_ok_def)
  ultimately show ?thesis
    using reserve_steps[OF assms(1,2) issued(1)] sched_step.step_activate[OF issued(3), of rt] by (meson rtranclp.simps)
next
  case (superseded c db1)
  then show ?thesis
    using reserve_steps[OF assms(1,2) superseded(1)] sched_step.step_supersede[OF superseded(2), of rt] by (meson rtranclp.simps)
qed simp

lemma loop_steps:
  assumes "\<And>i. loop_env_ok (ri_leaseMilliseconds input) (env i)" "input_ok input"
    "claim_loop fuel rt env i input capacity db = Some (r, db')"
  shows "(sched_step rt)\<^sup>*\<^sup>* db db'"
  using assms(3)
proof (induction fuel arbitrary: i db)
  case (Suc fuel)
  obtain r1 db1 where p: "claim_pass rt (env i) input capacity db = (r1, db1)" by fastforce
  note first = pass_steps[OF assms(1,2) p]
  show ?case
  proof (cases r1)
    case None
    with Suc.prems p have "claim_loop fuel rt env (Suc i) input capacity db1 = Some (r, db')" by simp
    from rtranclp_trans[OF first Suc.IH[OF this]] show ?thesis .
  next
    case (Some x)
    with Suc.prems p first show ?thesis by simp
  qed
qed simp

lemma capacityFor_mem: "capacityFor cs v = Some c \<Longrightarrow> c \<in> set cs \<and> v = Some (JStr (ca_capacity c))"
  by (auto simp: capacityFor_def split: option.splits json.splits dest!: find_row_Some)

lemma claim_handler_steps:
  assumes config: "parseNativeQemuSchedulerConfig rt v = Some config" and env: "service_env_ok config env"
    and h: "handleClaim fuel rt config env request db = Some (response, db')"
  shows "(sched_step rt)\<^sup>*\<^sup>* db db'"
proof -
  consider "db' = db" | host capacity requestId where "authenticatedHost config request = Some host"
    "capacity \<in> set (qh_capacities host)" "matches uuidPattern requestId"
    "claim_loop fuel rt (sv_loop env) 0 \<lparr>ri_requestId = requestId, ri_hostId = qh_hostId host,
       ri_capacity = ca_capacity capacity, ri_leaseMilliseconds = cf_claimLeaseMilliseconds config\<rparr> capacity db = Some (response, db')"
    using h unfolding handleClaim_def isUuid_def
    by (auto split: option.splits if_splits sum.splits prod.splits dest!: capacityFor_mem)
  then show ?thesis
  proof cases
    case 2
    from find_row_Some[OF 2(1)[unfolded authenticatedHost_def]] have "host \<in> set (cf_hosts config)" by simp
    with host_facts[OF config] 2(2,3) have "input_ok \<lparr>ri_requestId = requestId, ri_hostId = qh_hostId host,
       ri_capacity = ca_capacity capacity, ri_leaseMilliseconds = cf_claimLeaseMilliseconds config\<rparr>"
      by (simp add: input_ok_def)
    with loop_steps[OF _ _ 2(4)] env show ?thesis by (simp add: service_env_ok_def)
  qed simp
qed

lemma intake_steps:
  assumes env: "service_env_ok config env" and h: "handleIntake rt config env request db = (response, db')"
  shows "(sched_step rt)\<^sup>*\<^sup>* db db'"
proof -
  consider "db' = db" | w event r where "parseNativeQemuReviewEvent rt w = Some event"
    "enqueue (sv_now1 env) (sv_uuid env) event (cf_eligibilityLeaseMilliseconds config) db = Inr (r, db')"
    using h unfolding handleIntake_def
    by (auto simp: bind_eq_Some_conv split: option.splits if_splits sum.splits prod.splits prove_outcome.splits)
  then show ?thesis
  proof cases
    case 2
    with sched_step.step_enqueue[OF 2(2) parse_event_valid[OF 2(1)]] env show ?thesis
      by (auto simp: service_env_ok_def)
  qed simp
qed

lemma renewal_steps:
  assumes env: "service_env_ok config env" and h: "handleRenewal config env request db = (response, db')"
  shows "(sched_step rt)\<^sup>*\<^sup>* db db'"
proof -
  consider "db' = db" | claimId host cap t where
    "renew (sv_now1 env) (sv_now2 env) claimId host cap (cf_claimLeaseMilliseconds config) db = Inr (t, db')"
    using h unfolding handleRenewal_def
    by (auto split: option.splits if_splits sum.splits prod.splits)
  then show ?thesis
    using env sched_step.step_renew[of "sv_now1 env"] by cases (auto simp: service_env_ok_def)
qed

lemma result_steps:
  assumes env: "service_env_ok config env" and h: "handleResult rt config env request db = (response, db')"
  shows "(sched_step rt)\<^sup>*\<^sup>* db db'"
proof -
  consider "db' = db" | w t k r where "parseNativeQemuTerminalEvent rt w = Some t"
    "recordResult (sv_now1 env) \<lparr>co_claimId = k, co_cleanupComplete = True, co_eventId = te_eventId t,
       co_result = tp_result (te_payload t), co_terminalEvent = t\<rparr> db = Inr (r, db')"
    using h unfolding handleResult_def
    by (auto simp: bind_eq_Some_conv split: option.splits if_splits sum.splits prod.splits)
  then show ?thesis
  proof cases
    case 2
    have "completion_ok rt \<lparr>co_claimId = k, co_cleanupComplete = True, co_eventId = te_eventId t,
       co_result = tp_result (te_payload t), co_terminalEvent = t\<rparr>"
      using parse_terminal_valid[OF 2(1)] by (simp add: completion_ok_def)
    with sched_step.step_record[OF 2(2)] env show ?thesis by (auto simp: service_env_ok_def)
  qed simp
qed

lemma recovery_steps:
  assumes "handleRecovery rt config env request db = (response, db')"
  shows "(sched_step rt)\<^sup>*\<^sup>* db db'"
proof -
  consider "db' = db" | k h c where "recover k h c db = Inr db'"
    using assms unfolding handleRecovery_def
    by (auto split: option.splits if_splits sum.splits prod.splits)
  then show ?thesis using sched_step.step_recover by cases auto
qed


section \<open>Authentication\<close>

definition known_credentials :: "NativeQemuSchedulerConfig \<Rightarrow> NativeQemuCredential list" where
  "known_credentials config = credentials_of config @ map host_credential (cf_hosts config)"

lemma unknown_failure:
  assumes "\<not> list_ex (authorized request) (known_credentials config)"
  shows "authenticationFailure config request = Reply 401 (JObj [(''error'', JStr ''unauthorized'')])"
    "authenticatedHost config request = None" "\<not> authorized request (sc_eventIntake (cf_credentials config))"
    "\<not> authorized request (sc_query (cf_credentials config))"
  using assms by (auto simp: authenticationFailure_def known_credentials_def credentials_of_def
      authenticatedHost_def find_row_None list_ex_iff)

text \<open>Without a credential nothing happens. A request whose authorization header is none of the
  configured credentials leaves the database as it is and is answered with 401, or with 404 where there
  is nothing at the path, or with the health status, which is public.\<close>

theorem unauthenticated_request_changes_nothing:
  assumes "\<not> list_ex (authorized request) (known_credentials config)"
  shows "\<exists>response. handle fuel rt config env request db = Some (response, db)
    \<and> (response = Reply 401 (JObj [(''error'', JStr ''unauthorized'')]) \<or> response = notFound
       \<or> rq_method request = GET \<and> rq_pathname request = ''/healthz'')"
  using unknown_failure[OF assms]
  by (auto simp: handle_def Let_def handleIdentity_def handleEventStatus_def handleIntake_def handleClaim_def
      handleRenewal_def handleCandidateLease_def handleResult_def handleRecovery_def)

lemma matches_Eps: "matches Eps s \<longleftrightarrow> s = []"
  by (simp add: matches_lang)

lemma pattern_no_colon:
  "matches revisionPattern s \<Longrightarrow> CHR '':'' \<notin> set s" "matches identifierPattern s \<Longrightarrow> CHR '':'' \<notin> set s"
proof -
  have c: "\<not> alnum CHR '':''" "\<not> punct3 CHR '':''" "\<not> lower_digit CHR '':''" by code_simp+
  show "CHR '':'' \<notin> set s" if "matches identifierPattern s"
    using that c unfolding identifierPattern_def matches_head_class by (cases s) (auto simp: list_all_iff)
  show "CHR '':'' \<notin> set s" if "matches revisionPattern s"
    using that c unfolding revisionPattern_def
    by (auto simp: matches_Seq_Cls matches_Seq matches_Cls matches_Alt matches_Eps matches_class list_all_iff)
qed

lemma split_at_colon:
  assumes "u @ CHR '':'' # p = v @ CHR '':'' # q" "CHR '':'' \<notin> set u" "CHR '':'' \<notin> set v"
  shows "u = v \<and> p = q"
proof -
  have "takeWhile (\<lambda>c. c \<noteq> CHR '':'') (u @ CHR '':'' # p) = u" "takeWhile (\<lambda>c. c \<noteq> CHR '':'') (v @ CHR '':'' # q) = v"
    using assms(2,3) by (auto simp: takeWhile_append)
  with assms(1) show ?thesis by auto
qed

lemma basic_inject:
  assumes "basic u p = basic v q" "CHR '':'' \<notin> set u" "CHR '':'' \<notin> set v"
  shows "u = v \<and> p = q"
proof -
  from assms(1) have "u @ CHR '':'' # p = v @ CHR '':'' # q" by (simp add: basic_def base64_inject)
  from split_at_colon[OF this assms(2,3)] show ?thesis .
qed

lemma known_no_colon:
  assumes "parseNativeQemuSchedulerConfig rt v = Some config" "c \<in> set (known_credentials config)"
  shows "CHR '':'' \<notin> set (cd_username c)"
  using assms config_facts(6)[OF assms(1)] host_facts(1)[OF assms(1)]
  by (auto simp: known_credentials_def host_credential_def pattern_no_colon)

text \<open>The credentials of an accepted configuration tell callers apart. A request is authorized as at
  most one of the service credentials and hosts, so a host is recognised as itself and as nobody else,
  and a host cannot admit events or read their status.\<close>

theorem credentials_are_unambiguous:
  assumes "parseNativeQemuSchedulerConfig rt v = Some config" "host \<in> set (cf_hosts config)"
    "authorized request (host_credential host)"
  shows "authenticatedHost config request = Some host \<and> \<not> authorized request (sc_eventIntake (cf_credentials config))
    \<and> \<not> authorized request (sc_query (cf_credentials config))"
proof -
  have same: "c = host_credential host" if "c \<in> set (known_credentials config)" "authorized request c" for c
    using basic_inject[of "cd_username c" "cd_password c" "qh_hostId host" "qh_hostToken host"]
      known_no_colon[OF assms(1) that(1)] known_no_colon[OF assms(1), of "host_credential host"] that(2) assms(2,3)
    by (auto simp: authorized_def host_credential_def known_credentials_def)
  from config_facts(1)[OF assms(1)]
  have disjoint: "set (concat (map (\<lambda>c. [cd_username c, cd_password c]) (credentials_of config)))
      \<inter> set (map qh_hostToken (cf_hosts config)) = {}"
    by (simp only: config_authority_def distinct_append)
  have "c \<noteq> host_credential host" if "c \<in> set (credentials_of config)" for c
  proof
    assume eq: "c = host_credential host"
    have "cd_password c \<in> set (concat (map (\<lambda>c. [cd_username c, cd_password c]) (credentials_of config)))"
      using that by auto
    moreover have "cd_password c \<in> set (map qh_hostToken (cf_hosts config))" using assms(2) by (simp add: eq host_credential_def)
    ultimately show False using disjoint by blast
  qed
  with same have "\<not> authorized request c" if "c \<in> set (credentials_of config)" for c
    using that by (auto simp: known_credentials_def)
  moreover have "authenticatedHost config request = Some host"
  proof -
    obtain h where h: "authenticatedHost config request = Some h"
      using assms(2,3) by (cases "authenticatedHost config request") (auto simp: authenticatedHost_def find_row_None)
    from find_row_Some[OF h[unfolded authenticatedHost_def]] have "h \<in> set (cf_hosts config)" "qh_hostId h = qh_hostId host"
      using same[of "host_credential h"] by (auto simp: known_credentials_def host_credential_def)
    with unique_by_eq[OF config_facts(2)[OF assms(1)]] assms(2) h show ?thesis by blast
  qed
  ultimately show ?thesis by (simp add: credentials_of_def)
qed

section \<open>The claim loop ends\<close>

definition unfinished :: "scheduler_db \<Rightarrow> nat" where
  "unfinished db = count_rows (\<lambda>e. er_state e = Queued \<or> er_state e = Reserved) (db_events db)"

lemma count_update:
  "(\<And>r. r \<in> set rows \<Longrightarrow> Q r \<Longrightarrow> P (f r) = P r) \<Longrightarrow> count_rows P (update_rows Q f rows) = count_rows P rows"
  by (induction rows) auto

lemma count_update_less:
  assumes "r \<in> set rows" "Q r" "P r" "\<And>x. Q x \<Longrightarrow> \<not> P (f x)"
  shows "count_rows P (update_rows Q f rows) < count_rows P rows"
  using assms(1)
proof (induction rows)
  case (Cons x xs)
  have le: "count_rows P (update_rows Q f xs) \<le> count_rows P xs"
    by (induction xs) (use assms(4) in auto)
  show ?case
  proof (cases "x = r")
    case True
    with assms(2-4) le show ?thesis by simp
  next
    case False
    with Cons assms(4) show ?thesis by auto
  qed
qed simp

lemma expire_unfinished:
  assumes inv: "db_inv rt db" and step: "expireClaims now1 now2 db = Inr db'"
  shows "unfinished db' = unfinished db"
proof -
  let ?Q = "\<lambda>e. \<exists>c\<in>set (db_claims db). expired now1 c \<and> cr_event_id c = er_event_id e"
  have "er_state e = Reserved" if e: "e \<in> set (db_events db)" and q: "?Q e" for e
  proof -
    from q obtain c where c: "c \<in> set (db_claims db)" "expired now1 c" "cr_event_id c = er_event_id e" by blast
    from event_of_claim[OF inv c(1)] obtain x where x: "x \<in> set (db_events db)" "er_event_id x = cr_event_id c"
      "er_state x = claim_event (cr_state c)" by metis
    with unique_by_eq[OF keysD(3)[OF inv] x(1) e] c(2,3) show ?thesis by (simp add: expired_def)
  qed
  then have "count_rows (\<lambda>e. er_state e = Queued \<or> er_state e = Reserved)
      (update_rows ?Q (\<lambda>e. e\<lparr>er_state := Queued\<rparr>) (db_events db)) = unfinished db"
    unfolding unfinished_def by (intro count_update) auto
  with step expireClaims_eq[OF inv] show ?thesis by (auto simp: unfinished_def)
qed

lemma reserve_unfinished:
  assumes inv: "db_inv rt db" and le: "now1 \<le> now2"
    and step: "reserve rt now1 now2 now3 now4 uuid input db = Inr (c, db')"
  shows "unfinished db' = unfinished db"
  using step
proof (cases rule: reserve_cases)
  case (fresh d db1 e ev)
  note e = next_event_Some(1,2)[OF fresh(2)]
  have inv': "db_inv rt d" using expireClaims_inv[OF inv le fresh(1)] .
  have "er_state x = Queued" if "x \<in> set (db_events d)" "er_event_id x = er_event_id e" for x
    using unique_by_eq[OF keysD(3)[OF inv'] that(1) e(1) that(2)] e(2) by (simp add: event_eligible_def)
  moreover from fresh(4) have "db_events db1 = db_events d" by (auto simp: insert_claim_def split: if_splits)
  ultimately have "unfinished db' = unfinished d"
    unfolding unfinished_def fresh(6) set_event_state_def by (simp add: count_update)
  with expire_unfinished[OF inv fresh(1)] show ?thesis by simp
qed (use expire_unfinished[OF inv] in auto)

lemma supersede_unfinished:
  assumes inv: "db_inv rt db" and step: "supersedeReservation claimId db = Inr db'"
  shows "unfinished db' < unfinished db"
proof (rule supersede_cases[OF inv step])
  fix c assume c: "c \<in> set (db_claims db)" "cr_state c = CReserved"
    and db': "db' = db\<lparr>db_claims := delete_rows (\<lambda>c. cr_claim_id c = claimId) (db_claims db),
       db_events := update_rows (\<lambda>e. er_event_id e = cr_event_id c) (\<lambda>e. e\<lparr>er_state := Superseded\<rparr>) (db_events db)\<rparr>"
  from event_of_claim[OF inv c(1)] c(2) obtain e where "e \<in> set (db_events db)" "er_event_id e = cr_event_id c"
    "er_state e = Reserved" by (metis claim_event.simps(1))
  then show ?thesis unfolding db' unfinished_def by (simp add: count_update_less)
qed

lemma claim_loop_ends:
  assumes "\<And>i. loop_env_ok (ri_leaseMilliseconds input) (env i)" "input_ok input" "db_inv rt db" "unfinished db < fuel"
  shows "claim_loop fuel rt env i input capacity db \<noteq> None"
  using assms(3,4)
proof (induction fuel arbitrary: i db)
  case (Suc fuel)
  obtain r db' where p: "claim_pass rt (env i) input capacity db = (r, db')" by fastforce
  then show ?case
  proof (cases rule: pass_cases)
    case (superseded c db1)
    from assms(1)[of i] have le: "le_now1 (env i) \<le> le_now2 (env i)" by (simp add: loop_env_ok_def)
    have inv1: "db_inv rt db1" using sched_step_inv[OF Suc.prems(1) reserve_steps[OF assms(1,2) superseded(1)]] .
    have "db_inv rt db'" using supersede_inv[OF inv1 superseded(2)] .
    moreover have "unfinished db' < fuel"
      using supersede_unfinished[OF inv1 superseded(2)] reserve_unfinished[OF Suc.prems(1) le superseded(1)] Suc.prems(2) by simp
    ultimately show ?thesis using Suc.IH p superseded(3) by simp
  qed (use p in auto)
qed simp


section \<open>The stored execution authority\<close>

definition same_host :: "QemuHostEntry \<Rightarrow> QemuHostEntry \<Rightarrow> bool" where
  "same_host h k \<longleftrightarrow> qh_hostId h = qh_hostId k \<and> distinct (map ca_capacity (qh_capacities h))
     \<and> mset (qh_capacities h) = mset (qh_capacities k)"

lemma same_host_json: "same_host h k \<Longrightarrow> host_authority_json h = host_authority_json k"
  using sort_key_perm[of ca_capacity "qh_capacities h" "qh_capacities k"]
  by (simp add: same_host_def host_authority_json_def)

text \<open>The order of hosts and capacities in the configuration does not matter. Two accepted
  configurations whose hosts are the same up to the order of the hosts and of each host's capacities
  give the same execution authority, so a scheduler restarted with the reordered file accepts its
  database; and the access tokens of the hosts do not enter it.\<close>

theorem execution_authority_ignores_order:
  assumes "distinct (map qh_hostId hosts)" "mset hosts = mset reordered" "list_all2 same_host reordered others"
  shows "nativeQemuExecutionAuthorityJson hosts = nativeQemuExecutionAuthorityJson others"
proof -
  have "sort_key qh_hostId hosts = sort_key qh_hostId reordered" by (rule sort_key_perm[OF assms(1,2)])
  moreover have "map host_authority_json (sort_key qh_hostId reordered) = map host_authority_json (sort_key qh_hostId others)"
  proof -
    have "list_all2 same_host (sort_key qh_hostId reordered) (sort_key qh_hostId others)"
      using assms(3)
    proof (induction reordered others rule: list_all2_induct)
      case (Cons h hs k ks)
      have "list_all2 same_host (insort_key qh_hostId h xs) (insort_key qh_hostId k ys)" if "list_all2 same_host xs ys" for xs ys
        using that Cons(1) by (induction xs ys rule: list_all2_induct) (auto simp: same_host_def)
      with Cons.IH show ?case by simp
    qed simp
    then show ?thesis by (induction rule: list_all2_induct) (auto simp: same_host_json)
  qed
  ultimately show ?thesis by (simp add: nativeQemuExecutionAuthorityJson_def)
qed

section \<open>The reporter\<close>

lemma drain_steps:
  assumes "\<And>k. safe_integer (now k)" "drain_reports report now reports db = (again, db')"
  shows "(sched_step rt)\<^sup>*\<^sup>* db db'"
  using assms(2)
proof (induction reports arbitrary: db)
  case (Cons r reports)
  obtain claim t where r: "r = (claim, t)" by (cases r)
  show ?case
  proof (cases "acknowledgeResult (now (cl_claimId claim)) (cl_claimId claim) db")
    case (Inr db1)
    have "sched_step rt db db1" by (rule sched_step.step_acknowledge[OF Inr assms(1)])
    then show ?thesis
      using Cons r Inr by (auto split: if_splits intro: converse_rtranclp_into_rtranclp)
  qed (use Cons.prems r in \<open>auto split: if_splits\<close>)
qed simp

definition pending_ids :: "scheduler_db \<Rightarrow> string set" where
  "pending_ids db = ob_claim_id ` {b \<in> set (db_outbox db). ob_state b = Pending}"

definition reportable :: "scheduler_db \<Rightarrow> string \<Rightarrow> bool" where
  "reportable db k \<longleftrightarrow> (\<exists>c\<in>set (db_claims db). cr_claim_id c = k \<and> cr_state c = CActive \<and> cr_result_json c \<noteq> None)"

lemma pending_update:
  assumes f: "\<And>b. ob_state (f b) = Delivered"
  shows "{b \<in> set (update_rows (\<lambda>b. ob_claim_id b = k) f rows). ob_state b = Pending} =
     {b \<in> set rows. ob_state b = Pending \<and> ob_claim_id b \<noteq> k}" (is "?L = ?R")
proof
  show "?L \<subseteq> ?R"
  proof
    fix x assume x: "x \<in> ?L"
    then have "x \<in> set (update_rows (\<lambda>b. ob_claim_id b = k) f rows)" by simp
    then show "x \<in> ?R" by (rule update_rowsE) (use x f in auto)
  qed
  show "?R \<subseteq> ?L"
  proof
    fix x assume "x \<in> ?R"
    then show "x \<in> ?L" using in_update_rows[of x rows "\<lambda>b. ob_claim_id b = k" f] by simp
  qed
qed

lemma acknowledge_reportable:
  assumes inv: "db_inv rt db" and k: "reportable db k" and step: "acknowledgeResult now k db = Inr db'"
  shows "pending_ids db' = pending_ids db - {k}" "\<And>x. x \<noteq> k \<Longrightarrow> reportable db x \<Longrightarrow> reportable db' x"
proof -
  from k obtain c where c: "c \<in> set (db_claims db)" "cr_claim_id c = k" "cr_state c = CActive" "cr_result_json c \<noteq> None"
    by (auto simp: reportable_def)
  have f: "find_row (\<lambda>x. cr_claim_id x = k) (db_claims db) = Some c"
    using find_row_unique[OF keysD(4)[OF inv] c(1)] c(2) by simp
  let ?d = "set_event_state (cr_event_id c) Completed (set_claim_state k CCompleted db)"
  have db': "db' = ?d\<lparr>db_outbox := update_rows (\<lambda>b. ob_claim_id b = k)
     (\<lambda>b. b\<lparr>ob_state := Delivered, ob_delivered_at := Some now\<rparr>) (db_outbox db)\<rparr>"
    using step f c(3,4) by (auto simp: acknowledgeResult_def Let_def set_claim_state_def)
  have ob: "db_outbox db' = update_rows (\<lambda>b. ob_claim_id b = k)
     (\<lambda>b. b\<lparr>ob_state := Delivered, ob_delivered_at := Some now\<rparr>) (db_outbox db)" by (simp add: db')
  show "pending_ids db' = pending_ids db - {k}"
    unfolding pending_ids_def ob by (subst pending_update) auto
  show "reportable db' x" if "x \<noteq> k" "reportable db x" for x
  proof -
    from that(2) obtain d where d: "d \<in> set (db_claims db)" "cr_claim_id d = x" "cr_state d = CActive" "cr_result_json d \<noteq> None"
      by (auto simp: reportable_def)
    with that(1) c(2) have "d \<noteq> c" by auto
    with d(1) set_claim_state_set[OF inv c(1), of CCompleted] c(2) have "d \<in> set (db_claims db')" by (simp add: db')
    with d(2-4) show ?thesis by (auto simp: reportable_def)
  qed
qed

lemma drain_delivers:
  assumes "\<And>k. safe_integer (now k)" "\<And>claim t. report claim t"
  shows "db_inv rt db \<Longrightarrow> distinct (map (cl_claimId \<circ> fst) reports) \<Longrightarrow>
    (\<And>k. k \<in> (cl_claimId \<circ> fst) ` set reports \<Longrightarrow> reportable db k) \<Longrightarrow>
    \<exists>db'. drain_reports report now reports db = (False, db') \<and> pending_ids db' = pending_ids db - (cl_claimId \<circ> fst) ` set reports"
proof (induction reports arbitrary: db)
  case (Cons r reports)
  obtain claim t where r: "r = (claim, t)" by (cases r)
  let ?k = "cl_claimId claim"
  have k: "reportable db ?k" using Cons.prems(3) r by simp
  then obtain c where c: "c \<in> set (db_claims db)" "cr_claim_id c = ?k" "cr_state c = CActive" "cr_result_json c \<noteq> None"
    by (auto simp: reportable_def)
  from acknowledge_active[OF Cons.prems(1) c(1,3,4), of "now ?k"] c(2) obtain db1 where
    ack: "acknowledgeResult (now ?k) ?k db = Inr db1" by auto
  note one = acknowledge_reportable[OF Cons.prems(1) k ack]
  have "reportable db1 x" if "x \<in> (cl_claimId \<circ> fst) ` set reports" for x
  proof (rule one(2))
    have "?k \<notin> (cl_claimId \<circ> fst) ` set reports" using Cons.prems(2) r by simp
    with that show "x \<noteq> ?k" by blast
    show "reportable db x" using that Cons.prems(3) by auto
  qed
  then obtain db' where d: "drain_reports report now reports db1 = (False, db')"
    "pending_ids db' = pending_ids db1 - (cl_claimId \<circ> fst) ` set reports"
    using Cons.IH[OF acknowledge_inv[OF Cons.prems(1) ack assms(1)]] Cons.prems(2) r by auto
  have "drain_reports report now (r # reports) db = (False, db')" using d(1) ack r assms(2)[of claim t] by simp
  moreover have "pending_ids db' = pending_ids db - (cl_claimId \<circ> fst) ` set (r # reports)" using d(2) one(1) r by auto
  ultimately show ?case by blast
qed simp

text \<open>A report that the authority refuses holds up all the others. If the authority refuses the
  oldest pending report, draining the outbox schedules a retry and delivers none of the reports behind
  it.\<close>

theorem refused_report_blocks_the_others:
  assumes "reach sched_init (sched_step rt) db" "pending_rows db = b # bs"
    "\<And>claim t. cl_claimId claim = ob_claim_id b \<Longrightarrow> \<not> report claim t"
  shows "drain rt report now db = (True, db)"
proof -
  have m: "\<exists>c\<in>set (db_claims db). cr_claim_id c = ob_claim_id x" if "x \<in> set (b # bs)" for x
    using that unfolding assms(2)[symmetric] by (auto simp: pending_rows_def)
  from pendingReports_rows_total[OF reachable[OF assms(1)] m]
  obtain rs where rs: "pendingReports rt db = Inr rs"
    "map (\<lambda>(claim, t). (cl_claimId claim, t)) rs = map (\<lambda>b. (ob_claim_id b, ob_terminal_event_json b)) (b # bs)"
    unfolding pendingReports_def assms(2) by blast
  then obtain claim t rest where "rs = (claim, t) # rest" "cl_claimId claim = ob_claim_id b" by (cases rs) auto
  with rs(1) assms(3) show ?thesis by (simp add: drain_def)
qed


section \<open>A concrete service\<close>

definition demo_secret :: "char \<Rightarrow> string" where
  "demo_secret c = replicate 42 CHR ''A'' @ [c]"

definition demo_credential_json :: "string \<Rightarrow> char \<Rightarrow> json" where
  "demo_credential_json u c = JObj [(''username'', JStr u), (''password'', JStr (demo_secret c))]"

definition demo_credential :: "string \<Rightarrow> char \<Rightarrow> NativeQemuCredential" where
  "demo_credential u c = \<lparr>cd_username = u, cd_password = demo_secret c\<rparr>"

definition demo_entry :: NativeQemuCapacity where
  "demo_entry = \<lparr>ca_capacity = ''kvm'', ca_runnerBaseImage = demo_image, ca_jobBaseImage = demo_image,
     ca_bounds = demo_bounds\<rparr>"

definition demo_host :: QemuHostEntry where
  "demo_host = \<lparr>qh_hostId = ''host-a'', qh_hostToken = demo_secret CHR ''Y'', qh_capacities = [demo_entry]\<rparr>"

definition demo_config_json :: json where
  "demo_config_json = JObj [(''schemaVersion'', JInt 2), (''serviceId'', JStr ''qemu-main''), (''host'', JStr ''::''),
     (''port'', JInt 8080), (''database'', JStr ''/db''), (''eligibilityLeaseMilliseconds'', JInt 99000),
     (''claimLeaseMilliseconds'', JInt 60000),
     (''nativeGit'', JObj [(''endpoint'', JStr ''https://git''), (''serviceId'', JStr ''native-main''),
        (''identity'', demo_credential_json ''u1'' CHR ''A''), (''attemptIssuer'', demo_credential_json ''u2'' CHR ''E''),
        (''candidateReader'', demo_credential_json ''u3'' CHR ''I''), (''resultReporter'', demo_credential_json ''u4'' CHR ''M'')]),
     (''credentials'', JObj [(''eventIntake'', demo_credential_json ''u5'' CHR ''Q''), (''query'', demo_credential_json ''u6'' CHR ''U'')]),
     (''hosts'', JArr [JObj [(''hostId'', JStr ''host-a''), (''hostToken'', JStr (demo_secret CHR ''Y'')),
        (''capacities'', JArr [capacity_json demo_entry])]])]"

definition demo_config :: NativeQemuSchedulerConfig where
  "demo_config = \<lparr>cf_schemaVersion = 2, cf_serviceId = ''qemu-main'', cf_host = ''::'', cf_port = 8080,
     cf_database = ''/db'', cf_eligibilityLeaseMilliseconds = 99000, cf_claimLeaseMilliseconds = 60000,
     cf_nativeGit = \<lparr>ng_endpoint = ''https://git'', ng_serviceId = ''native-main'',
       ng_identity = demo_credential ''u1'' CHR ''A'', ng_attemptIssuer = demo_credential ''u2'' CHR ''E'',
       ng_candidateReader = demo_credential ''u3'' CHR ''I'', ng_resultReporter = demo_credential ''u4'' CHR ''M''\<rparr>,
     cf_credentials = \<lparr>sc_eventIntake = demo_credential ''u5'' CHR ''Q'', sc_query = demo_credential ''u6'' CHR ''U''\<rparr>,
     cf_hosts = [demo_host]\<rparr>"

lemma demo_secrets: "token_ok (demo_secret CHR ''A'')" "token_ok (demo_secret CHR ''E'')" "token_ok (demo_secret CHR ''I'')"
  "token_ok (demo_secret CHR ''M'')" "token_ok (demo_secret CHR ''Q'')" "token_ok (demo_secret CHR ''U'')"
  "token_ok (demo_secret CHR ''Y'')"
  by code_simp+

lemma demo_users: "matches revisionPattern ''u1''" "matches revisionPattern ''u2''" "matches revisionPattern ''u3''"
  "matches revisionPattern ''u4''" "matches revisionPattern ''u5''" "matches revisionPattern ''u6''"
  by code_simp+

lemma demo_credential_parse:
  "matches revisionPattern u \<Longrightarrow> token_ok (demo_secret c) \<Longrightarrow>
     credential (Some (demo_credential_json u c)) = Some (demo_credential u c)"
  by (simp add: credential_def demo_credential_json_def demo_credential_def opt_conv exact_def exact_keys_def has_own_def)

lemma demo_capacity_entry: "parseCapacity (capacity_json demo_entry) = Some demo_entry"
  using parseBounds_json[OF demo_bounds_ok]
  by (simp add: parseCapacity_def capacity_json_def demo_entry_def opt_conv exact_def exact_keys_def has_own_def demo_names
      demo_image_ok)

lemma demo_authority: "distinct (config_authority demo_config)"
  by (simp add: config_authority_def credentials_of_def demo_config_def demo_credential_def demo_secret_def demo_host_def)

lemma demo_config_parse: "parseNativeQemuSchedulerConfig demo_rt demo_config_json = Some demo_config"
proof -
  have host: "parseHost (JObj [(''hostId'', JStr ''host-a''), (''hostToken'', JStr (demo_secret CHR ''Y'')),
      (''capacities'', JArr [capacity_json demo_entry])]) = Some demo_host"
    by (simp add: parseHost_def demo_host_def opt_conv exact_def exact_keys_def has_own_def demo_capacity_entry demo_names demo_secrets)
  show ?thesis
    using demo_authority
    unfolding parseNativeQemuSchedulerConfig_def opt_conv Let_def
    by (simp add: demo_config_json_def demo_config_def exact_def exact_keys_def has_own_def host opt_conv
        demo_credential_parse demo_users demo_secrets port_def positive_def safe_integer_def config_origin_def
        demo_rt_def startsWith_def)
qed

definition demo_loop :: loop_env where
  "demo_loop = \<lparr>le_now1 = 2000, le_now2 = 2000, le_now3 = 2000, le_now4 = 2000, le_uuid = demo_claim_id,
     le_issue = (\<lambda>_ _. Issued demo_attempt), le_activate = 3000\<rparr>"

definition demo_service :: service_env where
  "demo_service = \<lparr>sv_now1 = 1000, sv_now2 = 1000, sv_uuid = demo_uuid, sv_prove = (\<lambda>_. Proved),
     sv_loop = (\<lambda>_. demo_loop), sv_lease = (\<lambda>_ _ _. None), sv_revoke = (\<lambda>_ _. True)\<rparr>"

lemma demo_service_ok: "service_env_ok demo_config demo_service"
  by (simp add: service_env_ok_def loop_env_ok_def demo_service_def demo_loop_def demo_config_def demo_uuids
      demo_attempt_ok safe_integer_def)

definition demo_claim_request :: http_request where
  "demo_claim_request = \<lparr>rq_method = POST, rq_pathname = ''/v1/qemu-host-claims'', rq_search = [],
     rq_authorization = Some (basic ''host-a'' (demo_secret CHR ''Y'')), rq_contentType = Some ''application/json'',
     rq_body = Some (JObj [(''schemaVersion'', JInt 1), (''requestId'', JStr demo_request), (''capacity'', JStr ''kvm'')])\<rparr>"

definition demo_anonymous :: http_request where
  "demo_anonymous = demo_claim_request\<lparr>rq_authorization := None\<rparr>"

lemma demo_host_authorized: "authorized demo_claim_request (host_credential demo_host)"
  by (simp add: authorized_def demo_claim_request_def host_credential_def demo_host_def)

lemma demo_request_fields:
  "rq_method demo_claim_request = POST" "rq_pathname demo_claim_request = ''/v1/qemu-host-claims''"
  "rq_search demo_claim_request = []" "rq_contentType demo_claim_request = Some ''application/json''"
  "rq_body demo_claim_request = Some (JObj [(''schemaVersion'', JInt 1), (''requestId'', JStr demo_request), (''capacity'', JStr ''kvm'')])"
  by (simp_all add: demo_claim_request_def)

lemma demo_config_fields:
  "qh_hostId demo_host = ''host-a''" "capacityFor (qh_capacities demo_host) (Some (JStr ''kvm'')) = Some demo_entry" "ca_capacity demo_entry = ''kvm''"
  "cf_claimLeaseMilliseconds demo_config = 60000" "sv_loop demo_service n = demo_loop"
  by (simp_all add: demo_host_def capacityFor_def demo_entry_def demo_config_def demo_service_def)

lemma demo_handle:
  "handle 2 demo_rt demo_config demo_service demo_claim_request demo_db1 =
     Some (Reply 201 (assignment_reply demo_claim demo_attempt), demo_db3)"
proof -
  have host: "authenticatedHost demo_config demo_claim_request = Some demo_host"
    using demo_host_authorized by (simp add: authenticatedHost_def demo_config_def)
  have none: "assignment demo_rt demo_request ''host-a'' ''kvm'' demo_db1 = Inr None"
    by (simp add: assignment_def demo_db1_def demo_db0_def initialize_def)
  have pass: "claim_pass demo_rt demo_loop demo_input demo_entry demo_db1 =
      (Some (Reply 201 (assignment_reply demo_claim demo_attempt)), demo_db3)"
    using demo_reserve demo_activate by (simp add: claim_pass_def demo_loop_def demo_claim_def)
  have input: "\<lparr>ri_requestId = demo_request, ri_hostId = ''host-a'', ri_capacity = ''kvm'', ri_leaseMilliseconds = 60000\<rparr> = demo_input"
    by (simp add: demo_input_def)
  show ?thesis
    by (simp add: handle_def Let_def handleClaim_def host demo_request_fields demo_config_fields readRecord_def
        exact_keys_def has_own_def isUuid_def as_matching_def demo_uuids none input numeral_2_eq_2 pass del: matches.simps)
qed


theorem unauthenticated_request_changes_nothing_witness:
  "\<exists>response. handle 2 demo_rt demo_config demo_service demo_anonymous demo_db1 = Some (response, demo_db1)"
proof -
  have "\<not> list_ex (authorized demo_anonymous) (known_credentials demo_config)"
    by (simp add: known_credentials_def credentials_of_def demo_config_def authorized_def demo_anonymous_def
        demo_claim_request_def basic_def)
  from unauthenticated_request_changes_nothing[OF this, of 2 demo_rt demo_service demo_db1] show ?thesis by blast
qed

theorem credentials_are_unambiguous_witness:
  "authenticatedHost demo_config demo_claim_request = Some demo_host"
  using credentials_are_unambiguous[OF demo_config_parse _ demo_host_authorized] by (simp add: demo_config_def)


theorem execution_authority_ignores_order_witness:
  "nativeQemuExecutionAuthorityJson [demo_host, demo_host\<lparr>qh_hostId := ''host-b''\<rparr>] =
     nativeQemuExecutionAuthorityJson [demo_host\<lparr>qh_hostId := ''host-b''\<rparr>, demo_host\<lparr>qh_hostToken := ''t''\<rparr>]"
  by (rule execution_authority_ignores_order[where reordered = "[demo_host\<lparr>qh_hostId := ''host-b''\<rparr>, demo_host]"])
    (simp_all add: same_host_def demo_host_def)

lemma demo_pending: "pending_rows demo_db4 = [demo_outbox_row]"
  by (simp add: pending_rows_def demo_defs)

theorem refused_report_blocks_the_others_witness:
  "drain demo_rt (\<lambda>_ _. False) (\<lambda>_. 5000) demo_db4 = (True, demo_db4)"
  using refused_report_blocks_the_others[OF demo_reach(4)[of sched_init, OF demo_init] demo_pending] by simp


end
