(* ===== verification/Js_Stringify.thy ===== *)
theory Js_Stringify
  imports Js_Json "HOL-Library.List_Lexorder"
begin

text \<open>
  \<open>JSON.stringify\<close> as a text, for the places of the source that hash it or compare it with
  \<open><\<close>, and the key-sorting copy \<open>canonicalValue\<close> that precedes a digest. A string is a
  sequence of code units; the order of strings is the order of these sequences.
\<close>

definition hex_char :: "nat \<Rightarrow> char" where
  "hex_char n = ''0123456789abcdef'' ! (n mod 16)"

definition json_escape :: "char \<Rightarrow> string" where
  "json_escape c =
     (if c = CHR 0x22 then [CHR 0x5C, CHR 0x22] else if c = CHR 0x5C then [CHR 0x5C, CHR 0x5C]
      else if c = CHR 0x08 then [CHR 0x5C, CHR ''b''] else if c = CHR 0x09 then [CHR 0x5C, CHR ''t'']
      else if c = CHR 0x0A then [CHR 0x5C, CHR ''n''] else if c = CHR 0x0C then [CHR 0x5C, CHR ''f'']
      else if c = CHR 0x0D then [CHR 0x5C, CHR ''r'']
      else if c < CHR 0x20 then CHR 0x5C # ''u00'' @ [hex_char (of_char c div 16), hex_char (of_char c)]
      else [c])"

definition json_quote :: "string \<Rightarrow> string" where
  "json_quote s = CHR 0x22 # concat (map json_escape s) @ [CHR 0x22]"

fun join :: "string \<Rightarrow> string list \<Rightarrow> string" where
  "join sep [] = []"
| "join sep [s] = s"
| "join sep (s # t # ts) = s @ sep @ join sep (t # ts)"

definition int_text :: "int \<Rightarrow> string" where
  "int_text i = (if i < 0 then CHR ''-'' # dec (nat (- i)) else dec (nat i))"

fun stringify :: "json \<Rightarrow> string" where
  "stringify JNull = ''null''"
| "stringify (JBool b) = (if b then ''true'' else ''false'')"
| "stringify (JInt i) = int_text i"
| "stringify (JFrac s) = s"
| "stringify (JStr s) = json_quote s"
| "stringify (JArr vs) = ''['' @ join '','' (map stringify vs) @ '']''"
| "stringify (JObj ms) = ''{'' @ join '','' (map (\<lambda>m. json_quote (fst m) @ '':'' @ stringify (snd m)) ms) @ ''}''"

fun canonicalValue :: "json \<Rightarrow> json" where
  "canonicalValue (JArr vs) = JArr (map canonicalValue vs)"
| "canonicalValue (JObj ms) = JObj (sort_key fst (map (\<lambda>m. (fst m, canonicalValue (snd m))) ms))"
| "canonicalValue v = v"

text \<open>\<open>createHash("sha256").update(domain).update(JSON.stringify(canonicalValue(value)))\<close>\<close>

definition domainDigest :: "'a runtime_scheme \<Rightarrow> string \<Rightarrow> json \<Rightarrow> string" where
  "domainDigest rt domain value = sha256 rt (domain @ [CHR 0x00] @ stringify (canonicalValue value))"

section \<open>Lists of parsed members\<close>

definition as_list :: "(json \<Rightarrow> 'a option) \<Rightarrow> json option \<Rightarrow> 'a list option" where
  "as_list f v = do { vs \<leftarrow> as_array v; mapM f vs }"

lemma as_list_JArr [simp]: "as_list f (Some (JArr vs)) = mapM f vs"
  by (simp add: as_list_def)

lemma as_list_eq: "as_list f v = Some ys \<longleftrightarrow> (\<exists>vs. v = Some (JArr vs) \<and> mapM f vs = Some ys)"
  by (auto simp: as_list_def bind_eq_Some_conv)

lemma as_list_all: "as_list f v = Some ys \<Longrightarrow> (\<And>x y. f x = Some y \<Longrightarrow> P y) \<Longrightarrow> list_all P ys"
  by (auto simp: as_list_eq list_all_iff intro: mapM_all)

lemma as_list_map:
  "(\<And>x. x \<in> set xs \<Longrightarrow> f (g x) = Some x) \<Longrightarrow> as_list f (Some (JArr (map g xs))) = Some xs"
  by (simp add: mapM_map_id)

text \<open>A string member of an array that must match a pattern.\<close>

definition text_matching :: "rexp \<Rightarrow> json \<Rightarrow> string option" where
  "text_matching p v = as_matching p (Some v)"

lemma text_matching_eq [simp]: "text_matching p v = Some s \<longleftrightarrow> v = JStr s \<and> matches p s"
  by (auto simp: text_matching_def)

lemma list_all_mono': "list_all P xs \<Longrightarrow> (\<And>x. x \<in> set xs \<Longrightarrow> P x \<Longrightarrow> Q x) \<Longrightarrow> list_all Q xs"
  by (auto simp: list_all_iff)

lemma sort_key_sorted: "sorted (map f xs) \<Longrightarrow> sort_key f xs = xs"
proof (induction xs)
  case (Cons x xs)
  then show ?case by (cases xs) auto
qed simp

end
