(* ===== verification/Project_Policy.thy ===== *)
theory Project_Policy
  imports Qemu_Event Js_Stringify
begin

text \<open>
  The review policy a native Project is imported with: the authoritative policy of
  \<open>native-imported-root-policy.ts\<close> and the legacy policy whose schema is in \<open>config.ts\<close>. A
  parsed policy is normalised (jobs, reviewers and path rules sorted) and its three revisions are the
  digests of its own contents. \<open>z.object(...).strict()\<close> accepts an object with exactly the members of
  the schema and returns them in the order of the schema.
\<close>

section \<open>Data\<close>

datatype execution_kind = OrdinarySysbox | Qemu

fun kind_text :: "execution_kind \<Rightarrow> string" where
  "kind_text OrdinarySysbox = ''ordinary-sysbox''"
| "kind_text Qemu = ''qemu''"

lemma kind_text_inject [simp]: "kind_text a = kind_text b \<longleftrightarrow> a = b"
  by (cases a; cases b) simp_all

record RequiredJob =
  rj_name :: string
  rj_kind :: execution_kind

record PathRule =
  pr_pathPrefix :: string
  pr_reviewerIds :: "string list"

record NativeImportedRootPolicy =
  ip_protectedRef :: string
  ip_policyRevision :: string
  ip_requiredReviewRevision :: string
  ip_requiredJobSetRevision :: string
  ip_requiredJobs :: "RequiredJob list"
  ip_requiredReviewerIds :: "string list"
  ip_pathReviewerRules :: "PathRule list"

record NativeGitReviewPolicy =
  gp_protectedRef :: string
  gp_policyRevision :: string
  gp_requiredReviewRevision :: string
  gp_requiredJobSetRevision :: string
  gp_requiredJobNames :: "string list"
  gp_requiredReviewerIds :: "string list"
  gp_pathReviewerRules :: "PathRule list"

text \<open>\<open>/^[a-z0-9](?:[a-z0-9-]{0,62}[a-z0-9])?$/\<close>\<close>

definition projectPattern :: rexp where
  "projectPattern = Seq (Cls lower_digit)
     (opt_rexp (Seq (Rep (Cls (\<lambda>c. lower_digit c \<or> c = CHR ''-'')) 0 62) (Cls lower_digit)))"

section \<open>The serialised policy\<close>

definition job_json :: "RequiredJob \<Rightarrow> json" where
  "job_json j = JObj [(''name'', JStr (rj_name j)), (''kind'', JStr (kind_text (rj_kind j))),
     (''evidenceClass'', JStr ''candidate-controlled'')]"

definition rule_json :: "PathRule \<Rightarrow> json" where
  "rule_json r = JObj [(''pathPrefix'', JStr (pr_pathPrefix r)), (''reviewerIds'', JArr (map JStr (pr_reviewerIds r)))]"

definition reviewers_members :: "string list \<Rightarrow> PathRule list \<Rightarrow> (string \<times> json) list" where
  "reviewers_members ids rules = [(''requiredReviewerIds'', JArr (map JStr ids)),
     (''pathReviewerRules'', JArr (map rule_json rules))]"

definition policy_json :: "NativeImportedRootPolicy \<Rightarrow> json" where
  "policy_json p = JObj ([(''schemaVersion'', JInt 1), (''protectedRef'', JStr (ip_protectedRef p)),
     (''policyRevision'', JStr (ip_policyRevision p)), (''requiredReviewRevision'', JStr (ip_requiredReviewRevision p)),
     (''requiredJobSetRevision'', JStr (ip_requiredJobSetRevision p)),
     (''requiredJobs'', JArr (map job_json (ip_requiredJobs p)))]
     @ reviewers_members (ip_requiredReviewerIds p) (ip_pathReviewerRules p))"

definition legacy_json :: "NativeGitReviewPolicy \<Rightarrow> json" where
  "legacy_json p = JObj ([(''protectedRef'', JStr (gp_protectedRef p)),
     (''policyRevision'', JStr (gp_policyRevision p)), (''requiredReviewRevision'', JStr (gp_requiredReviewRevision p)),
     (''requiredJobSetRevision'', JStr (gp_requiredJobSetRevision p)),
     (''requiredJobNames'', JArr (map JStr (gp_requiredJobNames p)))]
     @ reviewers_members (gp_requiredReviewerIds p) (gp_pathReviewerRules p))"

section \<open>The schema\<close>

definition protected_ref_ok :: "string \<Rightarrow> bool" where
  "protected_ref_ok v \<longleftrightarrow> head_ref_ok v \<and> \<not> startsWith ''refs/heads/proposals/'' v"

definition path_prefix_ok :: "string \<Rightarrow> bool" where
  "path_prefix_ok v \<longleftrightarrow> 1 \<le> length v \<and> length v \<le> 1024 \<and> \<not> startsWith ''/'' v \<and> CHR 0x00 \<notin> set v
     \<and> \<not> str_includes ''//'' v \<and> list_all (\<lambda>part. part \<noteq> ''.'' \<and> part \<noteq> ''..'') (split_on CHR ''/'' v)"

definition protectedRef :: "json option \<Rightarrow> string option" where
  "protectedRef v = do { s \<leftarrow> as_string v; guardO (protected_ref_ok s); Some s }"

definition as_kind :: "json option \<Rightarrow> execution_kind option" where
  "as_kind v = (if v = Some (JStr ''ordinary-sysbox'') then Some OrdinarySysbox
     else if v = Some (JStr ''qemu'') then Some Qemu else None)"

definition requiredJob :: "json \<Rightarrow> RequiredJob option" where
  "requiredJob v = do {
     guardO (exact v [''name'', ''kind'', ''evidenceClass'']);
     name \<leftarrow> as_matching namePattern (get_field v ''name'');
     kind \<leftarrow> as_kind (get_field v ''kind'');
     as_literal (JStr ''candidate-controlled'') (get_field v ''evidenceClass'');
     Some \<lparr>rj_name = name, rj_kind = kind\<rparr> }"

definition pathRule :: "json \<Rightarrow> PathRule option" where
  "pathRule v = do {
     guardO (exact v [''pathPrefix'', ''reviewerIds'']);
     pathPrefix \<leftarrow> as_string (get_field v ''pathPrefix'');
     guardO (path_prefix_ok pathPrefix);
     reviewerIds \<leftarrow> as_list (text_matching projectPattern) (get_field v ''reviewerIds'');
     guardO (1 \<le> length reviewerIds);
     Some \<lparr>pr_pathPrefix = pathPrefix, pr_reviewerIds = reviewerIds\<rparr> }"

definition policyFields :: "string list" where
  "policyFields = [''schemaVersion'', ''protectedRef'', ''policyRevision'', ''requiredReviewRevision'',
     ''requiredJobSetRevision'', ''requiredJobs'', ''requiredReviewerIds'', ''pathReviewerRules'']"

definition nativeImportedRootPolicySchema :: "json \<Rightarrow> NativeImportedRootPolicy option" where
  "nativeImportedRootPolicySchema v = do {
     guardO (exact v policyFields);
     as_literal (JInt 1) (get_field v ''schemaVersion'');
     ref \<leftarrow> protectedRef (get_field v ''protectedRef'');
     policyRevision \<leftarrow> as_matching revisionPattern (get_field v ''policyRevision'');
     requiredReviewRevision \<leftarrow> as_matching revisionPattern (get_field v ''requiredReviewRevision'');
     requiredJobSetRevision \<leftarrow> as_matching revisionPattern (get_field v ''requiredJobSetRevision'');
     requiredJobs \<leftarrow> as_list requiredJob (get_field v ''requiredJobs'');
     guardO (length requiredJobs \<le> 64);
     requiredReviewerIds \<leftarrow> as_list (text_matching projectPattern) (get_field v ''requiredReviewerIds'');
     guardO (1 \<le> length requiredReviewerIds);
     pathReviewerRules \<leftarrow> as_list pathRule (get_field v ''pathReviewerRules'');
     Some \<lparr>ip_protectedRef = ref, ip_policyRevision = policyRevision,
       ip_requiredReviewRevision = requiredReviewRevision, ip_requiredJobSetRevision = requiredJobSetRevision,
       ip_requiredJobs = requiredJobs, ip_requiredReviewerIds = requiredReviewerIds,
       ip_pathReviewerRules = pathReviewerRules\<rparr> }"

text \<open>The schema of the legacy policy: \<open>pathReviewerRules\<close> may be absent and is then empty.\<close>

definition legacyFields :: "string list" where
  "legacyFields = [''protectedRef'', ''policyRevision'', ''requiredReviewRevision'', ''requiredJobSetRevision'',
     ''requiredJobNames'', ''requiredReviewerIds'']"

definition nativeGitReviewPolicySchema :: "json \<Rightarrow> NativeGitReviewPolicy option" where
  "nativeGitReviewPolicySchema v = do {
     guardO (exact v legacyFields \<or> exact v (legacyFields @ [''pathReviewerRules'']));
     ref \<leftarrow> protectedRef (get_field v ''protectedRef'');
     policyRevision \<leftarrow> as_matching revisionPattern (get_field v ''policyRevision'');
     requiredReviewRevision \<leftarrow> as_matching revisionPattern (get_field v ''requiredReviewRevision'');
     requiredJobSetRevision \<leftarrow> as_matching revisionPattern (get_field v ''requiredJobSetRevision'');
     requiredJobNames \<leftarrow> as_list (text_matching namePattern) (get_field v ''requiredJobNames'');
     guardO (1 \<le> length requiredJobNames \<and> length requiredJobNames \<le> 64);
     requiredReviewerIds \<leftarrow> as_list (text_matching projectPattern) (get_field v ''requiredReviewerIds'');
     guardO (1 \<le> length requiredReviewerIds);
     pathReviewerRules \<leftarrow> (case get_field v ''pathReviewerRules'' of None \<Rightarrow> Some [] | r \<Rightarrow> as_list pathRule r);
     Some \<lparr>gp_protectedRef = ref, gp_policyRevision = policyRevision,
       gp_requiredReviewRevision = requiredReviewRevision, gp_requiredJobSetRevision = requiredJobSetRevision,
       gp_requiredJobNames = requiredJobNames, gp_requiredReviewerIds = requiredReviewerIds,
       gp_pathReviewerRules = pathReviewerRules\<rparr> }"

section \<open>Normalisation\<close>

definition normalizeRules :: "PathRule list \<Rightarrow> PathRule list" where
  "normalizeRules rules = sort_key (\<lambda>r. stringify (rule_json r))
     (map (\<lambda>r. r\<lparr>pr_reviewerIds := sort (pr_reviewerIds r)\<rparr>) rules)"

definition revision :: "'a runtime_scheme \<Rightarrow> string \<Rightarrow> int \<Rightarrow> json \<Rightarrow> string" where
  "revision rt domain version value = sha256 rt (''dim-native-'' @ domain @ ''-v'' @ int_text version @ [CHR 0x00]
     @ stringify value)"

definition policy_revisions :: "'a runtime_scheme \<Rightarrow> NativeImportedRootPolicy \<Rightarrow> bool" where
  "policy_revisions rt p \<longleftrightarrow>
     ip_requiredReviewRevision p = revision rt ''reviewers'' 1
       (JObj (reviewers_members (ip_requiredReviewerIds p) (ip_pathReviewerRules p)))
   \<and> ip_requiredJobSetRevision p = revision rt ''jobs'' 2 (JArr (map job_json (ip_requiredJobs p)))
   \<and> ip_policyRevision p = revision rt ''policy'' 3
       (JObj ((''protectedRef'', JStr (ip_protectedRef p))
         # reviewers_members (ip_requiredReviewerIds p) (ip_pathReviewerRules p)))"

definition parseAuthoritativeImportedRootPolicy :: "'a runtime_scheme \<Rightarrow> json \<Rightarrow> NativeImportedRootPolicy option" where
  "parseAuthoritativeImportedRootPolicy rt v = do {
     p \<leftarrow> nativeImportedRootPolicySchema v;
     guardO (distinct (map rj_name (ip_requiredJobs p)));
     guardO (distinct (ip_requiredReviewerIds p));
     guardO (list_all (\<lambda>r. distinct (pr_reviewerIds r)) (ip_pathReviewerRules p));
     let normalized = p\<lparr>ip_requiredJobs := sort_key rj_name (ip_requiredJobs p),
       ip_requiredReviewerIds := sort (ip_requiredReviewerIds p),
       ip_pathReviewerRules := normalizeRules (ip_pathReviewerRules p)\<rparr>;
     guardO (policy_revisions rt normalized);
     Some normalized }"

definition parseLegacyImportedRootPolicy :: "json \<Rightarrow> NativeGitReviewPolicy option" where
  "parseLegacyImportedRootPolicy v = do {
     p \<leftarrow> nativeGitReviewPolicySchema v;
     guardO (distinct (gp_requiredJobNames p));
     guardO (distinct (gp_requiredReviewerIds p));
     guardO (list_all (\<lambda>r. distinct (pr_reviewerIds r)) (gp_pathReviewerRules p));
     Some (p\<lparr>gp_requiredJobNames := sort (gp_requiredJobNames p),
       gp_requiredReviewerIds := sort (gp_requiredReviewerIds p),
       gp_pathReviewerRules := normalizeRules (gp_pathReviewerRules p)\<rparr>) }"

section \<open>A parsed policy is its own normal form\<close>

definition rule_valid :: "PathRule \<Rightarrow> bool" where
  "rule_valid r \<longleftrightarrow> path_prefix_ok (pr_pathPrefix r) \<and> list_all (matches projectPattern) (pr_reviewerIds r)
     \<and> 1 \<le> length (pr_reviewerIds r) \<and> distinct (pr_reviewerIds r) \<and> sorted (pr_reviewerIds r)"

definition policy_valid :: "'a runtime_scheme \<Rightarrow> NativeImportedRootPolicy \<Rightarrow> bool" where
  "policy_valid rt p \<longleftrightarrow> protected_ref_ok (ip_protectedRef p) \<and> matches revisionPattern (ip_policyRevision p)
     \<and> matches revisionPattern (ip_requiredReviewRevision p) \<and> matches revisionPattern (ip_requiredJobSetRevision p)
     \<and> list_all (\<lambda>j. matches namePattern (rj_name j)) (ip_requiredJobs p) \<and> length (ip_requiredJobs p) \<le> 64
     \<and> distinct (map rj_name (ip_requiredJobs p)) \<and> sorted (map rj_name (ip_requiredJobs p))
     \<and> list_all (matches projectPattern) (ip_requiredReviewerIds p) \<and> 1 \<le> length (ip_requiredReviewerIds p)
     \<and> distinct (ip_requiredReviewerIds p) \<and> sorted (ip_requiredReviewerIds p)
     \<and> list_all rule_valid (ip_pathReviewerRules p)
     \<and> sorted (map (\<lambda>r. stringify (rule_json r)) (ip_pathReviewerRules p)) \<and> policy_revisions rt p"

lemma protectedRef_eq [simp]: "protectedRef v = Some s \<longleftrightarrow> v = Some (JStr s) \<and> protected_ref_ok s"
  by (auto simp: protectedRef_def bind_eq_Some_conv)

lemma as_kind_eq [simp]: "as_kind v = Some k \<longleftrightarrow> v = Some (JStr (kind_text k))"
  by (cases k) (auto simp: as_kind_def)

lemma requiredJob_json: "matches namePattern (rj_name j) \<Longrightarrow> requiredJob (job_json j) = Some j"
  by (simp add: requiredJob_def job_json_def opt_conv exact_def exact_keys_def has_own_def)

lemma requiredJob_valid: "requiredJob v = Some j \<Longrightarrow> matches namePattern (rj_name j)"
  by (auto simp: requiredJob_def opt_conv)

lemma texts_json: "list_all (matches p) xs \<Longrightarrow> as_list (text_matching p) (Some (JArr (map JStr xs))) = Some xs"
  by (rule as_list_map) (auto simp: list_all_iff)

lemma texts_valid: "as_list (text_matching p) v = Some xs \<Longrightarrow> list_all (matches p) xs"
  by (erule as_list_all) simp

lemma pathRule_json: "rule_valid r \<Longrightarrow> pathRule (rule_json r) = Some r"
  using texts_json[of projectPattern "pr_reviewerIds r"]
  by (simp add: pathRule_def rule_json_def opt_conv exact_def exact_keys_def has_own_def rule_valid_def)

lemma pathRule_valid:
  "pathRule v = Some r \<Longrightarrow> path_prefix_ok (pr_pathPrefix r) \<and> list_all (matches projectPattern) (pr_reviewerIds r)
     \<and> 1 \<le> length (pr_reviewerIds r)"
  by (auto simp: pathRule_def opt_conv dest: texts_valid)

lemma normalizeRules_valid:
  assumes "list_all (\<lambda>r. path_prefix_ok (pr_pathPrefix r) \<and> list_all (matches projectPattern) (pr_reviewerIds r)
     \<and> 1 \<le> length (pr_reviewerIds r)) rules" "list_all (\<lambda>r. distinct (pr_reviewerIds r)) rules"
  shows "list_all rule_valid (normalizeRules rules)"
    "sorted (map (\<lambda>r. stringify (rule_json r)) (normalizeRules rules))"
  using assms by (auto simp: normalizeRules_def list_all_iff rule_valid_def sorted_sort_key)

lemma normalizeRules_id:
  assumes "list_all rule_valid rules" "sorted (map (\<lambda>r. stringify (rule_json r)) rules)"
  shows "normalizeRules rules = rules"
proof -
  have "map (\<lambda>r. r\<lparr>pr_reviewerIds := sort (pr_reviewerIds r)\<rparr>) rules = rules"
    using assms(1) by (auto simp: list_all_iff rule_valid_def sorted_sort_id intro!: map_idI)
  with assms(2) show ?thesis by (simp add: normalizeRules_def sort_key_sorted)
qed

lemma exact_policy_json: "exact (policy_json p) policyFields"
proof -
  have "distinct policyFields" by (simp add: policyFields_def)
  then show ?thesis
    using exact_JObj[of "members (policy_json p)"] by (simp add: policy_json_def policyFields_def reviewers_members_def)
qed

lemma policySchema_json:
  assumes "policy_valid rt p"
  shows "nativeImportedRootPolicySchema (policy_json p) = Some p"
proof -
  have "as_list requiredJob (Some (JArr (map job_json (ip_requiredJobs p)))) = Some (ip_requiredJobs p)"
    using assms by (intro as_list_map requiredJob_json) (auto simp: policy_valid_def list_all_iff)
  moreover have "as_list pathRule (Some (JArr (map rule_json (ip_pathReviewerRules p)))) = Some (ip_pathReviewerRules p)"
    using assms by (intro as_list_map pathRule_json) (auto simp: policy_valid_def list_all_iff)
  moreover have "as_list (text_matching projectPattern) (Some (JArr (map JStr (ip_requiredReviewerIds p))))
      = Some (ip_requiredReviewerIds p)"
    using assms by (intro texts_json) (simp add: policy_valid_def)
  ultimately show ?thesis
    using assms unfolding nativeImportedRootPolicySchema_def opt_conv
    by (simp add: exact_policy_json) (simp add: policy_valid_def policy_json_def reviewers_members_def)
qed

lemma parse_policy_json: "policy_valid rt p \<Longrightarrow> parseAuthoritativeImportedRootPolicy rt (policy_json p) = Some p"
  by (frule policySchema_json)
    (auto simp: parseAuthoritativeImportedRootPolicy_def policy_valid_def sort_key_sorted normalizeRules_id
      sorted_sort_id list_all_iff rule_valid_def Let_def)

lemma parse_policy_valid:
  assumes "parseAuthoritativeImportedRootPolicy rt v = Some p"
  shows "policy_valid rt p"
proof -
  from assms obtain q where q: "nativeImportedRootPolicySchema v = Some q" "distinct (map rj_name (ip_requiredJobs q))"
      "distinct (ip_requiredReviewerIds q)" "list_all (\<lambda>r. distinct (pr_reviewerIds r)) (ip_pathReviewerRules q)"
      "policy_revisions rt p"
    and p: "p = q\<lparr>ip_requiredJobs := sort_key rj_name (ip_requiredJobs q),
       ip_requiredReviewerIds := sort (ip_requiredReviewerIds q),
       ip_pathReviewerRules := normalizeRules (ip_pathReviewerRules q)\<rparr>"
    unfolding parseAuthoritativeImportedRootPolicy_def Let_def opt_conv by auto
  from q(1) have s: "protected_ref_ok (ip_protectedRef q)" "matches revisionPattern (ip_policyRevision q)"
      "matches revisionPattern (ip_requiredReviewRevision q)" "matches revisionPattern (ip_requiredJobSetRevision q)"
      "list_all (\<lambda>j. matches namePattern (rj_name j)) (ip_requiredJobs q)" "length (ip_requiredJobs q) \<le> 64"
      "list_all (matches projectPattern) (ip_requiredReviewerIds q)" "1 \<le> length (ip_requiredReviewerIds q)"
      "list_all (\<lambda>r. path_prefix_ok (pr_pathPrefix r) \<and> list_all (matches projectPattern) (pr_reviewerIds r)
         \<and> 1 \<le> length (pr_reviewerIds r)) (ip_pathReviewerRules q)"
    unfolding nativeImportedRootPolicySchema_def opt_conv
    by (auto dest: texts_valid as_list_all[OF _ requiredJob_valid] as_list_all[OF _ pathRule_valid])
  from s(5) have jobs: "list_all (\<lambda>j. matches namePattern (rj_name j)) (sort_key rj_name (ip_requiredJobs q))"
    by (simp add: list_all_iff)
  from s(7) have ids: "list_all (matches projectPattern) (sort (ip_requiredReviewerIds q))" by (simp add: list_all_iff)
  have names: "distinct (map rj_name (sort_key rj_name (ip_requiredJobs q)))"
    using q(2) by (simp add: distinct_map)
  show ?thesis
    using q(3,5) s(1-4,6,8) jobs ids names normalizeRules_valid[OF s(9) q(4)]
    by (simp add: policy_valid_def p sorted_sort_key)
qed

interpretation policy_codec: codec policy_json "parseAuthoritativeImportedRootPolicy rt" "policy_valid rt" for rt
  by unfold_locales (rule parse_policy_json, assumption, rule parse_policy_valid)

end
