(* ===== verification/Project_Registry.thy ===== *)
theory Project_Registry
  imports Project_Policy "HOL-Library.Product_Lexorder"
begin

text \<open>
  The database of the native Git bundle and its first two tables: activations of a generation
  (\<open>native-bundle-activation.ts\<close>) and registrations of Projects (\<open>native-project-registry-state.ts\<close>).
  A table is the list of its rows in insertion order; an insert checks the constraints of the table
  and is the error \<open>DbConstraint\<close> where one fails. \<open>randomUUID\<close> is an argument, and which
  texts \<open>z.string().uuid()\<close> and \<open>z.string().datetime()\<close> accept is part of the run-time library.
\<close>

section \<open>Data\<close>

record project_runtime = runtime +
  zod_uuid :: "string \<Rightarrow> bool"
  zod_datetime :: "string \<Rightarrow> bool"

datatype registration_phase = Provisioning | RootPrepared

datatype import_phase = Intent | BundleDurable | Installing | ObjectsInstalled | RootImported

record activation_row =
  ac_generation_id :: string
  ac_activation_token_sha256 :: string

record registration_row =
  rg_service_id :: string
  rg_project_id :: string
  rg_root_repository_id :: string
  rg_owner_host_id :: string
  rg_provisioning_nonce :: string
  rg_phase :: registration_phase

record import_row =
  im_project_id :: string
  im_service_id :: string
  im_root_repository_id :: string
  im_owner_host_id :: string
  im_generation_id :: string
  im_import_nonce :: string
  im_protected_ref :: string
  im_expected_commit :: string
  im_policy_json :: json
  im_policy_sha256 :: string
  im_bundle_sha256 :: "string option"
  im_bundle_size :: "int option"
  im_resolved_tree :: "string option"
  im_phase :: import_phase

record transition_row =
  tr_project_id :: string
  tr_transition_id :: string
  tr_import_nonce :: string
  tr_sequence :: int
  tr_review_id :: string
  tr_protected_ref :: string
  tr_proposal_ref :: string
  tr_expected_commit :: string
  tr_expected_tree :: string
  tr_candidate_commit :: string
  tr_candidate_tree :: string
  tr_decision_generation :: string
  tr_policy_sha256 :: string
  tr_policy_revision :: string
  tr_required_review_revision :: string
  tr_required_job_set_revision :: string
  tr_evidence_json :: json
  tr_evidence_sha256 :: string
  tr_authorization_verified :: bool

record project_db =
  pd_activation :: "activation_row list"
  pd_registration :: "registration_row list"
  pd_import :: "import_row list"
  pd_intent :: "transition_row list"
  pd_finalized :: "transition_row list"

datatype project_error =
    RegistrationState | RegistrationConflict | RegistrationHostMismatch
  | ImportState | ImportConflict | ImportOwnership
  | PromotionRow | PromotionUnverified | PromotionChain | PromotionRequiresImport | PromotionFormats
  | PromotionUnresolved | PromotionIntentConflicts | PromotionIntentMissing
  | DbConstraint

definition empty_db :: project_db where
  "empty_db = \<lparr>pd_activation = [], pd_registration = [], pd_import = [], pd_intent = [], pd_finalized = []\<rparr>"

definition guardR :: "'e \<Rightarrow> bool \<Rightarrow> ('e, unit) result" where
  "guardR e b = (if b then Inr () else Inl e)"

lemma guardR_simps [simp]: "guardR e True = Inr ()" "guardR e False = Inl e"
  by (simp_all add: guardR_def)

lemma guardR_eq_Inr [simp]: "guardR e b = Inr u \<longleftrightarrow> b"
  by (cases b) simp_all

lemma guardR_bind_Inr [simp]: "bindR (guardR e b) f = Inr y \<longleftrightarrow> b \<and> f () = Inr y"
  by (cases b) simp_all

fun mapR :: "('a \<Rightarrow> ('e, 'b) result) \<Rightarrow> 'a list \<Rightarrow> ('e, 'b list) result" where
  "mapR f [] = Inr []"
| "mapR f (x # xs) = bindR (f x) (\<lambda>y. bindR (mapR f xs) (\<lambda>ys. Inr (y # ys)))"

lemma mapR_eq_Inr: "mapR f xs = Inr ys \<longleftrightarrow> list_all2 (\<lambda>x y. f x = Inr y) xs ys"
  by (induction xs arbitrary: ys) (auto simp: bindR_eq_Inr list_all2_Cons1)

lemma mapR_ok: "(\<exists>ys. mapR f xs = Inr ys) \<longleftrightarrow> (\<forall>x\<in>set xs. \<exists>y. f x = Inr y)"
  by (induction xs) (auto simp: bindR_eq_Inr)

lemma mapR_okI: "(\<And>x. x \<in> set xs \<Longrightarrow> \<exists>y. f x = Inr y) \<Longrightarrow> \<exists>ys. mapR f xs = Inr ys"
  by (simp add: mapR_ok)

section \<open>Activation\<close>

definition generations :: "project_db \<Rightarrow> string set" where
  "generations db = ac_generation_id ` set (pd_activation db)"

definition find_activation :: "string \<Rightarrow> project_db \<Rightarrow> activation_row option" where
  "find_activation g db = find_row (\<lambda>r. ac_generation_id r = g) (pd_activation db)"

definition assertActivatedGeneration :: "string \<Rightarrow> project_db \<Rightarrow> (project_error, unit) result" where
  "assertActivatedGeneration generationId db = guardR RegistrationState (find_activation generationId db \<noteq> None)"

text \<open>Digests are compared as bytes; of two lower-case digests of one length this is equality of texts.\<close>

definition exactActivationIsBound :: "string \<Rightarrow> string \<Rightarrow> project_db \<Rightarrow> bool" where
  "exactActivationIsBound generationId token db =
     (case find_activation generationId db of None \<Rightarrow> False | Some row \<Rightarrow> ac_activation_token_sha256 row = token)"

text \<open>The constraints of \<open>bundle_activation\<close>: both columns are 64 hexadecimal digits, the generation is the
  primary key and the token digest is unique; the two lookups have ruled out a duplicate.\<close>

definition bindExactActivation :: "string \<Rightarrow> string \<Rightarrow> project_db \<Rightarrow> (project_error, bool \<times> project_db) result" where
  "bindExactActivation generationId token db =
     (case find_activation generationId db of
        Some row \<Rightarrow> Inr (ac_activation_token_sha256 row = token, db)
      | None \<Rightarrow>
          if find_row (\<lambda>r. ac_activation_token_sha256 r = token) (pd_activation db) \<noteq> None then Inr (False, db)
          else if matches hex64Pattern generationId \<and> matches hex64Pattern token
          then Inr (True, db\<lparr>pd_activation := pd_activation db
            @ [\<lparr>ac_generation_id = generationId, ac_activation_token_sha256 = token\<rparr>]\<rparr>)
          else Inl DbConstraint)"

section \<open>Registration\<close>

record RegistrationInput =
  ri_serviceId :: string
  ri_projectId :: string
  ri_rootRepositoryId :: string
  ri_ownerHostId :: string

record NativeProjectRegistration =
  re_serviceId :: string
  re_projectId :: string
  re_rootRepositoryId :: string
  re_ownerHostId :: string
  re_provisioningNonce :: string
  re_phase :: registration_phase

definition parseRegistrationInput :: "json \<Rightarrow> RegistrationInput option" where
  "parseRegistrationInput v = do {
     guardO (exact v [''serviceId'', ''projectId'', ''rootRepositoryId'', ''ownerHostId'']);
     as_literal (JStr ''native-main'') (get_field v ''serviceId'');
     projectId \<leftarrow> as_matching projectPattern (get_field v ''projectId'');
     rootRepositoryId \<leftarrow> as_matching projectPattern (get_field v ''rootRepositoryId'');
     ownerHostId \<leftarrow> as_matching identifierPattern (get_field v ''ownerHostId'');
     Some \<lparr>ri_serviceId = ''native-main'', ri_projectId = projectId, ri_rootRepositoryId = rootRepositoryId,
       ri_ownerHostId = ownerHostId\<rparr> }"

definition parseRegistrationRow :: "project_runtime \<Rightarrow> registration_row \<Rightarrow> NativeProjectRegistration option" where
  "parseRegistrationRow rt row = do {
     guardO (rg_service_id row = ''native-main'');
     guardO (matches projectPattern (rg_project_id row));
     guardO (matches projectPattern (rg_root_repository_id row));
     guardO (matches identifierPattern (rg_owner_host_id row));
     guardO (zod_uuid rt (rg_provisioning_nonce row));
     Some \<lparr>re_serviceId = rg_service_id row, re_projectId = rg_project_id row,
       re_rootRepositoryId = rg_root_repository_id row, re_ownerHostId = rg_owner_host_id row,
       re_provisioningNonce = rg_provisioning_nonce row, re_phase = rg_phase row\<rparr> }"

definition selectRegistration ::
  "project_runtime \<Rightarrow> string \<Rightarrow> project_db \<Rightarrow> (project_error, NativeProjectRegistration option) result" where
  "selectRegistration rt projectId db =
     (case find_row (\<lambda>r. rg_project_id r = projectId) (pd_registration db) of
        None \<Rightarrow> Inr None
      | Some row \<Rightarrow> (case parseRegistrationRow rt row of None \<Rightarrow> Inl RegistrationState | Some r \<Rightarrow> Inr (Some r)))"

definition assertSameRegistration ::
  "NativeProjectRegistration \<Rightarrow> RegistrationInput \<Rightarrow> (project_error, unit) result" where
  "assertSameRegistration existing requested =
     (if re_ownerHostId existing \<noteq> ri_ownerHostId requested then Inl RegistrationHostMismatch
      else if re_serviceId existing \<noteq> ri_serviceId requested
        \<or> re_rootRepositoryId existing \<noteq> ri_rootRepositoryId requested then Inl RegistrationConflict
      else Inr ())"

text \<open>The constraints of \<open>native_project_registration\<close>: the value checks, which are the patterns of the
  schema, the primary key and the unique nonce.\<close>

definition insert_registration :: "registration_row \<Rightarrow> project_db \<Rightarrow> (project_error, project_db) result" where
  "insert_registration row db =
     (if rg_service_id row = ''native-main'' \<and> matches projectPattern (rg_project_id row)
        \<and> matches projectPattern (rg_root_repository_id row) \<and> matches identifierPattern (rg_owner_host_id row)
        \<and> length (rg_provisioning_nonce row) = 36
        \<and> rg_project_id row \<notin> rg_project_id ` set (pd_registration db)
        \<and> rg_provisioning_nonce row \<notin> rg_provisioning_nonce ` set (pd_registration db)
      then Inr (db\<lparr>pd_registration := pd_registration db @ [row]\<rparr>) else Inl DbConstraint)"

text \<open>The first look at the table is outside the transaction, so it may see an older state \<open>before\<close>; the
  insert is decided by a second look, at the state \<open>db\<close> that the transaction locks.\<close>

definition registerNativeProjectInDatabase ::
  "project_runtime \<Rightarrow> string \<Rightarrow> json \<Rightarrow> string \<Rightarrow> project_db \<Rightarrow> project_db \<Rightarrow> (project_error, project_db) result" where
  "registerNativeProjectInDatabase rt generationId input uuid before db =
     bindR (guardR RegistrationState (matches hex64Pattern generationId)) (\<lambda>_.
     bindR (of_option RegistrationState (parseRegistrationInput input)) (\<lambda>registration.
     bindR (assertActivatedGeneration generationId before) (\<lambda>_.
     bindR (selectRegistration rt (ri_projectId registration) before) (\<lambda>existing.
     case existing of
       Some r \<Rightarrow> bindR (assertSameRegistration r registration) (\<lambda>_. Inr db)
     | None \<Rightarrow>
         bindR (assertActivatedGeneration generationId db) (\<lambda>_.
         bindR (selectRegistration rt (ri_projectId registration) db) (\<lambda>concurrent.
         case concurrent of
           Some r \<Rightarrow> bindR (assertSameRegistration r registration) (\<lambda>_. Inr db)
         | None \<Rightarrow> insert_registration \<lparr>rg_service_id = ri_serviceId registration,
             rg_project_id = ri_projectId registration, rg_root_repository_id = ri_rootRepositoryId registration,
             rg_owner_host_id = ri_ownerHostId registration, rg_provisioning_nonce = uuid,
             rg_phase = Provisioning\<rparr> db))))))"

definition beginNativeProjectPreparation ::
  "project_runtime \<Rightarrow> string \<Rightarrow> json \<Rightarrow> string \<Rightarrow> project_db \<Rightarrow> project_db \<Rightarrow>
     (project_error, NativeProjectRegistration \<times> project_db) result" where
  "beginNativeProjectPreparation rt generationId input uuid before db =
     bindR (registerNativeProjectInDatabase rt generationId input uuid before db) (\<lambda>db'.
     bindR (of_option RegistrationState (parseRegistrationInput input)) (\<lambda>requested.
     bindR (selectRegistration rt (ri_projectId requested) db') (\<lambda>found.
     bindR (of_option RegistrationState found) (\<lambda>registration. Inr (registration, db')))))"

definition completeNativeProjectPreparation ::
  "project_runtime \<Rightarrow> string \<Rightarrow> string \<Rightarrow> project_db \<Rightarrow> (project_error, NativeProjectRegistration \<times> project_db) result" where
  "completeNativeProjectPreparation rt generationId projectId db =
     bindR (assertActivatedGeneration generationId db) (\<lambda>_.
     let db' = db\<lparr>pd_registration := update_rows (\<lambda>r. rg_project_id r = projectId)
       (\<lambda>r. r\<lparr>rg_phase := RootPrepared\<rparr>) (pd_registration db)\<rparr> in
     bindR (selectRegistration rt projectId db') (\<lambda>found.
     bindR (of_option RegistrationState found) (\<lambda>registration. Inr (registration, db'))))"

definition assertNativeProjectRegistrationRows ::
  "project_runtime \<Rightarrow> project_db \<Rightarrow> (project_error, NativeProjectRegistration list) result" where
  "assertNativeProjectRegistrationRows rt db =
     mapR (\<lambda>row. of_option RegistrationState (parseRegistrationRow rt row)) (sort_key rg_project_id (pd_registration db))"

end
