(* ===== verification/Project_Import.thy ===== *)
theory Project_Import
  imports Project_Registry
begin

text \<open>
  The import of the root repository of a registered Project: the row codec
  (\<open>native-project-root-import-codec.ts\<close>), claiming an import and recording its bundle
  (\<open>native-project-root-import-state.ts\<close>), and the three finalising transitions
  (\<open>native-project-root-import-transitions.ts\<close>). An import goes through the phases intent,
  bundle-durable, installing, objects-installed and root-imported. Every operation is one transaction; an
  operation that throws leaves the database as it was.
\<close>

section \<open>Data\<close>

datatype StoredImportedRootPolicy =
    AuthoritativeV1 NativeImportedRootPolicy
  | LegacyImportOnly NativeGitReviewPolicy

record NativeProjectRootImport =
  ni_serviceId :: string
  ni_projectId :: string
  ni_rootRepositoryId :: string
  ni_ownerHostId :: string
  ni_generationId :: string
  ni_importNonce :: string
  ni_protectedRef :: string
  ni_expectedCommit :: string
  ni_policy :: StoredImportedRootPolicy
  ni_policyDigest :: string
  ni_bundleDigest :: "string option"
  ni_bundleSize :: "int option"
  ni_resolvedTree :: "string option"
  ni_phase :: import_phase

record NativeProjectRootImportInput =
  ii_serviceId :: string
  ii_projectId :: string
  ii_rootRepositoryId :: string
  ii_protectedRef :: string
  ii_expectedCommit :: string
  ii_policy :: NativeImportedRootPolicy

record NativeProjectRootImportFinalizeSelector =
  fs_generationId :: string
  fs_importNonce :: string
  fs_bundleDigest :: string

fun stored_json :: "StoredImportedRootPolicy \<Rightarrow> json" where
  "stored_json (AuthoritativeV1 p) = policy_json p"
| "stored_json (LegacyImportOnly p) = legacy_json p"

fun stored_ref :: "StoredImportedRootPolicy \<Rightarrow> string" where
  "stored_ref (AuthoritativeV1 p) = ip_protectedRef p"
| "stored_ref (LegacyImportOnly p) = gp_protectedRef p"

definition policy_digest :: "project_runtime \<Rightarrow> json \<Rightarrow> string" where
  "policy_digest rt policyJson = sha256 rt (stringify policyJson)"

section \<open>Parsers\<close>

definition parseNativeProjectRootImportFinalizeSelector ::
  "project_runtime \<Rightarrow> json \<Rightarrow> NativeProjectRootImportFinalizeSelector option" where
  "parseNativeProjectRootImportFinalizeSelector rt v = do {
     guardO (exact v [''schemaVersion'', ''generationId'', ''importNonce'', ''bundleDigest'']);
     as_literal (JInt 1) (get_field v ''schemaVersion'');
     generationId \<leftarrow> as_matching hex64Pattern (get_field v ''generationId'');
     importNonce \<leftarrow> as_string (get_field v ''importNonce'');
     guardO (zod_uuid rt importNonce);
     bundleDigest \<leftarrow> as_matching hex64Pattern (get_field v ''bundleDigest'');
     Some \<lparr>fs_generationId = generationId, fs_importNonce = importNonce, fs_bundleDigest = bundleDigest\<rparr> }"

definition parseNativeProjectRootImportInput ::
  "project_runtime \<Rightarrow> json \<Rightarrow> NativeProjectRootImportInput option" where
  "parseNativeProjectRootImportInput rt v = do {
     guardO (exact v [''serviceId'', ''projectId'', ''rootRepositoryId'', ''protectedRef'', ''expectedCommit'', ''policy'']);
     as_literal (JStr ''native-main'') (get_field v ''serviceId'');
     projectId \<leftarrow> as_matching projectPattern (get_field v ''projectId'');
     as_literal (JStr ''root'') (get_field v ''rootRepositoryId'');
     ref \<leftarrow> as_string (get_field v ''protectedRef'');
     expectedCommit \<leftarrow> as_matching objectIdPattern (get_field v ''expectedCommit'');
     requested \<leftarrow> Option.bind (get_field v ''policy'') nativeImportedRootPolicySchema;
     policy \<leftarrow> parseAuthoritativeImportedRootPolicy rt (policy_json requested);
     guardO (ref = ip_protectedRef policy);
     Some \<lparr>ii_serviceId = ''native-main'', ii_projectId = projectId, ii_rootRepositoryId = ''root'',
       ii_protectedRef = ref, ii_expectedCommit = expectedCommit, ii_policy = policy\<rparr> }"

definition parse_stored_policy :: "project_runtime \<Rightarrow> import_phase \<Rightarrow> json \<Rightarrow> StoredImportedRootPolicy option" where
  "parse_stored_policy rt phase v =
     (case parseAuthoritativeImportedRootPolicy rt v of
        Some p \<Rightarrow> Some (AuthoritativeV1 p)
      | None \<Rightarrow> if phase \<noteq> RootImported then None
                else map_option LegacyImportOnly (parseLegacyImportedRootPolicy v))"

fun phase_binding :: "import_phase \<Rightarrow> string option \<Rightarrow> int option \<Rightarrow> string option \<Rightarrow> bool" where
  "phase_binding Intent digest bytes tree = (digest = None \<and> bytes = None \<and> tree = None)"
| "phase_binding BundleDurable digest bytes tree = (digest \<noteq> None \<and> bytes \<noteq> None \<and> tree = None)"
| "phase_binding Installing digest bytes tree = (digest \<noteq> None \<and> bytes \<noteq> None \<and> tree = None)"
| "phase_binding ObjectsInstalled digest bytes tree = (digest \<noteq> None \<and> bytes \<noteq> None \<and> tree \<noteq> None)"
| "phase_binding RootImported digest bytes tree = (digest \<noteq> None \<and> bytes \<noteq> None \<and> tree \<noteq> None)"

definition stored_row_ok :: "project_runtime \<Rightarrow> import_row \<Rightarrow> bool" where
  "stored_row_ok rt row \<longleftrightarrow> im_service_id row = ''native-main'' \<and> matches projectPattern (im_project_id row)
     \<and> im_root_repository_id row = ''root'' \<and> matches identifierPattern (im_owner_host_id row)
     \<and> matches hex64Pattern (im_generation_id row) \<and> zod_uuid rt (im_import_nonce row)
     \<and> matches objectIdPattern (im_expected_commit row) \<and> matches hex64Pattern (im_policy_sha256 row)
     \<and> pred_option (matches hex64Pattern) (im_bundle_sha256 row)
     \<and> pred_option (\<lambda>n. 0 < n \<and> n \<le> 268435456) (im_bundle_size row)
     \<and> pred_option (matches objectIdPattern) (im_resolved_tree row)"

definition parseNativeProjectRootImportRow :: "project_runtime \<Rightarrow> import_row \<Rightarrow> NativeProjectRootImport option" where
  "parseNativeProjectRootImportRow rt row = do {
     guardO (stored_row_ok rt row);
     storedPolicy \<leftarrow> parse_stored_policy rt (im_phase row) (im_policy_json row);
     let policyJson = stored_json storedPolicy;
     let policyDigest = policy_digest rt policyJson;
     guardO (im_protected_ref row = stored_ref storedPolicy \<and> im_policy_json row = policyJson
       \<and> im_policy_sha256 row = policyDigest);
     guardO (phase_binding (im_phase row) (im_bundle_sha256 row) (im_bundle_size row) (im_resolved_tree row));
     Some \<lparr>ni_serviceId = im_service_id row, ni_projectId = im_project_id row,
       ni_rootRepositoryId = im_root_repository_id row, ni_ownerHostId = im_owner_host_id row,
       ni_generationId = im_generation_id row, ni_importNonce = im_import_nonce row,
       ni_protectedRef = im_protected_ref row, ni_expectedCommit = im_expected_commit row,
       ni_policy = storedPolicy, ni_policyDigest = policyDigest, ni_bundleDigest = im_bundle_sha256 row,
       ni_bundleSize = im_bundle_size row, ni_resolvedTree = im_resolved_tree row, ni_phase = im_phase row\<rparr> }"

section \<open>Statements on the table\<close>

text \<open>The value checks of \<open>native_project_root_import\<close>.\<close>

definition import_checks :: "import_row \<Rightarrow> bool" where
  "import_checks row \<longleftrightarrow> im_service_id row = ''native-main'' \<and> im_root_repository_id row = ''root''
     \<and> matches identifierPattern (im_owner_host_id row) \<and> matches hex64Pattern (im_generation_id row)
     \<and> length (im_import_nonce row) = 36
     \<and> 1 \<le> length (im_protected_ref row) \<and> length (im_protected_ref row) \<le> 1024
     \<and> matches objectIdPattern (im_expected_commit row) \<and> matches hex64Pattern (im_policy_sha256 row)
     \<and> pred_option (matches hex64Pattern) (im_bundle_sha256 row)
     \<and> pred_option (\<lambda>n. 1 \<le> n \<and> n \<le> 268435456) (im_bundle_size row)
     \<and> pred_option (matches objectIdPattern) (im_resolved_tree row)
     \<and> phase_binding (im_phase row) (im_bundle_sha256 row) (im_bundle_size row) (im_resolved_tree row)"

definition insert_import :: "import_row \<Rightarrow> project_db \<Rightarrow> (project_error, project_db) result" where
  "insert_import row db =
     (if import_checks row \<and> im_project_id row \<notin> im_project_id ` set (pd_import db)
        \<and> im_import_nonce row \<notin> im_import_nonce ` set (pd_import db)
        \<and> im_project_id row \<in> rg_project_id ` set (pd_registration db) \<and> im_generation_id row \<in> generations db
      then Inr (db\<lparr>pd_import := pd_import db @ [row]\<rparr>) else Inl DbConstraint)"

definition update_import ::
  "(import_row \<Rightarrow> bool) \<Rightarrow> (import_row \<Rightarrow> import_row) \<Rightarrow> project_db \<Rightarrow> (project_error, project_db) result" where
  "update_import P f db =
     (if list_all (\<lambda>row. P row \<longrightarrow> import_checks (f row)) (pd_import db)
      then Inr (db\<lparr>pd_import := update_rows P f (pd_import db)\<rparr>) else Inl DbConstraint)"

definition selectImport ::
  "project_runtime \<Rightarrow> string \<Rightarrow> project_db \<Rightarrow> (project_error, NativeProjectRootImport option) result" where
  "selectImport rt projectId db =
     (case find_row (\<lambda>r. im_project_id r = projectId) (pd_import db) of
        None \<Rightarrow> Inr None
      | Some row \<Rightarrow> (case parseNativeProjectRootImportRow rt row of None \<Rightarrow> Inl ImportState | Some i \<Rightarrow> Inr (Some i)))"

definition requireImport ::
  "project_runtime \<Rightarrow> string \<Rightarrow> project_db \<Rightarrow> (project_error, NativeProjectRootImport) result" where
  "requireImport rt projectId db = bindR (selectImport rt projectId db) (\<lambda>found. of_option ImportConflict found)"

section \<open>Claiming an import\<close>

definition assertPreparedRegistration ::
  "NativeProjectRegistration option \<Rightarrow> string \<Rightarrow> string \<Rightarrow> string \<Rightarrow> (project_error, unit) result" where
  "assertPreparedRegistration registration serviceId rootRepositoryId ownerHostId =
     (case registration of
        None \<Rightarrow> Inl ImportState
      | Some r \<Rightarrow>
          if re_phase r \<noteq> RootPrepared then Inl ImportState
          else if re_ownerHostId r \<noteq> ownerHostId then Inl ImportOwnership
          else if re_serviceId r \<noteq> serviceId \<or> re_rootRepositoryId r \<noteq> rootRepositoryId then Inl ImportConflict
          else Inr ())"

definition assertSameIntent ::
  "NativeProjectRootImport \<Rightarrow> string \<Rightarrow> string \<Rightarrow> NativeProjectRootImportInput \<Rightarrow> json \<Rightarrow> string \<Rightarrow>
     (project_error, unit) result" where
  "assertSameIntent existing generationId ownerHostId requested policyJson policyDigest =
     (if ni_ownerHostId existing \<noteq> ownerHostId then Inl ImportOwnership
      else if ni_generationId existing \<noteq> generationId \<or> ni_serviceId existing \<noteq> ii_serviceId requested
        \<or> ni_rootRepositoryId existing \<noteq> ii_rootRepositoryId requested
        \<or> ni_protectedRef existing \<noteq> ii_protectedRef requested
        \<or> ni_expectedCommit existing \<noteq> ii_expectedCommit requested
        \<or> stored_json (ni_policy existing) \<noteq> policyJson \<or> ni_policyDigest existing \<noteq> policyDigest
      then Inl ImportConflict else Inr ())"

definition intent_row ::
  "string \<Rightarrow> string \<Rightarrow> string \<Rightarrow> NativeProjectRootImportInput \<Rightarrow> json \<Rightarrow> string \<Rightarrow> import_row" where
  "intent_row generationId ownerHostId uuid requested policyJson policyDigest =
     \<lparr>im_project_id = ii_projectId requested, im_service_id = ii_serviceId requested,
      im_root_repository_id = ii_rootRepositoryId requested, im_owner_host_id = ownerHostId,
      im_generation_id = generationId, im_import_nonce = uuid, im_protected_ref = ii_protectedRef requested,
      im_expected_commit = ii_expectedCommit requested, im_policy_json = policyJson, im_policy_sha256 = policyDigest,
      im_bundle_sha256 = None, im_bundle_size = None, im_resolved_tree = None, im_phase = Intent\<rparr>"

definition claimNativeProjectRootImportInDatabase ::
  "project_runtime \<Rightarrow> string \<Rightarrow> string \<Rightarrow> json \<Rightarrow> string \<Rightarrow> project_db \<Rightarrow> project_db \<Rightarrow>
     (project_error, NativeProjectRootImport \<times> project_db) result" where
  "claimNativeProjectRootImportInDatabase rt generationId ownerHostId input uuid before db =
     bindR (of_option ImportState (parseNativeProjectRootImportInput rt input)) (\<lambda>requested.
     bindR (assertActivatedGeneration generationId before) (\<lambda>_.
     bindR (assertActivatedGeneration generationId db) (\<lambda>_.
     bindR (selectRegistration rt (ii_projectId requested) db) (\<lambda>registration.
     bindR (assertPreparedRegistration registration (ii_serviceId requested) (ii_rootRepositoryId requested) ownerHostId) (\<lambda>_.
     bindR (selectImport rt (ii_projectId requested) db) (\<lambda>existing.
     let policyJson = policy_json (ii_policy requested); policyDigest = policy_digest rt policyJson in
     case existing of
       Some e \<Rightarrow> bindR (assertSameIntent e generationId ownerHostId requested policyJson policyDigest) (\<lambda>_. Inr (e, db))
     | None \<Rightarrow>
         bindR (insert_import (intent_row generationId ownerHostId uuid requested policyJson policyDigest) db) (\<lambda>db'.
         bindR (selectImport rt (ii_projectId requested) db') (\<lambda>claimed.
         bindR (of_option ImportState claimed) (\<lambda>c. Inr (c, db'))))))))))"

text \<open>\<open>/^[0-9a-f-]{36}$/\<close>\<close>

definition noncePattern :: rexp where
  "noncePattern = Rep (Cls (\<lambda>c. hex_digit c \<or> c = CHR ''-'')) 36 36"

definition bundle_metadata_ok :: "string \<Rightarrow> string \<Rightarrow> string \<Rightarrow> int \<Rightarrow> bool" where
  "bundle_metadata_ok projectId importNonce bundleDigest bundleSize \<longleftrightarrow> matches projectPattern projectId
     \<and> matches noncePattern importNonce \<and> matches hex64Pattern bundleDigest \<and> 1 \<le> bundleSize \<and> bundleSize \<le> 268435456"

definition markNativeProjectRootBundleDurableInDatabase ::
  "project_runtime \<Rightarrow> string \<Rightarrow> string \<Rightarrow> string \<Rightarrow> int \<Rightarrow> project_db \<Rightarrow>
     (project_error, NativeProjectRootImport \<times> project_db) result" where
  "markNativeProjectRootBundleDurableInDatabase rt projectId importNonce bundleDigest bundleSize db =
     bindR (guardR ImportState (bundle_metadata_ok projectId importNonce bundleDigest bundleSize)) (\<lambda>_.
     bindR (selectImport rt projectId db) (\<lambda>found.
     case found of
       None \<Rightarrow> Inl ImportConflict
     | Some existing \<Rightarrow>
         if ni_importNonce existing \<noteq> importNonce then Inl ImportConflict
         else if ni_phase existing = BundleDurable \<or> ni_phase existing = RootImported
         then (if ni_bundleDigest existing \<noteq> Some bundleDigest \<or> ni_bundleSize existing \<noteq> Some bundleSize
               then Inl ImportConflict else Inr (existing, db))
         else
           bindR (update_import (\<lambda>r. im_project_id r = projectId \<and> im_import_nonce r = importNonce \<and> im_phase r = Intent)
             (\<lambda>r. r\<lparr>im_bundle_sha256 := Some bundleDigest, im_bundle_size := Some bundleSize,
               im_phase := BundleDurable\<rparr>) db) (\<lambda>db'.
           bindR (selectImport rt projectId db') (\<lambda>stored.
           case stored of
             None \<Rightarrow> Inl ImportState
           | Some durable \<Rightarrow> if ni_phase durable \<noteq> BundleDurable then Inl ImportState else Inr (durable, db')))))"

section \<open>Finalising an import\<close>

definition assertSelector ::
  "NativeProjectRootImport \<Rightarrow> string \<Rightarrow> NativeProjectRootImportFinalizeSelector \<Rightarrow> (project_error, unit) result" where
  "assertSelector existing projectId selector =
     guardR ImportConflict (ni_projectId existing = projectId \<and> ni_generationId existing = fs_generationId selector
       \<and> ni_importNonce existing = fs_importNonce selector
       \<and> ni_bundleDigest existing = Some (fs_bundleDigest selector))"

definition assertFinalizeBinding ::
  "project_runtime \<Rightarrow> project_db \<Rightarrow> NativeProjectRootImport \<Rightarrow> string \<Rightarrow> string \<Rightarrow>
     NativeProjectRootImportFinalizeSelector \<Rightarrow> (project_error, unit) result" where
  "assertFinalizeBinding rt db existing projectId ownerHostId selector =
     bindR (assertSelector existing projectId selector) (\<lambda>_.
     bindR (assertActivatedGeneration (fs_generationId selector) db) (\<lambda>_.
     bindR (selectRegistration rt projectId db) (\<lambda>registration.
     case registration of
       None \<Rightarrow> Inl ImportState
     | Some r \<Rightarrow>
         if re_phase r \<noteq> RootPrepared then Inl ImportState
         else if ni_ownerHostId existing \<noteq> ownerHostId \<or> re_ownerHostId r \<noteq> ownerHostId then Inl ImportOwnership
         else if re_serviceId r \<noteq> ni_serviceId existing \<or> re_rootRepositoryId r \<noteq> ni_rootRepositoryId existing
         then Inl ImportConflict else Inr ())))"

definition beginNativeProjectRootImportInstallationInDatabase ::
  "project_runtime \<Rightarrow> string \<Rightarrow> string \<Rightarrow> NativeProjectRootImportFinalizeSelector \<Rightarrow> project_db \<Rightarrow>
     (project_error, NativeProjectRootImport \<times> project_db) result" where
  "beginNativeProjectRootImportInstallationInDatabase rt projectId ownerHostId selector db =
     bindR (requireImport rt projectId db) (\<lambda>existing.
     bindR (assertFinalizeBinding rt db existing projectId ownerHostId selector) (\<lambda>_.
     if ni_phase existing = Intent then Inl ImportConflict
     else if ni_phase existing \<noteq> BundleDurable then Inr (existing, db)
     else
       bindR (update_import (\<lambda>r. im_project_id r = projectId \<and> im_phase r = BundleDurable)
         (\<lambda>r. r\<lparr>im_phase := Installing\<rparr>) db) (\<lambda>db'.
       bindR (requireImport rt projectId db') (\<lambda>i. Inr (i, db')))))"

definition markNativeProjectRootObjectsInstalledInDatabase ::
  "project_runtime \<Rightarrow> string \<Rightarrow> NativeProjectRootImportFinalizeSelector \<Rightarrow> string \<Rightarrow> project_db \<Rightarrow>
     (project_error, NativeProjectRootImport \<times> project_db) result" where
  "markNativeProjectRootObjectsInstalledInDatabase rt projectId selector resolvedTree db =
     bindR (guardR ImportState (matches objectIdPattern resolvedTree)) (\<lambda>_.
     bindR (requireImport rt projectId db) (\<lambda>existing.
     bindR (assertSelector existing projectId selector) (\<lambda>_.
     if ni_phase existing = ObjectsInstalled \<or> ni_phase existing = RootImported
     then (if ni_resolvedTree existing \<noteq> Some resolvedTree then Inl ImportConflict else Inr (existing, db))
     else if ni_phase existing \<noteq> Installing then Inl ImportConflict
     else
       bindR (update_import (\<lambda>r. im_project_id r = projectId \<and> im_phase r = Installing)
         (\<lambda>r. r\<lparr>im_resolved_tree := Some resolvedTree, im_phase := ObjectsInstalled\<rparr>) db) (\<lambda>db'.
       bindR (requireImport rt projectId db') (\<lambda>i.
       if ni_phase i \<noteq> ObjectsInstalled then Inl ImportState else Inr (i, db'))))))"

definition markNativeProjectRootImportedInDatabase ::
  "project_runtime \<Rightarrow> string \<Rightarrow> NativeProjectRootImportFinalizeSelector \<Rightarrow> string \<Rightarrow> project_db \<Rightarrow>
     (project_error, NativeProjectRootImport \<times> project_db) result" where
  "markNativeProjectRootImportedInDatabase rt projectId selector resolvedTree db =
     bindR (requireImport rt projectId db) (\<lambda>existing.
     bindR (assertSelector existing projectId selector) (\<lambda>_.
     if ni_phase existing = RootImported
     then (if ni_resolvedTree existing \<noteq> Some resolvedTree then Inl ImportConflict else Inr (existing, db))
     else if ni_phase existing \<noteq> ObjectsInstalled \<or> ni_resolvedTree existing \<noteq> Some resolvedTree
     then Inl ImportConflict
     else
       bindR (update_import (\<lambda>r. im_project_id r = projectId \<and> im_phase r = ObjectsInstalled)
         (\<lambda>r. r\<lparr>im_phase := RootImported\<rparr>) db) (\<lambda>db'.
       bindR (requireImport rt projectId db') (\<lambda>i.
       if ni_phase i \<noteq> RootImported then Inl ImportState else Inr (i, db')))))"

section \<open>Reading all imports\<close>

definition readNativeProjectRootImportsFromDatabase ::
  "project_runtime \<Rightarrow> project_db \<Rightarrow> (project_error, NativeProjectRootImport list) result" where
  "readNativeProjectRootImportsFromDatabase rt db =
     mapR (\<lambda>row. of_option ImportState (parseNativeProjectRootImportRow rt row)) (sort_key im_project_id (pd_import db))"

definition assert_import_row ::
  "project_runtime \<Rightarrow> project_db \<Rightarrow> import_row \<Rightarrow> (project_error, NativeProjectRootImport) result" where
  "assert_import_row rt db row =
     bindR (of_option ImportState (parseNativeProjectRootImportRow rt row)) (\<lambda>i.
     bindR (assertActivatedGeneration (ni_generationId i) db) (\<lambda>_.
     bindR (selectRegistration rt (ni_projectId i) db) (\<lambda>registration.
     bindR (assertPreparedRegistration registration (ni_serviceId i) (ni_rootRepositoryId i) (ni_ownerHostId i)) (\<lambda>_.
     Inr i))))"

definition assertNativeProjectRootImportRows ::
  "project_runtime \<Rightarrow> project_db \<Rightarrow> (project_error, NativeProjectRootImport list) result" where
  "assertNativeProjectRootImportRows rt db = mapR (assert_import_row rt db) (sort_key im_project_id (pd_import db))"

end
