(* ===== verification/Project_Promotion.thy ===== *)
theory Project_Promotion
  imports Project_Import
begin

text \<open>
  Promotions of an imported root: the row codec with its evidence
  (\<open>native-project-root-promotion-codec.ts\<close>) and the two tables of transitions
  (\<open>native-project-root-promotion-state.ts\<close>). The protected head of a Project is never stored: it is
  the head of the import followed by the chain of finalised transitions, each of which must continue the
  one before it. A transition is first an intent, which blocks every reader, and then finalised.
\<close>

section \<open>Data\<close>

record ApprovalEvidence =
  ae_reviewerId :: string
  ae_approvalDigest :: string

record JobEvidence =
  je_executionKind :: execution_kind
  je_jobName :: string
  je_evidenceDigest :: string

record NativeProjectRootPromotionEvidence =
  pe_reviewId :: string
  pe_requiredReviewerIds :: "string list"
  pe_approvals :: "ApprovalEvidence list"
  pe_jobs :: "JobEvidence list"

record NativeProjectRootPromotionTransition =
  pt_projectId :: string
  pt_transitionId :: string
  pt_importNonce :: string
  pt_sequence :: int
  pt_reviewId :: string
  pt_protectedRef :: string
  pt_proposalRef :: string
  pt_expectedCommit :: string
  pt_expectedTree :: string
  pt_candidateCommit :: string
  pt_candidateTree :: string
  pt_decisionGeneration :: string
  pt_policyDigest :: string
  pt_policyRevision :: string
  pt_requiredReviewRevision :: string
  pt_requiredJobSetRevision :: string
  pt_evidence :: NativeProjectRootPromotionEvidence
  pt_evidenceDigest :: string

record NativeProjectRootCurrentHead =
  ch_projectId :: string
  ch_sequence :: int
  ch_protectedRef :: string
  ch_commit :: string
  ch_tree :: string
  ch_policyDigest :: string

text \<open>An import whose phase is root-imported and whose policy is authoritative.\<close>

record AuthoritativeNativeProjectRootImport =
  ai_projectId :: string
  ai_importNonce :: string
  ai_protectedRef :: string
  ai_expectedCommit :: string
  ai_resolvedTree :: string
  ai_policyDigest :: string
  ai_policy :: NativeImportedRootPolicy

section \<open>Evidence\<close>

definition approval_json :: "ApprovalEvidence \<Rightarrow> json" where
  "approval_json a = JObj [(''reviewerId'', JStr (ae_reviewerId a)), (''approvalDigest'', JStr (ae_approvalDigest a))]"

definition evidence_job_json :: "JobEvidence \<Rightarrow> json" where
  "evidence_job_json j = JObj [(''executionKind'', JStr (kind_text (je_executionKind j))), (''jobName'', JStr (je_jobName j)),
     (''evidenceClass'', JStr ''candidate-controlled''), (''evidenceDigest'', JStr (je_evidenceDigest j))]"

definition evidence_json :: "NativeProjectRootPromotionEvidence \<Rightarrow> json" where
  "evidence_json e = JObj [(''schemaVersion'', JInt 1), (''reviewId'', JStr (pe_reviewId e)),
     (''requiredReviewerIds'', JArr (map JStr (pe_requiredReviewerIds e))),
     (''approvals'', JArr (map approval_json (pe_approvals e))), (''jobs'', JArr (map evidence_job_json (pe_jobs e)))]"

definition approvalEvidence :: "json \<Rightarrow> ApprovalEvidence option" where
  "approvalEvidence v = do {
     guardO (exact v [''reviewerId'', ''approvalDigest'']);
     reviewerId \<leftarrow> as_matching projectPattern (get_field v ''reviewerId'');
     approvalDigest \<leftarrow> as_matching hex64Pattern (get_field v ''approvalDigest'');
     Some \<lparr>ae_reviewerId = reviewerId, ae_approvalDigest = approvalDigest\<rparr> }"

definition jobEvidence :: "json \<Rightarrow> JobEvidence option" where
  "jobEvidence v = do {
     guardO (exact v [''executionKind'', ''jobName'', ''evidenceClass'', ''evidenceDigest'']);
     executionKind \<leftarrow> as_kind (get_field v ''executionKind'');
     jobName \<leftarrow> as_matching namePattern (get_field v ''jobName'');
     as_literal (JStr ''candidate-controlled'') (get_field v ''evidenceClass'');
     evidenceDigest \<leftarrow> as_matching hex64Pattern (get_field v ''evidenceDigest'');
     Some \<lparr>je_executionKind = executionKind, je_jobName = jobName, je_evidenceDigest = evidenceDigest\<rparr> }"

definition promotionEvidence :: "json \<Rightarrow> NativeProjectRootPromotionEvidence option" where
  "promotionEvidence v = do {
     guardO (exact v [''schemaVersion'', ''reviewId'', ''requiredReviewerIds'', ''approvals'', ''jobs'']);
     as_literal (JInt 1) (get_field v ''schemaVersion'');
     reviewId \<leftarrow> as_matching hex64Pattern (get_field v ''reviewId'');
     requiredReviewerIds \<leftarrow> as_list (text_matching projectPattern) (get_field v ''requiredReviewerIds'');
     guardO (1 \<le> length requiredReviewerIds);
     approvals \<leftarrow> as_list approvalEvidence (get_field v ''approvals'');
     guardO (1 \<le> length approvals);
     jobs \<leftarrow> as_list jobEvidence (get_field v ''jobs'');
     guardO (length jobs \<le> 64);
     Some \<lparr>pe_reviewId = reviewId, pe_requiredReviewerIds = requiredReviewerIds, pe_approvals = approvals,
       pe_jobs = jobs\<rparr> }"

definition sorted_unique :: "string list \<Rightarrow> bool" where
  "sorted_unique values \<longleftrightarrow> distinct values \<and> successively (\<lambda>a b. a < b) values"

definition job_key :: "JobEvidence \<Rightarrow> string" where
  "job_key j = kind_text (je_executionKind j) @ [CHR 0x00] @ je_jobName j"

definition evidence_canonical :: "NativeProjectRootPromotionEvidence \<Rightarrow> bool" where
  "evidence_canonical e \<longleftrightarrow> sorted_unique (pe_requiredReviewerIds e)
     \<and> sorted_unique (map ae_reviewerId (pe_approvals e)) \<and> sorted_unique (map job_key (pe_jobs e))
     \<and> distinct (map ae_approvalDigest (pe_approvals e)) \<and> distinct (map je_evidenceDigest (pe_jobs e))
     \<and> pe_requiredReviewerIds e = map ae_reviewerId (pe_approvals e)"

definition parseEvidence :: "json \<Rightarrow> NativeProjectRootPromotionEvidence option" where
  "parseEvidence v = do { e \<leftarrow> promotionEvidence v; guardO (evidence_canonical e); Some e }"

definition nativeProjectRootPromotionEvidenceDigest ::
  "project_runtime \<Rightarrow> NativeProjectRootPromotionEvidence \<Rightarrow> string" where
  "nativeProjectRootPromotionEvidenceDigest rt e =
     domainDigest rt ''dim-native-root-promotion-evidence-v1'' (evidence_json e)"

section \<open>Transitions\<close>

definition transition_identity :: "NativeProjectRootPromotionTransition \<Rightarrow> json" where
  "transition_identity t = JObj [(''projectId'', JStr (pt_projectId t)), (''importNonce'', JStr (pt_importNonce t)),
     (''sequence'', JInt (pt_sequence t)), (''reviewId'', JStr (pt_reviewId t)),
     (''protectedRef'', JStr (pt_protectedRef t)), (''proposalRef'', JStr (pt_proposalRef t)),
     (''expectedCommit'', JStr (pt_expectedCommit t)), (''expectedTree'', JStr (pt_expectedTree t)),
     (''candidateCommit'', JStr (pt_candidateCommit t)), (''candidateTree'', JStr (pt_candidateTree t)),
     (''decisionGeneration'', JStr (pt_decisionGeneration t)), (''policyDigest'', JStr (pt_policyDigest t)),
     (''policyRevision'', JStr (pt_policyRevision t)), (''requiredReviewRevision'', JStr (pt_requiredReviewRevision t)),
     (''requiredJobSetRevision'', JStr (pt_requiredJobSetRevision t)), (''evidenceDigest'', JStr (pt_evidenceDigest t))]"

definition nativeProjectRootPromotionTransitionId ::
  "project_runtime \<Rightarrow> NativeProjectRootPromotionTransition \<Rightarrow> string" where
  "nativeProjectRootPromotionTransitionId rt t =
     domainDigest rt ''dim-native-root-promotion-transition-v1'' (transition_identity t)"

text \<open>\<open>/^refs\/heads\/proposals\/[A-Za-z0-9_-]{43}\/[A-Za-z0-9._/-]+$/\<close>\<close>

definition proposalPattern :: rexp where
  "proposalPattern = Seq (lit ''refs/heads/proposals/'')
     (Seq (Rep (Cls (\<lambda>c. alnum c \<or> c = CHR ''_'' \<or> c = CHR ''-'')) 43 43)
     (Seq (lit ''/'') (plus_rexp (Cls (\<lambda>c. alnum c \<or> punct3 c \<or> c = CHR ''/'')))))"

definition proposal_ref_ok :: "string \<Rightarrow> bool" where
  "proposal_ref_ok v \<longleftrightarrow> 1 \<le> length v \<and> length v \<le> 1024 \<and> matches proposalPattern v
     \<and> \<not> str_includes ''//'' v \<and> \<not> str_includes ''..'' v \<and> \<not> str_includes ''/.'' v
     \<and> \<not> endsWith ''/'' v \<and> \<not> endsWith ''.'' v \<and> \<not> endsWith ''.lock'' v"

definition transition_row_ok :: "project_runtime \<Rightarrow> transition_row \<Rightarrow> bool" where
  "transition_row_ok rt row \<longleftrightarrow> matches projectPattern (tr_project_id row) \<and> matches hex64Pattern (tr_transition_id row)
     \<and> zod_uuid rt (tr_import_nonce row) \<and> 0 < tr_sequence row \<and> tr_sequence row \<le> 9007199254740991
     \<and> matches hex64Pattern (tr_review_id row) \<and> 1 \<le> length (tr_protected_ref row)
     \<and> length (tr_protected_ref row) \<le> 1024 \<and> proposal_ref_ok (tr_proposal_ref row)
     \<and> matches objectIdPattern (tr_expected_commit row) \<and> matches objectIdPattern (tr_expected_tree row)
     \<and> matches objectIdPattern (tr_candidate_commit row) \<and> matches objectIdPattern (tr_candidate_tree row)
     \<and> matches hex64Pattern (tr_decision_generation row) \<and> matches hex64Pattern (tr_policy_sha256 row)
     \<and> matches hex64Pattern (tr_policy_revision row) \<and> matches hex64Pattern (tr_required_review_revision row)
     \<and> matches hex64Pattern (tr_required_job_set_revision row) \<and> matches hex64Pattern (tr_evidence_sha256 row)"

definition transition_of :: "transition_row \<Rightarrow> NativeProjectRootPromotionEvidence \<Rightarrow> NativeProjectRootPromotionTransition" where
  "transition_of row e = \<lparr>pt_projectId = tr_project_id row, pt_transitionId = tr_transition_id row,
     pt_importNonce = tr_import_nonce row, pt_sequence = tr_sequence row, pt_reviewId = tr_review_id row,
     pt_protectedRef = tr_protected_ref row, pt_proposalRef = tr_proposal_ref row,
     pt_expectedCommit = tr_expected_commit row, pt_expectedTree = tr_expected_tree row,
     pt_candidateCommit = tr_candidate_commit row, pt_candidateTree = tr_candidate_tree row,
     pt_decisionGeneration = tr_decision_generation row, pt_policyDigest = tr_policy_sha256 row,
     pt_policyRevision = tr_policy_revision row, pt_requiredReviewRevision = tr_required_review_revision row,
     pt_requiredJobSetRevision = tr_required_job_set_revision row, pt_evidence = e,
     pt_evidenceDigest = tr_evidence_sha256 row\<rparr>"

definition parseNativeProjectRootPromotionRow ::
  "project_runtime \<Rightarrow> transition_row \<Rightarrow> NativeProjectRootPromotionTransition option" where
  "parseNativeProjectRootPromotionRow rt row = do {
     guardO (transition_row_ok rt row);
     evidence \<leftarrow> parseEvidence (tr_evidence_json row);
     guardO (evidence_json evidence = tr_evidence_json row
       \<and> nativeProjectRootPromotionEvidenceDigest rt evidence = tr_evidence_sha256 row);
     let transition = transition_of row evidence;
     guardO (pe_reviewId evidence = pt_reviewId transition
       \<and> nativeProjectRootPromotionTransitionId rt transition = pt_transitionId transition);
     guardO (card {length (pt_expectedCommit transition), length (pt_expectedTree transition),
       length (pt_candidateCommit transition), length (pt_candidateTree transition)} = 1);
     Some transition }"

section \<open>The chain\<close>

definition requirePromotableImport ::
  "NativeProjectRootImport option \<Rightarrow> (project_error, AuthoritativeNativeProjectRootImport) result" where
  "requirePromotableImport imported =
     (case imported of
        None \<Rightarrow> Inl PromotionRequiresImport
      | Some i \<Rightarrow> (case (ni_phase i, ni_policy i, ni_resolvedTree i) of
          (RootImported, AuthoritativeV1 policy, Some tree) \<Rightarrow>
            Inr \<lparr>ai_projectId = ni_projectId i, ai_importNonce = ni_importNonce i, ai_protectedRef = ni_protectedRef i,
              ai_expectedCommit = ni_expectedCommit i, ai_resolvedTree = tree, ai_policyDigest = ni_policyDigest i,
              ai_policy = policy\<rparr>
        | _ \<Rightarrow> Inl PromotionRequiresImport))"

definition initialHead ::
  "AuthoritativeNativeProjectRootImport \<Rightarrow> (project_error, NativeProjectRootCurrentHead) result" where
  "initialHead imported =
     (if length (ai_expectedCommit imported) \<noteq> length (ai_resolvedTree imported) then Inl PromotionFormats
      else Inr \<lparr>ch_projectId = ai_projectId imported, ch_sequence = 0, ch_protectedRef = ai_protectedRef imported,
        ch_commit = ai_expectedCommit imported, ch_tree = ai_resolvedTree imported,
        ch_policyDigest = ai_policyDigest imported\<rparr>)"

text \<open>\<open>localeCompare\<close> orders the two kinds and the job names, which are letters, digits and hyphens in lower
  case, as their code units do.\<close>

definition expectedJobs :: "NativeImportedRootPolicy \<Rightarrow> (execution_kind \<times> string) list" where
  "expectedJobs policy = sort_key (\<lambda>(kind, name). (kind_text kind, name))
     (map (\<lambda>j. (rj_kind j, rj_name j)) (ip_requiredJobs policy))"

definition actualJobs :: "NativeProjectRootPromotionTransition \<Rightarrow> (execution_kind \<times> string) list" where
  "actualJobs t = map (\<lambda>j. (je_executionKind j, je_jobName j)) (pe_jobs (pt_evidence t))"

definition next_transition ::
  "AuthoritativeNativeProjectRootImport \<Rightarrow> NativeProjectRootCurrentHead \<Rightarrow> NativeProjectRootPromotionTransition \<Rightarrow>
     string set \<Rightarrow> bool" where
  "next_transition imported current t gens \<longleftrightarrow> pt_projectId t = ai_projectId imported
     \<and> pt_importNonce t = ai_importNonce imported \<and> pt_sequence t = ch_sequence current + 1
     \<and> pt_expectedCommit t = ch_commit current \<and> pt_expectedTree t = ch_tree current
     \<and> pt_protectedRef t = ai_protectedRef imported \<and> pt_policyDigest t = ai_policyDigest imported
     \<and> pt_policyRevision t = ip_policyRevision (ai_policy imported)
     \<and> pt_requiredReviewRevision t = ip_requiredReviewRevision (ai_policy imported)
     \<and> pt_requiredJobSetRevision t = ip_requiredJobSetRevision (ai_policy imported)
     \<and> pt_decisionGeneration t \<in> gens \<and> actualJobs t = expectedJobs (ai_policy imported)
     \<and> list_all (\<lambda>reviewer. reviewer \<in> set (pe_requiredReviewerIds (pt_evidence t)))
         (ip_requiredReviewerIds (ai_policy imported))"

definition assertNextTransition ::
  "AuthoritativeNativeProjectRootImport \<Rightarrow> NativeProjectRootCurrentHead \<Rightarrow> NativeProjectRootPromotionTransition \<Rightarrow>
     string set \<Rightarrow> (project_error, unit) result" where
  "assertNextTransition imported current t gens = guardR PromotionChain (next_transition imported current t gens)"

definition advance :: "NativeProjectRootCurrentHead \<Rightarrow> NativeProjectRootPromotionTransition \<Rightarrow> NativeProjectRootCurrentHead" where
  "advance current t = current\<lparr>ch_sequence := pt_sequence t, ch_commit := pt_candidateCommit t, ch_tree := pt_candidateTree t\<rparr>"

fun fold_head ::
  "AuthoritativeNativeProjectRootImport \<Rightarrow> string set \<Rightarrow> NativeProjectRootCurrentHead \<Rightarrow>
     NativeProjectRootPromotionTransition list \<Rightarrow> (project_error, NativeProjectRootCurrentHead) result" where
  "fold_head imported gens current [] = Inr current"
| "fold_head imported gens current (t # ts) =
     bindR (assertNextTransition imported current t gens) (\<lambda>_. fold_head imported gens (advance current t) ts)"

definition foldCurrentHead ::
  "AuthoritativeNativeProjectRootImport \<Rightarrow> NativeProjectRootPromotionTransition list \<Rightarrow> string set \<Rightarrow>
     (project_error, NativeProjectRootCurrentHead) result" where
  "foldCurrentHead imported transitions gens =
     bindR (initialHead imported) (\<lambda>current. fold_head imported gens current transitions)"

section \<open>Statements on the tables\<close>

definition selectTransitions ::
  "project_runtime \<Rightarrow> transition_row list \<Rightarrow> string option \<Rightarrow>
     (project_error, NativeProjectRootPromotionTransition list) result" where
  "selectTransitions rt rows projectId =
     mapR (\<lambda>row. of_option PromotionRow (parseNativeProjectRootPromotionRow rt row))
       (sort_key (\<lambda>r. (tr_project_id r, tr_sequence r))
         (filter (\<lambda>r. case projectId of None \<Rightarrow> True | Some p \<Rightarrow> tr_project_id r = p) rows))"

definition assertAllTransitionsVerified :: "project_db \<Rightarrow> string option \<Rightarrow> (project_error, unit) result" where
  "assertAllTransitionsVerified db projectId =
     guardR PromotionUnverified (list_all (\<lambda>r. tr_authorization_verified r
       \<or> (case projectId of None \<Rightarrow> False | Some p \<Rightarrow> tr_project_id r \<noteq> p)) (pd_finalized db @ pd_intent db))"

definition row_of :: "NativeProjectRootPromotionTransition \<Rightarrow> transition_row" where
  "row_of t = \<lparr>tr_project_id = pt_projectId t, tr_transition_id = pt_transitionId t, tr_import_nonce = pt_importNonce t,
     tr_sequence = pt_sequence t, tr_review_id = pt_reviewId t, tr_protected_ref = pt_protectedRef t,
     tr_proposal_ref = pt_proposalRef t, tr_expected_commit = pt_expectedCommit t, tr_expected_tree = pt_expectedTree t,
     tr_candidate_commit = pt_candidateCommit t, tr_candidate_tree = pt_candidateTree t,
     tr_decision_generation = pt_decisionGeneration t, tr_policy_sha256 = pt_policyDigest t,
     tr_policy_revision = pt_policyRevision t, tr_required_review_revision = pt_requiredReviewRevision t,
     tr_required_job_set_revision = pt_requiredJobSetRevision t, tr_evidence_json = evidence_json (pt_evidence t),
     tr_evidence_sha256 = pt_evidenceDigest t, tr_authorization_verified = True\<rparr>"

text \<open>The value checks and foreign keys that both tables share.\<close>

definition transition_checks :: "project_db \<Rightarrow> transition_row \<Rightarrow> bool" where
  "transition_checks db row \<longleftrightarrow> tr_project_id row \<in> im_project_id ` set (pd_import db)
     \<and> matches hex64Pattern (tr_transition_id row) \<and> length (tr_import_nonce row) = 36
     \<and> tr_import_nonce row \<in> im_import_nonce ` set (pd_import db) \<and> 1 \<le> tr_sequence row
     \<and> matches hex64Pattern (tr_review_id row) \<and> 1 \<le> length (tr_protected_ref row)
     \<and> length (tr_protected_ref row) \<le> 1024 \<and> 1 \<le> length (tr_proposal_ref row) \<and> length (tr_proposal_ref row) \<le> 1024
     \<and> matches objectIdPattern (tr_expected_commit row) \<and> matches objectIdPattern (tr_expected_tree row)
     \<and> matches objectIdPattern (tr_candidate_commit row) \<and> matches objectIdPattern (tr_candidate_tree row)
     \<and> tr_decision_generation row \<in> generations db \<and> matches hex64Pattern (tr_decision_generation row)
     \<and> matches hex64Pattern (tr_policy_sha256 row) \<and> matches hex64Pattern (tr_policy_revision row)
     \<and> matches hex64Pattern (tr_required_review_revision row) \<and> matches hex64Pattern (tr_required_job_set_revision row)
     \<and> matches hex64Pattern (tr_evidence_sha256 row)"

definition insert_intent :: "transition_row \<Rightarrow> project_db \<Rightarrow> (project_error, project_db) result" where
  "insert_intent row db =
     (if transition_checks db row \<and> tr_project_id row \<notin> tr_project_id ` set (pd_intent db)
        \<and> tr_transition_id row \<notin> tr_transition_id ` set (pd_intent db)
      then Inr (db\<lparr>pd_intent := pd_intent db @ [row]\<rparr>) else Inl DbConstraint)"

definition insert_finalized :: "transition_row \<Rightarrow> project_db \<Rightarrow> (project_error, project_db) result" where
  "insert_finalized row db =
     (if transition_checks db row \<and> tr_transition_id row \<notin> tr_transition_id ` set (pd_finalized db)
        \<and> (tr_project_id row, tr_sequence row) \<notin> (\<lambda>r. (tr_project_id r, tr_sequence r)) ` set (pd_finalized db)
        \<and> (tr_project_id row, tr_review_id row) \<notin> (\<lambda>r. (tr_project_id r, tr_review_id r)) ` set (pd_finalized db)
      then Inr (db\<lparr>pd_finalized := pd_finalized db @ [row]\<rparr>) else Inl DbConstraint)"

section \<open>Operations\<close>

definition readNativeProjectRootCurrentHeadFromDatabase ::
  "project_runtime \<Rightarrow> string \<Rightarrow> project_db \<Rightarrow> (project_error, NativeProjectRootCurrentHead) result" where
  "readNativeProjectRootCurrentHeadFromDatabase rt projectId db =
     bindR (readNativeProjectRootImportsFromDatabase rt db) (\<lambda>imports.
     bindR (requirePromotableImport (find_row (\<lambda>i. ni_projectId i = projectId) imports)) (\<lambda>imported.
     bindR (assertAllTransitionsVerified db (Some projectId)) (\<lambda>_.
     bindR (selectTransitions rt (pd_intent db) (Some projectId)) (\<lambda>intents.
     bindR (selectTransitions rt (pd_finalized db) (Some projectId)) (\<lambda>finalized.
     bindR (foldCurrentHead imported finalized (generations db)) (\<lambda>current.
     case intents of
       [] \<Rightarrow> Inr current
     | intent # _ \<Rightarrow> bindR (assertNextTransition imported current intent (generations db)) (\<lambda>_. Inl PromotionUnresolved)))))))"

definition saveNativeProjectRootPromotionIntent ::
  "project_runtime \<Rightarrow> NativeProjectRootPromotionTransition \<Rightarrow> project_db \<Rightarrow> (project_error, project_db) result" where
  "saveNativeProjectRootPromotionIntent rt transition db =
     bindR (selectTransitions rt (pd_intent db) (Some (pt_projectId transition))) (\<lambda>intents.
     case intents of
       existing # _ \<Rightarrow> if pt_transitionId existing \<noteq> pt_transitionId transition then Inl PromotionIntentConflicts else Inr db
     | [] \<Rightarrow> insert_intent (row_of transition) db)"

definition finalizeNativeProjectRootPromotion ::
  "project_runtime \<Rightarrow> NativeProjectRootPromotionTransition \<Rightarrow> project_db \<Rightarrow> (project_error, project_db) result" where
  "finalizeNativeProjectRootPromotion rt transition db =
     bindR (selectTransitions rt (pd_intent db) (Some (pt_projectId transition))) (\<lambda>intents.
     case intents of
       [] \<Rightarrow> Inl PromotionIntentMissing
     | intent # _ \<Rightarrow>
         if pt_transitionId intent \<noteq> pt_transitionId transition then Inl PromotionIntentMissing
         else bindR (insert_finalized (row_of transition) db) (\<lambda>db'.
           Inr (db'\<lparr>pd_intent := delete_rows (\<lambda>r. tr_project_id r = pt_projectId transition) (pd_intent db')\<rparr>)))"

definition readNativeProjectRootPromotionIntents ::
  "project_runtime \<Rightarrow> project_db \<Rightarrow> (project_error, NativeProjectRootPromotionTransition list) result" where
  "readNativeProjectRootPromotionIntents rt db =
     bindR (assertAllTransitionsVerified db None) (\<lambda>_. selectTransitions rt (pd_intent db) None)"

definition readNativeProjectRootPromotionFinalized ::
  "project_runtime \<Rightarrow> string option \<Rightarrow> project_db \<Rightarrow> (project_error, NativeProjectRootPromotionTransition list) result" where
  "readNativeProjectRootPromotionFinalized rt projectId db =
     bindR (assertAllTransitionsVerified db projectId) (\<lambda>_. selectTransitions rt (pd_finalized db) projectId)"

text \<open>The validation of all rows when the bundle starts: one chain per Project that has a finalised
  transition, and one continuation per intent.\<close>

definition project_head ::
  "project_runtime \<Rightarrow> project_db \<Rightarrow> NativeProjectRootImport list \<Rightarrow> NativeProjectRootPromotionTransition list \<Rightarrow>
     string \<Rightarrow> (project_error, NativeProjectRootCurrentHead) result" where
  "project_head rt db imports finalized projectId =
     bindR (requirePromotableImport (find_row (\<lambda>i. ni_projectId i = projectId) imports)) (\<lambda>imported.
     foldCurrentHead imported (filter (\<lambda>t. pt_projectId t = projectId) finalized) (generations db))"

definition assert_intent ::
  "project_runtime \<Rightarrow> project_db \<Rightarrow> NativeProjectRootImport list \<Rightarrow> NativeProjectRootCurrentHead list \<Rightarrow>
     NativeProjectRootPromotionTransition \<Rightarrow> (project_error, unit) result" where
  "assert_intent rt db imports heads intent =
     bindR (requirePromotableImport (find_row (\<lambda>i. ni_projectId i = pt_projectId intent) imports)) (\<lambda>imported.
     bindR (case find_row (\<lambda>h. ch_projectId h = pt_projectId intent) heads of
              None \<Rightarrow> initialHead imported | Some h \<Rightarrow> Inr h) (\<lambda>current.
     assertNextTransition imported current intent (generations db)))"

definition assertNativeProjectRootPromotionRows :: "project_runtime \<Rightarrow> project_db \<Rightarrow> (project_error, unit) result" where
  "assertNativeProjectRootPromotionRows rt db =
     bindR (assertAllTransitionsVerified db None) (\<lambda>_.
     bindR (assertNativeProjectRootImportRows rt db) (\<lambda>imports.
     bindR (selectTransitions rt (pd_finalized db) None) (\<lambda>finalized.
     bindR (mapR (project_head rt db imports finalized) (remdups (map pt_projectId finalized))) (\<lambda>heads.
     bindR (selectTransitions rt (pd_intent db) None) (\<lambda>intents.
     bindR (mapR (assert_intent rt db imports heads) intents) (\<lambda>_. Inr ()))))))"

end
