(* ===== verification/Project_Invariant.thy ===== *)
theory Project_Invariant
  imports Project_Promotion
begin

text \<open>
  The invariant of the Project database and what it gives: the validation that runs when the bundle
  starts accepts the database. Every stored row parses, every import belongs to a prepared registration of
  the same owner, and every Project with a transition has an authoritative import from which its finalised
  transitions form a chain that its intent, if any, continues.
\<close>

section \<open>Definitions\<close>

definition stored_import :: "project_runtime \<Rightarrow> string \<Rightarrow> project_db \<Rightarrow> NativeProjectRootImport option" where
  "stored_import rt p db =
     Option.bind (find_row (\<lambda>r. im_project_id r = p) (pd_import db)) (parseNativeProjectRootImportRow rt)"

definition promotable ::
  "project_runtime \<Rightarrow> string \<Rightarrow> project_db \<Rightarrow> (project_error, AuthoritativeNativeProjectRootImport) result" where
  "promotable rt p db = requirePromotableImport (stored_import rt p db)"

definition head_of :: "project_runtime \<Rightarrow> string \<Rightarrow> project_db \<Rightarrow> (project_error, NativeProjectRootCurrentHead) result" where
  "head_of rt p db = bindR (promotable rt p db) (\<lambda>imported.
     bindR (selectTransitions rt (pd_finalized db) (Some p)) (\<lambda>ts. foldCurrentHead imported ts (generations db)))"

definition transition_projects :: "project_db \<Rightarrow> string set" where
  "transition_projects db = tr_project_id ` (set (pd_intent db) \<union> set (pd_finalized db))"

definition intents_continue ::
  "project_runtime \<Rightarrow> string \<Rightarrow> project_db \<Rightarrow> AuthoritativeNativeProjectRootImport \<Rightarrow> NativeProjectRootCurrentHead \<Rightarrow> bool" where
  "intents_continue rt p db imported h \<longleftrightarrow> (\<forall>row\<in>set (pd_intent db). tr_project_id row = p \<longrightarrow>
     (\<exists>t. parseNativeProjectRootPromotionRow rt row = Some t \<and> next_transition imported h t (generations db)))"

definition chain_ok :: "project_runtime \<Rightarrow> project_db \<Rightarrow> string \<Rightarrow> bool" where
  "chain_ok rt db p \<longleftrightarrow> (\<exists>imported h. promotable rt p db = Inr imported \<and> head_of rt p db = Inr h
     \<and> intents_continue rt p db imported h)"

definition prepared :: "project_runtime \<Rightarrow> project_db \<Rightarrow> import_row \<Rightarrow> bool" where
  "prepared rt db row \<longleftrightarrow> (\<exists>r. find_row (\<lambda>r. rg_project_id r = im_project_id row) (pd_registration db) = Some r
     \<and> parseRegistrationRow rt r \<noteq> None \<and> rg_phase r = RootPrepared \<and> rg_owner_host_id r = im_owner_host_id row
     \<and> rg_service_id r = im_service_id row \<and> rg_root_repository_id r = im_root_repository_id row)"

definition project_keys :: "project_db \<Rightarrow> bool" where
  "project_keys db \<longleftrightarrow> unique_by ac_generation_id (pd_activation db) \<and> unique_by rg_project_id (pd_registration db)
     \<and> unique_by im_project_id (pd_import db) \<and> unique_by tr_project_id (pd_intent db)
     \<and> unique_by (\<lambda>r. (tr_project_id r, tr_sequence r)) (pd_finalized db)"

definition transition_stored :: "project_runtime \<Rightarrow> transition_row \<Rightarrow> bool" where
  "transition_stored rt row \<longleftrightarrow> tr_authorization_verified row \<and> parseNativeProjectRootPromotionRow rt row \<noteq> None"

definition project_rows :: "project_runtime \<Rightarrow> project_db \<Rightarrow> bool" where
  "project_rows rt db \<longleftrightarrow> (\<forall>r\<in>set (pd_registration db). parseRegistrationRow rt r \<noteq> None)
     \<and> (\<forall>r\<in>set (pd_import db). parseNativeProjectRootImportRow rt r \<noteq> None \<and> im_generation_id r \<in> generations db
          \<and> prepared rt db r)
     \<and> (\<forall>r\<in>set (pd_finalized db) \<union> set (pd_intent db). transition_stored rt r)"

definition project_inv :: "project_runtime \<Rightarrow> project_db \<Rightarrow> bool" where
  "project_inv rt db \<longleftrightarrow> project_keys db \<and> project_rows rt db \<and> (\<forall>p\<in>transition_projects db. chain_ok rt db p)"

lemma project_invI:
  "project_keys db \<Longrightarrow> project_rows rt db \<Longrightarrow> (\<And>p. p \<in> transition_projects db \<Longrightarrow> chain_ok rt db p) \<Longrightarrow> project_inv rt db"
  by (simp add: project_inv_def)

section \<open>What parsed rows keep\<close>

lemma parse_import_fields:
  assumes "parseNativeProjectRootImportRow rt row = Some i"
  shows "ni_projectId i = im_project_id row" "ni_phase i = im_phase row" "ni_importNonce i = im_import_nonce row"
    "ni_generationId i = im_generation_id row" "ni_ownerHostId i = im_owner_host_id row"
    "ni_serviceId i = im_service_id row" "ni_rootRepositoryId i = im_root_repository_id row"
    "ni_protectedRef i = im_protected_ref row" "ni_expectedCommit i = im_expected_commit row"
    "ni_bundleDigest i = im_bundle_sha256 row" "ni_bundleSize i = im_bundle_size row"
    "ni_resolvedTree i = im_resolved_tree row" "stored_json (ni_policy i) = im_policy_json row"
    "ni_policyDigest i = im_policy_sha256 row"
  using assms by (auto simp: parseNativeProjectRootImportRow_def opt_conv Let_def)

lemma parse_registration_fields:
  assumes "parseRegistrationRow rt row = Some r"
  shows "re_projectId r = rg_project_id row" "re_phase r = rg_phase row" "re_ownerHostId r = rg_owner_host_id row"
    "re_serviceId r = rg_service_id row" "re_rootRepositoryId r = rg_root_repository_id row"
  using assms by (auto simp: parseRegistrationRow_def opt_conv)

lemma parse_transition_fields:
  assumes "parseNativeProjectRootPromotionRow rt row = Some t"
  shows "pt_projectId t = tr_project_id row" "pt_sequence t = tr_sequence row" "pt_transitionId t = tr_transition_id row"
  using assms by (auto simp: parseNativeProjectRootPromotionRow_def opt_conv Let_def transition_of_def)

section \<open>Lists of parsed rows\<close>

lemma find_row_sort:
  assumes "unique_by key rows"
  shows "find_row (\<lambda>r. key r = k) (sort_key f rows) = find_row (\<lambda>r. key r = k) rows"
proof (cases "find_row (\<lambda>r. key r = k) rows")
  case None
  then have "find_row (\<lambda>r. key r = k) (sort_key f rows) = None" unfolding find_row_None by simp
  with None show ?thesis by simp
next
  case (Some r)
  then have r: "r \<in> set rows" "key r = k" by (auto dest: find_row_Some)
  have "unique_by key (sort_key f rows)" using assms by (simp add: distinct_map)
  with r have "find_row (\<lambda>x. key x = key r) (sort_key f rows) = Some r" by (intro find_row_unique) simp_all
  with r Some show ?thesis by simp
qed

lemma find_row_parsed:
  assumes "list_all2 (\<lambda>r i. parse r = Some i) rows is" "\<And>r i. parse r = Some i \<Longrightarrow> key' i = key r"
  shows "find_row (\<lambda>i. key' i = k) is = Option.bind (find_row (\<lambda>r. key r = k) rows) parse"
  using assms(1) by (induction rule: list_all2_induct) (auto simp: assms(2))

lemma mapR_filter:
  assumes "mapR f xs = Inr ys" "\<And>x y. f x = Inr y \<Longrightarrow> Q y = P x"
  shows "mapR f (filter P xs) = Inr (filter Q ys)"
  using assms(1)
proof (induction xs arbitrary: ys)
  case (Cons x xs)
  then obtain y zs where "f x = Inr y" "mapR f xs = Inr zs" "ys = y # zs" by (auto simp: bindR_eq_Inr)
  with Cons.IH assms(2)[of x y] show ?case by auto
qed simp

lemma select_project:
  assumes "selectTransitions rt rows None = Inr ts"
  shows "selectTransitions rt rows (Some p) = Inr (filter (\<lambda>t. pt_projectId t = p) ts)"
proof -
  let ?f = "\<lambda>row. of_option PromotionRow (parseNativeProjectRootPromotionRow rt row)"
  let ?k = "\<lambda>r. (tr_project_id r, tr_sequence r)"
  from assms have "mapR ?f (sort_key ?k rows) = Inr ts" by (simp add: selectTransitions_def)
  from mapR_filter[OF this, where P = "\<lambda>r. tr_project_id r = p" and Q = "\<lambda>t. pt_projectId t = p"]
  have "mapR ?f (filter (\<lambda>r. tr_project_id r = p) (sort_key ?k rows)) = Inr (filter (\<lambda>t. pt_projectId t = p) ts)"
    by (simp add: parse_transition_fields)
  then show ?thesis by (simp add: selectTransitions_def filter_sort)
qed

lemma select_ok:
  assumes "\<And>r. r \<in> set rows \<Longrightarrow> parseNativeProjectRootPromotionRow rt r \<noteq> None"
  obtains ts where "selectTransitions rt rows p = Inr ts"
proof -
  have "\<exists>ts. selectTransitions rt rows p = Inr ts"
    unfolding selectTransitions_def by (rule mapR_okI) (use assms in force)
  with that show thesis by blast
qed

lemma select_set:
  assumes "selectTransitions rt rows p = Inr ts"
  shows "set ts = {t. \<exists>r\<in>set rows. (case p of None \<Rightarrow> True | Some q \<Rightarrow> tr_project_id r = q)
     \<and> parseNativeProjectRootPromotionRow rt r = Some t}"
proof -
  let ?k = "\<lambda>r. (tr_project_id r, tr_sequence r)" and ?P = "\<lambda>r. case p of None \<Rightarrow> True | Some q \<Rightarrow> tr_project_id r = q"
  from assms have l: "list_all2 (\<lambda>r t. parseNativeProjectRootPromotionRow rt r = Some t) (sort_key ?k (filter ?P rows)) ts"
    by (simp add: selectTransitions_def mapR_eq_Inr)
  have "t \<in> set ts \<longleftrightarrow> (\<exists>r\<in>set (sort_key ?k (filter ?P rows)). parseNativeProjectRootPromotionRow rt r = Some t)" for t
    using l
  proof (induction rule: list_all2_induct)
    case (Cons x xs y ys)
    then show ?case by auto
  qed simp
  then show ?thesis by auto
qed

section \<open>The validation accepts the database\<close>

lemma assert_import_row_ok:
  assumes "parseNativeProjectRootImportRow rt row = Some i" "im_generation_id row \<in> generations db" "prepared rt db row"
  shows "assert_import_row rt db row = Inr i"
proof -
  note f = parse_import_fields[OF assms(1)]
  from assms(3) obtain r x where r: "find_row (\<lambda>r. rg_project_id r = im_project_id row) (pd_registration db) = Some r"
      "parseRegistrationRow rt r = Some x" "rg_phase r = RootPrepared" "rg_owner_host_id r = im_owner_host_id row"
      "rg_service_id r = im_service_id row" "rg_root_repository_id r = im_root_repository_id row"
    by (auto simp: prepared_def)
  have "find_activation (im_generation_id row) db \<noteq> None"
    using assms(2) by (auto simp: find_activation_def find_row_None generations_def)
  with r show ?thesis
    by (simp add: assert_import_row_def assms(1) assertActivatedGeneration_def f selectRegistration_def
        assertPreparedRegistration_def parse_registration_fields[OF r(2)])
qed

lemma imports_ok:
  assumes "project_rows rt db" "project_keys db"
  obtains ims where "assertNativeProjectRootImportRows rt db = Inr ims"
    "\<And>p. find_row (\<lambda>i. ni_projectId i = p) ims = stored_import rt p db"
proof -
  have all: "\<exists>i. parseNativeProjectRootImportRow rt r = Some i \<and> assert_import_row rt db r = Inr i"
    if "r \<in> set (pd_import db)" for r
    using assms(1) that assert_import_row_ok unfolding project_rows_def by blast
  have "\<exists>ims. assertNativeProjectRootImportRows rt db = Inr ims"
    unfolding assertNativeProjectRootImportRows_def by (rule mapR_okI) (use all in auto)
  then obtain ims where i: "assertNativeProjectRootImportRows rt db = Inr ims" by blast
  then have "list_all2 (\<lambda>r i. assert_import_row rt db r = Inr i) (sort_key im_project_id (pd_import db)) ims"
    by (simp add: assertNativeProjectRootImportRows_def mapR_eq_Inr)
  then have l: "list_all2 (\<lambda>r i. parseNativeProjectRootImportRow rt r = Some i) (sort_key im_project_id (pd_import db)) ims"
  proof (rule list.rel_mono_strong)
    fix r i
    assume "r \<in> set (sort_key im_project_id (pd_import db))" "assert_import_row rt db r = Inr i"
    with all show "parseNativeProjectRootImportRow rt r = Some i" by force
  qed
  have "find_row (\<lambda>i. ni_projectId i = p) ims = stored_import rt p db" for p
    using find_row_parsed[OF l, where key = im_project_id and key' = ni_projectId and k = p] assms(2)
    by (simp add: parse_import_fields stored_import_def find_row_sort project_keys_def)
  with i that show thesis by blast
qed

lemma read_imports:
  assumes "project_rows rt db" "project_keys db"
  obtains ims where "readNativeProjectRootImportsFromDatabase rt db = Inr ims"
    "\<And>p. find_row (\<lambda>i. ni_projectId i = p) ims = stored_import rt p db"
proof -
  have "\<exists>ims. readNativeProjectRootImportsFromDatabase rt db = Inr ims"
    unfolding readNativeProjectRootImportsFromDatabase_def
    by (rule mapR_okI) (use assms(1) in \<open>auto simp: project_rows_def\<close>)
  then obtain ims where i: "readNativeProjectRootImportsFromDatabase rt db = Inr ims" by blast
  then have l: "list_all2 (\<lambda>r i. parseNativeProjectRootImportRow rt r = Some i) (sort_key im_project_id (pd_import db)) ims"
    by (simp add: readNativeProjectRootImportsFromDatabase_def mapR_eq_Inr)
  have "find_row (\<lambda>i. ni_projectId i = p) ims = stored_import rt p db" for p
    using find_row_parsed[OF l, where key = im_project_id and key' = ni_projectId and k = p] assms(2)
    by (simp add: parse_import_fields stored_import_def find_row_sort project_keys_def)
  with i that show thesis by blast
qed

lemma project_head_eq:
  assumes "\<And>p. find_row (\<lambda>i. ni_projectId i = p) ims = stored_import rt p db"
    "selectTransitions rt (pd_finalized db) None = Inr finalized"
  shows "project_head rt db ims finalized p = head_of rt p db"
  using select_project[OF assms(2), of p] by (simp add: project_head_def head_of_def promotable_def assms(1))

lemma fold_head_projectId: "fold_head imported gens current ts = Inr h \<Longrightarrow> ch_projectId h = ch_projectId current"
  by (induction ts arbitrary: current) (auto simp: assertNextTransition_def advance_def)

lemma stored_import_projectId: "stored_import rt p db = Some i \<Longrightarrow> ni_projectId i = p"
  by (auto simp: stored_import_def bind_eq_Some_conv parse_import_fields dest: find_row_Some)

lemma promotable_projectId: "promotable rt p db = Inr imported \<Longrightarrow> ai_projectId imported = p"
  by (auto simp: promotable_def requirePromotableImport_def stored_import_projectId
      split: option.splits import_phase.splits StoredImportedRootPolicy.splits)

lemma head_projectId: "head_of rt p db = Inr h \<Longrightarrow> ch_projectId h = p"
  by (auto simp: head_of_def foldCurrentHead_def bindR_eq_Inr initialHead_def promotable_projectId
      dest!: fold_head_projectId split: if_splits)

lemma list_all2_left: "list_all2 P xs ys \<Longrightarrow> x \<in> set xs \<Longrightarrow> \<exists>y\<in>set ys. P x y"
  by (induction rule: list_all2_induct) auto

lemma list_all2_right: "list_all2 P xs ys \<Longrightarrow> y \<in> set ys \<Longrightarrow> \<exists>x\<in>set xs. P x y"
  by (induction rule: list_all2_induct) auto

lemma found_head:
  assumes "selectTransitions rt (pd_finalized db) None = Inr finalized"
    "list_all2 (\<lambda>p h. head_of rt p db = Inr h) (remdups (map pt_projectId finalized)) hs"
    "promotable rt p db = Inr imported" "head_of rt p db = Inr h'"
  shows "(case find_row (\<lambda>h. ch_projectId h = p) hs of None \<Rightarrow> initialHead imported | Some h \<Rightarrow> Inr h) = Inr h'"
proof (cases "find_row (\<lambda>h. ch_projectId h = p) hs")
  case None
  have "p \<notin> set (map pt_projectId finalized)"
  proof
    assume "p \<in> set (map pt_projectId finalized)"
    then obtain h where "h \<in> set hs" "head_of rt p db = Inr h"
      using list_all2_left[OF assms(2), of p] by auto
    with None head_projectId show False by (auto simp: find_row_None)
  qed
  then have "filter (\<lambda>t. pt_projectId t = p) finalized = []" by (auto simp: filter_empty_conv)
  with select_project[OF assms(1), of p] assms(3,4) None show ?thesis
    by (auto simp: head_of_def foldCurrentHead_def bindR_eq_Inr)
next
  case (Some h)
  then have h: "h \<in> set hs" "ch_projectId h = p" by (auto dest: find_row_Some)
  then obtain q where "head_of rt q db = Inr h" using list_all2_right[OF assms(2), of h] by auto
  with h(2) have "head_of rt p db = Inr h" using head_projectId[of rt q db h] by simp
  with assms(4) Some show ?thesis by simp
qed

lemma intent_accepted:
  assumes "chain_ok rt db (tr_project_id row)" "row \<in> set (pd_intent db)"
    "parseNativeProjectRootPromotionRow rt row = Some intent"
    "\<And>p. find_row (\<lambda>i. ni_projectId i = p) ims = stored_import rt p db"
    "selectTransitions rt (pd_finalized db) None = Inr finalized"
    "list_all2 (\<lambda>p h. head_of rt p db = Inr h) (remdups (map pt_projectId finalized)) hs"
  shows "assert_intent rt db ims hs intent = Inr ()"
proof -
  note pf = parse_transition_fields[OF assms(3)]
  from assms(1) pf(1) obtain imported h where ch: "promotable rt (pt_projectId intent) db = Inr imported"
      "head_of rt (pt_projectId intent) db = Inr h" "intents_continue rt (pt_projectId intent) db imported h"
    unfolding chain_ok_def by auto
  from ch(3) assms(2,3) pf have "next_transition imported h intent (generations db)"
    by (auto simp: intents_continue_def)
  with ch(1) found_head[OF assms(5,6) ch(1,2)] show ?thesis
    by (simp add: assert_intent_def assms(4) promotable_def[symmetric] assertNextTransition_def)
qed

lemma validation_accepts:
  assumes "project_inv rt db"
  shows "\<exists>rs. assertNativeProjectRegistrationRows rt db = Inr rs" "\<exists>is. assertNativeProjectRootImportRows rt db = Inr is"
    "assertNativeProjectRootPromotionRows rt db = Inr ()"
proof -
  from assms have k: "project_keys db" and r: "project_rows rt db"
    and c: "\<And>p. p \<in> transition_projects db \<Longrightarrow> chain_ok rt db p" by (auto simp: project_inv_def)
  show "\<exists>rs. assertNativeProjectRegistrationRows rt db = Inr rs"
    unfolding assertNativeProjectRegistrationRows_def by (rule mapR_okI) (use r in \<open>auto simp: project_rows_def\<close>)
  obtain ims where i: "assertNativeProjectRootImportRows rt db = Inr ims"
      "\<And>p. find_row (\<lambda>i. ni_projectId i = p) ims = stored_import rt p db" by (rule imports_ok[OF r k]) blast
  then show "\<exists>is. assertNativeProjectRootImportRows rt db = Inr is" by blast
  obtain finalized where f: "selectTransitions rt (pd_finalized db) None = Inr finalized"
    by (rule select_ok[of "pd_finalized db"]) (use r in \<open>auto simp: project_rows_def transition_stored_def\<close>)
  obtain intents where t: "selectTransitions rt (pd_intent db) None = Inr intents"
    by (rule select_ok[of "pd_intent db"]) (use r in \<open>auto simp: project_rows_def transition_stored_def\<close>)
  have heads: "\<exists>h. project_head rt db ims finalized p = Inr h" if "p \<in> set (remdups (map pt_projectId finalized))" for p
  proof -
    from that have "p \<in> transition_projects db"
      using select_set[OF f] by (auto simp: transition_projects_def parse_transition_fields)
    with c[of p] show ?thesis by (auto simp: chain_ok_def project_head_eq[OF i(2) f])
  qed
  then obtain hs where h: "mapR (project_head rt db ims finalized) (remdups (map pt_projectId finalized)) = Inr hs"
    using mapR_okI by metis
  then have hl: "list_all2 (\<lambda>p h. head_of rt p db = Inr h) (remdups (map pt_projectId finalized)) hs"
    by (simp add: mapR_eq_Inr project_head_eq[OF i(2) f])
  have "\<exists>u. assert_intent rt db ims hs intent = Inr u" if "intent \<in> set intents" for intent
  proof -
    from that obtain row where row: "row \<in> set (pd_intent db)" "parseNativeProjectRootPromotionRow rt row = Some intent"
      using select_set[OF t] by auto
    then have "chain_ok rt db (tr_project_id row)" by (intro c) (simp add: transition_projects_def)
    from intent_accepted[OF this row i(2) f hl] show ?thesis by blast
  qed
  then obtain us where "mapR (assert_intent rt db ims hs) intents = Inr us" using mapR_okI by metis
  moreover have "assertAllTransitionsVerified db None = Inr ()"
    using r by (auto simp: assertAllTransitionsVerified_def project_rows_def transition_stored_def list_all_iff)
  ultimately show "assertNativeProjectRootPromotionRows rt db = Inr ()"
    by (simp add: assertNativeProjectRootPromotionRows_def i(1) f h t)
qed

end
