(* ===== verification/Project_Machine.thy ===== *)
theory Project_Machine
  imports Project_Invariant
begin

text \<open>
  The operations on the Project database as a step relation, and that each of them keeps the invariant.
  Two steps carry what their callers have established: an intent is saved for a transition that continues
  the current head of its Project, and what is finalised is a stored intent; the theory of the promotion
  service shows that it calls them so.
\<close>

definition transition_wf :: "project_runtime \<Rightarrow> NativeProjectRootPromotionTransition \<Rightarrow> bool" where
  "transition_wf rt t \<longleftrightarrow> parseNativeProjectRootPromotionRow rt (row_of t) = Some t"

definition continues_head :: "project_runtime \<Rightarrow> project_db \<Rightarrow> NativeProjectRootPromotionTransition \<Rightarrow> bool" where
  "continues_head rt db t \<longleftrightarrow> (\<exists>imported h. promotable rt (pt_projectId t) db = Inr imported
     \<and> head_of rt (pt_projectId t) db = Inr h \<and> next_transition imported h t (generations db))"

inductive project_step :: "project_runtime \<Rightarrow> project_db \<Rightarrow> project_db \<Rightarrow> bool" for rt where
  step_activate: "bindExactActivation g token db = Inr (b, db') \<Longrightarrow> project_step rt db db'"
| step_register: "zod_uuid rt uuid \<Longrightarrow> registerNativeProjectInDatabase rt g input uuid before db = Inr db' \<Longrightarrow>
    project_step rt db db'"
| step_prepare: "completeNativeProjectPreparation rt g p db = Inr (r, db') \<Longrightarrow> project_step rt db db'"
| step_claim: "claimNativeProjectRootImportInDatabase rt g host input uuid before db = Inr (i, db') \<Longrightarrow>
    project_step rt db db'"
| step_durable: "markNativeProjectRootBundleDurableInDatabase rt p nonce digest bytes db = Inr (i, db') \<Longrightarrow>
    project_step rt db db'"
| step_install: "beginNativeProjectRootImportInstallationInDatabase rt p host selector db = Inr (i, db') \<Longrightarrow>
    project_step rt db db'"
| step_objects: "markNativeProjectRootObjectsInstalledInDatabase rt p selector tree db = Inr (i, db') \<Longrightarrow>
    project_step rt db db'"
| step_imported: "markNativeProjectRootImportedInDatabase rt p selector tree db = Inr (i, db') \<Longrightarrow>
    project_step rt db db'"
| step_save: "transition_wf rt t \<Longrightarrow> continues_head rt db t \<Longrightarrow>
    saveNativeProjectRootPromotionIntent rt t db = Inr db' \<Longrightarrow> project_step rt db db'"
| step_finalize: "row_of t \<in> set (pd_intent db) \<Longrightarrow> finalizeNativeProjectRootPromotion rt t db = Inr db' \<Longrightarrow>
    project_step rt db db'"

definition project_init :: "project_db \<Rightarrow> bool" where
  "project_init db \<longleftrightarrow> db = empty_db"

section \<open>Frames\<close>

lemma next_transition_mono:
  "next_transition imported h t gens \<Longrightarrow> gens \<subseteq> gens' \<Longrightarrow> next_transition imported h t gens'"
  by (auto simp: next_transition_def)

lemma fold_head_mono:
  "fold_head imported gens h ts = Inr h' \<Longrightarrow> gens \<subseteq> gens' \<Longrightarrow> fold_head imported gens' h ts = Inr h'"
  by (induction ts arbitrary: h) (auto simp: assertNextTransition_def intro: next_transition_mono)

lemma stored_import_frame: "pd_import db' = pd_import db \<Longrightarrow> stored_import rt p db' = stored_import rt p db"
  by (simp add: stored_import_def)

lemma promotable_frame: "stored_import rt p db' = stored_import rt p db \<Longrightarrow> promotable rt p db' = promotable rt p db"
  by (simp add: promotable_def)

lemma head_of_mono:
  assumes "head_of rt p db = Inr h" "stored_import rt p db' = stored_import rt p db"
    "pd_finalized db' = pd_finalized db" "generations db \<subseteq> generations db'"
  shows "head_of rt p db' = Inr h"
  using assms(1,3) promotable_frame[OF assms(2)]
  by (auto simp: head_of_def foldCurrentHead_def bindR_eq_Inr intro: fold_head_mono[OF _ assms(4)])

lemma chain_ok_mono:
  assumes "chain_ok rt db p" "stored_import rt p db' = stored_import rt p db"
    "pd_finalized db' = pd_finalized db" "pd_intent db' = pd_intent db" "generations db \<subseteq> generations db'"
  shows "chain_ok rt db' p"
proof -
  from assms(1) obtain imported h where c: "promotable rt p db = Inr imported" "head_of rt p db = Inr h"
    "intents_continue rt p db imported h" by (auto simp: chain_ok_def)
  have "intents_continue rt p db' imported h"
    using c(3) assms(4) next_transition_mono[OF _ assms(5)] unfolding intents_continue_def by metis
  with c(1) head_of_mono[OF c(2) assms(2,3,5)] promotable_frame[OF assms(2)] show ?thesis
    unfolding chain_ok_def by auto
qed

lemma transition_projects_frame:
  "pd_finalized db' = pd_finalized db \<Longrightarrow> pd_intent db' = pd_intent db \<Longrightarrow> transition_projects db' = transition_projects db"
  by (simp add: transition_projects_def)

lemma chain_has_import:
  assumes "chain_ok rt db p"
  obtains row i where "find_row (\<lambda>r. im_project_id r = p) (pd_import db) = Some row"
    "parseNativeProjectRootImportRow rt row = Some i" "im_phase row = RootImported"
proof -
  from assms obtain imported where "promotable rt p db = Inr imported" by (auto simp: chain_ok_def)
  then obtain i where i: "stored_import rt p db = Some i" "ni_phase i = RootImported"
    by (auto simp: promotable_def requirePromotableImport_def
        split: option.splits import_phase.splits StoredImportedRootPolicy.splits)
  then obtain row where "find_row (\<lambda>r. im_project_id r = p) (pd_import db) = Some row"
    "parseNativeProjectRootImportRow rt row = Some i" by (auto simp: stored_import_def bind_eq_Some_conv)
  with i(2) that parse_import_fields(2) show thesis by metis
qed

lemma prepared_frame: "pd_registration db' = pd_registration db \<Longrightarrow> prepared rt db' row = prepared rt db row"
  by (simp add: prepared_def)

lemma generations_frame: "pd_activation db' = pd_activation db \<Longrightarrow> generations db' = generations db"
  by (simp add: generations_def)

text \<open>A change outside the imports and the transitions.\<close>

lemma outside_inv:
  assumes "project_inv rt db" "pd_import db' = pd_import db" "pd_finalized db' = pd_finalized db"
    "pd_intent db' = pd_intent db" "generations db \<subseteq> generations db'"
    "unique_by ac_generation_id (pd_activation db')" "unique_by rg_project_id (pd_registration db')"
    "\<And>r. r \<in> set (pd_registration db') \<Longrightarrow> parseRegistrationRow rt r \<noteq> None"
    "\<And>row. row \<in> set (pd_import db) \<Longrightarrow> prepared rt db row \<Longrightarrow> prepared rt db' row"
  shows "project_inv rt db'"
proof (rule project_invI)
  show "project_keys db'" using assms by (simp add: project_inv_def project_keys_def)
  show "project_rows rt db'" using assms by (auto simp: project_inv_def project_rows_def)
  fix p
  assume "p \<in> transition_projects db'"
  with assms(1,3,4) have "chain_ok rt db p" by (auto simp: project_inv_def transition_projects_frame[OF assms(3,4)])
  then show "chain_ok rt db' p"
    by (rule chain_ok_mono) (use assms stored_import_frame[OF assms(2)] in auto)
qed

section \<open>Activation and registration\<close>

lemma bind_activation_inv:
  assumes "project_inv rt db" "bindExactActivation g token db = Inr (b, db')"
  shows "project_inv rt db'"
proof (cases "db' = db")
  case False
  with assms(2) have n: "find_row (\<lambda>r. ac_generation_id r = g) (pd_activation db) = None"
    and d: "db' = db\<lparr>pd_activation := pd_activation db @ [\<lparr>ac_generation_id = g, ac_activation_token_sha256 = token\<rparr>]\<rparr>"
    by (auto simp: bindExactActivation_def find_activation_def split: option.splits if_splits)
  show ?thesis
    by (rule outside_inv[OF assms(1)])
      (use assms(1) n in \<open>auto simp: d generations_def project_inv_def project_keys_def project_rows_def find_row_None
        prepared_def\<close>)
qed (use assms in simp)

lemma parseRegistrationRow_None:
  "parseRegistrationRow rt r = None \<longleftrightarrow> \<not> (rg_service_id r = ''native-main'' \<and> matches projectPattern (rg_project_id r)
     \<and> matches projectPattern (rg_root_repository_id r) \<and> matches identifierPattern (rg_owner_host_id r)
     \<and> zod_uuid rt (rg_provisioning_nonce r))"
  by (simp add: parseRegistrationRow_def guardO_def)

lemma parse_input_valid:
  "parseRegistrationInput v = Some x \<Longrightarrow> ri_serviceId x = ''native-main'' \<and> matches projectPattern (ri_projectId x)
     \<and> matches projectPattern (ri_rootRepositoryId x) \<and> matches identifierPattern (ri_ownerHostId x)"
  by (auto simp: parseRegistrationInput_def opt_conv)

lemma register_inv:
  assumes "project_inv rt db" "zod_uuid rt uuid" "registerNativeProjectInDatabase rt g input uuid before db = Inr db'"
  shows "project_inv rt db'"
proof (cases "db' = db")
  case False
  from assms(3) False obtain x where x: "parseRegistrationInput input = Some x"
    and ins: "insert_registration \<lparr>rg_service_id = ri_serviceId x, rg_project_id = ri_projectId x,
      rg_root_repository_id = ri_rootRepositoryId x, rg_owner_host_id = ri_ownerHostId x,
      rg_provisioning_nonce = uuid, rg_phase = Provisioning\<rparr> db = Inr db'"
    by (auto simp: registerNativeProjectInDatabase_def bindR_eq_Inr split: option.splits)
  let ?row = "\<lparr>rg_service_id = ri_serviceId x, rg_project_id = ri_projectId x,
      rg_root_repository_id = ri_rootRepositoryId x, rg_owner_host_id = ri_ownerHostId x,
      rg_provisioning_nonce = uuid, rg_phase = Provisioning\<rparr>"
  from ins have d: "db' = db\<lparr>pd_registration := pd_registration db @ [?row]\<rparr>"
    and new: "ri_projectId x \<notin> rg_project_id ` set (pd_registration db)"
    by (auto simp: insert_registration_def split: if_splits)
  have p: "parseRegistrationRow rt ?row \<noteq> None" using parse_input_valid[OF x] assms(2) by (simp add: parseRegistrationRow_None)
  show ?thesis
    by (rule outside_inv[OF assms(1)])
      (use assms(1) new p in \<open>auto simp: d generations_def project_inv_def project_keys_def project_rows_def
        prepared_def find_row_append\<close>)
qed (use assms in simp)

lemma find_update_rows:
  assumes "\<And>r. P r \<Longrightarrow> key (f r) = key r"
  shows "find_row (\<lambda>r. key r = k) (update_rows P f rows)
     = map_option (\<lambda>r. if P r then f r else r) (find_row (\<lambda>r. key r = k) rows)"
  using assms by (induction rows) auto

lemma prepare_inv:
  assumes "project_inv rt db" "completeNativeProjectPreparation rt g p db = Inr (r, db')"
  shows "project_inv rt db'"
proof -
  let ?f = "\<lambda>r. r\<lparr>rg_phase := RootPrepared\<rparr>" and ?P = "\<lambda>r. rg_project_id r = p"
  from assms(2) have d: "db' = db\<lparr>pd_registration := update_rows ?P ?f (pd_registration db)\<rparr>"
    by (auto simp: completeNativeProjectPreparation_def bindR_eq_Inr Let_def)
  have parse: "(\<exists>y. parseRegistrationRow rt (?f r) = Some y) \<longleftrightarrow> (\<exists>y. parseRegistrationRow rt r = Some y)" for r
    by (simp add: parseRegistrationRow_None flip: not_None_eq)
  have find: "find_row (\<lambda>r. rg_project_id r = k) (update_rows ?P ?f (pd_registration db))
     = map_option (\<lambda>r. if ?P r then ?f r else r) (find_row (\<lambda>r. rg_project_id r = k) (pd_registration db))" for k
    by (rule find_update_rows) simp
  have keys: "unique_by rg_project_id (update_rows ?P ?f (pd_registration db))"
    using assms(1) map_update_rows[of "pd_registration db" ?P rg_project_id ?f] by (simp add: project_inv_def project_keys_def)
  show ?thesis
  proof (rule outside_inv[OF assms(1)])
    show "parseRegistrationRow rt x \<noteq> None" if "x \<in> set (pd_registration db')" for x
      using that assms(1) by (auto simp: d set_update_rows project_inv_def project_rows_def parse)
    show "prepared rt db' row" if "prepared rt db row" for row
    proof -
      from that obtain r where r: "find_row (\<lambda>r. rg_project_id r = im_project_id row) (pd_registration db) = Some r"
        "parseRegistrationRow rt r \<noteq> None" "rg_phase r = RootPrepared" "rg_owner_host_id r = im_owner_host_id row"
        "rg_service_id r = im_service_id row" "rg_root_repository_id r = im_root_repository_id row"
        by (auto simp: prepared_def)
      from r(3) have "?f r = r" by (cases r) simp
      with r(1) have "find_row (\<lambda>r. rg_project_id r = im_project_id row) (pd_registration db') = Some r"
        by (simp add: d find)
      with r(2-) show ?thesis unfolding prepared_def by blast
    qed
    show "unique_by rg_project_id (pd_registration db')" using keys by (simp add: d)
  qed (use assms(1) in \<open>auto simp: d generations_def project_inv_def project_keys_def\<close>)
qed

section \<open>Imports\<close>

lemma insert_import_inv:
  assumes "project_inv rt db" "insert_import row db = Inr db'" "parseNativeProjectRootImportRow rt row \<noteq> None"
    "prepared rt db row"
  shows "project_inv rt db'"
proof -
  from assms(2) have d: "db' = db\<lparr>pd_import := pd_import db @ [row]\<rparr>"
    and new: "im_project_id row \<notin> im_project_id ` set (pd_import db)" "im_generation_id row \<in> generations db"
    by (auto simp: insert_import_def split: if_splits)
  show ?thesis
  proof (rule project_invI)
    show "project_keys db'" using assms(1) new(1) by (simp add: project_inv_def project_keys_def d)
    have g: "generations db' = generations db" "prepared rt db' r = prepared rt db r" for r
      by (simp_all add: d generations_def prepared_def)
    show "project_rows rt db'"
      using assms(1,3,4) new(2) unfolding project_inv_def project_rows_def g by (auto simp: d)
    fix p
    assume p: "p \<in> transition_projects db'"
    then have c: "chain_ok rt db p" using assms(1) by (auto simp: project_inv_def transition_projects_def d)
    then obtain x where "find_row (\<lambda>r. im_project_id r = p) (pd_import db) = Some x" by (rule chain_has_import)
    then have "stored_import rt p db' = stored_import rt p db" by (simp add: stored_import_def d find_row_append)
    with c show "chain_ok rt db' p" by (rule chain_ok_mono) (simp_all add: d generations_def)
  qed
qed

text \<open>A statement that changes one import before it is imported, and keeps what identifies it.\<close>

lemma update_import_inv:
  assumes "project_inv rt db" "update_import P f db = Inr db'"
    "find_row (\<lambda>r. im_project_id r = p) (pd_import db) = Some row" "P row" "\<And>x. P x \<Longrightarrow> im_project_id x = p"
    "im_phase row \<noteq> RootImported" "parseNativeProjectRootImportRow rt (f row) \<noteq> None"
    "im_project_id (f row) = p" "im_generation_id (f row) = im_generation_id row"
    "im_owner_host_id (f row) = im_owner_host_id row" "im_service_id (f row) = im_service_id row"
    "im_root_repository_id (f row) = im_root_repository_id row"
  shows "project_inv rt db'"
proof -
  have row: "row \<in> set (pd_import db)" "im_project_id row = p" using find_row_Some[OF assms(3)] by auto
  have k: "unique_by im_project_id (pd_import db)" using assms(1) by (simp add: project_inv_def project_keys_def)
  have u: "update_rows P f (pd_import db) = update_rows (\<lambda>x. im_project_id x = im_project_id row) (\<lambda>_. f row) (pd_import db)"
    using k row(1) assms(4) assms(5) row(2) by (intro update_rows_unique) auto
  from assms(2) have d: "db' = db\<lparr>pd_import := update_rows P f (pd_import db)\<rparr>"
    by (auto simp: update_import_def split: if_splits)
  have set': "set (pd_import db') = insert (f row) (set (pd_import db) - {row})"
    unfolding d using set_replace_row[OF k row(1), of "f row"] by (simp add: u)
  have keys: "map im_project_id (pd_import db') = map im_project_id (pd_import db)"
    unfolding d using map_replace_row[OF k row(1), of im_project_id "f row"] by (simp add: u assms(8) row(2))
  have g: "generations db' = generations db" "prepared rt db' r = prepared rt db r" for r
    by (simp_all add: d generations_def prepared_def)
  have find: "stored_import rt q db' = stored_import rt q db" if "q \<noteq> p" for q
  proof -
    have "find_row (\<lambda>r. im_project_id r = q) (update_rows P f (pd_import db)) = find_row (\<lambda>r. im_project_id r = q) (pd_import db)"
      unfolding u using that row(2) assms(8)
      by (subst find_update_rows) (auto simp: map_option_case split: option.split dest: find_row_Some)
    then show ?thesis by (simp add: stored_import_def d)
  qed
  show ?thesis
  proof (rule project_invI)
    show "project_keys db'" using assms(1) keys by (simp add: project_inv_def project_keys_def d)
    have "prepared rt db (f row)"
      using assms(1,8-12) row by (auto simp: project_inv_def project_rows_def prepared_def)
    then show "project_rows rt db'"
      using assms(1,7,9) row(1) unfolding project_inv_def project_rows_def g set' by (auto simp: d)
    fix q
    assume "q \<in> transition_projects db'"
    then have c: "chain_ok rt db q" using assms(1) by (auto simp: project_inv_def transition_projects_def d)
    then have "q \<noteq> p" using assms(3,6) by (auto elim: chain_has_import)
    from chain_ok_mono[OF c find[OF this]] show "chain_ok rt db' q" by (simp add: d generations_def)
  qed
qed

lemma selectImport_Some:
  assumes "selectImport rt p db = Inr (Some i)"
  obtains row where "find_row (\<lambda>r. im_project_id r = p) (pd_import db) = Some row"
    "parseNativeProjectRootImportRow rt row = Some i"
  using assms by (auto simp: selectImport_def split: option.splits)

lemma requireImport_Inr: "requireImport rt p db = Inr i \<longleftrightarrow> selectImport rt p db = Inr (Some i)"
  by (auto simp: requireImport_def bindR_eq_Inr)

lemma selectRegistration_Some:
  assumes "selectRegistration rt p db = Inr (Some x)"
  obtains r where "find_row (\<lambda>r. rg_project_id r = p) (pd_registration db) = Some r" "parseRegistrationRow rt r = Some x"
  using assms by (auto simp: selectRegistration_def split: option.splits)

text \<open>After a statement that changes the row of one import, the operation reads it back.\<close>

lemma update_read_back:
  assumes "update_import P f db = Inr db'" "find_row (\<lambda>r. im_project_id r = p) (pd_import db) = Some row" "P row"
    "\<And>x. P x \<Longrightarrow> im_project_id (f x) = im_project_id x" "selectImport rt p db' = Inr (Some i)"
  shows "parseNativeProjectRootImportRow rt (f row) = Some i"
proof -
  from assms(1) have "pd_import db' = update_rows P f (pd_import db)" by (auto simp: update_import_def split: if_splits)
  then have "find_row (\<lambda>r. im_project_id r = p) (pd_import db') = Some (f row)"
    using find_update_rows[of P im_project_id f p "pd_import db"] assms(2,3,4) by simp
  with assms(5) show ?thesis by (auto elim: selectImport_Some)
qed

lemma claim_inv:
  assumes "project_inv rt db" "claimNativeProjectRootImportInDatabase rt g host input uuid before db = Inr (i, db')"
  shows "project_inv rt db'"
proof (cases "db' = db")
  case False
  let ?row = "\<lambda>q. intent_row g host uuid q (policy_json (ii_policy q)) (policy_digest rt (policy_json (ii_policy q)))"
  from assms(2) False obtain q registration
    where r: "selectRegistration rt (ii_projectId q) db = Inr registration"
      "assertPreparedRegistration registration (ii_serviceId q) (ii_rootRepositoryId q) host = Inr ()"
    and none: "selectImport rt (ii_projectId q) db = Inr None"
    and ins: "insert_import (?row q) db = Inr db'" and rb: "selectImport rt (ii_projectId q) db' = Inr (Some i)"
    unfolding claimNativeProjectRootImportInDatabase_def by (auto simp: bindR_eq_Inr Let_def split: option.splits)
  from r(2) obtain reg where reg: "registration = Some reg" "re_phase reg = RootPrepared" "re_ownerHostId reg = host"
      "re_serviceId reg = ii_serviceId q" "re_rootRepositoryId reg = ii_rootRepositoryId q"
    by (auto simp: assertPreparedRegistration_def split: option.splits if_splits)
  have "prepared rt db (?row q)"
    by (rule selectRegistration_Some[OF r(1)[unfolded reg(1)]])
      (use reg in \<open>auto simp: prepared_def parse_registration_fields intent_row_def\<close>)
  moreover have "find_row (\<lambda>r. im_project_id r = ii_projectId q) (pd_import db) = None"
    using none by (auto simp: selectImport_def split: option.splits)
  then have "find_row (\<lambda>r. im_project_id r = ii_projectId q) (pd_import db') = Some (?row q)"
    using ins by (auto simp: insert_import_def find_row_append intent_row_def split: if_splits)
  with rb have "parseNativeProjectRootImportRow rt (?row q) = Some i" by (auto elim: selectImport_Some)
  ultimately show ?thesis using insert_import_inv[OF assms(1) ins] by simp
qed (use assms in simp)

text \<open>The four operations that move an import forward have one shape: the row they found, which is not yet
  imported, is replaced by one that parses.\<close>

lemma move_inv:
  assumes "project_inv rt db" "selectImport rt p db = Inr (Some i)" "update_import P f db = Inr db'"
    "selectImport rt p db' = Inr (Some i')" "ni_phase i \<noteq> RootImported"
    "\<And>row. im_project_id row = p \<Longrightarrow> parseNativeProjectRootImportRow rt row = Some i \<Longrightarrow> P row"
    "\<And>x. P x \<Longrightarrow> im_project_id x = p"
    "\<And>x. im_project_id (f x) = im_project_id x \<and> im_generation_id (f x) = im_generation_id x
       \<and> im_owner_host_id (f x) = im_owner_host_id x \<and> im_service_id (f x) = im_service_id x
       \<and> im_root_repository_id (f x) = im_root_repository_id x"
  shows "project_inv rt db'"
proof -
  obtain row where row: "find_row (\<lambda>r. im_project_id r = p) (pd_import db) = Some row"
    "parseNativeProjectRootImportRow rt row = Some i" by (rule selectImport_Some[OF assms(2)])
  have p: "im_project_id row = p" using find_row_Some[OF row(1)] by simp
  have P: "P row" using assms(6) p row(2) by blast
  have "parseNativeProjectRootImportRow rt (f row) = Some i'"
    using update_read_back[OF assms(3) row(1) P _ assms(4)] assms(8) by blast
  then show ?thesis
    using update_import_inv[OF assms(1,3) row(1) P assms(7)] assms(5,8) parse_import_fields(2)[OF row(2)] p by simp
qed

lemma durable_inv:
  assumes "project_inv rt db" "markNativeProjectRootBundleDurableInDatabase rt p nonce digest bytes db = Inr (i, db')"
  shows "project_inv rt db'"
proof (cases "db' = db")
  case False
  from assms(2) obtain e where e1: "selectImport rt p db = Inr (Some e)"
    by (cases "selectImport rt p db") (auto simp: markNativeProjectRootBundleDurableInDatabase_def bindR_eq_Inr
        split: option.split_asm)
  from assms(2) False e1 have e: "selectImport rt p db = Inr (Some e)" "ni_importNonce e = nonce"
      "ni_phase e \<noteq> BundleDurable" "ni_phase e \<noteq> RootImported"
    and u: "update_import (\<lambda>r. im_project_id r = p \<and> im_import_nonce r = nonce \<and> im_phase r = Intent)
        (\<lambda>r. r\<lparr>im_bundle_sha256 := Some digest, im_bundle_size := Some bytes, im_phase := BundleDurable\<rparr>) db = Inr db'"
    and rb: "selectImport rt p db' = Inr (Some i)" "ni_phase i = BundleDurable"
    by (auto simp: markNativeProjectRootBundleDurableInDatabase_def bindR_eq_Inr split: option.split_asm if_splits)
  show ?thesis
  proof (rule move_inv[OF assms(1) e(1) u rb(1) e(4)])
    fix row
    assume row: "im_project_id row = p" "parseNativeProjectRootImportRow rt row = Some e"
    note f = parse_import_fields[OF row(2)]
    have "im_phase row = Intent"
    proof (rule ccontr)
      assume n: "im_phase row \<noteq> Intent"
      obtain x where x: "find_row (\<lambda>r. im_project_id r = p) (pd_import db) = Some x"
        "parseNativeProjectRootImportRow rt x = Some e" by (rule selectImport_Some[OF e(1)])
      have nx: "im_phase x \<noteq> Intent" using n f(2) parse_import_fields(2)[OF x(2)] by simp
      have "unique_by im_project_id (pd_import db)" using assms(1) by (simp add: project_inv_def project_keys_def)
      then have "find_row (\<lambda>r. im_project_id r = p) (pd_import db') = Some x"
        using u x(1) nx find_update_rows[of "\<lambda>r. im_project_id r = p \<and> im_import_nonce r = nonce \<and> im_phase r = Intent"
            im_project_id "\<lambda>r. r\<lparr>im_bundle_sha256 := Some digest, im_bundle_size := Some bytes, im_phase := BundleDurable\<rparr>"
            p "pd_import db"]
        by (auto simp: update_import_def split: if_splits)
      with rb x(2) have "i = e" by (auto elim: selectImport_Some)
      with rb(2) e(3) show False by simp
    qed
    with row(1) f(3) e(2) show "im_project_id row = p \<and> im_import_nonce row = nonce \<and> im_phase row = Intent" by simp
  qed simp_all
qed (use assms in simp)

lemma install_inv:
  assumes "project_inv rt db" "beginNativeProjectRootImportInstallationInDatabase rt p host selector db = Inr (i, db')"
  shows "project_inv rt db'"
proof (cases "db' = db")
  case False
  with assms(2) obtain e where e: "selectImport rt p db = Inr (Some e)" "ni_phase e = BundleDurable"
    and u: "update_import (\<lambda>r. im_project_id r = p \<and> im_phase r = BundleDurable) (\<lambda>r. r\<lparr>im_phase := Installing\<rparr>) db = Inr db'"
    and rb: "selectImport rt p db' = Inr (Some i)"
    by (auto simp: beginNativeProjectRootImportInstallationInDatabase_def bindR_eq_Inr requireImport_Inr split: if_splits)
  show ?thesis
    by (rule move_inv[OF assms(1) e(1) u rb]) (use e(2) parse_import_fields(2) in auto)
qed (use assms in simp)

lemma objects_inv:
  assumes "project_inv rt db" "markNativeProjectRootObjectsInstalledInDatabase rt p selector tree db = Inr (i, db')"
  shows "project_inv rt db'"
proof (cases "db' = db")
  case False
  with assms(2) obtain e where e: "selectImport rt p db = Inr (Some e)" "ni_phase e = Installing"
    and u: "update_import (\<lambda>r. im_project_id r = p \<and> im_phase r = Installing)
        (\<lambda>r. r\<lparr>im_resolved_tree := Some tree, im_phase := ObjectsInstalled\<rparr>) db = Inr db'"
    and rb: "selectImport rt p db' = Inr (Some i)"
    by (auto simp: markNativeProjectRootObjectsInstalledInDatabase_def bindR_eq_Inr requireImport_Inr split: if_splits)
  show ?thesis
    by (rule move_inv[OF assms(1) e(1) u rb]) (use e(2) parse_import_fields(2) in auto)
qed (use assms in simp)

lemma imported_inv:
  assumes "project_inv rt db" "markNativeProjectRootImportedInDatabase rt p selector tree db = Inr (i, db')"
  shows "project_inv rt db'"
proof (cases "db' = db")
  case False
  with assms(2) obtain e where e: "selectImport rt p db = Inr (Some e)" "ni_phase e = ObjectsInstalled"
    and u: "update_import (\<lambda>r. im_project_id r = p \<and> im_phase r = ObjectsInstalled) (\<lambda>r. r\<lparr>im_phase := RootImported\<rparr>) db = Inr db'"
    and rb: "selectImport rt p db' = Inr (Some i)"
    by (auto simp: markNativeProjectRootImportedInDatabase_def bindR_eq_Inr requireImport_Inr split: if_splits)
  show ?thesis
    by (rule move_inv[OF assms(1) e(1) u rb]) (use e(2) parse_import_fields(2) in auto)
qed (use assms in simp)

section \<open>Promotions\<close>

lemma evidence_json_inject: "evidence_json a = evidence_json b \<Longrightarrow> a = b"
proof -
  have j: "inj evidence_job_json" by (rule injI) (simp add: evidence_job_json_def)
  have ap: "inj approval_json" by (rule injI) (simp add: approval_json_def)
  have st: "inj JStr" by (rule injI) simp
  show "evidence_json a = evidence_json b \<Longrightarrow> a = b"
    by (cases a; cases b) (simp add: evidence_json_def inj_map_eq_map[OF j] inj_map_eq_map[OF ap] inj_map_eq_map[OF st])
qed

lemma parse_row_of: "parseNativeProjectRootPromotionRow rt (row_of t) = Some u \<Longrightarrow> u = t"
  by (cases t) (auto simp: parseNativeProjectRootPromotionRow_def opt_conv Let_def transition_of_def row_of_def
      dest: evidence_json_inject)

lemma sort_key_snoc: "(\<And>y. y \<in> set xs \<Longrightarrow> f y \<le> f x) \<Longrightarrow> sort_key f (xs @ [x]) = sort_key f xs @ [x]"
proof (induction xs)
  case (Cons y xs)
  have "insort_key f y (zs @ [x]) = insort_key f y zs @ [x]" if "f y \<le> f x" for zs using that by (induction zs) auto
  with Cons show ?case by simp
qed simp

lemma mapR_snoc: "mapR f xs = Inr ys \<Longrightarrow> f x = Inr y \<Longrightarrow> mapR f (xs @ [x]) = Inr (ys @ [y])"
  by (induction xs arbitrary: ys) (auto simp: bindR_eq_Inr)

lemma select_snoc:
  assumes "selectTransitions rt rows (Some p) = Inr ts" "parseNativeProjectRootPromotionRow rt row = Some t"
    "tr_project_id row = p" "\<And>r. r \<in> set rows \<Longrightarrow> tr_project_id r = p \<Longrightarrow> tr_sequence r \<le> tr_sequence row"
  shows "selectTransitions rt (rows @ [row]) (Some p) = Inr (ts @ [t])"
proof -
  let ?k = "\<lambda>r. (tr_project_id r, tr_sequence r)" and ?own = "filter (\<lambda>r. tr_project_id r = p) rows"
  have "sort_key ?k (?own @ [row]) = sort_key ?k ?own @ [row]" by (rule sort_key_snoc) (use assms(3,4) in auto)
  then show ?thesis
    using mapR_snoc[OF assms(1)[unfolded selectTransitions_def]] assms(2,3) by (simp add: selectTransitions_def)
qed

lemma select_other:
  "tr_project_id row \<noteq> p \<Longrightarrow> selectTransitions rt (rows @ [row]) (Some p) = selectTransitions rt rows (Some p)"
  by (simp add: selectTransitions_def)

lemma fold_head_snoc:
  "fold_head imported gens h0 ts = Inr h \<Longrightarrow> next_transition imported h t gens \<Longrightarrow>
     fold_head imported gens h0 (ts @ [t]) = Inr (advance h t)"
  by (induction ts arbitrary: h0) (auto simp: assertNextTransition_def)

lemma fold_head_sequence:
  "fold_head imported gens h0 ts = Inr h \<Longrightarrow> ch_sequence h = ch_sequence h0 + int (length ts)
     \<and> (\<forall>t\<in>set ts. pt_sequence t \<le> ch_sequence h)"
proof (induction ts arbitrary: h0)
  case (Cons t ts)
  then have n: "next_transition imported h0 t gens" and f: "fold_head imported gens (advance h0 t) ts = Inr h"
    by (auto simp: assertNextTransition_def)
  from Cons.IH[OF f] n show ?case by (auto simp: advance_def next_transition_def)
qed simp

lemma save_inv:
  assumes "project_inv rt db" "transition_wf rt t" "continues_head rt db t" "saveNativeProjectRootPromotionIntent rt t db = Inr db'"
  shows "project_inv rt db'"
proof (cases "db' = db")
  case False
  let ?p = "pt_projectId t"
  obtain ts where "selectTransitions rt (pd_intent db) (Some ?p) = Inr ts"
    using assms(4) by (auto simp: saveNativeProjectRootPromotionIntent_def bindR_eq_Inr)
  with assms(4) False have "insert_intent (row_of t) db = Inr db'"
    by (cases ts) (auto simp: saveNativeProjectRootPromotionIntent_def split: if_split_asm)
  then have d: "db' = db\<lparr>pd_intent := pd_intent db @ [row_of t]\<rparr>" and new: "?p \<notin> tr_project_id ` set (pd_intent db)"
    by (auto simp: insert_intent_def row_of_def split: if_splits)
  have row: "tr_project_id (row_of t) = ?p" "transition_stored rt (row_of t)"
    using assms(2) by (simp_all add: row_of_def transition_stored_def transition_wf_def)
  have g: "generations db' = generations db" "prepared rt db' r = prepared rt db r" "head_of rt q db' = head_of rt q db"
    "promotable rt q db' = promotable rt q db" for r q
    by (simp_all add: d generations_def prepared_def head_of_def promotable_def stored_import_def)
  show ?thesis
  proof (rule project_invI)
    show "project_keys db'" using assms(1) new row(1) by (simp add: project_inv_def project_keys_def d)
    show "project_rows rt db'" using assms(1) row(2) unfolding project_inv_def project_rows_def g by (auto simp: d)
    fix q
    assume q: "q \<in> transition_projects db'"
    show "chain_ok rt db' q"
    proof (cases "q = ?p")
      case True
      from assms(3) obtain imported h where c: "promotable rt ?p db = Inr imported" "head_of rt ?p db = Inr h"
        "next_transition imported h t (generations db)" by (auto simp: continues_head_def)
      have "tr_project_id r \<noteq> ?p" if "r \<in> set (pd_intent db)" for r using new that by force
      then have "intents_continue rt ?p db' imported h"
        unfolding intents_continue_def g(1) using assms(2) c(3) by (auto simp: d transition_wf_def)
      with c True show ?thesis unfolding chain_ok_def g by blast
    next
      case other: False
      with q row(1) have "q \<in> transition_projects db" by (auto simp: transition_projects_def d)
      with assms(1) have "chain_ok rt db q" by (auto simp: project_inv_def)
      with other row(1) show ?thesis unfolding chain_ok_def g intents_continue_def by (auto simp: d)
    qed
  qed
qed (use assms in simp)

lemma finalize_effect:
  assumes "project_inv rt db" "row_of t \<in> set (pd_intent db)" "finalizeNativeProjectRootPromotion rt t db = Inr db'"
  shows "db' = db\<lparr>pd_finalized := pd_finalized db @ [row_of t],
      pd_intent := delete_rows (\<lambda>r. tr_project_id r = pt_projectId t) (pd_intent db)\<rparr>"
    "parseNativeProjectRootPromotionRow rt (row_of t) = Some t"
    "(pt_projectId t, pt_sequence t) \<notin> (\<lambda>r. (tr_project_id r, tr_sequence r)) ` set (pd_finalized db)"
proof -
  obtain ts where "selectTransitions rt (pd_intent db) (Some (pt_projectId t)) = Inr ts"
    using assms(3) by (auto simp: finalizeNativeProjectRootPromotion_def bindR_eq_Inr)
  with assms(3) have "\<exists>db''. insert_finalized (row_of t) db = Inr db'' \<and>
      db' = db''\<lparr>pd_intent := delete_rows (\<lambda>r. tr_project_id r = pt_projectId t) (pd_intent db'')\<rparr>"
    by (cases ts) (auto simp: finalizeNativeProjectRootPromotion_def bindR_eq_Inr split: if_split_asm)
  then show "db' = db\<lparr>pd_finalized := pd_finalized db @ [row_of t],
      pd_intent := delete_rows (\<lambda>r. tr_project_id r = pt_projectId t) (pd_intent db)\<rparr>"
    "(pt_projectId t, pt_sequence t) \<notin> (\<lambda>r. (tr_project_id r, tr_sequence r)) ` set (pd_finalized db)"
    by (auto simp: insert_finalized_def row_of_def split: if_splits)
  have "parseNativeProjectRootPromotionRow rt (row_of t) \<noteq> None"
    using assms(1,2) unfolding project_inv_def project_rows_def transition_stored_def by blast
  then show "parseNativeProjectRootPromotionRow rt (row_of t) = Some t" using parse_row_of by fastforce
qed

text \<open>Finalising moves the head of the Project to the candidate.\<close>

lemma finalize_head:
  assumes "project_inv rt db" "row_of t \<in> set (pd_intent db)" "finalizeNativeProjectRootPromotion rt t db = Inr db'"
  obtains imported h where "promotable rt (pt_projectId t) db = Inr imported" "head_of rt (pt_projectId t) db = Inr h"
    "next_transition imported h t (generations db)" "head_of rt (pt_projectId t) db' = Inr (advance h t)"
proof -
  note e = finalize_effect[OF assms]
  let ?p = "pt_projectId t"
  have p: "tr_project_id (row_of t) = ?p" "tr_sequence (row_of t) = pt_sequence t" by (simp_all add: row_of_def)
  with assms(1,2) have "chain_ok rt db ?p" unfolding project_inv_def transition_projects_def by force
  then obtain imported h where c: "promotable rt ?p db = Inr imported" "head_of rt ?p db = Inr h"
    "intents_continue rt ?p db imported h" by (auto simp: chain_ok_def)
  from c(3) assms(2) p e(2) have n: "next_transition imported h t (generations db)"
    by (auto simp: intents_continue_def)
  from c(1,2) obtain h0 ts where ts: "selectTransitions rt (pd_finalized db) (Some ?p) = Inr ts"
      "initialHead imported = Inr h0" "fold_head imported (generations db) h0 ts = Inr h"
    by (auto simp: head_of_def foldCurrentHead_def bindR_eq_Inr)
  have seq: "tr_sequence r \<le> pt_sequence t" if "r \<in> set (pd_finalized db)" "tr_project_id r = ?p" for r
  proof -
    from that assms(1) obtain u where u: "parseNativeProjectRootPromotionRow rt r = Some u"
      unfolding project_inv_def project_rows_def transition_stored_def by blast
    with that have "u \<in> set ts" using select_set[OF ts(1)] by auto
    with fold_head_sequence[OF ts(3)] n parse_transition_fields(2)[OF u] show ?thesis
      by (fastforce simp: next_transition_def)
  qed
  have "selectTransitions rt (pd_finalized db') (Some ?p) = Inr (ts @ [t])"
    using select_snoc[OF ts(1) e(2) p(1)] seq p(2) by (simp add: e(1))
  moreover have "promotable rt ?p db' = Inr imported" "generations db' = generations db"
    using c(1) by (simp_all add: e(1) promotable_def stored_import_def generations_def)
  ultimately have "head_of rt ?p db' = Inr (advance h t)"
    using ts(2) fold_head_snoc[OF ts(3) n] by (simp add: head_of_def foldCurrentHead_def)
  with c(1,2) n that show thesis by blast
qed

lemma finalize_inv:
  assumes "project_inv rt db" "row_of t \<in> set (pd_intent db)" "finalizeNativeProjectRootPromotion rt t db = Inr db'"
  shows "project_inv rt db'"
proof -
  note e = finalize_effect[OF assms]
  let ?p = "pt_projectId t"
  have p: "tr_project_id (row_of t) = ?p" by (simp add: row_of_def)
  obtain imported h where h: "promotable rt ?p db = Inr imported" "head_of rt ?p db' = Inr (advance h t)"
    by (rule finalize_head[OF assms]) blast
  have g: "generations db' = generations db" "prepared rt db' r = prepared rt db r" "promotable rt q db' = promotable rt q db" for r q
    by (simp_all add: e(1) generations_def prepared_def promotable_def stored_import_def)
  have stored: "transition_stored rt (row_of t)" using assms(1,2) by (auto simp: project_inv_def project_rows_def)
  show ?thesis
  proof (rule project_invI)
    show "project_keys db'"
      using assms(1) e(3) by (auto simp: project_inv_def project_keys_def e(1) unique_delete_rows row_of_def)
    show "project_rows rt db'" using assms(1) stored unfolding project_inv_def project_rows_def g by (auto simp: e(1))
    fix q
    assume q: "q \<in> transition_projects db'"
    show "chain_ok rt db' q"
    proof (cases "q = ?p")
      case True
      then have "intents_continue rt q db' imported (advance h t)" by (simp add: intents_continue_def e(1))
      with True h show ?thesis unfolding chain_ok_def g by blast
    next
      case False
      with q p have "q \<in> transition_projects db" by (auto simp: transition_projects_def e(1))
      with assms(1) have c: "chain_ok rt db q" by (auto simp: project_inv_def)
      have "head_of rt q db' = head_of rt q db"
        using False p by (simp add: head_of_def g) (simp add: e(1) select_other)
      with c show ?thesis unfolding chain_ok_def g intents_continue_def by (auto simp: e(1))
    qed
  qed
qed

section \<open>The machine\<close>

lemma empty_inv: "project_inv rt empty_db"
  by (simp add: project_inv_def project_keys_def project_rows_def transition_projects_def empty_db_def)

lemma step_keeps_inv: "project_step rt db db' \<Longrightarrow> project_inv rt db \<Longrightarrow> project_inv rt db'"
  by (induction rule: project_step.induct)
    (auto intro: bind_activation_inv register_inv prepare_inv claim_inv durable_inv install_inv objects_inv imported_inv
      save_inv finalize_inv)

interpretation project_machine: safe_machine project_init "project_step rt" "project_inv rt" for rt
  by unfold_locales (auto simp: project_init_def empty_inv intro: step_keeps_inv)

end
