(* ===== verification/Project_Review.thy ===== *)
theory Project_Review
  imports Project_Registry Js_Base64
begin

text \<open>
  Reviews of a candidate: the envelope that binds a review, its required jobs and its events
  (\<open>authoritative-native-review-schema.ts\<close>), and the reviewers that a set of changed paths requires
  (\<open>requiredReviewers\<close> in \<open>authoritative-native-review.ts\<close>).
\<close>

section \<open>Data\<close>

record ChangedPath =
  cp_status :: string
  cp_oldPath :: "string option"
  cp_newPath :: "string option"
  cp_oldPathBytes :: string
  cp_newPathBytes :: string
  cp_oldMode :: string
  cp_newMode :: string
  cp_oldObjectId :: string
  cp_newObjectId :: string
  cp_similarity :: "int option"
  cp_oldSymlinkTarget :: "string option"
  cp_newSymlinkTarget :: "string option"
  cp_oldSymlinkTargetBytes :: "string option"
  cp_newSymlinkTargetBytes :: "string option"

record ReviewJob =
  vj_executionKind :: execution_kind
  vj_jobName :: string

record ReviewBlob =
  vb_objectId :: string
  vb_sha256 :: string

record PlannedJob =
  pj_executionKind :: execution_kind
  pj_jobName :: string
  pj_scriptObjectId :: string
  pj_scriptSha256 :: string
  pj_scriptPath :: string

datatype Planning = PlanValid "ReviewBlob option" "PlannedJob list" | PlanInvalid

record AuthoritativeNativeReview =
  rv_projectId :: string
  rv_protectedRef :: string
  rv_proposalRef :: string
  rv_expectedProtectedHead :: string
  rv_candidateCommit :: string
  rv_candidateTree :: string
  rv_policyRevision :: string
  rv_requiredReviewRevision :: string
  rv_workspaceId :: string
  rv_requiredReviewerIds :: "string list"
  rv_changes :: "ChangedPath list"
  rv_patch :: string
  rv_patchBytes :: string
  rv_reviewId :: string
  rv_createdAt :: string

record AuthoritativeNativeReviewEvent =
  re_eventId :: string
  re_envelopeId :: string
  re_eventProjectId :: string
  re_protectedRef :: string
  re_reviewId :: string
  re_expectedProtectedHead :: string
  re_candidateCommit :: string
  re_candidateTree :: string
  re_policyRevision :: string
  re_requiredReviewRevision :: string
  re_qualityRevision :: string
  re_executionKind :: execution_kind
  re_jobName :: string

record AuthoritativeNativeReviewEnvelope =
  en_envelopeId :: string
  en_review :: AuthoritativeNativeReview
  en_qualityRevision :: string
  en_policyDigest :: string
  en_requiredJobs :: "ReviewJob list"
  en_planning :: Planning
  en_events :: "AuthoritativeNativeReviewEvent list"

section \<open>Field schemas\<close>

definition base64_decode :: "string \<Rightarrow> string" where
  "base64_decode v = map char_of (octets (map (\<lambda>c. index_of c alphabet) (takeWhile (\<lambda>c. c \<noteq> CHR ''='') v)))"

definition base64_text :: "json option \<Rightarrow> string option" where
  "base64_text v = do { s \<leftarrow> as_string v; guardO (base64 (base64_decode s) = s); Some s }"

definition modePattern :: rexp where
  "modePattern = Rep (Cls (\<lambda>c. CHR ''0'' \<le> c \<and> c \<le> CHR ''7'')) 6 6"

definition workspacePattern :: rexp where
  "workspacePattern = Rep (Cls (\<lambda>c. alnum c \<or> c = CHR ''_'' \<or> c = CHR ''-'')) 43 43"

definition stableWorkspaceId :: "json option \<Rightarrow> string option" where
  "stableWorkspaceId v = do {
     s \<leftarrow> as_matching workspacePattern v;
     guardO (length (base64url_decode s) = 32 \<and> base64url_encode (base64url_decode s) = s);
     Some s }"

definition scriptPathPattern :: rexp where
  "scriptPathPattern = Seq (lit ''.dim/ci/jobs/'') (Seq namePattern (lit ''.bash''))"

text \<open>A member that may be absent, and an object whose members are the required ones and some of the
  optional ones.\<close>

definition optional :: "(json option \<Rightarrow> 'a option) \<Rightarrow> json option \<Rightarrow> 'a option option" where
  "optional f v = (case v of None \<Rightarrow> Some None | Some _ \<Rightarrow> map_option Some (f v))"

definition strict_object :: "json \<Rightarrow> string list \<Rightarrow> string list \<Rightarrow> bool" where
  "strict_object v required extra \<longleftrightarrow> is_record v \<and> list_all (has_own v) required
     \<and> list_all (\<lambda>k. k \<in> set required \<or> k \<in> set extra) (object_keys v)"

definition object_or_zero :: "json option \<Rightarrow> string option" where
  "object_or_zero v = (if v = Some (JStr ''0'') then Some ''0'' else as_matching objectIdPattern v)"

definition percentage :: "json option \<Rightarrow> int option" where
  "percentage v = do { i \<leftarrow> as_int v; guardO (0 \<le> i \<and> i \<le> 100); Some i }"

definition change_statuses :: "string list" where
  "change_statuses = [''added'', ''modified'', ''deleted'', ''renamed'', ''copied'', ''type-changed'']"

definition authoritativeNativeChangedPathSchema :: "json \<Rightarrow> ChangedPath option" where
  "authoritativeNativeChangedPathSchema v = do {
     guardO (strict_object v [''status'', ''oldPathBytes'', ''newPathBytes'', ''oldMode'', ''newMode'', ''oldObjectId'',
       ''newObjectId''] [''oldPath'', ''newPath'', ''similarity'', ''oldSymlinkTarget'', ''newSymlinkTarget'',
       ''oldSymlinkTargetBytes'', ''newSymlinkTargetBytes'']);
     status \<leftarrow> as_string (get_field v ''status'');
     guardO (status \<in> set change_statuses);
     oldPath \<leftarrow> optional as_string (get_field v ''oldPath'');
     newPath \<leftarrow> optional as_string (get_field v ''newPath'');
     oldPathBytes \<leftarrow> base64_text (get_field v ''oldPathBytes'');
     newPathBytes \<leftarrow> base64_text (get_field v ''newPathBytes'');
     oldMode \<leftarrow> as_matching modePattern (get_field v ''oldMode'');
     newMode \<leftarrow> as_matching modePattern (get_field v ''newMode'');
     oldObjectId \<leftarrow> object_or_zero (get_field v ''oldObjectId'');
     newObjectId \<leftarrow> object_or_zero (get_field v ''newObjectId'');
     similarity \<leftarrow> optional percentage (get_field v ''similarity'');
     oldSymlinkTarget \<leftarrow> optional as_string (get_field v ''oldSymlinkTarget'');
     newSymlinkTarget \<leftarrow> optional as_string (get_field v ''newSymlinkTarget'');
     oldSymlinkTargetBytes \<leftarrow> optional base64_text (get_field v ''oldSymlinkTargetBytes'');
     newSymlinkTargetBytes \<leftarrow> optional base64_text (get_field v ''newSymlinkTargetBytes'');
     Some \<lparr>cp_status = status, cp_oldPath = oldPath, cp_newPath = newPath, cp_oldPathBytes = oldPathBytes,
       cp_newPathBytes = newPathBytes, cp_oldMode = oldMode, cp_newMode = newMode, cp_oldObjectId = oldObjectId,
       cp_newObjectId = newObjectId, cp_similarity = similarity, cp_oldSymlinkTarget = oldSymlinkTarget,
       cp_newSymlinkTarget = newSymlinkTarget, cp_oldSymlinkTargetBytes = oldSymlinkTargetBytes,
       cp_newSymlinkTargetBytes = newSymlinkTargetBytes\<rparr> }"

definition authoritativeNativeRequiredJobSchema :: "json \<Rightarrow> ReviewJob option" where
  "authoritativeNativeRequiredJobSchema v = do {
     guardO (exact v [''executionKind'', ''jobName'', ''evidenceClass'']);
     kind \<leftarrow> as_kind (get_field v ''executionKind'');
     name \<leftarrow> as_matching namePattern (get_field v ''jobName'');
     as_literal (JStr ''candidate-controlled'') (get_field v ''evidenceClass'');
     Some \<lparr>vj_executionKind = kind, vj_jobName = name\<rparr> }"

definition blobIdentity :: "json option \<Rightarrow> ReviewBlob option" where
  "blobIdentity v = do {
     w \<leftarrow> as_record v;
     guardO (exact w [''objectId'', ''sha256'']);
     objectId \<leftarrow> as_matching objectIdPattern (get_field w ''objectId'');
     sha \<leftarrow> as_matching digestPattern (get_field w ''sha256'');
     Some \<lparr>vb_objectId = objectId, vb_sha256 = sha\<rparr> }"

definition reviewArgv :: json where
  "reviewArgv = JArr [JStr ''/bin/bash'', JStr ''--noprofile'', JStr ''--norc'', JStr ''/run/dim/job/script'']"

definition plannedJob :: "json \<Rightarrow> PlannedJob option" where
  "plannedJob v = do {
     guardO (exact v [''executionKind'', ''jobName'', ''evidenceClass'', ''script'', ''argv'']);
     kind \<leftarrow> as_kind (get_field v ''executionKind'');
     name \<leftarrow> as_matching namePattern (get_field v ''jobName'');
     as_literal (JStr ''candidate-controlled'') (get_field v ''evidenceClass'');
     script \<leftarrow> as_record (get_field v ''script'');
     guardO (exact script [''objectId'', ''sha256'', ''path'']);
     objectId \<leftarrow> as_matching objectIdPattern (get_field script ''objectId'');
     sha \<leftarrow> as_matching digestPattern (get_field script ''sha256'');
     path \<leftarrow> as_matching scriptPathPattern (get_field script ''path'');
     as_literal reviewArgv (get_field v ''argv'');
     Some \<lparr>pj_executionKind = kind, pj_jobName = name, pj_scriptObjectId = objectId, pj_scriptSha256 = sha,
       pj_scriptPath = path\<rparr> }"

definition planningSchema :: "json option \<Rightarrow> Planning option" where
  "planningSchema v = do {
     w \<leftarrow> as_record v;
     status \<leftarrow> as_string (get_field w ''status'');
     if status = ''valid'' then do {
       guardO (exact w [''status'', ''configBlob'', ''jobs'']);
       configBlob \<leftarrow> (if get_field w ''configBlob'' = Some JNull then Some None
         else map_option Some (blobIdentity (get_field w ''configBlob'')));
       jobs \<leftarrow> as_list plannedJob (get_field w ''jobs'');
       guardO (length jobs \<le> 64);
       Some (PlanValid configBlob jobs) }
     else do {
       guardO (status = ''invalid'');
       guardO (exact w [''status'', ''reason'']);
       as_literal (JStr ''invalid-candidate-job-plan'') (get_field w ''reason'');
       Some PlanInvalid } }"

definition reviewFields :: "string list" where
  "reviewFields = [''schemaVersion'', ''serviceId'', ''projectId'', ''repositoryId'', ''protectedRef'', ''proposalRef'',
     ''expectedProtectedHead'', ''candidateCommit'', ''candidateTree'', ''policyRevision'', ''requiredReviewRevision'',
     ''workspaceId'', ''requiredReviewerIds'', ''changes'', ''patch'', ''patchBytes'', ''reviewId'', ''createdAt'']"

definition authoritativeNativeReviewSchema :: "project_runtime \<Rightarrow> json option \<Rightarrow> AuthoritativeNativeReview option" where
  "authoritativeNativeReviewSchema rt value = do {
     v \<leftarrow> as_record value;
     guardO (exact v reviewFields);
     as_literal (JInt 2) (get_field v ''schemaVersion'');
     as_literal (JStr ''native-main'') (get_field v ''serviceId'');
     projectId \<leftarrow> as_matching projectPattern (get_field v ''projectId'');
     as_literal (JStr ''root'') (get_field v ''repositoryId'');
     ref \<leftarrow> as_string (get_field v ''protectedRef'');
     proposalRef \<leftarrow> as_string (get_field v ''proposalRef'');
     expectedProtectedHead \<leftarrow> as_matching objectIdPattern (get_field v ''expectedProtectedHead'');
     candidateCommit \<leftarrow> as_matching objectIdPattern (get_field v ''candidateCommit'');
     candidateTree \<leftarrow> as_matching objectIdPattern (get_field v ''candidateTree'');
     policyRevision \<leftarrow> as_matching hex64Pattern (get_field v ''policyRevision'');
     requiredReviewRevision \<leftarrow> as_matching hex64Pattern (get_field v ''requiredReviewRevision'');
     workspaceId \<leftarrow> stableWorkspaceId (get_field v ''workspaceId'');
     requiredReviewerIds \<leftarrow> as_list (text_matching projectPattern) (get_field v ''requiredReviewerIds'');
     guardO (1 \<le> length requiredReviewerIds);
     changes \<leftarrow> as_list authoritativeNativeChangedPathSchema (get_field v ''changes'');
     patch \<leftarrow> as_string (get_field v ''patch'');
     patchBytes \<leftarrow> base64_text (get_field v ''patchBytes'');
     reviewId \<leftarrow> as_matching hex64Pattern (get_field v ''reviewId'');
     createdAt \<leftarrow> as_string (get_field v ''createdAt'');
     guardO (zod_datetime rt createdAt);
     Some \<lparr>rv_projectId = projectId, rv_protectedRef = ref, rv_proposalRef = proposalRef,
       rv_expectedProtectedHead = expectedProtectedHead, rv_candidateCommit = candidateCommit,
       rv_candidateTree = candidateTree, rv_policyRevision = policyRevision,
       rv_requiredReviewRevision = requiredReviewRevision, rv_workspaceId = workspaceId,
       rv_requiredReviewerIds = requiredReviewerIds, rv_changes = changes, rv_patch = patch,
       rv_patchBytes = patchBytes, rv_reviewId = reviewId, rv_createdAt = createdAt\<rparr> }"

definition reviewEventFields :: "string list" where
  "reviewEventFields = [''schemaVersion'', ''type'', ''eventId'', ''envelopeId'', ''projectId'', ''repositoryId'',
     ''protectedRef'', ''reviewId'', ''expectedProtectedHead'', ''candidateCommit'', ''candidateTree'',
     ''policyRevision'', ''requiredReviewRevision'', ''qualityRevision'', ''executionKind'', ''jobName'', ''evidenceClass'']"

definition authoritativeNativeReviewEventSchema :: "json \<Rightarrow> AuthoritativeNativeReviewEvent option" where
  "authoritativeNativeReviewEventSchema v = do {
     guardO (exact v reviewEventFields);
     as_literal (JInt 3) (get_field v ''schemaVersion'');
     as_literal (JStr ''dim.native.review-job.available'') (get_field v ''type'');
     eventId \<leftarrow> as_matching hex64Pattern (get_field v ''eventId'');
     envelopeId \<leftarrow> as_matching hex64Pattern (get_field v ''envelopeId'');
     projectId \<leftarrow> as_matching projectPattern (get_field v ''projectId'');
     as_literal (JStr ''root'') (get_field v ''repositoryId'');
     ref \<leftarrow> as_string (get_field v ''protectedRef'');
     reviewId \<leftarrow> as_matching hex64Pattern (get_field v ''reviewId'');
     expectedProtectedHead \<leftarrow> as_matching objectIdPattern (get_field v ''expectedProtectedHead'');
     candidateCommit \<leftarrow> as_matching objectIdPattern (get_field v ''candidateCommit'');
     candidateTree \<leftarrow> as_matching objectIdPattern (get_field v ''candidateTree'');
     policyRevision \<leftarrow> as_matching hex64Pattern (get_field v ''policyRevision'');
     requiredReviewRevision \<leftarrow> as_matching hex64Pattern (get_field v ''requiredReviewRevision'');
     qualityRevision \<leftarrow> as_matching hex64Pattern (get_field v ''qualityRevision'');
     kind \<leftarrow> as_kind (get_field v ''executionKind'');
     name \<leftarrow> as_matching namePattern (get_field v ''jobName'');
     as_literal (JStr ''candidate-controlled'') (get_field v ''evidenceClass'');
     Some \<lparr>re_eventId = eventId, re_envelopeId = envelopeId, re_eventProjectId = projectId, re_protectedRef = ref,
       re_reviewId = reviewId, re_expectedProtectedHead = expectedProtectedHead, re_candidateCommit = candidateCommit,
       re_candidateTree = candidateTree, re_policyRevision = policyRevision,
       re_requiredReviewRevision = requiredReviewRevision, re_qualityRevision = qualityRevision,
       re_executionKind = kind, re_jobName = name\<rparr> }"

definition authoritativeNativeReviewEnvelopeSchema ::
  "project_runtime \<Rightarrow> json \<Rightarrow> AuthoritativeNativeReviewEnvelope option" where
  "authoritativeNativeReviewEnvelopeSchema rt v = do {
     guardO (exact v [''schemaVersion'', ''envelopeId'', ''review'', ''qualityRevision'', ''policyDigest'',
       ''requiredJobs'', ''planning'', ''events'']);
     as_literal (JInt 2) (get_field v ''schemaVersion'');
     envelopeId \<leftarrow> as_matching hex64Pattern (get_field v ''envelopeId'');
     review \<leftarrow> authoritativeNativeReviewSchema rt (get_field v ''review'');
     qualityRevision \<leftarrow> as_matching hex64Pattern (get_field v ''qualityRevision'');
     policyDigest \<leftarrow> as_matching hex64Pattern (get_field v ''policyDigest'');
     requiredJobs \<leftarrow> as_list authoritativeNativeRequiredJobSchema (get_field v ''requiredJobs'');
     guardO (length requiredJobs \<le> 64);
     planning \<leftarrow> planningSchema (get_field v ''planning'');
     events \<leftarrow> as_list authoritativeNativeReviewEventSchema (get_field v ''events'');
     guardO (length events \<le> 64);
     Some \<lparr>en_envelopeId = envelopeId, en_review = review, en_qualityRevision = qualityRevision,
       en_policyDigest = policyDigest, en_requiredJobs = requiredJobs, en_planning = planning, en_events = events\<rparr> }"

section \<open>Digests\<close>

definition member_if :: "string \<Rightarrow> ('a \<Rightarrow> json) \<Rightarrow> 'a option \<Rightarrow> (string \<times> json) list" where
  "member_if k f x = (case x of None \<Rightarrow> [] | Some y \<Rightarrow> [(k, f y)])"

definition change_json :: "ChangedPath \<Rightarrow> json" where
  "change_json c = JObj ([(''status'', JStr (cp_status c))] @ member_if ''oldPath'' JStr (cp_oldPath c)
     @ member_if ''newPath'' JStr (cp_newPath c) @ [(''oldPathBytes'', JStr (cp_oldPathBytes c)),
     (''newPathBytes'', JStr (cp_newPathBytes c)), (''oldMode'', JStr (cp_oldMode c)), (''newMode'', JStr (cp_newMode c)),
     (''oldObjectId'', JStr (cp_oldObjectId c)), (''newObjectId'', JStr (cp_newObjectId c))]
     @ member_if ''similarity'' JInt (cp_similarity c) @ member_if ''oldSymlinkTarget'' JStr (cp_oldSymlinkTarget c)
     @ member_if ''newSymlinkTarget'' JStr (cp_newSymlinkTarget c)
     @ member_if ''oldSymlinkTargetBytes'' JStr (cp_oldSymlinkTargetBytes c)
     @ member_if ''newSymlinkTargetBytes'' JStr (cp_newSymlinkTargetBytes c))"

definition identity_json :: "AuthoritativeNativeReview \<Rightarrow> json" where
  "identity_json r = JObj [(''schemaVersion'', JInt 2), (''serviceId'', JStr ''native-main''),
     (''projectId'', JStr (rv_projectId r)), (''repositoryId'', JStr ''root''), (''protectedRef'', JStr (rv_protectedRef r)),
     (''proposalRef'', JStr (rv_proposalRef r)), (''expectedProtectedHead'', JStr (rv_expectedProtectedHead r)),
     (''candidateCommit'', JStr (rv_candidateCommit r)), (''candidateTree'', JStr (rv_candidateTree r)),
     (''policyRevision'', JStr (rv_policyRevision r)), (''requiredReviewRevision'', JStr (rv_requiredReviewRevision r)),
     (''workspaceId'', JStr (rv_workspaceId r)), (''requiredReviewerIds'', JArr (map JStr (rv_requiredReviewerIds r))),
     (''changes'', JArr (map change_json (rv_changes r))), (''patch'', JStr (rv_patch r)),
     (''patchBytes'', JStr (rv_patchBytes r))]"

definition authoritativeNativeReviewDigest :: "project_runtime \<Rightarrow> AuthoritativeNativeReview \<Rightarrow> string" where
  "authoritativeNativeReviewDigest rt r = domainDigest rt ''dim-native-authoritative-review-v2'' (identity_json r)"

definition review_job_json :: "ReviewJob \<Rightarrow> json" where
  "review_job_json j = JObj [(''executionKind'', JStr (kind_text (vj_executionKind j))), (''jobName'', JStr (vj_jobName j)),
     (''evidenceClass'', JStr ''candidate-controlled'')]"

definition planned_job_json :: "PlannedJob \<Rightarrow> json" where
  "planned_job_json j = JObj [(''executionKind'', JStr (kind_text (pj_executionKind j))), (''jobName'', JStr (pj_jobName j)),
     (''evidenceClass'', JStr ''candidate-controlled''),
     (''script'', JObj [(''objectId'', JStr (pj_scriptObjectId j)), (''sha256'', JStr (pj_scriptSha256 j)),
       (''path'', JStr (pj_scriptPath j))]), (''argv'', reviewArgv)]"

definition review_blob_json :: "ReviewBlob \<Rightarrow> json" where
  "review_blob_json b = JObj [(''objectId'', JStr (vb_objectId b)), (''sha256'', JStr (vb_sha256 b))]"

fun planning_json :: "Planning \<Rightarrow> json" where
  "planning_json (PlanValid blob jobs) = JObj [(''status'', JStr ''valid''),
     (''configBlob'', case blob of None \<Rightarrow> JNull | Some b \<Rightarrow> review_blob_json b),
     (''jobs'', JArr (map planned_job_json jobs))]"
| "planning_json PlanInvalid = JObj [(''status'', JStr ''invalid''), (''reason'', JStr ''invalid-candidate-job-plan'')]"

definition envelope_digest ::
  "project_runtime \<Rightarrow> string \<Rightarrow> string \<Rightarrow> string \<Rightarrow> ReviewJob list \<Rightarrow> Planning \<Rightarrow> string" where
  "envelope_digest rt reviewId qualityRevision policyDigest requiredJobs planning =
     domainDigest rt ''dim-native-authoritative-envelope-v2'' (JObj [(''reviewId'', JStr reviewId),
       (''qualityRevision'', JStr qualityRevision), (''policyDigest'', JStr policyDigest),
       (''requiredJobs'', JArr (map review_job_json requiredJobs)), (''planning'', planning_json planning)])"

section \<open>Envelopes\<close>

definition review_event_json :: "AuthoritativeNativeReviewEvent \<Rightarrow> json" where
  "review_event_json e = JObj [(''schemaVersion'', JInt 3), (''type'', JStr ''dim.native.review-job.available''),
     (''eventId'', JStr (re_eventId e)), (''envelopeId'', JStr (re_envelopeId e)),
     (''projectId'', JStr (re_eventProjectId e)), (''repositoryId'', JStr ''root''),
     (''protectedRef'', JStr (re_protectedRef e)), (''reviewId'', JStr (re_reviewId e)),
     (''expectedProtectedHead'', JStr (re_expectedProtectedHead e)), (''candidateCommit'', JStr (re_candidateCommit e)),
     (''candidateTree'', JStr (re_candidateTree e)), (''policyRevision'', JStr (re_policyRevision e)),
     (''requiredReviewRevision'', JStr (re_requiredReviewRevision e)), (''qualityRevision'', JStr (re_qualityRevision e)),
     (''executionKind'', JStr (kind_text (re_executionKind e))), (''jobName'', JStr (re_jobName e)),
     (''evidenceClass'', JStr ''candidate-controlled'')]"

definition event_digest :: "project_runtime \<Rightarrow> string \<Rightarrow> execution_kind \<Rightarrow> string \<Rightarrow> string" where
  "event_digest rt envelopeId kind name = domainDigest rt ''dim-native-authoritative-review-event-v3''
     (JObj [(''envelopeId'', JStr envelopeId), (''executionKind'', JStr (kind_text kind)), (''jobName'', JStr name)])"

definition eventFor ::
  "project_runtime \<Rightarrow> AuthoritativeNativeReview \<Rightarrow> string \<Rightarrow> string \<Rightarrow> PlannedJob \<Rightarrow>
     AuthoritativeNativeReviewEvent option" where
  "eventFor rt review envelopeId qualityRevision job = authoritativeNativeReviewEventSchema (review_event_json
     \<lparr>re_eventId = event_digest rt envelopeId (pj_executionKind job) (pj_jobName job), re_envelopeId = envelopeId,
      re_eventProjectId = rv_projectId review, re_protectedRef = rv_protectedRef review, re_reviewId = rv_reviewId review,
      re_expectedProtectedHead = rv_expectedProtectedHead review, re_candidateCommit = rv_candidateCommit review,
      re_candidateTree = rv_candidateTree review, re_policyRevision = rv_policyRevision review,
      re_requiredReviewRevision = rv_requiredReviewRevision review, re_qualityRevision = qualityRevision,
      re_executionKind = pj_executionKind job, re_jobName = pj_jobName job\<rparr>)"

definition ascending :: "string list \<Rightarrow> bool" where
  "ascending values \<longleftrightarrow> distinct values \<and> successively (\<lambda>a b. a < b) values"

definition jobKey :: "execution_kind \<Rightarrow> string \<Rightarrow> string" where
  "jobKey kind name = kind_text kind @ [CHR 0x00] @ name"

definition planned_events ::
  "project_runtime \<Rightarrow> AuthoritativeNativeReview \<Rightarrow> string \<Rightarrow> string \<Rightarrow> Planning \<Rightarrow>
     AuthoritativeNativeReviewEvent list option" where
  "planned_events rt review envelopeId qualityRevision planning =
     (case planning of PlanInvalid \<Rightarrow> Some []
      | PlanValid _ jobs \<Rightarrow> mapM (eventFor rt review envelopeId qualityRevision) jobs)"

definition planning_ordered :: "Planning \<Rightarrow> bool" where
  "planning_ordered planning = (case planning of PlanInvalid \<Rightarrow> True
     | PlanValid _ jobs \<Rightarrow> ascending (map (\<lambda>j. jobKey (pj_executionKind j) (pj_jobName j)) jobs))"

definition parseAuthoritativeNativeReviewEnvelope ::
  "project_runtime \<Rightarrow> json \<Rightarrow> AuthoritativeNativeReviewEnvelope option" where
  "parseAuthoritativeNativeReviewEnvelope rt input = do {
     e \<leftarrow> authoritativeNativeReviewEnvelopeSchema rt input;
     let r = en_review e;
     guardO (ascending (rv_requiredReviewerIds r));
     guardO (ascending (map (\<lambda>j. jobKey (vj_executionKind j) (vj_jobName j)) (en_requiredJobs e)));
     guardO (startsWith (''refs/heads/proposals/'' @ rv_workspaceId r @ ''/'') (rv_proposalRef r)
       \<and> authoritativeNativeReviewDigest rt r = rv_reviewId r);
     guardO (planning_ordered (en_planning e));
     guardO (en_envelopeId e = envelope_digest rt (rv_reviewId r) (en_qualityRevision e) (en_policyDigest e)
       (en_requiredJobs e) (en_planning e));
     expected \<leftarrow> planned_events rt r (en_envelopeId e) (en_qualityRevision e) (en_planning e);
     guardO (en_events e = expected);
     Some e }"

section \<open>Required reviewers\<close>

definition path_matches :: "PathRule \<Rightarrow> ChangedPath \<Rightarrow> bool" where
  "path_matches rule change \<longleftrightarrow> startsWith (pr_pathPrefix rule) (base64_decode (cp_oldPathBytes change))
     \<or> startsWith (pr_pathPrefix rule) (base64_decode (cp_newPathBytes change))"

definition requiredReviewers :: "NativeImportedRootPolicy \<Rightarrow> ChangedPath list \<Rightarrow> string list" where
  "requiredReviewers policy changes = sort (remdups (ip_requiredReviewerIds policy
     @ concat (map pr_reviewerIds (filter (\<lambda>rule. list_ex (path_matches rule) changes) (ip_pathReviewerRules policy)))))"

end
