(* ===== verification/Review_Git.thy ===== *)
theory Review_Git
  imports Project_Review
begin

text \<open>
  What a review reads from Git (\<open>authoritative-native-review-git.ts\<close>, \<open>native-root-import-proof-git.ts\<close>).
  The output of the pinned Git executable is a view of the repository, an argument of the definitions that
  run it: a function from the arguments of a command to its output, \<open>None\<close> where the command fails.
  Texts are their UTF-8 bytes; the lossy conversion of a patch to text is the argument \<open>utf8\<close>.
\<close>

section \<open>Views\<close>

record git_view =
  gv_object_format :: "string option"
  gv_refs :: "string option"
  gv_show_ref :: "string \<Rightarrow> string option"
  gv_object_type :: "string \<Rightarrow> string option"
  gv_rev_parse :: "string \<Rightarrow> string option"
  gv_is_ancestor :: "string \<Rightarrow> string \<Rightarrow> bool"
  gv_fsck :: "string \<Rightarrow> bool"
  gv_diff_raw :: "string \<Rightarrow> string \<Rightarrow> string option"
  gv_diff_patch :: "string \<Rightarrow> string \<Rightarrow> string option"
  gv_blob :: "string \<Rightarrow> string option"

text \<open>\<open>String.prototype.trim\<close> on the output of a command.\<close>

definition white_space :: "char \<Rightarrow> bool" where
  "white_space c \<longleftrightarrow> c \<in> {CHR 0x09, CHR 0x0A, CHR 0x0B, CHR 0x0C, CHR 0x0D, CHR 0x20}"

definition trim :: "string \<Rightarrow> string" where
  "trim s = rev (dropWhile white_space (rev (dropWhile white_space s)))"

definition resolveObject :: "git_view \<Rightarrow> string \<Rightarrow> string option" where
  "resolveObject view expression = map_option trim (gv_rev_parse view expression)"

definition resolveCommit :: "git_view \<Rightarrow> string \<Rightarrow> string option" where
  "resolveCommit view ref = resolveObject view (ref @ ''^{commit}'')"

section \<open>The raw diff\<close>

text \<open>The byte sequences of \<open>TextDecoder("utf-8", { fatal: true })\<close>, which drops a byte order mark.\<close>

fun utf8_valid :: "nat list \<Rightarrow> bool" where
  "utf8_valid [] = True"
| "utf8_valid (a # r) =
     (if a < 0x80 then utf8_valid r
      else case r of
        [] \<Rightarrow> False
      | b # r' \<Rightarrow>
          if 0xC2 \<le> a \<and> a \<le> 0xDF then 0x80 \<le> b \<and> b \<le> 0xBF \<and> utf8_valid r'
          else case r' of
            [] \<Rightarrow> False
          | c # r'' \<Rightarrow>
              if 0xE0 \<le> a \<and> a \<le> 0xEF
              then (if a = 0xE0 then 0xA0 else 0x80) \<le> b \<and> b \<le> (if a = 0xED then 0x9F else 0xBF)
                \<and> 0x80 \<le> c \<and> c \<le> 0xBF \<and> utf8_valid r''
              else case r'' of
                [] \<Rightarrow> False
              | d # r''' \<Rightarrow> 0xF0 \<le> a \<and> a \<le> 0xF4 \<and> (if a = 0xF0 then 0x90 else 0x80) \<le> b
                  \<and> b \<le> (if a = 0xF4 then 0x8F else 0xBF) \<and> 0x80 \<le> c \<and> c \<le> 0xBF \<and> 0x80 \<le> d \<and> d \<le> 0xBF
                  \<and> utf8_valid r''')"

definition byte_order_mark :: string where
  "byte_order_mark = [CHR 0xEF, CHR 0xBB, CHR 0xBF]"

definition displayBytes :: "string \<Rightarrow> string" where
  "displayBytes value =
     (if utf8_valid (map of_char value)
      then (if startsWith byte_order_mark value then drop 3 value else value)
      else ''<base64:'' @ base64 value @ ''>'')"

definition readBlob :: "git_view \<Rightarrow> string \<Rightarrow> string option" where
  "readBlob view objectId = (if objectId = ''0'' then Some [] else gv_blob view objectId)"

fun splitNul :: "string \<Rightarrow> string list option" where
  "splitNul [] = Some []"
| "splitNul (c # cs) =
     (if c = CHR 0x00 then map_option (\<lambda>fs. [] # fs) (splitNul cs)
      else case splitNul cs of Some (f # fs) \<Rightarrow> Some ((c # f) # fs) | _ \<Rightarrow> None)"

record raw_metadata =
  md_status :: string
  md_oldMode :: string
  md_newMode :: string
  md_oldObjectId :: string
  md_newObjectId :: string
  md_similarity :: "int option"

fun status_text :: "char \<Rightarrow> string" where
  "status_text code = (if code = CHR ''A'' then ''added'' else if code = CHR ''D'' then ''deleted''
     else if code = CHR ''M'' then ''modified'' else if code = CHR ''R'' then ''renamed''
     else if code = CHR ''C'' then ''copied'' else ''type-changed'')"

definition raw_object :: "string \<Rightarrow> string" where
  "raw_object s = (if list_all (\<lambda>c. c = CHR ''0'') s then ''0'' else s)"

text \<open>The fields of \<open>/^:([0-7]{6}) ([0-7]{6}) ([0-9a-f]+) ([0-9a-f]+) ([ADMTRC])([0-9]{1,3})?$/\<close> contain no blank.\<close>

definition parseMetadata :: "string \<Rightarrow> raw_metadata option" where
  "parseMetadata value =
     (case split_on CHR '' '' value of
        [(CHR '':'') # oldMode, newMode, oldObject, newObject, code # score] \<Rightarrow>
          if matches modePattern oldMode \<and> matches modePattern newMode
            \<and> oldObject \<noteq> [] \<and> list_all hex_digit oldObject \<and> newObject \<noteq> [] \<and> list_all hex_digit newObject
            \<and> code \<in> set ''ADMTRC'' \<and> length score \<le> 3 \<and> list_all digit score
          then Some \<lparr>md_status = status_text code, md_oldMode = oldMode, md_newMode = newMode,
            md_oldObjectId = raw_object oldObject, md_newObjectId = raw_object newObject,
            md_similarity = (if score = [] then None else Some (int (undec score)))\<rparr>
          else None
      | _ \<Rightarrow> None)"

text \<open>\<open>Buffer.toString("ascii")\<close> clears the high bit of every byte.\<close>

fun ascii_char :: "char \<Rightarrow> char" where
  "ascii_char (Char b0 b1 b2 b3 b4 b5 b6 b7) = Char b0 b1 b2 b3 b4 b5 b6 False"

definition ascii :: "string \<Rightarrow> string" where
  "ascii s = map ascii_char s"

definition is_pair :: "raw_metadata \<Rightarrow> bool" where
  "is_pair parsed \<longleftrightarrow> md_status parsed = ''renamed'' \<or> md_status parsed = ''copied''"

definition symlink_target :: "git_view \<Rightarrow> string \<Rightarrow> string \<Rightarrow> string option option" where
  "symlink_target view mode objectId =
     (if mode = ''120000'' then map_option Some (readBlob view objectId) else Some None)"

definition change_of :: "git_view \<Rightarrow> raw_metadata \<Rightarrow> string \<Rightarrow> string \<Rightarrow> ChangedPath option" where
  "change_of view parsed firstPath secondPath = do {
     let oldPath = (if md_status parsed = ''added'' then [] else firstPath);
     let newPath = (if md_status parsed = ''deleted'' then [] else secondPath);
     oldTarget \<leftarrow> symlink_target view (md_oldMode parsed) (md_oldObjectId parsed);
     newTarget \<leftarrow> symlink_target view (md_newMode parsed) (md_newObjectId parsed);
     Some \<lparr>cp_status = md_status parsed,
       cp_oldPath = (if oldPath = [] then None else Some (displayBytes oldPath)),
       cp_newPath = (if newPath = [] then None else Some (displayBytes newPath)),
       cp_oldPathBytes = base64 oldPath, cp_newPathBytes = base64 newPath,
       cp_oldMode = md_oldMode parsed, cp_newMode = md_newMode parsed,
       cp_oldObjectId = md_oldObjectId parsed, cp_newObjectId = md_newObjectId parsed,
       cp_similarity = md_similarity parsed,
       cp_oldSymlinkTarget = map_option displayBytes oldTarget, cp_newSymlinkTarget = map_option displayBytes newTarget,
       cp_oldSymlinkTargetBytes = map_option base64 oldTarget, cp_newSymlinkTargetBytes = map_option base64 newTarget\<rparr> }"

fun changes_of :: "git_view \<Rightarrow> string list \<Rightarrow> ChangedPath list option" where
  "changes_of view [] = Some []"
| "changes_of view [metadata] = None"
| "changes_of view (metadata # firstPath # rest) = do {
     parsed \<leftarrow> parseMetadata (ascii metadata);
     if is_pair parsed then
       (case rest of
          [] \<Rightarrow> None
        | secondPath # rest' \<Rightarrow> do {
            change \<leftarrow> change_of view parsed firstPath secondPath;
            changes \<leftarrow> changes_of view rest';
            Some (change # changes) })
     else do {
       change \<leftarrow> change_of view parsed firstPath firstPath;
       changes \<leftarrow> changes_of view rest;
       Some (change # changes) } }"

definition parseChanges :: "git_view \<Rightarrow> string \<Rightarrow> ChangedPath list option" where
  "parseChanges view out = Option.bind (splitNul out) (changes_of view)"

section \<open>Inspecting a candidate\<close>

record review_refs =
  rr_protectedHead :: string
  rr_candidateCommit :: string
  rr_candidateTree :: string

record AuthoritativeNativeGitReviewEvidence = review_refs +
  ge_changes :: "ChangedPath list"
  ge_patch :: string
  ge_patchBytes :: string

definition readAuthoritativeNativeReviewRefs :: "git_view \<Rightarrow> string \<Rightarrow> string \<Rightarrow> review_refs option" where
  "readAuthoritativeNativeReviewRefs view protected proposalRef = do {
     protectedHead \<leftarrow> resolveCommit view protected;
     candidateCommit \<leftarrow> resolveCommit view proposalRef;
     candidateTree \<leftarrow> resolveObject view (candidateCommit @ ''^{tree}'');
     Some \<lparr>rr_protectedHead = protectedHead, rr_candidateCommit = candidateCommit, rr_candidateTree = candidateTree\<rparr> }"

definition inspectAuthoritativeNativeReviewGit ::
  "(string \<Rightarrow> string) \<Rightarrow> git_view \<Rightarrow> string \<Rightarrow> string \<Rightarrow> string \<Rightarrow> AuthoritativeNativeGitReviewEvidence option" where
  "inspectAuthoritativeNativeReviewGit utf8 view protected expectedProtectedHead proposalRef = do {
     protectedHead \<leftarrow> resolveCommit view protected;
     guardO (protectedHead = expectedProtectedHead);
     candidateCommit \<leftarrow> resolveCommit view proposalRef;
     candidateTree \<leftarrow> resolveObject view (candidateCommit @ ''^{tree}'');
     guardO (length candidateCommit = length protectedHead \<and> length candidateTree = length protectedHead);
     guardO (gv_fsck view candidateCommit);
     raw \<leftarrow> gv_diff_raw view protectedHead candidateCommit;
     changes \<leftarrow> parseChanges view raw;
     patch \<leftarrow> gv_diff_patch view protectedHead candidateCommit;
     Some \<lparr>rr_protectedHead = protectedHead, rr_candidateCommit = candidateCommit, rr_candidateTree = candidateTree,
       ge_changes = changes, ge_patch = utf8 patch, ge_patchBytes = base64 patch\<rparr> }"

definition assertAuthoritativeNativeReviewRefs ::
  "git_view \<Rightarrow> string \<Rightarrow> string \<Rightarrow> string \<Rightarrow> string \<Rightarrow> string \<Rightarrow> bool" where
  "assertAuthoritativeNativeReviewRefs view protected proposalRef expectedProtectedHead candidateCommit candidateTree =
     (readAuthoritativeNativeReviewRefs view protected proposalRef
        = Some \<lparr>rr_protectedHead = expectedProtectedHead, rr_candidateCommit = candidateCommit, rr_candidateTree = candidateTree\<rparr>)"

section \<open>Inspecting an imported root\<close>

definition isWorkspaceProposalRef :: "string \<Rightarrow> bool" where
  "isWorkspaceProposalRef ref \<longleftrightarrow>
     (let prefix = ''refs/heads/proposals/''; rest = drop (length prefix) ref; proposal = drop 44 rest in
      startsWith prefix ref \<and> matches workspacePattern (take 43 rest) \<and> take 1 (drop 43 rest) = ''/''
      \<and> proposal \<noteq> [] \<and> list_all (\<lambda>c. alnum c \<or> punct3 c \<or> c = CHR ''/'') proposal
      \<and> \<not> startsWith ''.'' proposal \<and> \<not> str_includes ''/.'' proposal \<and> \<not> str_includes ''..'' proposal
      \<and> \<not> str_includes ''//'' proposal \<and> \<not> endsWith ''/'' proposal \<and> \<not> endsWith ''.'' proposal
      \<and> \<not> endsWith ''.lock'' proposal)"

definition inspectRefs :: "git_view \<Rightarrow> string \<Rightarrow> string \<Rightarrow> bool" where
  "inspectRefs view protected currentCommit =
     (case gv_refs view of
        None \<Rightarrow> False
      | Some out \<Rightarrow>
          let refs = filter (\<lambda>ref. ref \<noteq> []) (split_on CHR 0x0A out) in
          protected \<in> set refs \<and> list_all (\<lambda>ref. ref = protected \<or> isWorkspaceProposalRef ref) refs
          \<and> map_option trim (gv_show_ref view protected) = Some currentCommit)"

text \<open>The two inspections of the refs enclose the others, so they see a view of their own.\<close>

definition inspectImportedNativeRootReadOnly ::
  "git_view \<Rightarrow> git_view \<Rightarrow> string \<Rightarrow> string \<Rightarrow> string \<Rightarrow> string \<Rightarrow> string \<Rightarrow> bool" where
  "inspectImportedNativeRootReadOnly view view' protected importedCommit importedTree currentCommit currentTree =
     (case map_option trim (gv_object_format view) of
        None \<Rightarrow> False
      | Some format \<Rightarrow>
          (format = ''sha1'' \<or> format = ''sha256'')
          \<and> list_all (\<lambda>objectId. length objectId = (if format = ''sha1'' then 40 else 64))
               [importedCommit, importedTree, currentCommit, currentTree]
          \<and> inspectRefs view protected currentCommit
          \<and> gv_object_type view currentCommit = Some (''commit'' @ [CHR 0x0A])
          \<and> resolveObject view (currentCommit @ ''^{tree}'') = Some currentTree
          \<and> gv_is_ancestor view importedCommit currentCommit
          \<and> resolveObject view (importedCommit @ ''^{tree}'') = Some importedTree
          \<and> gv_fsck view currentCommit \<and> inspectRefs view' protected currentCommit)"

section \<open>The paths of a raw diff\<close>

lemma base64_decode_base64 [simp]: "base64_decode (base64 s) = s"
proof -
  have i: "index_of (alphabet ! i) alphabet = i" if "i < 64" for i
  proof -
    have "index_of (xs ! k) xs = k" if "distinct xs" "k < length xs" for k :: nat and xs :: string
      using that by (induction xs arbitrary: k) (auto simp: nth_Cons split: nat.splits)
    with alphabet_facts that show ?thesis by simp
  qed
  have "map (\<lambda>c. index_of c alphabet) (map ((!) alphabet) xs) = xs" if "list_all (\<lambda>x. x < 64) xs" for xs
    using that i by (induction xs) auto
  then have "octets (map (\<lambda>c. index_of c alphabet) (map ((!) alphabet) (sextets (map byte s)))) = map byte s"
    by (simp only: sextets_bound[OF bytes_bound] octets_sextets[OF bytes_bound])
  then show ?thesis by (simp add: base64_decode_def takeWhile_base64 comp_def)
qed

text \<open>The documented format of \<open>git diff --raw -z\<close>: a record is its metadata and one path, or two paths
  for a rename or copy, each field closed by a NUL byte.\<close>

datatype diff_record = OnePath string string | TwoPaths string string string

fun record_fields :: "diff_record \<Rightarrow> string list" where
  "record_fields (OnePath m p) = [m, p]"
| "record_fields (TwoPaths m p q) = [m, p, q]"

fun record_paths :: "diff_record \<Rightarrow> string list" where
  "record_paths (OnePath m p) = [p]"
| "record_paths (TwoPaths m p q) = [p, q]"

fun record_kind_ok :: "diff_record \<Rightarrow> bool" where
  "record_kind_ok (OnePath m p) = (case parseMetadata (ascii m) of None \<Rightarrow> True | Some parsed \<Rightarrow> \<not> is_pair parsed)"
| "record_kind_ok (TwoPaths m p q) = (case parseMetadata (ascii m) of None \<Rightarrow> True | Some parsed \<Rightarrow> is_pair parsed)"

definition record_ok :: "diff_record \<Rightarrow> bool" where
  "record_ok r \<longleftrightarrow> record_kind_ok r \<and> list_all (\<lambda>f. CHR 0x00 \<notin> set f) (record_fields r)"

definition diff_text :: "diff_record list \<Rightarrow> string" where
  "diff_text rs = concat (map (\<lambda>f. f @ [CHR 0x00]) (concat (map record_fields rs)))"

lemma splitNul_field: "CHR 0x00 \<notin> set f \<Longrightarrow> splitNul (f @ CHR 0x00 # s) = map_option (\<lambda>fs. f # fs) (splitNul s)"
  by (induction f) (auto split: option.splits)

lemma splitNul_fields:
  "list_all (\<lambda>f. CHR 0x00 \<notin> set f) fs \<Longrightarrow> splitNul (concat (map (\<lambda>f. f @ [CHR 0x00]) fs)) = Some fs"
  by (induction fs) (simp_all add: splitNul_field)

definition covers :: "diff_record \<Rightarrow> ChangedPath \<Rightarrow> bool" where
  "covers r c \<longleftrightarrow> set (record_paths r) \<subseteq> {base64_decode (cp_oldPathBytes c), base64_decode (cp_newPathBytes c)}"

lemma change_paths:
  "change_of view parsed p q = Some c \<Longrightarrow>
     base64_decode (cp_oldPathBytes c) = (if md_status parsed = ''added'' then [] else p)
     \<and> base64_decode (cp_newPathBytes c) = (if md_status parsed = ''deleted'' then [] else q)"
  by (auto simp: change_of_def Let_def opt_conv)

lemma changes_cover:
  assumes "list_all record_ok rs" "changes_of view (concat (map record_fields rs)) = Some changes"
  shows "list_all2 covers rs changes"
  using assms
proof (induction rs arbitrary: changes)
  case (Cons r rs)
  show ?case
  proof (cases r)
    case (OnePath m p)
    with Cons.prems obtain md c cs where md: "parseMetadata (ascii m) = Some md" "change_of view md p p = Some c"
      "changes_of view (concat (map record_fields rs)) = Some cs" "changes = c # cs"
      by (auto simp: record_ok_def opt_conv)
    have "covers r c" using change_paths[OF md(2)] OnePath by (auto simp: covers_def)
    with Cons md show ?thesis by simp
  next
    case (TwoPaths m p q)
    with Cons.prems obtain md c cs where md: "parseMetadata (ascii m) = Some md" "is_pair md"
      "change_of view md p q = Some c" "changes_of view (concat (map record_fields rs)) = Some cs" "changes = c # cs"
      by (auto simp: record_ok_def opt_conv)
    have "covers r c" using change_paths[OF md(3)] md(2) TwoPaths by (auto simp: covers_def is_pair_def)
    with Cons md show ?thesis by simp
  qed
qed simp

lemma parseChanges_cover:
  assumes "list_all record_ok rs" "parseChanges view (diff_text rs) = Some changes"
  shows "list_all2 covers rs changes"
proof -
  have "list_all (\<lambda>f. CHR 0x00 \<notin> set f) (concat (map record_fields rs))"
    using assms(1) by (induction rs) (auto simp: record_ok_def)
  from splitNul_fields[OF this] assms changes_cover show ?thesis by (simp add: parseChanges_def diff_text_def)
qed

lemma set_requiredReviewers:
  "set (requiredReviewers policy changes) = set (ip_requiredReviewerIds policy)
     \<union> (\<Union>rule\<in>{rule \<in> set (ip_pathReviewerRules policy). \<exists>c\<in>set changes. path_matches rule c}. set (pr_reviewerIds rule))"
  by (auto simp: requiredReviewers_def list_ex_iff)

lemma requiredReviewers_ascending: "ascending (requiredReviewers policy changes)"
proof -
  have "sorted_wrt (<) xs" if "sorted xs" "distinct xs" for xs :: "string list" using that by (simp add: strict_sorted_iff)
  then have "sorted_wrt (<) (requiredReviewers policy changes)" by (simp add: requiredReviewers_def)
  then show ?thesis by (auto simp: ascending_def strict_sorted_iff successively_if_sorted_wrt)
qed


definition demo_view :: git_view where
  "demo_view = \<lparr>gv_object_format = Some ''sha1'', gv_refs = None, gv_show_ref = (\<lambda>_. None), gv_object_type = (\<lambda>_. None),
     gv_rev_parse = (\<lambda>_. None), gv_is_ancestor = (\<lambda>_ _. False), gv_fsck = (\<lambda>_. False), gv_diff_raw = (\<lambda>_ _. None),
     gv_diff_patch = (\<lambda>_ _. None), gv_blob = (\<lambda>_. None)\<rparr>"

definition demo_rename :: diff_record where
  "demo_rename = TwoPaths '':100644 100644 aa aa R100'' ''infra/a'' ''b''"

definition demo_owned_policy :: NativeImportedRootPolicy where
  "demo_owned_policy = \<lparr>ip_protectedRef = ''refs/heads/main'', ip_policyRevision = ''p'', ip_requiredReviewRevision = ''r'',
     ip_requiredJobSetRevision = ''j'', ip_requiredJobs = [], ip_requiredReviewerIds = [''zoe''],
     ip_pathReviewerRules = [\<lparr>pr_pathPrefix = ''infra/'', pr_reviewerIds = [''ann'']\<rparr>]\<rparr>"


end
