(* ===== verification/Review_Decisions.thy ===== *)
theory Review_Decisions
  imports Project_Registry "HOL-Library.Multiset"
begin

text \<open>
  The decisions of human reviewers: approval and revocation records with their digests
  (\<open>authoritative-native-approval-schema.ts\<close>, \<open>authoritative-native-revocation-schema.ts\<close>), the two
  record stores (\<open>authoritative-native-approval-store.ts\<close>, \<open>authoritative-native-revocation-store.ts\<close>)
  and the decisions read from them (\<open>authoritative-native-decision-store.ts\<close>). A store is the list of the
  records in its directory in the order of their file names, which are their identifiers. Publishing a
  record file, its permissions and the recovery of a staged file are left to the file system. Which
  reviewers a stored review requires is the argument \<open>reviews\<close>.
\<close>

section \<open>Records\<close>

record AuthoritativeNativeApproval =
  aa_reviewId :: string
  aa_reviewerId :: string
  aa_requestId :: string
  aa_approvalId :: string
  aa_approvedAt :: string
  aa_recordDigest :: string

record AuthoritativeNativeRevocation =
  ar_reviewId :: string
  ar_reviewerId :: string
  ar_approvalId :: string
  ar_revocationId :: string
  ar_revokedAt :: string
  ar_recordDigest :: string

record decision_store =
  ds_approvals :: "AuthoritativeNativeApproval list"
  ds_revocations :: "AuthoritativeNativeRevocation list"

record AuthoritativeNativeDecisions =
  dc_approvals :: "AuthoritativeNativeApproval list"
  dc_revocations :: "AuthoritativeNativeRevocation list"
  dc_activeApprovals :: "AuthoritativeNativeApproval list"

datatype decision_error =
    RecordInvalid | ApprovalStore | RevocationStore | ApprovalConflict | AlreadyApproved | DecisionStore | DecisionNotFound
  | DecisionForbidden

text \<open>Digests of records hash the members in the order of the schema.\<close>

definition record_digest :: "project_runtime \<Rightarrow> string \<Rightarrow> json \<Rightarrow> string" where
  "record_digest rt domain v = sha256 rt (domain @ [CHR 0x00] @ stringify v)"

definition authoritativeNativeApprovalId :: "project_runtime \<Rightarrow> string \<Rightarrow> string \<Rightarrow> string \<Rightarrow> string" where
  "authoritativeNativeApprovalId rt reviewId reviewerId requestId =
     record_digest rt ''dim-native-authoritative-approval-id-v1''
       (JObj [(''reviewId'', JStr reviewId), (''reviewerId'', JStr reviewerId), (''requestId'', JStr requestId)])"

definition approval_identity :: "AuthoritativeNativeApproval \<Rightarrow> json" where
  "approval_identity a = JObj [(''reviewId'', JStr (aa_reviewId a)), (''reviewerId'', JStr (aa_reviewerId a)),
     (''requestId'', JStr (aa_requestId a)), (''schemaVersion'', JInt 1), (''approvalId'', JStr (aa_approvalId a)),
     (''approvedAt'', JStr (aa_approvedAt a))]"

definition authoritativeNativeApprovalSchema :: "project_runtime \<Rightarrow> AuthoritativeNativeApproval \<Rightarrow> bool" where
  "authoritativeNativeApprovalSchema rt a \<longleftrightarrow> matches hex64Pattern (aa_reviewId a) \<and> matches projectPattern (aa_reviewerId a)
     \<and> zod_uuid rt (aa_requestId a) \<and> matches hex64Pattern (aa_approvalId a) \<and> zod_datetime rt (aa_approvedAt a)
     \<and> matches hex64Pattern (aa_recordDigest a)"

definition createAuthoritativeNativeApproval ::
  "project_runtime \<Rightarrow> string \<Rightarrow> string \<Rightarrow> string \<Rightarrow> string \<Rightarrow> AuthoritativeNativeApproval option" where
  "createAuthoritativeNativeApproval rt reviewId reviewerId requestId approvedAt =
     (let unsigned = \<lparr>aa_reviewId = reviewId, aa_reviewerId = reviewerId, aa_requestId = requestId,
        aa_approvalId = authoritativeNativeApprovalId rt reviewId reviewerId requestId, aa_approvedAt = approvedAt,
        aa_recordDigest = []\<rparr>;
        approval = unsigned\<lparr>aa_recordDigest := record_digest rt ''dim-native-authoritative-approval-record-v1''
          (approval_identity unsigned)\<rparr>
      in if authoritativeNativeApprovalSchema rt approval then Some approval else None)"

definition parseAuthoritativeNativeApproval :: "project_runtime \<Rightarrow> json \<Rightarrow> AuthoritativeNativeApproval option" where
  "parseAuthoritativeNativeApproval rt v = do {
     guardO (exact v [''reviewId'', ''reviewerId'', ''requestId'', ''schemaVersion'', ''approvalId'', ''approvedAt'',
       ''recordDigest'']);
     as_literal (JInt 1) (get_field v ''schemaVersion'');
     reviewId \<leftarrow> as_string (get_field v ''reviewId'');
     reviewerId \<leftarrow> as_string (get_field v ''reviewerId'');
     requestId \<leftarrow> as_string (get_field v ''requestId'');
     approvalId \<leftarrow> as_string (get_field v ''approvalId'');
     approvedAt \<leftarrow> as_string (get_field v ''approvedAt'');
     recordDigest \<leftarrow> as_string (get_field v ''recordDigest'');
     let approval = \<lparr>aa_reviewId = reviewId, aa_reviewerId = reviewerId, aa_requestId = requestId,
       aa_approvalId = approvalId, aa_approvedAt = approvedAt, aa_recordDigest = recordDigest\<rparr>;
     guardO (authoritativeNativeApprovalSchema rt approval);
     guardO (authoritativeNativeApprovalId rt reviewId reviewerId requestId = approvalId
       \<and> record_digest rt ''dim-native-authoritative-approval-record-v1'' (approval_identity approval) = recordDigest);
     Some approval }"

definition authoritativeNativeRevocationId :: "project_runtime \<Rightarrow> string \<Rightarrow> string \<Rightarrow> string \<Rightarrow> string" where
  "authoritativeNativeRevocationId rt reviewId reviewerId approvalId =
     record_digest rt ''dim-native-authoritative-revocation-id-v1''
       (JObj [(''reviewId'', JStr reviewId), (''reviewerId'', JStr reviewerId), (''approvalId'', JStr approvalId)])"

definition revocation_identity :: "AuthoritativeNativeRevocation \<Rightarrow> json" where
  "revocation_identity r = JObj [(''reviewId'', JStr (ar_reviewId r)), (''reviewerId'', JStr (ar_reviewerId r)),
     (''approvalId'', JStr (ar_approvalId r)), (''schemaVersion'', JInt 1), (''revocationId'', JStr (ar_revocationId r)),
     (''revokedAt'', JStr (ar_revokedAt r))]"

definition authoritativeNativeRevocationSchema :: "project_runtime \<Rightarrow> AuthoritativeNativeRevocation \<Rightarrow> bool" where
  "authoritativeNativeRevocationSchema rt r \<longleftrightarrow> matches hex64Pattern (ar_reviewId r) \<and> matches projectPattern (ar_reviewerId r)
     \<and> matches hex64Pattern (ar_approvalId r) \<and> matches hex64Pattern (ar_revocationId r) \<and> zod_datetime rt (ar_revokedAt r)
     \<and> matches hex64Pattern (ar_recordDigest r)"

definition createAuthoritativeNativeRevocation ::
  "project_runtime \<Rightarrow> string \<Rightarrow> string \<Rightarrow> string \<Rightarrow> string \<Rightarrow> AuthoritativeNativeRevocation option" where
  "createAuthoritativeNativeRevocation rt reviewId reviewerId approvalId revokedAt =
     (let unsigned = \<lparr>ar_reviewId = reviewId, ar_reviewerId = reviewerId, ar_approvalId = approvalId,
        ar_revocationId = authoritativeNativeRevocationId rt reviewId reviewerId approvalId, ar_revokedAt = revokedAt,
        ar_recordDigest = []\<rparr>;
        revocation = unsigned\<lparr>ar_recordDigest := record_digest rt ''dim-native-authoritative-revocation-record-v1''
          (revocation_identity unsigned)\<rparr>
      in if authoritativeNativeRevocationSchema rt revocation then Some revocation else None)"

definition parseAuthoritativeNativeRevocation :: "project_runtime \<Rightarrow> json \<Rightarrow> AuthoritativeNativeRevocation option" where
  "parseAuthoritativeNativeRevocation rt v = do {
     guardO (exact v [''reviewId'', ''reviewerId'', ''approvalId'', ''schemaVersion'', ''revocationId'', ''revokedAt'',
       ''recordDigest'']);
     as_literal (JInt 1) (get_field v ''schemaVersion'');
     reviewId \<leftarrow> as_string (get_field v ''reviewId'');
     reviewerId \<leftarrow> as_string (get_field v ''reviewerId'');
     approvalId \<leftarrow> as_string (get_field v ''approvalId'');
     revocationId \<leftarrow> as_string (get_field v ''revocationId'');
     revokedAt \<leftarrow> as_string (get_field v ''revokedAt'');
     recordDigest \<leftarrow> as_string (get_field v ''recordDigest'');
     let revocation = \<lparr>ar_reviewId = reviewId, ar_reviewerId = reviewerId, ar_approvalId = approvalId,
       ar_revocationId = revocationId, ar_revokedAt = revokedAt, ar_recordDigest = recordDigest\<rparr>;
     guardO (authoritativeNativeRevocationSchema rt revocation);
     guardO (authoritativeNativeRevocationId rt reviewId reviewerId approvalId = revocationId
       \<and> record_digest rt ''dim-native-authoritative-revocation-record-v1'' (revocation_identity revocation) = recordDigest);
     Some revocation }"

section \<open>The stores\<close>

definition readAuthoritativeNativeApprovals ::
  "(string \<Rightarrow> string list option) \<Rightarrow> decision_store \<Rightarrow> (decision_error, AuthoritativeNativeApproval list) result" where
  "readAuthoritativeNativeApprovals reviews store =
     (if length (ds_approvals store) \<le> 100000
        \<and> list_all (\<lambda>a. case reviews (aa_reviewId a) of None \<Rightarrow> False | Some ids \<Rightarrow> aa_reviewerId a \<in> set ids) (ds_approvals store)
      then Inr (ds_approvals store) else Inl ApprovalStore)"

definition readAuthoritativeNativeRevocations ::
  "decision_store \<Rightarrow> (decision_error, AuthoritativeNativeRevocation list) result" where
  "readAuthoritativeNativeRevocations store =
     (if length (ds_revocations store) \<le> 100000 \<and> distinct (map ar_approvalId (ds_revocations store))
      then Inr (ds_revocations store) else Inl RevocationStore)"

definition saveAuthoritativeNativeApproval ::
  "project_runtime \<Rightarrow> (string \<Rightarrow> string list option) \<Rightarrow> string \<Rightarrow> string \<Rightarrow> string \<Rightarrow> string \<Rightarrow> decision_store \<Rightarrow>
     (decision_error, (AuthoritativeNativeApproval \<times> bool) \<times> decision_store) result" where
  "saveAuthoritativeNativeApproval rt reviews reviewId reviewerId requestId now store =
     bindR (readAuthoritativeNativeApprovals reviews store) (\<lambda>approvals.
     case find_row (\<lambda>a. aa_reviewId a = reviewId \<and> aa_reviewerId a = reviewerId \<and> aa_requestId a = requestId) approvals of
       Some existing \<Rightarrow> Inr ((existing, False), store)
     | None \<Rightarrow>
         if length approvals \<ge> 100000 then Inl ApprovalStore
         else bindR (of_option RecordInvalid (createAuthoritativeNativeApproval rt reviewId reviewerId requestId now)) (\<lambda>approval.
           case find_row (\<lambda>a. aa_approvalId a = aa_approvalId approval) approvals of
             Some published \<Rightarrow> if published = approval then Inr ((published, False), store) else Inl ApprovalConflict
           | None \<Rightarrow> Inr ((approval, True), store\<lparr>ds_approvals := insort_key aa_approvalId approval approvals\<rparr>)))"

definition saveAuthoritativeNativeRevocation ::
  "project_runtime \<Rightarrow> string \<Rightarrow> string \<Rightarrow> string \<Rightarrow> string \<Rightarrow> decision_store \<Rightarrow>
     (decision_error, (AuthoritativeNativeRevocation \<times> bool) \<times> decision_store) result" where
  "saveAuthoritativeNativeRevocation rt reviewId reviewerId approvalId now store =
     bindR (readAuthoritativeNativeRevocations store) (\<lambda>revocations.
     case find_row (\<lambda>r. ar_approvalId r = approvalId) revocations of
       Some existing \<Rightarrow>
         if ar_reviewId existing \<noteq> reviewId \<or> ar_reviewerId existing \<noteq> reviewerId then Inl RevocationStore
         else Inr ((existing, False), store)
     | None \<Rightarrow>
         if length revocations \<ge> 100000 then Inl RevocationStore
         else bindR (of_option RecordInvalid (createAuthoritativeNativeRevocation rt reviewId reviewerId approvalId now)) (\<lambda>revocation.
           case find_row (\<lambda>r. ar_revocationId r = ar_revocationId revocation) revocations of
             Some published \<Rightarrow> if published = revocation then Inr ((published, False), store) else Inl RevocationStore
           | None \<Rightarrow> Inr ((revocation, True), store\<lparr>ds_revocations := insort_key ar_revocationId revocation revocations\<rparr>)))"

section \<open>Decisions\<close>

text \<open>\<open>new Map(entries)\<close> keeps the last entry of a key.\<close>

definition for_review :: "string option \<Rightarrow> ('a \<Rightarrow> string) \<Rightarrow> 'a list \<Rightarrow> 'a list" where
  "for_review reviewId key xs = (case reviewId of None \<Rightarrow> xs | Some v \<Rightarrow> filter (\<lambda>x. key x = v) xs)"

definition active_approvals ::
  "AuthoritativeNativeApproval list \<Rightarrow> AuthoritativeNativeRevocation list \<Rightarrow> AuthoritativeNativeApproval list" where
  "active_approvals approvals revocations = filter (\<lambda>a. aa_approvalId a \<notin> ar_approvalId ` set revocations) approvals"

definition reviewer_key :: "AuthoritativeNativeApproval \<Rightarrow> string" where
  "reviewer_key a = aa_reviewId a @ [CHR 0x00] @ aa_reviewerId a"

definition readAuthoritativeNativeDecisions ::
  "(string \<Rightarrow> string list option) \<Rightarrow> decision_store \<Rightarrow> string option \<Rightarrow> (decision_error, AuthoritativeNativeDecisions) result" where
  "readAuthoritativeNativeDecisions reviews store reviewId =
     bindR (readAuthoritativeNativeApprovals reviews store) (\<lambda>allApprovals.
     bindR (readAuthoritativeNativeRevocations store) (\<lambda>allRevocations.
     bindR (guardR DecisionStore (list_all (\<lambda>r.
       case find_row (\<lambda>a. aa_approvalId a = ar_approvalId r) (rev allApprovals) of None \<Rightarrow> False
       | Some a \<Rightarrow> aa_reviewId a = ar_reviewId r \<and> aa_reviewerId a = ar_reviewerId r) allRevocations)) (\<lambda>_.
     let revocations = for_review reviewId ar_reviewId allRevocations;
         approvals = for_review reviewId aa_reviewId allApprovals;
         active = active_approvals approvals revocations in
     bindR (guardR DecisionStore (distinct (map reviewer_key active))) (\<lambda>_.
     Inr \<lparr>dc_approvals = approvals, dc_revocations = revocations, dc_activeApprovals = active\<rparr>))))"

definition approveAuthoritativeNativeReview ::
  "project_runtime \<Rightarrow> (string \<Rightarrow> string list option) \<Rightarrow> string \<Rightarrow> string \<Rightarrow> string \<Rightarrow> string \<Rightarrow> decision_store \<Rightarrow>
     (decision_error, (AuthoritativeNativeApproval \<times> bool) \<times> decision_store) result" where
  "approveAuthoritativeNativeReview rt reviews reviewId reviewerId requestId now store =
     bindR (readAuthoritativeNativeDecisions reviews store (Some reviewId)) (\<lambda>decisions.
     case find_row (\<lambda>a. aa_reviewerId a = reviewerId \<and> aa_requestId a = requestId) (dc_approvals decisions) of
       Some replay \<Rightarrow> Inr ((replay, False), store)
     | None \<Rightarrow>
         if list_ex (\<lambda>a. aa_reviewerId a = reviewerId) (dc_activeApprovals decisions) then Inl AlreadyApproved
         else saveAuthoritativeNativeApproval rt reviews reviewId reviewerId requestId now store)"

definition revokeAuthoritativeNativeApproval ::
  "project_runtime \<Rightarrow> (string \<Rightarrow> string list option) \<Rightarrow> string \<Rightarrow> string \<Rightarrow> string \<Rightarrow> string \<Rightarrow> decision_store \<Rightarrow>
     (decision_error, (AuthoritativeNativeRevocation \<times> bool) \<times> decision_store) result" where
  "revokeAuthoritativeNativeApproval rt reviews reviewId reviewerId approvalId now store =
     bindR (readAuthoritativeNativeDecisions reviews store (Some reviewId)) (\<lambda>decisions.
     case find_row (\<lambda>a. aa_approvalId a = approvalId) (dc_approvals decisions) of
       None \<Rightarrow> Inl DecisionNotFound
     | Some approval \<Rightarrow>
         if aa_reviewerId approval \<noteq> reviewerId then Inl DecisionForbidden
         else saveAuthoritativeNativeRevocation rt reviewId reviewerId approvalId now store)"

section \<open>The decision invariant\<close>

text \<open>Every approval belongs to a required reviewer of a stored review, every revocation to the approval it
  names, and no reviewer has two active approvals of one review.\<close>

definition decisions_inv :: "(string \<Rightarrow> string list option) \<Rightarrow> decision_store \<Rightarrow> bool" where
  "decisions_inv reviews store \<longleftrightarrow> length (ds_approvals store) \<le> 100000 \<and> length (ds_revocations store) \<le> 100000
     \<and> unique_by aa_approvalId (ds_approvals store) \<and> unique_by ar_approvalId (ds_revocations store)
     \<and> (\<forall>a\<in>set (ds_approvals store). matches hex64Pattern (aa_reviewId a)
          \<and> matches hex64Pattern (aa_recordDigest a) \<and> (\<exists>ids. reviews (aa_reviewId a) = Some ids \<and> aa_reviewerId a \<in> set ids))
     \<and> (\<forall>r\<in>set (ds_revocations store). \<exists>a\<in>set (ds_approvals store). aa_approvalId a = ar_approvalId r
          \<and> aa_reviewId a = ar_reviewId r \<and> aa_reviewerId a = ar_reviewerId r)
     \<and> unique_by (\<lambda>a. (aa_reviewId a, aa_reviewerId a)) (active_approvals (ds_approvals store) (ds_revocations store))"

definition decision_step :: "project_runtime \<Rightarrow> (string \<Rightarrow> string list option) \<Rightarrow> decision_store \<Rightarrow> decision_store \<Rightarrow> bool" where
  "decision_step rt reviews store store' \<longleftrightarrow>
     (\<exists>reviewId reviewerId requestId now ids out. reviews reviewId = Some ids \<and> reviewerId \<in> set ids
        \<and> approveAuthoritativeNativeReview rt reviews reviewId reviewerId requestId now store = Inr (out, store'))
   \<or> (\<exists>reviewId reviewerId approvalId now out.
        revokeAuthoritativeNativeApproval rt reviews reviewId reviewerId approvalId now store = Inr (out, store'))"

definition decision_init :: "decision_store \<Rightarrow> bool" where
  "decision_init store \<longleftrightarrow> store = \<lparr>ds_approvals = [], ds_revocations = []\<rparr>"

lemma find_rev_unique:
  assumes "unique_by key rows" "r \<in> set rows"
  shows "find_row (\<lambda>x. key x = key r) (rev rows) = Some r"
  using assms by (intro find_row_unique) (auto simp: rev_map[symmetric])

lemma revoked_same_review:
  assumes "decisions_inv reviews store" "a \<in> set (ds_approvals store)" "r \<in> set (ds_revocations store)"
    "aa_approvalId a = ar_approvalId r"
  shows "aa_reviewId a = ar_reviewId r \<and> aa_reviewerId a = ar_reviewerId r"
proof -
  from assms(1,3) obtain b where b: "b \<in> set (ds_approvals store)" "aa_approvalId b = ar_approvalId r"
    "aa_reviewId b = ar_reviewId r" "aa_reviewerId b = ar_reviewerId r" unfolding decisions_inv_def by blast
  have "unique_by aa_approvalId (ds_approvals store)" using assms(1) by (simp add: decisions_inv_def)
  from unique_by_eq[OF this assms(2) b(1)] assms(4) b show ?thesis by simp
qed

lemma active_for_review:
  assumes "decisions_inv reviews store"
  shows "active_approvals (for_review v aa_reviewId (ds_approvals store)) (for_review v ar_reviewId (ds_revocations store))
    = for_review v aa_reviewId (active_approvals (ds_approvals store) (ds_revocations store))"
proof (cases v)
  case (Some w)
  have "aa_approvalId a \<in> ar_approvalId ` {r \<in> set (ds_revocations store). ar_reviewId r = w}
      \<longleftrightarrow> aa_approvalId a \<in> ar_approvalId ` set (ds_revocations store)"
    if "a \<in> set (ds_approvals store)" "aa_reviewId a = w" for a
    using revoked_same_review[OF assms that(1)] that(2) by (auto simp: image_iff)
  then show ?thesis by (auto simp: Some for_review_def active_approvals_def intro!: filter_cong)
qed (simp add: for_review_def)

lemma hex64_length: "matches hex64Pattern s \<Longrightarrow> length s = 64"
  by (simp add: hex64Pattern_def matches_class)

lemma decisions_readable:
  assumes "decisions_inv reviews store"
  shows "readAuthoritativeNativeDecisions reviews store v = Inr
    \<lparr>dc_approvals = for_review v aa_reviewId (ds_approvals store),
     dc_revocations = for_review v ar_reviewId (ds_revocations store),
     dc_activeApprovals = for_review v aa_reviewId (active_approvals (ds_approvals store) (ds_revocations store))\<rparr>"
proof -
  let ?A = "ds_approvals store" and ?R = "ds_revocations store"
  have u: "unique_by aa_approvalId ?A" using assms by (simp add: decisions_inv_def)
  have a: "readAuthoritativeNativeApprovals reviews store = Inr ?A"
    using assms by (auto simp: readAuthoritativeNativeApprovals_def decisions_inv_def list_all_iff split: option.splits)
  have r: "readAuthoritativeNativeRevocations store = Inr ?R"
    using assms by (simp add: readAuthoritativeNativeRevocations_def decisions_inv_def)
  have "case find_row (\<lambda>a. aa_approvalId a = ar_approvalId r) (rev ?A) of None \<Rightarrow> False
      | Some a \<Rightarrow> aa_reviewId a = ar_reviewId r \<and> aa_reviewerId a = ar_reviewerId r" if "r \<in> set ?R" for r
  proof -
    from assms that obtain b where b: "b \<in> set ?A" "aa_approvalId b = ar_approvalId r"
      "aa_reviewId b = ar_reviewId r" "aa_reviewerId b = ar_reviewerId r" unfolding decisions_inv_def by blast
    from find_rev_unique[OF u b(1)] b show ?thesis by simp
  qed
  then have m: "list_all (\<lambda>r. case find_row (\<lambda>a. aa_approvalId a = ar_approvalId r) (rev ?A) of None \<Rightarrow> False
      | Some a \<Rightarrow> aa_reviewId a = ar_reviewId r \<and> aa_reviewerId a = ar_reviewerId r) ?R" by (simp add: list_all_iff)
  have key: "reviewer_key a = reviewer_key b \<longleftrightarrow> (aa_reviewId a, aa_reviewerId a) = (aa_reviewId b, aa_reviewerId b)"
    if "a \<in> set ?A" "b \<in> set ?A" for a b
  proof -
    have "length (aa_reviewId a) = 64" "length (aa_reviewId b) = 64"
      using assms that hex64_length unfolding decisions_inv_def by blast+
    then show ?thesis by (simp add: reviewer_key_def)
  qed
  have pairs: "unique_by (\<lambda>a. (aa_reviewId a, aa_reviewerId a)) (active_approvals ?A ?R)"
    using assms by (simp add: decisions_inv_def)
  then have "distinct (for_review v aa_reviewId (active_approvals ?A ?R))"
    "inj_on (\<lambda>a. (aa_reviewId a, aa_reviewerId a)) (set (for_review v aa_reviewId (active_approvals ?A ?R)))"
    by (auto simp: for_review_def distinct_map inj_on_def split: option.splits)
  moreover have "set (for_review v aa_reviewId (active_approvals ?A ?R)) \<subseteq> set ?A"
    by (auto simp: for_review_def active_approvals_def split: option.splits)
  ultimately have "distinct (map reviewer_key (for_review v aa_reviewId (active_approvals ?A ?R)))"
    using key unfolding distinct_map inj_on_def by (metis subset_iff)
  then show ?thesis
    by (simp add: readAuthoritativeNativeDecisions_def a r m Let_def active_for_review[OF assms])
qed

section \<open>Approving and revoking keep it\<close>

lemma unique_filter: "unique_by key xs \<Longrightarrow> unique_by key (filter P xs)"
  by (auto simp: distinct_map inj_on_def)

lemma unique_insort:
  assumes "unique_by key xs" "key x \<notin> key ` set xs"
  shows "unique_by key (insort_key f x xs)"
  using assms by (induction xs) (auto simp: set_insort_key)

lemma create_approval_fields:
  assumes "createAuthoritativeNativeApproval rt reviewId reviewerId requestId now = Some a"
  shows "aa_reviewId a = reviewId" "aa_reviewerId a = reviewerId" "matches hex64Pattern reviewId"
    "matches hex64Pattern (aa_recordDigest a)"
  using assms by (auto simp: createAuthoritativeNativeApproval_def Let_def authoritativeNativeApprovalSchema_def split: if_splits)

lemma approve_effect:
  assumes "decisions_inv reviews store"
    "approveAuthoritativeNativeReview rt reviews reviewId reviewerId requestId now store = Inr (out, store')"
    "store' \<noteq> store"
  obtains a where "store' = store\<lparr>ds_approvals := insort_key aa_approvalId a (ds_approvals store)\<rparr>" "out = (a, True)"
    "aa_reviewId a = reviewId" "aa_reviewerId a = reviewerId" "matches hex64Pattern reviewId"
    "matches hex64Pattern (aa_recordDigest a)" "aa_approvalId a \<notin> aa_approvalId ` set (ds_approvals store)" "length (ds_approvals store) < 100000"
    "\<And>b. b \<in> set (active_approvals (ds_approvals store) (ds_revocations store)) \<Longrightarrow> aa_reviewId b = reviewId \<Longrightarrow>
       aa_reviewerId b \<noteq> reviewerId"
proof -
  let ?A = "ds_approvals store"
  have r: "readAuthoritativeNativeApprovals reviews store = Inr ?A"
    using assms(1) by (auto simp: readAuthoritativeNativeApprovals_def decisions_inv_def list_all_iff split: option.splits)
  from assms(2,3) have no: "\<not> list_ex (\<lambda>a. aa_reviewerId a = reviewerId)
      (for_review (Some reviewId) aa_reviewId (active_approvals ?A (ds_revocations store)))"
    and s: "saveAuthoritativeNativeApproval rt reviews reviewId reviewerId requestId now store = Inr (out, store')"
    unfolding approveAuthoritativeNativeReview_def decisions_readable[OF assms(1)]
    by (auto split: option.split_asm if_split_asm)
  from s assms(3) obtain a where a: "createAuthoritativeNativeApproval rt reviewId reviewerId requestId now = Some a"
      "find_row (\<lambda>b. aa_approvalId b = aa_approvalId a) ?A = None" "out = (a, True)" "length ?A < 100000"
      "store' = store\<lparr>ds_approvals := insort_key aa_approvalId a ?A\<rparr>"
    unfolding saveAuthoritativeNativeApproval_def r
    by (auto simp: bindR_eq_Inr split: option.split_asm if_split_asm)
  have "aa_approvalId a \<notin> aa_approvalId ` set ?A" using a(2) by (auto simp: find_row_None)
  moreover have "aa_reviewerId b \<noteq> reviewerId"
    if "b \<in> set (active_approvals ?A (ds_revocations store))" "aa_reviewId b = reviewId" for b
    using no that by (auto simp: list_ex_iff for_review_def)
  ultimately show thesis using that a create_approval_fields[OF a(1)] by metis
qed

lemma approve_inv:
  assumes "decisions_inv reviews store" "reviews reviewId = Some ids" "reviewerId \<in> set ids"
    "approveAuthoritativeNativeReview rt reviews reviewId reviewerId requestId now store = Inr (out, store')"
  shows "decisions_inv reviews store'"
proof (cases "store' = store")
  case False
  let ?A = "ds_approvals store" and ?R = "ds_revocations store"
  obtain a where a: "store' = store\<lparr>ds_approvals := insort_key aa_approvalId a ?A\<rparr>"
      "aa_reviewId a = reviewId" "aa_reviewerId a = reviewerId" "matches hex64Pattern reviewId"
      "aa_approvalId a \<notin> aa_approvalId ` set ?A" "length ?A < 100000" "matches hex64Pattern (aa_recordDigest a)"
    and free: "\<And>b. b \<in> set (active_approvals ?A ?R) \<Longrightarrow> aa_reviewId b = reviewId \<Longrightarrow> aa_reviewerId b \<noteq> reviewerId"
    by (rule approve_effect[OF assms(1,4) False]) blast
  have fresh: "aa_approvalId a \<notin> ar_approvalId ` set ?R"
  proof
    assume "aa_approvalId a \<in> ar_approvalId ` set ?R"
    then obtain r where "r \<in> set ?R" "ar_approvalId r = aa_approvalId a" by auto
    with assms(1) have "\<exists>b\<in>set ?A. aa_approvalId b = aa_approvalId a" unfolding decisions_inv_def by fastforce
    with a(5) show False by (metis image_eqI)
  qed
  have "unique_by (\<lambda>b. (aa_reviewId b, aa_reviewerId b)) (active_approvals ?A ?R)"
    using assms(1) by (simp add: decisions_inv_def)
  moreover have "(aa_reviewId a, aa_reviewerId a) \<notin> (\<lambda>b. (aa_reviewId b, aa_reviewerId b)) ` set (active_approvals ?A ?R)"
    using free a(2,3) by (auto simp only: image_iff Pair_inject) metis
  ultimately have "unique_by (\<lambda>b. (aa_reviewId b, aa_reviewerId b)) (insort_key aa_approvalId a (active_approvals ?A ?R))"
    by (rule unique_insort)
  moreover have "mset (active_approvals (insort_key aa_approvalId a ?A) ?R)
      = mset (insort_key aa_approvalId a (active_approvals ?A ?R))"
    using fresh by (simp add: active_approvals_def)
  ultimately have pairs: "unique_by (\<lambda>b. (aa_reviewId b, aa_reviewerId b)) (active_approvals (insort_key aa_approvalId a ?A) ?R)"
    by (metis mset_map mset_eq_imp_distinct_iff)
  have ids: "unique_by aa_approvalId (insort_key aa_approvalId a ?A)"
    using assms(1) a(5) by (intro unique_insort) (simp_all add: decisions_inv_def)
  show ?thesis
    using assms(1-3) a pairs ids unfolding decisions_inv_def by (auto simp: set_insort_key)
qed (use assms in simp)

lemma revoke_effect:
  assumes "decisions_inv reviews store"
    "revokeAuthoritativeNativeApproval rt reviews reviewId reviewerId approvalId now store = Inr (out, store')"
    "store' \<noteq> store"
  obtains r a where "store' = store\<lparr>ds_revocations := insort_key ar_revocationId r (ds_revocations store)\<rparr>"
    "ar_reviewId r = reviewId" "ar_reviewerId r = reviewerId" "ar_approvalId r = approvalId"
    "approvalId \<notin> ar_approvalId ` set (ds_revocations store)" "length (ds_revocations store) < 100000"
    "a \<in> set (ds_approvals store)" "aa_approvalId a = approvalId" "aa_reviewId a = reviewId" "aa_reviewerId a = reviewerId"
proof -
  let ?R = "ds_revocations store"
  have rd: "readAuthoritativeNativeRevocations store = Inr ?R"
    using assms(1) by (simp add: readAuthoritativeNativeRevocations_def decisions_inv_def)
  from assms(2) obtain a where f: "find_row (\<lambda>a. aa_approvalId a = approvalId)
      (for_review (Some reviewId) aa_reviewId (ds_approvals store)) = Some a" "aa_reviewerId a = reviewerId"
    and s: "saveAuthoritativeNativeRevocation rt reviewId reviewerId approvalId now store = Inr (out, store')"
    unfolding revokeAuthoritativeNativeApproval_def decisions_readable[OF assms(1)]
    by (auto split: option.split_asm if_split_asm)
  from find_row_Some[OF f(1)] have a: "a \<in> set (ds_approvals store)" "aa_approvalId a = approvalId" "aa_reviewId a = reviewId"
    by (auto simp: for_review_def)
  from s assms(3) obtain r where r: "createAuthoritativeNativeRevocation rt reviewId reviewerId approvalId now = Some r"
      "find_row (\<lambda>r. ar_approvalId r = approvalId) ?R = None" "length ?R < 100000"
      "store' = store\<lparr>ds_revocations := insort_key ar_revocationId r ?R\<rparr>"
    unfolding saveAuthoritativeNativeRevocation_def rd
    by (auto simp: bindR_eq_Inr split: option.split_asm if_split_asm)
  have "ar_reviewId r = reviewId" "ar_reviewerId r = reviewerId" "ar_approvalId r = approvalId"
    using r(1) by (auto simp: createAuthoritativeNativeRevocation_def Let_def split: if_splits)
  moreover have "approvalId \<notin> ar_approvalId ` set ?R" using r(2) by (auto simp: find_row_None)
  ultimately show thesis using that r(3,4) a f(2) by metis
qed

lemma revoke_inv:
  assumes "decisions_inv reviews store"
    "revokeAuthoritativeNativeApproval rt reviews reviewId reviewerId approvalId now store = Inr (out, store')"
  shows "decisions_inv reviews store'"
proof (cases "store' = store")
  case False
  let ?A = "ds_approvals store" and ?R = "ds_revocations store"
  obtain r a where r: "store' = store\<lparr>ds_revocations := insort_key ar_revocationId r ?R\<rparr>"
    "ar_reviewId r = reviewId" "ar_reviewerId r = reviewerId" "ar_approvalId r = approvalId"
    "approvalId \<notin> ar_approvalId ` set ?R" "length ?R < 100000"
    "a \<in> set ?A" "aa_approvalId a = approvalId" "aa_reviewId a = reviewId" "aa_reviewerId a = reviewerId"
    by (rule revoke_effect[OF assms False])
  have ids: "unique_by ar_approvalId (insort_key ar_revocationId r ?R)"
    using assms(1) r(4,5) by (intro unique_insort) (simp_all add: decisions_inv_def)
  have "active_approvals ?A (insort_key ar_revocationId r ?R) = filter (\<lambda>a. aa_approvalId a \<noteq> approvalId) (active_approvals ?A ?R)"
    using r(4) by (auto simp: active_approvals_def set_insort_key intro!: filter_cong)
  moreover have "unique_by (\<lambda>b. (aa_reviewId b, aa_reviewerId b)) (active_approvals ?A ?R)"
    using assms(1) by (simp add: decisions_inv_def)
  ultimately have pairs: "unique_by (\<lambda>b. (aa_reviewId b, aa_reviewerId b)) (active_approvals ?A (insort_key ar_revocationId r ?R))"
    by (simp add: unique_filter)
  show ?thesis
    using assms(1) r ids pairs unfolding decisions_inv_def by (auto simp: set_insort_key)
qed (use assms in simp)

lemma decision_step_inv: "decision_step rt reviews store store' \<Longrightarrow> decisions_inv reviews store \<Longrightarrow> decisions_inv reviews store'"
  unfolding decision_step_def by (auto intro: approve_inv revoke_inv)

lemma decision_init_inv: "decision_init store \<Longrightarrow> decisions_inv reviews store"
  by (simp add: decision_init_def decisions_inv_def active_approvals_def)

interpretation decisions: safe_machine decision_init "decision_step rt reviews" "decisions_inv reviews" for rt reviews
  by unfold_locales (auto intro: decision_init_inv decision_step_inv)

end
