(* ===== verification/Project_Service.thy ===== *)
theory Project_Service
  imports Project_Machine Review_Git Review_Decisions
begin

text \<open>
  Promotion of a reviewed candidate to the protected ref of its Project: the proof of the imported root
  (\<open>native-imported-root-verifier.ts\<close>, \<open>authoritative-native-root-target.ts\<close>), the freshness of a review
  (\<open>native-human-reviewer-freshness.ts\<close>), the promotion itself (\<open>native-installed-promotion.ts\<close>), the
  compare-and-swap of the ref (\<open>promotion-git.ts\<close>) and the recovery of interrupted promotions
  (\<open>native-project-root-promotion-recovery.ts\<close>). Promotions run one at a time; the database that a
  promotion reads again after an \<open>await\<close> is a second argument where the code compares the two. The Git
  executable that moves the ref is the argument \<open>git\<close> over repositories \<open>'g\<close>; answers of the file
  system, of other services and of the pinned Git commands are fields of the environment.
\<close>

section \<open>Errors and environment\<close>

datatype service_error =
    Database project_error | RootInactive | RootNotFound | RootProof | TargetUnresolved
  | ReviewNotFound | ReviewStale | EnvelopeStale | JobMissing | Decisions decision_error | ApprovalsIncomplete
  | AncestryUnknown | NotDescendant | OrdinaryEvidence | QemuUnavailable | QemuEvidence
  | SwapRejected | SwapFailed | HookFailed | ProtectedRefUnreadable | ForeignHead

definition in_database :: "(project_error, 'a) result \<Rightarrow> (service_error, 'a) result" where
  "in_database r = (case r of Inl e \<Rightarrow> Inl (Database e) | Inr x \<Rightarrow> Inr x)"

lemma in_database_Inr [simp]: "in_database r = Inr x \<longleftrightarrow> r = Inr x"
  by (cases r) (simp_all add: in_database_def)

record root_io =
  io_storage :: bool
  io_storage_again :: bool
  io_view :: git_view
  io_view_again :: git_view

record service_runtime =
  sr_activated :: bool
  sr_activationTokenDigest :: string
  sr_expectedGenerationId :: string
  sr_state_active :: bool
  sr_state_active_again :: bool
  sr_root :: root_io

section \<open>The imported root\<close>

definition readNativeProjectRegistrationsFromDatabase ::
  "project_runtime \<Rightarrow> project_db \<Rightarrow> (project_error, NativeProjectRegistration list) result" where
  "readNativeProjectRegistrationsFromDatabase rt db =
     mapR (\<lambda>row. of_option RegistrationState (parseRegistrationRow rt row)) (sort_key rg_project_id (pd_registration db))"

definition readCurrentHead ::
  "project_runtime \<Rightarrow> NativeProjectRootImport \<Rightarrow> string \<Rightarrow> project_db \<Rightarrow> (project_error, NativeProjectRootCurrentHead) result" where
  "readCurrentHead rt imported resolvedTree db =
     (case ni_policy imported of
        AuthoritativeV1 _ \<Rightarrow> readNativeProjectRootCurrentHeadFromDatabase rt (ni_projectId imported) db
      | LegacyImportOnly _ \<Rightarrow> Inr \<lparr>ch_projectId = ni_projectId imported, ch_sequence = 0,
          ch_protectedRef = ni_protectedRef imported, ch_commit = ni_expectedCommit imported, ch_tree = resolvedTree,
          ch_policyDigest = ni_policyDigest imported\<rparr>)"

text \<open>An import whose phase is root-imported has a resolved tree; the pair is the type
  \<open>NativeProjectRootImportInstalled\<close>.\<close>

definition requireImportedRoot ::
  "project_runtime \<Rightarrow> string \<Rightarrow> string \<Rightarrow> project_db \<Rightarrow> (project_error, NativeProjectRootImport \<times> string) result" where
  "requireImportedRoot rt projectId ownerHostId db =
     bindR (readNativeProjectRootImportsFromDatabase rt db) (\<lambda>ims.
     case find_row (\<lambda>i. ni_projectId i = projectId) ims of
       None \<Rightarrow> Inl ImportState
     | Some imported \<Rightarrow>
         if ni_ownerHostId imported \<noteq> ownerHostId \<or> ni_phase imported \<noteq> RootImported then Inl ImportState
         else (case ni_resolvedTree imported of None \<Rightarrow> Inl ImportState | Some tree \<Rightarrow> Inr (imported, tree)))"

definition root_proved :: "root_io \<Rightarrow> NativeProjectRootImport \<Rightarrow> string \<Rightarrow> NativeProjectRootCurrentHead \<Rightarrow> bool" where
  "root_proved io imported tree currentHead \<longleftrightarrow> io_storage io
     \<and> inspectImportedNativeRootReadOnly (io_view io) (io_view_again io) (ni_protectedRef imported)
         (ni_expectedCommit imported) tree (ch_commit currentHead) (ch_tree currentHead)
     \<and> io_storage_again io"

definition verifyImportedRootReadOnly ::
  "project_runtime \<Rightarrow> root_io \<Rightarrow> string \<Rightarrow> string \<Rightarrow> project_db \<Rightarrow> project_db \<Rightarrow>
     (service_error, NativeProjectRootImport \<times> NativeProjectRootCurrentHead) result" where
  "verifyImportedRootReadOnly rt io ownerHostId projectId before db =
     bindR (in_database (readNativeProjectRegistrationsFromDatabase rt before)) (\<lambda>registrations.
     case find_row (\<lambda>r. re_projectId r = projectId) registrations of
       None \<Rightarrow> Inl RootNotFound
     | Some registration \<Rightarrow>
         if re_ownerHostId registration \<noteq> ownerHostId then Inl RootNotFound
         else
         bindR (in_database (requireImportedRoot rt projectId ownerHostId before)) (\<lambda>(imported, tree).
         bindR (guardR RootProof (re_phase registration = RootPrepared \<and> re_serviceId registration = ni_serviceId imported
           \<and> re_rootRepositoryId registration = ni_rootRepositoryId imported)) (\<lambda>_.
         bindR (in_database (readCurrentHead rt imported tree before)) (\<lambda>currentHead.
         bindR (guardR RootProof (root_proved io imported tree currentHead)) (\<lambda>_.
         bindR (in_database (requireImportedRoot rt projectId ownerHostId db)) (\<lambda>(current, tree').
         bindR (in_database (readNativeProjectRegistrationsFromDatabase rt db)) (\<lambda>registrations'.
         bindR (in_database (readCurrentHead rt current tree' db)) (\<lambda>rereadHead.
         if current \<noteq> imported \<or> find_row (\<lambda>r. re_projectId r = projectId) registrations' \<noteq> Some registration
           \<or> rereadHead \<noteq> currentHead then Inl RootProof
         else Inr (imported, currentHead)))))))))"

definition assertActive :: "service_runtime \<Rightarrow> project_db \<Rightarrow> (service_error, unit) result" where
  "assertActive sr db = guardR RootInactive (sr_activated sr
     \<and> exactActivationIsBound (sr_expectedGenerationId sr) (sr_activationTokenDigest sr) db)"

definition verifyLiveImportedRoot ::
  "project_runtime \<Rightarrow> service_runtime \<Rightarrow> string \<Rightarrow> string \<Rightarrow> project_db \<Rightarrow> project_db \<Rightarrow>
     (service_error, NativeProjectRootImport \<times> NativeProjectRootCurrentHead) result" where
  "verifyLiveImportedRoot rt sr ownerHostId projectId before db =
     bindR (assertActive sr before) (\<lambda>_.
     bindR (verifyImportedRootReadOnly rt (sr_root sr) ownerHostId projectId before db) (\<lambda>found.
     bindR (assertActive sr db) (\<lambda>_. Inr found)))"

record AuthoritativeNativeRootTarget =
  gt_imported :: NativeProjectRootImport
  gt_policy :: NativeImportedRootPolicy
  gt_currentHead :: NativeProjectRootCurrentHead

text \<open>Every failure is reported as a \<open>CandidateExecutionError\<close>.\<close>

definition resolveAuthoritativeNativeRootTarget ::
  "project_runtime \<Rightarrow> service_runtime \<Rightarrow> string \<Rightarrow> project_db \<Rightarrow> project_db \<Rightarrow>
     (service_error, AuthoritativeNativeRootTarget) result" where
  "resolveAuthoritativeNativeRootTarget rt sr projectId before db =
     (if \<not> matches projectPattern projectId \<or> \<not> sr_state_active sr then Inl TargetUnresolved
      else case readNativeProjectRegistrationsFromDatabase rt before of
        Inl _ \<Rightarrow> Inl TargetUnresolved
      | Inr registrations \<Rightarrow> (case find_row (\<lambda>r. re_projectId r = projectId) registrations of
          None \<Rightarrow> Inl TargetUnresolved
        | Some registration \<Rightarrow>
            (case verifyLiveImportedRoot rt sr (re_ownerHostId registration) projectId before db of
               Inl _ \<Rightarrow> Inl TargetUnresolved
             | Inr (imported, currentHead) \<Rightarrow> (case ni_policy imported of
                 LegacyImportOnly _ \<Rightarrow> Inl TargetUnresolved
               | AuthoritativeV1 policy \<Rightarrow>
                   if sr_state_active_again sr
                   then Inr \<lparr>gt_imported = imported, gt_policy = policy, gt_currentHead = currentHead\<rparr>
                   else Inl TargetUnresolved))))"

section \<open>Freshness of a review\<close>

definition first_occurrences :: "'a list \<Rightarrow> 'a list" where
  "first_occurrences xs = rev (remdups (rev xs))"

text \<open>\<open>/^refs\/heads\/proposals\/([A-Za-z0-9_-]{43})\//\<close>\<close>

definition proposal_workspace :: "string \<Rightarrow> string option" where
  "proposal_workspace ref =
     (let rest = drop 21 ref; workspace = take 43 rest in
      if startsWith ''refs/heads/proposals/'' ref \<and> matches workspacePattern workspace \<and> take 1 (drop 43 rest) = ''/''
      then Some workspace else None)"

definition reason_if :: "bool \<Rightarrow> string \<Rightarrow> string list" where
  "reason_if b reason = (if b then [reason] else [])"

record freshness_io =
  fr_before :: git_view
  fr_inspected :: git_view
  fr_after :: git_view
  fr_utf8 :: "string \<Rightarrow> string"

definition changed_refs :: "review_refs \<Rightarrow> string \<Rightarrow> string \<Rightarrow> string \<Rightarrow> string list" where
  "changed_refs refs protectedHead commit tree =
     reason_if (rr_protectedHead refs \<noteq> protectedHead) ''protected-head-changed''
     @ reason_if (rr_candidateCommit refs \<noteq> commit) ''candidate-commit-changed''
     @ reason_if (rr_candidateTree refs \<noteq> tree) ''candidate-tree-changed''"

definition identity_matches ::
  "AuthoritativeNativeRootTarget \<Rightarrow> AuthoritativeNativeReview \<Rightarrow> string \<Rightarrow> AuthoritativeNativeGitReviewEvidence \<Rightarrow> bool" where
  "identity_matches target review workspaceId evidence \<longleftrightarrow> rv_projectId review = ni_projectId (gt_imported target)
     \<and> rv_protectedRef review = ip_protectedRef (gt_policy target) \<and> rv_workspaceId review = workspaceId
     \<and> rv_patch review = ge_patch evidence \<and> rv_patchBytes review = ge_patchBytes evidence
     \<and> rv_changes review = ge_changes evidence
     \<and> rv_requiredReviewerIds review = requiredReviewers (gt_policy target) (ge_changes evidence)"

definition nativeHumanReviewStaleReasons ::
  "freshness_io \<Rightarrow> AuthoritativeNativeRootTarget \<Rightarrow> AuthoritativeNativeReview \<Rightarrow> string list" where
  "nativeHumanReviewStaleReasons io target review =
     (let policy = gt_policy target; currentHead = gt_currentHead target;
          ref = ch_protectedRef currentHead; proposal = rv_proposalRef review;
          reasons = reason_if (rv_policyRevision review \<noteq> ip_policyRevision policy
              \<or> rv_requiredReviewRevision review \<noteq> ip_requiredReviewRevision policy) ''policy-changed''
            @ reason_if (rv_expectedProtectedHead review \<noteq> ch_commit currentHead) ''protected-head-changed'' in
      case readAuthoritativeNativeReviewRefs (fr_before io) ref proposal of
        None \<Rightarrow> first_occurrences (reasons @ [''candidate-ref-unavailable''])
      | Some refs \<Rightarrow>
          let reasons' = reasons @ changed_refs refs (rv_expectedProtectedHead review) (rv_candidateCommit review)
                (rv_candidateTree review) in
          if reasons' \<noteq> [] then first_occurrences reasons'
          else case inspectAuthoritativeNativeReviewGit (fr_utf8 io) (fr_inspected io) ref (ch_commit currentHead) proposal of
            None \<Rightarrow> [''candidate-ref-unavailable'']
          | Some evidence \<Rightarrow> (case proposal_workspace proposal of
              None \<Rightarrow> [''review-identity-changed'']
            | Some workspaceId \<Rightarrow>
                let identity = reason_if (\<not> identity_matches target review workspaceId evidence) ''review-identity-changed'' in
                (case readAuthoritativeNativeReviewRefs (fr_after io) ref proposal of
                   None \<Rightarrow> first_occurrences (identity @ [''candidate-ref-unavailable''])
                 | Some refs' \<Rightarrow> first_occurrences (identity @ changed_refs refs' (rr_protectedHead evidence)
                     (rr_candidateCommit evidence) (rr_candidateTree evidence)))))"

section \<open>The stored reviews\<close>

text \<open>The records in the order of their file names; a record is in the file named after its review. The
  newest envelope of a review is the one read.\<close>

definition readAuthoritativeNativeReviewEnvelope ::
  "AuthoritativeNativeReviewEnvelope list \<Rightarrow> string \<Rightarrow> AuthoritativeNativeReviewEnvelope option" where
  "readAuthoritativeNativeReviewEnvelope store reviewId =
     (if \<not> matches hex64Pattern reviewId then None
      else case sort_key (\<lambda>e. rv_createdAt (en_review e)) (rev (filter (\<lambda>e. rv_reviewId (en_review e) = reviewId) store)) of
        [] \<Rightarrow> None
      | es \<Rightarrow> Some (last es))"

definition required_of :: "AuthoritativeNativeReviewEnvelope list \<Rightarrow> string \<Rightarrow> string list option" where
  "required_of store reviewId =
     map_option (\<lambda>e. rv_requiredReviewerIds (en_review e)) (readAuthoritativeNativeReviewEnvelope store reviewId)"

section \<open>Moving the protected ref\<close>

datatype child_end = ChildError | ChildClosed int bool nat

record 'g git =
  git_update_ref :: "string \<Rightarrow> 'g \<Rightarrow> child_end \<times> 'g"
  git_rev_parse :: "string \<Rightarrow> 'g \<Rightarrow> string option"

definition ref_value :: "'g git \<Rightarrow> string \<Rightarrow> 'g \<Rightarrow> string option" where
  "ref_value git ref g = map_option trim (git_rev_parse git ref g)"

definition promotion_commands :: "string \<Rightarrow> string \<Rightarrow> string \<Rightarrow> string \<Rightarrow> string" where
  "promotion_commands ref proposal expectedHead candidateCommit = join [CHR 0x0A]
     [''start'', ''update '' @ ref @ '' '' @ candidateCommit @ '' '' @ expectedHead,
      ''verify '' @ proposal @ '' '' @ candidateCommit, ''prepare'', ''commit'', []]"

fun child_result :: "child_end \<Rightarrow> bool option" where
  "child_result ChildError = None"
| "child_result (ChildClosed code signalled stderrBytes) =
     (if signalled then None else if stderrBytes > 65536 then None else Some (code = 0))"

definition atomicPromote :: "'g git \<Rightarrow> string \<Rightarrow> string \<Rightarrow> string \<Rightarrow> string \<Rightarrow> 'g \<Rightarrow> bool option \<times> 'g" where
  "atomicPromote git ref proposal expectedHead candidateCommit g =
     (case git_update_ref git (promotion_commands ref proposal expectedHead candidateCommit) g of
        (e, g') \<Rightarrow> (child_result e, g'))"

section \<open>Evidence of a QEMU job\<close>

text \<open>What \<open>currentQemuTerminalEvidence\<close> reads (\<open>current-qemu-terminal-evidence.ts\<close>): the current attempt of a
  job and the recorded statuses in the authority state of the repository, and the answers of the scheduler,
  \<open>None\<close> where a request fails.\<close>

record qemu_io =
  qi_serviceId :: string
  qi_current :: "string \<Rightarrow> json option"
  qi_statuses :: "json list"
  qi_response :: "string \<Rightarrow> json option"
  qi_now :: int

text \<open>\<open>===\<close> between two values of parsed JSON texts.\<close>

definition strict_equal :: "json option \<Rightarrow> json option \<Rightarrow> bool" where
  "strict_equal a b \<longleftrightarrow> a = b \<and> (case a of Some (JObj _) \<Rightarrow> False | Some (JArr _) \<Rightarrow> False | _ \<Rightarrow> True)"

definition evidence_digest :: "project_runtime \<Rightarrow> string \<Rightarrow> json \<Rightarrow> string" where
  "evidence_digest rt domain v = sha256 rt (domain @ [CHR 0x00] @ stringify v)"

definition scheduler_evidence_current :: "qemu_io \<Rightarrow> AuthoritativeNativeReviewEvent \<Rightarrow> json \<Rightarrow> json \<Rightarrow> json \<Rightarrow> json \<Rightarrow> bool" where
  "scheduler_evidence_current io event attempt status scheduler terminal \<longleftrightarrow>
     get_field scheduler ''serviceId'' = Some (JStr (qi_serviceId io))
     \<and> get_field scheduler ''eventId'' = Some (JStr (re_eventId event))
     \<and> get_field scheduler ''state'' = Some (JStr ''completed'')
     \<and> (case get_field scheduler ''event'' of None \<Rightarrow> False | Some v \<Rightarrow> deep_eq v (review_event_json event))
     \<and> strict_equal (get_field scheduler ''attemptId'') (get_field attempt ''attemptId'')
     \<and> strict_equal (get_field scheduler ''descriptorDigest'') (get_field attempt ''descriptorDigest'')
     \<and> strict_equal (get_field scheduler ''eligibilityGeneration'')
         (Option.bind (get_field attempt ''descriptor'') (\<lambda>d. get_field d ''admissionGeneration''))
     \<and> (case as_int (get_field scheduler ''eligibilityExpiresAt'') of None \<Rightarrow> False | Some n \<Rightarrow> qi_now io < n)
     \<and> strict_equal (get_field terminal ''claimId'') (get_field scheduler ''claimId'')
     \<and> get_field terminal ''cleanupComplete'' = Some (JBool True)
     \<and> get_field terminal ''result'' = Some (JStr ''success'')
     \<and> strict_equal (get_field terminal ''eventId'') (get_field status ''eventId'')
     \<and> get_field scheduler ''schemaVersion'' = Some (JInt 1)"

definition currentQemuTerminalEvidence ::
  "project_runtime \<Rightarrow> qemu_io \<Rightarrow> AuthoritativeNativeReviewEnvelope \<Rightarrow> string \<Rightarrow> string option" where
  "currentQemuTerminalEvidence rt io envelope jobName = do {
     event \<leftarrow> find_row (\<lambda>e. re_executionKind e = Qemu \<and> re_jobName e = jobName) (en_events envelope);
     attempt \<leftarrow> qi_current io jobName;
     status \<leftarrow> find_row (\<lambda>s. strict_equal (get_field s ''attemptId'') (get_field attempt ''attemptId'')) (qi_statuses io);
     guardO (get_field status ''result'' = Some (JStr ''success''));
     scheduler \<leftarrow> as_record (qi_response io (''/v1/qemu-events/'' @ re_eventId event @ ''/status''));
     terminal \<leftarrow> as_record (get_field scheduler ''result'');
     guardO (scheduler_evidence_current io event attempt status scheduler terminal);
     Some (evidence_digest rt ''dim-native-qemu-promotion-evidence-v1''
       (JObj [(''attempt'', attempt), (''status'', status), (''scheduler'', scheduler)])) }"

section \<open>Promotion\<close>

record promotion_env =
  pv_runtime :: service_runtime
  pv_reviews :: "AuthoritativeNativeReviewEnvelope list"
  pv_decisions :: decision_store
  pv_freshness :: freshness_io
  pv_descends :: "string \<Rightarrow> string \<Rightarrow> bool option"
  pv_ordinary :: "string \<Rightarrow> json option"
  pv_qemu :: "qemu_io option"
  pv_afterIntent_fails :: bool
  pv_afterCompareAndSwap_fails :: bool

definition ordinary_succeeded :: "json \<Rightarrow> bool" where
  "ordinary_succeeded evidence \<longleftrightarrow> get_field evidence ''result'' = Some (JStr ''success'')
     \<and> (case get_field evidence ''completion'' of None \<Rightarrow> False
        | Some completion \<Rightarrow> get_field completion ''kind'' = Some (JStr ''exited'')
            \<and> get_field completion ''exitCode'' = Some (JInt 0))"

definition job_evidence ::
  "project_runtime \<Rightarrow> promotion_env \<Rightarrow> AuthoritativeNativeReviewEnvelope \<Rightarrow> RequiredJob \<Rightarrow> (service_error, JobEvidence) result" where
  "job_evidence rt env envelope required =
     (case rj_kind required of
        OrdinarySysbox \<Rightarrow>
          bindR (of_option OrdinaryEvidence (pv_ordinary env (rj_name required))) (\<lambda>evidence.
          bindR (guardR OrdinaryEvidence (ordinary_succeeded evidence)) (\<lambda>_.
          Inr \<lparr>je_executionKind = OrdinarySysbox, je_jobName = rj_name required,
            je_evidenceDigest = evidence_digest rt ''dim-native-ordinary-promotion-evidence-v1'' evidence\<rparr>))
      | Qemu \<Rightarrow>
          bindR (of_option QemuUnavailable (pv_qemu env)) (\<lambda>io.
          bindR (of_option QemuEvidence (currentQemuTerminalEvidence rt io envelope (rj_name required))) (\<lambda>digest.
          Inr \<lparr>je_executionKind = Qemu, je_jobName = rj_name required, je_evidenceDigest = digest\<rparr>)))"

definition promotion_evidence ::
  "string \<Rightarrow> AuthoritativeNativeReview \<Rightarrow> AuthoritativeNativeApproval list \<Rightarrow> JobEvidence list \<Rightarrow>
     NativeProjectRootPromotionEvidence" where
  "promotion_evidence reviewId review active jobs = \<lparr>pe_reviewId = reviewId,
     pe_requiredReviewerIds = rv_requiredReviewerIds review,
     pe_approvals = map (\<lambda>a. \<lparr>ae_reviewerId = aa_reviewerId a, ae_approvalDigest = aa_recordDigest a\<rparr>) active,
     pe_jobs = sort_key (\<lambda>j. (kind_text (je_executionKind j), je_jobName j)) jobs\<rparr>"

definition promotion_transition ::
  "project_runtime \<Rightarrow> string \<Rightarrow> string \<Rightarrow> string \<Rightarrow> AuthoritativeNativeRootTarget \<Rightarrow> AuthoritativeNativeReview \<Rightarrow>
     NativeProjectRootPromotionEvidence \<Rightarrow> NativeProjectRootPromotionTransition" where
  "promotion_transition rt generationId projectId reviewId target review evidence =
     (let identity = \<lparr>pt_projectId = projectId, pt_transitionId = [], pt_importNonce = ni_importNonce (gt_imported target),
        pt_sequence = ch_sequence (gt_currentHead target) + 1, pt_reviewId = reviewId,
        pt_protectedRef = rv_protectedRef review, pt_proposalRef = rv_proposalRef review,
        pt_expectedCommit = ch_commit (gt_currentHead target), pt_expectedTree = ch_tree (gt_currentHead target),
        pt_candidateCommit = rv_candidateCommit review, pt_candidateTree = rv_candidateTree review,
        pt_decisionGeneration = generationId, pt_policyDigest = ni_policyDigest (gt_imported target),
        pt_policyRevision = ip_policyRevision (gt_policy target),
        pt_requiredReviewRevision = ip_requiredReviewRevision (gt_policy target),
        pt_requiredJobSetRevision = ip_requiredJobSetRevision (gt_policy target), pt_evidence = evidence,
        pt_evidenceDigest = nativeProjectRootPromotionEvidenceDigest rt evidence\<rparr>
      in identity\<lparr>pt_transitionId := nativeProjectRootPromotionTransitionId rt identity\<rparr>)"

datatype prepared_promotion =
    AlreadyCurrent NativeProjectRootPromotionTransition
  | Ready NativeProjectRootPromotionTransition string

definition planned_keys :: "Planning \<Rightarrow> string list option" where
  "planned_keys planning = (case planning of PlanInvalid \<Rightarrow> None
     | PlanValid _ jobs \<Rightarrow> Some (map (\<lambda>j. jobKey (pj_executionKind j) (pj_jobName j)) jobs))"

definition authorize_promotion ::
  "project_runtime \<Rightarrow> promotion_env \<Rightarrow> string \<Rightarrow> string \<Rightarrow> AuthoritativeNativeRootTarget \<Rightarrow>
     AuthoritativeNativeReviewEnvelope \<Rightarrow> (service_error, NativeProjectRootPromotionTransition) result" where
  "authorize_promotion rt env projectId reviewId target envelope =
     (let review = en_review envelope; policy = gt_policy target in
      bindR (guardR ReviewStale (nativeHumanReviewStaleReasons (pv_freshness env) target review = [])) (\<lambda>_.
      bindR (of_option EnvelopeStale (planned_keys (en_planning envelope))) (\<lambda>plannedJobs.
      bindR (guardR EnvelopeStale (en_qualityRevision envelope = ip_requiredJobSetRevision policy
        \<and> en_policyDigest envelope = ni_policyDigest (gt_imported target))) (\<lambda>_.
      bindR (guardR JobMissing (list_all (\<lambda>j. jobKey (rj_kind j) (rj_name j) \<in> set plannedJobs) (ip_requiredJobs policy))) (\<lambda>_.
      bindR (case readAuthoritativeNativeDecisions (required_of (pv_reviews env)) (pv_decisions env) (Some reviewId) of
          Inl e \<Rightarrow> Inl (Decisions e) | Inr decisions \<Rightarrow> Inr decisions) (\<lambda>decisions.
      let active = sort_key aa_reviewerId (dc_activeApprovals decisions) in
      bindR (guardR ApprovalsIncomplete (map aa_reviewerId active = rv_requiredReviewerIds review)) (\<lambda>_.
      bindR (of_option AncestryUnknown (pv_descends env (rv_expectedProtectedHead review) (rv_candidateCommit review))) (\<lambda>descends.
      bindR (guardR NotDescendant descends) (\<lambda>_.
      bindR (mapR (job_evidence rt env envelope) (ip_requiredJobs policy)) (\<lambda>jobs.
      Inr (promotion_transition rt (sr_expectedGenerationId (pv_runtime env)) projectId reviewId target review
        (promotion_evidence reviewId review active jobs))))))))))))"

definition prepare_promotion ::
  "project_runtime \<Rightarrow> promotion_env \<Rightarrow> string \<Rightarrow> string \<Rightarrow> project_db \<Rightarrow> project_db \<Rightarrow> (service_error, prepared_promotion) result" where
  "prepare_promotion rt env projectId reviewId before db =
     bindR (resolveAuthoritativeNativeRootTarget rt (pv_runtime env) projectId before db) (\<lambda>target.
     case readAuthoritativeNativeReviewEnvelope (pv_reviews env) reviewId of
       None \<Rightarrow> Inl ReviewNotFound
     | Some envelope \<Rightarrow>
         let review = en_review envelope in
         if rv_projectId review \<noteq> projectId then Inl ReviewNotFound
         else
           bindR (in_database (readNativeProjectRootPromotionFinalized rt (Some projectId) db)) (\<lambda>transitions.
           let authorize = (\<lambda>_. bindR (authorize_promotion rt env projectId reviewId target envelope) (\<lambda>t.
             Inr (Ready t (rv_expectedProtectedHead review)))) in
           case find_row (\<lambda>t. pt_reviewId t = reviewId) transitions of
             None \<Rightarrow> authorize ()
           | Some finalized \<Rightarrow>
               if ch_commit (gt_currentHead target) = pt_candidateCommit finalized
                 \<and> rv_candidateCommit review = pt_candidateCommit finalized
                 \<and> rv_candidateTree review = pt_candidateTree finalized
               then Inr (AlreadyCurrent finalized) else authorize ()))"

datatype promotion_outcome = Promoted NativeProjectRootPromotionTransition | WasCurrent NativeProjectRootPromotionTransition

definition promoteInstalledNativeReview ::
  "project_runtime \<Rightarrow> 'g git \<Rightarrow> promotion_env \<Rightarrow> string \<Rightarrow> string \<Rightarrow> project_db \<Rightarrow> project_db \<Rightarrow> 'g \<Rightarrow>
     (service_error, promotion_outcome) result \<times> project_db \<times> 'g" where
  "promoteInstalledNativeReview rt git env projectId reviewId before db g =
     (case prepare_promotion rt env projectId reviewId before db of
        Inl e \<Rightarrow> (Inl e, db, g)
      | Inr (AlreadyCurrent t) \<Rightarrow> (Inr (WasCurrent t), db, g)
      | Inr (Ready t expectedHead) \<Rightarrow>
          (case saveNativeProjectRootPromotionIntent rt t db of
             Inl e \<Rightarrow> (Inl (Database e), db, g)
           | Inr saved \<Rightarrow>
               if pv_afterIntent_fails env then (Inl HookFailed, saved, g)
               else (case atomicPromote git (pt_protectedRef t) (pt_proposalRef t) expectedHead (pt_candidateCommit t) g of
                 (None, g') \<Rightarrow> (Inl SwapRejected, saved, g')
               | (Some False, g') \<Rightarrow> (Inl SwapFailed, saved, g')
               | (Some True, g') \<Rightarrow>
                   if pv_afterCompareAndSwap_fails env then (Inl HookFailed, saved, g')
                   else (case finalizeNativeProjectRootPromotion rt t saved of
                     Inl e \<Rightarrow> (Inl (Database e), saved, g')
                   | Inr finalized \<Rightarrow> (Inr (Promoted t), finalized, g')))))"

section \<open>Recovery\<close>

fun recover_intents ::
  "project_runtime \<Rightarrow> 'g git \<Rightarrow> NativeProjectRootPromotionTransition list \<Rightarrow> project_db \<Rightarrow> (string \<Rightarrow> 'g) \<Rightarrow>
     (service_error, unit) result \<times> project_db \<times> (string \<Rightarrow> 'g)" where
  "recover_intents rt git [] db repositories = (Inr (), db, repositories)"
| "recover_intents rt git (intent # intents) db repositories =
     (let p = pt_projectId intent;
          finish = (\<lambda>repositories'. case finalizeNativeProjectRootPromotion rt intent db of
            Inl e \<Rightarrow> (Inl (Database e), db, repositories')
          | Inr db' \<Rightarrow> recover_intents rt git intents db' repositories') in
      case ref_value git (pt_protectedRef intent) (repositories p) of
        None \<Rightarrow> (Inl ProtectedRefUnreadable, db, repositories)
      | Some current \<Rightarrow>
          if current = pt_expectedCommit intent then
            (case atomicPromote git (pt_protectedRef intent) (pt_proposalRef intent) (pt_expectedCommit intent)
                (pt_candidateCommit intent) (repositories p) of
               (None, g') \<Rightarrow> (Inl SwapRejected, db, repositories(p := g'))
             | (Some False, g') \<Rightarrow> (Inl SwapFailed, db, repositories(p := g'))
             | (Some True, g') \<Rightarrow> finish (repositories(p := g')))
          else if current \<noteq> pt_candidateCommit intent then (Inl ForeignHead, db, repositories)
          else finish repositories)"

definition recoverNativeProjectRootPromotions ::
  "project_runtime \<Rightarrow> 'g git \<Rightarrow> project_db \<Rightarrow> (string \<Rightarrow> 'g) \<Rightarrow>
     (service_error, unit) result \<times> project_db \<times> (string \<Rightarrow> 'g)" where
  "recoverNativeProjectRootPromotions rt git db repositories =
     (case readNativeProjectRootPromotionIntents rt db of
        Inl e \<Rightarrow> (Inl (Database e), db, repositories)
      | Inr intents \<Rightarrow> recover_intents rt git intents db repositories)"

end
