(* ===== verification/Project_Safety.thy ===== *)
theory Project_Safety
  imports Project_Service
begin

text \<open>
  What a promotion guarantees: it calls the database operations as the step relation of the Project
  database demands, it is authorised by every reviewer and job that the policy requires, and an
  interrupted promotion is completed by the recovery.
\<close>

section \<open>The target\<close>

lemma no_intents:
  assumes "selectTransitions rt rows (Some p) = Inr []"
  shows "\<forall>r\<in>set rows. tr_project_id r \<noteq> p"
proof -
  from assms have "sort_key (\<lambda>r. (tr_project_id r, tr_sequence r)) (filter (\<lambda>r. tr_project_id r = p) rows) = []"
    by (simp add: selectTransitions_def mapR_eq_Inr)
  then have "filter (\<lambda>r. tr_project_id r = p) rows = []" by (metis length_sort length_0_conv)
  then show ?thesis by (simp add: filter_empty_conv)
qed

lemma current_head_read:
  assumes "project_inv rt db" "readNativeProjectRootCurrentHeadFromDatabase rt p db = Inr h"
  obtains imported where "promotable rt p db = Inr imported" "head_of rt p db = Inr h"
    "\<forall>r\<in>set (pd_intent db). tr_project_id r \<noteq> p"
proof -
  have r: "project_rows rt db" "project_keys db" using assms(1) by (simp_all add: project_inv_def)
  obtain ims where i: "readNativeProjectRootImportsFromDatabase rt db = Inr ims"
    "\<And>q. find_row (\<lambda>i. ni_projectId i = q) ims = stored_import rt q db" by (rule read_imports[OF r]) blast
  from assms(2) obtain imported intents finalized x where s: "promotable rt p db = Inr imported"
      "selectTransitions rt (pd_intent db) (Some p) = Inr intents"
      "selectTransitions rt (pd_finalized db) (Some p) = Inr finalized"
      "foldCurrentHead imported finalized (generations db) = Inr x"
      "(case intents of [] \<Rightarrow> Inr x | intent # _ \<Rightarrow>
         bindR (assertNextTransition imported x intent (generations db)) (\<lambda>_. Inl PromotionUnresolved)) = Inr h"
    unfolding readNativeProjectRootCurrentHeadFromDatabase_def i(1) promotable_def by (auto simp: bindR_eq_Inr i(2))
  from s(5) have "intents = []" "x = h" by (cases intents; auto simp: bindR_eq_Inr)+
  with s have c: "promotable rt p db = Inr imported" "selectTransitions rt (pd_intent db) (Some p) = Inr []"
      "selectTransitions rt (pd_finalized db) (Some p) = Inr finalized"
      "foldCurrentHead imported finalized (generations db) = Inr h" by simp_all
  then have "head_of rt p db = Inr h" by (simp add: head_of_def)
  with c no_intents that show thesis by blast
qed

lemma stored_installed:
  assumes "project_inv rt db" "requireImportedRoot rt p owner db = Inr (i, tree)"
  shows "stored_import rt p db = Some i" "ni_resolvedTree i = Some tree" "ni_phase i = RootImported"
proof -
  have r: "project_rows rt db" "project_keys db" using assms(1) by (simp_all add: project_inv_def)
  obtain ims where "readNativeProjectRootImportsFromDatabase rt db = Inr ims"
    "\<And>q. find_row (\<lambda>i. ni_projectId i = q) ims = stored_import rt q db" by (rule read_imports[OF r]) blast
  with assms(2) show "stored_import rt p db = Some i" "ni_resolvedTree i = Some tree" "ni_phase i = RootImported"
    by (auto simp: requireImportedRoot_def split: option.split_asm if_split_asm)
qed

definition target_import :: "AuthoritativeNativeRootTarget \<Rightarrow> string \<Rightarrow> AuthoritativeNativeProjectRootImport" where
  "target_import target tree = \<lparr>ai_projectId = ni_projectId (gt_imported target), ai_importNonce = ni_importNonce (gt_imported target),
     ai_protectedRef = ni_protectedRef (gt_imported target), ai_expectedCommit = ni_expectedCommit (gt_imported target),
     ai_resolvedTree = tree, ai_policyDigest = ni_policyDigest (gt_imported target), ai_policy = gt_policy target\<rparr>"

lemma target_resolved:
  assumes "project_inv rt db" "resolveAuthoritativeNativeRootTarget rt sr p before db = Inr target"
  obtains tree where "stored_import rt p db = Some (gt_imported target)" "ni_policy (gt_imported target) = AuthoritativeV1 (gt_policy target)"
    "promotable rt p db = Inr (target_import target tree)" "head_of rt p db = Inr (gt_currentHead target)"
    "\<forall>r\<in>set (pd_intent db). tr_project_id r \<noteq> p" "sr_expectedGenerationId sr \<in> generations db"
    "root_proved (sr_root sr) (gt_imported target) tree (gt_currentHead target)" "matches projectPattern p"
proof -
  from assms(2) obtain owner where v: "verifyLiveImportedRoot rt sr owner p before db = Inr (gt_imported target, gt_currentHead target)"
    and pol: "ni_policy (gt_imported target) = AuthoritativeV1 (gt_policy target)" and pat: "matches projectPattern p"
    by (auto simp: resolveAuthoritativeNativeRootTarget_def split: if_split_asm sum.split_asm option.split_asm
        StoredImportedRootPolicy.split_asm)
  then have act: "exactActivationIsBound (sr_expectedGenerationId sr) (sr_activationTokenDigest sr) db"
    and ro: "verifyImportedRootReadOnly rt (sr_root sr) owner p before db = Inr (gt_imported target, gt_currentHead target)"
    by (auto simp: verifyLiveImportedRoot_def assertActive_def bindR_eq_Inr)
  from ro obtain tree tree' where q: "requireImportedRoot rt p owner db = Inr (gt_imported target, tree')"
      "requireImportedRoot rt p owner before = Inr (gt_imported target, tree)"
      "readCurrentHead rt (gt_imported target) tree' db = Inr (gt_currentHead target)"
      "root_proved (sr_root sr) (gt_imported target) tree (gt_currentHead target)"
    by (auto simp: verifyImportedRootReadOnly_def bindR_eq_Inr split: option.split_asm if_split_asm)
  note st = stored_installed[OF assms(1) q(1)]
  have pid: "ni_projectId (gt_imported target) = p" using st(1) by (rule stored_import_projectId)
  have tree: "tree = tree'" using q(1,2) st(2)
    by (auto simp: requireImportedRoot_def bindR_eq_Inr split: option.split_asm if_split_asm)
  from q(3) pol pid have "readNativeProjectRootCurrentHeadFromDatabase rt p db = Inr (gt_currentHead target)"
    by (simp add: readCurrentHead_def)
  from current_head_read[OF assms(1) this] have h: "head_of rt p db = Inr (gt_currentHead target)"
    "\<forall>r\<in>set (pd_intent db). tr_project_id r \<noteq> p" by blast+
  have "promotable rt p db = Inr (target_import target tree)"
    using st pol tree by (simp add: promotable_def requirePromotableImport_def target_import_def)
  moreover from act obtain row where "find_row (\<lambda>r. ac_generation_id r = sr_expectedGenerationId sr) (pd_activation db) = Some row"
    by (auto simp: exactActivationIsBound_def find_activation_def split: option.split_asm)
  from find_row_Some[OF this] have "sr_expectedGenerationId sr \<in> generations db"
    unfolding generations_def by (metis image_eqI)
  ultimately show thesis using that st(1) pol h q(4) pat by blast
qed

section \<open>Freshness\<close>

lemma first_occurrences_Nil [simp]: "first_occurrences xs = [] \<longleftrightarrow> xs = []"
  by (simp add: first_occurrences_def)

lemma reason_if_Nil [simp]: "reason_if b r = [] \<longleftrightarrow> \<not> b"
  by (simp add: reason_if_def)

lemma fresh_review:
  assumes "nativeHumanReviewStaleReasons io target review = []"
  obtains evidence workspaceId where
    "inspectAuthoritativeNativeReviewGit (fr_utf8 io) (fr_inspected io) (ch_protectedRef (gt_currentHead target))
       (ch_commit (gt_currentHead target)) (rv_proposalRef review) = Some evidence"
    "identity_matches target review workspaceId evidence"
    "rv_expectedProtectedHead review = ch_commit (gt_currentHead target)"
    "rv_policyRevision review = ip_policyRevision (gt_policy target)"
    "rv_requiredReviewRevision review = ip_requiredReviewRevision (gt_policy target)"
  using assms that unfolding nativeHumanReviewStaleReasons_def Let_def
  by (auto simp: changed_refs_def split: option.split_asm if_split_asm)

section \<open>Authorisation\<close>

lemma map_insort_key: "map f (insort_key (\<lambda>x. g (f x)) x xs) = insort_key g (f x) (map f xs)"
  by (induction xs) auto

lemma map_sort_key: "map f (sort_key (\<lambda>x. g (f x)) xs) = sort_key g (map f xs)"
  by (induction xs) (simp_all add: map_insort_key)

lemma job_evidence_kind:
  "job_evidence rt env envelope j = Inr e \<Longrightarrow> (je_executionKind e, je_jobName e) = (rj_kind j, rj_name j)"
  by (auto simp: job_evidence_def bindR_eq_Inr split: execution_kind.split_asm)

lemma evidence_jobs:
  assumes "mapR (job_evidence rt env envelope) js = Inr es"
  shows "map (\<lambda>e. (je_executionKind e, je_jobName e)) es = map (\<lambda>j. (rj_kind j, rj_name j)) js"
proof -
  from assms have "list_all2 (\<lambda>j e. job_evidence rt env envelope j = Inr e) js es" by (simp add: mapR_eq_Inr)
  then show ?thesis by (induction rule: list_all2_induct) (auto dest: job_evidence_kind)
qed

lemma sorted_jobs:
  assumes "map (\<lambda>e. (je_executionKind e, je_jobName e)) es = map (\<lambda>j. (rj_kind j, rj_name j)) (ip_requiredJobs policy)"
  shows "map (\<lambda>e. (je_executionKind e, je_jobName e)) (sort_key (\<lambda>j. (kind_text (je_executionKind j), je_jobName j)) es)
    = expectedJobs policy"
  using map_sort_key[of "\<lambda>e. (je_executionKind e, je_jobName e)" "\<lambda>(k, n). (kind_text k, n)" es] assms
  by (simp add: expectedJobs_def)

lemma authorized:
  assumes "authorize_promotion rt env p v target envelope = Inr t"
  obtains decisions jobs where
    "nativeHumanReviewStaleReasons (pv_freshness env) target (en_review envelope) = []"
    "readAuthoritativeNativeDecisions (required_of (pv_reviews env)) (pv_decisions env) (Some v) = Inr decisions"
    "map aa_reviewerId (sort_key aa_reviewerId (dc_activeApprovals decisions)) = rv_requiredReviewerIds (en_review envelope)"
    "pv_descends env (rv_expectedProtectedHead (en_review envelope)) (rv_candidateCommit (en_review envelope)) = Some True"
    "mapR (job_evidence rt env envelope) (ip_requiredJobs (gt_policy target)) = Inr jobs"
    "t = promotion_transition rt (sr_expectedGenerationId (pv_runtime env)) p v target (en_review envelope)
       (promotion_evidence v (en_review envelope) (sort_key aa_reviewerId (dc_activeApprovals decisions)) jobs)"
    "en_policyDigest envelope = ni_policyDigest (gt_imported target)"
    "en_qualityRevision envelope = ip_requiredJobSetRevision (gt_policy target)"
  using assms that unfolding authorize_promotion_def Let_def
  by (auto simp: bindR_eq_Inr split: sum.split_asm)

lemma transition_fields:
  "pt_projectId (promotion_transition rt gen p v target review evidence) = p"
  "pt_importNonce (promotion_transition rt gen p v target review evidence) = ni_importNonce (gt_imported target)"
  "pt_sequence (promotion_transition rt gen p v target review evidence) = ch_sequence (gt_currentHead target) + 1"
  "pt_reviewId (promotion_transition rt gen p v target review evidence) = v"
  "pt_protectedRef (promotion_transition rt gen p v target review evidence) = rv_protectedRef review"
  "pt_proposalRef (promotion_transition rt gen p v target review evidence) = rv_proposalRef review"
  "pt_expectedCommit (promotion_transition rt gen p v target review evidence) = ch_commit (gt_currentHead target)"
  "pt_expectedTree (promotion_transition rt gen p v target review evidence) = ch_tree (gt_currentHead target)"
  "pt_candidateCommit (promotion_transition rt gen p v target review evidence) = rv_candidateCommit review"
  "pt_candidateTree (promotion_transition rt gen p v target review evidence) = rv_candidateTree review"
  "pt_decisionGeneration (promotion_transition rt gen p v target review evidence) = gen"
  "pt_policyDigest (promotion_transition rt gen p v target review evidence) = ni_policyDigest (gt_imported target)"
  "pt_policyRevision (promotion_transition rt gen p v target review evidence) = ip_policyRevision (gt_policy target)"
  "pt_requiredReviewRevision (promotion_transition rt gen p v target review evidence) = ip_requiredReviewRevision (gt_policy target)"
  "pt_requiredJobSetRevision (promotion_transition rt gen p v target review evidence) = ip_requiredJobSetRevision (gt_policy target)"
  "pt_evidence (promotion_transition rt gen p v target review evidence) = evidence"
  "pt_evidenceDigest (promotion_transition rt gen p v target review evidence) = nativeProjectRootPromotionEvidenceDigest rt evidence"
  by (simp_all add: promotion_transition_def)

lemma stored_protected_ref:
  assumes "stored_import rt p db = Some i" "ni_policy i = AuthoritativeV1 policy"
  shows "ip_protectedRef policy = ni_protectedRef i" "policy_valid rt policy"
proof -
  from assms(1) obtain row where row: "parseNativeProjectRootImportRow rt row = Some i"
    by (auto simp: stored_import_def bind_eq_Some_conv)
  then obtain sp where sp: "parse_stored_policy rt (im_phase row) (im_policy_json row) = Some sp" "ni_policy i = sp"
    "ni_protectedRef i = stored_ref sp"
    by (auto simp: parseNativeProjectRootImportRow_def opt_conv Let_def)
  with assms(2) show "ip_protectedRef policy = ni_protectedRef i" by simp
  from sp assms(2) have "parseAuthoritativeImportedRootPolicy rt (im_policy_json row) = Some policy"
    by (auto simp: parse_stored_policy_def split: option.split_asm if_split_asm)
  then show "policy_valid rt policy" by (rule parse_policy_valid)
qed

text \<open>What is authorised continues the head of the Project.\<close>

lemma authorized_continues:
  assumes "project_inv rt db" "resolveAuthoritativeNativeRootTarget rt (pv_runtime env) p before db = Inr target"
    "authorize_promotion rt env p v target envelope = Inr t"
  shows "continues_head rt db t"
proof -
  obtain tree where g: "stored_import rt p db = Some (gt_imported target)" "ni_policy (gt_imported target) = AuthoritativeV1 (gt_policy target)"
    "promotable rt p db = Inr (target_import target tree)" "head_of rt p db = Inr (gt_currentHead target)"
    "sr_expectedGenerationId (pv_runtime env) \<in> generations db" by (rule target_resolved[OF assms(1,2)]) blast
  obtain decisions :: AuthoritativeNativeDecisions and jobs where
      a: "nativeHumanReviewStaleReasons (pv_freshness env) target (en_review envelope) = []"
    "mapR (job_evidence rt env envelope) (ip_requiredJobs (gt_policy target)) = Inr jobs"
    "t = promotion_transition rt (sr_expectedGenerationId (pv_runtime env)) p v target (en_review envelope)
       (promotion_evidence v (en_review envelope) (sort_key aa_reviewerId (dc_activeApprovals decisions)) jobs)"
    by (rule authorized[OF assms(3)]) blast
  obtain evidence w where f: "identity_matches target (en_review envelope) w evidence" by (rule fresh_review[OF a(1)])
  have ids: "set (ip_requiredReviewerIds (gt_policy target)) \<subseteq> set (rv_requiredReviewerIds (en_review envelope))"
    using f by (auto simp: identity_matches_def set_requiredReviewers)
  have "next_transition (target_import target tree) (gt_currentHead target) t (generations db)"
    using f ids g(5) stored_protected_ref(1)[OF g(1,2)] stored_import_projectId[OF g(1)] sorted_jobs[OF evidence_jobs[OF a(2)]]
    by (auto simp: next_transition_def a(3) transition_fields target_import_def identity_matches_def actualJobs_def
        promotion_evidence_def list_all_iff)
  with g(3,4) show ?thesis by (auto simp: continues_head_def a(3) transition_fields)
qed

section \<open>What is authorised can be stored\<close>

definition sha_hex :: "project_runtime \<Rightarrow> bool" where
  "sha_hex rt \<longleftrightarrow> (\<forall>s. matches hex64Pattern (sha256 rt s))"

text \<open>A stored review parses, and it was created for a proposal ref that its selector accepted, from objects
  of one format.\<close>

definition review_created :: "project_runtime \<Rightarrow> AuthoritativeNativeReviewEnvelope \<Rightarrow> bool" where
  "review_created rt e \<longleftrightarrow> (\<exists>v. parseAuthoritativeNativeReviewEnvelope rt v = Some e)
     \<and> proposal_ref_ok (rv_proposalRef (en_review e))
     \<and> length (rv_candidateCommit (en_review e)) = length (rv_expectedProtectedHead (en_review e))
     \<and> length (rv_candidateTree (en_review e)) = length (rv_expectedProtectedHead (en_review e))"

definition digests_distinct :: "NativeProjectRootPromotionTransition \<Rightarrow> bool" where
  "digests_distinct t \<longleftrightarrow> distinct (map ae_approvalDigest (pe_approvals (pt_evidence t)))
     \<and> distinct (map je_evidenceDigest (pe_jobs (pt_evidence t)))"

definition evidence_valid :: "NativeProjectRootPromotionEvidence \<Rightarrow> bool" where
  "evidence_valid e \<longleftrightarrow> matches hex64Pattern (pe_reviewId e) \<and> list_all (matches projectPattern) (pe_requiredReviewerIds e)
     \<and> 1 \<le> length (pe_requiredReviewerIds e) \<and> 1 \<le> length (pe_approvals e) \<and> length (pe_jobs e) \<le> 64
     \<and> list_all (\<lambda>a. matches projectPattern (ae_reviewerId a) \<and> matches hex64Pattern (ae_approvalDigest a)) (pe_approvals e)
     \<and> list_all (\<lambda>j. matches namePattern (je_jobName j) \<and> matches hex64Pattern (je_evidenceDigest j)) (pe_jobs e)
     \<and> evidence_canonical e"

lemma approvalEvidence_json:
  "matches projectPattern (ae_reviewerId a) \<Longrightarrow> matches hex64Pattern (ae_approvalDigest a) \<Longrightarrow>
     approvalEvidence (approval_json a) = Some a"
  by (simp add: approvalEvidence_def approval_json_def opt_conv exact_def exact_keys_def has_own_def)

lemma jobEvidence_json:
  "matches namePattern (je_jobName j) \<Longrightarrow> matches hex64Pattern (je_evidenceDigest j) \<Longrightarrow>
     jobEvidence (evidence_job_json j) = Some j"
  by (simp add: jobEvidence_def evidence_job_json_def opt_conv exact_def exact_keys_def has_own_def)

lemma parseEvidence_json:
  assumes "evidence_valid e"
  shows "parseEvidence (evidence_json e) = Some e"
proof -
  have x: "exact (evidence_json e) [''schemaVersion'', ''reviewId'', ''requiredReviewerIds'', ''approvals'', ''jobs'']"
    using exact_JObj[of "members (evidence_json e)"] by (simp add: evidence_json_def)
  have "as_list approvalEvidence (Some (JArr (map approval_json (pe_approvals e)))) = Some (pe_approvals e)"
    using assms by (intro as_list_map approvalEvidence_json) (auto simp: evidence_valid_def list_all_iff)
  moreover have "as_list jobEvidence (Some (JArr (map evidence_job_json (pe_jobs e)))) = Some (pe_jobs e)"
    using assms by (intro as_list_map jobEvidence_json) (auto simp: evidence_valid_def list_all_iff)
  moreover have "as_list (text_matching projectPattern) (Some (JArr (map JStr (pe_requiredReviewerIds e)))) = Some (pe_requiredReviewerIds e)"
    using assms by (intro texts_json) (simp add: evidence_valid_def)
  ultimately have "promotionEvidence (evidence_json e) = Some e"
    using assms unfolding promotionEvidence_def opt_conv
    by (simp add: x) (simp add: evidence_valid_def evidence_json_def)
  with assms show ?thesis by (simp add: parseEvidence_def evidence_valid_def)
qed

lemma sorted_uniqueI: "sorted xs \<Longrightarrow> distinct xs \<Longrightarrow> sorted_unique xs"
  by (auto simp: sorted_unique_def strict_sorted_iff intro: successively_if_sorted_wrt)

lemma job_key_le:
  "(kind_text (je_executionKind a), je_jobName a) \<le> (kind_text (je_executionKind b), je_jobName b) \<Longrightarrow> job_key a \<le> job_key b"
  by (cases "je_executionKind a"; cases "je_executionKind b") (simp_all add: job_key_def less_char_def less_eq_char_def)

lemma sorted_job_keys:
  assumes "distinct (map je_jobName jobs)"
  shows "sorted_unique (map job_key (sort_key (\<lambda>j. (kind_text (je_executionKind j), je_jobName j)) jobs))"
proof (rule sorted_uniqueI)
  let ?k = "\<lambda>j. (kind_text (je_executionKind j), je_jobName j)"
  have "sorted_wrt (\<lambda>a b. ?k a \<le> ?k b) (sort_key ?k jobs)" using sorted_sort_key[of ?k jobs] by (simp add: sorted_map)
  then show "sorted (map job_key (sort_key ?k jobs))"
    unfolding sorted_map by (rule sorted_wrt_mono_rel[rotated]) (rule job_key_le)
  have "inj_on job_key (set jobs)"
  proof (rule inj_onI)
    fix a b
    assume ab: "a \<in> set jobs" "b \<in> set jobs" "job_key a = job_key b"
    then have "je_jobName a = je_jobName b"
      by (cases "je_executionKind a"; cases "je_executionKind b") (simp_all add: job_key_def)
    with assms ab show "a = b" by (auto simp: distinct_map inj_on_def)
  qed
  with assms show "distinct (map job_key (sort_key ?k jobs))" by (simp add: distinct_map)
qed

lemma review_schema_fields:
  assumes "authoritativeNativeReviewSchema rt w = Some r"
  shows "matches objectIdPattern (rv_expectedProtectedHead r)" "matches objectIdPattern (rv_candidateCommit r)"
    "matches objectIdPattern (rv_candidateTree r)" "matches hex64Pattern (rv_reviewId r)"
    "list_all (matches projectPattern) (rv_requiredReviewerIds r)" "1 \<le> length (rv_requiredReviewerIds r)"
  using assms unfolding authoritativeNativeReviewSchema_def opt_conv by (auto dest: texts_valid)

lemma parsed_review:
  assumes "parseAuthoritativeNativeReviewEnvelope rt v = Some e"
  shows "matches objectIdPattern (rv_expectedProtectedHead (en_review e))" "matches objectIdPattern (rv_candidateCommit (en_review e))"
    "matches objectIdPattern (rv_candidateTree (en_review e))" "matches hex64Pattern (rv_reviewId (en_review e))"
    "list_all (matches projectPattern) (rv_requiredReviewerIds (en_review e))" "1 \<le> length (rv_requiredReviewerIds (en_review e))"
    "ascending (rv_requiredReviewerIds (en_review e))"
proof -
  from assms have "authoritativeNativeReviewEnvelopeSchema rt v = Some e"
    and a: "ascending (rv_requiredReviewerIds (en_review e))"
    unfolding parseAuthoritativeNativeReviewEnvelope_def Let_def opt_conv by auto
  then have "\<exists>w. authoritativeNativeReviewSchema rt w = Some (en_review e)"
    unfolding authoritativeNativeReviewEnvelopeSchema_def opt_conv by auto
  then obtain w where w: "authoritativeNativeReviewSchema rt w = Some (en_review e)" by blast
  from review_schema_fields[OF w]
  show "matches objectIdPattern (rv_expectedProtectedHead (en_review e))" "matches objectIdPattern (rv_candidateCommit (en_review e))"
    "matches objectIdPattern (rv_candidateTree (en_review e))" "matches hex64Pattern (rv_reviewId (en_review e))"
    "list_all (matches projectPattern) (rv_requiredReviewerIds (en_review e))" "1 \<le> length (rv_requiredReviewerIds (en_review e))"
    by simp_all
  show "ascending (rv_requiredReviewerIds (en_review e))" by (rule a)
qed

lemma read_envelope:
  assumes "readAuthoritativeNativeReviewEnvelope store v = Some e"
  shows "e \<in> set store" "rv_reviewId (en_review e) = v" "matches hex64Pattern v"
proof -
  let ?es = "sort_key (\<lambda>e. rv_createdAt (en_review e)) (rev (filter (\<lambda>e. rv_reviewId (en_review e) = v) store))"
  from assms have "?es \<noteq> []" "e = last ?es" "matches hex64Pattern v"
    by (auto simp: readAuthoritativeNativeReviewEnvelope_def split: if_split_asm list.split_asm)
  then have "e \<in> set ?es" by (metis last_in_set)
  then show "e \<in> set store" "rv_reviewId (en_review e) = v" by auto
  show "matches hex64Pattern v" by fact
qed

lemma stored_import_fields:
  assumes "stored_import rt p db = Some i"
  shows "zod_uuid rt (ni_importNonce i)" "matches hex64Pattern (ni_policyDigest i)" "matches objectIdPattern (ni_expectedCommit i)"
    "ni_resolvedTree i = Some tree \<Longrightarrow> matches objectIdPattern tree"
  using assms by (auto simp: stored_import_def opt_conv parseNativeProjectRootImportRow_def Let_def stored_row_ok_def)

definition head_objects :: "NativeProjectRootCurrentHead \<Rightarrow> bool" where
  "head_objects h \<longleftrightarrow> matches objectIdPattern (ch_commit h) \<and> matches objectIdPattern (ch_tree h)"

lemma fold_head_objects:
  assumes "fold_head imported gens h0 ts = Inr h" "head_objects h0"
    "\<And>t. t \<in> set ts \<Longrightarrow> matches objectIdPattern (pt_candidateCommit t) \<and> matches objectIdPattern (pt_candidateTree t)"
  shows "head_objects h"
  using assms
proof (induction ts arbitrary: h0)
  case (Cons t ts)
  from Cons.prems(1) have "fold_head imported gens (advance h0 t) ts = Inr h" by (simp add: bindR_eq_Inr)
  then show ?case by (rule Cons.IH) (use Cons.prems(2,3) in \<open>auto simp: head_objects_def advance_def\<close>)
qed simp

lemma parsed_transition_objects:
  "parseNativeProjectRootPromotionRow rt row = Some t \<Longrightarrow>
     matches objectIdPattern (pt_candidateCommit t) \<and> matches objectIdPattern (pt_candidateTree t)"
  by (auto simp: parseNativeProjectRootPromotionRow_def opt_conv Let_def transition_row_ok_def transition_of_def)

lemma head_bounds:
  assumes "head_of rt p db = Inr h"
  shows "0 \<le> ch_sequence h" "ch_sequence h \<le> int (length (pd_finalized db))" "head_objects h"
proof -
  from assms obtain imported ts h0 where c: "promotable rt p db = Inr imported"
      "selectTransitions rt (pd_finalized db) (Some p) = Inr ts" "initialHead imported = Inr h0"
      "fold_head imported (generations db) h0 ts = Inr h"
    by (auto simp: head_of_def foldCurrentHead_def bindR_eq_Inr)
  from c(1) obtain i tree where i: "stored_import rt p db = Some i" "ni_resolvedTree i = Some tree"
      "ai_expectedCommit imported = ni_expectedCommit i" "ai_resolvedTree imported = tree"
    by (auto simp: promotable_def requirePromotableImport_def
        split: option.split_asm import_phase.split_asm StoredImportedRootPolicy.split_asm)
  have "head_objects h0"
    using c(3) i stored_import_fields(3,4)[OF i(1)] by (auto simp: initialHead_def head_objects_def split: if_split_asm)
  then show "head_objects h"
    by (rule fold_head_objects[OF c(4)]) (use select_set[OF c(2)] parsed_transition_objects in auto)
  have "length ts = length (filter (\<lambda>r. tr_project_id r = p) (pd_finalized db))"
    using c(2) by (simp add: selectTransitions_def mapR_eq_Inr list_all2_lengthD[symmetric])
  then have "length ts \<le> length (pd_finalized db)" by simp
  moreover have "ch_sequence h = int (length ts)"
    using fold_head_sequence[OF c(4)] c(3) by (auto simp: initialHead_def split: if_split_asm)
  ultimately show "0 \<le> ch_sequence h" "ch_sequence h \<le> int (length (pd_finalized db))" by simp_all
qed

lemma job_evidence_digest: "sha_hex rt \<Longrightarrow> job_evidence rt env envelope j = Inr e \<Longrightarrow> matches hex64Pattern (je_evidenceDigest e)"
  by (auto simp: job_evidence_def bindR_eq_Inr sha_hex_def evidence_digest_def currentQemuTerminalEvidence_def opt_conv
      split: execution_kind.split_asm)

lemma evidence_jobs_valid:
  assumes "sha_hex rt" "policy_valid rt policy" "mapR (job_evidence rt env envelope) (ip_requiredJobs policy) = Inr jobs"
  shows "list_all (\<lambda>j. matches namePattern (je_jobName j) \<and> matches hex64Pattern (je_evidenceDigest j)) jobs"
    "length jobs \<le> 64" "distinct (map je_jobName jobs)"
proof -
  have l: "list_all2 (\<lambda>j e. job_evidence rt env envelope j = Inr e) (ip_requiredJobs policy) jobs"
    using assms(3) by (simp add: mapR_eq_Inr)
  have names: "map je_jobName jobs = map rj_name (ip_requiredJobs policy)"
    using arg_cong[OF evidence_jobs[OF assms(3)], of "map snd"] by (simp add: comp_def)
  then have "list_all (matches namePattern) (map je_jobName jobs)"
    using assms(2) by (simp add: policy_valid_def list_all_iff)
  moreover have "matches hex64Pattern (je_evidenceDigest e)" if "e \<in> set jobs" for e
    using list_all2_right[OF l that] job_evidence_digest[OF assms(1)] by blast
  ultimately show "list_all (\<lambda>j. matches namePattern (je_jobName j) \<and> matches hex64Pattern (je_evidenceDigest j)) jobs"
    by (simp add: list_all_iff)
  show "length jobs \<le> 64" using assms(2) list_all2_lengthD[OF l] by (simp add: policy_valid_def)
  show "distinct (map je_jobName jobs)" using assms(2) names by (simp add: policy_valid_def)
qed

lemma active_recorded:
  assumes "decisions_inv reviews store" "readAuthoritativeNativeDecisions reviews store v = Inr decisions"
    "a \<in> set (dc_activeApprovals decisions)"
  shows "a \<in> set (ds_approvals store)" "aa_approvalId a \<notin> ar_approvalId ` set (ds_revocations store)"
    "matches hex64Pattern (aa_recordDigest a)" "v = Some w \<Longrightarrow> aa_reviewId a = w"
proof -
  have "dc_activeApprovals decisions = for_review v aa_reviewId (active_approvals (ds_approvals store) (ds_revocations store))"
    using decisions_readable[OF assms(1), of v] assms(2) by simp
  with assms(3) show a: "a \<in> set (ds_approvals store)" "aa_approvalId a \<notin> ar_approvalId ` set (ds_revocations store)"
    "v = Some w \<Longrightarrow> aa_reviewId a = w" by (auto simp: for_review_def active_approvals_def split: option.split_asm)
  from a(1) assms(1) show "matches hex64Pattern (aa_recordDigest a)" by (auto simp: decisions_inv_def)
qed

lemma ascending_sorted_unique: "ascending xs = sorted_unique xs"
  by (simp add: ascending_def sorted_unique_def)

lemma authorized_evidence:
  assumes "sha_hex rt" "policy_valid rt policy" "parseAuthoritativeNativeReviewEnvelope rt v = Some envelope"
    "matches hex64Pattern reviewId" "mapR (job_evidence rt env envelope) (ip_requiredJobs policy) = Inr jobs"
    "map aa_reviewerId active = rv_requiredReviewerIds (en_review envelope)"
    "\<And>a. a \<in> set active \<Longrightarrow> matches hex64Pattern (aa_recordDigest a)"
    "distinct (map aa_recordDigest active)" "distinct (map je_evidenceDigest jobs)"
  shows "evidence_valid (promotion_evidence reviewId (en_review envelope) active jobs)"
proof -
  let ?e = "promotion_evidence reviewId (en_review envelope) active jobs"
  note r = parsed_review[OF assms(3)] and j = evidence_jobs_valid[OF assms(1,2,5)]
  have ids: "map ae_reviewerId (pe_approvals ?e) = rv_requiredReviewerIds (en_review envelope)"
    using assms(6) by (simp add: promotion_evidence_def comp_def)
  have "length (pe_approvals ?e) = length (rv_requiredReviewerIds (en_review envelope))"
    using arg_cong[OF ids, of length] by simp
  moreover have "list_all (\<lambda>a. matches projectPattern (ae_reviewerId a)) (pe_approvals ?e)"
    using r(5) unfolding ids[symmetric] by (simp add: list_all_iff)
  moreover have "list_all (\<lambda>a. matches hex64Pattern (ae_approvalDigest a)) (pe_approvals ?e)"
    using assms(7) by (simp add: promotion_evidence_def list_all_iff)
  moreover have "evidence_canonical ?e"
    using r(7) ids assms(8,9) sorted_job_keys[OF j(3)]
    by (simp add: evidence_canonical_def ascending_sorted_unique)
      (simp add: promotion_evidence_def comp_def distinct_map)
  moreover have "list_all (\<lambda>j. matches namePattern (je_jobName j) \<and> matches hex64Pattern (je_evidenceDigest j)) (pe_jobs ?e)"
    "length (pe_jobs ?e) \<le> 64" using j(1,2) by (simp_all add: promotion_evidence_def list_all_iff)
  ultimately show ?thesis
    using r(5,6) assms(4) by (simp add: evidence_valid_def list_all_iff) (simp add: promotion_evidence_def)
qed

lemma proved_lengths:
  assumes "root_proved io imported tree h"
  shows "length (ch_tree h) = length (ch_commit h)"
  using assms by (auto simp: root_proved_def inspectImportedNativeRootReadOnly_def split: option.split_asm)

lemma transition_wfI:
  assumes "transition_row_ok rt (row_of t)" "evidence_valid (pt_evidence t)" "pe_reviewId (pt_evidence t) = pt_reviewId t"
    "pt_evidenceDigest t = nativeProjectRootPromotionEvidenceDigest rt (pt_evidence t)"
    "pt_transitionId t = nativeProjectRootPromotionTransitionId rt t"
    "length (pt_expectedTree t) = length (pt_expectedCommit t)" "length (pt_candidateCommit t) = length (pt_expectedCommit t)"
    "length (pt_candidateTree t) = length (pt_expectedCommit t)"
  shows "transition_wf rt t"
proof -
  have t: "transition_of (row_of t) (pt_evidence t) = t" by (cases t) (simp add: transition_of_def row_of_def)
  have r: "tr_evidence_json (row_of t) = evidence_json (pt_evidence t)" "tr_evidence_sha256 (row_of t) = pt_evidenceDigest t"
    by (simp_all add: row_of_def)
  show ?thesis
    using assms parseEvidence_json[OF assms(2)]
    by (simp add: transition_wf_def parseNativeProjectRootPromotionRow_def opt_conv Let_def t r)
qed

lemma transition_id: "pt_transitionId (promotion_transition rt gen p v target review evidence)
    = nativeProjectRootPromotionTransitionId rt (promotion_transition rt gen p v target review evidence)"
  by (simp add: promotion_transition_def nativeProjectRootPromotionTransitionId_def transition_identity_def)

text \<open>What the stored values rely on: digests are hexadecimal, stored reviews were created, the decision stores
  are consistent, and sequence numbers stay exact.\<close>

definition promotion_ready :: "project_runtime \<Rightarrow> promotion_env \<Rightarrow> project_db \<Rightarrow> bool" where
  "promotion_ready rt env db \<longleftrightarrow> sha_hex rt \<and> (\<forall>e\<in>set (pv_reviews env). review_created rt e)
     \<and> decisions_inv (required_of (pv_reviews env)) (pv_decisions env)
     \<and> matches hex64Pattern (sr_expectedGenerationId (pv_runtime env)) \<and> length (pd_finalized db) < 9007199254740991"

lemma policy_revisions_hex:
  assumes "sha_hex rt" "policy_valid rt policy"
  shows "matches hex64Pattern (ip_policyRevision policy)" "matches hex64Pattern (ip_requiredReviewRevision policy)"
    "matches hex64Pattern (ip_requiredJobSetRevision policy)"
  using assms by (simp_all add: sha_hex_def policy_valid_def policy_revisions_def revision_def)

lemma authorized_wf:
  assumes "project_inv rt db" "promotion_ready rt env db"
    "resolveAuthoritativeNativeRootTarget rt (pv_runtime env) p before db = Inr target"
    "readAuthoritativeNativeReviewEnvelope (pv_reviews env) v = Some envelope"
    "authorize_promotion rt env p v target envelope = Inr t" "digests_distinct t"
  shows "transition_wf rt t"
proof -
  obtain tree where g: "stored_import rt p db = Some (gt_imported target)" "ni_policy (gt_imported target) = AuthoritativeV1 (gt_policy target)"
    "head_of rt p db = Inr (gt_currentHead target)" "matches projectPattern p"
    "root_proved (sr_root (pv_runtime env)) (gt_imported target) tree (gt_currentHead target)"
    by (rule target_resolved[OF assms(1,3)]) blast
  obtain decisions :: AuthoritativeNativeDecisions and jobs where
      a: "nativeHumanReviewStaleReasons (pv_freshness env) target (en_review envelope) = []"
      "readAuthoritativeNativeDecisions (required_of (pv_reviews env)) (pv_decisions env) (Some v) = Inr decisions"
      "map aa_reviewerId (sort_key aa_reviewerId (dc_activeApprovals decisions)) = rv_requiredReviewerIds (en_review envelope)"
      "mapR (job_evidence rt env envelope) (ip_requiredJobs (gt_policy target)) = Inr jobs"
    and t: "t = promotion_transition rt (sr_expectedGenerationId (pv_runtime env)) p v target (en_review envelope)
       (promotion_evidence v (en_review envelope) (sort_key aa_reviewerId (dc_activeApprovals decisions)) jobs)"
    by (rule authorized[OF assms(5)]) blast
  obtain evidence w where f: "identity_matches target (en_review envelope) w evidence"
    "rv_expectedProtectedHead (en_review envelope) = ch_commit (gt_currentHead target)" by (rule fresh_review[OF a(1)])
  note e = read_envelope[OF assms(4)] and pol = stored_protected_ref[OF g(1,2)] and h = head_bounds[OF g(3)]
  from assms(2) e(1) obtain x where c: "sha_hex rt" "parseAuthoritativeNativeReviewEnvelope rt x = Some envelope"
    "proposal_ref_ok (rv_proposalRef (en_review envelope))"
    "length (rv_candidateCommit (en_review envelope)) = length (rv_expectedProtectedHead (en_review envelope))"
    "length (rv_candidateTree (en_review envelope)) = length (rv_expectedProtectedHead (en_review envelope))"
    unfolding promotion_ready_def review_created_def by blast
  have d: "decisions_inv (required_of (pv_reviews env)) (pv_decisions env)" using assms(2) by (simp add: promotion_ready_def)
  have ev: "evidence_valid (pt_evidence t)"
    unfolding t transition_fields
    by (rule authorized_evidence[OF c(1) pol(2) c(2) e(3) a(4) a(3)])
      (use active_recorded(3)[OF d a(2)] assms(6) in \<open>auto simp: digests_distinct_def t transition_fields
        promotion_evidence_def distinct_map comp_def\<close>)
  have ref: "rv_protectedRef (en_review envelope) = ip_protectedRef (gt_policy target)" using f(1) by (simp add: identity_matches_def)
  have "protected_ref_ok (ip_protectedRef (gt_policy target))" using pol(2) by (simp add: policy_valid_def)
  then have len: "1 \<le> length (rv_protectedRef (en_review envelope))" "length (rv_protectedRef (en_review envelope)) \<le> 1024"
    unfolding ref by (auto simp: protected_ref_ok_def head_ref_ok_def startsWith_def Suc_le_eq)
  have row: "transition_row_ok rt (row_of t)"
    using assms(2) h(1,2) g(4) e(3) len c(1,3) parsed_review(2,3)[OF c(2)] h(3) stored_import_fields(1,2)[OF g(1)]
      policy_revisions_hex[OF c(1) pol(2)] transition_id
    by (simp add: transition_row_ok_def row_of_def t transition_fields head_objects_def promotion_ready_def sha_hex_def
        nativeProjectRootPromotionTransitionId_def nativeProjectRootPromotionEvidenceDigest_def domainDigest_def)
  show ?thesis
    by (rule transition_wfI[OF row ev])
      (use c(4,5) f(2) proved_lengths[OF g(5)] in \<open>simp_all add: t transition_fields transition_id[symmetric]
        promotion_evidence_def\<close>)
qed

section \<open>The run of a promotion\<close>

lemma prepare_ready:
  assumes "prepare_promotion rt env p v before db = Inr (Ready t expectedHead)"
  obtains target envelope where "resolveAuthoritativeNativeRootTarget rt (pv_runtime env) p before db = Inr target"
    "readAuthoritativeNativeReviewEnvelope (pv_reviews env) v = Some envelope"
    "authorize_promotion rt env p v target envelope = Inr t" "expectedHead = rv_expectedProtectedHead (en_review envelope)"
  using assms that unfolding prepare_promotion_def Let_def
  by (auto simp: bindR_eq_Inr split: option.split_asm if_split_asm)

lemma ready_transition:
  assumes "project_inv rt db" "promotion_ready rt env db" "prepare_promotion rt env p v before db = Inr (Ready t expectedHead)"
    "digests_distinct t"
  shows "continues_head rt db t" "transition_wf rt t" "pt_projectId t = p" "pt_expectedCommit t = expectedHead"
    "\<forall>r\<in>set (pd_intent db). tr_project_id r \<noteq> p"
proof -
  obtain target envelope where r: "resolveAuthoritativeNativeRootTarget rt (pv_runtime env) p before db = Inr target"
    "readAuthoritativeNativeReviewEnvelope (pv_reviews env) v = Some envelope"
    "authorize_promotion rt env p v target envelope = Inr t" "expectedHead = rv_expectedProtectedHead (en_review envelope)"
    by (rule prepare_ready[OF assms(3)])
  show "continues_head rt db t" by (rule authorized_continues[OF assms(1) r(1,3)])
  show "transition_wf rt t" by (rule authorized_wf[OF assms(1,2) r(1-3) assms(4)])
  obtain decisions :: AuthoritativeNativeDecisions and jobs where
      a: "nativeHumanReviewStaleReasons (pv_freshness env) target (en_review envelope) = []"
    and t: "t = promotion_transition rt (sr_expectedGenerationId (pv_runtime env)) p v target (en_review envelope)
       (promotion_evidence v (en_review envelope) (sort_key aa_reviewerId (dc_activeApprovals decisions)) jobs)"
    by (rule authorized[OF r(3)]) blast
  show "pt_projectId t = p" by (simp add: t transition_fields)
  show "pt_expectedCommit t = expectedHead" using fresh_review[OF a] by (simp add: t transition_fields r(4)) metis
  show "\<forall>r\<in>set (pd_intent db). tr_project_id r \<noteq> p" by (rule target_resolved[OF assms(1) r(1)])
qed

lemma save_effect:
  assumes "\<forall>r\<in>set (pd_intent db). tr_project_id r \<noteq> pt_projectId t" "saveNativeProjectRootPromotionIntent rt t db = Inr saved"
  shows "saved = db\<lparr>pd_intent := pd_intent db @ [row_of t]\<rparr>" "transition_checks db (row_of t)"
proof -
  have "filter (\<lambda>r. tr_project_id r = pt_projectId t) (pd_intent db) = []" using assms(1) by (simp add: filter_empty_conv)
  then have "selectTransitions rt (pd_intent db) (Some (pt_projectId t)) = Inr []" by (simp add: selectTransitions_def)
  with assms(2) show "saved = db\<lparr>pd_intent := pd_intent db @ [row_of t]\<rparr>" "transition_checks db (row_of t)"
    by (auto simp: saveNativeProjectRootPromotionIntent_def insert_intent_def split: if_split_asm)
qed

lemma promote_database:
  assumes "promoteInstalledNativeReview rt git env p v before db g = (out, db', g')"
  shows "db' = db \<or> (\<exists>t h saved. prepare_promotion rt env p v before db = Inr (Ready t h)
    \<and> saveNativeProjectRootPromotionIntent rt t db = Inr saved
    \<and> (db' = saved \<or> finalizeNativeProjectRootPromotion rt t saved = Inr db'))"
  using assms unfolding promoteInstalledNativeReview_def
  by (auto split: sum.split_asm prepared_promotion.split_asm if_split_asm prod.split_asm option.split_asm bool.split_asm)

text \<open>C14: A promotion, however it ends, does to the Project database what the step relation allows: it saves an
  intent only for a transition that its own codec reads back and that continues the chain from the current head of
  the Project, and it finalises only that intent. So a database that only such runs have written stays reachable,
  and the service can start on it again.\<close>

theorem promotion_performs_project_steps:
  assumes "reach project_init (project_step rt) db" "promotion_ready rt env db"
    "\<And>t h. prepare_promotion rt env p v before db = Inr (Ready t h) \<Longrightarrow> digests_distinct t"
    "promoteInstalledNativeReview rt git env p v before db g = (out, db', g')"
  shows "reach project_init (project_step rt) db'
    \<and> (\<exists>rs. assertNativeProjectRegistrationRows rt db' = Inr rs) \<and> (\<exists>is. assertNativeProjectRootImportRows rt db' = Inr is)
    \<and> assertNativeProjectRootPromotionRows rt db' = Inr ()"
proof -
  have inv: "project_inv rt db" using assms(1) by (rule project_machine.reachable_inv)
  have "reach project_init (project_step rt) db'"
  proof (cases "db' = db")
    case False
    with promote_database[OF assms(4)] obtain t h saved where t: "prepare_promotion rt env p v before db = Inr (Ready t h)"
      "saveNativeProjectRootPromotionIntent rt t db = Inr saved"
      "db' = saved \<or> finalizeNativeProjectRootPromotion rt t saved = Inr db'" by blast
    note r = ready_transition[OF inv assms(2) t(1) assms(3)[OF t(1)]]
    have "project_step rt db saved" using r(1,2) t(2) by (intro step_save)
    with assms(1) have s: "reach project_init (project_step rt) saved" by (rule reach_step)
    have "row_of t \<in> set (pd_intent saved)" using save_effect(1)[OF _ t(2)] r(3,5) by simp
    with s t(3) show ?thesis by (blast intro: reach_step step_finalize)
  qed (use assms(1) in simp)
  then show ?thesis using validation_accepts[OF project_machine.reachable_inv] by blast
qed

section \<open>What is promoted\<close>

definition moved :: "'g git \<Rightarrow> string \<Rightarrow> string \<Rightarrow> string \<Rightarrow> string \<Rightarrow> 'g \<Rightarrow> 'g \<Rightarrow> bool" where
  "moved git ref proposal old new g g' \<longleftrightarrow> ref_value git ref g = Some old \<and> ref_value git proposal g = Some new
     \<and> ref_value git ref g' = Some new \<and> (\<forall>r. r \<noteq> ref \<longrightarrow> ref_value git r g' = ref_value git r g)"

text \<open>The documented behaviour of \<open>git update-ref --stdin\<close> on the transaction of a promotion: it moves the ref
  or nothing at all, success means that it moved it, and an ordinary failure that it did not.\<close>

definition swap_transactional :: "'g git \<Rightarrow> string \<Rightarrow> string \<Rightarrow> string \<Rightarrow> string \<Rightarrow> bool" where
  "swap_transactional git ref proposal old new \<longleftrightarrow>
     (\<forall>g e g'. git_update_ref git (promotion_commands ref proposal old new) g = (e, g') \<longrightarrow>
        (g' = g \<or> moved git ref proposal old new g g')
        \<and> (\<forall>n. e = ChildClosed 0 False n \<longrightarrow> moved git ref proposal old new g g')
        \<and> (\<forall>code n. e = ChildClosed code False n \<longrightarrow> code \<noteq> 0 \<longrightarrow> g' = g))"

lemma swap_cases:
  assumes "swap_transactional git ref proposal old new" "atomicPromote git ref proposal old new g = (r, g')"
  shows "g' = g \<or> moved git ref proposal old new g g'" "r = Some True \<Longrightarrow> moved git ref proposal old new g g'"
    "r = Some False \<Longrightarrow> g' = g"
proof -
  obtain e where e: "git_update_ref git (promotion_commands ref proposal old new) g = (e, g')" "r = child_result e"
    using assms(2) by (auto simp: atomicPromote_def split: prod.split_asm)
  with assms(1) have t: "g' = g \<or> moved git ref proposal old new g g'"
    "\<And>n. e = ChildClosed 0 False n \<Longrightarrow> moved git ref proposal old new g g'"
    "\<And>code n. e = ChildClosed code False n \<Longrightarrow> code \<noteq> 0 \<Longrightarrow> g' = g"
    unfolding swap_transactional_def by blast+
  show "g' = g \<or> moved git ref proposal old new g g'" by (rule t(1))
  show "r = Some True \<Longrightarrow> moved git ref proposal old new g g'" "r = Some False \<Longrightarrow> g' = g"
    using t(2,3) e(2) by (cases e; auto split: if_split_asm)+
qed

lemma promote_promoted:
  assumes "promoteInstalledNativeReview rt git env p v before db g = (Inr (Promoted t), db', g')"
  obtains h saved where "prepare_promotion rt env p v before db = Inr (Ready t h)"
    "saveNativeProjectRootPromotionIntent rt t db = Inr saved" "finalizeNativeProjectRootPromotion rt t saved = Inr db'"
    "atomicPromote git (pt_protectedRef t) (pt_proposalRef t) h (pt_candidateCommit t) g = (Some True, g')"
  using assms that unfolding promoteInstalledNativeReview_def
  by (auto split: sum.split_asm prepared_promotion.split_asm if_split_asm prod.split_asm option.split_asm bool.split_asm)

lemma saved_reach:
  assumes "reach project_init (project_step rt) db" "promotion_ready rt env db"
    "prepare_promotion rt env p v before db = Inr (Ready t h)" "digests_distinct t"
    "saveNativeProjectRootPromotionIntent rt t db = Inr saved"
  shows "reach project_init (project_step rt) saved" "row_of t \<in> set (pd_intent saved)" "head_of rt p saved = head_of rt p db"
    "pd_finalized saved = pd_finalized db"
proof -
  note r = ready_transition[OF project_machine.reachable_inv[OF assms(1)] assms(2-4)]
  have "project_step rt db saved" using r(1,2) assms(5) by (intro step_save)
  with assms(1) show "reach project_init (project_step rt) saved" by (rule reach_step)
  show "row_of t \<in> set (pd_intent saved)" "head_of rt p saved = head_of rt p db" "pd_finalized saved = pd_finalized db"
    using save_effect(1)[OF _ assms(5)] r(3,5) by (simp_all add: head_of_def promotable_def stored_import_def generations_def)
qed

lemma authorized_approvals:
  assumes "decisions_inv (required_of (pv_reviews env)) (pv_decisions env)" "authorize_promotion rt env p v target envelope = Inr t"
  obtains evidence where "inspectAuthoritativeNativeReviewGit (fr_utf8 (pv_freshness env)) (fr_inspected (pv_freshness env))
      (ch_protectedRef (gt_currentHead target)) (ch_commit (gt_currentHead target)) (rv_proposalRef (en_review envelope)) = Some evidence"
    "\<forall>reviewer\<in>set (requiredReviewers (gt_policy target) (ge_changes evidence)). \<exists>a\<in>set (ds_approvals (pv_decisions env)).
       aa_reviewerId a = reviewer \<and> aa_reviewId a = v \<and> aa_approvalId a \<notin> ar_approvalId ` set (ds_revocations (pv_decisions env))"
    "\<forall>j\<in>set (ip_requiredJobs (gt_policy target)). \<exists>e. job_evidence rt env envelope j = Inr e"
    "pv_descends env (ch_commit (gt_currentHead target)) (pt_candidateCommit t) = Some True"
    "pt_protectedRef t = ip_protectedRef (gt_policy target)" "pt_expectedCommit t = ch_commit (gt_currentHead target)"
proof -
  obtain decisions jobs where a: "nativeHumanReviewStaleReasons (pv_freshness env) target (en_review envelope) = []"
      "readAuthoritativeNativeDecisions (required_of (pv_reviews env)) (pv_decisions env) (Some v) = Inr decisions"
      "map aa_reviewerId (sort_key aa_reviewerId (dc_activeApprovals decisions)) = rv_requiredReviewerIds (en_review envelope)"
      "pv_descends env (rv_expectedProtectedHead (en_review envelope)) (rv_candidateCommit (en_review envelope)) = Some True"
      "mapR (job_evidence rt env envelope) (ip_requiredJobs (gt_policy target)) = Inr jobs"
    and t: "t = promotion_transition rt (sr_expectedGenerationId (pv_runtime env)) p v target (en_review envelope)
       (promotion_evidence v (en_review envelope) (sort_key aa_reviewerId (dc_activeApprovals decisions)) jobs)"
    by (rule authorized[OF assms(2)]) blast
  obtain evidence w where f: "inspectAuthoritativeNativeReviewGit (fr_utf8 (pv_freshness env)) (fr_inspected (pv_freshness env))
      (ch_protectedRef (gt_currentHead target)) (ch_commit (gt_currentHead target)) (rv_proposalRef (en_review envelope)) = Some evidence"
    "identity_matches target (en_review envelope) w evidence"
    "rv_expectedProtectedHead (en_review envelope) = ch_commit (gt_currentHead target)" by (rule fresh_review[OF a(1)])
  have "set (requiredReviewers (gt_policy target) (ge_changes evidence)) = aa_reviewerId ` set (dc_activeApprovals decisions)"
    using f(2) arg_cong[OF a(3), of set] by (simp add: identity_matches_def)
  with active_recorded[OF assms(1) a(2)] have "\<forall>reviewer\<in>set (requiredReviewers (gt_policy target) (ge_changes evidence)).
      \<exists>a\<in>set (ds_approvals (pv_decisions env)). aa_reviewerId a = reviewer \<and> aa_reviewId a = v
        \<and> aa_approvalId a \<notin> ar_approvalId ` set (ds_revocations (pv_decisions env))" by fastforce
  moreover have "\<forall>j\<in>set (ip_requiredJobs (gt_policy target)). \<exists>e. job_evidence rt env envelope j = Inr e"
    using a(5) mapR_ok by metis
  ultimately show thesis using that f a(4) by (simp add: t transition_fields identity_matches_def)
qed

text \<open>C1: A promoted candidate is authorised. When a promotion reports that it promoted, the protected ref was at the
  head that the database recorded and is now at the candidate, the proposal ref was at the candidate, the head that the
  database records is the candidate, every reviewer whom the policy requires for the paths that Git reports as
  changed has an approval of this very review that is not revoked, every job that the policy requires has successful
  evidence, and the candidate descends from the head it replaces.\<close>

theorem promoted_candidate_is_authorised:
  assumes "reach project_init (project_step rt) db" "promotion_ready rt env db"
    "promoteInstalledNativeReview rt git env p v before db g = (Inr (Promoted t), db', g')" "digests_distinct t"
    "swap_transactional git (pt_protectedRef t) (pt_proposalRef t) (pt_expectedCommit t) (pt_candidateCommit t)"
  shows "\<exists>h i policy envelope evidence. head_of rt p db = Inr h \<and> head_of rt p db' = Inr (advance h t)
    \<and> moved git (pt_protectedRef t) (pt_proposalRef t) (ch_commit h) (pt_candidateCommit t) g g'
    \<and> stored_import rt p db = Some i \<and> ni_policy i = AuthoritativeV1 policy \<and> pt_protectedRef t = ni_protectedRef i
    \<and> readAuthoritativeNativeReviewEnvelope (pv_reviews env) v = Some envelope
    \<and> inspectAuthoritativeNativeReviewGit (fr_utf8 (pv_freshness env)) (fr_inspected (pv_freshness env)) (ch_protectedRef h)
         (ch_commit h) (rv_proposalRef (en_review envelope)) = Some evidence
    \<and> (\<forall>reviewer\<in>set (requiredReviewers policy (ge_changes evidence)). \<exists>a\<in>set (ds_approvals (pv_decisions env)).
         aa_reviewerId a = reviewer \<and> aa_reviewId a = v \<and> aa_approvalId a \<notin> ar_approvalId ` set (ds_revocations (pv_decisions env)))
    \<and> (\<forall>j\<in>set (ip_requiredJobs policy). \<exists>e. job_evidence rt env envelope j = Inr e)
    \<and> pv_descends env (ch_commit h) (pt_candidateCommit t) = Some True"
proof -
  have inv: "project_inv rt db" using assms(1) by (rule project_machine.reachable_inv)
  obtain expected saved where m: "prepare_promotion rt env p v before db = Inr (Ready t expected)"
    "saveNativeProjectRootPromotionIntent rt t db = Inr saved" "finalizeNativeProjectRootPromotion rt t saved = Inr db'"
    "atomicPromote git (pt_protectedRef t) (pt_proposalRef t) expected (pt_candidateCommit t) g = (Some True, g')"
    by (rule promote_promoted[OF assms(3)])
  note r = ready_transition[OF inv assms(2) m(1) assms(4)] and s = saved_reach[OF assms(1,2) m(1) assms(4) m(2)]
  obtain target envelope where q: "resolveAuthoritativeNativeRootTarget rt (pv_runtime env) p before db = Inr target"
    "readAuthoritativeNativeReviewEnvelope (pv_reviews env) v = Some envelope"
    "authorize_promotion rt env p v target envelope = Inr t" by (rule prepare_ready[OF m(1)])
  obtain tree where g: "stored_import rt p db = Some (gt_imported target)" "ni_policy (gt_imported target) = AuthoritativeV1 (gt_policy target)"
    "head_of rt p db = Inr (gt_currentHead target)" by (rule target_resolved[OF inv q(1)]) blast
  have "decisions_inv (required_of (pv_reviews env)) (pv_decisions env)" using assms(2) by (simp add: promotion_ready_def)
  then obtain evidence where f: "inspectAuthoritativeNativeReviewGit (fr_utf8 (pv_freshness env)) (fr_inspected (pv_freshness env))
      (ch_protectedRef (gt_currentHead target)) (ch_commit (gt_currentHead target)) (rv_proposalRef (en_review envelope)) = Some evidence"
    "\<forall>reviewer\<in>set (requiredReviewers (gt_policy target) (ge_changes evidence)). \<exists>a\<in>set (ds_approvals (pv_decisions env)).
       aa_reviewerId a = reviewer \<and> aa_reviewId a = v \<and> aa_approvalId a \<notin> ar_approvalId ` set (ds_revocations (pv_decisions env))"
    "\<forall>j\<in>set (ip_requiredJobs (gt_policy target)). \<exists>e. job_evidence rt env envelope j = Inr e"
    "pv_descends env (ch_commit (gt_currentHead target)) (pt_candidateCommit t) = Some True"
    "pt_protectedRef t = ip_protectedRef (gt_policy target)" "pt_expectedCommit t = ch_commit (gt_currentHead target)"
    by (rule authorized_approvals[OF _ q(3)])
  have head: "head_of rt p db' = Inr (advance (gt_currentHead target) t)"
    using finalize_head[OF project_machine.reachable_inv[OF s(1)] s(2) m(3)] s(3) g(3) r(3) by (metis sum.inject(2))
  have swapped: "moved git (pt_protectedRef t) (pt_proposalRef t) (pt_expectedCommit t) (pt_candidateCommit t) g g'"
    using swap_cases(2)[OF assms(5)] m(4) r(4) by blast
  show ?thesis
    by (rule exI[of _ "gt_currentHead target"], rule exI[of _ "gt_imported target"], rule exI[of _ "gt_policy target"],
        rule exI[of _ envelope], rule exI[of _ evidence])
      (use g head q(2) f swapped stored_protected_ref(1)[OF g(1,2)] in simp)
qed

end
