(* ===== verification/Project_Recovery.thy ===== *)
theory Project_Recovery
  imports Project_Safety
begin

text \<open>
  Recovery of interrupted promotions. The intent that a promotion saves before it moves the ref is what the
  recovery at the next start reads: it completes the promotion from whichever side of the compare-and-swap
  the interruption left it on.
\<close>

section \<open>A saved intent can be finalised\<close>

definition not_finalized :: "NativeProjectRootPromotionTransition \<Rightarrow> project_db \<Rightarrow> bool" where
  "not_finalized t db \<longleftrightarrow> pt_transitionId t \<notin> tr_transition_id ` set (pd_finalized db)
     \<and> (pt_projectId t, pt_reviewId t) \<notin> (\<lambda>r. (tr_project_id r, tr_review_id r)) ` set (pd_finalized db)"

lemma later_sequence:
  assumes "project_inv rt db" "continues_head rt db t"
  shows "(pt_projectId t, pt_sequence t) \<notin> (\<lambda>r. (tr_project_id r, tr_sequence r)) ` set (pd_finalized db)"
proof
  assume "(pt_projectId t, pt_sequence t) \<in> (\<lambda>r. (tr_project_id r, tr_sequence r)) ` set (pd_finalized db)"
  then obtain r where r: "r \<in> set (pd_finalized db)" "tr_project_id r = pt_projectId t" "tr_sequence r = pt_sequence t" by auto
  from assms(2) obtain imported h where c: "promotable rt (pt_projectId t) db = Inr imported"
    "head_of rt (pt_projectId t) db = Inr h" "next_transition imported h t (generations db)" by (auto simp: continues_head_def)
  from c(1,2) obtain h0 ts where ts: "selectTransitions rt (pd_finalized db) (Some (pt_projectId t)) = Inr ts"
    "fold_head imported (generations db) h0 ts = Inr h" by (auto simp: head_of_def foldCurrentHead_def bindR_eq_Inr)
  from assms(1) r(1) obtain u where u: "parseNativeProjectRootPromotionRow rt r = Some u"
    unfolding project_inv_def project_rows_def transition_stored_def by blast
  with r ts(1) have "u \<in> set ts" using select_set[OF ts(1)] by auto
  with fold_head_sequence[OF ts(2)] parse_transition_fields(2)[OF u] r(3) c(3) show False
    by (fastforce simp: next_transition_def)
qed

lemma finalize_succeeds:
  assumes "project_inv rt db" "continues_head rt db t" "transition_wf rt t" "transition_checks db (row_of t)"
    "not_finalized t db" "pd_intent db = []" "saved = db\<lparr>pd_intent := [row_of t]\<rparr>"
  shows "finalizeNativeProjectRootPromotion rt t saved
    = Inr (db\<lparr>pd_finalized := pd_finalized db @ [row_of t], pd_intent := []\<rparr>)"
proof -
  have row: "tr_project_id (row_of t) = pt_projectId t" "tr_transition_id (row_of t) = pt_transitionId t"
    "tr_review_id (row_of t) = pt_reviewId t" "tr_sequence (row_of t) = pt_sequence t" by (simp_all add: row_of_def)
  have "selectTransitions rt (pd_intent saved) (Some (pt_projectId t)) = Inr [t]"
    using assms(3) row(1) by (simp add: assms(7) selectTransitions_def transition_wf_def)
  moreover have "insert_finalized (row_of t) saved = Inr (saved\<lparr>pd_finalized := pd_finalized db @ [row_of t]\<rparr>)"
    using assms(4,5) later_sequence[OF assms(1,2)] row
    by (simp add: insert_finalized_def assms(7) not_finalized_def transition_checks_def generations_def)
  ultimately show ?thesis by (simp add: finalizeNativeProjectRootPromotion_def assms(7) delete_rows_def row)
qed

section \<open>Where an interruption leaves a promotion\<close>

definition swap_available :: "'g git \<Rightarrow> string \<Rightarrow> string \<Rightarrow> string \<Rightarrow> string \<Rightarrow> bool" where
  "swap_available git ref proposal old new \<longleftrightarrow> (\<forall>g. ref_value git ref g = Some old \<longrightarrow> ref_value git proposal g = Some new \<longrightarrow>
     (\<exists>n\<le>65536. fst (git_update_ref git (promotion_commands ref proposal old new) g) = ChildClosed 0 False n))"

lemma promote_interrupted:
  assumes "prepare_promotion rt env p v before db = Inr (Ready t h)"
    "promoteInstalledNativeReview rt git env p v before db g = (Inl e, saved, g')" "saved \<noteq> db"
  shows "saveNativeProjectRootPromotionIntent rt t db = Inr saved"
    "g' = g \<or> (\<exists>r. atomicPromote git (pt_protectedRef t) (pt_proposalRef t) h (pt_candidateCommit t) g = (r, g'))"
  using assms unfolding promoteInstalledNativeReview_def
  by (auto split: sum.split_asm if_split_asm prod.split_asm option.split_asm bool.split_asm)

lemma recover_single:
  assumes "finalizeNativeProjectRootPromotion rt t db = Inr db'" "swap_transactional git (pt_protectedRef t) (pt_proposalRef t) (pt_expectedCommit t) (pt_candidateCommit t)"
    "swap_available git (pt_protectedRef t) (pt_proposalRef t) (pt_expectedCommit t) (pt_candidateCommit t)"
    "ref_value git (pt_protectedRef t) (repositories (pt_projectId t)) \<in> {Some (pt_expectedCommit t), Some (pt_candidateCommit t)}"
    "ref_value git (pt_proposalRef t) (repositories (pt_projectId t)) = Some (pt_candidateCommit t)"
  shows "\<exists>repositories'. recover_intents rt git [t] db repositories = (Inr (), db', repositories')
    \<and> ref_value git (pt_protectedRef t) (repositories' (pt_projectId t)) = Some (pt_candidateCommit t)"
proof (cases "ref_value git (pt_protectedRef t) (repositories (pt_projectId t)) = Some (pt_expectedCommit t)")
  case True
  let ?g = "repositories (pt_projectId t)"
  obtain r g' where s: "atomicPromote git (pt_protectedRef t) (pt_proposalRef t) (pt_expectedCommit t) (pt_candidateCommit t) ?g = (r, g')"
    by (cases "atomicPromote git (pt_protectedRef t) (pt_proposalRef t) (pt_expectedCommit t) (pt_candidateCommit t) ?g")
  have r: "r = Some True" using assms(3,5) True s unfolding swap_available_def
    by (fastforce simp: atomicPromote_def split: prod.split_asm)
  have "moved git (pt_protectedRef t) (pt_proposalRef t) (pt_expectedCommit t) (pt_candidateCommit t) ?g g'"
    using swap_cases(2)[OF assms(2) s r] .
  with True s r assms(1) show ?thesis by (simp add: moved_def)
next
  case False
  with assms(4) have "ref_value git (pt_protectedRef t) (repositories (pt_projectId t)) = Some (pt_candidateCommit t)" by simp
  with False assms(1) show ?thesis by auto
qed

text \<open>C3: An interrupted promotion is completed. Whatever stops a promotion after it has saved its intent, an exception
  in a hook, the death of the Git child or an error of the database, the recovery that runs when the service starts
  again returns normally: the protected ref is at the candidate, the candidate is the recorded head of the Project,
  and no intent is left.\<close>

theorem interrupted_promotion_is_recovered:
  assumes "reach project_init (project_step rt) db" "promotion_ready rt env db" "pd_intent db = []"
    "prepare_promotion rt env p v before db = Inr (Ready t h)" "digests_distinct t" "not_finalized t db"
    "promoteInstalledNativeReview rt git env p v before db g = (Inl e, saved, g')" "saved \<noteq> db"
    "ref_value git (pt_protectedRef t) g = Some (pt_expectedCommit t)" "ref_value git (pt_proposalRef t) g = Some (pt_candidateCommit t)"
    "swap_transactional git (pt_protectedRef t) (pt_proposalRef t) (pt_expectedCommit t) (pt_candidateCommit t)"
    "swap_transactional later (pt_protectedRef t) (pt_proposalRef t) (pt_expectedCommit t) (pt_candidateCommit t)"
    "swap_available later (pt_protectedRef t) (pt_proposalRef t) (pt_expectedCommit t) (pt_candidateCommit t)"
    "git_rev_parse later = git_rev_parse git" "repositories p = g'"
  shows "\<exists>db' repositories' head. recoverNativeProjectRootPromotions rt later saved repositories = (Inr (), db', repositories')
    \<and> head_of rt p db = Inr head \<and> head_of rt p db' = Inr (advance head t) \<and> pd_intent db' = []
    \<and> ref_value git (pt_protectedRef t) (repositories' p) = Some (pt_candidateCommit t)"
proof -
  have inv: "project_inv rt db" using assms(1) by (rule project_machine.reachable_inv)
  note r = ready_transition[OF inv assms(2,4,5)] and s = promote_interrupted[OF assms(4,7,8)]
  note sr = saved_reach[OF assms(1,2,4,5) s(1)]
  have saved: "saved = db\<lparr>pd_intent := [row_of t]\<rparr>" "transition_checks db (row_of t)"
    using save_effect[OF _ s(1)] r(3,5) assms(3) by simp_all
  let ?db' = "db\<lparr>pd_finalized := pd_finalized db @ [row_of t], pd_intent := []\<rparr>"
  have fin: "finalizeNativeProjectRootPromotion rt t saved = Inr ?db'"
    by (rule finalize_succeeds[OF inv r(1,2) saved(2) assms(6,3) saved(1)])
  have sinv: "project_inv rt saved" using sr(1) by (rule project_machine.reachable_inv)
  have "readNativeProjectRootPromotionIntents rt saved = Inr [t]"
    using sinv r(2) by (auto simp: readNativeProjectRootPromotionIntents_def selectTransitions_def saved(1) transition_wf_def
        assertAllTransitionsVerified_def project_inv_def project_rows_def transition_stored_def list_all_iff row_of_def)
  moreover have refs: "ref_value later = ref_value git" using assms(14) by (simp add: ref_value_def fun_eq_iff)
  have "g' = g \<or> moved git (pt_protectedRef t) (pt_proposalRef t) (pt_expectedCommit t) (pt_candidateCommit t) g g'"
    using s(2) swap_cases(1)[OF assms(11)] r(4) by blast
  then have "ref_value git (pt_protectedRef t) g' \<in> {Some (pt_expectedCommit t), Some (pt_candidateCommit t)}"
    "ref_value git (pt_proposalRef t) g' = Some (pt_candidateCommit t)" using assms(9,10)
    by (auto simp: moved_def) metis
  with recover_single[OF fin assms(12,13), of repositories] assms(15) r(3)
  obtain repositories' where "recover_intents rt later [t] saved repositories = (Inr (), ?db', repositories')"
    "ref_value git (pt_protectedRef t) (repositories' p) = Some (pt_candidateCommit t)" by (auto simp: refs)
  moreover obtain head where "head_of rt p db = Inr head" "head_of rt p ?db' = Inr (advance head t)"
    using finalize_head[OF sinv sr(2) fin] sr(3) r(3) by metis
  ultimately show ?thesis by (simp add: recoverNativeProjectRootPromotions_def)
qed

section \<open>An intent blocks its Project\<close>

lemma unresolved_target:
  assumes "project_inv rt db" "row \<in> set (pd_intent db)" "tr_project_id row = p"
  shows "resolveAuthoritativeNativeRootTarget rt sr p before db = Inl TargetUnresolved"
proof (cases "resolveAuthoritativeNativeRootTarget rt sr p before db")
  case (Inl e)
  then show ?thesis
    by (auto simp: resolveAuthoritativeNativeRootTarget_def split: if_split_asm sum.split_asm option.split_asm
        StoredImportedRootPolicy.split_asm)
next
  case (Inr target)
  then show ?thesis using target_resolved[OF assms(1) Inr] assms(2,3) by blast
qed

text \<open>While an intent of a Project is stored, nothing further is promoted in that Project: a promotion of any review
  fails before it changes the database or the repository, whatever the reviewers, jobs and Git answer. This is so
  after a compare-and-swap that failed, and the recovery does not lift it while the protected ref is at a foreign
  commit: it reports the foreign head and changes nothing.\<close>

theorem unresolved_intent_blocks_its_project:
  assumes "reach project_init (project_step rt) db" "row_of t \<in> set (pd_intent db)"
  shows "promoteInstalledNativeReview rt git env (pt_projectId t) v before db g = (Inl TargetUnresolved, db, g)
    \<and> (pd_intent db = [row_of t] \<and> ref_value git (pt_protectedRef t) (repositories (pt_projectId t)) = Some current
         \<and> current \<notin> {pt_expectedCommit t, pt_candidateCommit t} \<longrightarrow>
       recoverNativeProjectRootPromotions rt git db repositories = (Inl ForeignHead, db, repositories))"
proof (intro conjI impI)
  have inv: "project_inv rt db" using assms(1) by (rule project_machine.reachable_inv)
  have "tr_project_id (row_of t) = pt_projectId t" by (simp add: row_of_def)
  from unresolved_target[OF inv assms(2) this]
  show "promoteInstalledNativeReview rt git env (pt_projectId t) v before db g = (Inl TargetUnresolved, db, g)"
    by (simp add: promoteInstalledNativeReview_def prepare_promotion_def)
  assume h: "pd_intent db = [row_of t] \<and> ref_value git (pt_protectedRef t) (repositories (pt_projectId t)) = Some current
    \<and> current \<notin> {pt_expectedCommit t, pt_candidateCommit t}"
  have "parseNativeProjectRootPromotionRow rt (row_of t) \<noteq> None"
    using inv assms(2) unfolding project_inv_def project_rows_def transition_stored_def by blast
  then have "parseNativeProjectRootPromotionRow rt (row_of t) = Some t" using parse_row_of by fastforce
  then have "readNativeProjectRootPromotionIntents rt db = Inr [t]"
    using inv h by (auto simp: readNativeProjectRootPromotionIntents_def selectTransitions_def
        assertAllTransitionsVerified_def project_inv_def project_rows_def transition_stored_def list_all_iff row_of_def)
  with h show "recoverNativeProjectRootPromotions rt git db repositories = (Inl ForeignHead, db, repositories)"
    by (simp add: recoverNativeProjectRootPromotions_def)
qed

end
