(* ===== verification/Project_Examples.thy ===== *)
theory Project_Examples
  imports Project_Recovery
begin

text \<open>
  A concrete Project for the theorems about promotion: a registered and imported root with one required
  reviewer and one required job, a review of a candidate that changes one file, its approval, and a
  repository in which the protected ref and the proposal ref are set.
\<close>

definition demo_digest :: string where "demo_digest = replicate 64 CHR ''0''"

definition demo_prt :: project_runtime where
  "demo_prt = \<lparr>sha256 = (\<lambda>_. demo_digest), date_parse = (\<lambda>_. None), parse_url = (\<lambda>_. None), zod_uuid = (\<lambda>_. True),
     zod_datetime = (\<lambda>_. True)\<rparr>"

definition demo_generation :: string where "demo_generation = replicate 64 CHR ''1''"
definition demo_activation :: string where "demo_activation = replicate 64 CHR ''2''"
definition demo_nonce :: string where "demo_nonce = replicate 36 CHR ''3''"
definition demo_head :: string where "demo_head = replicate 40 CHR ''a''"
definition demo_head_tree :: string where "demo_head_tree = replicate 40 CHR ''b''"
definition demo_candidate :: string where "demo_candidate = replicate 40 CHR ''c''"
definition demo_candidate_tree :: string where "demo_candidate_tree = replicate 40 CHR ''d''"
definition demo_workspace :: string where "demo_workspace = replicate 43 CHR ''A''"
definition demo_main :: string where "demo_main = ''refs/heads/main''"
definition demo_proposal :: string where "demo_proposal = ''refs/heads/proposals/'' @ demo_workspace @ ''/topic''"

definition demo_policy :: NativeImportedRootPolicy where
  "demo_policy = \<lparr>ip_protectedRef = demo_main, ip_policyRevision = demo_digest, ip_requiredReviewRevision = demo_digest,
     ip_requiredJobSetRevision = demo_digest, ip_requiredJobs = [\<lparr>rj_name = ''unit'', rj_kind = OrdinarySysbox\<rparr>],
     ip_requiredReviewerIds = [''ann''], ip_pathReviewerRules = []\<rparr>"

section \<open>The database\<close>

definition demo_registration :: "registration_phase \<Rightarrow> registration_row" where
  "demo_registration phase = \<lparr>rg_service_id = ''native-main'', rg_project_id = ''alpha'', rg_root_repository_id = ''root'',
     rg_owner_host_id = ''host1'', rg_provisioning_nonce = demo_nonce, rg_phase = phase\<rparr>"

definition demo_import :: "string option \<Rightarrow> int option \<Rightarrow> string option \<Rightarrow> import_phase \<Rightarrow> import_row" where
  "demo_import digest bytes tree phase = \<lparr>im_project_id = ''alpha'', im_service_id = ''native-main'',
     im_root_repository_id = ''root'', im_owner_host_id = ''host1'', im_generation_id = demo_generation,
     im_import_nonce = demo_nonce, im_protected_ref = demo_main, im_expected_commit = demo_head,
     im_policy_json = policy_json demo_policy, im_policy_sha256 = demo_digest, im_bundle_sha256 = digest,
     im_bundle_size = bytes, im_resolved_tree = tree, im_phase = phase\<rparr>"

definition demo_pdb :: "registration_row list \<Rightarrow> import_row list \<Rightarrow> project_db" where
  "demo_pdb registrations ims = \<lparr>pd_activation = [\<lparr>ac_generation_id = demo_generation, ac_activation_token_sha256 = demo_activation\<rparr>],
     pd_registration = registrations, pd_import = ims, pd_intent = [], pd_finalized = []\<rparr>"

definition demo_imported :: project_db where
  "demo_imported = demo_pdb [demo_registration RootPrepared] [demo_import (Some demo_digest) (Some 1) (Some demo_head_tree) RootImported]"

definition demo_registration_json :: json where
  "demo_registration_json = JObj [(''serviceId'', JStr ''native-main''), (''projectId'', JStr ''alpha''),
     (''rootRepositoryId'', JStr ''root''), (''ownerHostId'', JStr ''host1'')]"

definition demo_import_json :: json where
  "demo_import_json = JObj [(''serviceId'', JStr ''native-main''), (''projectId'', JStr ''alpha''),
     (''rootRepositoryId'', JStr ''root''), (''protectedRef'', JStr demo_main), (''expectedCommit'', JStr demo_head),
     (''policy'', policy_json demo_policy)]"

definition demo_selector :: NativeProjectRootImportFinalizeSelector where
  "demo_selector = \<lparr>fs_generationId = demo_generation, fs_importNonce = demo_nonce, fs_bundleDigest = demo_digest\<rparr>"

lemma pred_option_code [code]: "pred_option P None = True" "pred_option P (Some x) = P x"
  by simp_all

definition second_is :: "'b \<Rightarrow> ('e, 'a \<times> 'b) result \<Rightarrow> bool" where
  "second_is y r = (case r of Inl _ \<Rightarrow> False | Inr (_, z) \<Rightarrow> z = y)"

lemma second_isD: "second_is y r \<Longrightarrow> \<exists>x. r = Inr (x, y)"
  by (auto simp: second_is_def split: sum.split_asm)

lemma demo_step1:
  "second_is (demo_pdb [] []) (bindExactActivation demo_generation demo_activation empty_db)"
  by code_simp

lemma demo_step2:
  "registerNativeProjectInDatabase demo_prt demo_generation demo_registration_json demo_nonce (demo_pdb [] []) (demo_pdb [] [])
     = Inr (demo_pdb [demo_registration Provisioning] [])"
  by code_simp

lemma demo_step3:
  "second_is (demo_pdb [demo_registration RootPrepared] [])
     (completeNativeProjectPreparation demo_prt demo_generation ''alpha'' (demo_pdb [demo_registration Provisioning] []))"
  by code_simp

lemma demo_step4:
  "second_is (demo_pdb [demo_registration RootPrepared] [demo_import None None None Intent])
     (claimNativeProjectRootImportInDatabase demo_prt demo_generation ''host1'' demo_import_json demo_nonce
       (demo_pdb [demo_registration RootPrepared] []) (demo_pdb [demo_registration RootPrepared] []))"
  by code_simp

lemma demo_step5:
  "second_is (demo_pdb [demo_registration RootPrepared] [demo_import (Some demo_digest) (Some 1) None BundleDurable])
     (markNativeProjectRootBundleDurableInDatabase demo_prt ''alpha'' demo_nonce demo_digest 1
       (demo_pdb [demo_registration RootPrepared] [demo_import None None None Intent]))"
  by code_simp

lemma demo_step6:
  "second_is (demo_pdb [demo_registration RootPrepared] [demo_import (Some demo_digest) (Some 1) None Installing])
     (beginNativeProjectRootImportInstallationInDatabase demo_prt ''alpha'' ''host1'' demo_selector
       (demo_pdb [demo_registration RootPrepared] [demo_import (Some demo_digest) (Some 1) None BundleDurable]))"
  by code_simp

lemma demo_step7:
  "second_is (demo_pdb [demo_registration RootPrepared] [demo_import (Some demo_digest) (Some 1) (Some demo_head_tree) ObjectsInstalled])
     (markNativeProjectRootObjectsInstalledInDatabase demo_prt ''alpha'' demo_selector demo_head_tree
       (demo_pdb [demo_registration RootPrepared] [demo_import (Some demo_digest) (Some 1) None Installing]))"
  by code_simp

lemma demo_step8:
  "second_is demo_imported
     (markNativeProjectRootImportedInDatabase demo_prt ''alpha'' demo_selector demo_head_tree
       (demo_pdb [demo_registration RootPrepared] [demo_import (Some demo_digest) (Some 1) (Some demo_head_tree) ObjectsInstalled]))"
  by code_simp

lemmas demo_steps = demo_step1 demo_step2 demo_step3 demo_step4 demo_step5 demo_step6 demo_step7 demo_step8

definition demo_claimed :: project_db where
  "demo_claimed = demo_pdb [demo_registration RootPrepared] [demo_import None None None Intent]"

lemma demo_claimed_reachable: "reach project_init (project_step demo_prt) demo_claimed"
proof -
  have "reach project_init (project_step demo_prt) empty_db" by (rule reach_init) (simp add: project_init_def)
  then have "reach project_init (project_step demo_prt) (demo_pdb [] [])"
    using demo_steps(1)[THEN second_isD] by (blast intro: reach_step step_activate)
  then have "reach project_init (project_step demo_prt) (demo_pdb [demo_registration Provisioning] [])"
    by (rule reach_step) (rule step_register[OF _ demo_steps(2)], simp add: demo_prt_def)
  then have "reach project_init (project_step demo_prt) (demo_pdb [demo_registration RootPrepared] [])"
    using demo_steps(3)[THEN second_isD] by (blast intro: reach_step step_prepare)
  then show ?thesis
    unfolding demo_claimed_def using demo_steps(4)[THEN second_isD] by (blast intro: reach_step step_claim)
qed

lemma demo_import_run: "(project_step demo_prt)\<^sup>*\<^sup>* demo_claimed demo_imported"
proof -
  have 1: "project_step demo_prt demo_claimed
      (demo_pdb [demo_registration RootPrepared] [demo_import (Some demo_digest) (Some 1) None BundleDurable])"
    unfolding demo_claimed_def using demo_steps(5)[THEN second_isD] by (blast intro: step_durable)
  have 2: "project_step demo_prt
      (demo_pdb [demo_registration RootPrepared] [demo_import (Some demo_digest) (Some 1) None BundleDurable])
      (demo_pdb [demo_registration RootPrepared] [demo_import (Some demo_digest) (Some 1) None Installing])"
    using demo_steps(6)[THEN second_isD] by (blast intro: step_install)
  have 3: "project_step demo_prt (demo_pdb [demo_registration RootPrepared] [demo_import (Some demo_digest) (Some 1) None Installing])
      (demo_pdb [demo_registration RootPrepared] [demo_import (Some demo_digest) (Some 1) (Some demo_head_tree) ObjectsInstalled])"
    using demo_steps(7)[THEN second_isD] by (blast intro: step_objects)
  have 4: "project_step demo_prt
      (demo_pdb [demo_registration RootPrepared] [demo_import (Some demo_digest) (Some 1) (Some demo_head_tree) ObjectsInstalled]) demo_imported"
    using demo_steps(8)[THEN second_isD] by (blast intro: step_imported)
  show ?thesis
    by (rule converse_rtranclp_into_rtranclp[OF 1 converse_rtranclp_into_rtranclp[OF 2 converse_rtranclp_into_rtranclp[OF 3
      r_into_rtranclp[of "project_step demo_prt", OF 4]]]])
qed

lemma demo_imported_reachable: "reach project_init (project_step demo_prt) demo_imported"
  by (rule rtranclp_reach[OF demo_import_run demo_claimed_reachable])

section \<open>The review\<close>

definition demo_change :: ChangedPath where
  "demo_change = \<lparr>cp_status = ''modified'', cp_oldPath = Some ''a.txt'', cp_newPath = Some ''a.txt'',
     cp_oldPathBytes = base64 ''a.txt'', cp_newPathBytes = base64 ''a.txt'', cp_oldMode = ''100644'', cp_newMode = ''100644'',
     cp_oldObjectId = demo_head, cp_newObjectId = demo_candidate, cp_similarity = None, cp_oldSymlinkTarget = None,
     cp_newSymlinkTarget = None, cp_oldSymlinkTargetBytes = None, cp_newSymlinkTargetBytes = None\<rparr>"

definition demo_review :: AuthoritativeNativeReview where
  "demo_review = \<lparr>rv_projectId = ''alpha'', rv_protectedRef = demo_main, rv_proposalRef = demo_proposal,
     rv_expectedProtectedHead = demo_head, rv_candidateCommit = demo_candidate, rv_candidateTree = demo_candidate_tree,
     rv_policyRevision = demo_digest, rv_requiredReviewRevision = demo_digest, rv_workspaceId = demo_workspace,
     rv_requiredReviewerIds = [''ann''], rv_changes = [demo_change], rv_patch = ''patch'', rv_patchBytes = base64 ''patch'',
     rv_reviewId = demo_digest, rv_createdAt = ''2026-01-01T00:00:00.000Z''\<rparr>"

definition demo_planned :: PlannedJob where
  "demo_planned = \<lparr>pj_executionKind = OrdinarySysbox, pj_jobName = ''unit'', pj_scriptObjectId = demo_head,
     pj_scriptSha256 = ''sha256:'' @ demo_digest, pj_scriptPath = ''.dim/ci/jobs/unit.bash''\<rparr>"

definition demo_review_event :: AuthoritativeNativeReviewEvent where
  "demo_review_event = \<lparr>re_eventId = demo_digest, re_envelopeId = demo_digest, re_eventProjectId = ''alpha'',
     re_protectedRef = demo_main, re_reviewId = demo_digest, re_expectedProtectedHead = demo_head,
     re_candidateCommit = demo_candidate, re_candidateTree = demo_candidate_tree, re_policyRevision = demo_digest,
     re_requiredReviewRevision = demo_digest, re_qualityRevision = demo_digest, re_executionKind = OrdinarySysbox,
     re_jobName = ''unit''\<rparr>"

definition demo_envelope :: AuthoritativeNativeReviewEnvelope where
  "demo_envelope = \<lparr>en_envelopeId = demo_digest, en_review = demo_review, en_qualityRevision = demo_digest,
     en_policyDigest = demo_digest, en_requiredJobs = [\<lparr>vj_executionKind = OrdinarySysbox, vj_jobName = ''unit''\<rparr>],
     en_planning = PlanValid None [demo_planned], en_events = [demo_review_event]\<rparr>"

definition demo_envelope_json :: json where
  "demo_envelope_json = JObj [(''schemaVersion'', JInt 2), (''envelopeId'', JStr demo_digest),
     (''review'', JObj (members (identity_json demo_review) @ [(''reviewId'', JStr demo_digest),
       (''createdAt'', JStr (rv_createdAt demo_review))])),
     (''qualityRevision'', JStr demo_digest), (''policyDigest'', JStr demo_digest),
     (''requiredJobs'', JArr (map review_job_json (en_requiredJobs demo_envelope))),
     (''planning'', planning_json (en_planning demo_envelope)), (''events'', JArr [review_event_json demo_review_event])]"

lemma demo_envelope_parses: "parseAuthoritativeNativeReviewEnvelope demo_prt demo_envelope_json = Some demo_envelope"
  by code_simp

lemma demo_review_created: "review_created demo_prt demo_envelope"
proof -
  have "proposal_ref_ok demo_proposal" by code_simp
  moreover have "length demo_candidate = length demo_head" "length demo_candidate_tree = length demo_head" by code_simp+
  ultimately show ?thesis
    using demo_envelope_parses by (auto simp: review_created_def demo_envelope_def demo_review_def)
qed

definition demo_approval :: AuthoritativeNativeApproval where
  "demo_approval = \<lparr>aa_reviewId = demo_digest, aa_reviewerId = ''ann'', aa_requestId = demo_nonce, aa_approvalId = demo_digest,
     aa_approvedAt = ''2026-01-01T00:00:00.000Z'', aa_recordDigest = demo_digest\<rparr>"

definition demo_decisions :: decision_store where
  "demo_decisions = \<lparr>ds_approvals = [demo_approval], ds_revocations = []\<rparr>"

lemma demo_project_hex: "matches hex64Pattern demo_digest" "matches hex64Pattern demo_generation"
  by code_simp+

lemma demo_decisions_inv: "decisions_inv (required_of [demo_envelope]) demo_decisions"
proof -
  have "required_of [demo_envelope] demo_digest = Some [''ann'']" by code_simp
  then show ?thesis using demo_project_hex(1) by (simp add: decisions_inv_def demo_decisions_def demo_approval_def active_approvals_def)
qed

section \<open>The environment\<close>

definition newline :: string where "newline = [CHR 0x0A]"

definition demo_git_view :: git_view where
  "demo_git_view = \<lparr>gv_object_format = Some (''sha1'' @ newline), gv_refs = Some (demo_main @ newline @ demo_proposal @ newline),
     gv_show_ref = (\<lambda>_. Some (demo_head @ newline)), gv_object_type = (\<lambda>_. Some (''commit'' @ newline)),
     gv_rev_parse = map_of [(demo_main @ ''^{commit}'', demo_head @ newline), (demo_proposal @ ''^{commit}'', demo_candidate @ newline),
       (demo_candidate @ ''^{tree}'', demo_candidate_tree @ newline), (demo_head @ ''^{tree}'', demo_head_tree @ newline)],
     gv_is_ancestor = (\<lambda>_ _. True), gv_fsck = (\<lambda>_. True),
     gv_diff_raw = (\<lambda>_ _. Some ('':100644 100644 '' @ demo_head @ '' '' @ demo_candidate @ '' M'' @ [CHR 0x00] @ ''a.txt'' @ [CHR 0x00])),
     gv_diff_patch = (\<lambda>_ _. Some ''patch''), gv_blob = (\<lambda>_. None)\<rparr>"

definition demo_service_runtime :: service_runtime where
  "demo_service_runtime = \<lparr>sr_activated = True, sr_activationTokenDigest = demo_activation,
     sr_expectedGenerationId = demo_generation, sr_state_active = True, sr_state_active_again = True,
     sr_root = \<lparr>io_storage = True, io_storage_again = True, io_view = demo_git_view, io_view_again = demo_git_view\<rparr>\<rparr>"

definition demo_ordinary :: json where
  "demo_ordinary = JObj [(''result'', JStr ''success''), (''completion'', JObj [(''kind'', JStr ''exited''), (''exitCode'', JInt 0)])]"

definition demo_promotion :: "bool \<Rightarrow> bool \<Rightarrow> promotion_env" where
  "demo_promotion intent_fails swap_fails = \<lparr>pv_runtime = demo_service_runtime, pv_reviews = [demo_envelope],
     pv_decisions = demo_decisions,
     pv_freshness = \<lparr>fr_before = demo_git_view, fr_inspected = demo_git_view, fr_after = demo_git_view, fr_utf8 = (\<lambda>s. s)\<rparr>,
     pv_descends = (\<lambda>_ _. Some True), pv_ordinary = (\<lambda>_. Some demo_ordinary), pv_qemu = None,
     pv_afterIntent_fails = intent_fails, pv_afterCompareAndSwap_fails = swap_fails\<rparr>"

lemma demo_ready: "promotion_ready demo_prt (demo_promotion a b) demo_imported"
  using demo_decisions_inv demo_review_created demo_project_hex
  by (simp add: promotion_ready_def demo_promotion_def sha_hex_def demo_prt_def demo_service_runtime_def demo_imported_def demo_pdb_def)

definition demo_transition :: NativeProjectRootPromotionTransition where
  "demo_transition = \<lparr>pt_projectId = ''alpha'', pt_transitionId = demo_digest, pt_importNonce = demo_nonce, pt_sequence = 1,
     pt_reviewId = demo_digest, pt_protectedRef = demo_main, pt_proposalRef = demo_proposal, pt_expectedCommit = demo_head,
     pt_expectedTree = demo_head_tree, pt_candidateCommit = demo_candidate, pt_candidateTree = demo_candidate_tree,
     pt_decisionGeneration = demo_generation, pt_policyDigest = demo_digest, pt_policyRevision = demo_digest,
     pt_requiredReviewRevision = demo_digest, pt_requiredJobSetRevision = demo_digest,
     pt_evidence = \<lparr>pe_reviewId = demo_digest, pe_requiredReviewerIds = [''ann''],
       pe_approvals = [\<lparr>ae_reviewerId = ''ann'', ae_approvalDigest = demo_digest\<rparr>],
       pe_jobs = [\<lparr>je_executionKind = OrdinarySysbox, je_jobName = ''unit'', je_evidenceDigest = demo_digest\<rparr>]\<rparr>,
     pt_evidenceDigest = demo_digest\<rparr>"

definition demo_native_import :: NativeProjectRootImport where
  "demo_native_import = \<lparr>ni_serviceId = ''native-main'', ni_projectId = ''alpha'', ni_rootRepositoryId = ''root'',
     ni_ownerHostId = ''host1'', ni_generationId = demo_generation, ni_importNonce = demo_nonce, ni_protectedRef = demo_main,
     ni_expectedCommit = demo_head, ni_policy = AuthoritativeV1 demo_policy, ni_policyDigest = demo_digest,
     ni_bundleDigest = Some demo_digest, ni_bundleSize = Some 1, ni_resolvedTree = Some demo_head_tree, ni_phase = RootImported\<rparr>"

definition demo_current :: NativeProjectRootCurrentHead where
  "demo_current = \<lparr>ch_projectId = ''alpha'', ch_sequence = 0, ch_protectedRef = demo_main, ch_commit = demo_head,
     ch_tree = demo_head_tree, ch_policyDigest = demo_digest\<rparr>"

definition demo_native_registration :: NativeProjectRegistration where
  "demo_native_registration = \<lparr>re_serviceId = ''native-main'', re_projectId = ''alpha'', re_rootRepositoryId = ''root'',
     re_ownerHostId = ''host1'', re_provisioningNonce = demo_nonce, re_phase = RootPrepared\<rparr>"

definition demo_target :: AuthoritativeNativeRootTarget where
  "demo_target = \<lparr>gt_imported = demo_native_import, gt_policy = demo_policy, gt_currentHead = demo_current\<rparr>"

lemma demo_reads:
  "readNativeProjectRegistrationsFromDatabase demo_prt demo_imported = Inr [demo_native_registration]"
  "readNativeProjectRootImportsFromDatabase demo_prt demo_imported = Inr [demo_native_import]"
  "inspectImportedNativeRootReadOnly demo_git_view demo_git_view demo_main demo_head demo_head_tree demo_head demo_head_tree"
  "exactActivationIsBound demo_generation demo_activation demo_imported" "matches projectPattern ''alpha''"
  by code_simp+

lemma demo_tables: "pd_intent demo_imported = []" "pd_finalized demo_imported = []"
  by (simp_all add: demo_imported_def demo_pdb_def)

lemma demo_current_read: "readNativeProjectRootCurrentHeadFromDatabase demo_prt ''alpha'' demo_imported = Inr demo_current"
  by (simp add: readNativeProjectRootCurrentHeadFromDatabase_def demo_reads demo_tables selectTransitions_def
      assertAllTransitionsVerified_def)
    (simp add: requirePromotableImport_def demo_native_import_def foldCurrentHead_def initialHead_def demo_current_def
      demo_head_def demo_head_tree_def)

lemma demo_resolved: "resolveAuthoritativeNativeRootTarget demo_prt demo_service_runtime ''alpha'' demo_imported demo_imported = Inr demo_target"
proof -
  have im: "requireImportedRoot demo_prt ''alpha'' ''host1'' demo_imported = Inr (demo_native_import, demo_head_tree)"
    by (simp add: requireImportedRoot_def demo_reads) (simp add: demo_native_import_def)
  have h: "readCurrentHead demo_prt demo_native_import demo_head_tree demo_imported = Inr demo_current"
    using demo_current_read by (simp add: readCurrentHead_def demo_native_import_def)
  have r: "find_row (\<lambda>r. re_projectId r = ''alpha'') [demo_native_registration] = Some demo_native_registration"
    by (simp add: demo_native_registration_def)
  have p: "root_proved (sr_root demo_service_runtime) demo_native_import demo_head_tree demo_current"
    using demo_reads(3) by (simp add: root_proved_def demo_service_runtime_def demo_native_import_def demo_current_def)
  have "verifyLiveImportedRoot demo_prt demo_service_runtime ''host1'' ''alpha'' demo_imported demo_imported
      = Inr (demo_native_import, demo_current)"
    using demo_reads(4) p
    by (simp add: verifyLiveImportedRoot_def verifyImportedRootReadOnly_def assertActive_def in_database_def demo_reads(1) im h r)
      (simp add: demo_service_runtime_def demo_native_registration_def demo_native_import_def)
  then show ?thesis
    using demo_reads(1,5) r
    by (simp add: resolveAuthoritativeNativeRootTarget_def demo_service_runtime_def demo_native_registration_def
        demo_target_def) (simp add: demo_native_import_def)
qed

lemma demo_fresh: "nativeHumanReviewStaleReasons (pv_freshness (demo_promotion a b)) demo_target demo_review = []"
proof -
  have "nativeHumanReviewStaleReasons (pv_freshness (demo_promotion True True)) demo_target demo_review = []" by code_simp
  then show ?thesis by (simp add: demo_promotion_def)
qed

end
