(* ===== verification/Project_Promoted.thy ===== *)
theory Project_Promoted
  imports Project_Examples
begin

text \<open>The promotion of the concrete Project, and the theorems about promotion applied to it.\<close>

section \<open>The run\<close>

lemma demo_env_fields:
  "pv_runtime (demo_promotion a b) = demo_service_runtime" "pv_reviews (demo_promotion a b) = [demo_envelope]"
  "pv_decisions (demo_promotion a b) = demo_decisions" "pv_descends (demo_promotion a b) x y = Some True"
  "pv_afterIntent_fails (demo_promotion a b) = a" "pv_afterCompareAndSwap_fails (demo_promotion a b) = b"
  "sr_expectedGenerationId demo_service_runtime = demo_generation" "en_review demo_envelope = demo_review"
  "gt_policy demo_target = demo_policy" "rv_requiredReviewerIds demo_review = [''ann'']" "rv_projectId demo_review = ''alpha''"
  "rv_expectedProtectedHead demo_review = demo_head" "aa_reviewerId demo_approval = ''ann''"
  by (simp_all add: demo_promotion_def demo_service_runtime_def demo_envelope_def demo_target_def demo_review_def demo_approval_def)

lemma demo_authorized:
  "authorize_promotion demo_prt (demo_promotion a b) ''alpha'' demo_digest demo_target demo_envelope = Inr demo_transition"
proof -
  have d: "readAuthoritativeNativeDecisions (required_of [demo_envelope]) demo_decisions (Some demo_digest)
      = Inr \<lparr>dc_approvals = [demo_approval], dc_revocations = [], dc_activeApprovals = [demo_approval]\<rparr>"
    by (simp add: decisions_readable[OF demo_decisions_inv]) (simp add: demo_decisions_def for_review_def active_approvals_def
      demo_approval_def)
  have j: "mapR (job_evidence demo_prt (demo_promotion a b) demo_envelope) (ip_requiredJobs demo_policy)
      = Inr [\<lparr>je_executionKind = OrdinarySysbox, je_jobName = ''unit'', je_evidenceDigest = demo_digest\<rparr>]"
    by (simp add: job_evidence_def demo_policy_def demo_promotion_def ordinary_succeeded_def demo_ordinary_def
        evidence_digest_def demo_prt_def)
  have k: "planned_keys (en_planning demo_envelope) = Some [jobKey OrdinarySysbox ''unit'']"
    by (simp add: planned_keys_def demo_envelope_def demo_planned_def)
  have q: "en_qualityRevision demo_envelope = ip_requiredJobSetRevision demo_policy"
    "en_policyDigest demo_envelope = ni_policyDigest (gt_imported demo_target)"
    "list_all (\<lambda>j. jobKey (rj_kind j) (rj_name j) \<in> set [jobKey OrdinarySysbox ''unit'']) (ip_requiredJobs demo_policy)"
    by (simp_all add: demo_envelope_def demo_policy_def demo_target_def demo_native_import_def)
  have t: "promotion_transition demo_prt demo_generation ''alpha'' demo_digest demo_target demo_review
      (promotion_evidence demo_digest demo_review [demo_approval]
        [\<lparr>je_executionKind = OrdinarySysbox, je_jobName = ''unit'', je_evidenceDigest = demo_digest\<rparr>]) = demo_transition"
    by code_simp
  show ?thesis
    using demo_fresh[of a b] q(3)
    by (simp add: authorize_promotion_def Let_def demo_env_fields d j k q(1,2) t)
qed

lemma demo_prepared:
  "prepare_promotion demo_prt (demo_promotion a b) ''alpha'' demo_digest demo_imported demo_imported = Inr (Ready demo_transition demo_head)"
proof -
  have "readAuthoritativeNativeReviewEnvelope [demo_envelope] demo_digest = Some demo_envelope" by code_simp
  moreover have "readNativeProjectRootPromotionFinalized demo_prt (Some ''alpha'') demo_imported = Inr []"
    by (simp add: readNativeProjectRootPromotionFinalized_def assertAllTransitionsVerified_def selectTransitions_def demo_tables)
  ultimately show ?thesis
    using demo_authorized[of a b] by (simp add: prepare_promotion_def Let_def demo_env_fields demo_resolved in_database_def)
qed

definition demo_saved :: project_db where
  "demo_saved = demo_imported\<lparr>pd_intent := [row_of demo_transition]\<rparr>"

definition demo_finished :: project_db where
  "demo_finished = demo_imported\<lparr>pd_finalized := [row_of demo_transition]\<rparr>"

type_synonym demo_repository = "(string \<times> string) list"

definition demo_git :: "demo_repository git" where
  "demo_git = \<lparr>git_update_ref = (\<lambda>commands g.
       if commands = promotion_commands demo_main demo_proposal demo_head demo_candidate
         \<and> map_option trim (map_of g demo_main) = Some demo_head \<and> map_option trim (map_of g demo_proposal) = Some demo_candidate
       then (ChildClosed 0 False 0, (demo_main, demo_candidate) # g) else (ChildClosed 128 False 40, g)),
     git_rev_parse = (\<lambda>ref g. map_of g ref)\<rparr>"

definition demo_repo :: demo_repository where
  "demo_repo = [(demo_main, demo_head @ newline), (demo_proposal, demo_candidate @ newline)]"

lemma demo_saves: "saveNativeProjectRootPromotionIntent demo_prt demo_transition demo_imported = Inr demo_saved"
  by code_simp

lemma demo_row_parses: "parseNativeProjectRootPromotionRow demo_prt (row_of demo_transition) = Some demo_transition"
  by code_simp

lemma demo_row_project: "tr_project_id (row_of demo_transition) = ''alpha''" "pt_projectId demo_transition = ''alpha''"
  by (simp_all add: row_of_def demo_transition_def)

lemma demo_selected: "selectTransitions demo_prt [row_of demo_transition] (Some ''alpha'') = Inr [demo_transition]"
  by (simp add: selectTransitions_def demo_row_parses demo_row_project)

lemma demo_inserts: "insert_finalized (row_of demo_transition) demo_saved = Inr (demo_saved\<lparr>pd_finalized := [row_of demo_transition]\<rparr>)"
  by code_simp

lemma demo_finalizes: "finalizeNativeProjectRootPromotion demo_prt demo_transition demo_saved = Inr demo_finished"
proof -
  have "selectTransitions demo_prt (pd_intent demo_saved) (Some ''alpha'') = Inr [demo_transition]"
    by (simp add: demo_saved_def demo_selected)
  then show ?thesis
    by (simp add: finalizeNativeProjectRootPromotion_def demo_row_project demo_inserts)
      (simp add: demo_saved_def demo_finished_def demo_row_project demo_tables delete_rows_def)
qed

lemma demo_fields:
  "pt_protectedRef demo_transition = demo_main" "pt_proposalRef demo_transition = demo_proposal"
  "pt_expectedCommit demo_transition = demo_head" "pt_candidateCommit demo_transition = demo_candidate"
  "pt_projectId demo_transition = ''alpha''" "digests_distinct demo_transition" "not_finalized demo_transition demo_imported"
  by (simp_all add: demo_transition_def digests_distinct_def not_finalized_def demo_tables)

lemma demo_swap:
  "swap_transactional demo_git demo_main demo_proposal demo_head demo_candidate"
  "swap_available demo_git demo_main demo_proposal demo_head demo_candidate"
  "atomicPromote demo_git demo_main demo_proposal demo_head demo_candidate demo_repo
     = (Some True, (demo_main, demo_candidate) # demo_repo)"
proof -
  have c: "trim demo_candidate = demo_candidate" by code_simp
  have r: "map_option trim (map_of demo_repo demo_main) = Some demo_head" "map_option trim (map_of demo_repo demo_proposal) = Some demo_candidate"
    by code_simp+
  show "swap_transactional demo_git demo_main demo_proposal demo_head demo_candidate"
    by (auto simp: swap_transactional_def demo_git_def moved_def ref_value_def c split: if_split_asm)
  show "swap_available demo_git demo_main demo_proposal demo_head demo_candidate"
    by (auto simp: swap_available_def demo_git_def ref_value_def)
  show "atomicPromote demo_git demo_main demo_proposal demo_head demo_candidate demo_repo
     = (Some True, (demo_main, demo_candidate) # demo_repo)" using r by (simp add: atomicPromote_def demo_git_def)
qed

lemma demo_run:
  "promoteInstalledNativeReview demo_prt demo_git (demo_promotion False False) ''alpha'' demo_digest demo_imported demo_imported demo_repo
     = (Inr (Promoted demo_transition), demo_finished, (demo_main, demo_candidate) # demo_repo)"
  "promoteInstalledNativeReview demo_prt demo_git (demo_promotion True b) ''alpha'' demo_digest demo_imported demo_imported demo_repo
     = (Inl HookFailed, demo_saved, demo_repo)"
  "promoteInstalledNativeReview demo_prt demo_git (demo_promotion False True) ''alpha'' demo_digest demo_imported demo_imported demo_repo
     = (Inl HookFailed, demo_saved, (demo_main, demo_candidate) # demo_repo)"
  by (simp_all add: promoteInstalledNativeReview_def demo_prepared demo_saves demo_finalizes demo_fields demo_env_fields demo_swap(3))

section \<open>Witnesses\<close>

lemma demo_digests_distinct:
  "prepare_promotion demo_prt (demo_promotion a b) ''alpha'' demo_digest demo_imported demo_imported = Inr (Ready t h) \<Longrightarrow>
     digests_distinct t"
  using demo_fields(6) by (simp add: demo_prepared)

theorem promotion_performs_project_steps_witness:
  "promoteInstalledNativeReview demo_prt demo_git (demo_promotion False False) ''alpha'' demo_digest demo_imported demo_imported demo_repo
     = (Inr (Promoted demo_transition), demo_finished, (demo_main, demo_candidate) # demo_repo)
   \<and> assertNativeProjectRootPromotionRows demo_prt demo_finished = Inr ()"
proof (intro conjI demo_run(1))
  show "assertNativeProjectRootPromotionRows demo_prt demo_finished = Inr ()"
    by (rule promotion_performs_project_steps[OF demo_imported_reachable demo_ready _ demo_run(1), THEN conjunct2, THEN conjunct2,
        THEN conjunct2]) (rule demo_digests_distinct)
qed

theorem promoted_candidate_is_authorised_witness:
  "\<exists>a\<in>set (ds_approvals demo_decisions). aa_reviewerId a = ''ann'' \<and> aa_reviewId a = demo_digest"
proof -
  have s: "swap_transactional demo_git (pt_protectedRef demo_transition) (pt_proposalRef demo_transition)
      (pt_expectedCommit demo_transition) (pt_candidateCommit demo_transition)" using demo_swap(1) by (simp add: demo_fields)
  obtain i policy and evidence :: AuthoritativeNativeGitReviewEvidence where p: "stored_import demo_prt ''alpha'' demo_imported = Some i" "ni_policy i = AuthoritativeV1 policy"
    "\<forall>reviewer\<in>set (requiredReviewers policy (ge_changes evidence)). \<exists>a\<in>set (ds_approvals (pv_decisions (demo_promotion False False))).
       aa_reviewerId a = reviewer \<and> aa_reviewId a = demo_digest
       \<and> aa_approvalId a \<notin> ar_approvalId ` set (ds_revocations (pv_decisions (demo_promotion False False)))"
    using promoted_candidate_is_authorised[OF demo_imported_reachable demo_ready demo_run(1) demo_fields(6) s] by blast
  have "stored_import demo_prt ''alpha'' demo_imported = Some demo_native_import" by code_simp
  with p(1,2) have "policy = demo_policy" by (auto simp: demo_native_import_def)
  then have "''ann'' \<in> set (requiredReviewers policy (ge_changes evidence))"
    by (simp add: set_requiredReviewers demo_policy_def)
  with p(3) show ?thesis by (auto simp: demo_env_fields)
qed

lemma demo_refs: "ref_value demo_git demo_main demo_repo = Some demo_head" "ref_value demo_git demo_proposal demo_repo = Some demo_candidate"
  by code_simp+

lemma demo_saved_differs: "demo_saved \<noteq> demo_imported"
  by (simp add: demo_saved_def demo_imported_def demo_pdb_def)

theorem interrupted_promotion_is_recovered_witness:
  "\<exists>db repositories. recoverNativeProjectRootPromotions demo_prt demo_git demo_saved (\<lambda>_. demo_repo) = (Inr (), db, repositories)
     \<and> pd_intent db = [] \<and> ref_value demo_git demo_main (repositories ''alpha'') = Some demo_candidate"
  using interrupted_promotion_is_recovered[OF demo_imported_reachable demo_ready demo_tables(1) demo_prepared demo_fields(6,7)
      demo_run(2) demo_saved_differs, of demo_git "\<lambda>_. demo_repo"] demo_refs demo_swap(1,2)
  by (auto simp: demo_fields)

lemma demo_saved_reachable: "reach project_init (project_step demo_prt) demo_saved" "row_of demo_transition \<in> set (pd_intent demo_saved)"
  using saved_reach(1,2)[OF demo_imported_reachable demo_ready demo_prepared demo_fields(6) demo_saves] by simp_all

theorem unresolved_intent_blocks_its_project_witness:
  "promoteInstalledNativeReview demo_prt demo_git (demo_promotion False False) ''alpha'' demo_digest demo_saved demo_saved demo_repo
     = (Inl TargetUnresolved, demo_saved, demo_repo)
   \<and> recoverNativeProjectRootPromotions demo_prt demo_git demo_saved (\<lambda>_. [(demo_main, ''foreign'')])
     = (Inl ForeignHead, demo_saved, (\<lambda>_. [(demo_main, ''foreign'')]))"
proof -
  have "ref_value demo_git demo_main [(demo_main, ''foreign'')] = Some ''foreign''" "''foreign'' \<noteq> demo_head" "''foreign'' \<noteq> demo_candidate"
    by code_simp+
  moreover have "pd_intent demo_saved = [row_of demo_transition]" by (simp add: demo_saved_def)
  ultimately show ?thesis
    using unresolved_intent_blocks_its_project[OF demo_saved_reachable, of demo_git "demo_promotion False False" demo_digest demo_saved
        demo_repo "\<lambda>_. [(demo_main, ''foreign'')]" "''foreign''"] by (simp add: demo_fields)
qed

end
