(* ===== verification/Project_History.thy ===== *)
theory Project_History
  imports Project_Promoted
begin

text \<open>
  The history that the Project database records: the chain of finalised transitions behind every protected
  head, the phases of an import, the bounds of stored values, and the validation at start-up.
\<close>

section \<open>The chain\<close>

lemma fold_head_nth:
  assumes "fold_head imported gens h0 ts = Inr h" "n < length ts"
  shows "\<exists>c. next_transition imported c (ts ! n) gens \<and> ch_sequence c = ch_sequence h0 + int n
    \<and> ch_commit c = (if n = 0 then ch_commit h0 else pt_candidateCommit (ts ! (n - 1)))
    \<and> ch_tree c = (if n = 0 then ch_tree h0 else pt_candidateTree (ts ! (n - 1)))"
  using assms
proof (induction ts arbitrary: h0 n)
  case (Cons t ts)
  then have t: "next_transition imported h0 t gens" "fold_head imported gens (advance h0 t) ts = Inr h"
    by (auto simp: assertNextTransition_def)
  show ?case
  proof (cases n)
    case (Suc m)
    with Cons.IH[OF t(2), of m] Cons.prems(2) obtain c where "next_transition imported c (ts ! m) gens"
      "ch_sequence c = ch_sequence (advance h0 t) + int m"
      "ch_commit c = (if m = 0 then ch_commit (advance h0 t) else pt_candidateCommit (ts ! (m - 1)))"
      "ch_tree c = (if m = 0 then ch_tree (advance h0 t) else pt_candidateTree (ts ! (m - 1)))" by auto
    with Suc t(1) show ?thesis by (intro exI[of _ c]) (cases m, auto simp: advance_def next_transition_def)
  qed (use t(1) in auto)
qed simp

lemma parsed_evidence: "parseNativeProjectRootPromotionRow rt row = Some t \<Longrightarrow> evidence_canonical (pt_evidence t)"
  by (auto simp: parseNativeProjectRootPromotionRow_def opt_conv Let_def parseEvidence_def transition_of_def)


lemma demo_finished_reachable: "reach project_init (project_step demo_prt) demo_finished"
  using demo_saved_reachable demo_finalizes by (blast intro: reach_step step_finalize)

lemma demo_finished_read: "readNativeProjectRootPromotionFinalized demo_prt (Some ''alpha'') demo_finished = Inr [demo_transition]"
  by (simp add: readNativeProjectRootPromotionFinalized_def assertAllTransitionsVerified_def demo_finished_def demo_tables
      demo_selected) (simp add: row_of_def)


text \<open>C29: The service starts again on every database that the operations reach: the validation of the registrations, of
  the imports and of the promotion transitions accepts it.\<close>

theorem reachable_project_database_reopens:
  assumes "reach project_init (project_step rt) db"
  shows "(\<exists>rs. assertNativeProjectRegistrationRows rt db = Inr rs) \<and> (\<exists>is. assertNativeProjectRootImportRows rt db = Inr is)
    \<and> assertNativeProjectRootPromotionRows rt db = Inr ()"
  using validation_accepts[OF project_machine.reachable_inv[OF assms]] by blast

theorem reachable_project_database_reopens_witness:
  "pd_finalized demo_finished = [row_of demo_transition] \<and> assertNativeProjectRootPromotionRows demo_prt demo_finished = Inr ()"
  using reachable_project_database_reopens[OF demo_finished_reachable] by (simp add: demo_finished_def)

section \<open>Imports move forward\<close>

fun phase_rank :: "import_phase \<Rightarrow> nat" where
  "phase_rank Intent = 0"
| "phase_rank BundleDurable = 1"
| "phase_rank Installing = 2"
| "phase_rank ObjectsInstalled = 3"
| "phase_rank RootImported = 4"

definition set_once :: "'a option \<Rightarrow> 'a option \<Rightarrow> bool" where
  "set_once x y \<longleftrightarrow> x = None \<or> y = x"

definition row_continues :: "import_row \<Rightarrow> import_row \<Rightarrow> bool" where
  "row_continues x y \<longleftrightarrow> im_project_id y = im_project_id x \<and> im_owner_host_id y = im_owner_host_id x
     \<and> im_generation_id y = im_generation_id x \<and> im_import_nonce y = im_import_nonce x
     \<and> im_protected_ref y = im_protected_ref x \<and> im_expected_commit y = im_expected_commit x
     \<and> im_policy_json y = im_policy_json x \<and> im_policy_sha256 y = im_policy_sha256 x
     \<and> set_once (im_bundle_sha256 x) (im_bundle_sha256 y) \<and> set_once (im_bundle_size x) (im_bundle_size y)
     \<and> set_once (im_resolved_tree x) (im_resolved_tree y) \<and> phase_rank (im_phase x) \<le> phase_rank (im_phase y)"

lemma row_continues_refl [simp]: "row_continues x x"
  by (simp add: row_continues_def set_once_def)

definition imports_continue :: "project_db \<Rightarrow> project_db \<Rightarrow> bool" where
  "imports_continue db db' \<longleftrightarrow> (\<exists>f new. pd_import db' = map f (pd_import db) @ new \<and> (\<forall>x\<in>set (pd_import db). row_continues x (f x)))"

lemma imports_continue_refl: "pd_import db' = pd_import db \<Longrightarrow> imports_continue db db'"
  unfolding imports_continue_def by (intro exI[of _ "\<lambda>x. x"] exI[of _ "[]"]) simp

lemma imports_continue_insert: "insert_import row db = Inr db' \<Longrightarrow> imports_continue db db'"
  unfolding imports_continue_def
  by (intro exI[of _ "\<lambda>x. x"] exI[of _ "[row]"]) (auto simp: insert_import_def split: if_split_asm)

lemma imports_continue_update:
  assumes "update_import P f db = Inr db'" "\<And>x. x \<in> set (pd_import db) \<Longrightarrow> P x \<Longrightarrow> row_continues x (f x)"
  shows "imports_continue db db'"
proof -
  from assms(1) have "pd_import db' = map (\<lambda>x. if P x then f x else x) (pd_import db) @ []"
    by (auto simp: update_import_def update_rows_def split: if_split_asm)
  with assms(2) show ?thesis
    unfolding imports_continue_def by (intro exI[of _ "\<lambda>x. if P x then f x else x"] exI[of _ "[]"]) auto
qed

lemma stored_phase:
  assumes "project_inv rt db" "x \<in> set (pd_import db)"
  shows "phase_binding (im_phase x) (im_bundle_sha256 x) (im_bundle_size x) (im_resolved_tree x)"
proof -
  from assms obtain i where "parseNativeProjectRootImportRow rt x = Some i" by (auto simp: project_inv_def project_rows_def)
  then show ?thesis by (auto simp: parseNativeProjectRootImportRow_def opt_conv Let_def)
qed

lemma durable_continues:
  assumes "project_inv rt db" "markNativeProjectRootBundleDurableInDatabase rt p nonce digest bytes db = Inr (i, db')"
  shows "imports_continue db db'"
proof (cases "db' = db")
  case False
  let ?f = "\<lambda>r. r\<lparr>im_bundle_sha256 := Some digest, im_bundle_size := Some bytes, im_phase := BundleDurable\<rparr>"
  from assms(2) False have "update_import (\<lambda>r. im_project_id r = p \<and> im_import_nonce r = nonce \<and> im_phase r = Intent) ?f db = Inr db'"
    by (auto simp: markNativeProjectRootBundleDurableInDatabase_def bindR_eq_Inr split: option.split_asm if_split_asm)
  then show ?thesis
    by (rule imports_continue_update) (use stored_phase[OF assms(1)] in \<open>fastforce simp: row_continues_def set_once_def\<close>)
qed (simp add: imports_continue_refl)

lemma install_continues:
  assumes "beginNativeProjectRootImportInstallationInDatabase rt p host selector db = Inr (i, db')"
  shows "imports_continue db db'"
proof (cases "db' = db")
  case False
  with assms have "update_import (\<lambda>r. im_project_id r = p \<and> im_phase r = BundleDurable) (\<lambda>r. r\<lparr>im_phase := Installing\<rparr>) db = Inr db'"
    by (auto simp: beginNativeProjectRootImportInstallationInDatabase_def bindR_eq_Inr split: if_split_asm)
  then show ?thesis by (rule imports_continue_update) (simp add: row_continues_def set_once_def)
qed (simp add: imports_continue_refl)

lemma objects_continues:
  assumes "project_inv rt db" "markNativeProjectRootObjectsInstalledInDatabase rt p selector tree db = Inr (i, db')"
  shows "imports_continue db db'"
proof (cases "db' = db")
  case False
  with assms(2) have "update_import (\<lambda>r. im_project_id r = p \<and> im_phase r = Installing)
      (\<lambda>r. r\<lparr>im_resolved_tree := Some tree, im_phase := ObjectsInstalled\<rparr>) db = Inr db'"
    by (auto simp: markNativeProjectRootObjectsInstalledInDatabase_def bindR_eq_Inr split: if_split_asm)
  then show ?thesis
    by (rule imports_continue_update) (use stored_phase[OF assms(1)] in \<open>fastforce simp: row_continues_def set_once_def\<close>)
qed (simp add: imports_continue_refl)

lemma imported_continues:
  assumes "markNativeProjectRootImportedInDatabase rt p selector tree db = Inr (i, db')"
  shows "imports_continue db db'"
proof (cases "db' = db")
  case False
  with assms have "update_import (\<lambda>r. im_project_id r = p \<and> im_phase r = ObjectsInstalled) (\<lambda>r. r\<lparr>im_phase := RootImported\<rparr>) db = Inr db'"
    by (auto simp: markNativeProjectRootImportedInDatabase_def bindR_eq_Inr split: if_split_asm)
  then show ?thesis by (rule imports_continue_update) (simp add: row_continues_def set_once_def)
qed (simp add: imports_continue_refl)

lemma claim_continues:
  assumes "claimNativeProjectRootImportInDatabase rt g host input uuid before db = Inr (i, db')"
  shows "imports_continue db db'"
proof (cases "db' = db")
  case False
  with assms obtain row where "insert_import row db = Inr db'"
    unfolding claimNativeProjectRootImportInDatabase_def by (auto simp: bindR_eq_Inr Let_def split: option.split_asm)
  then show ?thesis by (rule imports_continue_insert)
qed (simp add: imports_continue_refl)

lemma other_continues:
  "bindExactActivation g tok db = Inr (b, db') \<Longrightarrow> imports_continue db db'"
  "registerNativeProjectInDatabase rt g input uuid before db = Inr db' \<Longrightarrow> imports_continue db db'"
  "completeNativeProjectPreparation rt g p db = Inr (r, db') \<Longrightarrow> imports_continue db db'"
  by (auto intro!: imports_continue_refl simp: bindExactActivation_def registerNativeProjectInDatabase_def insert_registration_def
      completeNativeProjectPreparation_def Let_def bindR_eq_Inr split: option.split_asm if_split_asm)

lemma save_continues:
  assumes "saveNativeProjectRootPromotionIntent rt t db = Inr db'"
  shows "imports_continue db db'"
proof (cases "selectTransitions rt (pd_intent db) (Some (pt_projectId t))")
  case (Inr ts)
  with assms show ?thesis
    by (cases ts) (auto intro!: imports_continue_refl simp: saveNativeProjectRootPromotionIntent_def insert_intent_def bindR_def
        split: if_split_asm)
qed (use assms in \<open>simp add: saveNativeProjectRootPromotionIntent_def bindR_def\<close>)

lemma finalize_continues:
  assumes "finalizeNativeProjectRootPromotion rt t db = Inr db'"
  shows "imports_continue db db'"
proof (cases "selectTransitions rt (pd_intent db) (Some (pt_projectId t))")
  case (Inr ts)
  with assms show ?thesis
    by (cases ts) (auto intro!: imports_continue_refl simp: finalizeNativeProjectRootPromotion_def insert_finalized_def bindR_def
        split: if_split_asm)
qed (use assms in \<open>simp add: finalizeNativeProjectRootPromotion_def bindR_def\<close>)

lemma step_continues: "project_step rt db db' \<Longrightarrow> project_inv rt db \<Longrightarrow> imports_continue db db'"
  by (induction rule: project_step.induct)
    (auto intro: other_continues claim_continues durable_continues install_continues objects_continues imported_continues
      save_continues finalize_continues)

definition import_continues :: "NativeProjectRootImport \<Rightarrow> NativeProjectRootImport \<Rightarrow> bool" where
  "import_continues i j \<longleftrightarrow> ni_ownerHostId j = ni_ownerHostId i \<and> ni_generationId j = ni_generationId i
     \<and> ni_importNonce j = ni_importNonce i \<and> ni_protectedRef j = ni_protectedRef i
     \<and> ni_expectedCommit j = ni_expectedCommit i \<and> ni_policyDigest j = ni_policyDigest i
     \<and> set_once (ni_bundleDigest i) (ni_bundleDigest j) \<and> set_once (ni_bundleSize i) (ni_bundleSize j)
     \<and> set_once (ni_resolvedTree i) (ni_resolvedTree j) \<and> phase_rank (ni_phase i) \<le> phase_rank (ni_phase j)"

lemma set_once_trans: "set_once x y \<Longrightarrow> set_once y z \<Longrightarrow> set_once x z"
  by (auto simp: set_once_def)

lemma import_continues_trans: "import_continues i j \<Longrightarrow> import_continues j k \<Longrightarrow> import_continues i k"
  by (auto simp: import_continues_def intro: set_once_trans)

lemma find_row_continues:
  assumes "find_row P xs = Some x" "\<And>y. y \<in> set xs \<Longrightarrow> P (f y) = P y"
  shows "find_row P (map f xs @ zs) = Some (f x)"
  using assms by (induction xs) (auto split: if_split_asm)

lemma continued_import:
  assumes "project_inv rt db" "project_inv rt db'" "imports_continue db db'" "stored_import rt p db = Some i"
  shows "\<exists>j. stored_import rt p db' = Some j \<and> import_continues i j"
proof -
  from assms(3) obtain f new where f: "pd_import db' = map f (pd_import db) @ new"
    "\<And>x. x \<in> set (pd_import db) \<Longrightarrow> row_continues x (f x)" by (auto simp: imports_continue_def)
  from assms(4) obtain x where x: "find_row (\<lambda>r. im_project_id r = p) (pd_import db) = Some x"
    "parseNativeProjectRootImportRow rt x = Some i" by (auto simp: stored_import_def bind_eq_Some_conv)
  have fx: "find_row (\<lambda>r. im_project_id r = p) (pd_import db') = Some (f x)"
    unfolding f(1) by (rule find_row_continues[OF x(1)]) (use f(2) in \<open>auto simp: row_continues_def\<close>)
  have m: "x \<in> set (pd_import db)" "f x \<in> set (pd_import db')" using find_row_Some[OF x(1)] find_row_Some[OF fx] by auto
  then obtain j where j: "parseNativeProjectRootImportRow rt (f x) = Some j"
    using assms(2) by (auto simp: project_inv_def project_rows_def)
  have "import_continues i j" using f(2)[OF m(1)] x(2) j
    by (auto simp: import_continues_def row_continues_def parse_import_fields)
  with fx j show ?thesis by (auto simp: stored_import_def)
qed

text \<open>C25: An import only moves forward. Whatever the operations do from a database that they reach, the import of a
  Project stays the import of that Project: its owner, generation, nonce, protected reference, expected commit and
  policy digest never change, the bundle digest, the bundle size and the resolved tree change at most once, from absent
  to present, and the phase never moves back.\<close>

theorem imports_only_move_forward:
  assumes "reach project_init (project_step rt) db" "(project_step rt)\<^sup>*\<^sup>* db db'" "stored_import rt p db = Some i"
  shows "\<exists>j. stored_import rt p db' = Some j \<and> import_continues i j"
  using assms(2)
proof (induction rule: rtranclp_induct)
  case base
  with assms(3) show ?case by (auto simp: import_continues_def set_once_def)
next
  case (step db1 db2)
  then obtain j where j: "stored_import rt p db1 = Some j" "import_continues i j" by blast
  have inv: "project_inv rt db1" "project_inv rt db2"
    using step(1,2) rtranclp_reach[OF _ assms(1)] by (blast intro: project_machine.reachable_inv rtranclp.rtrancl_into_rtrancl)+
  from continued_import[OF inv step_continues[OF step(2) inv(1)] j(1)] j(2) show ?case
    by (blast intro: import_continues_trans)
qed

theorem imports_only_move_forward_witness:
  "stored_import demo_prt ''alpha'' demo_claimed \<noteq> None
   \<and> (\<exists>j. stored_import demo_prt ''alpha'' demo_imported = Some j \<and> ni_importNonce j = demo_nonce \<and> ni_expectedCommit j = demo_head)"
proof -
  have "map_option (\<lambda>i. (ni_importNonce i, ni_expectedCommit i)) (stored_import demo_prt ''alpha'' demo_claimed) = Some (demo_nonce, demo_head)"
    by code_simp
  then obtain i where i: "stored_import demo_prt ''alpha'' demo_claimed = Some i" "ni_importNonce i = demo_nonce"
    "ni_expectedCommit i = demo_head" by auto
  from imports_only_move_forward[OF demo_claimed_reachable demo_import_run i(1)] i show ?thesis
    by (auto simp: import_continues_def)
qed

section \<open>Values\<close>

lemma demo_stored: "stored_import demo_prt ''alpha'' demo_imported = Some demo_native_import"
proof -
  have "project_inv demo_prt demo_imported" by (rule project_machine.reachable_inv[OF demo_imported_reachable])
  then obtain ims where "readNativeProjectRootImportsFromDatabase demo_prt demo_imported = Inr ims"
    "\<And>p. find_row (\<lambda>i. ni_projectId i = p) ims = stored_import demo_prt p demo_imported"
    unfolding project_inv_def by (blast intro: read_imports)
  with demo_reads(2) have "find_row (\<lambda>i. ni_projectId i = ''alpha'') [demo_native_import] = stored_import demo_prt ''alpha'' demo_imported"
    by simp
  then show ?thesis by (simp add: demo_native_import_def)
qed

lemma stored_import_parsed:
  assumes "project_inv rt db" "stored_import rt p db = Some i"
  obtains row where "row \<in> set (pd_import db)" "im_project_id row = p" "parseNativeProjectRootImportRow rt row = Some i"
  using assms(2) by (auto simp: stored_import_def bind_eq_Some_conv dest: find_row_Some intro: that)

fun stored_policy_valid :: "project_runtime \<Rightarrow> import_phase \<Rightarrow> StoredImportedRootPolicy \<Rightarrow> bool" where
  "stored_policy_valid rt phase (AuthoritativeV1 p) = policy_valid rt p"
| "stored_policy_valid rt phase (LegacyImportOnly p) = (phase = RootImported)"



text \<open>C39: The sequence of a protected head stays a safe integer. In every database that the operations reach, the
  sequence of the head of a Project is the number of its finalised transitions, and it is at most the largest integer
  that a JavaScript number represents exactly, so that the next sequence is never a rounded one.\<close>

theorem head_sequence_is_bounded:
  assumes "reach project_init (project_step rt) db" "head_of rt p db = Inr h"
  shows "\<exists>ts. readNativeProjectRootPromotionFinalized rt (Some p) db = Inr ts \<and> ch_sequence h = int (length ts)
    \<and> 0 \<le> ch_sequence h \<and> ch_sequence h \<le> 9007199254740991"
proof -
  have inv: "project_inv rt db" using assms(1) by (rule project_machine.reachable_inv)
  from assms(2) obtain imported ts h0 where h: "selectTransitions rt (pd_finalized db) (Some p) = Inr ts"
    "initialHead imported = Inr h0" "fold_head imported (generations db) h0 ts = Inr h"
    by (auto simp: head_of_def foldCurrentHead_def bindR_eq_Inr)
  have n: "ch_sequence h = int (length ts)"
    using fold_head_sequence[OF h(3)] h(2) by (auto simp: initialHead_def split: if_split_asm)
  have "int (length ts) \<le> 9007199254740991"
  proof (cases "length ts")
    case (Suc m)
    then have m: "ts ! m \<in> set ts" by simp
    then obtain row where "parseNativeProjectRootPromotionRow rt row = Some (ts ! m)" using select_set[OF h(1)] by auto
    then have "pt_sequence (ts ! m) \<le> 9007199254740991"
      using parse_transition_fields(2)
      by (fastforce simp: parseNativeProjectRootPromotionRow_def opt_conv Let_def transition_row_ok_def)
    moreover from fold_head_nth[OF h(3), of m] Suc obtain c where "next_transition imported c (ts ! m) (generations db)"
      "ch_sequence c = ch_sequence h0 + int m" by auto
    ultimately show ?thesis using Suc h(2) by (auto simp: next_transition_def initialHead_def split: if_split_asm)
  qed simp
  moreover have "readNativeProjectRootPromotionFinalized rt (Some p) db = Inr ts"
    using h(1) inv by (auto simp: readNativeProjectRootPromotionFinalized_def assertAllTransitionsVerified_def bindR_eq_Inr
        project_inv_def project_rows_def transition_stored_def list_all_iff)
  ultimately show ?thesis using n by simp
qed

theorem head_sequence_is_bounded_witness:
  "\<exists>h. head_of demo_prt ''alpha'' demo_finished = Inr h \<and> ch_sequence h = 1 \<and> ch_sequence h \<le> 9007199254740991"
proof -
  have "bindR (head_of demo_prt ''alpha'' demo_finished) (\<lambda>h. Inr (ch_sequence h)) = Inr 1" by code_simp
  then obtain h where h: "head_of demo_prt ''alpha'' demo_finished = Inr h" "ch_sequence h = 1" by (auto simp: bindR_eq_Inr)
  from head_sequence_is_bounded[OF demo_finished_reachable h(1)] h show ?thesis by auto
qed

text \<open>The stored form of a policy is a fixed point. The policy that the parser makes of a value is written in a form
  from which the parser gives the same policy, two policies with the same written form are equal, and so a policy
  has one written form and one digest.\<close>

theorem policy_reparses_to_itself:
  assumes "parseAuthoritativeImportedRootPolicy rt v = Some p" "parseAuthoritativeImportedRootPolicy rt w = Some q"
  shows "parseAuthoritativeImportedRootPolicy rt (policy_json p) = Some p \<and> (policy_json p = policy_json q \<longleftrightarrow> p = q)"
  using policy_codec.reparse[OF assms(1)] policy_codec.encode_inj[OF policy_codec.decode_valid[OF assms(1)]
      policy_codec.decode_valid[OF assms(2)]] by blast

theorem policy_reparses_to_itself_witness:
  "parseAuthoritativeImportedRootPolicy demo_prt (policy_json demo_policy) = Some demo_policy"
proof -
  have "parseAuthoritativeImportedRootPolicy demo_prt (policy_json demo_policy) = Some demo_policy" by code_simp
  from policy_reparses_to_itself[OF this this] show ?thesis by blast
qed

end
