(* ===== verification/Reviewer_Service.thy ===== *)
theory Reviewer_Service
  imports Project_Safety
begin

text \<open>
  The HTTP service of the human reviewers (\<open>native-human-reviewer-http.ts\<close>, \<open>native-human-reviewer-status.ts\<close>,
  \<open>native-bundle-http.ts\<close>): routes, authentication, the inspection of the exact review of a request, approvals,
  revocations and the resolution of the current review of a proposal. What a request observes while it is
  served, the database, the stored reviews, the state of the repository and the clock, is an input. Requests that change
  the decisions run one after the other (\<open>serialize\<close>), so that the decision store is passed from one to the next.
\<close>

section \<open>Requests and replies\<close>

text \<open>\<open>vq_json\<close> is the value of the body as \<open>JSON.parse\<close> reads it, if it is well-formed.\<close>

record reviewer_request =
  vq_method :: string
  vq_pathname :: string
  vq_search :: string
  vq_authorization :: "string option"
  vq_generation_id :: "string option"
  vq_content_type :: "string option"
  vq_body_bytes :: nat
  vq_json :: "json option"

datatype reviewer_reply = NotHandled | Replied int json | Threw

definition error_reply :: "int \<Rightarrow> string \<Rightarrow> reviewer_reply" where
  "error_reply status message = Replied status (JObj [(''error'', JStr message)])"

definition sendNotFound :: reviewer_reply where
  "sendNotFound = error_reply 404 ''not found''"

definition readBoundedJson :: "reviewer_request \<Rightarrow> json option" where
  "readBoundedJson request =
     (if vq_content_type request \<noteq> Some ''application/json'' \<or> vq_body_bytes request > 4096 then None else vq_json request)"

record HumanReviewer =
  hr_username :: string
  hr_password :: string
  hr_reviewerId :: string

definition basicAuthorized :: "reviewer_request \<Rightarrow> string \<Rightarrow> string \<Rightarrow> bool" where
  "basicAuthorized request username password \<longleftrightarrow>
     (case vq_authorization request of None \<Rightarrow> [] | Some a \<Rightarrow> a) = ''Basic '' @ base64 (username @ '':'' @ password)"

definition approvalRequestSchema :: "project_runtime \<Rightarrow> json \<Rightarrow> string option" where
  "approvalRequestSchema rt v = do {
     guardO (exact v [''requestId'']);
     requestId \<leftarrow> as_string (get_field v ''requestId'');
     guardO (zod_uuid rt requestId);
     Some requestId }"

definition revocationRequestSchema :: "json \<Rightarrow> string option" where
  "revocationRequestSchema v = do { guardO (exact v [''approvalId'']); as_matching hex64Pattern (get_field v ''approvalId'') }"

definition resolveRequestSchema :: "json \<Rightarrow> string option" where
  "resolveRequestSchema v = do {
     guardO (exact v [''schemaVersion'', ''proposalRef'']);
     as_literal (JInt 1) (get_field v ''schemaVersion'');
     proposal \<leftarrow> as_string (get_field v ''proposalRef'');
     guardO (1 \<le> length proposal \<and> length proposal \<le> 1024);
     Some proposal }"

section \<open>Status\<close>

definition nativeHumanReviewStatus :: "string list \<Rightarrow> string list \<Rightarrow> AuthoritativeNativeDecisions \<Rightarrow> string" where
  "nativeHumanReviewStatus requiredReviewerIds staleReasons decisions =
     (if staleReasons \<noteq> [] then ''stale''
      else if list_all (\<lambda>r. r \<in> set (map aa_reviewerId (dc_activeApprovals decisions))) requiredReviewerIds then ''approved''
      else if dc_revocations decisions \<noteq> [] then ''revoked'' else ''pending'')"

definition approval_record_json :: "AuthoritativeNativeApproval \<Rightarrow> json" where
  "approval_record_json a = JObj (members (approval_identity a) @ [(''recordDigest'', JStr (aa_recordDigest a))])"

definition revocation_record_json :: "AuthoritativeNativeRevocation \<Rightarrow> json" where
  "revocation_record_json r = JObj (members (revocation_identity r) @ [(''recordDigest'', JStr (ar_recordDigest r))])"

definition envelope_json :: "AuthoritativeNativeReviewEnvelope \<Rightarrow> json" where
  "envelope_json e = JObj [(''schemaVersion'', JInt 2), (''envelopeId'', JStr (en_envelopeId e)),
     (''review'', JObj (members (identity_json (en_review e)) @ [(''reviewId'', JStr (rv_reviewId (en_review e))),
       (''createdAt'', JStr (rv_createdAt (en_review e)))])),
     (''qualityRevision'', JStr (en_qualityRevision e)), (''policyDigest'', JStr (en_policyDigest e)),
     (''requiredJobs'', JArr (map review_job_json (en_requiredJobs e))), (''planning'', planning_json (en_planning e)),
     (''events'', JArr (map review_event_json (en_events e)))]"

definition status_members :: "string \<Rightarrow> string list \<Rightarrow> (string \<times> json) list" where
  "status_members status staleReasons = [(''status'', JStr status), (''staleReasons'', JArr (map JStr staleReasons))]"

section \<open>The review of a request\<close>

text \<open>What one inspection of a review observes, in the order in which it reads: the database, the database when
  the target is resolved, the stored reviews, the repository, and the second resolution of the target.\<close>

record inspection =
  ix_runtime :: service_runtime
  ix_db :: project_db
  ix_db_resolved :: project_db
  ix_reviews :: "AuthoritativeNativeReviewEnvelope list"
  ix_freshness :: freshness_io
  ix_runtime_again :: service_runtime
  ix_db_again :: project_db
  ix_db_confirmed :: project_db

record ExactReview =
  xr_target :: AuthoritativeNativeRootTarget
  xr_envelope :: AuthoritativeNativeReviewEnvelope
  xr_staleReasons :: "string list"

definition unavailable_proof :: reviewer_reply where
  "unavailable_proof = error_reply 503 ''human review proof is unavailable''"

text \<open>A stored review is of the repository \<open>root\<close>, and the target of the second resolution is compared as a value.\<close>

definition inspectExactReview ::
  "project_runtime \<Rightarrow> inspection \<Rightarrow> reviewer_request \<Rightarrow> HumanReviewer \<Rightarrow> string \<Rightarrow> string \<Rightarrow> (reviewer_reply, ExactReview) result" where
  "inspectExactReview rt io request reviewer projectId reviewId =
     (case readNativeProjectRegistrationsFromDatabase rt (ix_db io) of
        Inl _ \<Rightarrow> Inl Threw
      | Inr registrations \<Rightarrow>
     if \<not> list_ex (\<lambda>r. re_projectId r = projectId) registrations then Inl sendNotFound
     else if vq_generation_id request \<noteq> Some (sr_expectedGenerationId (ix_runtime io))
     then Inl (error_reply 409 ''review generation conflicts with service startup'')
     else if assertActive (ix_runtime io) (ix_db io) \<noteq> Inr () then Inl unavailable_proof
     else case resolveAuthoritativeNativeRootTarget rt (ix_runtime io) projectId (ix_db io) (ix_db_resolved io) of
        Inl _ \<Rightarrow> Inl unavailable_proof
      | Inr target \<Rightarrow> (case readAuthoritativeNativeReviewEnvelope (ix_reviews io) reviewId of
          None \<Rightarrow> Inl sendNotFound
        | Some envelope \<Rightarrow>
            if rv_projectId (en_review envelope) \<noteq> projectId then Inl sendNotFound
            else if hr_reviewerId reviewer \<notin> set (rv_requiredReviewerIds (en_review envelope))
            then Inl (error_reply 403 ''reviewer is not required for this review'')
            else
              let staleReasons = nativeHumanReviewStaleReasons (ix_freshness io) target (en_review envelope) in
              if resolveAuthoritativeNativeRootTarget rt (ix_runtime_again io) projectId (ix_db_again io) (ix_db_confirmed io)
                  \<noteq> Inr target
              then Inl unavailable_proof
              else Inr \<lparr>xr_target = target, xr_envelope = envelope, xr_staleReasons = first_occurrences staleReasons\<rparr>))"

section \<open>Handlers\<close>

text \<open>The inputs of a request: the first inspection and, after an approval has been stored, the second one; the outcome
  of the hook before publication; the clock; and for the resolution of a proposal the state of the repository when each
  candidate is inspected.\<close>

record reviewer_io =
  vi_first :: inspection
  vi_second :: inspection
  vi_hook_fails :: bool
  vi_now :: string
  vi_candidate :: "AuthoritativeNativeReviewEnvelope \<Rightarrow> freshness_io"

definition review_status :: "inspection \<Rightarrow> string \<Rightarrow> ExactReview \<Rightarrow> decision_store \<Rightarrow> (string \<times> AuthoritativeNativeDecisions) option" where
  "review_status io reviewId selected store =
     (case readAuthoritativeNativeDecisions (required_of (ix_reviews io)) store (Some reviewId) of
        Inl _ \<Rightarrow> None
      | Inr decisions \<Rightarrow> Some (nativeHumanReviewStatus (rv_requiredReviewerIds (en_review (xr_envelope selected)))
          (xr_staleReasons selected) decisions, decisions))"

definition serveExactReview ::
  "project_runtime \<Rightarrow> reviewer_io \<Rightarrow> reviewer_request \<Rightarrow> HumanReviewer \<Rightarrow> string \<Rightarrow> string \<Rightarrow> decision_store \<Rightarrow> reviewer_reply" where
  "serveExactReview rt io request reviewer projectId reviewId store =
     (case inspectExactReview rt (vi_first io) request reviewer projectId reviewId of
        Inl reply \<Rightarrow> reply
      | Inr selected \<Rightarrow> (case review_status (vi_first io) reviewId selected store of
          None \<Rightarrow> Threw
        | Some (status, decisions) \<Rightarrow> Replied 200 (JObj (status_members status (xr_staleReasons selected)
            @ members (envelope_json (xr_envelope selected))
            @ [(''approvals'', JArr (map approval_record_json (dc_approvals decisions))),
               (''revocations'', JArr (map revocation_record_json (dc_revocations decisions)))]))))"

definition approveExactReview ::
  "project_runtime \<Rightarrow> reviewer_io \<Rightarrow> reviewer_request \<Rightarrow> HumanReviewer \<Rightarrow> string \<Rightarrow> string \<Rightarrow> decision_store \<Rightarrow>
     reviewer_reply \<times> decision_store" where
  "approveExactReview rt io request reviewer projectId reviewId store =
     (case Option.bind (readBoundedJson request) (approvalRequestSchema rt) of
        None \<Rightarrow> (error_reply 400 ''approval request is invalid'', store)
      | Some requestId \<Rightarrow> (case inspectExactReview rt (vi_first io) request reviewer projectId reviewId of
          Inl reply \<Rightarrow> (reply, store)
        | Inr selected \<Rightarrow>
            if xr_staleReasons selected \<noteq> [] then (error_reply 409 ''review is stale'', store)
            else if vi_hook_fails io then (Threw, store)
            else (case approveAuthoritativeNativeReview rt (required_of (ix_reviews (vi_first io))) reviewId
                (hr_reviewerId reviewer) requestId (vi_now io) store of
              Inl AlreadyApproved \<Rightarrow> (error_reply 409 ''reviewer already approved this review with another request'', store)
            | Inl ApprovalConflict \<Rightarrow> (error_reply 409 ''approval identity conflicts with durable evidence'', store)
            | Inl _ \<Rightarrow> (Threw, store)
            | Inr ((approval, created), saved) \<Rightarrow>
                (case inspectExactReview rt (vi_second io) request reviewer projectId reviewId of
                   Inl reply \<Rightarrow> (reply, saved)
                 | Inr confirmed \<Rightarrow> (case review_status (vi_second io) reviewId confirmed saved of
                     None \<Rightarrow> (Threw, saved)
                   | Some (status, _) \<Rightarrow> (Replied (if created then 201 else 200)
                       (JObj (members (approval_record_json approval) @ status_members status (xr_staleReasons confirmed))), saved))))))"

definition revokeExactApproval ::
  "project_runtime \<Rightarrow> reviewer_io \<Rightarrow> reviewer_request \<Rightarrow> HumanReviewer \<Rightarrow> string \<Rightarrow> string \<Rightarrow> decision_store \<Rightarrow>
     reviewer_reply \<times> decision_store" where
  "revokeExactApproval rt io request reviewer projectId reviewId store =
     (case Option.bind (readBoundedJson request) revocationRequestSchema of
        None \<Rightarrow> (error_reply 400 ''revocation request is invalid'', store)
      | Some approvalId \<Rightarrow> (case inspectExactReview rt (vi_first io) request reviewer projectId reviewId of
          Inl reply \<Rightarrow> (reply, store)
        | Inr selected \<Rightarrow> (case revokeAuthoritativeNativeApproval rt (required_of (ix_reviews (vi_first io))) reviewId
              (hr_reviewerId reviewer) approvalId (vi_now io) store of
            Inl DecisionNotFound \<Rightarrow> (sendNotFound, store)
          | Inl DecisionForbidden \<Rightarrow> (error_reply 403 (''reviewer cannot revoke another reviewer'' @ [CHR 0x27] @ ''s approval''), store)
          | Inl _ \<Rightarrow> (Threw, store)
          | Inr ((revocation, created), saved) \<Rightarrow> (case review_status (vi_first io) reviewId selected saved of
              None \<Rightarrow> (Threw, saved)
            | Some (status, _) \<Rightarrow> (Replied (if created then 201 else 200)
                (JObj (members (revocation_record_json revocation) @ status_members status (xr_staleReasons selected))), saved)))))"

text \<open>The newest envelope of the proposal that is not stale is the current one. Envelopes are tried in descending
  order of their creation, those created together in the order of their files.\<close>

fun current_envelope ::
  "(AuthoritativeNativeReviewEnvelope \<Rightarrow> freshness_io) \<Rightarrow> AuthoritativeNativeRootTarget \<Rightarrow> HumanReviewer \<Rightarrow>
     AuthoritativeNativeReviewEnvelope list \<Rightarrow> reviewer_reply" where
  "current_envelope candidate target reviewer [] = sendNotFound"
| "current_envelope candidate target reviewer (envelope # envelopes) =
     (if nativeHumanReviewStaleReasons (candidate envelope) target (en_review envelope) \<noteq> []
      then current_envelope candidate target reviewer envelopes
      else if hr_reviewerId reviewer \<notin> set (rv_requiredReviewerIds (en_review envelope))
      then error_reply 403 ''reviewer is not required for this review''
      else Replied 200 (envelope_json envelope))"

definition newest_first :: "AuthoritativeNativeReviewEnvelope list \<Rightarrow> AuthoritativeNativeReviewEnvelope list" where
  "newest_first envelopes = rev (sort_key (\<lambda>e. rv_createdAt (en_review e)) (rev envelopes))"

definition resolveCurrentEnvelope ::
  "project_runtime \<Rightarrow> reviewer_io \<Rightarrow> reviewer_request \<Rightarrow> HumanReviewer \<Rightarrow> string \<Rightarrow> reviewer_reply" where
  "resolveCurrentEnvelope rt io request reviewer projectId =
     (case Option.bind (readBoundedJson request) resolveRequestSchema of
        None \<Rightarrow> error_reply 400 ''review resolution request is invalid''
      | Some proposal \<Rightarrow>
          let ix = vi_first io in
          if vq_generation_id request \<noteq> Some (sr_expectedGenerationId (ix_runtime ix))
          then error_reply 409 ''review generation conflicts with service startup''
          else if assertActive (ix_runtime ix) (ix_db ix) \<noteq> Inr () then unavailable_proof
          else case resolveAuthoritativeNativeRootTarget rt (ix_runtime ix) projectId (ix_db ix) (ix_db_resolved ix) of
            Inl _ \<Rightarrow> sendNotFound
          | Inr target \<Rightarrow> current_envelope (vi_candidate io) target reviewer
              (newest_first (filter (\<lambda>e. rv_projectId (en_review e) = projectId \<and> rv_proposalRef (en_review e) = proposal
                 \<and> en_policyDigest e = ni_policyDigest (gt_imported target)
                 \<and> en_qualityRevision e = ip_requiredJobSetRevision (gt_policy target)) (ix_reviews ix))))"

section \<open>Routes\<close>

datatype reviewer_route =
    IdentityRoute | ResolveRoute string | ReviewRoute string string | ApprovalRoute string string | RevocationRoute string string

text \<open>The paths \<open>/v1/projects/:id/repositories/root/reviews/...\<close> of the three patterns.\<close>

definition reviews_path :: "string \<Rightarrow> (string \<times> string list) option" where
  "reviews_path path =
     (case split_on CHR ''/'' path of
        [] # a # b # projectId # c # d # e # rest \<Rightarrow>
          if a = ''v1'' \<and> b = ''projects'' \<and> c = ''repositories'' \<and> d = ''root'' \<and> e = ''reviews''
            \<and> matches projectPattern projectId then Some (projectId, rest) else None
      | _ \<Rightarrow> None)"

definition route_of :: "reviewer_request \<Rightarrow> reviewer_route option" where
  "route_of request =
     (if vq_search request \<noteq> [] then None
      else if vq_method request = ''GET'' \<and> vq_pathname request = ''/v1/human-reviewer-identity'' then Some IdentityRoute
      else case reviews_path (vq_pathname request) of
        None \<Rightarrow> None
      | Some (projectId, [reviewId]) \<Rightarrow>
          if vq_method request = ''POST'' \<and> reviewId = ''resolve'' then Some (ResolveRoute projectId)
          else if vq_method request = ''GET'' \<and> matches hex64Pattern reviewId then Some (ReviewRoute projectId reviewId)
          else None
      | Some (projectId, [reviewId, action]) \<Rightarrow>
          if vq_method request = ''POST'' \<and> matches hex64Pattern reviewId \<and> action = ''approvals''
          then Some (ApprovalRoute projectId reviewId)
          else if vq_method request = ''POST'' \<and> matches hex64Pattern reviewId \<and> action = ''revocations''
          then Some (RevocationRoute projectId reviewId)
          else None
      | Some _ \<Rightarrow> None)"

record reviewer_config =
  vc_humanReviewers :: "HumanReviewer list"
  vc_knownCredentials :: "(string \<times> string) list"

definition authenticatedReviewer :: "reviewer_config \<Rightarrow> reviewer_request \<Rightarrow> HumanReviewer option" where
  "authenticatedReviewer config request =
     find_row (\<lambda>r. basicAuthorized request (hr_username r) (hr_password r)) (vc_humanReviewers config)"

definition refused :: "reviewer_config \<Rightarrow> reviewer_request \<Rightarrow> reviewer_reply" where
  "refused config request =
     (if list_ex (\<lambda>(username, password). basicAuthorized request username password) (vc_knownCredentials config)
      then error_reply 403 ''forbidden'' else error_reply 401 ''unauthorized'')"

definition identity_reply :: "service_runtime \<Rightarrow> HumanReviewer \<Rightarrow> reviewer_reply" where
  "identity_reply sr reviewer = Replied 200 (JObj [(''schemaVersion'', JInt 1), (''serviceId'', JStr ''native-main''),
     (''role'', JStr ''human-reviewer''), (''reviewerId'', JStr (hr_reviewerId reviewer)),
     (''generationId'', JStr (sr_expectedGenerationId sr))])"

definition handleHumanReview ::
  "project_runtime \<Rightarrow> reviewer_config \<Rightarrow> reviewer_io \<Rightarrow> reviewer_request \<Rightarrow> decision_store \<Rightarrow> reviewer_reply \<times> decision_store" where
  "handleHumanReview rt config io request store =
     (case route_of request of
        None \<Rightarrow> (NotHandled, store)
      | Some route \<Rightarrow> (case authenticatedReviewer config request of
          None \<Rightarrow> (refused config request, store)
        | Some reviewer \<Rightarrow> (case route of
            IdentityRoute \<Rightarrow> (identity_reply (ix_runtime (vi_first io)) reviewer, store)
          | ResolveRoute projectId \<Rightarrow> (resolveCurrentEnvelope rt io request reviewer projectId, store)
          | ReviewRoute projectId reviewId \<Rightarrow> (serveExactReview rt io request reviewer projectId reviewId store, store)
          | ApprovalRoute projectId reviewId \<Rightarrow> approveExactReview rt io request reviewer projectId reviewId store
          | RevocationRoute projectId reviewId \<Rightarrow> revokeExactApproval rt io request reviewer projectId reviewId store)))"

section \<open>What a request may do\<close>

lemma inspected_review:
  assumes "inspectExactReview rt io request reviewer p v = Inr selected"
  shows "readAuthoritativeNativeReviewEnvelope (ix_reviews io) v = Some (xr_envelope selected)"
    "rv_projectId (en_review (xr_envelope selected)) = p"
    "hr_reviewerId reviewer \<in> set (rv_requiredReviewerIds (en_review (xr_envelope selected)))"
    "resolveAuthoritativeNativeRootTarget rt (ix_runtime io) p (ix_db io) (ix_db_resolved io) = Inr (xr_target selected)"
    "vq_generation_id request = Some (sr_expectedGenerationId (ix_runtime io))"
    "xr_staleReasons selected = first_occurrences
       (nativeHumanReviewStaleReasons (ix_freshness io) (xr_target selected) (en_review (xr_envelope selected)))"
  using assms by (auto simp: inspectExactReview_def Let_def split: sum.split_asm option.split_asm if_split_asm)

lemma approve_request:
  assumes "approveExactReview rt io request reviewer p v store = (reply, store')" "store' \<noteq> store"
  obtains selected requestId out where "inspectExactReview rt (vi_first io) request reviewer p v = Inr selected"
    "xr_staleReasons selected = []"
    "approveAuthoritativeNativeReview rt (required_of (ix_reviews (vi_first io))) v (hr_reviewerId reviewer) requestId (vi_now io) store
       = Inr (out, store')"
proof -
  from assms obtain requestId selected where s: "Option.bind (readBoundedJson request) (approvalRequestSchema rt) = Some requestId"
    "inspectExactReview rt (vi_first io) request reviewer p v = Inr selected" "xr_staleReasons selected = []" "\<not> vi_hook_fails io"
    by (auto simp: approveExactReview_def split: option.split_asm sum.split_asm if_split_asm)
  let ?r = "approveAuthoritativeNativeReview rt (required_of (ix_reviews (vi_first io))) v (hr_reviewerId reviewer) requestId (vi_now io) store"
  obtain out saved where "?r = Inr (out, saved)"
    using assms s by (cases ?r) (auto simp: approveExactReview_def split: decision_error.split_asm)
  moreover from this have "saved = store'"
    using assms(1) s by (auto simp: approveExactReview_def split: prod.split_asm sum.split_asm option.split_asm)
  ultimately show thesis using that s by blast
qed

lemma revoke_request:
  assumes "revokeExactApproval rt io request reviewer p v store = (reply, store')" "store' \<noteq> store"
  obtains selected approvalId out where "inspectExactReview rt (vi_first io) request reviewer p v = Inr selected"
    "revokeAuthoritativeNativeApproval rt (required_of (ix_reviews (vi_first io))) v (hr_reviewerId reviewer) approvalId (vi_now io) store
       = Inr (out, store')"
proof -
  from assms obtain approvalId selected where s: "Option.bind (readBoundedJson request) revocationRequestSchema = Some approvalId"
    "inspectExactReview rt (vi_first io) request reviewer p v = Inr selected"
    by (auto simp: revokeExactApproval_def split: option.split_asm sum.split_asm)
  let ?r = "revokeAuthoritativeNativeApproval rt (required_of (ix_reviews (vi_first io))) v (hr_reviewerId reviewer) approvalId (vi_now io) store"
  obtain out saved where "?r = Inr (out, saved)"
    using assms s by (cases ?r) (auto simp: revokeExactApproval_def split: decision_error.split_asm)
  moreover from this have "saved = store'"
    using assms(1) s by (auto simp: revokeExactApproval_def split: prod.split_asm option.split_asm)
  ultimately show thesis using that s by blast
qed

lemma required_of_inspected:
  assumes "inspectExactReview rt io request reviewer p v = Inr selected"
  shows "required_of (ix_reviews io) v = Some (rv_requiredReviewerIds (en_review (xr_envelope selected)))"
  using inspected_review(1)[OF assms] by (simp add: required_of_def)

lemma changing_request:
  assumes "handleHumanReview rt config io request store = (reply, store')" "store' \<noteq> store"
  obtains reviewer p v where "reviewer \<in> set (vc_humanReviewers config)"
    "basicAuthorized request (hr_username reviewer) (hr_password reviewer)"
    "(route_of request = Some (ApprovalRoute p v) \<and> approveExactReview rt io request reviewer p v store = (reply, store'))
     \<or> (route_of request = Some (RevocationRoute p v) \<and> revokeExactApproval rt io request reviewer p v store = (reply, store'))"
proof -
  from assms obtain route reviewer where r: "route_of request = Some route" "authenticatedReviewer config request = Some reviewer"
    by (auto simp: handleHumanReview_def split: option.split_asm)
  then have "reviewer \<in> set (vc_humanReviewers config)" "basicAuthorized request (hr_username reviewer) (hr_password reviewer)"
    by (auto simp: authenticatedReviewer_def dest: find_row_Some)
  with that r assms show thesis by (cases route) (auto simp: handleHumanReview_def)
qed


end
