(* ===== verification/Review_History.thy ===== *)
theory Review_History
  imports Project_Examples Reviewer_Service
begin

text \<open>
  The history of the decisions about a review: what the stores of approvals and revocations hold after any
  sequence of approvals and revocations, and that a decision is never taken back or forgotten.
\<close>

section \<open>What is read\<close>


section \<open>What is kept\<close>

lemma approve_keeps:
  assumes "decisions_inv reviews store"
    "approveAuthoritativeNativeReview rt reviews reviewId reviewerId requestId now store = Inr (out, store')"
  shows "set (ds_approvals store) \<subseteq> set (ds_approvals store') \<and> ds_revocations store' = ds_revocations store"
proof (cases "store' = store")
  case False
  from approve_effect[OF assms False] obtain a where
    "store' = store\<lparr>ds_approvals := insort_key aa_approvalId a (ds_approvals store)\<rparr>" by blast
  then show ?thesis by (auto simp: set_insort_key)
qed simp

lemma revoke_keeps:
  assumes "decisions_inv reviews store"
    "revokeAuthoritativeNativeApproval rt reviews reviewId reviewerId approvalId now store = Inr (out, store')"
  shows "ds_approvals store' = ds_approvals store \<and> set (ds_revocations store) \<subseteq> set (ds_revocations store')"
proof (cases "store' = store")
  case False
  from revoke_effect[OF assms False] obtain r where
    "store' = store\<lparr>ds_revocations := insort_key ar_revocationId r (ds_revocations store)\<rparr>" by blast
  then show ?thesis by (auto simp: set_insort_key)
qed simp

lemma step_keeps_decisions:
  assumes "decisions_inv reviews store" "decision_step rt reviews store store'"
  shows "set (ds_approvals store) \<subseteq> set (ds_approvals store') \<and> set (ds_revocations store) \<subseteq> set (ds_revocations store')"
  using assms(2) unfolding decision_step_def by (auto dest: approve_keeps[OF assms(1)] revoke_keeps[OF assms(1)])

text \<open>C31: A decision is final. Whatever is approved and revoked later, the records of approvals and revocations stay, and
  an approval that has been revoked is never again among the active approvals of any review.\<close>

theorem revoked_approval_never_counts_again:
  assumes "reach decision_init (decision_step rt reviews) store" "(decision_step rt reviews)\<^sup>*\<^sup>* store store'"
    "r \<in> set (ds_revocations store)"
  shows "set (ds_approvals store) \<subseteq> set (ds_approvals store') \<and> set (ds_revocations store) \<subseteq> set (ds_revocations store')
    \<and> (\<exists>decisions. readAuthoritativeNativeDecisions reviews store' v = Inr decisions
         \<and> ar_approvalId r \<notin> aa_approvalId ` set (dc_activeApprovals decisions))"
proof -
  from assms(2) have k: "set (ds_approvals store) \<subseteq> set (ds_approvals store') \<and> set (ds_revocations store) \<subseteq> set (ds_revocations store')"
  proof (induction rule: rtranclp_induct)
    case (step s s')
    have "decisions_inv reviews s" by (rule decisions.reachable_inv[OF rtranclp_reach[OF step(1) assms(1)]])
    from step_keeps_decisions[OF this step(2)] step(3) show ?case by blast
  qed simp
  have inv: "decisions_inv reviews store'" by (rule decisions.reachable_inv[OF rtranclp_reach[OF assms(2,1)]])
  have "ar_approvalId r \<in> ar_approvalId ` set (ds_revocations store')" using k assms(3) by blast
  then have "ar_approvalId r \<notin> aa_approvalId ` set (for_review v aa_reviewId
      (active_approvals (ds_approvals store') (ds_revocations store')))"
    by (auto simp: for_review_def active_approvals_def split: option.splits)
  with k show ?thesis by (simp add: decisions_readable[OF inv])
qed

section \<open>A reviewer at work\<close>

definition demo_reviewers :: reviewer_config where
  "demo_reviewers = \<lparr>vc_humanReviewers = [\<lparr>hr_username = ''ann'', hr_password = ''pw'', hr_reviewerId = ''ann''\<rparr>],
     vc_knownCredentials = []\<rparr>"

definition demo_inspection :: inspection where
  "demo_inspection = \<lparr>ix_runtime = demo_service_runtime, ix_db = demo_imported, ix_db_resolved = demo_imported,
     ix_reviews = [demo_envelope], ix_freshness = pv_freshness (demo_promotion False False),
     ix_runtime_again = demo_service_runtime, ix_db_again = demo_imported, ix_db_confirmed = demo_imported\<rparr>"

definition demo_reviewer_io :: reviewer_io where
  "demo_reviewer_io = \<lparr>vi_first = demo_inspection, vi_second = demo_inspection, vi_hook_fails = False,
     vi_now = ''2026-01-01T00:00:00.000Z'', vi_candidate = (\<lambda>_. pv_freshness (demo_promotion False False))\<rparr>"

definition demo_review_path :: "string \<Rightarrow> string" where
  "demo_review_path action = ''/v1/projects/alpha/repositories/root/reviews/'' @ demo_digest @ ''/'' @ action"

definition demo_review_request :: "string \<Rightarrow> json \<Rightarrow> reviewer_request" where
  "demo_review_request action body = \<lparr>vq_method = ''POST'', vq_pathname = demo_review_path action, vq_search = [],
     vq_authorization = Some (''Basic '' @ base64 (''ann'' @ '':'' @ ''pw'')), vq_generation_id = Some demo_generation,
     vq_content_type = Some ''application/json'', vq_body_bytes = 55, vq_json = Some body\<rparr>"

definition demo_undecided :: decision_store where
  "demo_undecided = \<lparr>ds_approvals = [], ds_revocations = []\<rparr>"

lemma demo_undecided_reachable: "reach decision_init (decision_step demo_prt reviews) demo_undecided"
  by (rule reach_init) (simp add: decision_init_def demo_undecided_def)

lemma demo_inspected:
  "inspectExactReview demo_prt demo_inspection (demo_review_request action body)
     \<lparr>hr_username = ''ann'', hr_password = ''pw'', hr_reviewerId = ''ann''\<rparr> ''alpha'' demo_digest
   = Inr \<lparr>xr_target = demo_target, xr_envelope = demo_envelope, xr_staleReasons = []\<rparr>"
proof -
  have e: "readAuthoritativeNativeReviewEnvelope [demo_envelope] demo_digest = Some demo_envelope" by code_simp
  have a: "assertActive demo_service_runtime demo_imported = Inr ()"
    using demo_reads(4) by (simp add: assertActive_def demo_service_runtime_def)
  have f: "re_projectId demo_native_registration = ''alpha''" "rv_projectId demo_review = ''alpha''"
    "rv_requiredReviewerIds demo_review = [''ann'']" "en_review demo_envelope = demo_review"
    "sr_expectedGenerationId demo_service_runtime = demo_generation"
    by (simp_all add: demo_native_registration_def demo_envelope_def demo_review_def demo_service_runtime_def)
  show ?thesis
    by (simp add: inspectExactReview_def demo_inspection_def demo_review_request_def demo_reads(1) demo_resolved e a f demo_fresh Let_def)
qed

lemma demo_approves:
  "approveAuthoritativeNativeReview demo_prt (required_of [demo_envelope]) demo_digest ''ann'' demo_nonce ''2026-01-01T00:00:00.000Z'' demo_undecided
   = Inr ((demo_approval, True), demo_decisions)"
proof -
  have c: "createAuthoritativeNativeApproval demo_prt demo_digest ''ann'' demo_nonce ''2026-01-01T00:00:00.000Z'' = Some demo_approval"
    by code_simp
  show ?thesis
    by (simp add: approveAuthoritativeNativeReview_def readAuthoritativeNativeDecisions_def readAuthoritativeNativeApprovals_def
        readAuthoritativeNativeRevocations_def demo_undecided_def for_review_def active_approvals_def saveAuthoritativeNativeApproval_def c
        demo_decisions_def Let_def)
qed

lemma demo_review_route: "route_of (demo_review_request ''approvals'' body) = Some (ApprovalRoute ''alpha'' demo_digest)"
proof -
  have "reviews_path (demo_review_path ''approvals'') = Some (''alpha'', [demo_digest, ''approvals''])" by code_simp
  then show ?thesis using demo_project_hex(1) by (simp add: route_of_def demo_review_request_def)
qed

lemma demo_approval_request:
  "\<exists>reply. handleHumanReview demo_prt demo_reviewers demo_reviewer_io
     (demo_review_request ''approvals'' (JObj [(''requestId'', JStr demo_nonce)])) demo_undecided = (reply, demo_decisions)"
proof -
  let ?q = "demo_review_request ''approvals'' (JObj [(''requestId'', JStr demo_nonce)])"
  have b: "Option.bind (readBoundedJson ?q) (approvalRequestSchema demo_prt) = Some demo_nonce"
    by (simp add: readBoundedJson_def demo_review_request_def approvalRequestSchema_def exact_def exact_keys_def has_own_def demo_prt_def)
  have r: "authenticatedReviewer demo_reviewers ?q = Some \<lparr>hr_username = ''ann'', hr_password = ''pw'', hr_reviewerId = ''ann''\<rparr>"
    by (simp add: authenticatedReviewer_def demo_reviewers_def basicAuthorized_def demo_review_request_def)
  have x: "ix_reviews demo_inspection = [demo_envelope]" by (simp add: demo_inspection_def)
  show ?thesis
    using demo_approves
    by (simp add: handleHumanReview_def demo_review_route r approveExactReview_def b demo_reviewer_io_def demo_inspected x
        split: option.split prod.split)
qed

lemma demo_undecided_differs: "demo_decisions \<noteq> demo_undecided"
  by (simp add: demo_decisions_def demo_undecided_def)


lemma demo_decided_reachable: "reach decision_init (decision_step demo_prt (required_of [demo_envelope])) demo_decisions"
proof -
  have "required_of [demo_envelope] demo_digest = Some [''ann'']" by code_simp
  then have "decision_step demo_prt (required_of [demo_envelope]) demo_undecided demo_decisions"
    unfolding decision_step_def using demo_approves by fastforce
  with demo_undecided_reachable show ?thesis by (rule reach_step)
qed


definition demo_revocation :: AuthoritativeNativeRevocation where
  "demo_revocation = \<lparr>ar_reviewId = demo_digest, ar_reviewerId = ''ann'', ar_approvalId = demo_digest, ar_revocationId = demo_digest,
     ar_revokedAt = ''2026-01-02T00:00:00.000Z'', ar_recordDigest = demo_digest\<rparr>"

definition demo_revoked :: decision_store where
  "demo_revoked = demo_decisions\<lparr>ds_revocations := [demo_revocation]\<rparr>"

lemma demo_revoked_reachable: "reach decision_init (decision_step demo_prt (required_of [demo_envelope])) demo_revoked"
proof -
  have "revokeAuthoritativeNativeApproval demo_prt (required_of [demo_envelope]) demo_digest ''ann'' demo_digest ''2026-01-02T00:00:00.000Z'' demo_decisions
    = Inr ((demo_revocation, True), demo_revoked)"
  proof -
    have c: "createAuthoritativeNativeRevocation demo_prt demo_digest ''ann'' demo_digest ''2026-01-02T00:00:00.000Z'' = Some demo_revocation"
      by code_simp
    show ?thesis
      by (simp add: revokeAuthoritativeNativeApproval_def decisions_readable[OF demo_decisions_inv])
        (simp add: readAuthoritativeNativeRevocations_def demo_decisions_def for_review_def saveAuthoritativeNativeRevocation_def c
          demo_revoked_def demo_approval_def)
  qed
  then have "decision_step demo_prt (required_of [demo_envelope]) demo_decisions demo_revoked" unfolding decision_step_def by blast
  with demo_decided_reachable show ?thesis by (rule reach_step)
qed

theorem revoked_approval_never_counts_again_witness:
  "ds_approvals demo_revoked = [demo_approval]
   \<and> (\<exists>decisions. readAuthoritativeNativeDecisions (required_of [demo_envelope]) demo_revoked None = Inr decisions
        \<and> demo_digest \<notin> aa_approvalId ` set (dc_activeApprovals decisions))"
  using revoked_approval_never_counts_again[OF demo_revoked_reachable rtranclp.rtrancl_refl, of demo_revocation None]
  by (auto simp: demo_revoked_def demo_decisions_def demo_revocation_def)

end
