(* ===== verification/Js_Parse.thy ===== *)
theory Js_Parse
  imports Js_Stringify
begin

text \<open>
  \<open>JSON.parse\<close> as a function on texts, and that it reads back what \<open>JSON.stringify\<close> writes. The
  parser is a recursive descent over the JSON grammar; its fuel is the length of the text, which is enough
  because every call it makes has consumed a character more than the fuel it has used. Of two members with the
  same name the later one counts. An integer literal is an exact integer; a literal with a fraction or an
  exponent is kept as it is written. An escape \<open>\uXXXX\<close> beyond the 8-bit code units of this development is
  outside the model and refuses the text.
\<close>

section \<open>The parser\<close>

definition white :: "char \<Rightarrow> bool" where
  "white c \<longleftrightarrow> c = CHR 0x20 \<or> c = CHR 0x09 \<or> c = CHR 0x0A \<or> c = CHR 0x0D"

definition skip_white :: "string \<Rightarrow> string" where
  "skip_white s = dropWhile white s"

definition hex_value :: "char \<Rightarrow> nat option" where
  "hex_value c = (if digit c then Some (of_char c - 48)
     else if CHR ''a'' \<le> c \<and> c \<le> CHR ''f'' then Some (of_char c - 87)
     else if CHR ''A'' \<le> c \<and> c \<le> CHR ''F'' then Some (of_char c - 55) else None)"

definition escapes :: "(char \<times> char) list" where
  "escapes = [(CHR 0x22, CHR 0x22), (CHR 0x5C, CHR 0x5C), (CHR 0x2F, CHR 0x2F), (CHR ''b'', CHR 0x08),
     (CHR ''f'', CHR 0x0C), (CHR ''n'', CHR 0x0A), (CHR ''r'', CHR 0x0D), (CHR ''t'', CHR 0x09)]"

definition unicode_escape :: "char \<Rightarrow> char \<Rightarrow> char \<Rightarrow> char \<Rightarrow> char option" where
  "unicode_escape a b c d = do {
     w \<leftarrow> hex_value a; x \<leftarrow> hex_value b; y \<leftarrow> hex_value c; z \<leftarrow> hex_value d;
     let n = ((w * 16 + x) * 16 + y) * 16 + z;
     guardO (n < 256);
     Some (char_of n) }"

text \<open>The rest of a string literal, after its opening quote: the string and what follows the literal.\<close>

fun unescape :: "string \<Rightarrow> (string \<times> string) option" where
  "unescape [] = None"
| "unescape (c # cs) =
     (if c = CHR 0x22 then Some ([], cs)
      else if c = CHR 0x5C then
        (case cs of
           [] \<Rightarrow> None
         | e # ds \<Rightarrow>
             if e = CHR ''u'' then
               (case ds of
                  w # x # y # z # es \<Rightarrow> do { u \<leftarrow> unicode_escape w x y z; (t, r) \<leftarrow> unescape es; Some (u # t, r) }
                | _ \<Rightarrow> None)
             else do { u \<leftarrow> map_of escapes e; (t, r) \<leftarrow> unescape ds; Some (u # t, r) })
      else if c < CHR 0x20 then None
      else do { (t, r) \<leftarrow> unescape cs; Some (c # t, r) })"

definition num_char :: "char \<Rightarrow> bool" where
  "num_char c \<longleftrightarrow> digit c \<or> c \<in> set ''+-.eE''"

definition nat_token :: "string \<Rightarrow> bool" where
  "nat_token s \<longleftrightarrow> s \<noteq> [] \<and> list_all digit s \<and> (hd s = CHR ''0'' \<longrightarrow> tl s = [])"

definition int_token :: "string \<Rightarrow> bool" where
  "int_token s \<longleftrightarrow> nat_token s \<or> (s \<noteq> [] \<and> hd s = CHR ''-'' \<and> nat_token (tl s))"

definition int_value :: "string \<Rightarrow> int" where
  "int_value s = (if s \<noteq> [] \<and> hd s = CHR ''-'' then - int (undec (tl s)) else int (undec s))"

definition numberPattern :: rexp where
  "numberPattern = Seq (opt_rexp (lit ''-'')) (Seq naturalPattern
     (Seq (opt_rexp (Seq (lit ''.'') (plus_rexp (Cls digit))))
       (opt_rexp (Seq (Cls (\<lambda>c. c \<in> set ''eE'')) (Seq (opt_rexp (Cls (\<lambda>c. c \<in> set ''+-''))) (plus_rexp (Cls digit)))))))"

definition frac_token :: "string \<Rightarrow> bool" where
  "frac_token s \<longleftrightarrow> list_all num_char s \<and> matches numberPattern s \<and> \<not> int_token s"

definition parse_number :: "string \<Rightarrow> (json \<times> string) option" where
  "parse_number s = (let t = takeWhile num_char s; r = dropWhile num_char s in
     if int_token t then Some (JInt (int_value t), r) else if frac_token t then Some (JFrac t, r) else None)"

definition parse_word :: "string \<Rightarrow> (json \<times> string) option" where
  "parse_word s = (if startsWith ''true'' s then Some (JBool True, drop 4 s)
     else if startsWith ''false'' s then Some (JBool False, drop 5 s)
     else if startsWith ''null'' s then Some (JNull, drop 4 s) else parse_number s)"

definition put_member :: "(string \<times> json) list \<Rightarrow> string \<times> json \<Rightarrow> (string \<times> json) list" where
  "put_member ms m = (if fst m \<in> fst ` set ms then map (\<lambda>n. if fst n = fst m then m else n) ms else ms @ [m])"

definition object_of :: "(string \<times> json) list \<Rightarrow> json" where
  "object_of ms = JObj (foldl put_member [] ms)"

fun parse_value :: "nat \<Rightarrow> string \<Rightarrow> (json \<times> string) option"
and parse_items :: "nat \<Rightarrow> string \<Rightarrow> (json list \<times> string) option"
and parse_members :: "nat \<Rightarrow> string \<Rightarrow> ((string \<times> json) list \<times> string) option" where
  "parse_value 0 s = None"
| "parse_value (Suc n) s =
     (case skip_white s of
        [] \<Rightarrow> None
      | c # cs \<Rightarrow>
          if c = CHR 0x22 then map_option (\<lambda>(t, r). (JStr t, r)) (unescape cs)
          else if c = CHR ''['' then
            (case skip_white cs of
               d # ds \<Rightarrow> if d = CHR '']'' then Some (JArr [], ds) else map_option (\<lambda>(vs, r). (JArr vs, r)) (parse_items n cs)
             | [] \<Rightarrow> None)
          else if c = CHR ''{'' then
            (case skip_white cs of
               d # ds \<Rightarrow> if d = CHR ''}'' then Some (JObj [], ds)
                 else map_option (\<lambda>(ms, r). (object_of ms, r)) (parse_members n cs)
             | [] \<Rightarrow> None)
          else parse_word (c # cs))"
| "parse_items 0 s = None"
| "parse_items (Suc n) s = do {
     (v, r) \<leftarrow> parse_value n s;
     (case skip_white r of
        [] \<Rightarrow> None
      | c # cs \<Rightarrow>
          if c = CHR '','' then do { (vs, q) \<leftarrow> parse_items n cs; Some (v # vs, q) }
          else if c = CHR '']'' then Some ([v], cs) else None) }"
| "parse_members 0 s = None"
| "parse_members (Suc n) s =
     (case skip_white s of
        [] \<Rightarrow> None
      | c # cs \<Rightarrow>
          if c \<noteq> CHR 0x22 then None
          else do {
            (k, r) \<leftarrow> unescape cs;
            (case skip_white r of
               [] \<Rightarrow> None
             | d # ds \<Rightarrow>
                 if d \<noteq> CHR '':'' then None
                 else do {
                   (v, q) \<leftarrow> parse_value n ds;
                   (case skip_white q of
                      [] \<Rightarrow> None
                    | e # es \<Rightarrow>
                        if e = CHR '','' then do { (ms, p) \<leftarrow> parse_members n es; Some ((k, v) # ms, p) }
                        else if e = CHR ''}'' then Some ([(k, v)], es) else None) }) })"

definition json_parse :: "string \<Rightarrow> json option" where
  "json_parse s = do { (v, r) \<leftarrow> parse_value (Suc (length s)) s; guardO (skip_white r = []); Some v }"

text \<open>The values that the parser makes: the members of an object have distinct names, and a number that is not
  an integer literal is a literal with a fraction or an exponent.\<close>

fun json_ok :: "json \<Rightarrow> bool" where
  "json_ok (JFrac s) = frac_token s"
| "json_ok (JArr vs) = list_all json_ok vs"
| "json_ok (JObj ms) = (distinct (map fst ms) \<and> list_all (\<lambda>m. json_ok (snd m)) ms)"
| "json_ok _ = True"

section \<open>Reading back strings and numbers\<close>

lemma control_escape: "n < 32 \<Longrightarrow> unicode_escape CHR ''0'' CHR ''0'' (hex_char (n div 16)) (hex_char n) = Some (char_of n)"
proof -
  have "list_all (\<lambda>n. unicode_escape CHR ''0'' CHR ''0'' (hex_char (n div 16)) (hex_char n) = Some (char_of n)) [0..<32]"
    by code_simp
  then show "n < 32 \<Longrightarrow> unicode_escape CHR ''0'' CHR ''0'' (hex_char (n div 16)) (hex_char n) = Some (char_of n)"
    by (simp only: list_all_iff set_upt atLeastLessThan_iff) simp
qed

lemma unescape_escape: "unescape (json_escape c @ w) = do { (t, r) \<leftarrow> unescape w; Some (c # t, r) }"
proof (cases "c \<in> {CHR 0x22, CHR 0x5C, CHR 0x08, CHR 0x09, CHR 0x0A, CHR 0x0C, CHR 0x0D}")
  case True
  then show ?thesis by (auto simp: json_escape_def escapes_def)
next
  case False
  show ?thesis
  proof (cases "c < CHR 0x20")
    case True
    then have "of_char c < (32::nat)" by (simp add: less_char_def)
    from control_escape[OF this] True False show ?thesis by (simp add: json_escape_def)
  qed (use False in \<open>simp add: json_escape_def\<close>)
qed

lemma unescape_quoted: "unescape (concat (map json_escape s) @ CHR 0x22 # r) = Some (s, r)"
  by (induction s) (simp_all add: unescape_escape del: unescape.simps(2), simp)

definition ends_number :: "string \<Rightarrow> bool" where
  "ends_number r \<longleftrightarrow> r = [] \<or> \<not> num_char (hd r)"

lemma takeWhile_token: "list_all num_char t \<Longrightarrow> ends_number r \<Longrightarrow> takeWhile num_char (t @ r) = t"
  by (cases r) (auto simp: ends_number_def list_all_iff takeWhile_append2)

lemma dropWhile_token: "list_all num_char t \<Longrightarrow> ends_number r \<Longrightarrow> dropWhile num_char (t @ r) = r"
  by (cases r) (auto simp: ends_number_def list_all_iff dropWhile_append2)

lemma dec_head: "n \<noteq> 0 \<Longrightarrow> hd (dec n) \<noteq> CHR ''0''"
proof (induction n rule: dec.induct)
  case (1 n)
  show ?case
  proof (cases "n < 10")
    case True
    have "list_all (\<lambda>k. char_of (48 + k) \<noteq> CHR ''0'') [1..<10::nat]" by code_simp
    then have "char_of (48 + n) \<noteq> CHR ''0''" using True 1 by (simp only: list_all_iff set_upt atLeastLessThan_iff) simp
    with True show ?thesis by (simp add: dec.simps[of n])
  next
    case False
    then have "hd (dec (n div 10)) \<noteq> CHR ''0''" using 1 by simp
    moreover have "dec (n div 10) \<noteq> []" by (simp add: dec.simps[of "n div 10"])
    ultimately show ?thesis using False by (simp add: dec.simps[of n])
  qed
qed

lemma dec_nonempty: "dec n \<noteq> []"
  by (simp add: dec.simps[of n])

lemma dec_token: "nat_token (dec n)"
proof (cases "n = 0")
  case True
  then show ?thesis using dec_digits[of 0] by (simp add: nat_token_def dec.simps[of 0])
qed (use dec_digits[of n] in \<open>simp add: nat_token_def dec_head dec_nonempty\<close>)

lemma digit_minus: "\<not> digit CHR ''-''"
  by (simp add: digit_def less_eq_char_def)

lemma dec_no_minus: "hd (dec n) \<noteq> CHR ''-''"
  using dec_digits[of n] dec_nonempty[of n] digit_minus by (cases "dec n") auto

lemma int_text_token: "int_token (int_text i)" "int_value (int_text i) = i" "list_all num_char (int_text i)"
proof -
  have d: "list_all num_char (dec n)" for n
    using dec_digits[of n] by (auto simp: list_all_iff num_char_def)
  show "int_token (int_text i)" by (auto simp: int_text_def int_token_def dec_token)
  show "int_value (int_text i) = i" by (auto simp: int_text_def int_value_def undec_dec dec_no_minus dec_nonempty)
  show "list_all num_char (int_text i)" using d by (auto simp: int_text_def num_char_def)
qed

lemma parse_number_int: "ends_number r \<Longrightarrow> parse_number (int_text i @ r) = Some (JInt i, r)"
  by (simp add: parse_number_def takeWhile_token dropWhile_token int_text_token)

lemma parse_number_frac: "frac_token s \<Longrightarrow> ends_number r \<Longrightarrow> parse_number (s @ r) = Some (JFrac s, r)"
  by (simp add: parse_number_def takeWhile_token dropWhile_token frac_token_def)

section \<open>Reading back values\<close>

lemma num_char_plain:
  assumes "num_char c"
  shows "\<not> white c" "c \<notin> {CHR 0x22, CHR ''['', CHR ''{'', CHR '']'', CHR ''}'', CHR ''t'', CHR ''f'', CHR ''n''}"
  using assms by (auto simp: num_char_def white_def digit_def less_eq_char_def)

lemma skip_white_Cons [simp]: "\<not> white c \<Longrightarrow> skip_white (c # cs) = c # cs"
  by (simp add: skip_white_def)

lemma white_tokens [simp]: "\<not> white CHR 0x22" "\<not> white CHR ''[''" "\<not> white CHR ''{''" "\<not> white CHR '']''" "\<not> white CHR ''}''"
  "\<not> white CHR '',''" "\<not> white CHR '':''" "\<not> white CHR ''n''" "\<not> white CHR ''t''" "\<not> white CHR ''f''"
  by (simp_all add: white_def)

lemma ends_number_tokens [simp]: "ends_number []" "ends_number (CHR '','' # r)" "ends_number (CHR '']'' # r)"
  "ends_number (CHR ''}'' # r)" "ends_number (CHR 0x0A # r)"
  by (simp_all add: ends_number_def num_char_def digit_def less_eq_char_def)

lemma parse_value_token:
  assumes "list_all num_char t" "t \<noteq> []" "parse_number (t @ r) = Some (v, r)"
  shows "parse_value (Suc n) (t @ r) = Some (v, r)"
proof -
  obtain c cs where t: "t = c # cs" using assms(2) by (cases t) auto
  with assms(1) have "num_char c" by simp
  from num_char_plain[OF this] assms(3) show ?thesis
    by (simp add: t parse_word_def startsWith_def)
qed

lemma frac_nonempty: "frac_token s \<Longrightarrow> s \<noteq> []"
proof -
  have "\<not> matches numberPattern []" by code_simp
  then show "frac_token s \<Longrightarrow> s \<noteq> []" by (auto simp: frac_token_def)
qed

text \<open>What a value begins with: never white space or the end of an array or object.\<close>

definition opens :: "string \<Rightarrow> bool" where
  "opens s \<longleftrightarrow> (\<exists>c cs. s = c # cs \<and> \<not> white c \<and> c \<noteq> CHR '']'' \<and> c \<noteq> CHR ''}'')"

lemma token_opens:
  assumes "list_all num_char t" "t \<noteq> []"
  shows "opens (t @ r)"
proof -
  obtain c cs where t: "t = c # cs" using assms(2) by (cases t) auto
  with assms(1) have "num_char c" by simp
  from num_char_plain[OF this] t show ?thesis by (simp add: opens_def)
qed

lemma stringify_opens: "json_ok v \<Longrightarrow> opens (stringify v @ r)"
proof (cases v)
  case (JInt i)
  have "int_text i \<noteq> []" by (simp add: int_text_def dec_nonempty)
  with JInt show ?thesis by (simp add: token_opens int_text_token)
next
  case (JFrac s)
  then show "json_ok v \<Longrightarrow> ?thesis" by (simp add: token_opens frac_nonempty) (simp add: frac_token_def token_opens frac_nonempty)
qed (auto simp: opens_def json_quote_def white_def)

lemma foldl_put_member: "distinct (map fst (ms @ ns)) \<Longrightarrow> foldl put_member ms ns = ms @ ns"
proof (induction ns arbitrary: ms)
  case (Cons n ns)
  then have "put_member ms n = ms @ [n]" by (auto simp: put_member_def)
  with Cons.IH[of "ms @ [n]"] Cons.prems show ?case by simp
qed simp

lemma object_of_distinct: "distinct (map fst ms) \<Longrightarrow> object_of ms = JObj ms"
  using foldl_put_member[of "[]" ms] by (simp add: object_of_def)

text \<open>The contract of the parser for one value, and what follows for the elements of an array and the members of
  an object.\<close>

definition reads :: "json \<Rightarrow> bool" where
  "reads v \<longleftrightarrow> (\<forall>n r. length (stringify v) < n \<longrightarrow> ends_number r \<longrightarrow> parse_value n (stringify v @ r) = Some (v, r))"

lemma parse_items_join:
  assumes "list_all reads vs" "vs \<noteq> []" "length (join '','' (map stringify vs)) + 1 < n"
  shows "parse_items n (join '','' (map stringify vs) @ CHR '']'' # r) = Some (vs, r)"
  using assms
proof (induction vs arbitrary: n)
  case (Cons v vs)
  obtain m where n: "n = Suc m" using Cons.prems(3) by (cases n) auto
  show ?case
  proof (cases vs)
    case Nil
    then show ?thesis using Cons.prems by (auto simp: n reads_def)
  next
    case (Cons w ws)
    have "parse_value m (stringify v @ CHR '','' # x) = Some (v, CHR '','' # x)" for x
      using Cons.prems by (simp add: n Cons reads_def)
    moreover have "parse_items m (join '','' (map stringify vs) @ CHR '']'' # r) = Some (vs, r)"
      using Cons.IH[of m] Cons.prems by (simp add: n Cons)
    ultimately show ?thesis by (simp add: n Cons)
  qed
qed simp

abbreviation member_text :: "string \<times> json \<Rightarrow> string" where
  "member_text m \<equiv> json_quote (fst m) @ '':'' @ stringify (snd m)"

lemma parse_members_one:
  assumes "reads (snd m)" "length (stringify (snd m)) < n" "e \<in> {CHR '','', CHR ''}''}"
  shows "parse_members (Suc n) (member_text m @ e # r) =
    (if e = CHR '','' then do { (ms, p) \<leftarrow> parse_members n r; Some (m # ms, p) } else Some ([m], r))"
proof -
  have "parse_value n (stringify (snd m) @ e # r) = Some (snd m, e # r)"
    using assms by (auto simp: reads_def)
  moreover have "unescape (concat (map json_escape (fst m)) @ CHR 0x22 # CHR '':'' # stringify (snd m) @ e # r)
      = Some (fst m, CHR '':'' # stringify (snd m) @ e # r)" by (rule unescape_quoted)
  ultimately show ?thesis using assms(3) by (auto simp: json_quote_def)
qed

lemma parse_members_join:
  assumes "list_all (\<lambda>m. reads (snd m)) ms" "ms \<noteq> []" "length (join '','' (map member_text ms)) + 1 < n"
  shows "parse_members n (join '','' (map member_text ms) @ CHR ''}'' # r) = Some (ms, r)"
  using assms
proof (induction ms arbitrary: n)
  case (Cons m ms)
  obtain k where n: "n = Suc k" using Cons.prems(3) by (cases n) auto
  show ?case
  proof (cases ms)
    case Nil
    then show ?thesis using Cons.prems parse_members_one[of m k "CHR ''}''" r] by (simp add: n)
  next
    case (Cons w ws)
    have "parse_members k (join '','' (map member_text ms) @ CHR ''}'' # r) = Some (ms, r)"
      using Cons.IH[of k] Cons.prems by (simp add: n Cons)
    then show ?thesis
      using Cons.prems parse_members_one[of m k "CHR '',''" "join '','' (map member_text ms) @ CHR ''}'' # r"]
      by (simp add: n Cons)
  qed
qed simp

lemma join_opens: "xs \<noteq> [] \<Longrightarrow> (\<And>r. opens (hd xs @ r)) \<Longrightarrow> opens (join sep xs @ r)"
  by (cases "(sep, xs)" rule: join.cases) auto

lemma opensE: "opens s \<Longrightarrow> (\<And>c cs. s = c # cs \<Longrightarrow> \<not> white c \<Longrightarrow> c \<noteq> CHR '']'' \<Longrightarrow> c \<noteq> CHR ''}'' \<Longrightarrow> thesis) \<Longrightarrow> thesis"
  by (auto simp: opens_def)

lemma stringify_reads: "json_ok v \<Longrightarrow> reads v"
proof (induction v)
  case (JArr vs)
  have ok: "list_all reads vs" using JArr by (auto simp: list_all_iff)
  show ?case unfolding reads_def
  proof (intro allI impI)
    fix n r assume n: "length (stringify (JArr vs)) < n" "ends_number r"
    obtain m where m: "n = Suc m" using n(1) by (cases n) auto
    show "parse_value n (stringify (JArr vs) @ r) = Some (JArr vs, r)"
    proof (cases "vs = []")
      case False
      have p: "parse_items m (join '','' (map stringify vs) @ CHR '']'' # r) = Some (vs, r)"
        using parse_items_join[OF ok False] n m by simp
      have "opens (join '','' (map stringify vs) @ CHR '']'' # r)"
        using False JArr.prems stringify_opens by (intro join_opens) (auto simp: hd_map list_all_iff)
      then show ?thesis by (rule opensE) (use p m in simp)
    qed (simp add: m)
  qed
next
  case (JObj ms)
  have "reads (snd m)" if "m \<in> set ms" for m
    using JObj.IH[of m "snd m"] JObj.prems that by (cases m) (auto simp: list_all_iff)
  then have ok: "list_all (\<lambda>m. reads (snd m)) ms" by (simp add: list_all_iff)
  show ?case unfolding reads_def
  proof (intro allI impI)
    fix n r assume n: "length (stringify (JObj ms)) < n" "ends_number r"
    obtain m where m: "n = Suc m" using n(1) by (cases n) auto
    show "parse_value n (stringify (JObj ms) @ r) = Some (JObj ms, r)"
    proof (cases "ms = []")
      case False
      have p: "parse_members m (join '','' (map member_text ms) @ CHR ''}'' # r) = Some (ms, r)"
        using parse_members_join[OF ok False] n m by simp
      have "opens (join '','' (map member_text ms) @ CHR ''}'' # r)"
        using False by (intro join_opens) (auto simp: hd_map json_quote_def opens_def white_def)
      then show ?thesis by (rule opensE) (use p m JObj.prems object_of_distinct[of ms] in simp)
    qed (simp add: m)
  qed
next
  case (JInt i)
  have "int_text i \<noteq> []" by (simp add: int_text_def dec_nonempty)
  then show ?case unfolding reads_def
    by (metis int_text_token(3) less_imp_Suc_add parse_number_int parse_value_token stringify.simps(3))
next
  case (JFrac s)
  then have s: "list_all num_char s" "s \<noteq> []" "frac_token s" using frac_nonempty by (auto simp: frac_token_def)
  then show ?case unfolding reads_def
    by (metis less_imp_Suc_add parse_number_frac parse_value_token stringify.simps(4))
next
  case (JStr s)
  show ?case unfolding reads_def
  proof (intro allI impI)
    fix n r assume "length (stringify (JStr s)) < n"
    then obtain m where "n = Suc m" by (cases n) auto
    then show "parse_value n (stringify (JStr s) @ r) = Some (JStr s, r)" by (simp add: json_quote_def unescape_quoted)
  qed
next
  case JNull
  have "parse_value n (''null'' @ r) = Some (JNull, r)" if "4 < n" for n r
    using that by (cases n) (simp_all add: parse_word_def startsWith_def)
  then show ?case by (simp add: reads_def)
next
  case (JBool b)
  have "parse_value n ((if b then ''true'' else ''false'') @ r) = Some (JBool b, r)" if "4 < n" for n r
    using that by (cases n) (simp_all add: parse_word_def startsWith_def)
  then show ?case by (auto simp: reads_def)
qed

text \<open>\<open>JSON.parse\<close> of what \<open>JSON.stringify\<close> wrote, also with the line end that the stores append.\<close>

lemma json_parse_before_white:
  assumes "json_ok v" "ends_number r" "skip_white r = []"
  shows "json_parse (stringify v @ r) = Some v"
proof -
  have "parse_value (Suc (length (stringify v @ r))) (stringify v @ r) = Some (v, r)"
    using stringify_reads[OF assms(1)] assms(2) unfolding reads_def by (metis le_imp_less_Suc length_append le_add1)
  with assms(3) show ?thesis by (simp add: json_parse_def del: parse_value.simps)
qed

lemma json_parse_stringify: "json_ok v \<Longrightarrow> json_parse (stringify v) = Some v"
  using json_parse_before_white[of v "[]"] by (simp add: skip_white_def)

lemma json_parse_line: "json_ok v \<Longrightarrow> json_parse (stringify v @ [CHR 0x0A]) = Some v"
  by (rule json_parse_before_white) (simp_all add: skip_white_def white_def)

section \<open>What the parser makes\<close>

lemma put_member_ok:
  assumes "distinct (map fst ms)" "list_all (\<lambda>m. json_ok (snd m)) ms" "json_ok (snd m)"
  shows "distinct (map fst (put_member ms m)) \<and> list_all (\<lambda>m. json_ok (snd m)) (put_member ms m)"
proof -
  have "map fst (map (\<lambda>n. if fst n = fst m then m else n) ms) = map fst ms" by (induction ms) auto
  with assms show ?thesis by (auto simp: put_member_def list_all_iff simp del: map_map)
qed

lemma object_of_ok: "list_all (\<lambda>m. json_ok (snd m)) ms \<Longrightarrow> json_ok (object_of ms)"
proof -
  have "distinct (map fst ns) \<and> list_all (\<lambda>m. json_ok (snd m)) ns \<Longrightarrow> list_all (\<lambda>m. json_ok (snd m)) ms \<Longrightarrow>
      distinct (map fst (foldl put_member ns ms)) \<and> list_all (\<lambda>m. json_ok (snd m)) (foldl put_member ns ms)" for ns
  proof (induction ms arbitrary: ns)
    case (Cons m ms)
    then show ?case using put_member_ok[of ns m] by simp
  qed simp
  from this[of "[]"] show "list_all (\<lambda>m. json_ok (snd m)) ms \<Longrightarrow> json_ok (object_of ms)" by (simp add: object_of_def)
qed

lemma parse_word_ok: "parse_word s = Some (v, r) \<Longrightarrow> json_ok v"
  by (auto simp: parse_word_def parse_number_def Let_def split: if_splits)

lemma parse_ok:
  "parse_value n s = Some (v, r) \<Longrightarrow> json_ok v"
  "parse_items n s = Some (vs, r) \<Longrightarrow> list_all json_ok vs"
  "parse_members n s = Some (ms, r) \<Longrightarrow> list_all (\<lambda>m. json_ok (snd m)) ms"
proof (induction n s and n s and n s arbitrary: v r and vs r and ms r
    rule: parse_value_parse_items_parse_members.induct)
  case (2 n s)
  from 2(3) obtain c cs where c: "skip_white s = c # cs" by (auto split: list.split_asm)
  have "json_ok v" if "map_option (\<lambda>(vs, r). (JArr vs, r)) (parse_items n cs) = Some (v, r)" "c = CHR ''[''"
      "skip_white cs = d # ds" "d \<noteq> CHR '']''" for d ds
    using that 2(1)[OF c] by auto
  moreover have "json_ok v" if "map_option (\<lambda>(ms, r). (object_of ms, r)) (parse_members n cs) = Some (v, r)"
      "c = CHR ''{''" "skip_white cs = d # ds" "d \<noteq> CHR ''}''" for d ds
    using that 2(2)[OF c] by (auto intro: object_of_ok)
  ultimately show ?case
    using 2(3) by (auto simp: c parse_word_ok split: if_split_asm list.split_asm)
next
  case (4 n s)
  from 4(3) obtain v r' where p: "parse_value n s = Some (v, r')" by (auto simp: bind_eq_Some_conv)
  from 4(3) p obtain c cs where "skip_white r' = c # cs" by (cases "skip_white r'") auto
  note v = p this
  from 4(1)[of v r'] v have "json_ok v" by simp
  moreover have "list_all json_ok ws" if "parse_items n cs = Some (ws, q)" "c = CHR '',''" for ws q
    using 4(2)[of "(v, r')" v r' c cs ws q] v that by simp
  ultimately show ?case using 4(3) v by (auto simp: bind_eq_Some_conv split: if_split_asm)
next
  case (6 n s)
  from 6(3) obtain cs where 1: "skip_white s = CHR 0x22 # cs" by (auto split: list.split_asm if_split_asm)
  with 6(3) obtain k r' where 2: "unescape cs = Some (k, r')" by (auto simp: bind_eq_Some_conv)
  with 6(3) 1 obtain ds where 3: "skip_white r' = CHR '':'' # ds"
    by (cases "skip_white r'") (auto split: if_split_asm)
  with 6(3) 1 2 obtain v q where 4: "parse_value n ds = Some (v, q)" by (auto simp: bind_eq_Some_conv)
  with 6(3) 1 2 3 obtain e es where "skip_white q = e # es" by (cases "skip_white q") auto
  note a = 1 2 3 4 this
  from 6(1) a have "json_ok v" by simp
  moreover have "list_all (\<lambda>m. json_ok (snd m)) ns" if "parse_members n es = Some (ns, p)" "e = CHR '',''" for ns p
    using 6(2) a that by simp
  ultimately show ?case using 6(3) a by (auto simp: bind_eq_Some_conv split: if_split_asm)
qed simp_all

lemma json_parse_ok: "json_parse s = Some v \<Longrightarrow> json_ok v"
  by (auto simp: json_parse_def bind_eq_Some_conv simp del: parse_value.simps dest: parse_ok(1))

interpretation json_text: codec stringify json_parse json_ok
  by unfold_locales (rule json_parse_stringify, assumption, rule json_parse_ok)

end
