(* ===== verification/Authority_State.thy ===== *)
theory Authority_State
  imports Js_Parse Project_Review Qemu_Descriptor
begin

text \<open>
  The attempts and statuses of QEMU jobs that native Git keeps: the execution descriptor as native Git accepts it
  (\<open>qemu-execution-descriptor.ts\<close>), the schemas of attempts, statuses and of the whole state with its consistency
  rules, what counts as a successor of a state, and the pure part of each operation
  (\<open>native-qemu-authority-state.ts\<close>). Objects that a schema accepts are records here, so
  \<open>isDeepStrictEqual\<close> on them is equality, except for the event of a status, which is any JSON object.
  Member names of such an event are taken to differ from \<open>__proto__\<close>.
\<close>

section \<open>The execution descriptor\<close>

definition safeHeadRef :: "string \<Rightarrow> bool" where
  "safeHeadRef v \<longleftrightarrow> startsWith ''refs/heads/'' v
     \<and> \<not> endsWith ''/'' v \<and> \<not> endsWith ''.'' v \<and> \<not> endsWith ''.lock'' v \<and> \<not> str_includes ''..'' v
     \<and> \<not> str_includes [CHR ''@'', CHR ''{''] v \<and> \<not> str_includes [CHR 0x5C] v \<and> \<not> list_ex ref_forbidden v
     \<and> list_all (\<lambda>part. length part > 0 \<and> \<not> startsWith ''.'' part)
         (split_on CHR ''/'' (drop (length ''refs/heads/'') v))"

definition zod_protectedRef :: "json option \<Rightarrow> string option" where
  "zod_protectedRef v = do { s \<leftarrow> as_string v; guardO (length s \<le> 1024 \<and> safeHeadRef s); Some s }"

definition zod_scriptPath :: "json option \<Rightarrow> string option" where
  "zod_scriptPath v = do {
     s \<leftarrow> as_string v;
     guardO (startsWith ''.dim/ci/jobs/'' s \<and> endsWith ''.bash'' s \<and> \<not> str_includes [CHR 0x5C] s
       \<and> list_all (\<lambda>part. length part > 0 \<and> part \<noteq> ''.'' \<and> part \<noteq> ''..'') (split_on CHR ''/'' s));
     Some s }"

definition zod_blobIdentity :: "json option \<Rightarrow> BlobRef option" where
  "zod_blobIdentity v = do {
     w \<leftarrow> as_record v;
     guardO (strict_object w [''objectId'', ''sha256''] []);
     objectId \<leftarrow> as_matching objectIdPattern (get_field w ''objectId'');
     sha \<leftarrow> as_matching digestPattern (get_field w ''sha256'');
     Some \<lparr>br_objectId = objectId, br_sha256 = sha\<rparr> }"

definition zod_bounds :: "json option \<Rightarrow> QemuBounds option" where
  "zod_bounds v = do {
     w \<leftarrow> as_record v;
     guardO (strict_object w [''cpu'', ''memoryBytes'', ''pids'', ''wallClockSeconds'', ''outputBytes''] []);
     cpu \<leftarrow> as_matching decimalPattern (get_field w ''cpu'');
     memoryBytes \<leftarrow> as_matching decimalPattern (get_field w ''memoryBytes'');
     pids \<leftarrow> as_matching decimalPattern (get_field w ''pids'');
     wallClockSeconds \<leftarrow> as_matching decimalPattern (get_field w ''wallClockSeconds'');
     outputBytes \<leftarrow> as_matching decimalPattern (get_field w ''outputBytes'');
     Some \<lparr>bd_cpu = cpu, bd_memoryBytes = memoryBytes, bd_pids = pids,
       bd_wallClockSeconds = wallClockSeconds, bd_outputBytes = outputBytes\<rparr> }"

definition zod_script :: "json option \<Rightarrow> ScriptRef option" where
  "zod_script v = do {
     w \<leftarrow> as_record v;
     guardO (strict_object w [''path'', ''objectId'', ''sha256''] []);
     path \<leftarrow> zod_scriptPath (get_field w ''path'');
     objectId \<leftarrow> as_matching objectIdPattern (get_field w ''objectId'');
     sha \<leftarrow> as_matching digestPattern (get_field w ''sha256'');
     Some \<lparr>sr_path = path, sr_objectId = objectId, sr_sha256 = sha\<rparr> }"

definition candidateArgv :: "string list" where
  "candidateArgv = [''/bin/bash'', ''--noprofile'', ''--norc'', ''/run/dim/job/script'']"

definition qemuExecutionDescriptorSchema :: "json \<Rightarrow> NativeQemuDescriptor option" where
  "qemuExecutionDescriptorSchema value = do {
     guardO (strict_object value [''schemaVersion'', ''executionKind'', ''admissionGeneration'', ''jobName'',
       ''runnerBaseImage'', ''bounds'', ''projectId'', ''repositoryId'', ''protectedRef'', ''expectedProtectedHead'',
       ''candidateCommit'', ''candidateTree'', ''policyRevision'', ''requiredReviewRevision'',
       ''requiredJobSetRevision'', ''evidenceClass'', ''configBlob'', ''script'', ''argv'', ''jobImage''] []);
     let field = get_field value;
     as_literal (JInt 1) (field ''schemaVersion'');
     as_literal (JStr ''qemu'') (field ''executionKind'');
     admissionGeneration \<leftarrow> as_matching generationPattern (field ''admissionGeneration'');
     jobName \<leftarrow> as_matching namePattern (field ''jobName'');
     runnerBaseImage \<leftarrow> as_matching imagePattern (field ''runnerBaseImage'');
     bounds \<leftarrow> zod_bounds (field ''bounds'');
     projectId \<leftarrow> as_matching namePattern (field ''projectId'');
     repositoryId \<leftarrow> as_matching namePattern (field ''repositoryId'');
     protectedRef \<leftarrow> zod_protectedRef (field ''protectedRef'');
     expectedProtectedHead \<leftarrow> as_matching objectIdPattern (field ''expectedProtectedHead'');
     candidateCommit \<leftarrow> as_matching objectIdPattern (field ''candidateCommit'');
     candidateTree \<leftarrow> as_matching objectIdPattern (field ''candidateTree'');
     policyRevision \<leftarrow> as_matching revisionPattern (field ''policyRevision'');
     requiredReviewRevision \<leftarrow> as_matching revisionPattern (field ''requiredReviewRevision'');
     requiredJobSetRevision \<leftarrow> as_matching revisionPattern (field ''requiredJobSetRevision'');
     as_literal (JStr ''candidate-controlled'') (field ''evidenceClass'');
     configBlob \<leftarrow> zod_blobIdentity (field ''configBlob'');
     script \<leftarrow> zod_script (field ''script'');
     as_literal (JArr (map JStr candidateArgv)) (field ''argv'');
     jobImage \<leftarrow> as_matching imagePattern (field ''jobImage'');
     Some \<lparr>d_schemaVersion = 1, d_executionKind = ''qemu'', d_admissionGeneration = admissionGeneration,
       d_jobName = jobName, d_runnerBaseImage = runnerBaseImage, d_bounds = bounds, d_projectId = projectId,
       d_repositoryId = repositoryId, d_protectedRef = protectedRef,
       d_expectedProtectedHead = expectedProtectedHead, d_candidateCommit = candidateCommit,
       d_candidateTree = candidateTree, d_policyRevision = policyRevision,
       d_requiredReviewRevision = requiredReviewRevision, d_requiredJobSetRevision = requiredJobSetRevision,
       d_evidenceClass = ''candidate-controlled'', d_configBlob = configBlob, d_script = script,
       d_argv = candidateArgv, d_jobImage = jobImage\<rparr> }"

definition qemuExecutionDescriptorDigest :: "project_runtime \<Rightarrow> NativeQemuDescriptor \<Rightarrow> string" where
  "qemuExecutionDescriptorDigest rt d = ''sha256:'' @ sha256 rt (''dim-native-qemu-execution-v1'' @ concat (map netstring
     ([d_projectId d, d_repositoryId d, d_protectedRef d, d_expectedProtectedHead d, d_candidateCommit d, d_candidateTree d,
       d_policyRevision d, d_requiredReviewRevision d, d_requiredJobSetRevision d, d_admissionGeneration d, d_jobName d,
       d_evidenceClass d, br_objectId (d_configBlob d), br_sha256 (d_configBlob d), sr_path (d_script d),
       sr_objectId (d_script d), sr_sha256 (d_script d)] @ d_argv d @
      [d_jobImage d, d_runnerBaseImage d, bd_cpu (d_bounds d), bd_memoryBytes (d_bounds d), bd_pids (d_bounds d),
       bd_wallClockSeconds (d_bounds d), bd_outputBytes (d_bounds d)])))"

section \<open>Attempts, statuses and the state\<close>

record NativeQemuAttemptRecord =
  qa_issuanceRequestId :: string
  qa_attemptId :: string
  qa_reviewId :: string
  qa_attempt :: int
  qa_descriptor :: NativeQemuDescriptor
  qa_descriptorDigest :: string
  qa_hostId :: string
  qa_capacity :: string
  qa_issuedAt :: string
  qa_revokedAt :: "string option"

record NativeQemuStatusRecord =
  qs_eventId :: string
  qs_attemptId :: string
  qs_descriptorDigest :: string
  qs_result :: string
  qs_event :: json

record authority_state =
  au_attempts :: "NativeQemuAttemptRecord list"
  au_statuses :: "NativeQemuStatusRecord list"

definition zod_positive :: "json option \<Rightarrow> int option" where
  "zod_positive v = do { i \<leftarrow> as_int v; guardO (0 < i); Some i }"

definition zod_checked :: "(string \<Rightarrow> bool) \<Rightarrow> json option \<Rightarrow> string option" where
  "zod_checked ok v = do { s \<leftarrow> as_string v; guardO (ok s); Some s }"

definition attemptSchema :: "project_runtime \<Rightarrow> json \<Rightarrow> NativeQemuAttemptRecord option" where
  "attemptSchema rt v = do {
     guardO (strict_object v [''schemaVersion'', ''executionKind'', ''issuanceRequestId'', ''attemptId'', ''reviewId'',
       ''attempt'', ''descriptor'', ''descriptorDigest'', ''hostId'', ''capacity'', ''issuedAt''] [''revokedAt'']);
     let field = get_field v;
     as_literal (JInt 1) (field ''schemaVersion'');
     as_literal (JStr ''qemu'') (field ''executionKind'');
     issuanceRequestId \<leftarrow> zod_checked (zod_uuid rt) (field ''issuanceRequestId'');
     attemptId \<leftarrow> zod_checked (zod_uuid rt) (field ''attemptId'');
     reviewId \<leftarrow> as_matching hex64Pattern (field ''reviewId'');
     attempt \<leftarrow> zod_positive (field ''attempt'');
     descriptor \<leftarrow> Option.bind (field ''descriptor'') qemuExecutionDescriptorSchema;
     descriptorDigest \<leftarrow> as_matching digestPattern (field ''descriptorDigest'');
     hostId \<leftarrow> as_matching identifierPattern (field ''hostId'');
     capacity \<leftarrow> as_matching identifierPattern (field ''capacity'');
     issuedAt \<leftarrow> zod_checked (zod_datetime rt) (field ''issuedAt'');
     revokedAt \<leftarrow> optional (zod_checked (zod_datetime rt)) (field ''revokedAt'');
     guardO (qemuExecutionDescriptorDigest rt descriptor = descriptorDigest);
     Some \<lparr>qa_issuanceRequestId = issuanceRequestId, qa_attemptId = attemptId, qa_reviewId = reviewId,
       qa_attempt = attempt, qa_descriptor = descriptor, qa_descriptorDigest = descriptorDigest, qa_hostId = hostId,
       qa_capacity = capacity, qa_issuedAt = issuedAt, qa_revokedAt = revokedAt\<rparr> }"

definition statusSchema :: "project_runtime \<Rightarrow> json \<Rightarrow> NativeQemuStatusRecord option" where
  "statusSchema rt v = do {
     guardO (strict_object v [''schemaVersion'', ''executionKind'', ''eventId'', ''attemptId'', ''descriptorDigest'',
       ''result'', ''event''] []);
     let field = get_field v;
     as_literal (JInt 1) (field ''schemaVersion'');
     as_literal (JStr ''qemu'') (field ''executionKind'');
     eventId \<leftarrow> zod_checked (zod_uuid rt) (field ''eventId'');
     attemptId \<leftarrow> zod_checked (zod_uuid rt) (field ''attemptId'');
     descriptorDigest \<leftarrow> as_matching digestPattern (field ''descriptorDigest'');
     result \<leftarrow> zod_checked (\<lambda>s. s \<in> set [''success'', ''failure'', ''cancelled'']) (field ''result'');
     event \<leftarrow> as_record (field ''event'');
     Some \<lparr>qs_eventId = eventId, qs_attemptId = attemptId, qs_descriptorDigest = descriptorDigest,
       qs_result = result, qs_event = event\<rparr> }"

text \<open>The key \<open>reviewId\0jobName\<close> under which the attempts of a job are grouped.\<close>

definition attempt_job_key :: "NativeQemuAttemptRecord \<Rightarrow> string" where
  "attempt_job_key a = qa_reviewId a @ [CHR 0x00] @ d_jobName (qa_descriptor a)"

definition attempt_sequence_ok :: "NativeQemuAttemptRecord list \<Rightarrow> bool" where
  "attempt_sequence_ok as \<longleftrightarrow> map qa_attempt as = map (\<lambda>i. int i + 1) [0..<length as]
     \<and> length (filter (\<lambda>a. qa_revokedAt a = None) as) \<le> 1"

definition state_refinement :: "authority_state \<Rightarrow> bool" where
  "state_refinement st \<longleftrightarrow>
     distinct (map qa_attemptId (au_attempts st)) \<and> distinct (map qa_issuanceRequestId (au_attempts st))
     \<and> list_all (\<lambda>key. attempt_sequence_ok (filter (\<lambda>a. attempt_job_key a = key) (au_attempts st)))
         (remdups (map attempt_job_key (au_attempts st)))
     \<and> list_all (\<lambda>s. case find_row (\<lambda>a. qa_attemptId a = qs_attemptId s) (au_attempts st) of
           None \<Rightarrow> False | Some a \<Rightarrow> qa_descriptorDigest a = qs_descriptorDigest s) (au_statuses st)
     \<and> distinct (map qs_attemptId (au_statuses st)) \<and> distinct (map qs_eventId (au_statuses st))"

definition stateSchema :: "project_runtime \<Rightarrow> json \<Rightarrow> authority_state option" where
  "stateSchema rt v = do {
     guardO (strict_object v [''schemaVersion'', ''attempts'', ''statuses''] []);
     as_literal (JInt 1) (get_field v ''schemaVersion'');
     attempts \<leftarrow> as_list (attemptSchema rt) (get_field v ''attempts'');
     statuses \<leftarrow> as_list (statusSchema rt) (get_field v ''statuses'');
     let st = \<lparr>au_attempts = attempts, au_statuses = statuses\<rparr>;
     guardO (state_refinement st);
     Some st }"

definition emptyState :: authority_state where
  "emptyState = \<lparr>au_attempts = [], au_statuses = []\<rparr>"

section \<open>Successors\<close>

definition same_status :: "NativeQemuStatusRecord \<Rightarrow> NativeQemuStatusRecord \<Rightarrow> bool" where
  "same_status s t \<longleftrightarrow> s\<lparr>qs_event := JNull\<rparr> = t\<lparr>qs_event := JNull\<rparr> \<and> deep_eq (qs_event s) (qs_event t)"

definition isRevocation :: "NativeQemuAttemptRecord option \<Rightarrow> NativeQemuAttemptRecord \<Rightarrow> bool" where
  "isRevocation previous candidate = (case previous of
     None \<Rightarrow> False
   | Some p \<Rightarrow> qa_revokedAt p = None \<and> qa_revokedAt candidate \<noteq> None
       \<and> p\<lparr>qa_revokedAt := None\<rparr> = candidate\<lparr>qa_revokedAt := None\<rparr>)"

definition nth_opt :: "'a list \<Rightarrow> nat \<Rightarrow> 'a option" where
  "nth_opt xs i = (if i < length xs then Some (xs ! i) else None)"

definition isSuccessor :: "authority_state option \<Rightarrow> authority_state \<Rightarrow> bool" where
  "isSuccessor stored candidate =
     (let previous = (case stored of None \<Rightarrow> emptyState | Some st \<Rightarrow> st);
          old = au_attempts previous; new = au_attempts candidate;
          issue = (length new = length old + 1 \<and> butlast new = old
            \<and> list_all2 same_status (au_statuses candidate) (au_statuses previous));
          status = (length (au_statuses candidate) = length (au_statuses previous) + 1
            \<and> list_all2 same_status (butlast (au_statuses candidate)) (au_statuses previous) \<and> new = old);
          revocation = (length new = length old
            \<and> list_all2 same_status (au_statuses candidate) (au_statuses previous)
            \<and> length (filter (\<lambda>i. nth_opt new i \<noteq> nth_opt old i) [0..<length new]) = 1
            \<and> list_ex (\<lambda>i. isRevocation (nth_opt old i) (new ! i)) [0..<length new])
      in issue \<or> status \<or> revocation)"

section \<open>What \<open>JSON.stringify\<close> writes\<close>

definition attempt_json :: "NativeQemuAttemptRecord \<Rightarrow> json" where
  "attempt_json a = JObj ([(''schemaVersion'', JInt 1), (''executionKind'', JStr ''qemu''),
     (''issuanceRequestId'', JStr (qa_issuanceRequestId a)), (''attemptId'', JStr (qa_attemptId a)),
     (''reviewId'', JStr (qa_reviewId a)), (''attempt'', JInt (qa_attempt a)),
     (''descriptor'', descriptor_json (qa_descriptor a)), (''descriptorDigest'', JStr (qa_descriptorDigest a)),
     (''hostId'', JStr (qa_hostId a)), (''capacity'', JStr (qa_capacity a)), (''issuedAt'', JStr (qa_issuedAt a))]
     @ member_if ''revokedAt'' JStr (qa_revokedAt a))"

definition status_json :: "NativeQemuStatusRecord \<Rightarrow> json" where
  "status_json s = JObj [(''schemaVersion'', JInt 1), (''executionKind'', JStr ''qemu''),
     (''eventId'', JStr (qs_eventId s)), (''attemptId'', JStr (qs_attemptId s)),
     (''descriptorDigest'', JStr (qs_descriptorDigest s)), (''result'', JStr (qs_result s)), (''event'', qs_event s)]"

definition authority_json :: "authority_state \<Rightarrow> json" where
  "authority_json st = JObj [(''schemaVersion'', JInt 1), (''attempts'', JArr (map attempt_json (au_attempts st))),
     (''statuses'', JArr (map status_json (au_statuses st)))]"

section \<open>The two descriptor parsers\<close>

lemma has_own_keys: "has_own v k \<longleftrightarrow> k \<in> set (object_keys v)"
  by (auto simp: has_own_def get_field_def object_keys_def map_of_eq_None_iff)

lemma strict_exact: "distinct req \<Longrightarrow> strict_object v req [] \<longleftrightarrow> exact v req"
proof -
  assume d: "distinct req"
  have k: "distinct (object_keys v)" by (simp add: object_keys_def)
  have "set req \<subseteq> set (object_keys v) \<and> set (object_keys v) \<subseteq> set req \<longleftrightarrow>
      length (object_keys v) = length req \<and> set req \<subseteq> set (object_keys v)"
    using distinct_card[OF d] distinct_card[OF k] card_subset_eq[of "set (object_keys v)" "set req"]
    by (metis List.finite_set subset_antisym subset_refl)
  then show ?thesis unfolding strict_object_def exact_def exact_keys_def list_all_iff has_own_keys
    by (auto simp: subset_iff)
qed

lemma zod_protectedRef_headRef: "zod_protectedRef v = headRef v"
  by (simp add: zod_protectedRef_def headRef_def head_ref_ok_def safeHeadRef_def)

lemma zod_bounds_parse: "zod_bounds v = parseBounds v"
  by (simp add: zod_bounds_def parseBounds_def strict_exact)

lemma zod_blob_parse: "zod_blobIdentity v = parseConfigBlob v"
  by (simp add: zod_blobIdentity_def parseConfigBlob_def strict_exact)

lemma zod_script_parse: "zod_script v = parseScript v"
  by (simp add: zod_script_def parseScript_def strict_exact zod_scriptPath_def script_path_ok_def)

lemma descriptor_schema_eq:
  "qemuExecutionDescriptorSchema v = Some d \<longleftrightarrow> parseNativeQemuDescriptor v = Some d \<and> head_ref_ok (d_protectedRef d)"
  unfolding qemuExecutionDescriptorSchema_def parseNativeQemuDescriptor_def Let_def zod_protectedRef_headRef
    zod_bounds_parse zod_blob_parse zod_script_parse
  by (auto simp: opt_conv strict_exact descriptorFields_def candidateArgv_def jobArgv_def)

lemma descriptor_digest_eq: "qemuExecutionDescriptorDigest rt d = nativeQemuDescriptorDigest (runtime.truncate rt) d"
  by (simp add: qemuExecutionDescriptorDigest_def nativeQemuDescriptorDigest_def descriptor_preimage_def
    descriptor_fields_def runtime.truncate_def)

lemma option_eqI: "(\<And>y. x = Some y \<longleftrightarrow> z = Some y) \<Longrightarrow> x = z"
  by (cases x; cases z) auto

text \<open>C22: Native Git and the scheduler's host agree on execution descriptors. What native Git accepts as a
  descriptor is exactly what the host accepts, with the one additional demand that the protected ref is a safe head
  ref of at most 1024 characters; both read the same descriptor from it, and both compute the same digest.\<close>

theorem authority_and_host_agree_on_descriptors:
  "qemuExecutionDescriptorSchema v =
     do { d \<leftarrow> parseNativeQemuDescriptor v; guardO (head_ref_ok (d_protectedRef d)); Some d }
   \<and> qemuExecutionDescriptorDigest rt d = nativeQemuDescriptorDigest (runtime.truncate rt) d"
proof
  show "qemuExecutionDescriptorSchema v =
      do { d \<leftarrow> parseNativeQemuDescriptor v; guardO (head_ref_ok (d_protectedRef d)); Some d }"
  proof (rule option_eqI)
    show "qemuExecutionDescriptorSchema v = Some e \<longleftrightarrow>
        do { d \<leftarrow> parseNativeQemuDescriptor v; guardO (head_ref_ok (d_protectedRef d)); Some d } = Some e" for e
      by (auto simp: descriptor_schema_eq opt_conv)
  qed
qed (rule descriptor_digest_eq)

section \<open>Valid states and their texts\<close>

definition qemu_descriptor_valid :: "NativeQemuDescriptor \<Rightarrow> bool" where
  "qemu_descriptor_valid d \<longleftrightarrow> descriptor_valid d \<and> head_ref_ok (d_protectedRef d)"

definition attempt_valid :: "project_runtime \<Rightarrow> NativeQemuAttemptRecord \<Rightarrow> bool" where
  "attempt_valid rt a \<longleftrightarrow> zod_uuid rt (qa_issuanceRequestId a) \<and> zod_uuid rt (qa_attemptId a)
     \<and> matches hex64Pattern (qa_reviewId a) \<and> 0 < qa_attempt a \<and> safe_integer (qa_attempt a)
     \<and> qemu_descriptor_valid (qa_descriptor a) \<and> matches digestPattern (qa_descriptorDigest a)
     \<and> matches identifierPattern (qa_hostId a) \<and> matches identifierPattern (qa_capacity a)
     \<and> zod_datetime rt (qa_issuedAt a) \<and> pred_option (zod_datetime rt) (qa_revokedAt a)
     \<and> qemuExecutionDescriptorDigest rt (qa_descriptor a) = qa_descriptorDigest a"

definition status_valid :: "project_runtime \<Rightarrow> NativeQemuStatusRecord \<Rightarrow> bool" where
  "status_valid rt s \<longleftrightarrow> zod_uuid rt (qs_eventId s) \<and> zod_uuid rt (qs_attemptId s)
     \<and> matches digestPattern (qs_descriptorDigest s) \<and> qs_result s \<in> {''success'', ''failure'', ''cancelled''}
     \<and> is_record (qs_event s)"

definition state_valid :: "project_runtime \<Rightarrow> authority_state \<Rightarrow> bool" where
  "state_valid rt st \<longleftrightarrow> list_all (attempt_valid rt) (au_attempts st) \<and> list_all (status_valid rt) (au_statuses st)
     \<and> state_refinement st"

lemma zod_checked_eq [simp]: "zod_checked ok v = Some s \<longleftrightarrow> v = Some (JStr s) \<and> ok s"
  by (auto simp: zod_checked_def bind_eq_Some_conv)

lemma zod_positive_eq [simp]: "zod_positive v = Some i \<longleftrightarrow> v = Some (JInt i) \<and> safe_integer i \<and> 0 < i"
  by (auto simp: zod_positive_def bind_eq_Some_conv)

lemma descriptor_schema_valid: "qemuExecutionDescriptorSchema v = Some d \<Longrightarrow> qemu_descriptor_valid d"
  by (auto simp: descriptor_schema_eq qemu_descriptor_valid_def intro: parse_descriptor_valid)

lemma descriptor_schema_json: "qemu_descriptor_valid d \<Longrightarrow> qemuExecutionDescriptorSchema (descriptor_json d) = Some d"
  by (simp add: descriptor_schema_eq qemu_descriptor_valid_def parse_descriptor_json)

lemma strict_JObj:
  assumes "set req \<subseteq> fst ` set ms" "fst ` set ms \<subseteq> set req \<union> set extra"
  shows "strict_object (JObj ms) req extra"
  using assms unfolding strict_object_def list_all_iff has_own_keys by auto

lemma optional_Some: "optional f v = Some x \<longleftrightarrow> (v = None \<and> x = None) \<or> (\<exists>w y. v = Some w \<and> f (Some w) = Some y \<and> x = Some y)"
  by (cases v) (auto simp: optional_def)

lemma attempt_schema_valid: "attemptSchema rt v = Some a \<Longrightarrow> attempt_valid rt a"
  unfolding attemptSchema_def Let_def
  by (auto simp: opt_conv optional_Some attempt_valid_def dest: descriptor_schema_valid)

lemma attempt_schema_json: "attempt_valid rt a \<Longrightarrow> attemptSchema rt (attempt_json a) = Some a"
proof -
  assume v: "attempt_valid rt a"
  have "strict_object (attempt_json a) [''schemaVersion'', ''executionKind'', ''issuanceRequestId'', ''attemptId'', ''reviewId'',
       ''attempt'', ''descriptor'', ''descriptorDigest'', ''hostId'', ''capacity'', ''issuedAt''] [''revokedAt'']"
    unfolding attempt_json_def by (rule strict_JObj) (auto simp: member_if_def split: option.splits)
  with v show ?thesis
    unfolding attemptSchema_def Let_def opt_conv
    by (cases a) (cases "qa_revokedAt a"; simp add: attempt_valid_def attempt_json_def member_if_def optional_Some descriptor_schema_json)
qed

text \<open>The parser reads nothing else from the written form of an attempt than the attempt.\<close>

lemma parts_json_parsed:
  "parseBounds (Some (bounds_json b)) = Some b' \<Longrightarrow> b' = b"
  "parseConfigBlob (Some (blob_json c)) = Some c' \<Longrightarrow> c' = c"
  "parseScript (Some (script_json s)) = Some s' \<Longrightarrow> s' = s"
  by (auto simp: parseBounds_def parseConfigBlob_def parseScript_def opt_conv bounds_json_def blob_json_def script_json_def)

lemma descriptor_json_parsed: "parseNativeQemuDescriptor (descriptor_json d) = Some e \<Longrightarrow> e = d"
  unfolding parseNativeQemuDescriptor_def Let_def opt_conv
  by (cases d) (auto simp: descriptor_json_def jobArgv_def map_eq_Cons_conv dest: parts_json_parsed)

lemma attempt_json_parsed: "attemptSchema rt (attempt_json a) = Some x \<Longrightarrow> x = a"
proof -
  assume p: "attemptSchema rt (attempt_json a) = Some x"
  have "qemuExecutionDescriptorSchema (descriptor_json (qa_descriptor a)) = Some e \<Longrightarrow> e = qa_descriptor a" for e
    by (auto simp: descriptor_schema_eq dest: descriptor_json_parsed)
  then show "x = a" using p unfolding attemptSchema_def Let_def opt_conv attempt_json_def member_if_def
    by (cases a) (auto simp: optional_Some split: option.splits)
qed

lemma status_schema_valid: "statusSchema rt v = Some s \<Longrightarrow> status_valid rt s"
  unfolding statusSchema_def Let_def by (auto simp: opt_conv status_valid_def)

lemma status_schema_json: "status_valid rt s \<Longrightarrow> statusSchema rt (status_json s) = Some s"
proof -
  assume v: "status_valid rt s"
  have "strict_object (status_json s) [''schemaVersion'', ''executionKind'', ''eventId'', ''attemptId'', ''descriptorDigest'',
       ''result'', ''event''] []"
    unfolding status_json_def by (rule strict_JObj) auto
  with v show ?thesis
    unfolding statusSchema_def Let_def opt_conv by (cases s) (auto simp: status_valid_def status_json_def)
qed

lemma state_schema_valid: "stateSchema rt v = Some st \<Longrightarrow> state_valid rt st"
  unfolding stateSchema_def Let_def
  by (auto simp: opt_conv state_valid_def intro: as_list_all attempt_schema_valid status_schema_valid)

lemma state_schema_json: "state_valid rt st \<Longrightarrow> stateSchema rt (authority_json st) = Some st"
proof -
  assume v: "state_valid rt st"
  have "strict_object (authority_json st) [''schemaVersion'', ''attempts'', ''statuses''] []"
    unfolding authority_json_def by (rule strict_JObj) auto
  moreover have "mapM (attemptSchema rt) (map attempt_json (au_attempts st)) = Some (au_attempts st)"
    "mapM (statusSchema rt) (map status_json (au_statuses st)) = Some (au_statuses st)"
    using v by (auto intro!: mapM_map_id attempt_schema_json status_schema_json simp: state_valid_def list_all_iff)
  ultimately show ?thesis
    using v unfolding stateSchema_def Let_def opt_conv by (cases st) (simp add: authority_json_def state_valid_def)
qed

interpretation authority_codec: codec authority_json "stateSchema rt" "state_valid rt" for rt
  by unfold_locales (rule state_schema_json, assumption, rule state_schema_valid)

end
