(* ===== verification/Candidate_Inputs.thy ===== *)
theory Candidate_Inputs
  imports Project_Service Authority_State
begin

text \<open>
  From a current review to the execution descriptor of one of its QEMU jobs: reading blobs of the candidate tree
  (\<open>candidate-execution-git.ts\<close>), the runner configuration (\<open>native-candidate-job-config.ts\<close>), the plan with the
  scripts of its jobs (\<open>native-candidate-job-inputs.ts\<close>, \<open>authoritative-native-candidate-job-inputs.ts\<close>), the
  review the plan is read for (\<open>authoritative-execution-review-inputs.ts\<close>) and the descriptor
  (\<open>authoritative-qemu-execution-descriptor.ts\<close>). Every failure of this code is one and the same error for its
  callers, so the definitions return \<open>None\<close> where the code throws. Outputs of the pinned Git executable and the document
  that the YAML library makes of a text are arguments; a view is what Git answers during one phase of a read.
\<close>

section \<open>Blobs of the candidate\<close>

record candidate_view =
  cv_rev_parse :: "string \<Rightarrow> string option"
  cv_ls_tree :: "string \<Rightarrow> string \<Rightarrow> string option"
  cv_size :: "string \<Rightarrow> string option"
  cv_blob :: "string \<Rightarrow> string option"

record candidate_target =
  ct_protectedRef :: string
  ct_expectedProtectedHead :: string
  ct_candidateCommit :: string
  ct_candidateTree :: string

record git_blob =
  gb_objectId :: string
  gb_bytes :: string

definition gitBuffer :: "nat \<Rightarrow> string option \<Rightarrow> string option" where
  "gitBuffer maxBuffer output = do { bytes \<leftarrow> output; guardO (length bytes \<le> maxBuffer); Some bytes }"

definition gitText :: "string option \<Rightarrow> string option" where
  "gitText output = map_option (\<lambda>bytes. trim (ascii bytes)) (gitBuffer 4096 output)"

definition assertCandidateObjects :: "candidate_view \<Rightarrow> candidate_target \<Rightarrow> bool" where
  "assertCandidateObjects view target \<longleftrightarrow>
     gitText (cv_rev_parse view (ct_protectedRef target @ ''^{commit}'')) = Some (ct_expectedProtectedHead target)
     \<and> gitText (cv_rev_parse view (ct_candidateCommit target @ ''^{commit}'')) = Some (ct_candidateCommit target)
     \<and> gitText (cv_rev_parse view (ct_candidateCommit target @ ''^{tree}'')) = Some (ct_candidateTree target)"

record tree_entry =
  ent_mode :: string
  ent_type :: string
  ent_objectId :: string

text \<open>One line \<open>mode type object TAB name\<close> of \<open>git ls-tree\<close>.\<close>

definition parse_tree_entry :: "string \<Rightarrow> (tree_entry \<times> string) option" where
  "parse_tree_entry line =
     (let mode = takeWhile (\<lambda>c. c \<noteq> CHR '' '') line; r1 = drop (length mode + 1) line;
          type = takeWhile (\<lambda>c. c \<noteq> CHR '' '') r1; r2 = drop (length type + 1) r1;
          objectId = takeWhile (\<lambda>c. c \<noteq> CHR 0x09) r2; name = drop (length objectId + 1) r2 in
      if matches modePattern mode \<and> type \<in> set [''blob'', ''tree'', ''commit''] \<and> matches objectIdPattern objectId
        \<and> name \<noteq> [] \<and> CHR ''/'' \<notin> set name \<and> line = mode @ '' '' @ type @ '' '' @ objectId @ [CHR 0x09] @ name
      then Some (\<lparr>ent_mode = mode, ent_type = type, ent_objectId = objectId\<rparr>, name) else None)"

text \<open>The outer \<open>None\<close> is the error, the inner one the absence of the entry.\<close>

definition readLiteralTreeEntry :: "candidate_view \<Rightarrow> string \<Rightarrow> string \<Rightarrow> tree_entry option option" where
  "readLiteralTreeEntry view tree component = do {
     listing \<leftarrow> gitBuffer 4096 (cv_ls_tree view tree component);
     if listing = [] then Some None
     else do {
       guardO (last listing = CHR 0x00 \<and> CHR 0x00 \<notin> set (butlast listing));
       (entry, name) \<leftarrow> parse_tree_entry (butlast listing);
       guardO (name = component);
       Some (Some entry) } }"

fun candidate_entry :: "candidate_view \<Rightarrow> string \<Rightarrow> string list \<Rightarrow> string option" where
  "candidate_entry view tree [] = Some tree"
| "candidate_entry view tree [component] = do {
     found \<leftarrow> readLiteralTreeEntry view tree component;
     entry \<leftarrow> found;
     guardO (ent_mode entry \<in> set [''100644'', ''100755''] \<and> ent_type entry = ''blob'');
     Some (ent_objectId entry) }"
| "candidate_entry view tree (component # rest) = do {
     found \<leftarrow> readLiteralTreeEntry view tree component;
     entry \<leftarrow> found;
     guardO (ent_mode entry = ''040000'' \<and> ent_type entry = ''tree'');
     candidate_entry view (ent_objectId entry) rest }"

definition readCandidateBlob :: "candidate_view \<Rightarrow> string \<Rightarrow> string \<Rightarrow> nat \<Rightarrow> git_blob option" where
  "readCandidateBlob view tree path maximumBytes = do {
     objectId \<leftarrow> candidate_entry view tree (split_on CHR ''/'' path);
     sizeText \<leftarrow> gitText (cv_size view objectId);
     guardO (matches naturalPattern sizeText \<and> undec sizeText \<le> maximumBytes);
     bytes \<leftarrow> gitBuffer maximumBytes (cv_blob view objectId);
     guardO (length bytes = undec sizeText);
     Some \<lparr>gb_objectId = objectId, gb_bytes = bytes\<rparr> }"

fun candidate_path_exists :: "candidate_view \<Rightarrow> string \<Rightarrow> string list \<Rightarrow> bool option" where
  "candidate_path_exists view tree [] = Some True"
| "candidate_path_exists view tree (component # rest) = do {
     found \<leftarrow> readLiteralTreeEntry view tree component;
     (case found of
        None \<Rightarrow> Some False
      | Some entry \<Rightarrow>
          if rest = [] then Some True
          else if ent_mode entry \<noteq> ''040000'' \<or> ent_type entry \<noteq> ''tree'' then Some True
          else candidate_path_exists view (ent_objectId entry) rest) }"

definition candidatePathExists :: "candidate_view \<Rightarrow> string \<Rightarrow> string \<Rightarrow> bool option" where
  "candidatePathExists view tree path = candidate_path_exists view tree (split_on CHR ''/'' path)"

section \<open>The runner configuration\<close>

text \<open>The document that the YAML library makes of a text without errors and warnings: nodes with an anchor and a tag, and
  aliases.\<close>

datatype yaml = YAlias | YNode "string option" "string option" yaml_content
and yaml_content = YScalar json | YSeq "yaml list" | YMap "(yaml \<times> yaml) list"

fun yaml_key :: "yaml \<Rightarrow> string option" where
  "yaml_key (YNode anchor tag (YScalar (JStr s))) = Some s"
| "yaml_key _ = None"

text \<open>The visitor: no alias, no anchor, no explicit tag, and every key a string other than the merge key.\<close>

fun yaml_strict :: "yaml \<Rightarrow> bool" and yaml_content_strict :: "yaml_content \<Rightarrow> bool" where
  "yaml_strict YAlias = False"
| "yaml_strict (YNode anchor tag content) = (anchor = None \<and> tag = None \<and> yaml_content_strict content)"
| "yaml_content_strict (YScalar v) = True"
| "yaml_content_strict (YSeq nodes) = list_all yaml_strict nodes"
| "yaml_content_strict (YMap pairs) = list_all (\<lambda>p. yaml_strict (fst p) \<and> yaml_strict (snd p)
     \<and> yaml_key (fst p) \<noteq> None \<and> yaml_key (fst p) \<noteq> Some ''<<'') pairs"

fun yaml_value :: "yaml \<Rightarrow> json" and yaml_content_value :: "yaml_content \<Rightarrow> json" where
  "yaml_value YAlias = JNull"
| "yaml_value (YNode anchor tag content) = yaml_content_value content"
| "yaml_content_value (YScalar v) = v"
| "yaml_content_value (YSeq nodes) = JArr (map yaml_value nodes)"
| "yaml_content_value (YMap pairs) = JObj (map (\<lambda>p. (case yaml_key (fst p) of None \<Rightarrow> [] | Some k \<Rightarrow> k, yaml_value (snd p))) pairs)"

definition parseStrictYaml :: "(string \<Rightarrow> yaml option) \<Rightarrow> string \<Rightarrow> json option" where
  "parseStrictYaml parseDocument bytes = do {
     guardO (length bytes \<le> 65536 \<and> CHR 0x00 \<notin> set bytes \<and> utf8_valid (map of_char bytes));
     document \<leftarrow> parseDocument (if startsWith byte_order_mark bytes then drop 3 bytes else bytes);
     guardO (yaml_strict document);
     Some (yaml_value document) }"

record config_job =
  cj_name :: string
  cj_kind :: execution_kind
  cj_script :: string

definition jobSchema :: "json \<Rightarrow> string option" where
  "jobSchema v = do {
     guardO (strict_object v [''script'', ''argv''] []);
     script \<leftarrow> as_matching scriptPathPattern (get_field v ''script'');
     as_literal (JArr (map JStr candidateArgv)) (get_field v ''argv'');
     Some script }"

definition jobGroupSchema :: "execution_kind \<Rightarrow> json option \<Rightarrow> config_job list option" where
  "jobGroupSchema kind v = do {
     w \<leftarrow> as_record v;
     guardO (strict_object w [''jobs''] []);
     jobs \<leftarrow> as_record (get_field w ''jobs'');
     mapM (\<lambda>m. do {
       guardO (matches namePattern (fst m));
       script \<leftarrow> jobSchema (snd m);
       Some \<lparr>cj_name = fst m, cj_kind = kind, cj_script = script\<rparr> }) (members jobs) }"

definition canonicalJobs :: "config_job list \<Rightarrow> config_job list" where
  "canonicalJobs jobs = sort_key cj_name jobs"

definition parseNativeCandidateJobConfig :: "(string \<Rightarrow> yaml option) \<Rightarrow> string \<Rightarrow> config_job list option" where
  "parseNativeCandidateJobConfig parseDocument bytes = do {
     v \<leftarrow> parseStrictYaml parseDocument bytes;
     guardO (strict_object v [''schemaVersion'', ''ordinary'', ''qemu''] []);
     as_literal (JInt 4) (get_field v ''schemaVersion'');
     ordinary \<leftarrow> jobGroupSchema OrdinarySysbox (get_field v ''ordinary'');
     qemu \<leftarrow> jobGroupSchema Qemu (get_field v ''qemu'');
     let ordinaryJobs = canonicalJobs ordinary;
     let qemuJobs = canonicalJobs qemu;
     guardO (\<not> list_ex (\<lambda>j. cj_name j \<in> set (map cj_name qemuJobs)) ordinaryJobs);
     guardO (length ordinaryJobs + length qemuJobs \<le> 64);
     Some (ordinaryJobs @ qemuJobs) }"

section \<open>The plan of the candidate\<close>

record NativeCandidateJobInputs =
  ni_configBlob :: "ReviewBlob option"
  ni_plan :: "PlannedJob list"

record candidate_io =
  ca_before :: candidate_view
  ca_read :: candidate_view
  ca_after :: candidate_view
  ca_parseDocument :: "string \<Rightarrow> yaml option"

definition bytes_digest :: "project_runtime \<Rightarrow> string \<Rightarrow> string" where
  "bytes_digest rt bytes = ''sha256:'' @ sha256 rt bytes"

definition planned_entry :: "project_runtime \<Rightarrow> candidate_view \<Rightarrow> string \<Rightarrow> config_job \<Rightarrow> PlannedJob option" where
  "planned_entry rt view tree job = do {
     scriptBlob \<leftarrow> readCandidateBlob view tree (cj_script job) (1024 * 1024);
     Some \<lparr>pj_executionKind = cj_kind job, pj_jobName = cj_name job, pj_scriptObjectId = gb_objectId scriptBlob,
       pj_scriptSha256 = bytes_digest rt (gb_bytes scriptBlob), pj_scriptPath = cj_script job\<rparr> }"

definition readNativeCandidateJobInputsFromGit ::
  "project_runtime \<Rightarrow> candidate_io \<Rightarrow> candidate_target \<Rightarrow> NativeCandidateJobInputs option" where
  "readNativeCandidateJobInputsFromGit rt io target = do {
     guardO (assertCandidateObjects (ca_before io) target);
     found \<leftarrow> candidatePathExists (ca_read io) (ct_candidateTree target) ''.dim/ci/runner.yml'';
     if \<not> found then do {
       guardO (assertCandidateObjects (ca_after io) target);
       Some \<lparr>ni_configBlob = None, ni_plan = []\<rparr> }
     else do {
       configBlob \<leftarrow> readCandidateBlob (ca_read io) (ct_candidateTree target) ''.dim/ci/runner.yml'' (64 * 1024);
       jobs \<leftarrow> parseNativeCandidateJobConfig (ca_parseDocument io) (gb_bytes configBlob);
       plan \<leftarrow> mapM (planned_entry rt (ca_read io) (ct_candidateTree target)) jobs;
       guardO (assertCandidateObjects (ca_after io) target);
       Some \<lparr>ni_configBlob = Some \<lparr>vb_objectId = gb_objectId configBlob, vb_sha256 = bytes_digest rt (gb_bytes configBlob)\<rparr>,
         ni_plan = plan\<rparr> } }"

text \<open>One resolution of the target of a Project: the runtime and the database before and after the root is proved.\<close>

type_synonym resolution = "service_runtime \<times> project_db \<times> project_db"

definition resolve_target :: "project_runtime \<Rightarrow> resolution \<Rightarrow> string \<Rightarrow> AuthoritativeNativeRootTarget option" where
  "resolve_target rt r projectId = (case r of (sr, before, db) \<Rightarrow>
     (case resolveAuthoritativeNativeRootTarget rt sr projectId before db of Inl _ \<Rightarrow> None | Inr target \<Rightarrow> Some target))"

record execution_io =
  xe_snapshot :: resolution
  xe_snapshot_reviews :: "AuthoritativeNativeReviewEnvelope list"
  xe_snapshot_freshness :: freshness_io
  xe_verified :: resolution
  xe_candidate :: candidate_io
  xe_verified_again :: resolution
  xe_current :: resolution
  xe_current_reviews :: "AuthoritativeNativeReviewEnvelope list"
  xe_current_freshness :: freshness_io

definition loadAuthoritativeNativeCandidateJobInputs ::
  "project_runtime \<Rightarrow> execution_io \<Rightarrow> string \<Rightarrow> string \<Rightarrow> string \<Rightarrow> NativeCandidateJobInputs option" where
  "loadAuthoritativeNativeCandidateJobInputs rt io projectId candidateCommit candidateTree = do {
     guardO (matches projectPattern projectId \<and> matches objectIdPattern candidateCommit \<and> matches objectIdPattern candidateTree);
     verified \<leftarrow> resolve_target rt (xe_verified io) projectId;
     inputs \<leftarrow> readNativeCandidateJobInputsFromGit rt (xe_candidate io)
       \<lparr>ct_protectedRef = ch_protectedRef (gt_currentHead verified), ct_expectedProtectedHead = ch_commit (gt_currentHead verified),
        ct_candidateCommit = candidateCommit, ct_candidateTree = candidateTree\<rparr>;
     again \<leftarrow> resolve_target rt (xe_verified_again io) projectId;
     guardO (gt_imported again = gt_imported verified \<and> gt_currentHead again = gt_currentHead verified);
     Some inputs }"

section \<open>The review\<close>

definition loadAuthoritativeExecutionReview ::
  "project_runtime \<Rightarrow> execution_io \<Rightarrow> string \<Rightarrow> string \<Rightarrow>
     (AuthoritativeNativeRootTarget \<times> AuthoritativeNativeReviewEnvelope) option" where
  "loadAuthoritativeExecutionReview rt io projectId reviewId = do {
     target \<leftarrow> resolve_target rt (xe_snapshot io) projectId;
     envelope \<leftarrow> readAuthoritativeNativeReviewEnvelope (xe_snapshot_reviews io) reviewId;
     guardO (rv_projectId (en_review envelope) = projectId);
     guardO (nativeHumanReviewStaleReasons (xe_snapshot_freshness io) target (en_review envelope) = []);
     Some (target, envelope) }"

definition loadCurrentAuthoritativeExecutionInputs ::
  "project_runtime \<Rightarrow> execution_io \<Rightarrow> AuthoritativeNativeRootTarget \<times> AuthoritativeNativeReviewEnvelope \<Rightarrow>
     (NativeCandidateJobInputs \<times> AuthoritativeNativeReview) option" where
  "loadCurrentAuthoritativeExecutionInputs rt io snapshot = (case snapshot of (target, envelope) \<Rightarrow> do {
     let review = en_review envelope;
     inputs \<leftarrow> loadAuthoritativeNativeCandidateJobInputs rt io (rv_projectId review) (rv_candidateCommit review)
       (rv_candidateTree review);
     currentTarget \<leftarrow> resolve_target rt (xe_current io) (rv_projectId review);
     currentEnvelope \<leftarrow> readAuthoritativeNativeReviewEnvelope (xe_current_reviews io) (rv_reviewId review);
     guardO (currentEnvelope = envelope \<and> currentTarget = target);
     guardO (nativeHumanReviewStaleReasons (xe_current_freshness io) currentTarget (en_review currentEnvelope) = []);
     Some (inputs, en_review currentEnvelope) })"

section \<open>The descriptor\<close>

record TrustedCapacity =
  tc_admissionGeneration :: string
  tc_jobBaseImage :: string
  tc_runnerBaseImage :: string
  tc_bounds :: QemuBounds

definition trustedCapacity_ok :: "TrustedCapacity \<Rightarrow> bool" where
  "trustedCapacity_ok c \<longleftrightarrow> matches generationPattern (tc_admissionGeneration c) \<and> matches imagePattern (tc_jobBaseImage c)
     \<and> matches imagePattern (tc_runnerBaseImage c) \<and> zod_bounds (Some (bounds_json (tc_bounds c))) \<noteq> None"

definition derived_descriptor ::
  "TrustedCapacity \<Rightarrow> AuthoritativeNativeReview \<Rightarrow> string \<Rightarrow> ReviewBlob \<Rightarrow> PlannedJob \<Rightarrow> NativeQemuDescriptor" where
  "derived_descriptor capacity review quality config job =
     \<lparr>d_schemaVersion = 1, d_executionKind = ''qemu'', d_admissionGeneration = tc_admissionGeneration capacity,
      d_jobName = pj_jobName job, d_runnerBaseImage = tc_runnerBaseImage capacity, d_bounds = tc_bounds capacity,
      d_projectId = rv_projectId review, d_repositoryId = ''root'', d_protectedRef = rv_protectedRef review,
      d_expectedProtectedHead = rv_expectedProtectedHead review, d_candidateCommit = rv_candidateCommit review,
      d_candidateTree = rv_candidateTree review, d_policyRevision = rv_policyRevision review,
      d_requiredReviewRevision = rv_requiredReviewRevision review, d_requiredJobSetRevision = quality,
      d_evidenceClass = ''candidate-controlled'',
      d_configBlob = \<lparr>br_objectId = vb_objectId config, br_sha256 = vb_sha256 config\<rparr>,
      d_script = \<lparr>sr_path = pj_scriptPath job, sr_objectId = pj_scriptObjectId job, sr_sha256 = pj_scriptSha256 job\<rparr>,
      d_argv = candidateArgv, d_jobImage = tc_jobBaseImage capacity\<rparr>"

definition deriveAuthoritativeQemuExecutionDescriptor ::
  "project_runtime \<Rightarrow> execution_io \<Rightarrow> string \<Rightarrow> string \<Rightarrow> string \<Rightarrow> TrustedCapacity \<Rightarrow>
     (string \<times> NativeQemuDescriptor \<times> string) option" where
  "deriveAuthoritativeQemuExecutionDescriptor rt io projectId reviewId jobName capacity = do {
     guardO (matches projectPattern projectId \<and> matches hex64Pattern reviewId \<and> matches namePattern jobName
       \<and> trustedCapacity_ok capacity);
     snapshot \<leftarrow> loadAuthoritativeExecutionReview rt io projectId reviewId;
     (inputs, review) \<leftarrow> loadCurrentAuthoritativeExecutionInputs rt io snapshot;
     selected \<leftarrow> find_row (\<lambda>j. pj_jobName j = jobName) (ni_plan inputs);
     guardO (pj_executionKind selected = Qemu);
     configBlob \<leftarrow> ni_configBlob inputs;
     descriptor \<leftarrow> qemuExecutionDescriptorSchema (descriptor_json
       (derived_descriptor capacity review (en_qualityRevision (snd snapshot)) configBlob selected));
     Some (rv_reviewId review, descriptor, qemuExecutionDescriptorDigest rt descriptor) }"

end
