(* ===== verification/Authority_Files.thy ===== *)
theory Authority_Files
  imports Authority_State
begin

text \<open>
  How the state of the QEMU authority is kept on disk (\<open>native-qemu-authority-files.ts\<close>) and the operations of
  \<open>NativeQemuAuthorityState\<close> on it. A directory is its owner, its mode and its entries, each a name and an inode
  number; the link count of an inode is the number of entries that name it. \<open>open\<close>, \<open>link\<close>, \<open>rename\<close>
  and \<open>unlink\<close> are the POSIX operations on entries. What the directory holds after each call is taken to
  survive a crash, in the order of the calls, which is what the \<open>sync\<close> calls between them are for. Where a process
  dies, or a fault hook throws, is an argument: inside the write with the number of bytes already written, between the
  link and the rename, or between the rename and the unlink. Names, inode numbers, times and UUIDs that the process
  draws are arguments as well.
\<close>

section \<open>The directory\<close>

record inode =
  in_text :: string
  in_uid :: nat
  in_mode :: nat
  in_regular :: bool

record authority_directory =
  ad_uid :: nat
  ad_mode :: nat
  ad_entries :: "(string \<times> nat) list"
  ad_inodes :: "nat \<Rightarrow> inode"

text \<open>The directory \<open>dim-authoritative-qemu\<close> of a repository, \<open>None\<close> while it does not exist.\<close>

type_synonym authority_store = "authority_directory option"

datatype authority_error =
    StoreLayout | StateMissing | NoStagingEvidence | StagingNotProved | RenameNotProved | IdentityConflict
  | DigestConflict | NotPrivate | NotSingle | StateInvalid | TooLarge | NameTaken | Stopped | SchemaInvalid
  | IssuanceConflict | AlreadyCurrent | AttemptNotFound | OtherStatus | StatusMismatch

type_synonym 'a authority_outcome = "(authority_error, 'a) result \<times> authority_store"

text \<open>Octal modes: \<open>0o700\<close> is 448, \<open>0o600\<close> is 384.\<close>

definition maximumStateBytes :: nat where
  "maximumStateBytes = 4 * 1024 * 1024"

definition state_file_name :: string where
  "state_file_name = ''state.json''"

definition stagingPattern :: rexp where
  "stagingPattern = Seq (lit ''.state.json.'') (Seq hex64Pattern (Seq (lit ''.'') (Seq uuidPattern (lit ''.tmp''))))"

definition publicationPattern :: rexp where
  "publicationPattern = Seq (lit ''.state.json.'') (Seq hex64Pattern (Seq (lit ''.'') (Seq uuidPattern (lit ''.publish''))))"

text \<open>The groups that the two patterns capture: the digest and the identity of a publication.\<close>

definition captured_digest :: "string \<Rightarrow> string" where
  "captured_digest name = take 64 (drop 12 name)"

definition captured_identity :: "string \<Rightarrow> string" where
  "captured_identity name = take 36 (drop 77 name)"

definition staging_name :: "string \<Rightarrow> string \<Rightarrow> string" where
  "staging_name digest identity = ''.state.json.'' @ digest @ ''.'' @ identity @ ''.tmp''"

definition publication_name :: "string \<Rightarrow> string \<Rightarrow> string" where
  "publication_name digest identity = ''.state.json.'' @ digest @ ''.'' @ identity @ ''.publish''"

definition nlink :: "authority_directory \<Rightarrow> nat \<Rightarrow> nat" where
  "nlink dir i = count_rows (\<lambda>e. snd e = i) (ad_entries dir)"

definition add_entry :: "string \<Rightarrow> nat \<Rightarrow> authority_directory \<Rightarrow> authority_directory" where
  "add_entry name i dir = dir\<lparr>ad_entries := ad_entries dir @ [(name, i)]\<rparr>"

definition unlink_entry :: "string \<Rightarrow> authority_directory \<Rightarrow> authority_directory" where
  "unlink_entry name dir = dir\<lparr>ad_entries := delete_rows (\<lambda>e. fst e = name) (ad_entries dir)\<rparr>"

definition rename_entry :: "string \<Rightarrow> string \<Rightarrow> authority_directory \<Rightarrow> authority_directory" where
  "rename_entry old new dir = (case map_of (ad_entries dir) old of
     None \<Rightarrow> dir
   | Some i \<Rightarrow> if map_of (ad_entries dir) new = Some i then dir
       else dir\<lparr>ad_entries := delete_rows (\<lambda>e. fst e = old \<or> fst e = new) (ad_entries dir) @ [(new, i)]\<rparr>)"

definition create_file :: "nat \<Rightarrow> string \<Rightarrow> nat \<Rightarrow> string \<Rightarrow> authority_directory \<Rightarrow> authority_directory" where
  "create_file uid name i content dir = add_entry name i
     (dir\<lparr>ad_inodes := (ad_inodes dir)(i := \<lparr>in_text = content, in_uid = uid, in_mode = 384, in_regular = True\<rparr>)\<rparr>)"

section \<open>Reading and recovering\<close>

record state_file =
  sf_inode :: nat
  sf_serialized :: string
  sf_state :: authority_state

definition assertPrivateFile :: "nat \<Rightarrow> inode \<Rightarrow> bool" where
  "assertPrivateFile uid node \<longleftrightarrow> in_regular node \<and> in_uid node = uid \<and> in_mode node = 384"

definition readState :: "project_runtime \<Rightarrow> nat \<Rightarrow> authority_directory \<Rightarrow> string \<Rightarrow> (authority_error, state_file) result" where
  "readState rt uid dir name = (case map_of (ad_entries dir) name of
     None \<Rightarrow> Inl StateMissing
   | Some i \<Rightarrow>
       let node = ad_inodes dir i in
       if \<not> assertPrivateFile uid node then Inl NotPrivate
       else if maximumStateBytes < length (in_text node) then Inl TooLarge
       else case Option.bind (json_parse (in_text node)) (stateSchema rt) of
           None \<Rightarrow> Inl StateInvalid
         | Some st \<Rightarrow> Inr \<lparr>sf_inode = i, sf_serialized = in_text node, sf_state = st\<rparr>)"

definition assertPrivateDirectory :: "nat \<Rightarrow> authority_directory \<Rightarrow> bool" where
  "assertPrivateDirectory uid dir \<longleftrightarrow> ad_uid dir = uid \<and> ad_mode dir = 448"

definition layout_ok :: "authority_directory \<Rightarrow> bool" where
  "layout_ok dir \<longleftrightarrow>
     list_all (\<lambda>e. in_regular (ad_inodes dir (snd e)) \<and> (fst e = state_file_name \<or> matches stagingPattern (fst e)
       \<or> matches publicationPattern (fst e))) (ad_entries dir)
     \<and> length (filter (matches stagingPattern) (map fst (ad_entries dir))) \<le> 1
     \<and> length (filter (matches publicationPattern) (map fst (ad_entries dir))) \<le> 1"

text \<open>The checks before a rename intent is carried out: \<open>recoverBeforeRename\<close> up to its \<open>rename\<close>.\<close>

definition rename_intent_proved ::
  "project_runtime \<Rightarrow> nat \<Rightarrow> authority_directory \<Rightarrow> string \<Rightarrow> string \<Rightarrow> state_file \<Rightarrow> state_file option \<Rightarrow> (authority_error, unit) result" where
  "rename_intent_proved rt uid dir stagingName publicationName staged fin =
     (if captured_digest stagingName \<noteq> captured_digest publicationName
        \<or> captured_identity stagingName \<noteq> captured_identity publicationName then Inl IdentityConflict
      else bindR (readState rt uid dir publicationName) (\<lambda>publication.
        if sf_inode staged \<noteq> sf_inode publication \<or> nlink dir (sf_inode staged) \<noteq> 2 \<or> nlink dir (sf_inode publication) \<noteq> 2
          \<or> sf_serialized staged \<noteq> sf_serialized publication \<or> \<not> isSuccessor (map_option sf_state fin) (sf_state staged)
        then Inl RenameNotProved
        else if (case fin of None \<Rightarrow> False | Some f \<Rightarrow> nlink dir (sf_inode f) \<noteq> 1) then Inl NotSingle
        else Inr ()))"

text \<open>What a directory that passes the checks of \<open>readNativeQemuAuthorityStateFile\<close> holds: a state and no
  publication, a publication that is linked and not yet renamed, or one that is renamed and not yet unlinked.\<close>

datatype publication = Settled authority_state | Linked string string authority_state | Renamed string authority_state

definition inspect_directory :: "project_runtime \<Rightarrow> nat \<Rightarrow> authority_directory \<Rightarrow> (authority_error, publication) result" where
  "inspect_directory rt uid dir =
     (let names = map fst (ad_entries dir);
          stagingEntries = filter (matches stagingPattern) names;
          publicationEntries = filter (matches publicationPattern) names in
      if \<not> assertPrivateDirectory uid dir then Inl NotPrivate
      else if \<not> layout_ok dir then Inl StoreLayout
      else bindR (if state_file_name \<in> set names then map_sum id Some (readState rt uid dir state_file_name) else Inr None) (\<lambda>fin.
        if stagingEntries = [] \<and> publicationEntries = [] then
          (case fin of
             None \<Rightarrow> Inl StateMissing
           | Some f \<Rightarrow> if nlink dir (sf_inode f) \<noteq> 1 then Inl NotSingle else Inr (Settled (sf_state f)))
        else case stagingEntries of
            [] \<Rightarrow> Inl NoStagingEvidence
          | stagingName # _ \<Rightarrow>
              bindR (readState rt uid dir stagingName) (\<lambda>staged.
                if captured_digest stagingName \<noteq> sha256 rt (sf_serialized staged) then Inl DigestConflict
                else case publicationEntries of
                    publicationName # _ \<Rightarrow>
                      bindR (rename_intent_proved rt uid dir stagingName publicationName staged fin) (\<lambda>_.
                        Inr (Linked stagingName publicationName (sf_state staged)))
                  | [] \<Rightarrow> (case fin of
                        None \<Rightarrow> Inl StagingNotProved
                      | Some f \<Rightarrow>
                          if sf_inode staged \<noteq> sf_inode f \<or> nlink dir (sf_inode staged) \<noteq> 2 \<or> nlink dir (sf_inode f) \<noteq> 2
                            \<or> sf_serialized staged \<noteq> sf_serialized f then Inl StagingNotProved
                          else Inr (Renamed stagingName (sf_state staged))))))"

definition readNativeQemuAuthorityStateFile ::
  "project_runtime \<Rightarrow> nat \<Rightarrow> bool \<Rightarrow> authority_store \<Rightarrow> authority_state option authority_outcome" where
  "readNativeQemuAuthorityStateFile rt uid halt store = (case store of
     None \<Rightarrow> (Inr None, None)
   | Some dir \<Rightarrow> (case inspect_directory rt uid dir of
       Inl e \<Rightarrow> (Inl e, store)
     | Inr (Settled st) \<Rightarrow> (Inr (Some st), store)
     | Inr (Linked stagingName publicationName st) \<Rightarrow>
         let renamed = rename_entry publicationName state_file_name dir in
         if halt then (Inl Stopped, Some renamed)
         else (Inr (Some st), Some (unlink_entry stagingName renamed))
     | Inr (Renamed stagingName st) \<Rightarrow>
         if halt then (Inl Stopped, store) else (Inr (Some st), Some (unlink_entry stagingName dir))))"

section \<open>Publishing\<close>

datatype publication_halt = BeforeOpen | DuringWrite nat | BeforeRename | BeforeDirectorySync

record authority_run =
  rn_readHalt :: bool
  rn_writeHalt :: "publication_halt option"
  rn_identity :: string
  rn_inode :: nat

definition no_inode :: inode where
  "no_inode = \<lparr>in_text = [], in_uid = 0, in_mode = 0, in_regular = False\<rparr>"

definition ensurePrivateDirectory :: "nat \<Rightarrow> authority_store \<Rightarrow> (authority_error, authority_directory) result" where
  "ensurePrivateDirectory uid store = (case store of
     None \<Rightarrow> Inr \<lparr>ad_uid = uid, ad_mode = 448, ad_entries = [], ad_inodes = (\<lambda>_. no_inode)\<rparr>
   | Some dir \<Rightarrow> if ad_uid dir = uid then Inr (dir\<lparr>ad_mode := 448\<rparr>) else Inl NotPrivate)"

definition publishNativeQemuAuthorityState ::
  "project_runtime \<Rightarrow> nat \<Rightarrow> authority_run \<Rightarrow> string \<Rightarrow> authority_store \<Rightarrow> unit authority_outcome" where
  "publishNativeQemuAuthorityState rt uid run serialized store =
     (if maximumStateBytes < length serialized then (Inl TooLarge, store)
      else case ensurePrivateDirectory uid store of
          Inl e \<Rightarrow> (Inl e, store)
        | Inr dir \<Rightarrow>
            let digest = sha256 rt serialized;
                stagingName = staging_name digest (rn_identity run);
                publicationName = publication_name digest (rn_identity run);
                i = rn_inode run in
            if rn_writeHalt run = Some BeforeOpen then (Inl Stopped, Some dir)
            else if stagingName \<in> fst ` set (ad_entries dir) then (Inl NameTaken, Some dir)
            else case rn_writeHalt run of
                Some (DuringWrite n) \<Rightarrow> (Inl Stopped, Some (create_file uid stagingName i (take n serialized) dir))
              | halt \<Rightarrow>
                  let written = create_file uid stagingName i serialized dir in
                  if publicationName \<in> fst ` set (ad_entries written) then (Inl NameTaken, Some written)
                  else
                    let linked = add_entry publicationName i written;
                        renamed = rename_entry publicationName state_file_name linked in
                    if halt = Some BeforeRename then (Inl Stopped, Some linked)
                    else if halt = Some BeforeDirectorySync then (Inl Stopped, Some renamed)
                    else (Inr (), Some (unlink_entry stagingName renamed)))"

section \<open>The operations\<close>

definition bindA :: "'a authority_outcome \<Rightarrow> ('a \<Rightarrow> authority_store \<Rightarrow> 'b authority_outcome) \<Rightarrow> 'b authority_outcome" where
  "bindA r f = (case r of (Inl e, s) \<Rightarrow> (Inl e, s) | (Inr x, s) \<Rightarrow> f x s)"

definition authority_load :: "project_runtime \<Rightarrow> nat \<Rightarrow> authority_run \<Rightarrow> authority_store \<Rightarrow> authority_state authority_outcome" where
  "authority_load rt uid run store =
     bindA (readNativeQemuAuthorityStateFile rt uid (rn_readHalt run) store) (\<lambda>st s.
       (Inr (case st of None \<Rightarrow> emptyState | Some x \<Rightarrow> x), s))"

definition authority_text :: "authority_state \<Rightarrow> string" where
  "authority_text st = stringify (authority_json st) @ [CHR 0x0A]"

definition authority_save :: "project_runtime \<Rightarrow> nat \<Rightarrow> authority_run \<Rightarrow> authority_state \<Rightarrow> authority_store \<Rightarrow> unit authority_outcome" where
  "authority_save rt uid run st store = (case stateSchema rt (authority_json st) of
     None \<Rightarrow> (Inl SchemaInvalid, store)
   | Some parsed \<Rightarrow> publishNativeQemuAuthorityState rt uid run (authority_text parsed) store)"

record issue_input =
  qi_issuanceRequestId :: string
  qi_reviewId :: string
  qi_descriptor :: NativeQemuDescriptor
  qi_descriptorDigest :: string
  qi_hostId :: string
  qi_capacity :: string

definition attempt_matches :: "NativeQemuAttemptRecord \<Rightarrow> issue_input \<Rightarrow> bool" where
  "attempt_matches a input \<longleftrightarrow> qa_reviewId a = qi_reviewId input \<and> qa_descriptorDigest a = qi_descriptorDigest input
     \<and> qa_hostId a = qi_hostId input \<and> qa_capacity a = qi_capacity input \<and> qa_descriptor a = qi_descriptor input"

definition of_job :: "string \<Rightarrow> string \<Rightarrow> NativeQemuAttemptRecord \<Rightarrow> bool" where
  "of_job reviewId jobName a \<longleftrightarrow> qa_reviewId a = reviewId \<and> d_jobName (qa_descriptor a) = jobName"

definition current_attempt :: "string \<Rightarrow> string \<Rightarrow> authority_state \<Rightarrow> NativeQemuAttemptRecord option" where
  "current_attempt reviewId jobName st = find_row (\<lambda>a. of_job reviewId jobName a \<and> qa_revokedAt a = None) (rev (au_attempts st))"

text \<open>An operation that may change the state decides on the loaded state: it fails, it returns a value and changes
  nothing, or it returns a value and a state to be saved.\<close>

type_synonym 'a decision = "(authority_error, authority_state option \<times> 'a) result"

definition authority_update ::
  "project_runtime \<Rightarrow> nat \<Rightarrow> authority_run \<Rightarrow> (authority_state \<Rightarrow> 'a decision) \<Rightarrow> authority_store \<Rightarrow> 'a authority_outcome" where
  "authority_update rt uid run decide store =
     bindA (authority_load rt uid run store) (\<lambda>st s. case decide st of
       Inl e \<Rightarrow> (Inl e, s)
     | Inr (None, x) \<Rightarrow> (Inr x, s)
     | Inr (Some st', x) \<Rightarrow> bindA (authority_save rt uid run st' s) (\<lambda>_ t. (Inr x, t)))"

definition issue_decision ::
  "project_runtime \<Rightarrow> issue_input \<Rightarrow> string \<Rightarrow> string \<Rightarrow> authority_state \<Rightarrow> NativeQemuAttemptRecord decision" where
  "issue_decision rt input attemptId now st =
     (case find_row (\<lambda>a. qa_issuanceRequestId a = qi_issuanceRequestId input) (au_attempts st) of
        Some replay \<Rightarrow>
          if qa_revokedAt replay = None \<and> attempt_matches replay input then Inr (None, replay) else Inl IssuanceConflict
      | None \<Rightarrow>
          if current_attempt (qi_reviewId input) (d_jobName (qi_descriptor input)) st \<noteq> None then Inl AlreadyCurrent
          else
            let attemptsForJob = filter (of_job (qi_reviewId input) (d_jobName (qi_descriptor input))) (au_attempts st) in
            case attemptSchema rt (attempt_json \<lparr>qa_issuanceRequestId = qi_issuanceRequestId input, qa_attemptId = attemptId,
                qa_reviewId = qi_reviewId input, qa_attempt = int (length attemptsForJob) + 1,
                qa_descriptor = qi_descriptor input, qa_descriptorDigest = qi_descriptorDigest input,
                qa_hostId = qi_hostId input, qa_capacity = qi_capacity input, qa_issuedAt = now, qa_revokedAt = None\<rparr>) of
              None \<Rightarrow> Inl SchemaInvalid
            | Some attempt \<Rightarrow> Inr (Some (st\<lparr>au_attempts := au_attempts st @ [attempt]\<rparr>), attempt))"

definition authority_issue ::
  "project_runtime \<Rightarrow> nat \<Rightarrow> authority_run \<Rightarrow> issue_input \<Rightarrow> string \<Rightarrow> string \<Rightarrow> authority_store \<Rightarrow>
     NativeQemuAttemptRecord authority_outcome" where
  "authority_issue rt uid run input attemptId now = authority_update rt uid run (issue_decision rt input attemptId now)"

definition authority_current ::
  "project_runtime \<Rightarrow> nat \<Rightarrow> authority_run \<Rightarrow> string \<Rightarrow> string \<Rightarrow> authority_store \<Rightarrow>
     NativeQemuAttemptRecord option authority_outcome" where
  "authority_current rt uid run reviewId jobName store =
     bindA (authority_load rt uid run store) (\<lambda>st s. (Inr (current_attempt reviewId jobName st), s))"

definition revoke_decision ::
  "project_runtime \<Rightarrow> string \<Rightarrow> string \<Rightarrow> string \<Rightarrow> string \<Rightarrow> authority_state \<Rightarrow> NativeQemuAttemptRecord decision" where
  "revoke_decision rt reviewId jobName attemptId now st =
     (case find_row (\<lambda>a. of_job reviewId jobName a \<and> qa_attemptId a = attemptId) (au_attempts st) of
        None \<Rightarrow> Inl AttemptNotFound
      | Some selected \<Rightarrow>
          if qa_revokedAt selected \<noteq> None then Inr (None, selected)
          else case attemptSchema rt (attempt_json (selected\<lparr>qa_revokedAt := Some now\<rparr>)) of
              None \<Rightarrow> Inl SchemaInvalid
            | Some revoked \<Rightarrow>
                Inr (Some (st\<lparr>au_attempts := update_rows (\<lambda>a. qa_attemptId a = attemptId) (\<lambda>_. revoked) (au_attempts st)\<rparr>), revoked))"

definition authority_revoke ::
  "project_runtime \<Rightarrow> nat \<Rightarrow> authority_run \<Rightarrow> string \<Rightarrow> string \<Rightarrow> string \<Rightarrow> string \<Rightarrow> authority_store \<Rightarrow>
     NativeQemuAttemptRecord authority_outcome" where
  "authority_revoke rt uid run reviewId jobName attemptId now =
     authority_update rt uid run (revoke_decision rt reviewId jobName attemptId now)"

definition status_decision :: "NativeQemuStatusRecord \<Rightarrow> authority_state \<Rightarrow> NativeQemuStatusRecord decision" where
  "status_decision status st =
     (case find_row (\<lambda>x. qs_attemptId x = qs_attemptId status) (au_statuses st) of
        Some existing \<Rightarrow> if same_status existing status then Inr (None, existing) else Inl OtherStatus
      | None \<Rightarrow>
          (case find_row (\<lambda>a. qa_attemptId a = qs_attemptId status) (au_attempts st) of
             None \<Rightarrow> Inl StatusMismatch
           | Some attempt \<Rightarrow>
               if qa_revokedAt attempt \<noteq> None \<or> qa_descriptorDigest attempt \<noteq> qs_descriptorDigest status then Inl StatusMismatch
               else Inr (Some (st\<lparr>au_statuses := au_statuses st @ [status]\<rparr>), status)))"

definition authority_status ::
  "project_runtime \<Rightarrow> nat \<Rightarrow> authority_run \<Rightarrow> json \<Rightarrow> authority_store \<Rightarrow> NativeQemuStatusRecord authority_outcome" where
  "authority_status rt uid run rec store = (case statusSchema rt rec of
     None \<Rightarrow> (Inl SchemaInvalid, store)
   | Some status \<Rightarrow> authority_update rt uid run (status_decision status) store)"

end
