(* ===== verification/Authority_Recovery.thy ===== *)
theory Authority_Recovery
  imports Authority_Files
begin

text \<open>
  What a crash can leave in the directory of the QEMU authority and what the next read makes of it: the shapes of a
  directory from which the next complete read returns a state, the shapes that every read refuses, and that publishing
  a successor of the stored state, stopped anywhere, ends in one of them.
\<close>

section \<open>Names\<close>

lemma uuid_length: "matches uuidPattern u \<Longrightarrow> length u = 36"
  unfolding uuidPattern_def by (simp only: matches_Seq matches_Cls matches_class) (elim exE conjE, simp)

lemma staging_matches:
  assumes "matches hex64Pattern d" "matches uuidPattern u"
  shows "matches stagingPattern (staging_name d u)"
  unfolding stagingPattern_def staging_name_def matches_Seq matches_lit using assms by blast

lemma publication_matches:
  assumes "matches hex64Pattern d" "matches uuidPattern u"
  shows "matches publicationPattern (publication_name d u)"
  unfolding publicationPattern_def publication_name_def matches_Seq matches_lit using assms by blast

lemma staging_pattern_last: "matches stagingPattern s \<Longrightarrow> last s = CHR ''p''"
  unfolding stagingPattern_def matches_Seq matches_lit by auto

lemma publication_pattern_last: "matches publicationPattern s \<Longrightarrow> last s = CHR ''h''"
  unfolding publicationPattern_def matches_Seq matches_lit by auto

lemma names_disjoint:
  "\<not> matches publicationPattern (staging_name d u)" "\<not> matches stagingPattern (publication_name d u)"
  "\<not> matches stagingPattern state_file_name" "\<not> matches publicationPattern state_file_name"
  "staging_name d u \<noteq> state_file_name" "publication_name d u \<noteq> state_file_name" "staging_name d u \<noteq> publication_name d' u'"
proof -
  have s: "last (staging_name d u) = CHR ''p''" "last (publication_name d' u') = CHR ''h''" "last (publication_name d u) = CHR ''h''"
    by (simp_all add: staging_name_def publication_name_def)
  then show "\<not> matches publicationPattern (staging_name d u)" "\<not> matches stagingPattern (publication_name d u)"
    "staging_name d u \<noteq> publication_name d' u'"
    using staging_pattern_last publication_pattern_last by force+
  show "\<not> matches stagingPattern state_file_name" "\<not> matches publicationPattern state_file_name"
    using staging_pattern_last[of state_file_name] publication_pattern_last[of state_file_name] by (auto simp: state_file_name_def)
  show "staging_name d u \<noteq> state_file_name" "publication_name d u \<noteq> state_file_name"
    by (simp_all add: staging_name_def publication_name_def state_file_name_def)
qed

lemma names_disjoint_sym: "state_file_name \<noteq> staging_name d u" "state_file_name \<noteq> publication_name d u"
  "publication_name d' u' \<noteq> staging_name d u"
  using names_disjoint by metis+

lemma captured:
  assumes "matches hex64Pattern d" "matches uuidPattern u"
  shows "captured_digest (staging_name d u) = d" "captured_digest (publication_name d u) = d"
    "captured_identity (staging_name d u) = u" "captured_identity (publication_name d u) = u"
proof -
  have "length d = 64" using assms(1) by (simp add: hex64Pattern_def matches_class)
  with uuid_length[OF assms(2)] show "captured_digest (staging_name d u) = d" "captured_digest (publication_name d u) = d"
    "captured_identity (staging_name d u) = u" "captured_identity (publication_name d u) = u"
    by (simp_all add: captured_digest_def captured_identity_def staging_name_def publication_name_def)
qed

lemmas name_simps = names_disjoint names_disjoint_sym captured staging_matches publication_matches

section \<open>The shapes of a directory\<close>

text \<open>A state that has a text: it is valid, its events are JSON values and its text respects the storage bound.\<close>

definition state_storable :: "project_runtime \<Rightarrow> authority_state \<Rightarrow> bool" where
  "state_storable rt st \<longleftrightarrow> state_valid rt st \<and> list_all (\<lambda>s. json_ok (qs_event s)) (au_statuses st)
     \<and> length (authority_text st) \<le> maximumStateBytes"

definition holds_text :: "nat \<Rightarrow> string \<Rightarrow> inode" where
  "holds_text uid content = \<lparr>in_text = content, in_uid = uid, in_mode = 384, in_regular = True\<rparr>"

text \<open>The part of the directory that is no publication: nothing yet, or \<open>state.json\<close> with a state.\<close>

definition final_part :: "project_runtime \<Rightarrow> nat \<Rightarrow> authority_directory \<Rightarrow> (string \<times> nat) list \<Rightarrow> authority_state option \<Rightarrow> bool" where
  "final_part rt uid dir es fin \<longleftrightarrow> (case fin of
     None \<Rightarrow> es = []
   | Some st \<Rightarrow> \<exists>i. es = [(state_file_name, i)] \<and> ad_inodes dir i = holds_text uid (authority_text st) \<and> state_storable rt st)"

definition stored :: "authority_state option \<Rightarrow> authority_state" where
  "stored fin = (case fin of None \<Rightarrow> emptyState | Some st \<Rightarrow> st)"

definition publication_names :: "project_runtime \<Rightarrow> authority_state \<Rightarrow> string \<Rightarrow> string \<Rightarrow> bool" where
  "publication_names rt st d u \<longleftrightarrow> d = sha256 rt (authority_text st) \<and> matches hex64Pattern d \<and> matches uuidPattern u"

inductive readable :: "project_runtime \<Rightarrow> nat \<Rightarrow> authority_store \<Rightarrow> authority_state \<Rightarrow> bool" for rt uid where
  readable_absent: "readable rt uid None emptyState"
| readable_settled: "assertPrivateDirectory uid dir \<Longrightarrow> final_part rt uid dir (ad_entries dir) (Some st) \<Longrightarrow>
    readable rt uid (Some dir) st"
| readable_linked: "assertPrivateDirectory uid dir \<Longrightarrow> final_part rt uid dir es fin \<Longrightarrow> publication_names rt st d u \<Longrightarrow>
    ad_entries dir = es @ [(staging_name d u, j), (publication_name d u, j)] \<Longrightarrow> j \<notin> snd ` set es \<Longrightarrow>
    ad_inodes dir j = holds_text uid (authority_text st) \<Longrightarrow> state_storable rt st \<Longrightarrow> isSuccessor fin st \<Longrightarrow>
    readable rt uid (Some dir) st"
| readable_renamed: "assertPrivateDirectory uid dir \<Longrightarrow> publication_names rt st d u \<Longrightarrow>
    ad_entries dir = [(staging_name d u, j), (state_file_name, j)] \<Longrightarrow>
    ad_inodes dir j = holds_text uid (authority_text st) \<Longrightarrow> state_storable rt st \<Longrightarrow>
    readable rt uid (Some dir) st"

text \<open>A directory that was created and got no file, or in which a publication stopped before its link.\<close>

inductive blocked :: "project_runtime \<Rightarrow> nat \<Rightarrow> authority_store \<Rightarrow> authority_state \<Rightarrow> bool" for rt uid where
  blocked_empty: "assertPrivateDirectory uid dir \<Longrightarrow> ad_entries dir = [] \<Longrightarrow> blocked rt uid (Some dir) emptyState"
| blocked_staged: "assertPrivateDirectory uid dir \<Longrightarrow> final_part rt uid dir es fin \<Longrightarrow>
    ad_entries dir = es @ [(staging_name d u, j)] \<Longrightarrow> matches hex64Pattern d \<Longrightarrow> matches uuidPattern u \<Longrightarrow>
    j \<notin> snd ` set es \<Longrightarrow> blocked rt uid (Some dir) (stored fin)"

section \<open>Texts\<close>

lemma descriptor_json_ok: "json_ok (descriptor_json d)"
  by (simp add: descriptor_json_def bounds_json_def blob_json_def script_json_def list_all_iff)

lemma attempt_json_ok: "json_ok (attempt_json a)"
  by (cases "qa_revokedAt a") (simp_all add: attempt_json_def member_if_def descriptor_json_ok)

lemma authority_json_ok: "list_all (\<lambda>s. json_ok (qs_event s)) (au_statuses st) \<Longrightarrow> json_ok (authority_json st)"
  by (auto simp: authority_json_def status_json_def attempt_json_ok list_all_iff)

lemma read_back:
  assumes "state_storable rt st"
  shows "Option.bind (json_parse (authority_text st)) (stateSchema rt) = Some st"
  using assms json_parse_line[OF authority_json_ok[of st]] state_schema_json[of rt st]
  by (simp add: state_storable_def authority_text_def)

lemma read_state_text:
  assumes "map_of (ad_entries dir) name = Some i" "ad_inodes dir i = holds_text uid (authority_text st)" "state_storable rt st"
  shows "readState rt uid dir name = Inr \<lparr>sf_inode = i, sf_serialized = authority_text st, sf_state = st\<rparr>"
  using assms read_back[OF assms(3)]
  by (simp add: readState_def assertPrivateFile_def holds_text_def state_storable_def)

section \<open>What a read makes of them\<close>

lemma inspect_settled:
  assumes "assertPrivateDirectory uid dir" "final_part rt uid dir (ad_entries dir) (Some st)"
  shows "inspect_directory rt uid dir = Inr (Settled st)"
proof -
  obtain i where i: "ad_entries dir = [(state_file_name, i)]" "ad_inodes dir i = holds_text uid (authority_text st)" "state_storable rt st"
    using assms(2) by (auto simp: final_part_def)
  have "readState rt uid dir state_file_name = Inr \<lparr>sf_inode = i, sf_serialized = authority_text st, sf_state = st\<rparr>"
    using i by (intro read_state_text) auto
  with assms(1) i show ?thesis
    by (simp add: inspect_directory_def layout_ok_def name_simps nlink_def holds_text_def)
qed

lemma inspect_linked:
  assumes "assertPrivateDirectory uid dir" "final_part rt uid dir es fin" "publication_names rt st d u"
    "ad_entries dir = es @ [(staging_name d u, j), (publication_name d u, j)]" "j \<notin> snd ` set es"
    "ad_inodes dir j = holds_text uid (authority_text st)" "state_storable rt st" "isSuccessor fin st"
  shows "inspect_directory rt uid dir = Inr (Linked (staging_name d u) (publication_name d u) st)"
proof -
  have pn: "d = sha256 rt (authority_text st)" "matches hex64Pattern d" "matches uuidPattern u"
    using assms(3) by (auto simp: publication_names_def)
  note ns = name_simps staging_matches[OF pn(2,3)] publication_matches[OF pn(2,3)] captured[OF pn(2,3)]
  have es: "es = [] \<and> fin = None \<or> (\<exists>i st0. fin = Some st0 \<and> es = [(state_file_name, i)]
      \<and> ad_inodes dir i = holds_text uid (authority_text st0) \<and> state_storable rt st0)"
    using assms(2) by (auto simp: final_part_def split: option.splits)
  have r: "readState rt uid dir n = Inr \<lparr>sf_inode = j, sf_serialized = authority_text st, sf_state = st\<rparr>"
    if "n = staging_name d u \<or> n = publication_name d u" for n
    using that assms(4,6,7) es by (intro read_state_text) (auto simp: name_simps)
  from es show ?thesis
  proof
    assume "es = [] \<and> fin = None"
    then show ?thesis using assms(1,4,6,8) r pn ns
      by (simp add: inspect_directory_def layout_ok_def nlink_def holds_text_def rename_intent_proved_def)
  next
    assume "\<exists>i st0. fin = Some st0 \<and> es = [(state_file_name, i)]
      \<and> ad_inodes dir i = holds_text uid (authority_text st0) \<and> state_storable rt st0"
    then obtain i st0 where i: "fin = Some st0" "es = [(state_file_name, i)]"
      "ad_inodes dir i = holds_text uid (authority_text st0)" "state_storable rt st0" by blast
    have "readState rt uid dir state_file_name = Inr \<lparr>sf_inode = i, sf_serialized = authority_text st0, sf_state = st0\<rparr>"
      using i assms(4) by (intro read_state_text) auto
    then show ?thesis using i assms(1,4,5,6,8) r pn ns
      by (simp add: inspect_directory_def layout_ok_def nlink_def holds_text_def rename_intent_proved_def)
  qed
qed


lemma inspect_renamed:
  assumes "assertPrivateDirectory uid dir" "publication_names rt st d u"
    "ad_entries dir = [(staging_name d u, j), (state_file_name, j)]"
    "ad_inodes dir j = holds_text uid (authority_text st)" "state_storable rt st"
  shows "inspect_directory rt uid dir = Inr (Renamed (staging_name d u) st)"
proof -
  have pn: "d = sha256 rt (authority_text st)" "matches hex64Pattern d" "matches uuidPattern u"
    using assms(2) by (auto simp: publication_names_def)
  note ns = name_simps staging_matches[OF pn(2,3)] captured[OF pn(2,3)]
  have "readState rt uid dir n = Inr \<lparr>sf_inode = j, sf_serialized = authority_text st, sf_state = st\<rparr>"
    if "n = staging_name d u \<or> n = state_file_name" for n
    using that assms(3-5) by (intro read_state_text) (auto simp: name_simps)
  then show ?thesis using assms(1,3,4) pn ns
    by (simp add: inspect_directory_def layout_ok_def nlink_def holds_text_def)
qed

text \<open>After a complete read of a readable store the publication is finished.\<close>

definition ready :: "project_runtime \<Rightarrow> nat \<Rightarrow> authority_store \<Rightarrow> authority_state option \<Rightarrow> bool" where
  "ready rt uid store fin \<longleftrightarrow> (case store of
     None \<Rightarrow> fin = None
   | Some dir \<Rightarrow> assertPrivateDirectory uid dir \<and> fin \<noteq> None \<and> final_part rt uid dir (ad_entries dir) fin)"

lemma ready_readable: "ready rt uid store fin \<Longrightarrow> readable rt uid store (stored fin)"
  by (auto simp: ready_def stored_def intro: readable.intros split: option.splits)

lemma final_part_fresh:
  assumes "final_part rt uid dir es fin" "j \<notin> snd ` set es" "ad_inodes dir' = (ad_inodes dir)(j := node)"
  shows "final_part rt uid dir' es fin"
  using assms by (auto simp: final_part_def split: option.splits)

lemma rename_linked:
  assumes "final_part rt uid dir es fin" "j \<notin> snd ` set es"
    "ad_entries dir = es @ [(staging_name d u, j), (publication_name d u, j)]"
  shows "rename_entry (publication_name d u) state_file_name dir =
    dir\<lparr>ad_entries := [(staging_name d u, j), (state_file_name, j)]\<rparr>"
  using assms by (cases fin) (auto simp: final_part_def rename_entry_def name_simps)

lemma unlink_renamed:
  "unlink_entry (staging_name d u) (dir\<lparr>ad_entries := [(staging_name d u, j), (state_file_name, j)]\<rparr>)
    = dir\<lparr>ad_entries := [(state_file_name, j)]\<rparr>"
  by (simp add: unlink_entry_def name_simps)

lemma settled_update:
  assumes "assertPrivateDirectory uid dir" "ad_inodes dir j = holds_text uid (authority_text st)" "state_storable rt st"
  shows "ready rt uid (Some (dir\<lparr>ad_entries := [(state_file_name, j)]\<rparr>)) (Some st)"
  using assms by (simp add: ready_def final_part_def assertPrivateDirectory_def)

lemma renamed_update:
  assumes "assertPrivateDirectory uid dir" "publication_names rt st d u"
    "ad_inodes dir j = holds_text uid (authority_text st)" "state_storable rt st"
  shows "readable rt uid (Some (dir\<lparr>ad_entries := [(staging_name d u, j), (state_file_name, j)]\<rparr>)) st"
  using assms by (intro readable_renamed[of _ _ _ st d u j]) (simp_all add: assertPrivateDirectory_def)

lemma read_readable:
  assumes "readable rt uid store st"
  obtains (complete) fin s where "readNativeQemuAuthorityStateFile rt uid False store = (Inr fin, s)" "stored fin = st" "ready rt uid s fin"
proof -
  from assms have "\<exists>fin s. readNativeQemuAuthorityStateFile rt uid False store = (Inr fin, s) \<and> stored fin = st \<and> ready rt uid s fin"
  proof cases
    case readable_absent
    then show ?thesis by (simp add: readNativeQemuAuthorityStateFile_def stored_def ready_def)
  next
    case (readable_settled dir)
    then show ?thesis
      by (intro exI[of _ "Some st"]) (simp add: readNativeQemuAuthorityStateFile_def inspect_settled stored_def ready_def)
  next
    case (readable_linked dir es fin d u j)
    then show ?thesis
      using inspect_linked[OF readable_linked(2-9)] settled_update[OF readable_linked(2,7,8)]
      by (simp add: readNativeQemuAuthorityStateFile_def rename_linked unlink_renamed stored_def)
  next
    case (readable_renamed dir d u j)
    have "unlink_entry (staging_name d u) dir = dir\<lparr>ad_entries := [(state_file_name, j)]\<rparr>"
      using readable_renamed(4) by (simp add: unlink_entry_def name_simps)
    then show ?thesis
      using inspect_renamed[OF readable_renamed(2-6)] settled_update[OF readable_renamed(2,5,6)] readable_renamed(1)
      by (simp add: readNativeQemuAuthorityStateFile_def stored_def)
  qed
  with that show thesis by blast
qed

lemma read_stopped:
  assumes "readable rt uid store st" "readNativeQemuAuthorityStateFile rt uid True store = (r, s)"
  shows "(r = Inl Stopped \<and> readable rt uid s st) \<or> (\<exists>fin. r = Inr fin \<and> stored fin = st \<and> ready rt uid s fin)"
  using assms(1)
proof cases
  case readable_absent
  then show ?thesis using assms(2) by (auto simp: readNativeQemuAuthorityStateFile_def stored_def ready_def)
next
  case (readable_settled dir)
  then show ?thesis
    using assms(2) by (auto simp: readNativeQemuAuthorityStateFile_def inspect_settled stored_def ready_def)
next
  case (readable_linked dir es fin d u j)
  then show ?thesis
    using assms(2) inspect_linked[OF readable_linked(2-9)] renamed_update[OF readable_linked(2,4,7,8)]
    by (auto simp: readNativeQemuAuthorityStateFile_def rename_linked)
next
  case (readable_renamed dir d u j)
  then show ?thesis
    using assms inspect_renamed[OF readable_renamed(2-6)] by (auto simp: readNativeQemuAuthorityStateFile_def)
qed

lemma read_state_inode: "readState rt uid dir name = Inr f \<Longrightarrow> map_of (ad_entries dir) name = Some (sf_inode f)"
  by (auto simp: readState_def Let_def split: option.split_asm if_split_asm)

lemma read_blocked:
  assumes "blocked rt uid store st"
  shows "\<exists>e. readNativeQemuAuthorityStateFile rt uid halt store = (Inl e, store)"
  using assms
proof cases
  case (blocked_empty dir)
  then show ?thesis by (simp add: readNativeQemuAuthorityStateFile_def inspect_directory_def layout_ok_def)
next
  case (blocked_staged dir es fin d u j)
  note m = staging_matches[OF blocked_staged(6,7)]
  have "\<exists>e. inspect_directory rt uid dir = Inl e"
  proof (cases "layout_ok dir")
    case True
    have es: "es = [] \<or> (\<exists>i. es = [(state_file_name, i)])" using blocked_staged(4) by (auto simp: final_part_def split: option.splits)
    have st: "sf_inode f = j" if "readState rt uid dir (staging_name d u) = Inr f" for f
      using read_state_inode[OF that] es blocked_staged(5) by (auto simp: name_simps)
    have fi: "sf_inode f \<noteq> j" if "readState rt uid dir state_file_name = Inr f" for f
      using read_state_inode[OF that] es blocked_staged(5,8) by (auto simp: name_simps)
    show ?thesis
    proof (cases "readState rt uid dir (staging_name d u)")
      case (Inr g)
      show ?thesis
      proof (cases "es = []")
        case True
        then show ?thesis using blocked_staged(3,5) m Inr \<open>layout_ok dir\<close>
          by (simp add: inspect_directory_def name_simps)
      next
        case False
        then obtain i where i: "es = [(state_file_name, i)]" using es by blast
        then show ?thesis using blocked_staged(3,5) m Inr \<open>layout_ok dir\<close> st[OF Inr] fi
          by (cases "readState rt uid dir state_file_name") (auto simp: inspect_directory_def name_simps)
      qed
    next
      case (Inl e)
      from es show ?thesis
      proof
        assume "es = []"
        then show ?thesis using blocked_staged(3,5) m Inl True by (simp add: inspect_directory_def name_simps)
      next
        assume "\<exists>i. es = [(state_file_name, i)]"
        then show ?thesis using blocked_staged(3,5) m Inl True
          by (cases "readState rt uid dir state_file_name") (auto simp: inspect_directory_def name_simps)
      qed
    qed
  qed (simp add: inspect_directory_def Let_def)
  with blocked_staged(1) show ?thesis by (auto simp: readNativeQemuAuthorityStateFile_def)
qed

section \<open>Publishing a successor\<close>

text \<open>What a run may draw: the identity is a UUID, the inode number is free, and the digest is hexadecimal.\<close>

definition run_ok :: "project_runtime \<Rightarrow> authority_run \<Rightarrow> authority_store \<Rightarrow> bool" where
  "run_ok rt run store \<longleftrightarrow> (\<forall>s. matches hex64Pattern (sha256 rt s)) \<and> matches uuidPattern (rn_identity run)
     \<and> (case store of None \<Rightarrow> True | Some dir \<Rightarrow> rn_inode run \<notin> snd ` set (ad_entries dir))"

definition halts_before_link :: "authority_run \<Rightarrow> bool" where
  "halts_before_link run \<longleftrightarrow> (case rn_writeHalt run of Some BeforeOpen \<Rightarrow> True | Some (DuringWrite _) \<Rightarrow> True | _ \<Rightarrow> False)"

lemma ensure_ready:
  assumes "ready rt uid store fin"
  obtains dir where "ensurePrivateDirectory uid store = Inr dir" "assertPrivateDirectory uid dir"
    "final_part rt uid dir (ad_entries dir) fin" "store = None \<or> store = Some dir"
    "ad_entries dir = (case store of None \<Rightarrow> [] | Some d \<Rightarrow> ad_entries d)"
proof (cases store)
  case None
  then show thesis using that assms
    by (auto simp: ensurePrivateDirectory_def assertPrivateDirectory_def final_part_def ready_def)
next
  case (Some d)
  then have d: "ad_mode d = 448" "ad_uid d = uid" "final_part rt uid d (ad_entries d) fin"
    using assms by (simp_all add: ready_def assertPrivateDirectory_def)
  then have "ensurePrivateDirectory uid store = Inr d"
    unfolding Some by (cases d) (simp add: ensurePrivateDirectory_def)
  then show thesis by (rule that) (simp_all add: d Some assertPrivateDirectory_def)
qed

lemma publish_outcome:
  assumes "ready rt uid store fin" "run_ok rt run store" "state_storable rt st" "isSuccessor fin st"
    "publishNativeQemuAuthorityState rt uid run (authority_text st) store = (r, s)"
  shows "if halts_before_link run then r = Inl Stopped \<and> (blocked rt uid s (stored fin)
        \<or> rn_writeHalt run = Some BeforeOpen \<and> readable rt uid s (stored fin))
    else if rn_writeHalt run = None then r = Inr () \<and> ready rt uid s (Some st)
    else r = Inl Stopped \<and> readable rt uid s st"
proof -
  obtain dir where dir: "ensurePrivateDirectory uid store = Inr dir" "assertPrivateDirectory uid dir"
    "final_part rt uid dir (ad_entries dir) fin" "store = None \<or> store = Some dir"
    "ad_entries dir = (case store of None \<Rightarrow> [] | Some d \<Rightarrow> ad_entries d)"
    using ensure_ready[OF assms(1)] by metis
  let ?d = "sha256 rt (authority_text st)" and ?u = "rn_identity run" and ?j = "rn_inode run" and ?es = "ad_entries dir"
  have pn: "publication_names rt st ?d ?u" and hx: "matches hex64Pattern ?d" "matches uuidPattern ?u"
    using assms(2) by (simp_all add: publication_names_def run_ok_def)
  have j: "?j \<notin> snd ` set ?es" using assms(2) dir(5) by (auto simp: run_ok_def split: option.splits)
  have fst: "fst ` set ?es \<subseteq> {state_file_name}" using dir(3) by (auto simp: final_part_def split: option.splits)
  then have free: "staging_name ?d ?u \<notin> fst ` set ?es" "publication_name ?d ?u \<notin> fst ` set ?es"
    using names_disjoint(5,6) by blast+
  let ?file = "\<lambda>t. dir\<lparr>ad_inodes := (ad_inodes dir)(?j := holds_text uid t), ad_entries := ?es @ [(staging_name ?d ?u, ?j)]\<rparr>"
  have created: "create_file uid (staging_name ?d ?u) ?j t dir = ?file t" for t
    by (simp add: create_file_def add_entry_def holds_text_def)
  let ?linked = "dir\<lparr>ad_inodes := (ad_inodes dir)(?j := holds_text uid (authority_text st)),
    ad_entries := ?es @ [(staging_name ?d ?u, ?j), (publication_name ?d ?u, ?j)]\<rparr>"
  let ?renamed = "?linked\<lparr>ad_entries := [(staging_name ?d ?u, ?j), (state_file_name, ?j)]\<rparr>"
  have linked: "add_entry (publication_name ?d ?u) ?j (?file (authority_text st)) = ?linked" by (simp add: add_entry_def)
  have keep: "final_part rt uid dir' ?es fin" if "ad_inodes dir' = (ad_inodes dir)(?j := node)" for dir' node
    using final_part_fresh[OF dir(3) j that] .
  have rn: "rename_entry (publication_name ?d ?u) state_file_name ?linked = ?renamed"
    using rename_linked[of rt uid ?linked ?es fin ?j ?d ?u] keep[of ?linked] j by simp
  have unfolded: "(r, s) = (if rn_writeHalt run = Some BeforeOpen then (Inl Stopped, Some dir)
      else case rn_writeHalt run of
          Some (DuringWrite n) \<Rightarrow> (Inl Stopped, Some (?file (take n (authority_text st))))
        | halt \<Rightarrow> if halt = Some BeforeRename then (Inl Stopped, Some ?linked)
            else if halt = Some BeforeDirectorySync then (Inl Stopped, Some ?renamed)
            else (Inr (), Some (unlink_entry (staging_name ?d ?u) ?renamed)))"
    using assms(3) free unfolding assms(5)[symmetric] publishNativeQemuAuthorityState_def dir(1)
    by (cases "rn_writeHalt run" rule: option.exhaust; cases "the (rn_writeHalt run)")
      (simp_all add: Let_def state_storable_def created names_disjoint_sym linked rn)
  have pl: "assertPrivateDirectory uid ?linked" "assertPrivateDirectory uid (?file t)" for t
    using dir(2) by (simp_all add: assertPrivateDirectory_def)
  have l: "readable rt uid (Some ?linked) st"
    using pl(1) keep[of ?linked] pn j assms(3,4) by (intro readable_linked[of _ _ _ ?es fin st ?d ?u ?j]) simp_all
  have m: "readable rt uid (Some ?renamed) st" "ready rt uid (Some (unlink_entry (staging_name ?d ?u) ?renamed)) (Some st)"
    using renamed_update[OF pl(1) pn _ assms(3)] settled_update[OF pl(1) _ assms(3)] by (simp_all add: unlink_renamed)
  have w: "blocked rt uid (Some (?file t)) (stored fin)" for t
    using pl(2) keep[of "?file t"] hx j by (intro blocked_staged[of _ _ _ ?es fin ?d ?u ?j]) simp_all
  have o: "readable rt uid (Some dir) (stored fin) \<or> blocked rt uid (Some dir) (stored fin)"
    using dir(2,3) by (cases fin) (auto simp: final_part_def stored_def intro: blocked_empty readable_settled)
  show ?thesis
    using unfolded l m w o by (auto simp: halts_before_link_def split: option.splits publication_halt.splits)
qed

end
