(* ===== verification/Authority_History.thy ===== *)
theory Authority_History
  imports Authority_Recovery
begin

text \<open>
  The QEMU authority over time: every operation, wherever it is stopped, leaves a directory that is readable or
  refused as a whole, never loses an attempt or a status, and repeats what an interrupted operation did.
\<close>

section \<open>How states grow\<close>

definition attempt_le :: "NativeQemuAttemptRecord \<Rightarrow> NativeQemuAttemptRecord \<Rightarrow> bool" where
  "attempt_le a b \<longleftrightarrow> b = a \<or> (qa_revokedAt a = None \<and> b = a\<lparr>qa_revokedAt := qa_revokedAt b\<rparr>)"

definition authority_state_le :: "authority_state \<Rightarrow> authority_state \<Rightarrow> bool" where
  "authority_state_le st st' \<longleftrightarrow> (\<exists>old new more. au_attempts st' = old @ new \<and> list_all2 attempt_le (au_attempts st) old
     \<and> au_statuses st' = au_statuses st @ more)"

lemma attempt_le_refl: "attempt_le a a"
  by (simp add: attempt_le_def)

lemma attempt_le_trans: "attempt_le a b \<Longrightarrow> attempt_le b c \<Longrightarrow> attempt_le a c"
  unfolding attempt_le_def by (metis (no_types, lifting) NativeQemuAttemptRecord.surjective NativeQemuAttemptRecord.update_convs(10))

lemma state_leI:
  "au_attempts st' = old @ new \<Longrightarrow> list_all2 attempt_le (au_attempts st) old \<Longrightarrow> au_statuses st' = au_statuses st @ later \<Longrightarrow>
    authority_state_le st st'"
  by (auto simp: authority_state_le_def)

lemma authority_state_le_refl: "authority_state_le st st"
  by (rule state_leI[of _ "au_attempts st" "[]" _ "[]"]) (simp_all add: list_all2_refl attempt_le_refl)

lemma authority_state_le_trans:
  assumes "authority_state_le a b" "authority_state_le b c"
  shows "authority_state_le a c"
proof -
  obtain o1 n1 m1 where 1: "au_attempts b = o1 @ n1" "list_all2 attempt_le (au_attempts a) o1" "au_statuses b = au_statuses a @ m1"
    using assms(1) by (auto simp: authority_state_le_def)
  obtain o2 n2 m2 where 2: "au_attempts c = o2 @ n2" "list_all2 attempt_le (au_attempts b) o2" "au_statuses c = au_statuses b @ m2"
    using assms(2) by (auto simp: authority_state_le_def)
  from 2(2) 1(1) obtain p q where p: "o2 = p @ q" "list_all2 attempt_le o1 p" by (auto simp: list_all2_append1)
  have "list_all2 attempt_le (au_attempts a) p"
    by (rule list_all2_trans[OF _ 1(2) p(2)]) (rule attempt_le_trans)
  with 1(3) 2(1,3) p(1) show ?thesis by (intro state_leI[of c p "q @ n2" a "m1 @ m2"]) simp_all
qed

lemma state_le_issue: "authority_state_le st (st\<lparr>au_attempts := au_attempts st @ [a]\<rparr>)"
  by (rule state_leI[of _ "au_attempts st" "[a]" _ "[]"]) (simp_all add: list_all2_refl attempt_le_refl)

lemma state_le_status: "authority_state_le st (st\<lparr>au_statuses := au_statuses st @ [x]\<rparr>)"
  by (rule state_leI[of _ "au_attempts st" "[]" _ "[x]"]) (simp_all add: list_all2_refl attempt_le_refl)

lemma state_le_revoke:
  assumes "unique_by qa_attemptId (au_attempts st)" "a \<in> set (au_attempts st)" "qa_revokedAt a = None"
  shows "authority_state_le st (st\<lparr>au_attempts := update_rows (\<lambda>x. qa_attemptId x = qa_attemptId a) (\<lambda>_. a\<lparr>qa_revokedAt := Some now\<rparr>)
    (au_attempts st)\<rparr>)"
proof -
  have "attempt_le x (if qa_attemptId x = qa_attemptId a then a\<lparr>qa_revokedAt := Some now\<rparr> else x)"
    if "x \<in> set (au_attempts st)" for x
  proof (cases "qa_attemptId x = qa_attemptId a")
    case True
    with unique_by_eq[OF assms(1) that assms(2)] assms(3) show ?thesis by (simp add: attempt_le_def)
  qed (simp add: attempt_le_refl)
  then have "list_all2 attempt_le (au_attempts st)
      (update_rows (\<lambda>x. qa_attemptId x = qa_attemptId a) (\<lambda>_. a\<lparr>qa_revokedAt := Some now\<rparr>) (au_attempts st))"
    by (simp add: update_rows_def list_all2_conv_all_nth)
  then show ?thesis by (intro state_leI[of _ _ "[]" _ "[]"]) simp_all
qed

section \<open>Every change is a successor\<close>

lemma json_ok_wf: "json_ok v \<Longrightarrow> json_wf v"
  by (induction v) (auto simp: list_all_iff)

lemma statuses_same: "list_all (\<lambda>s. json_ok (qs_event s)) xs \<Longrightarrow> list_all2 same_status xs xs"
  by (auto simp: list_all_iff same_status_def deep_eq_refl json_ok_wf intro!: list.rel_refl_strong)

lemma successor_stored: "isSuccessor (Some (stored fin)) st = isSuccessor fin st"
  by (cases fin) (simp_all add: isSuccessor_def stored_def)

lemma issue_successor:
  assumes "list_all (\<lambda>s. json_ok (qs_event s)) (au_statuses st)"
  shows "isSuccessor (Some st) (st\<lparr>au_attempts := au_attempts st @ [a]\<rparr>)"
  using statuses_same[OF assms] by (simp add: isSuccessor_def Let_def)

lemma status_successor:
  assumes "list_all (\<lambda>s. json_ok (qs_event s)) (au_statuses st)"
  shows "isSuccessor (Some st) (st\<lparr>au_statuses := au_statuses st @ [x]\<rparr>)"
  using statuses_same[OF assms] by (simp add: isSuccessor_def Let_def)

lemma revoke_successor:
  assumes "list_all (\<lambda>s. json_ok (qs_event s)) (au_statuses st)" "unique_by qa_attemptId (au_attempts st)"
    "a \<in> set (au_attempts st)" "qa_revokedAt a = None"
  shows "isSuccessor (Some st) (st\<lparr>au_attempts := update_rows (\<lambda>x. qa_attemptId x = qa_attemptId a)
    (\<lambda>_. a\<lparr>qa_revokedAt := Some now\<rparr>) (au_attempts st)\<rparr>)"
proof -
  let ?old = "au_attempts st" and ?b = "a\<lparr>qa_revokedAt := Some now\<rparr>"
  let ?new = "update_rows (\<lambda>x. qa_attemptId x = qa_attemptId a) (\<lambda>_. ?b) ?old"
  obtain k where k: "k < length ?old" "?old ! k = a" using assms(3) by (auto simp: in_set_conv_nth)
  have nth: "?new ! i = (if i = k then ?b else ?old ! i)" if "i < length ?old" for i
  proof -
    have "qa_attemptId (?old ! i) = qa_attemptId a \<longleftrightarrow> i = k"
      using nth_eq_iff_index_eq[OF assms(2), of i k] that k by auto
    then show ?thesis using that by (simp add: update_rows_def)
  qed
  have "qa_revokedAt ?b \<noteq> qa_revokedAt a" using assms(4) by simp
  then have ne: "?b \<noteq> a" by metis
  have "filter (\<lambda>i. nth_opt ?new i \<noteq> nth_opt ?old i) [0..<length ?old] = filter (\<lambda>i. i = k) [0..<length ?old]"
    using nth k ne by (intro filter_cong) (auto simp: nth_opt_def)
  also have "length \<dots> = 1"
    using k(1) distinct_card[of "filter (\<lambda>i. i = k) [0..<length ?old]"] by (simp add: Collect_conv_if)
  finally have "length (filter (\<lambda>i. nth_opt ?new i \<noteq> nth_opt ?old i) [0..<length ?new]) = 1" by simp
  moreover have "list_ex (\<lambda>i. isRevocation (nth_opt ?old i) (?new ! i)) [0..<length ?new]"
    using k nth[OF k(1)] assms(4) by (auto simp: list_ex_iff isRevocation_def nth_opt_def intro!: bexI[of _ k])
  ultimately show ?thesis using statuses_same[OF assms(1)] by (simp add: isSuccessor_def Let_def)
qed

section \<open>One operation\<close>

definition grows :: "project_runtime \<Rightarrow> nat \<Rightarrow> authority_state \<Rightarrow> authority_store \<Rightarrow> bool" where
  "grows rt uid st store \<longleftrightarrow> (\<exists>st'. (readable rt uid store st' \<or> blocked rt uid store st') \<and> authority_state_le st st')"

lemma readable_grows: "readable rt uid store st \<Longrightarrow> grows rt uid st store"
  by (auto simp: grows_def intro: authority_state_le_refl)

lemma ready_grows: "ready rt uid store fin \<Longrightarrow> grows rt uid (stored fin) store"
  by (rule readable_grows) (rule ready_readable)

lemma empty_storable: "state_storable rt emptyState"
proof -
  have "length (authority_text emptyState) \<le> maximumStateBytes"
    by (simp add: authority_text_def authority_json_def emptyState_def json_quote_def json_escape_def int_text_def dec.simps
        maximumStateBytes_def)
  then show ?thesis by (simp add: state_storable_def state_valid_def state_refinement_def emptyState_def)
qed

lemma ready_storable: "ready rt uid store fin \<Longrightarrow> state_storable rt (stored fin)"
  by (auto simp: ready_def final_part_def stored_def empty_storable split: option.splits)

lemma read_inodes:
  assumes "readNativeQemuAuthorityStateFile rt uid halt store = (r, s)" "run_ok rt run store"
  shows "run_ok rt run s"
proof -
  have unlink: "snd ` set (ad_entries (unlink_entry n dir)) \<subseteq> snd ` set (ad_entries dir)" for n dir
    by (auto simp: unlink_entry_def)
  have rename: "snd ` set (ad_entries (rename_entry n m dir)) \<subseteq> snd ` set (ad_entries dir)" for n m dir
  proof (cases "map_of (ad_entries dir) n")
    case (Some i)
    then have "i \<in> snd ` set (ad_entries dir)" by (metis map_of_SomeD image_eqI snd_conv)
    with Some show ?thesis by (auto simp: rename_entry_def)
  qed (simp add: rename_entry_def)
  define I where "I dir = snd ` set (ad_entries dir)" for dir :: authority_directory
  have sub: "I (unlink_entry n dir) \<subseteq> I dir" "I (rename_entry n m dir) \<subseteq> I dir" "I (unlink_entry k (rename_entry n m dir)) \<subseteq> I dir"
    for n m k dir unfolding I_def by (rule unlink rename subset_trans[OF unlink rename])+
  have "case s of None \<Rightarrow> True | Some dir \<Rightarrow> \<exists>dir0. store = Some dir0 \<and> I dir \<subseteq> I dir0"
    using assms(1)
    by (auto simp: readNativeQemuAuthorityStateFile_def Let_def split: option.splits sum.splits publication.splits if_splits
        dest: subsetD[OF sub(1)] subsetD[OF sub(2)] subsetD[OF sub(3)])
  with assms(2) show ?thesis unfolding run_ok_def I_def[symmetric] by (cases s) auto
qed

lemma load_readable:
  assumes "readable rt uid store st" "run_ok rt run store" "authority_load rt uid run store = (r, s)"
  shows "(rn_readHalt run \<and> r = Inl Stopped \<and> readable rt uid s st)
    \<or> (\<exists>fin. r = Inr st \<and> stored fin = st \<and> ready rt uid s fin \<and> run_ok rt run s)"
proof -
  obtain r0 s0 where rd: "readNativeQemuAuthorityStateFile rt uid (rn_readHalt run) store = (r0, s0)" by fastforce
  have "(rn_readHalt run \<and> r0 = Inl Stopped \<and> readable rt uid s0 st) \<or> (\<exists>fin. r0 = Inr fin \<and> stored fin = st \<and> ready rt uid s0 fin)"
  proof (cases "rn_readHalt run")
    case True
    with read_stopped[OF assms(1)] rd show ?thesis by auto
  next
    case False
    obtain fin s1 where "readNativeQemuAuthorityStateFile rt uid False store = (Inr fin, s1)" "stored fin = st" "ready rt uid s1 fin"
      by (rule read_readable[OF assms(1)])
    with False rd show ?thesis by auto
  qed
  with assms(3) rd read_inodes[OF rd assms(2)] show ?thesis
    by (auto simp: authority_load_def bindA_def stored_def)
qed

lemma load_blocked:
  assumes "blocked rt uid store st"
  obtains e where "authority_load rt uid run store = (Inl e, store)"
  using read_blocked[OF assms, of "rn_readHalt run"] by (auto simp: authority_load_def bindA_def)

lemma schema_of_valid_parts:
  assumes "list_all (attempt_valid rt) (au_attempts st)" "list_all (status_valid rt) (au_statuses st)"
  shows "stateSchema rt (authority_json st) = (if state_refinement st then Some st else None)"
proof (cases "state_refinement st")
  case True
  with assms show ?thesis by (simp add: state_schema_json state_valid_def)
next
  case False
  have "strict_object (authority_json st) [''schemaVersion'', ''attempts'', ''statuses''] []"
    unfolding authority_json_def by (rule strict_JObj) auto
  moreover have "mapM (attemptSchema rt) (map attempt_json (au_attempts st)) = Some (au_attempts st)"
    "mapM (statusSchema rt) (map status_json (au_statuses st)) = Some (au_statuses st)"
    using assms by (auto intro!: mapM_map_id attempt_schema_json status_schema_json simp: list_all_iff)
  ultimately show ?thesis using False
    by (cases st) (simp add: stateSchema_def authority_json_def as_literal_def)
qed

lemma save_outcome:
  assumes "ready rt uid store fin" "run_ok rt run store" "isSuccessor fin st"
    "list_all (attempt_valid rt) (au_attempts st)" "list_all (status_valid rt) (au_statuses st)"
    "list_all (\<lambda>s. json_ok (qs_event s)) (au_statuses st)" "authority_save rt uid run st store = (r, s)"
  shows "(r = Inl SchemaInvalid \<and> s = store \<and> \<not> state_refinement st)
    \<or> (r = Inl TooLarge \<and> s = store \<and> maximumStateBytes < length (authority_text st))
    \<or> (state_storable rt st \<and> (if halts_before_link run then r = Inl Stopped \<and> (blocked rt uid s (stored fin)
          \<or> rn_writeHalt run = Some BeforeOpen \<and> readable rt uid s (stored fin))
        else if rn_writeHalt run = None then r = Inr () \<and> ready rt uid s (Some st)
        else r = Inl Stopped \<and> readable rt uid s st))"
proof (cases "state_refinement st \<and> length (authority_text st) \<le> maximumStateBytes")
  case True
  then have ok: "state_storable rt st" using assms(4-6) by (simp add: state_storable_def state_valid_def)
  have "publishNativeQemuAuthorityState rt uid run (authority_text st) store = (r, s)"
    using assms(7) True by (simp add: authority_save_def schema_of_valid_parts[OF assms(4,5)])
  from publish_outcome[OF assms(1,2) ok assms(3) this] ok show ?thesis
    by simp
next
  case False
  then show ?thesis using assms(7)
    by (auto simp: authority_save_def schema_of_valid_parts[OF assms(4,5)] publishNativeQemuAuthorityState_def split: if_splits)
qed

lemma save_grows:
  assumes "ready rt uid store fin" "run_ok rt run store" "isSuccessor fin st" "authority_state_le (stored fin) st"
    "list_all (attempt_valid rt) (au_attempts st)" "list_all (status_valid rt) (au_statuses st)"
    "list_all (\<lambda>s. json_ok (qs_event s)) (au_statuses st)"
    "bindA (authority_save rt uid run st store) (\<lambda>_ t. (Inr x, t)) = (r, t)"
  shows "grows rt uid (stored fin) t"
proof -
  obtain r0 where sv: "authority_save rt uid run st store = (r0, t)"
    using assms(8) by (auto simp: bindA_def split: prod.splits sum.splits)
  from save_outcome[OF assms(1-3,5-7) sv] show ?thesis
    using ready_grows[OF assms(1)] assms(4) ready_readable[of rt uid t "Some st"]
    by (auto simp: grows_def stored_def intro: authority_state_le_refl split: if_split_asm)
qed

text \<open>
  What the operations that change the state have in common: on a state that can be stored, a state they decide to save
  is made of valid parts, is a successor of it in the sense that the recovery of a publication checks, and has lost
  nothing of it.
\<close>

locale authority_operation =
  fixes rt :: project_runtime and decide :: "authority_state \<Rightarrow> 'a decision"
  assumes decided: "state_storable rt st \<Longrightarrow> decide st = Inr (Some st', x) \<Longrightarrow>
      isSuccessor (Some st) st' \<and> authority_state_le st st' \<and> list_all (attempt_valid rt) (au_attempts st')
      \<and> list_all (status_valid rt) (au_statuses st') \<and> list_all (\<lambda>s. json_ok (qs_event s)) (au_statuses st')"
begin

lemma update_loaded:
  assumes "readable rt uid store st" "run_ok rt run store" "authority_update rt uid run decide store = (r, t)"
  shows "(rn_readHalt run \<and> r = Inl Stopped \<and> readable rt uid t st)
    \<or> (\<exists>fin s. stored fin = st \<and> ready rt uid s fin \<and> run_ok rt run s \<and> (r, t) = (case decide st of
        Inl e \<Rightarrow> (Inl e, s) | Inr (None, x) \<Rightarrow> (Inr x, s)
      | Inr (Some st', x) \<Rightarrow> bindA (authority_save rt uid run st' s) (\<lambda>_ t. (Inr x, t))))"
proof -
  obtain r0 s where ld: "authority_load rt uid run store = (r0, s)" by fastforce
  from load_readable[OF assms(1,2) ld] show ?thesis
  proof (elim disjE exE conjE)
    fix fin assume "r0 = Inr st" "stored fin = st" "ready rt uid s fin" "run_ok rt run s"
    then show ?thesis using assms(3)[symmetric] ld unfolding authority_update_def by (auto simp: bindA_def)
  qed (use assms(3) ld in \<open>simp add: authority_update_def bindA_def\<close>)
qed

lemma update_saved:
  assumes "stored fin = st" "ready rt uid s fin" "decide st = Inr (Some st', x)"
  shows "isSuccessor fin st'" "authority_state_le st st'" "list_all (attempt_valid rt) (au_attempts st')"
    "list_all (status_valid rt) (au_statuses st')" "list_all (\<lambda>s. json_ok (qs_event s)) (au_statuses st')"
  using decided[OF ready_storable[OF assms(2), unfolded assms(1)] assms(3)] assms(1) successor_stored[of fin st'] by simp_all

lemma update_grows:
  assumes "readable rt uid store st" "run_ok rt run store" "authority_update rt uid run decide store = (r, t)"
  shows "grows rt uid st t"
  using update_loaded[OF assms]
proof (elim disjE exE conjE)
  fix fin s
  assume a: "stored fin = st" "ready rt uid s fin" "run_ok rt run s"
    and b: "(r, t) = (case decide st of Inl e \<Rightarrow> (Inl e, s) | Inr (None, x) \<Rightarrow> (Inr x, s)
      | Inr (Some st', x) \<Rightarrow> bindA (authority_save rt uid run st' s) (\<lambda>_ t. (Inr x, t)))"
  show "grows rt uid st t"
  proof (cases "\<exists>st' x. decide st = Inr (Some st', x)")
    case True
    then obtain st' x where d: "decide st = Inr (Some st', x)" by blast
    have "bindA (authority_save rt uid run st' s) (\<lambda>_ t. (Inr x, t)) = (r, t)" using b d by simp
    from save_grows[OF a(2,3) update_saved(1)[OF a(1,2) d] _ update_saved(3-5)[OF a(1,2) d] this]
    show ?thesis using update_saved(2)[OF a(1,2) d] a(1) by simp
  next
    case False
    then have "t = s" using b by (auto split: sum.splits option.splits prod.splits)
    with ready_grows[OF a(2)] a(1) show ?thesis by simp
  qed
qed (simp add: readable_grows)

lemma update_blocked:
  assumes "blocked rt uid store st" "authority_update rt uid run decide store = (r, t)"
  shows "t = store" "\<exists>e. r = Inl e"
proof -
  obtain e where "authority_load rt uid run store = (Inl e, store)" by (rule load_blocked[OF assms(1)])
  with assms(2) show "t = store" "\<exists>e. r = Inl e" by (auto simp: authority_update_def bindA_def)
qed

text \<open>An operation whose new state can be stored happens, and is only reported as stopped when it was stopped. When it
  was stopped after the link of its publication the next read finds the new state, when it was stopped inside the
  write no read finds any.\<close>

lemma update_storable:
  assumes "readable rt uid store st" "run_ok rt run store" "\<not> rn_readHalt run" "decide st = Inr (Some st', x)" "state_storable rt st'"
  obtains t where "authority_update rt uid run decide store = (if rn_writeHalt run = None then Inr x else Inl Stopped, t)"
    "\<not> halts_before_link run \<Longrightarrow> readable rt uid t st'" "rn_writeHalt run = Some (DuringWrite n) \<Longrightarrow> blocked rt uid t st"
proof -
  obtain r t where u: "authority_update rt uid run decide store = (r, t)" by fastforce
  from update_loaded[OF assms(1,2) u] assms(3,4) obtain fin s where a: "stored fin = st" "ready rt uid s fin" "run_ok rt run s"
    and b: "(r, t) = bindA (authority_save rt uid run st' s) (\<lambda>_ t. (Inr x, t))" by auto
  obtain r0 where sv: "authority_save rt uid run st' s = (r0, t)" "r = (case r0 of Inl e \<Rightarrow> Inl e | Inr _ \<Rightarrow> Inr x)"
    using b by (auto simp: bindA_def split: prod.splits sum.splits)
  have "state_refinement st'" "length (authority_text st') \<le> maximumStateBytes"
    using assms(5) by (simp_all add: state_storable_def state_valid_def)
  with save_outcome[OF a(2,3) update_saved(1,3-5)[OF a(1,2) assms(4)] sv(1)]
  have o: "if halts_before_link run then r0 = Inl Stopped \<and> (blocked rt uid t st
          \<or> rn_writeHalt run = Some BeforeOpen \<and> readable rt uid t st)
        else if rn_writeHalt run = None then r0 = Inr () \<and> ready rt uid t (Some st')
        else r0 = Inl Stopped \<and> readable rt uid t st'" using a(1) by auto
  have "r = (if rn_writeHalt run = None then Inr x else Inl Stopped)"
    using o sv(2) by (auto simp: halts_before_link_def split: if_split_asm option.split_asm)
  moreover have "readable rt uid t st'" if "\<not> halts_before_link run"
    using o that ready_readable[of rt uid t "Some st'"] by (auto simp: stored_def split: if_split_asm)
  moreover have "blocked rt uid t st" if "rn_writeHalt run = Some (DuringWrite n)"
    using o that by (auto simp: halts_before_link_def split: if_split_asm)
  ultimately show thesis using that u by blast
qed

lemma update_storable_if_stopped:
  assumes "readable rt uid store st" "run_ok rt run store" "\<not> rn_readHalt run" "\<And>e. decide st = Inl e \<Longrightarrow> e \<noteq> Stopped"
    "authority_update rt uid run decide store = (Inl Stopped, t)"
  obtains st' x where "decide st = Inr (Some st', x)" "state_storable rt st'"
proof -
  from update_loaded[OF assms(1,2,5)] assms(3) obtain fin s where a: "stored fin = st" "ready rt uid s fin" "run_ok rt run s"
    and b: "(Inl Stopped, t) = (case decide st of Inl e \<Rightarrow> (Inl e, s) | Inr (None, x) \<Rightarrow> (Inr x, s)
      | Inr (Some st', x) \<Rightarrow> bindA (authority_save rt uid run st' s) (\<lambda>_ t. (Inr x, t)))" by auto
  from b assms(4) obtain st' x where d: "decide st = Inr (Some st', x)"
    by (auto split: sum.split_asm option.split_asm prod.split_asm)
  with b have "authority_save rt uid run st' s = (Inl Stopped, t)" by (auto simp: bindA_def split: prod.splits sum.splits)
  from save_outcome[OF a(2,3) update_saved(1,3-5)[OF a(1,2) d] this] have "state_storable rt st'" by auto
  with d that show thesis by blast
qed

end

lemma storable_parts:
  assumes "state_storable rt st"
  shows "list_all (attempt_valid rt) (au_attempts st)" "list_all (status_valid rt) (au_statuses st)"
    "list_all (\<lambda>s. json_ok (qs_event s)) (au_statuses st)" "unique_by qa_attemptId (au_attempts st)" "state_refinement st"
  using assms by (simp_all add: state_storable_def state_valid_def state_refinement_def)

lemma issue_decided:
  assumes "issue_decision rt input attemptId now st = Inr (Some st', x)"
  shows "st' = st\<lparr>au_attempts := au_attempts st @ [x]\<rparr>" "attempt_valid rt x"
    "x = \<lparr>qa_issuanceRequestId = qi_issuanceRequestId input, qa_attemptId = attemptId, qa_reviewId = qi_reviewId input,
       qa_attempt = int (length (filter (of_job (qi_reviewId input) (d_jobName (qi_descriptor input))) (au_attempts st))) + 1,
       qa_descriptor = qi_descriptor input, qa_descriptorDigest = qi_descriptorDigest input,
       qa_hostId = qi_hostId input, qa_capacity = qi_capacity input, qa_issuedAt = now, qa_revokedAt = None\<rparr>"
    "find_row (\<lambda>a. qa_issuanceRequestId a = qi_issuanceRequestId input) (au_attempts st) = None"
proof -
  let ?a = "\<lparr>qa_issuanceRequestId = qi_issuanceRequestId input, qa_attemptId = attemptId, qa_reviewId = qi_reviewId input,
       qa_attempt = int (length (filter (of_job (qi_reviewId input) (d_jobName (qi_descriptor input))) (au_attempts st))) + 1,
       qa_descriptor = qi_descriptor input, qa_descriptorDigest = qi_descriptorDigest input,
       qa_hostId = qi_hostId input, qa_capacity = qi_capacity input, qa_issuedAt = now, qa_revokedAt = None\<rparr>"
  from assms have 1: "attemptSchema rt (attempt_json ?a) = Some x" "st' = st\<lparr>au_attempts := au_attempts st @ [x]\<rparr>"
    "find_row (\<lambda>a. qa_issuanceRequestId a = qi_issuanceRequestId input) (au_attempts st) = None"
    unfolding issue_decision_def Let_def by (auto split: option.split_asm if_split_asm)
  from attempt_json_parsed[OF 1(1)] 1 attempt_schema_valid[OF 1(1)]
  show "st' = st\<lparr>au_attempts := au_attempts st @ [x]\<rparr>" "attempt_valid rt x" "x = ?a"
    "find_row (\<lambda>a. qa_issuanceRequestId a = qi_issuanceRequestId input) (au_attempts st) = None" by simp_all
qed

interpretation issuing: authority_operation rt "issue_decision rt input attemptId now" for rt input attemptId now
proof
  fix st st' x
  assume "state_storable rt st" and d: "issue_decision rt input attemptId now st = Inr (Some st', x)"
  note p = storable_parts[OF this(1)]
  show "isSuccessor (Some st) st' \<and> authority_state_le st st' \<and> list_all (attempt_valid rt) (au_attempts st')
      \<and> list_all (status_valid rt) (au_statuses st') \<and> list_all (\<lambda>s. json_ok (qs_event s)) (au_statuses st')"
    using issue_decided(2)[OF d] p issue_successor[OF p(3)] state_le_issue by (simp add: issue_decided(1)[OF d])
qed

lemma revoke_decided:
  assumes "revoke_decision rt reviewId jobName attemptId now st = Inr (Some st', x)"
  obtains a where "a \<in> set (au_attempts st)" "of_job reviewId jobName a" "qa_attemptId a = attemptId" "qa_revokedAt a = None"
    "x = a\<lparr>qa_revokedAt := Some now\<rparr>" "attempt_valid rt x"
    "st' = st\<lparr>au_attempts := update_rows (\<lambda>b. qa_attemptId b = qa_attemptId a) (\<lambda>_. a\<lparr>qa_revokedAt := Some now\<rparr>) (au_attempts st)\<rparr>"
proof -
  from assms obtain a where a: "find_row (\<lambda>a. of_job reviewId jobName a \<and> qa_attemptId a = attemptId) (au_attempts st) = Some a"
    "qa_revokedAt a = None" "attemptSchema rt (attempt_json (a\<lparr>qa_revokedAt := Some now\<rparr>)) = Some x"
    "st' = st\<lparr>au_attempts := update_rows (\<lambda>a. qa_attemptId a = attemptId) (\<lambda>_. x) (au_attempts st)\<rparr>"
    unfolding revoke_decision_def by (auto split: option.split_asm if_split_asm)
  from find_row_Some[OF a(1)] attempt_json_parsed[OF a(3)] attempt_schema_valid[OF a(3)] a(2,4) that[of a] show thesis by simp
qed

interpretation revoking: authority_operation rt "revoke_decision rt reviewId jobName attemptId now" for rt reviewId jobName attemptId now
proof
  fix st st' x
  assume s: "state_storable rt st" and d: "revoke_decision rt reviewId jobName attemptId now st = Inr (Some st', x)"
  note p = storable_parts[OF s]
  obtain a where a: "a \<in> set (au_attempts st)" "qa_revokedAt a = None" "x = a\<lparr>qa_revokedAt := Some now\<rparr>" "attempt_valid rt x"
    "st' = st\<lparr>au_attempts := update_rows (\<lambda>b. qa_attemptId b = qa_attemptId a) (\<lambda>_. a\<lparr>qa_revokedAt := Some now\<rparr>) (au_attempts st)\<rparr>"
    by (rule revoke_decided[OF d]) blast
  have "list_all (attempt_valid rt) (au_attempts st')"
    using a(3-5) p(1) by (auto simp: list_all_iff set_update_rows)
  then show "isSuccessor (Some st) st' \<and> authority_state_le st st' \<and> list_all (attempt_valid rt) (au_attempts st')
      \<and> list_all (status_valid rt) (au_statuses st') \<and> list_all (\<lambda>s. json_ok (qs_event s)) (au_statuses st')"
    using p revoke_successor[OF p(3,4) a(1,2)] state_le_revoke[OF p(4) a(1,2)] by (simp add: a(5))
qed

lemma status_operation:
  assumes "status_valid rt status" "json_ok (qs_event status)"
  shows "authority_operation rt (status_decision status)"
proof
  fix st st' x
  assume s: "state_storable rt st" and "status_decision status st = Inr (Some st', x)"
  then have "st' = st\<lparr>au_statuses := au_statuses st @ [status]\<rparr>"
    by (auto simp: status_decision_def split: option.split_asm if_split_asm)
  then show "isSuccessor (Some st) st' \<and> authority_state_le st st' \<and> list_all (attempt_valid rt) (au_attempts st')
      \<and> list_all (status_valid rt) (au_statuses st') \<and> list_all (\<lambda>s. json_ok (qs_event s)) (au_statuses st')"
    using assms storable_parts[OF s] status_successor state_le_status by simp
qed

section \<open>The authority over time\<close>

inductive authority_step :: "project_runtime \<Rightarrow> nat \<Rightarrow> authority_store \<Rightarrow> authority_store \<Rightarrow> bool" for rt uid where
  step_load: "run_ok rt run s \<Longrightarrow> authority_load rt uid run s = (r, t) \<Longrightarrow> authority_step rt uid s t"
| step_issue: "run_ok rt run s \<Longrightarrow> authority_issue rt uid run input attemptId now s = (r, t) \<Longrightarrow> authority_step rt uid s t"
| step_revoke: "run_ok rt run s \<Longrightarrow> authority_revoke rt uid run reviewId jobName attemptId now s = (r, t) \<Longrightarrow> authority_step rt uid s t"
| step_status: "run_ok rt run s \<Longrightarrow> json_ok rec \<Longrightarrow> authority_status rt uid run rec s = (r, t) \<Longrightarrow> authority_step rt uid s t"

definition authority_init :: "authority_store \<Rightarrow> bool" where
  "authority_init s \<longleftrightarrow> s = None"

definition authority_inv :: "project_runtime \<Rightarrow> nat \<Rightarrow> authority_store \<Rightarrow> bool" where
  "authority_inv rt uid s \<longleftrightarrow> (\<exists>st. readable rt uid s st \<or> blocked rt uid s st)"

definition authority_le :: "project_runtime \<Rightarrow> nat \<Rightarrow> authority_store \<Rightarrow> authority_store \<Rightarrow> bool" where
  "authority_le rt uid s t \<longleftrightarrow> (\<forall>st. readable rt uid s st \<or> blocked rt uid s st \<longrightarrow> grows rt uid st t)"

lemma json_ok_field: "json_ok v \<Longrightarrow> get_field v k = Some w \<Longrightarrow> json_ok w"
  by (cases v) (auto simp: get_field_def list_all_iff dest!: map_of_SomeD)

lemma status_event_ok: "statusSchema rt v = Some x \<Longrightarrow> json_ok v \<Longrightarrow> json_ok (qs_event x)"
  unfolding statusSchema_def Let_def by (auto simp: opt_conv intro: json_ok_field)

lemma step_readable:
  assumes "authority_step rt uid s t" "readable rt uid s st"
  shows "grows rt uid st t"
  using assms(1)
proof cases
  case (step_load run r)
  from load_readable[OF assms(2) step_load] ready_grows show ?thesis by (auto intro: readable_grows)
next
  case (step_issue run input attemptId now r)
  then show ?thesis using issuing.update_grows[OF assms(2)] by (simp add: authority_issue_def)
next
  case (step_revoke run reviewId jobName attemptId now r)
  then show ?thesis using revoking.update_grows[OF assms(2)] by (simp add: authority_revoke_def)
next
  case (step_status run rec r)
  show ?thesis
  proof (cases "statusSchema rt rec")
    case (Some x)
    then have op: "authority_operation rt (status_decision x)"
      using step_status(2) by (intro status_operation status_schema_valid status_event_ok)
    from step_status(3) Some authority_operation.update_grows[OF op assms(2) step_status(1)] show ?thesis
      by (simp add: authority_status_def)
  qed (use step_status(3) assms(2) in \<open>simp add: authority_status_def readable_grows\<close>)
qed

lemma step_blocked:
  assumes "authority_step rt uid s t" "blocked rt uid s st"
  shows "t = s"
  using assms(1)
proof cases
  case (step_load run r)
  then show ?thesis using load_blocked[OF assms(2), of run] by auto
next
  case (step_issue run input attemptId now r)
  then show ?thesis using issuing.update_blocked(1)[OF assms(2)] by (simp add: authority_issue_def)
next
  case (step_revoke run reviewId jobName attemptId now r)
  then show ?thesis using revoking.update_blocked(1)[OF assms(2)] by (simp add: authority_revoke_def)
next
  case (step_status run rec r)
  obtain e where "authority_load rt uid run s = (Inl e, s)" by (rule load_blocked[OF assms(2)])
  with step_status(3) show ?thesis by (auto simp: authority_status_def authority_update_def bindA_def split: option.splits)
qed

interpretation authority: monotone_machine authority_init "authority_step rt uid" "authority_inv rt uid" "authority_le rt uid" for rt uid
proof
  show "authority_inv rt uid s" if "authority_init s" for s
    using that by (auto simp: authority_init_def authority_inv_def intro: readable_absent)
  show "authority_inv rt uid t" if "authority_inv rt uid s" "authority_step rt uid s t" for s t
    using that step_readable[OF that(2)] step_blocked[OF that(2)] by (auto simp: authority_inv_def grows_def)
  show "authority_le rt uid s s" for s by (auto simp: authority_le_def grows_def intro: authority_state_le_refl)
  show "authority_le rt uid s u" if "authority_le rt uid s t" "authority_le rt uid t u" for s t u
    using that unfolding authority_le_def grows_def by (meson authority_state_le_trans)
  show "authority_le rt uid s t" if "authority_inv rt uid s" "authority_step rt uid s t" for s t
    using step_readable[OF that(2)] step_blocked[OF that(2)] by (auto simp: authority_le_def grows_def intro: authority_state_le_refl)
qed

end
