(* ===== verification/Authority_Guarantees.thy ===== *)
theory Authority_Guarantees
  imports Authority_History Qemu_Worker
begin

text \<open>
  What a client of the QEMU authority can rely on: that nothing it was told is lost, that a request it repeats after an
  interruption is answered with what the interrupted one did, that a job gets its next attempt exactly when it has none,
  and that a publication that was stopped inside its write is never taken for a state.
\<close>

section \<open>Loading\<close>

lemma load_result: "readable rt uid s st \<Longrightarrow> authority_load rt uid run s = (Inr st', s') \<Longrightarrow> st' = st"
proof -
  assume r: "readable rt uid s st" and l: "authority_load rt uid run s = (Inr st', s')"
  obtain fin where f: "readNativeQemuAuthorityStateFile rt uid (rn_readHalt run) s = (Inr fin, s')" "st' = stored fin"
    using l by (auto simp: authority_load_def bindA_def stored_def split: prod.splits sum.splits option.splits)
  show "st' = st"
  proof (cases "rn_readHalt run")
    case True
    with read_stopped[OF r] f show ?thesis by auto
  next
    case False
    with f show ?thesis by (auto intro: read_readable[OF r])
  qed
qed

lemma load_complete:
  assumes "readable rt uid s st" "\<not> rn_readHalt run"
  obtains s' where "authority_load rt uid run s = (Inr st, s')"
proof -
  obtain fin s' where "readNativeQemuAuthorityStateFile rt uid False s = (Inr fin, s')" "stored fin = st"
    by (rule read_readable[OF assms(1)])
  with assms(2) that show thesis by (auto simp: authority_load_def bindA_def stored_def)
qed

lemma loaded_readable:
  assumes "reach authority_init (authority_step rt uid) s" "authority_load rt uid run s = (Inr st, s')"
  shows "readable rt uid s st"
proof -
  obtain st0 where "readable rt uid s st0 \<or> blocked rt uid s st0"
    using authority.reachable_inv[OF assms(1)] by (auto simp: authority_inv_def)
  then show ?thesis
  proof
    assume "blocked rt uid s st0"
    then obtain e where "authority_load rt uid run s = (Inl e, s)" by (rule load_blocked)
    with assms(2) show ?thesis by simp
  qed (use load_result assms(2) in blast)
qed

lemma readable_storable: "readable rt uid s st \<Longrightarrow> state_storable rt st"
  by (induction rule: readable.induct) (auto simp: empty_storable final_part_def)

lemma inspect_not_stopped: "inspect_directory rt uid dir \<noteq> Inl Stopped"
proof -
  have r: "readState rt uid dir n \<noteq> Inl Stopped" for n
    by (auto simp: readState_def Let_def split: option.splits)
  then have "rename_intent_proved rt uid dir a b c d \<noteq> Inl Stopped" for a b c d
    by (auto simp: rename_intent_proved_def bindR_def split: sum.splits option.splits)
  moreover have "map_sum id Some (readState rt uid dir n) \<noteq> Inl Stopped" for n
    using r[of n] by (cases "readState rt uid dir n") auto
  ultimately show ?thesis using r
    by (simp add: inspect_directory_def Let_def bindR_eq_Inl split: option.split list.split)
qed

lemma load_not_stopped:
  assumes "authority_load rt uid run s = (Inl e, s')" "\<not> rn_readHalt run"
  shows "e \<noteq> Stopped"
proof -
  have rd: "readNativeQemuAuthorityStateFile rt uid False s = (Inl e, s')"
    using assms by (auto simp: authority_load_def bindA_def split: prod.splits sum.splits)
  then obtain dir where "s = Some dir" by (cases s) (auto simp: readNativeQemuAuthorityStateFile_def)
  with rd have "inspect_directory rt uid dir = Inl e"
    by (cases "inspect_directory rt uid dir") (auto simp: readNativeQemuAuthorityStateFile_def Let_def split: publication.splits)
  with inspect_not_stopped[of rt uid dir] show ?thesis by auto
qed

section \<open>The next attempt of a job\<close>

lemma job_key_of_job:
  assumes "attempt_valid rt a" "matches hex64Pattern r"
  shows "attempt_job_key a = r @ CHR 0x00 # j \<longleftrightarrow> of_job r j a"
proof -
  have "length (qa_reviewId a) = 64" "length r = 64"
    using assms by (simp_all add: attempt_valid_def hex64Pattern_def matches_class)
  then show ?thesis by (auto simp: attempt_job_key_def of_job_def)
qed

lemma job_attempts:
  assumes "list_all (attempt_valid rt) as" "matches hex64Pattern r"
  shows "filter (\<lambda>a. attempt_job_key a = r @ CHR 0x00 # j) as = filter (of_job r j) as"
  using assms by (intro filter_cong) (auto simp: list_all_iff job_key_of_job)

lemma sequence_ok:
  assumes "state_refinement st"
  shows "attempt_sequence_ok (filter (\<lambda>a. attempt_job_key a = key) (au_attempts st))"
proof (cases "key \<in> attempt_job_key ` set (au_attempts st)")
  case True
  then show ?thesis using assms by (auto simp: state_refinement_def list_all_iff)
next
  case False
  then have "filter (\<lambda>a. attempt_job_key a = key) (au_attempts st) = []" by (auto simp: filter_empty_conv)
  then show ?thesis by (simp add: attempt_sequence_ok_def)
qed

lemma one_current:
  assumes "state_storable rt st"
  shows "length (filter (\<lambda>a. of_job r j a \<and> qa_revokedAt a = None) (au_attempts st)) \<le> 1"
proof (cases "matches hex64Pattern r")
  case True
  then show ?thesis using sequence_ok[of st "r @ CHR 0x00 # j"] storable_parts(5)[OF assms]
    unfolding job_attempts[OF storable_parts(1)[OF assms] True] by (simp add: attempt_sequence_ok_def conj_commute)
next
  case False
  then have "filter (\<lambda>a. of_job r j a \<and> qa_revokedAt a = None) (au_attempts st) = []"
    using storable_parts(1)[OF assms] by (auto simp: filter_empty_conv list_all_iff of_job_def attempt_valid_def)
  then show ?thesis by simp
qed

lemma refinement_issue:
  assumes "state_storable rt st" "attempt_valid rt a" "qa_attemptId a \<notin> qa_attemptId ` set (au_attempts st)"
    "qa_issuanceRequestId a \<notin> qa_issuanceRequestId ` set (au_attempts st)"
    "qa_attempt a = int (length (filter (of_job (qa_reviewId a) (d_jobName (qa_descriptor a))) (au_attempts st))) + 1"
    "current_attempt (qa_reviewId a) (d_jobName (qa_descriptor a)) st = None"
  shows "state_refinement (st\<lparr>au_attempts := au_attempts st @ [a]\<rparr>)"
proof -
  let ?as = "au_attempts st"
  have ref: "state_refinement st" and val: "list_all (attempt_valid rt) ?as" using storable_parts[OF assms(1)] by simp_all
  have "matches hex64Pattern (qa_reviewId a)" using assms(2) by (simp add: attempt_valid_def)
  then have job: "filter (\<lambda>b. attempt_job_key b = attempt_job_key a) ?as = filter (of_job (qa_reviewId a) (d_jobName (qa_descriptor a))) ?as"
    using job_attempts[OF val, of "qa_reviewId a" "d_jobName (qa_descriptor a)"] by (simp add: attempt_job_key_def)
  have none: "filter (\<lambda>b. qa_revokedAt b = None) (filter (\<lambda>b. attempt_job_key b = attempt_job_key a) ?as) = []"
    using assms(6) unfolding job by (auto simp: current_attempt_def find_row_None filter_empty_conv)
  have seq: "attempt_sequence_ok (filter (\<lambda>b. attempt_job_key b = key) (?as @ [a]))" for key
  proof (cases "key = attempt_job_key a")
    case True
    have "attempt_sequence_ok (filter (\<lambda>b. attempt_job_key b = attempt_job_key a) ?as)" by (rule sequence_ok[OF ref])
    then have "attempt_sequence_ok (filter (\<lambda>b. attempt_job_key b = attempt_job_key a) ?as @ [a])"
      using none assms(5) unfolding attempt_sequence_ok_def job by simp
    then show ?thesis by (simp add: True)
  qed (use sequence_ok[OF ref] in simp)
  have "list_all (\<lambda>s. case find_row (\<lambda>b. qa_attemptId b = qs_attemptId s) (?as @ [a]) of
      None \<Rightarrow> False | Some b \<Rightarrow> qa_descriptorDigest b = qs_descriptorDigest s) (au_statuses st)"
    using ref unfolding state_refinement_def list_all_iff by (fastforce simp: find_row_append split: option.splits)
  with ref seq assms(3,4) show ?thesis by (auto simp: state_refinement_def list_all_iff)
qed

section \<open>Guarantees\<close>

text \<open>C9: The authority never loses a record. Whatever is issued, revoked and reported, and wherever these operations
  are stopped: when the state can be read at some time and again later, every status of the earlier state is in the
  later one, in its place and unchanged, every attempt is in its place and unchanged but for a revocation that it may
  have got, and no job of the later state has two attempts that are not revoked.\<close>

theorem authority_records_are_kept:
  assumes "reach authority_init (authority_step rt uid) s" "(authority_step rt uid)\<^sup>*\<^sup>* s t"
    "authority_load rt uid run s = (Inr st, s')" "authority_load rt uid run' t = (Inr st', t')"
  shows "(\<exists>later. au_statuses st' = au_statuses st @ later)
    \<and> (\<exists>old new. au_attempts st' = old @ new \<and> list_all2 attempt_le (au_attempts st) old)
    \<and> length (filter (\<lambda>a. of_job r j a \<and> qa_revokedAt a = None) (au_attempts st')) \<le> 1"
proof -
  have s: "readable rt uid s st" by (rule loaded_readable[OF assms(1,3)])
  have t: "readable rt uid t st'" by (rule loaded_readable[OF rtranclp_reach[OF assms(2,1)] assms(4)])
  have "authority_le rt uid s t" using authority.steps_le[OF assms(2)] authority.reachable_inv[OF assms(1)] .
  with s obtain st2 where g: "readable rt uid t st2 \<or> blocked rt uid t st2" "authority_state_le st st2"
    by (auto simp: authority_le_def grows_def)
  have "st2 = st'"
  proof (cases "readable rt uid t st2")
    case True
    then show ?thesis using load_result[OF True assms(4)] by simp
  next
    case False
    with g obtain e where "authority_load rt uid run' t = (Inl e, t)" by (auto intro: load_blocked)
    with assms(4) show ?thesis by simp
  qed
  with g(2) one_current[OF readable_storable[OF t]] show ?thesis by (auto simp: authority_state_le_def)
qed

text \<open>C10: An issuance that was interrupted has happened. When the publication of a new attempt is stopped after its
  link, before or after the rename, the request can be repeated: it is answered with the attempt that the interrupted
  request drew, not with a second one.\<close>

theorem interrupted_issuance_is_repeated:
  assumes "reach authority_init (authority_step rt uid) s" "run_ok rt run s" "\<not> rn_readHalt run"
    "rn_writeHalt run \<in> {Some BeforeRename, Some BeforeDirectorySync}"
    "authority_issue rt uid run input attemptId now s = (Inl Stopped, t)" "\<not> rn_readHalt run'"
  shows "\<exists>a t'. authority_issue rt uid run' input attemptId' now' t = (Inr a, t') \<and> qa_attemptId a = attemptId
    \<and> qa_issuedAt a = now \<and> attempt_matches a input"
proof -
  have u: "authority_update rt uid run (issue_decision rt input attemptId now) s = (Inl Stopped, t)"
    using assms(5) by (simp add: authority_issue_def)
  obtain st where st: "readable rt uid s st"
  proof -
    obtain st0 where "readable rt uid s st0 \<or> blocked rt uid s st0"
      using authority.reachable_inv[OF assms(1)] by (auto simp: authority_inv_def)
    then show thesis
    proof
      assume b: "blocked rt uid s st0"
      then obtain e where e: "authority_load rt uid run s = (Inl e, s)" by (rule load_blocked)
      from load_not_stopped[OF e assms(3)] e u show thesis by (simp add: authority_update_def bindA_def)
    qed (rule that)
  qed
  have ns: "issue_decision rt input attemptId now st = Inl e \<Longrightarrow> e \<noteq> Stopped" for e
    by (auto simp: issue_decision_def Let_def split: option.splits if_splits)
  obtain st' x where d: "issue_decision rt input attemptId now st = Inr (Some st', x)" "state_storable rt st'"
    by (rule issuing.update_storable_if_stopped[OF st assms(2,3) ns u])
  obtain t2 where t2: "authority_update rt uid run (issue_decision rt input attemptId now) s =
      (if rn_writeHalt run = None then Inr x else Inl Stopped, t2)" "\<not> halts_before_link run \<Longrightarrow> readable rt uid t2 st'"
    by (rule issuing.update_storable[OF st assms(2,3) d, where n = 0]) blast
  have "\<not> halts_before_link run" "t2 = t" using assms(4) u t2(1) by (auto simp: halts_before_link_def)
  with t2(2) have "readable rt uid t st'" by simp
  then obtain s2 where l: "authority_load rt uid run' t = (Inr st', s2)" by (rule load_complete[OF _ assms(6)])
  have "find_row (\<lambda>a. qa_issuanceRequestId a = qi_issuanceRequestId input) (au_attempts st') = Some x"
    using issue_decided(3,4)[OF d(1)] by (simp add: issue_decided(1)[OF d(1)] find_row_append)
  then have "issue_decision rt input attemptId' now' st' = Inr (None, x)"
    using issue_decided(3)[OF d(1)] by (simp add: issue_decision_def attempt_matches_def)
  then show ?thesis using l issue_decided(3)[OF d(1)]
    by (simp add: authority_issue_def authority_update_def bindA_def attempt_matches_def)
qed


text \<open>The attempt that a new request gets.\<close>

definition next_attempt :: "issue_input \<Rightarrow> string \<Rightarrow> string \<Rightarrow> authority_state \<Rightarrow> NativeQemuAttemptRecord" where
  "next_attempt input attemptId now st = \<lparr>qa_issuanceRequestId = qi_issuanceRequestId input, qa_attemptId = attemptId,
     qa_reviewId = qi_reviewId input,
     qa_attempt = int (length (filter (of_job (qi_reviewId input) (d_jobName (qi_descriptor input))) (au_attempts st))) + 1,
     qa_descriptor = qi_descriptor input, qa_descriptorDigest = qi_descriptorDigest input, qa_hostId = qi_hostId input,
     qa_capacity = qi_capacity input, qa_issuedAt = now, qa_revokedAt = None\<rparr>"

text \<open>C21: A job gets its next attempt exactly when it has none. For a valid request that is new, with a fresh attempt
  identifier and room in the store, issuing succeeds if and only if the job has no attempt that is not revoked; the
  attempt is then numbered after the attempts the job has had and is what the next read finds at the end of the state.
  Otherwise the request is refused because the job has a current attempt, and for no other reason.\<close>

theorem job_gets_next_attempt_when_none_is_current:
  assumes "reach authority_init (authority_step rt uid) s" "authority_load rt uid run s = (Inr st, s')" "run_ok rt run s"
    "\<not> rn_readHalt run" "rn_writeHalt run = None" "attempt_valid rt (next_attempt input attemptId now st)"
    "qi_issuanceRequestId input \<notin> qa_issuanceRequestId ` set (au_attempts st)"
    "attemptId \<notin> qa_attemptId ` set (au_attempts st)"
    "length (authority_text (st\<lparr>au_attempts := au_attempts st @ [next_attempt input attemptId now st]\<rparr>)) \<le> maximumStateBytes"
  shows "if \<exists>b\<in>set (au_attempts st). of_job (qi_reviewId input) (d_jobName (qi_descriptor input)) b \<and> qa_revokedAt b = None
    then authority_issue rt uid run input attemptId now s = (Inl AlreadyCurrent, s')
    else \<exists>t. authority_issue rt uid run input attemptId now s = (Inr (next_attempt input attemptId now st), t)
      \<and> fst (authority_load rt uid run t) = Inr (st\<lparr>au_attempts := au_attempts st @ [next_attempt input attemptId now st]\<rparr>)"
proof -
  let ?a = "next_attempt input attemptId now st" and ?r = "qi_reviewId input" and ?j = "d_jobName (qi_descriptor input)"
  let ?st = "st\<lparr>au_attempts := au_attempts st @ [?a]\<rparr>"
  have r: "readable rt uid s st" by (rule loaded_readable[OF assms(1,2)])
  have new: "find_row (\<lambda>a. qa_issuanceRequestId a = qi_issuanceRequestId input) (au_attempts st) = None"
    unfolding find_row_None using assms(7) by (metis image_eqI)
  have cur: "current_attempt ?r ?j st = None \<longleftrightarrow> \<not> (\<exists>b\<in>set (au_attempts st). of_job ?r ?j b \<and> qa_revokedAt b = None)"
    by (auto simp: current_attempt_def find_row_None)
  show ?thesis
  proof (cases "current_attempt ?r ?j st = None")
    case True
    have p: "attemptSchema rt (attempt_json ?a) = Some ?a" by (rule attempt_schema_json[OF assms(6)])
    then have d: "issue_decision rt input attemptId now st = Inr (Some ?st, ?a)"
      using new True by (simp add: issue_decision_def Let_def next_attempt_def)
    have "state_refinement ?st" using refinement_issue[OF readable_storable[OF r] assms(6)] assms(7,8) True
      by (simp add: next_attempt_def)
    then have s: "state_storable rt ?st"
      using storable_parts[OF readable_storable[OF r]] assms(6,9) by (simp add: state_storable_def state_valid_def)
    obtain t where t: "authority_update rt uid run (issue_decision rt input attemptId now) s =
        (if rn_writeHalt run = None then Inr ?a else Inl Stopped, t)" "\<not> halts_before_link run \<Longrightarrow> readable rt uid t ?st"
      by (rule issuing.update_storable[OF r assms(3,4) d s, where n = 0]) blast
    have "readable rt uid t ?st" using t(2) assms(5) by (simp add: halts_before_link_def)
    then have "fst (authority_load rt uid run t) = Inr ?st" by (rule load_complete[OF _ assms(4)]) simp
    with t(1) assms(5) True cur show ?thesis by (simp add: authority_issue_def)
  next
    case False
    then have "issue_decision rt input attemptId now st = Inl AlreadyCurrent" using new by (simp add: issue_decision_def)
    with False cur assms(2) show ?thesis by (simp add: authority_issue_def authority_update_def bindA_def)
  qed
qed

section \<open>An example\<close>

definition demo_art :: project_runtime where
  "demo_art = \<lparr>sha256 = (\<lambda>_. replicate 64 CHR ''0''), date_parse = (\<lambda>_. None), parse_url = (\<lambda>_. None), zod_uuid = (\<lambda>_. True),
     zod_datetime = (\<lambda>_. True)\<rparr>"

definition demo_issue :: issue_input where
  "demo_issue = \<lparr>qi_issuanceRequestId = demo_uuid, qi_reviewId = replicate 64 CHR ''b'', qi_descriptor = demo_descriptor,
     qi_descriptorDigest = ''sha256:'' @ replicate 64 CHR ''0'', qi_hostId = ''host1'', qi_capacity = ''small''\<rparr>"

definition demo_run :: "publication_halt option \<Rightarrow> authority_run" where
  "demo_run halt = \<lparr>rn_readHalt = False, rn_writeHalt = halt, rn_identity = demo_uuid, rn_inode = 7\<rparr>"

abbreviation demo_first :: NativeQemuAttemptRecord where
  "demo_first \<equiv> next_attempt demo_issue demo_uuid ''2026-01-01T00:00:00.000Z'' emptyState"

definition demo_issued :: authority_state where
  "demo_issued = emptyState\<lparr>au_attempts := [demo_first]\<rparr>"

lemma demo_first_valid: "attempt_valid demo_art demo_first"
proof -
  have "head_ref_ok (d_protectedRef demo_descriptor)" "matches hex64Pattern (replicate 64 CHR ''b'')"
    "matches digestPattern (''sha256:'' @ replicate 64 CHR ''0'')" "matches identifierPattern ''host1''" "matches identifierPattern ''small''"
    by code_simp+
  moreover have "qemuExecutionDescriptorDigest demo_art demo_descriptor = ''sha256:'' @ replicate 64 CHR ''0''"
    by (simp add: qemuExecutionDescriptorDigest_def demo_art_def)
  ultimately show ?thesis using demo_descriptor_valid
    by (simp add: attempt_valid_def next_attempt_def demo_issue_def qemu_descriptor_valid_def demo_art_def emptyState_def safe_integer_def)
qed

lemma demo_text: "length (authority_text demo_issued) \<le> 3000"
  by code_simp

lemma demo_run_ok: "run_ok demo_art (demo_run halt) None"
proof -
  have "matches hex64Pattern (replicate 64 CHR ''0'')" by code_simp
  then show ?thesis using demo_uuids(1) by (simp add: run_ok_def demo_art_def demo_run_def)
qed

lemma demo_start: "reach authority_init (authority_step demo_art uid) None"
  by (rule reach_init) (simp add: authority_init_def)

lemma demo_load: "authority_load demo_art uid (demo_run halt) None = (Inr emptyState, None)"
  by (simp add: authority_load_def bindA_def readNativeQemuAuthorityStateFile_def)

lemma demo_decision:
  "issue_decision demo_art demo_issue demo_uuid ''2026-01-01T00:00:00.000Z'' emptyState = Inr (Some demo_issued, demo_first)"
  using attempt_schema_json[OF demo_first_valid]
  by (simp add: issue_decision_def emptyState_def current_attempt_def next_attempt_def demo_issued_def)

lemma demo_storable: "state_storable demo_art demo_issued"
proof -
  have "state_refinement demo_issued"
    using refinement_issue[OF empty_storable demo_first_valid]
    by (simp add: demo_issued_def emptyState_def next_attempt_def current_attempt_def)
  then show ?thesis using demo_text demo_first_valid
    by (simp add: state_storable_def state_valid_def demo_issued_def emptyState_def maximumStateBytes_def)
qed

abbreviation demo_issue_run :: "publication_halt option \<Rightarrow> NativeQemuAttemptRecord authority_outcome" where
  "demo_issue_run halt \<equiv> authority_issue demo_art 0 (demo_run halt) demo_issue demo_uuid ''2026-01-01T00:00:00.000Z'' None"

lemma demo_outcome:
  obtains t where "demo_issue_run halt = (if halt = None then Inr demo_first else Inl Stopped, t)"
    "halt = None \<Longrightarrow> readable demo_art 0 t demo_issued"
proof -
  have h: "\<not> rn_readHalt (demo_run halt)" "rn_writeHalt (demo_run halt) = halt" by (simp_all add: demo_run_def)
  show thesis
    by (rule issuing.update_storable[OF readable_absent demo_run_ok h(1) demo_decision demo_storable, where n = 0])
      (rule that, auto simp: authority_issue_def demo_run_def halts_before_link_def)
qed

theorem authority_records_are_kept_witness:
  "\<exists>st' t'. authority_load demo_art 0 (demo_run None) (snd (demo_issue_run None)) = (Inr st', t')
    \<and> (\<exists>later. au_statuses st' = au_statuses emptyState @ later)
    \<and> (\<exists>old new. au_attempts st' = old @ new \<and> list_all2 attempt_le (au_attempts emptyState) old)
    \<and> length (filter (\<lambda>a. of_job (replicate 64 CHR ''b'') ''test'' a \<and> qa_revokedAt a = None) (au_attempts st')) \<le> 1"
proof -
  obtain t where t: "demo_issue_run None = (Inr demo_first, t)" "readable demo_art 0 t demo_issued"
    by (rule demo_outcome[of None]) auto
  have step: "(authority_step demo_art 0)\<^sup>*\<^sup>* None t" using step_issue[OF demo_run_ok t(1)] by (rule r_into_rtranclp)
  obtain t' where l: "authority_load demo_art 0 (demo_run None) t = (Inr demo_issued, t')"
    by (rule load_complete[OF t(2)]) (auto simp: demo_run_def)
  from authority_records_are_kept[OF demo_start step demo_load l] l t(1) show ?thesis by auto
qed

theorem interrupted_issuance_is_repeated_witness:
  "\<exists>a t'. authority_issue demo_art 0 (demo_run None) demo_issue ''another-id'' ''2026-01-02T00:00:00.000Z''
      (snd (demo_issue_run (Some BeforeRename))) = (Inr a, t') \<and> qa_attemptId a = demo_uuid
    \<and> qa_issuedAt a = ''2026-01-01T00:00:00.000Z'' \<and> attempt_matches a demo_issue"
proof -
  obtain t where t: "demo_issue_run (Some BeforeRename) = (Inl Stopped, t)" by (rule demo_outcome[of "Some BeforeRename"]) auto
  have h: "\<not> rn_readHalt (demo_run halt)" "rn_writeHalt (demo_run (Some BeforeRename)) \<in> {Some BeforeRename, Some BeforeDirectorySync}"
    for halt by (simp_all add: demo_run_def)
  from interrupted_issuance_is_repeated[OF demo_start demo_run_ok h t h(1)] t show ?thesis by simp
qed


theorem job_gets_next_attempt_when_none_is_current_witness:
  "\<exists>t. demo_issue_run None = (Inr demo_first, t)
    \<and> fst (authority_load demo_art 0 (demo_run None) t) = Inr (emptyState\<lparr>au_attempts := au_attempts emptyState @ [demo_first]\<rparr>)"
proof -
  have h: "\<not> rn_readHalt (demo_run None)" "rn_writeHalt (demo_run None) = None" by (simp_all add: demo_run_def)
  have "length (authority_text (emptyState\<lparr>au_attempts := au_attempts emptyState @ [demo_first]\<rparr>)) \<le> maximumStateBytes"
    using demo_text by (simp add: demo_issued_def emptyState_def maximumStateBytes_def)
  from job_gets_next_attempt_when_none_is_current[OF demo_start demo_load demo_run_ok h demo_first_valid _ _ this]
  show ?thesis by (simp add: emptyState_def)
qed

end
