(* ===== verification/Authority_Service.thy ===== *)
theory Authority_Service
  imports Candidate_Inputs Authority_Guarantees Reviewer_Service
begin

text \<open>
  The HTTP routes of the QEMU authority (\<open>native-qemu-authority-http.ts\<close>): the proofs of policy and review event,
  execution descriptors, attempts, revocations and statuses. A Project has its own authority store, in its repository.
  Operations run one after the other (\<open>serialize\<close>). What a request observes, draws or is interrupted by is an
  input. Whatever fails is answered with 409.
\<close>

section \<open>Requests\<close>

record qemu_ci_config =
  qc_serviceId :: string
  qc_identity :: "string \<times> string"
  qc_attemptIssuer :: "string \<times> string"
  qc_resultReporter :: "string \<times> string"
  qc_knownCredentials :: "(string \<times> string) list"

datatype qemu_route =
    QPolicy string | QReviewEvent string | QDescriptor string string | QAttempt string string | QRevocation string string
  | QStatus string string

definition qemu_route_of :: "reviewer_request \<Rightarrow> qemu_route option" where
  "qemu_route_of request =
     (if vq_method request \<noteq> ''POST'' \<or> vq_search request \<noteq> [] then None
      else case split_on CHR ''/'' (vq_pathname request) of
        [] # a # b # projectId # c # d # rest \<Rightarrow>
          if a \<noteq> ''v1'' \<or> b \<noteq> ''projects'' \<or> c \<noteq> ''repositories'' \<or> d \<noteq> ''root'' \<or> \<not> matches projectPattern projectId then None
          else (case rest of
              [e, action] \<Rightarrow>
                if e \<noteq> ''native-qemu-proof'' then None
                else if action = ''policy'' then Some (QPolicy projectId)
                else if action = ''review-event'' then Some (QReviewEvent projectId) else None
            | [e, reviewId, action] \<Rightarrow>
                if e \<noteq> ''reviews'' \<or> \<not> matches hex64Pattern reviewId then None
                else if action = ''qemu-execution-descriptors'' then Some (QDescriptor projectId reviewId)
                else if action = ''qemu-attempts'' then Some (QAttempt projectId reviewId)
                else if action = ''qemu-attempt-revocations'' then Some (QRevocation projectId reviewId)
                else if action = ''qemu-statuses'' then Some (QStatus projectId reviewId) else None
            | _ \<Rightarrow> None)
      | _ \<Rightarrow> None)"

fun route_credential :: "qemu_ci_config \<Rightarrow> qemu_route \<Rightarrow> string \<times> string" where
  "route_credential config (QPolicy p) = qc_identity config"
| "route_credential config (QReviewEvent p) = qc_identity config"
| "route_credential config (QStatus p v) = qc_resultReporter config"
| "route_credential config (QDescriptor p v) = qc_attemptIssuer config"
| "route_credential config (QAttempt p v) = qc_attemptIssuer config"
| "route_credential config (QRevocation p v) = qc_attemptIssuer config"

definition qemu_authorized :: "reviewer_request \<Rightarrow> string \<times> string \<Rightarrow> bool" where
  "qemu_authorized request credential = basicAuthorized request (fst credential) (snd credential)"

definition qemu_refused :: "qemu_ci_config \<Rightarrow> reviewer_request \<Rightarrow> reviewer_reply" where
  "qemu_refused config request =
     (if list_ex (qemu_authorized request) (qc_knownCredentials config) then error_reply 403 ''forbidden''
      else error_reply 401 ''unauthorized'')"

definition qemu_body :: "reviewer_request \<Rightarrow> json option" where
  "qemu_body request =
     (if vq_content_type request \<noteq> Some ''application/json'' \<or> vq_body_bytes request > 256 * 1024 then None else vq_json request)"

definition qemu_conflict :: reviewer_reply where
  "qemu_conflict = error_reply 409 ''native QEMU authority tuple conflicts''"

section \<open>Schemas\<close>

record proof_request =
  pq_eventId :: "string option"
  pq_reviewId :: "string option"
  pq_jobName :: "string option"

definition proofRequest :: "project_runtime \<Rightarrow> json \<Rightarrow> proof_request option" where
  "proofRequest rt v = do {
     guardO (strict_object v [''schemaVersion'', ''requestId''] [''eventId'', ''reviewId'', ''executionKind'', ''jobName'']);
     as_literal (JInt 1) (get_field v ''schemaVersion'');
     requestId \<leftarrow> zod_checked (zod_uuid rt) (get_field v ''requestId'');
     eventId \<leftarrow> optional as_string (get_field v ''eventId'');
     reviewId \<leftarrow> optional as_string (get_field v ''reviewId'');
     executionKind \<leftarrow> optional (as_literal (JStr ''qemu'')) (get_field v ''executionKind'');
     jobName \<leftarrow> optional as_string (get_field v ''jobName'');
     Some \<lparr>pq_eventId = eventId, pq_reviewId = reviewId, pq_jobName = jobName\<rparr> }"

definition descriptorRequest :: "json \<Rightarrow> (string \<times> TrustedCapacity) option" where
  "descriptorRequest v = do {
     guardO (strict_object v [''schemaVersion'', ''jobName'', ''trustedCapacity''] []);
     as_literal (JInt 1) (get_field v ''schemaVersion'');
     jobName \<leftarrow> as_matching namePattern (get_field v ''jobName'');
     c \<leftarrow> as_record (get_field v ''trustedCapacity'');
     guardO (strict_object c [''admissionGeneration'', ''jobBaseImage'', ''runnerBaseImage'', ''bounds''] []);
     generation \<leftarrow> as_matching generationPattern (get_field c ''admissionGeneration'');
     jobBaseImage \<leftarrow> as_matching imagePattern (get_field c ''jobBaseImage'');
     runnerBaseImage \<leftarrow> as_matching imagePattern (get_field c ''runnerBaseImage'');
     bounds \<leftarrow> zod_bounds (get_field c ''bounds'');
     Some (jobName, \<lparr>tc_admissionGeneration = generation, tc_jobBaseImage = jobBaseImage,
       tc_runnerBaseImage = runnerBaseImage, tc_bounds = bounds\<rparr>) }"

record issue_claim =
  ic_descriptorDigest :: string
  ic_claimId :: string
  ic_issuanceRequestId :: string
  ic_hostId :: string
  ic_capacity :: string
  ic_projectId :: string
  ic_reviewId :: string
  ic_jobName :: string
  ic_trusted :: TrustedCapacity

definition issueRequest :: "project_runtime \<Rightarrow> json \<Rightarrow> issue_claim option" where
  "issueRequest rt v = do {
     guardO (strict_object v [''schemaVersion'', ''descriptorDigest'', ''claim''] []);
     as_literal (JInt 1) (get_field v ''schemaVersion'');
     descriptorDigest \<leftarrow> as_matching digestPattern (get_field v ''descriptorDigest'');
     claim \<leftarrow> as_record (get_field v ''claim'');
     claimId \<leftarrow> zod_checked (zod_uuid rt) (get_field claim ''claimId'');
     issuanceRequestId \<leftarrow> zod_checked (zod_uuid rt) (get_field claim ''issuanceRequestId'');
     hostId \<leftarrow> as_string (get_field claim ''hostId'');
     capacity \<leftarrow> as_string (get_field claim ''capacity'');
     generation \<leftarrow> as_string (get_field claim ''admissionGeneration'');
     event \<leftarrow> as_record (get_field claim ''event'');
     projectId \<leftarrow> as_string (get_field event ''projectId'');
     reviewId \<leftarrow> as_string (get_field event ''reviewId'');
     jobName \<leftarrow> as_string (get_field event ''jobName'');
     as_literal (JStr ''qemu'') (get_field event ''executionKind'');
     runnerBaseImage \<leftarrow> as_string (get_field claim ''runnerBaseImage'');
     jobBaseImage \<leftarrow> as_string (get_field claim ''jobBaseImage'');
     bounds \<leftarrow> zod_bounds (get_field claim ''bounds'');
     Some \<lparr>ic_descriptorDigest = descriptorDigest, ic_claimId = claimId, ic_issuanceRequestId = issuanceRequestId,
       ic_hostId = hostId, ic_capacity = capacity, ic_projectId = projectId, ic_reviewId = reviewId, ic_jobName = jobName,
       ic_trusted = \<lparr>tc_admissionGeneration = generation, tc_jobBaseImage = jobBaseImage,
         tc_runnerBaseImage = runnerBaseImage, tc_bounds = bounds\<rparr>\<rparr> }"

section \<open>Handlers\<close>

text \<open>The inputs of a request: the resolution of its target, the stored reviews and the repository where the route reads
  them, the inputs of the derivation of a descriptor, the operations on the store, and what they draw.\<close>

record qemu_authority_io =
  qo_uid :: nat
  qo_target :: resolution
  qo_reviews :: "AuthoritativeNativeReviewEnvelope list"
  qo_freshness :: freshness_io
  qo_execution :: execution_io
  qo_first :: authority_run
  qo_second :: authority_run
  qo_attemptId :: string
  qo_now :: string

definition head_json :: "NativeProjectRootCurrentHead \<Rightarrow> json" where
  "head_json h = JObj [(''projectId'', JStr (ch_projectId h)), (''sequence'', JInt (ch_sequence h)),
     (''protectedRef'', JStr (ch_protectedRef h)), (''commit'', JStr (ch_commit h)), (''tree'', JStr (ch_tree h)),
     (''policyDigest'', JStr (ch_policyDigest h))]"

definition service_reply :: "qemu_ci_config \<Rightarrow> int \<Rightarrow> (string \<times> json) list \<Rightarrow> reviewer_reply" where
  "service_reply config code body =
     Replied code (JObj ([(''schemaVersion'', JInt 1), (''serviceId'', JStr (qc_serviceId config))] @ body))"

definition servePolicy :: "project_runtime \<Rightarrow> qemu_ci_config \<Rightarrow> qemu_authority_io \<Rightarrow> string \<Rightarrow> json \<Rightarrow> reviewer_reply option" where
  "servePolicy rt config io projectId body = do {
     proof \<leftarrow> proofRequest rt body;
     target \<leftarrow> resolve_target rt (qo_target io) projectId;
     Some (service_reply config 200 [(''projectId'', JStr projectId), (''policy'', policy_json (gt_policy target)),
       (''currentRoot'', head_json (gt_currentHead target))]) }"

definition serveReviewEvent :: "project_runtime \<Rightarrow> qemu_ci_config \<Rightarrow> qemu_authority_io \<Rightarrow> string \<Rightarrow> json \<Rightarrow> reviewer_reply option" where
  "serveReviewEvent rt config io projectId body = do {
     selector \<leftarrow> proofRequest rt body;
     eventId \<leftarrow> pq_eventId selector;
     reviewId \<leftarrow> pq_reviewId selector;
     jobName \<leftarrow> pq_jobName selector;
     target \<leftarrow> resolve_target rt (qo_target io) projectId;
     envelope \<leftarrow> readAuthoritativeNativeReviewEnvelope (qo_reviews io) reviewId;
     event \<leftarrow> find_row (\<lambda>e. re_eventId e = eventId \<and> re_executionKind e = Qemu \<and> re_jobName e = jobName) (en_events envelope);
     guardO (nativeHumanReviewStaleReasons (qo_freshness io) target (en_review envelope) = []);
     Some (service_reply config 200 [(''event'', review_event_json event)]) }"

definition serveDescriptor :: "project_runtime \<Rightarrow> qemu_ci_config \<Rightarrow> qemu_authority_io \<Rightarrow> string \<Rightarrow> string \<Rightarrow> json \<Rightarrow> reviewer_reply option" where
  "serveDescriptor rt config io projectId reviewId body = do {
     (jobName, capacity) \<leftarrow> descriptorRequest body;
     (derivedReview, descriptor, digest) \<leftarrow>
       deriveAuthoritativeQemuExecutionDescriptor rt (qo_execution io) projectId reviewId jobName capacity;
     Some (service_reply config 200 [(''kind'', JStr ''qemu''), (''reviewId'', JStr derivedReview),
       (''descriptor'', descriptor_json descriptor), (''digest'', JStr digest)]) }"

definition issue_input_of :: "project_runtime \<Rightarrow> qemu_authority_io \<Rightarrow> string \<Rightarrow> string \<Rightarrow> json \<Rightarrow> issue_input option" where
  "issue_input_of rt io projectId reviewId body = do {
     claim \<leftarrow> issueRequest rt body;
     guardO (ic_claimId claim = ic_issuanceRequestId claim \<and> ic_projectId claim = projectId \<and> ic_reviewId claim = reviewId);
     (derivedReview, descriptor, digest) \<leftarrow>
       deriveAuthoritativeQemuExecutionDescriptor rt (qo_execution io) projectId reviewId (ic_jobName claim) (ic_trusted claim);
     guardO (digest = ic_descriptorDigest claim);
     target \<leftarrow> resolve_target rt (qo_target io) projectId;
     Some \<lparr>qi_issuanceRequestId = ic_issuanceRequestId claim, qi_reviewId = reviewId, qi_descriptor = descriptor,
       qi_descriptorDigest = digest, qi_hostId = ic_hostId claim, qi_capacity = ic_capacity claim\<rparr> }"

definition serveAttempt ::
  "project_runtime \<Rightarrow> qemu_ci_config \<Rightarrow> qemu_authority_io \<Rightarrow> string \<Rightarrow> string \<Rightarrow> json \<Rightarrow> authority_store \<Rightarrow> reviewer_reply \<times> authority_store" where
  "serveAttempt rt config io projectId reviewId body store =
     (case issue_input_of rt io projectId reviewId body of
        None \<Rightarrow> (qemu_conflict, store)
      | Some input \<Rightarrow> (case authority_issue rt (qo_uid io) (qo_first io) input (qo_attemptId io) (qo_now io) store of
          (Inl _, s) \<Rightarrow> (qemu_conflict, s)
        | (Inr attempt, s) \<Rightarrow> (service_reply config 201 [(''attempt'', attempt_json attempt)], s)))"

definition serveRevocation ::
  "project_runtime \<Rightarrow> qemu_ci_config \<Rightarrow> qemu_authority_io \<Rightarrow> string \<Rightarrow> string \<Rightarrow> json \<Rightarrow> authority_store \<Rightarrow> reviewer_reply \<times> authority_store" where
  "serveRevocation rt config io projectId reviewId body store =
     (case do {
        value \<leftarrow> as_record (Some body);
        jobName \<leftarrow> as_string (get_field value ''jobName'');
        attemptId \<leftarrow> as_string (get_field value ''attemptId'');
        target \<leftarrow> resolve_target rt (qo_target io) projectId;
        Some (jobName, attemptId) } of
        None \<Rightarrow> (qemu_conflict, store)
      | Some (jobName, attemptId) \<Rightarrow>
          (case authority_revoke rt (qo_uid io) (qo_first io) reviewId jobName attemptId (qo_now io) store of
             (Inl _, s) \<Rightarrow> (qemu_conflict, s)
           | (Inr revoked, s) \<Rightarrow> (service_reply config 201 [(''revocation'', attempt_json revoked)], s)))"

text \<open>The job name of a reported descriptor. A name that is no string is that of no descriptor, so what \<open>String\<close> makes
  of it does not matter: the comparison of the descriptors refuses it.\<close>

definition reported_job :: "json \<Rightarrow> string" where
  "reported_job descriptor = (case get_field descriptor ''jobName'' of Some (JStr s) \<Rightarrow> s | _ \<Rightarrow> ''undefined'')"

record status_report =
  sp_eventId :: string
  sp_attemptId :: string
  sp_descriptorDigest :: string
  sp_result :: string
  sp_descriptor :: json
  sp_event :: json

definition statusReport :: "string \<Rightarrow> json \<Rightarrow> status_report option" where
  "statusReport reviewId body = do {
     event \<leftarrow> as_record (Some body);
     payload \<leftarrow> as_record (get_field event ''payload'');
     as_literal (JStr ''qemu'') (get_field payload ''executionKind'');
     as_literal (JStr ''candidate-controlled'') (get_field payload ''evidenceClass'');
     as_literal (JStr reviewId) (get_field payload ''reviewId'');
     attemptId \<leftarrow> as_string (get_field payload ''attemptId'');
     descriptorDigest \<leftarrow> as_string (get_field payload ''descriptorDigest'');
     result \<leftarrow> as_string (get_field payload ''result'');
     eventId \<leftarrow> as_string (get_field event ''eventId'');
     descriptor \<leftarrow> as_record (get_field payload ''descriptor'');
     Some \<lparr>sp_eventId = eventId, sp_attemptId = attemptId, sp_descriptorDigest = descriptorDigest, sp_result = result,
       sp_descriptor = descriptor, sp_event = event\<rparr> }"

definition status_record :: "status_report \<Rightarrow> json" where
  "status_record r = JObj [(''schemaVersion'', JInt 1), (''executionKind'', JStr ''qemu''), (''eventId'', JStr (sp_eventId r)),
     (''attemptId'', JStr (sp_attemptId r)), (''descriptorDigest'', JStr (sp_descriptorDigest r)),
     (''result'', JStr (sp_result r)), (''event'', sp_event r)]"

definition reports_current :: "status_report \<Rightarrow> NativeQemuAttemptRecord option \<Rightarrow> bool" where
  "reports_current r found = (case found of
     None \<Rightarrow> False
   | Some a \<Rightarrow> qa_attemptId a = sp_attemptId r \<and> deep_eq (descriptor_json (qa_descriptor a)) (sp_descriptor r)
       \<and> sp_result r \<in> set [''success'', ''failure'', ''cancelled''])"

definition serveStatus ::
  "project_runtime \<Rightarrow> qemu_authority_io \<Rightarrow> string \<Rightarrow> string \<Rightarrow> json \<Rightarrow> authority_store \<Rightarrow> reviewer_reply \<times> authority_store" where
  "serveStatus rt io projectId reviewId body store =
     (case do { report \<leftarrow> statusReport reviewId body; target \<leftarrow> resolve_target rt (qo_target io) projectId; Some report } of
        None \<Rightarrow> (qemu_conflict, store)
      | Some report \<Rightarrow>
          (case authority_current rt (qo_uid io) (qo_first io) reviewId (reported_job (sp_descriptor report)) store of
             (Inl _, s) \<Rightarrow> (qemu_conflict, s)
           | (Inr found, s) \<Rightarrow>
               if \<not> reports_current report found then (qemu_conflict, s)
               else (case authority_status rt (qo_uid io) (qo_second io) (status_record report) s of
                   (Inl _, t) \<Rightarrow> (qemu_conflict, t)
                 | (Inr status, t) \<Rightarrow> (Replied 201 (status_json status), t))))"

definition handleQemuAuthority ::
  "project_runtime \<Rightarrow> qemu_ci_config \<Rightarrow> qemu_authority_io \<Rightarrow> reviewer_request \<Rightarrow> (string \<Rightarrow> authority_store) \<Rightarrow>
     reviewer_reply \<times> (string \<Rightarrow> authority_store)" where
  "handleQemuAuthority rt config io request stores =
     (case qemu_route_of request of
        None \<Rightarrow> (NotHandled, stores)
      | Some route \<Rightarrow>
          if \<not> qemu_authorized request (route_credential config route) then (qemu_refused config request, stores)
          else (case qemu_body request of
              None \<Rightarrow> (qemu_conflict, stores)
            | Some body \<Rightarrow>
                (let reply = (\<lambda>r. (case r of None \<Rightarrow> qemu_conflict | Some x \<Rightarrow> x, stores));
                     change = (\<lambda>p (r, s). (r, stores(p := s))) in
                 case route of
                   QPolicy p \<Rightarrow> reply (servePolicy rt config io p body)
                 | QReviewEvent p \<Rightarrow> reply (serveReviewEvent rt config io p body)
                 | QDescriptor p v \<Rightarrow> reply (serveDescriptor rt config io p v body)
                 | QAttempt p v \<Rightarrow> change p (serveAttempt rt config io p v body (stores p))
                 | QRevocation p v \<Rightarrow> change p (serveRevocation rt config io p v body (stores p))
                 | QStatus p v \<Rightarrow> change p (serveStatus rt io p v body (stores p)))))"

section \<open>What a request may do\<close>

definition body_parsed :: "reviewer_request \<Rightarrow> bool" where
  "body_parsed request \<longleftrightarrow> (\<exists>content. vq_json request = json_parse content)"

definition runs_ok :: "project_runtime \<Rightarrow> qemu_authority_io \<Rightarrow> authority_store \<Rightarrow> bool" where
  "runs_ok rt io store \<longleftrightarrow> run_ok rt (qo_first io) store \<and> run_ok rt (qo_second io) store"

lemma serve_attempt_step:
  assumes "serveAttempt rt config io p v body store = (r, t)" "runs_ok rt io store" "t \<noteq> store"
  shows "authority_step rt (qo_uid io) store t"
proof (cases "issue_input_of rt io p v body")
  case (Some input)
  obtain r0 where "authority_issue rt (qo_uid io) (qo_first io) input (qo_attemptId io) (qo_now io) store = (r0, t)"
    using assms(1) Some by (auto simp: serveAttempt_def split: prod.splits sum.splits)
  with assms(2) show ?thesis unfolding runs_ok_def by (blast intro: step_issue)
qed (use assms in \<open>simp add: serveAttempt_def\<close>)

lemma serve_revocation_step:
  assumes "serveRevocation rt config io p v body store = (r, t)" "runs_ok rt io store" "t \<noteq> store"
  shows "authority_step rt (qo_uid io) store t"
proof -
  obtain jobName attemptId r0 where "authority_revoke rt (qo_uid io) (qo_first io) v jobName attemptId (qo_now io) store = (r0, t)"
    using assms(1,3) by (auto simp: serveRevocation_def split: prod.splits sum.splits option.splits)
  with assms(2) show ?thesis unfolding runs_ok_def by (blast intro: step_revoke)
qed

lemma current_is_load:
  assumes "authority_current rt uid run v j store = (r, s)"
  shows "\<exists>r'. authority_load rt uid run store = (r', s)"
  using assms by (auto simp: authority_current_def bindA_def split: prod.splits sum.splits)

lemma load_run_ok:
  assumes "authority_load rt uid run store = (r, s)" "run_ok rt run' store"
  shows "run_ok rt run' s"
proof -
  obtain r' where "readNativeQemuAuthorityStateFile rt uid (rn_readHalt run) store = (r', s)"
    using assms(1) by (auto simp: authority_load_def bindA_def split: prod.splits sum.splits)
  from read_inodes[OF this assms(2)] show ?thesis .
qed

lemma status_record_ok: "statusReport v body = Some report \<Longrightarrow> json_ok body \<Longrightarrow> json_ok (status_record report)"
  unfolding statusReport_def by (auto simp: opt_conv status_record_def)

lemma serve_status_steps:
  assumes "serveStatus rt io p v body store = (r, t)" "runs_ok rt io store" "json_ok body"
  shows "(authority_step rt (qo_uid io))\<^sup>*\<^sup>* store t"
proof (cases "statusReport v body = None \<or> resolve_target rt (qo_target io) p = None")
  case False
  then obtain report target where rep: "statusReport v body = Some report" "resolve_target rt (qo_target io) p = Some target" by auto
  let ?job = "reported_job (sp_descriptor report)"
  obtain found s where c: "authority_current rt (qo_uid io) (qo_first io) v ?job store = (found, s)" by fastforce
  obtain r' where l: "authority_load rt (qo_uid io) (qo_first io) store = (r', s)" using current_is_load[OF c] by blast
  have first: "authority_step rt (qo_uid io) store s" using l assms(2) unfolding runs_ok_def by (blast intro: step_load)
  have second: "run_ok rt (qo_second io) s" using load_run_ok[OF l] assms(2) by (simp add: runs_ok_def)
  show ?thesis
  proof (cases "t = s")
    case True
    with first show ?thesis by simp
  next
    case False
    obtain r2 where "authority_status rt (qo_uid io) (qo_second io) (status_record report) s = (r2, t)"
      using assms(1) rep c False by (auto simp: serveStatus_def split: prod.splits sum.splits if_splits)
    with second status_record_ok[OF rep(1) assms(3)] have "authority_step rt (qo_uid io) s t" by (blast intro: step_status)
    with first show ?thesis by simp
  qed
qed (use assms(1) in \<open>auto simp: serveStatus_def\<close>)

text \<open>C16: The QEMU authority acts for the holders of its credentials only, Project by Project. When a request changes
  an authority store, it is a request for attempts or revocations with the credential of the attempt issuer or a request
  for statuses with the credential of the result reporter, it changes the store of the Project that its path names and no
  other, and it changes it by operations of the authority.\<close>

theorem qemu_authority_acts_for_its_credentials:
  assumes "handleQemuAuthority rt config io request stores = (reply, stores')" "body_parsed request"
    "\<And>p. runs_ok rt io (stores p)" "stores' \<noteq> stores"
  shows "\<exists>p v. (\<forall>q. q \<noteq> p \<longrightarrow> stores' q = stores q) \<and> (authority_step rt (qo_uid io))\<^sup>*\<^sup>* (stores p) (stores' p)
    \<and> (qemu_authorized request (qc_attemptIssuer config) \<and> qemu_route_of request \<in> {Some (QAttempt p v), Some (QRevocation p v)}
      \<or> qemu_authorized request (qc_resultReporter config) \<and> qemu_route_of request = Some (QStatus p v))"
proof -
  obtain route body where rb: "qemu_route_of request = Some route" "qemu_authorized request (route_credential config route)"
    "qemu_body request = Some body"
    using assms(1,4) by (auto simp: handleQemuAuthority_def split: option.splits if_splits)
  have ok: "json_ok body"
    using rb(3) assms(2) by (auto simp: qemu_body_def body_parsed_def split: if_splits intro: json_parse_ok)
  show ?thesis
  proof (cases route)
    case (QAttempt p v)
    obtain r t where s: "serveAttempt rt config io p v body (stores p) = (r, t)" by fastforce
    have u: "stores' = stores(p := t)" using assms(1) rb s by (simp add: handleQemuAuthority_def QAttempt)
    have "(authority_step rt (qo_uid io))\<^sup>*\<^sup>* (stores p) t"
      using serve_attempt_step[OF s assms(3)] by (cases "t = stores p") auto
    with u rb QAttempt show ?thesis by auto
  next
    case (QRevocation p v)
    obtain r t where s: "serveRevocation rt config io p v body (stores p) = (r, t)" by fastforce
    have u: "stores' = stores(p := t)" using assms(1) rb s by (simp add: handleQemuAuthority_def QRevocation)
    have "(authority_step rt (qo_uid io))\<^sup>*\<^sup>* (stores p) t"
      using serve_revocation_step[OF s assms(3)] by (cases "t = stores p") auto
    with u rb QRevocation show ?thesis by auto
  next
    case (QStatus p v)
    obtain r t where s: "serveStatus rt io p v body (stores p) = (r, t)" by fastforce
    have u: "stores' = stores(p := t)" using assms(1) rb s by (simp add: handleQemuAuthority_def QStatus)
    with serve_status_steps[OF s assms(3) ok] rb QStatus show ?thesis by auto
  qed (use assms(1,4) rb in \<open>simp_all add: handleQemuAuthority_def\<close>)
qed

section \<open>What an attempt is issued for\<close>

lemma plan_entry_script:
  assumes "readNativeCandidateJobInputsFromGit rt io target = Some inputs" "job \<in> set (ni_plan inputs)"
  obtains blob where "readCandidateBlob (ca_read io) (ct_candidateTree target) (pj_scriptPath job) (1024 * 1024) = Some blob"
    "pj_scriptObjectId job = gb_objectId blob" "pj_scriptSha256 job = bytes_digest rt (gb_bytes blob)"
proof -
  from assms obtain jobs where m: "mapM (planned_entry rt (ca_read io) (ct_candidateTree target)) jobs = Some (ni_plan inputs)"
    unfolding readNativeCandidateJobInputsFromGit_def by (auto simp: opt_conv split: if_splits)
  have "\<exists>cj. planned_entry rt (ca_read io) (ct_candidateTree target) cj = Some job"
    by (rule mapM_all[OF m _ assms(2)]) blast
  then show thesis using that unfolding planned_entry_def by (auto simp: opt_conv)
qed

lemma derived_for_current_review:
  assumes "deriveAuthoritativeQemuExecutionDescriptor rt io p v jobName capacity = Some (w, d, g)"
  obtains target envelope blob where "resolve_target rt (xe_current io) p = Some target"
    "readAuthoritativeNativeReviewEnvelope (xe_current_reviews io) v = Some envelope"
    "nativeHumanReviewStaleReasons (xe_current_freshness io) target (en_review envelope) = []"
    "readCandidateBlob (ca_read (xe_candidate io)) (rv_candidateTree (en_review envelope)) (sr_path (d_script d)) (1024 * 1024) = Some blob"
    "sr_objectId (d_script d) = gb_objectId blob" "sr_sha256 (d_script d) = bytes_digest rt (gb_bytes blob)"
    "d_projectId d = p" "d_jobName d = jobName" "d_candidateCommit d = rv_candidateCommit (en_review envelope)"
    "d_candidateTree d = rv_candidateTree (en_review envelope)"
    "d_expectedProtectedHead d = rv_expectedProtectedHead (en_review envelope)"
    "qemu_descriptor_valid d" "g = qemuExecutionDescriptorDigest rt d"
proof -
  from assms obtain target envelope inputs review selected config where
    1: "loadAuthoritativeExecutionReview rt io p v = Some (target, envelope)"
      "loadCurrentAuthoritativeExecutionInputs rt io (target, envelope) = Some (inputs, review)"
      "find_row (\<lambda>j. pj_jobName j = jobName) (ni_plan inputs) = Some selected"
      "qemuExecutionDescriptorSchema (descriptor_json
         (derived_descriptor capacity review (en_qualityRevision envelope) config selected)) = Some d"
      "g = qemuExecutionDescriptorDigest rt d"
    unfolding deriveAuthoritativeQemuExecutionDescriptor_def by (auto simp: opt_conv)
  have e: "readAuthoritativeNativeReviewEnvelope (xe_snapshot_reviews io) v = Some envelope" "rv_projectId (en_review envelope) = p"
    using 1(1) by (auto simp: loadAuthoritativeExecutionReview_def opt_conv)
  have rid: "rv_reviewId (en_review envelope) = v" by (rule read_envelope(2)[OF e(1)])
  have 2: "loadAuthoritativeNativeCandidateJobInputs rt io p (rv_candidateCommit (en_review envelope)) (rv_candidateTree (en_review envelope)) = Some inputs"
      "resolve_target rt (xe_current io) p = Some target"
      "readAuthoritativeNativeReviewEnvelope (xe_current_reviews io) v = Some envelope"
      "nativeHumanReviewStaleReasons (xe_current_freshness io) target (en_review envelope) = []" "review = en_review envelope"
    using 1(2) e(2) rid by (auto simp: loadCurrentAuthoritativeExecutionInputs_def Let_def opt_conv)
  from 2(1) obtain t where 3: "readNativeCandidateJobInputsFromGit rt (xe_candidate io) t = Some inputs"
      "ct_candidateTree t = rv_candidateTree (en_review envelope)"
    unfolding loadAuthoritativeNativeCandidateJobInputs_def by (auto simp: opt_conv)
  have d: "d = derived_descriptor capacity review (en_qualityRevision envelope) config selected"
    using 1(4) descriptor_schema_eq descriptor_json_parsed by blast
  have sel: "selected \<in> set (ni_plan inputs)" "pj_jobName selected = jobName" using find_row_Some[OF 1(3)] by auto
  obtain blob where "readCandidateBlob (ca_read (xe_candidate io)) (ct_candidateTree t) (pj_scriptPath selected) (1024 * 1024) = Some blob"
      "pj_scriptObjectId selected = gb_objectId blob" "pj_scriptSha256 selected = bytes_digest rt (gb_bytes blob)"
    by (rule plan_entry_script[OF 3(1) sel(1)])
  then show thesis using 1(5) 2 3(2) e(2) sel(2) descriptor_schema_valid[OF 1(4)]
    by (intro that[OF 2(2-4), of blob]) (simp_all add: d derived_descriptor_def)
qed

lemma issued_for_input:
  assumes "authority_issue rt uid run input attemptId now store = (Inr a, t)"
  shows "attempt_matches a input"
proof -
  have "\<exists>st st'. issue_decision rt input attemptId now st = Inr (st', a)"
    using assms by (fastforce simp: authority_issue_def authority_update_def bindA_def split: prod.splits sum.splits option.splits)
  then obtain st st' where "issue_decision rt input attemptId now st = Inr (st', a)" by blast
  then show ?thesis
  proof (cases st')
    case None
    with \<open>issue_decision rt input attemptId now st = Inr (st', a)\<close> show ?thesis
      by (auto simp: issue_decision_def Let_def split: option.splits if_splits)
  next
    case (Some st2)
    with \<open>issue_decision rt input attemptId now st = Inr (st', a)\<close> have "issue_decision rt input attemptId now st = Inr (Some st2, a)" by simp
    from issue_decided(3)[OF this] show ?thesis by (simp add: attempt_matches_def)
  qed
qed

text \<open>C4: An issued attempt runs the candidate of a current review. When a request for an attempt is answered with one,
  the attempt is for the review that the path names, that review is stored and not stale, and the descriptor of the attempt
  names its Project, the current protected head and exactly the commit and tree of the candidate; the script it names is
  the blob that Git gives for its path in that tree, by its object and by its digest; and the host of the scheduler
  accepts the descriptor and computes the digest of the attempt for it.\<close>

theorem issued_attempt_runs_the_reviewed_candidate:
  assumes "handleQemuAuthority rt config io request stores = (Replied 201 reply, stores')" "qemu_route_of request = Some (QAttempt p v)"
  shows "\<exists>a target envelope blob. get_field reply ''attempt'' = Some (attempt_json a) \<and> qa_reviewId a = v
    \<and> resolve_target rt (xe_current (qo_execution io)) p = Some target
    \<and> readAuthoritativeNativeReviewEnvelope (xe_current_reviews (qo_execution io)) v = Some envelope
    \<and> nativeHumanReviewStaleReasons (xe_current_freshness (qo_execution io)) target (en_review envelope) = []
    \<and> d_projectId (qa_descriptor a) = p \<and> d_expectedProtectedHead (qa_descriptor a) = ch_commit (gt_currentHead target)
    \<and> d_candidateCommit (qa_descriptor a) = rv_candidateCommit (en_review envelope)
    \<and> d_candidateTree (qa_descriptor a) = rv_candidateTree (en_review envelope)
    \<and> readCandidateBlob (ca_read (xe_candidate (qo_execution io))) (rv_candidateTree (en_review envelope))
        (sr_path (d_script (qa_descriptor a))) (1024 * 1024) = Some blob
    \<and> sr_objectId (d_script (qa_descriptor a)) = gb_objectId blob
    \<and> sr_sha256 (d_script (qa_descriptor a)) = bytes_digest rt (gb_bytes blob)
    \<and> parseNativeQemuDescriptor (descriptor_json (qa_descriptor a)) = Some (qa_descriptor a)
    \<and> qa_descriptorDigest a = nativeQemuDescriptorDigest (runtime.truncate rt) (qa_descriptor a)"
proof -
  have nc: "qemu_conflict \<noteq> Replied 201 b" "qemu_refused config request \<noteq> Replied 201 b" for b
    by (simp_all add: qemu_conflict_def qemu_refused_def error_reply_def)
  obtain body where "qemu_body request = Some body" "fst (serveAttempt rt config io p v body (stores p)) = Replied 201 reply"
    using assms nc by (auto simp: handleQemuAuthority_def split: option.splits if_splits prod.splits)
  then obtain input a t where i: "issue_input_of rt io p v body = Some input"
      "authority_issue rt (qo_uid io) (qo_first io) input (qo_attemptId io) (qo_now io) (stores p) = (Inr a, t)"
      "Replied 201 reply = service_reply config 201 [(''attempt'', attempt_json a)]"
    using nc by (auto simp: serveAttempt_def split: option.splits prod.splits sum.splits)
  have m: "attempt_matches a input" by (rule issued_for_input[OF i(2)])
  from i(1) obtain job capacity w where d: "deriveAuthoritativeQemuExecutionDescriptor rt (qo_execution io) p v job capacity
      = Some (w, qi_descriptor input, qi_descriptorDigest input)" "qi_reviewId input = v"
    unfolding issue_input_of_def by (auto simp: opt_conv)
  have eq: "qa_descriptor a = qi_descriptor input" "qa_descriptorDigest a = qi_descriptorDigest input" "qa_reviewId a = v"
    using m d(2) by (simp_all add: attempt_matches_def)
  obtain target envelope blob where c: "resolve_target rt (xe_current (qo_execution io)) p = Some target"
      "readAuthoritativeNativeReviewEnvelope (xe_current_reviews (qo_execution io)) v = Some envelope"
      "nativeHumanReviewStaleReasons (xe_current_freshness (qo_execution io)) target (en_review envelope) = []"
      "readCandidateBlob (ca_read (xe_candidate (qo_execution io))) (rv_candidateTree (en_review envelope))
         (sr_path (d_script (qi_descriptor input))) (1024 * 1024) = Some blob"
      "sr_objectId (d_script (qi_descriptor input)) = gb_objectId blob"
      "sr_sha256 (d_script (qi_descriptor input)) = bytes_digest rt (gb_bytes blob)"
      "d_projectId (qi_descriptor input) = p" "d_candidateCommit (qi_descriptor input) = rv_candidateCommit (en_review envelope)"
      "d_candidateTree (qi_descriptor input) = rv_candidateTree (en_review envelope)"
      "d_expectedProtectedHead (qi_descriptor input) = rv_expectedProtectedHead (en_review envelope)"
      "qemu_descriptor_valid (qi_descriptor input)" "qi_descriptorDigest input = qemuExecutionDescriptorDigest rt (qi_descriptor input)"
    by (rule derived_for_current_review[OF d(1)]) blast
  have head: "rv_expectedProtectedHead (en_review envelope) = ch_commit (gt_currentHead target)"
    by (rule fresh_review[OF c(3)]) simp
  have host: "parseNativeQemuDescriptor (descriptor_json (qi_descriptor input)) = Some (qi_descriptor input)"
    using c(11) by (simp add: qemu_descriptor_valid_def parse_descriptor_json)
  have att: "get_field reply ''attempt'' = Some (attempt_json a)" using i(3) by (simp add: service_reply_def)
  show ?thesis
    using c head host att eq descriptor_digest_eq[of rt "qi_descriptor input"] by (intro exI[of _ a] exI[of _ target] exI[of _ envelope] exI[of _ blob]) simp
qed

end
