(* ===== verification/Authority_Examples.thy ===== *)
theory Authority_Examples
  imports Authority_Service Project_Examples
begin

text \<open>
  A request for an attempt at work: the Project and the review of the examples about promotion, a candidate tree with a
  runner configuration and the script of one QEMU job, and an authority store that does not exist yet. It shows that the
  hypotheses of the theorems about the QEMU authority service can hold together.
\<close>

section \<open>The candidate\<close>

definition demo_object :: "char \<Rightarrow> string" where "demo_object c = replicate 40 c"

definition demo_listing :: "string \<Rightarrow> string \<Rightarrow> string \<Rightarrow> string" where
  "demo_listing kind object name = kind @ '' '' @ object @ [CHR 0x09] @ name @ [CHR 0x00]"

definition demo_tree :: "((string \<times> string) \<times> string) list" where
  "demo_tree = [((demo_candidate_tree, ''.dim''), demo_listing ''040000 tree'' (demo_object CHR ''1'') ''.dim''),
     ((demo_object CHR ''1'', ''ci''), demo_listing ''040000 tree'' (demo_object CHR ''2'') ''ci''),
     ((demo_object CHR ''2'', ''runner.yml''), demo_listing ''100644 blob'' (demo_object CHR ''3'') ''runner.yml''),
     ((demo_object CHR ''2'', ''jobs''), demo_listing ''040000 tree'' (demo_object CHR ''4'') ''jobs''),
     ((demo_object CHR ''4'', ''test.bash''), demo_listing ''100755 blob'' (demo_object CHR ''5'') ''test.bash'')]"

definition demo_candidate_view :: candidate_view where
  "demo_candidate_view = \<lparr>
     cv_rev_parse = map_of [(demo_main @ ''^{commit}'', demo_head), (demo_candidate @ ''^{commit}'', demo_candidate),
       (demo_candidate @ ''^{tree}'', demo_candidate_tree)],
     cv_ls_tree = (\<lambda>tree component. map_of demo_tree (tree, component)),
     cv_size = map_of [(demo_object CHR ''3'', ''6''), (demo_object CHR ''5'', ''4'')],
     cv_blob = map_of [(demo_object CHR ''3'', ''config''), (demo_object CHR ''5'', ''true'')]\<rparr>"

definition demo_node :: "yaml_content \<Rightarrow> yaml" where "demo_node c = YNode None None c"

definition demo_map :: "(string \<times> yaml) list \<Rightarrow> yaml" where
  "demo_map ms = demo_node (YMap (map (\<lambda>(k, v). (demo_node (YScalar (JStr k)), v)) ms))"

definition demo_document :: yaml where
  "demo_document = demo_map [(''schemaVersion'', demo_node (YScalar (JInt 4))), (''ordinary'', demo_map [(''jobs'', demo_map [])]),
     (''qemu'', demo_map [(''jobs'', demo_map [(''test'', demo_map [(''script'', demo_node (YScalar (JStr ''.dim/ci/jobs/test.bash''))),
       (''argv'', demo_node (YSeq (map (\<lambda>a. demo_node (YScalar (JStr a))) candidateArgv)))])])])]"

definition demo_candidate_io :: candidate_io where
  "demo_candidate_io = \<lparr>ca_before = demo_candidate_view, ca_read = demo_candidate_view, ca_after = demo_candidate_view,
     ca_parseDocument = (\<lambda>_. Some demo_document)\<rparr>"

definition demo_qemu_job :: PlannedJob where
  "demo_qemu_job = \<lparr>pj_executionKind = Qemu, pj_jobName = ''test'', pj_scriptObjectId = demo_object CHR ''5'',
     pj_scriptSha256 = ''sha256:'' @ demo_digest, pj_scriptPath = ''.dim/ci/jobs/test.bash''\<rparr>"

definition demo_config_blob :: ReviewBlob where
  "demo_config_blob = \<lparr>vb_objectId = demo_object CHR ''3'', vb_sha256 = ''sha256:'' @ demo_digest\<rparr>"

lemma demo_entries:
  "candidate_entry demo_candidate_view demo_candidate_tree (split_on CHR ''/'' ''.dim/ci/runner.yml'') = Some (demo_object CHR ''3'')"
  "candidate_entry demo_candidate_view demo_candidate_tree (split_on CHR ''/'' ''.dim/ci/jobs/test.bash'') = Some (demo_object CHR ''5'')"
  "candidatePathExists demo_candidate_view demo_candidate_tree ''.dim/ci/runner.yml'' = Some True"
  by code_simp+

lemma demo_sizes: "gitText (cv_size demo_candidate_view (demo_object CHR ''3'')) = Some ''6''"
  "gitText (cv_size demo_candidate_view (demo_object CHR ''5'')) = Some ''4''" "matches naturalPattern ''6''" "matches naturalPattern ''4''"
  "undec ''6'' = 6" "undec ''4'' = 4" "cv_blob demo_candidate_view (demo_object CHR ''3'') = Some ''config''"
  "cv_blob demo_candidate_view (demo_object CHR ''5'') = Some ''true''"
  by code_simp+

lemma demo_blobs:
  "readCandidateBlob demo_candidate_view demo_candidate_tree ''.dim/ci/runner.yml'' (64 * 1024)
     = Some \<lparr>gb_objectId = demo_object CHR ''3'', gb_bytes = ''config''\<rparr>"
  "readCandidateBlob demo_candidate_view demo_candidate_tree ''.dim/ci/jobs/test.bash'' (1024 * 1024)
     = Some \<lparr>gb_objectId = demo_object CHR ''5'', gb_bytes = ''true''\<rparr>"
  unfolding readCandidateBlob_def demo_entries by (simp_all add: demo_sizes gitBuffer_def)

lemma demo_yaml: "yaml_strict demo_document" "utf8_valid (map of_char ''config'')" "\<not> startsWith byte_order_mark ''config''"
  "strict_object (yaml_value demo_document) [''schemaVersion'', ''ordinary'', ''qemu''] []"
  "as_literal (JInt 4) (get_field (yaml_value demo_document) ''schemaVersion'') = Some ()"
  "jobGroupSchema OrdinarySysbox (get_field (yaml_value demo_document) ''ordinary'') = Some []"
  "jobGroupSchema Qemu (get_field (yaml_value demo_document) ''qemu'')
     = Some [\<lparr>cj_name = ''test'', cj_kind = Qemu, cj_script = ''.dim/ci/jobs/test.bash''\<rparr>]"
  by code_simp+

lemma demo_jobs: "parseNativeCandidateJobConfig (ca_parseDocument demo_candidate_io) ''config''
    = Some [\<lparr>cj_name = ''test'', cj_kind = Qemu, cj_script = ''.dim/ci/jobs/test.bash''\<rparr>]"
proof -
  have "parseStrictYaml (ca_parseDocument demo_candidate_io) ''config'' = Some (yaml_value demo_document)"
    unfolding parseStrictYaml_def using demo_yaml(1-3) by (simp add: demo_candidate_io_def)
  then show ?thesis unfolding parseNativeCandidateJobConfig_def using demo_yaml(4-7) by (simp add: canonicalJobs_def as_literal_def)
qed

lemma demo_candidate_objects:
  "assertCandidateObjects demo_candidate_view \<lparr>ct_protectedRef = demo_main, ct_expectedProtectedHead = demo_head,
     ct_candidateCommit = demo_candidate, ct_candidateTree = demo_candidate_tree\<rparr>"
  by code_simp

lemma demo_inputs:
  "readNativeCandidateJobInputsFromGit demo_prt demo_candidate_io \<lparr>ct_protectedRef = demo_main, ct_expectedProtectedHead = demo_head,
     ct_candidateCommit = demo_candidate, ct_candidateTree = demo_candidate_tree\<rparr>
   = Some \<lparr>ni_configBlob = Some demo_config_blob, ni_plan = [demo_qemu_job]\<rparr>"
proof -
  have v: "ca_before demo_candidate_io = demo_candidate_view" "ca_read demo_candidate_io = demo_candidate_view"
    "ca_after demo_candidate_io = demo_candidate_view" by (simp_all add: demo_candidate_io_def)
  have d: "bytes_digest demo_prt bytes = ''sha256:'' @ demo_digest" for bytes by (simp add: bytes_digest_def demo_prt_def)
  show ?thesis
    by (simp add: readNativeCandidateJobInputsFromGit_def v demo_candidate_objects demo_entries(3) demo_blobs[simplified] demo_jobs
        planned_entry_def d demo_config_blob_def demo_qemu_job_def)
qed

section \<open>The request\<close>

definition demo_resolution :: resolution where
  "demo_resolution = (demo_service_runtime, demo_imported, demo_imported)"

definition demo_execution :: execution_io where
  "demo_execution = \<lparr>xe_snapshot = demo_resolution, xe_snapshot_reviews = [demo_envelope],
     xe_snapshot_freshness = pv_freshness (demo_promotion False False), xe_verified = demo_resolution,
     xe_candidate = demo_candidate_io, xe_verified_again = demo_resolution, xe_current = demo_resolution,
     xe_current_reviews = [demo_envelope], xe_current_freshness = pv_freshness (demo_promotion False False)\<rparr>"

definition demo_capacity :: TrustedCapacity where
  "demo_capacity = \<lparr>tc_admissionGeneration = demo_uuid, tc_jobBaseImage = demo_image, tc_runnerBaseImage = demo_image,
     tc_bounds = demo_bounds\<rparr>"

definition demo_reviewed :: NativeQemuDescriptor where
  "demo_reviewed = derived_descriptor demo_capacity demo_review demo_digest demo_config_blob demo_qemu_job"

lemma demo_reviewed_parses: "qemuExecutionDescriptorSchema (descriptor_json demo_reviewed) = Some demo_reviewed"
  by code_simp

lemma demo_capacity_ok: "trustedCapacity_ok demo_capacity"
  by code_simp

lemma demo_target_fields: "gt_currentHead demo_target = demo_current" "ch_protectedRef demo_current = demo_main"
  "ch_commit demo_current = demo_head"
  by (simp_all add: demo_target_def demo_current_def)

lemma demo_derived:
  "deriveAuthoritativeQemuExecutionDescriptor demo_prt demo_execution ''alpha'' demo_digest ''test'' demo_capacity
   = Some (demo_digest, demo_reviewed, ''sha256:'' @ demo_digest)"
proof -
  have e: "readAuthoritativeNativeReviewEnvelope [demo_envelope] demo_digest = Some demo_envelope" by code_simp
  have m: "matches projectPattern ''alpha''" "matches namePattern ''test''" "matches objectIdPattern demo_candidate"
    "matches objectIdPattern demo_candidate_tree" by code_simp+
  have r: "resolve_target demo_prt demo_resolution ''alpha'' = Some demo_target"
    by (simp add: resolve_target_def demo_resolution_def demo_resolved)
  have f: "en_review demo_envelope = demo_review" "en_qualityRevision demo_envelope = demo_digest" "rv_projectId demo_review = ''alpha''"
    "rv_reviewId demo_review = demo_digest" "rv_candidateCommit demo_review = demo_candidate"
    "rv_candidateTree demo_review = demo_candidate_tree" by (simp_all add: demo_envelope_def demo_review_def)
  have s: "loadAuthoritativeExecutionReview demo_prt demo_execution ''alpha'' demo_digest = Some (demo_target, demo_envelope)"
    by (simp add: loadAuthoritativeExecutionReview_def demo_execution_def r e f demo_fresh)
  have i: "loadAuthoritativeNativeCandidateJobInputs demo_prt demo_execution ''alpha'' demo_candidate demo_candidate_tree
      = Some \<lparr>ni_configBlob = Some demo_config_blob, ni_plan = [demo_qemu_job]\<rparr>"
    by (simp add: loadAuthoritativeNativeCandidateJobInputs_def m demo_execution_def r demo_target_fields demo_inputs)
  have c: "loadCurrentAuthoritativeExecutionInputs demo_prt demo_execution (demo_target, demo_envelope)
      = Some (\<lparr>ni_configBlob = Some demo_config_blob, ni_plan = [demo_qemu_job]\<rparr>, demo_review)"
    unfolding loadCurrentAuthoritativeExecutionInputs_def
    by (simp add: f i Let_def) (simp add: demo_execution_def r e f demo_fresh)
  have j: "pj_jobName demo_qemu_job = ''test''" "pj_executionKind demo_qemu_job = Qemu" by (simp_all add: demo_qemu_job_def)
  have g: "qemuExecutionDescriptorDigest demo_prt demo_reviewed = ''sha256:'' @ demo_digest"
    by (simp add: qemuExecutionDescriptorDigest_def demo_prt_def)
  show ?thesis
    unfolding deriveAuthoritativeQemuExecutionDescriptor_def
    by (simp add: m demo_project_hex(1) demo_capacity_ok s c j f demo_reviewed_parses[unfolded demo_reviewed_def]
        g[unfolded demo_reviewed_def] find_row_def demo_reviewed_def)
qed

definition demo_claim_json :: json where
  "demo_claim_json = JObj [(''claimId'', JStr demo_uuid), (''issuanceRequestId'', JStr demo_uuid), (''hostId'', JStr ''host1''),
     (''capacity'', JStr ''small''), (''admissionGeneration'', JStr demo_uuid),
     (''event'', JObj [(''projectId'', JStr ''alpha''), (''reviewId'', JStr demo_digest), (''jobName'', JStr ''test''),
       (''executionKind'', JStr ''qemu'')]),
     (''runnerBaseImage'', JStr demo_image), (''jobBaseImage'', JStr demo_image), (''bounds'', bounds_json demo_bounds)]"

definition demo_attempt_body :: json where
  "demo_attempt_body = JObj [(''schemaVersion'', JInt 1), (''descriptorDigest'', JStr (''sha256:'' @ demo_digest)),
     (''claim'', demo_claim_json)]"

definition demo_ci :: qemu_ci_config where
  "demo_ci = \<lparr>qc_serviceId = ''native-main'', qc_identity = (''id'', ''pw''), qc_attemptIssuer = (''issuer'', ''pw''),
     qc_resultReporter = (''reporter'', ''pw''), qc_knownCredentials = []\<rparr>"

definition demo_attempt_request :: reviewer_request where
  "demo_attempt_request = \<lparr>vq_method = ''POST'',
     vq_pathname = ''/v1/projects/alpha/repositories/root/reviews/'' @ demo_digest @ ''/qemu-attempts'', vq_search = [],
     vq_authorization = Some (''Basic '' @ base64 (''issuer'' @ '':'' @ ''pw'')), vq_generation_id = None,
     vq_content_type = Some ''application/json'', vq_body_bytes = 900, vq_json = Some demo_attempt_body\<rparr>"

definition demo_qemu_authority :: qemu_authority_io where
  "demo_qemu_authority = \<lparr>qo_uid = 0, qo_target = demo_resolution, qo_reviews = [demo_envelope],
     qo_freshness = pv_freshness (demo_promotion False False), qo_execution = demo_execution, qo_first = demo_run None,
     qo_second = demo_run None, qo_attemptId = demo_uuid, qo_now = ''2026-01-01T00:00:00.000Z''\<rparr>"

definition demo_reviewed_issue :: issue_input where
  "demo_reviewed_issue = \<lparr>qi_issuanceRequestId = demo_uuid, qi_reviewId = demo_digest, qi_descriptor = demo_reviewed,
     qi_descriptorDigest = ''sha256:'' @ demo_digest, qi_hostId = ''host1'', qi_capacity = ''small''\<rparr>"

lemma demo_issue_request: "issueRequest demo_prt demo_attempt_body = Some \<lparr>ic_descriptorDigest = ''sha256:'' @ demo_digest,
    ic_claimId = demo_uuid, ic_issuanceRequestId = demo_uuid, ic_hostId = ''host1'', ic_capacity = ''small'', ic_projectId = ''alpha'',
    ic_reviewId = demo_digest, ic_jobName = ''test'', ic_trusted = demo_capacity\<rparr>"
  by code_simp

lemma demo_issue_input: "issue_input_of demo_prt demo_qemu_authority ''alpha'' demo_digest demo_attempt_body = Some demo_reviewed_issue"
proof -
  have r: "resolve_target demo_prt demo_resolution ''alpha'' = Some demo_target"
    by (simp add: resolve_target_def demo_resolution_def demo_resolved)
  have q: "qo_execution demo_qemu_authority = demo_execution" "qo_target demo_qemu_authority = demo_resolution"
    by (simp_all add: demo_qemu_authority_def)
  show ?thesis by (simp add: issue_input_of_def demo_issue_request demo_derived q r demo_reviewed_issue_def)
qed

lemma demo_attempt_route: "qemu_route_of demo_attempt_request = Some (QAttempt ''alpha'' demo_digest)"
  by code_simp

section \<open>The attempt\<close>

abbreviation demo_reviewed_attempt :: NativeQemuAttemptRecord where
  "demo_reviewed_attempt \<equiv> next_attempt demo_reviewed_issue demo_uuid ''2026-01-01T00:00:00.000Z'' emptyState"

definition demo_reviewed_state :: authority_state where
  "demo_reviewed_state = emptyState\<lparr>au_attempts := [demo_reviewed_attempt]\<rparr>"

lemma demo_reviewed_valid: "attempt_valid demo_prt demo_reviewed_attempt"
proof -
  have "matches digestPattern (''sha256:'' @ demo_digest)" "matches identifierPattern ''host1''" "matches identifierPattern ''small''"
    by code_simp+
  moreover have "qemuExecutionDescriptorDigest demo_prt demo_reviewed = ''sha256:'' @ demo_digest"
    by (simp add: qemuExecutionDescriptorDigest_def demo_prt_def)
  ultimately show ?thesis using descriptor_schema_valid[OF demo_reviewed_parses] demo_project_hex(1)
    by (simp add: attempt_valid_def next_attempt_def demo_reviewed_issue_def demo_prt_def emptyState_def safe_integer_def)
qed

lemma demo_reviewed_text: "length (authority_text demo_reviewed_state) \<le> 3000"
  by code_simp

lemma demo_reviewed_storable: "state_storable demo_prt demo_reviewed_state"
proof -
  have "state_refinement demo_reviewed_state"
    using refinement_issue[OF empty_storable demo_reviewed_valid]
    by (simp add: demo_reviewed_state_def emptyState_def next_attempt_def current_attempt_def)
  then show ?thesis using demo_reviewed_text demo_reviewed_valid
    by (simp add: state_storable_def state_valid_def demo_reviewed_state_def emptyState_def maximumStateBytes_def)
qed

lemma demo_runs_ok: "runs_ok demo_prt demo_qemu_authority None"
  using demo_run_ok by (simp add: runs_ok_def demo_qemu_authority_def demo_art_def demo_prt_def demo_digest_def)

lemma demo_reviewed_issued:
  obtains t where "authority_issue demo_prt 0 (demo_run None) demo_reviewed_issue demo_uuid ''2026-01-01T00:00:00.000Z'' None
    = (Inr demo_reviewed_attempt, t)" "t \<noteq> None"
proof -
  have h: "\<not> rn_readHalt (demo_run None)" "run_ok demo_prt (demo_run None) None"
    using demo_runs_ok by (simp_all add: demo_run_def runs_ok_def demo_qemu_authority_def)
  have d: "issue_decision demo_prt demo_reviewed_issue demo_uuid ''2026-01-01T00:00:00.000Z'' emptyState
      = Inr (Some demo_reviewed_state, demo_reviewed_attempt)"
    using attempt_schema_json[OF demo_reviewed_valid]
    by (simp add: issue_decision_def emptyState_def current_attempt_def next_attempt_def demo_reviewed_state_def)
  obtain t where t: "authority_update demo_prt 0 (demo_run None) (issue_decision demo_prt demo_reviewed_issue demo_uuid ''2026-01-01T00:00:00.000Z'') None
      = (Inr demo_reviewed_attempt, t)" "readable demo_prt 0 t demo_reviewed_state"
    by (rule issuing.update_storable[OF readable_absent h(2,1) d demo_reviewed_storable, where n = 0])
      (auto simp: demo_run_def halts_before_link_def)
  have "t \<noteq> None"
  proof
    assume "t = None"
    with readable_absent[of demo_prt 0] t(2) have "demo_reviewed_state = emptyState" by (auto elim: readable.cases)
    then show False by (simp add: demo_reviewed_state_def emptyState_def)
  qed
  with t(1) show thesis by (intro that[of t]) (simp_all add: authority_issue_def)
qed

lemma demo_attempt_reply:
  obtains t where "handleQemuAuthority demo_prt demo_ci demo_qemu_authority demo_attempt_request (\<lambda>_. None)
    = (service_reply demo_ci 201 [(''attempt'', attempt_json demo_reviewed_attempt)], (\<lambda>_. None)(''alpha'' := t))" "t \<noteq> None"
proof -
  obtain t where t: "authority_issue demo_prt 0 (demo_run None) demo_reviewed_issue demo_uuid ''2026-01-01T00:00:00.000Z'' None
    = (Inr demo_reviewed_attempt, t)" "t \<noteq> None" by (rule demo_reviewed_issued)
  have a: "qemu_authorized demo_attempt_request (qc_attemptIssuer demo_ci)"
    by (simp add: qemu_authorized_def basicAuthorized_def demo_attempt_request_def demo_ci_def)
  have b: "qemu_body demo_attempt_request = Some demo_attempt_body" by (simp add: qemu_body_def demo_attempt_request_def)
  have io: "qo_uid demo_qemu_authority = 0" "qo_first demo_qemu_authority = demo_run None" "qo_attemptId demo_qemu_authority = demo_uuid"
    "qo_now demo_qemu_authority = ''2026-01-01T00:00:00.000Z''" by (simp_all add: demo_qemu_authority_def)
  show thesis
    by (rule that[OF _ t(2)]) (simp add: handleQemuAuthority_def demo_attempt_route a b serveAttempt_def demo_issue_input io t(1))
qed

theorem issued_attempt_runs_the_reviewed_candidate_witness:
  "\<exists>(a :: NativeQemuAttemptRecord) envelope blob. qa_reviewId a = demo_digest
    \<and> readAuthoritativeNativeReviewEnvelope [demo_envelope] demo_digest = Some envelope
    \<and> d_candidateTree (qa_descriptor a) = rv_candidateTree (en_review envelope)
    \<and> readCandidateBlob demo_candidate_view (rv_candidateTree (en_review envelope)) (sr_path (d_script (qa_descriptor a))) (1024 * 1024)
      = Some blob \<and> sr_sha256 (d_script (qa_descriptor a)) = bytes_digest demo_prt (gb_bytes blob)"
proof -
  obtain t where "handleQemuAuthority demo_prt demo_ci demo_qemu_authority demo_attempt_request (\<lambda>_. None)
    = (Replied 201 (JObj ([(''schemaVersion'', JInt 1), (''serviceId'', JStr (qc_serviceId demo_ci))]
        @ [(''attempt'', attempt_json demo_reviewed_attempt)])), (\<lambda>_. None)(''alpha'' := t))"
    by (rule demo_attempt_reply) (simp add: service_reply_def)
  note h = issued_attempt_runs_the_reviewed_candidate[OF this demo_attempt_route]
  have io: "xe_current_reviews (qo_execution demo_qemu_authority) = [demo_envelope]"
    "ca_read (xe_candidate (qo_execution demo_qemu_authority)) = demo_candidate_view"
    by (simp_all add: demo_qemu_authority_def demo_execution_def demo_candidate_io_def)
  from h[unfolded io] show ?thesis by blast
qed

theorem qemu_authority_acts_for_its_credentials_witness:
  "\<exists>stores. snd (handleQemuAuthority demo_prt demo_ci demo_qemu_authority demo_attempt_request (\<lambda>_. None)) = stores
    \<and> stores ''alpha'' \<noteq> None \<and> stores ''beta'' = None \<and> (authority_step demo_prt 0)\<^sup>*\<^sup>* None (stores ''alpha'')"
proof -
  obtain t where h: "handleQemuAuthority demo_prt demo_ci demo_qemu_authority demo_attempt_request (\<lambda>_. None)
    = (service_reply demo_ci 201 [(''attempt'', attempt_json demo_reviewed_attempt)], (\<lambda>_. None)(''alpha'' := t))" "t \<noteq> None"
    by (rule demo_attempt_reply)
  have "json_ok demo_attempt_body" by code_simp
  then have b: "body_parsed demo_attempt_request"
    unfolding body_parsed_def by (auto simp: demo_attempt_request_def intro: json_parse_stringify[symmetric])
  have d: "(\<lambda>_. None)(''alpha'' := t) \<noteq> (\<lambda>_. None)" using h(2) by (auto dest: fun_cong[of _ _ "''alpha''"])
  from qemu_authority_acts_for_its_credentials[OF h(1) b demo_runs_ok d] h show ?thesis
    by (auto simp: demo_qemu_authority_def demo_attempt_route)
qed

end
