(* ===== verification/Ordinary_Attempts.thy ===== *)
theory Ordinary_Attempts
  imports Candidate_Inputs Authority_Files
begin

text \<open>
  Attempts of ordinary jobs: the execution descriptor (\<open>candidate-execution-schema.ts\<close>, its digest in
  \<open>candidate-execution.ts\<close>), its derivation from a current review (\<open>authoritative-ordinary-execution-descriptor.ts\<close>)
  and the records of attempts and revocations (\<open>authoritative-ordinary-attempt-schema.ts\<close>), each an interpretation of
  \<open>codec\<close>.
\<close>

section \<open>The descriptor\<close>

record CandidateOrdinaryExecutionDescriptor =
  od_admissionGeneration :: string
  od_jobName :: string
  od_runnerBaseImage :: string
  od_bounds :: QemuBounds
  od_projectId :: string
  od_repositoryId :: string
  od_protectedRef :: string
  od_expectedProtectedHead :: string
  od_candidateCommit :: string
  od_candidateTree :: string
  od_policyRevision :: string
  od_requiredReviewRevision :: string
  od_requiredJobSetRevision :: string
  od_evidenceClass :: string
  od_configBlob :: BlobRef
  od_script :: ScriptRef
  od_argv :: "string list"
  od_jobImage :: string

definition candidateOrdinaryExecutionDescriptorSchema :: "json \<Rightarrow> CandidateOrdinaryExecutionDescriptor option" where
  "candidateOrdinaryExecutionDescriptorSchema value = do {
     guardO (strict_object value [''admissionGeneration'', ''jobName'', ''runnerBaseImage'', ''bounds'', ''projectId'',
       ''repositoryId'', ''protectedRef'', ''expectedProtectedHead'', ''candidateCommit'', ''candidateTree'',
       ''policyRevision'', ''requiredReviewRevision'', ''requiredJobSetRevision'', ''evidenceClass'', ''configBlob'',
       ''script'', ''argv'', ''jobImage''] []);
     let field = get_field value;
     admissionGeneration \<leftarrow> as_matching generationPattern (field ''admissionGeneration'');
     jobName \<leftarrow> as_matching namePattern (field ''jobName'');
     runnerBaseImage \<leftarrow> as_matching imagePattern (field ''runnerBaseImage'');
     bounds \<leftarrow> zod_bounds (field ''bounds'');
     projectId \<leftarrow> as_matching namePattern (field ''projectId'');
     repositoryId \<leftarrow> as_matching namePattern (field ''repositoryId'');
     protectedRef \<leftarrow> zod_protectedRef (field ''protectedRef'');
     expectedProtectedHead \<leftarrow> as_matching objectIdPattern (field ''expectedProtectedHead'');
     candidateCommit \<leftarrow> as_matching objectIdPattern (field ''candidateCommit'');
     candidateTree \<leftarrow> as_matching objectIdPattern (field ''candidateTree'');
     policyRevision \<leftarrow> as_matching revisionPattern (field ''policyRevision'');
     requiredReviewRevision \<leftarrow> as_matching revisionPattern (field ''requiredReviewRevision'');
     requiredJobSetRevision \<leftarrow> as_matching revisionPattern (field ''requiredJobSetRevision'');
     as_literal (JStr ''candidate-controlled'') (field ''evidenceClass'');
     configBlob \<leftarrow> zod_blobIdentity (field ''configBlob'');
     script \<leftarrow> zod_script (field ''script'');
     as_literal (JArr (map JStr candidateArgv)) (field ''argv'');
     jobImage \<leftarrow> as_matching imagePattern (field ''jobImage'');
     Some \<lparr>od_admissionGeneration = admissionGeneration, od_jobName = jobName, od_runnerBaseImage = runnerBaseImage,
       od_bounds = bounds, od_projectId = projectId, od_repositoryId = repositoryId, od_protectedRef = protectedRef,
       od_expectedProtectedHead = expectedProtectedHead, od_candidateCommit = candidateCommit,
       od_candidateTree = candidateTree, od_policyRevision = policyRevision,
       od_requiredReviewRevision = requiredReviewRevision, od_requiredJobSetRevision = requiredJobSetRevision,
       od_evidenceClass = ''candidate-controlled'', od_configBlob = configBlob, od_script = script,
       od_argv = candidateArgv, od_jobImage = jobImage\<rparr> }"

definition descriptorDigest :: "project_runtime \<Rightarrow> CandidateOrdinaryExecutionDescriptor \<Rightarrow> string" where
  "descriptorDigest rt d = ''sha256:'' @ sha256 rt (''dim-native-ordinary-execution-v1'' @ concat (map netstring
     ([od_projectId d, od_repositoryId d, od_protectedRef d, od_expectedProtectedHead d, od_candidateCommit d,
       od_candidateTree d, od_policyRevision d, od_requiredReviewRevision d, od_requiredJobSetRevision d,
       od_admissionGeneration d, od_jobName d, od_evidenceClass d, br_objectId (od_configBlob d),
       br_sha256 (od_configBlob d), sr_path (od_script d), sr_objectId (od_script d), sr_sha256 (od_script d)] @ od_argv d @
      [od_jobImage d, od_runnerBaseImage d, bd_cpu (od_bounds d), bd_memoryBytes (od_bounds d), bd_pids (od_bounds d),
       bd_wallClockSeconds (od_bounds d), bd_outputBytes (od_bounds d)])))"

definition ordinary_script_json :: "ScriptRef \<Rightarrow> json" where
  "ordinary_script_json s = JObj [(''objectId'', JStr (sr_objectId s)), (''sha256'', JStr (sr_sha256 s)), (''path'', JStr (sr_path s))]"

definition ordinary_descriptor_json :: "CandidateOrdinaryExecutionDescriptor \<Rightarrow> json" where
  "ordinary_descriptor_json d = JObj [(''admissionGeneration'', JStr (od_admissionGeneration d)),
     (''jobName'', JStr (od_jobName d)), (''runnerBaseImage'', JStr (od_runnerBaseImage d)),
     (''bounds'', bounds_json (od_bounds d)), (''projectId'', JStr (od_projectId d)),
     (''repositoryId'', JStr (od_repositoryId d)), (''protectedRef'', JStr (od_protectedRef d)),
     (''expectedProtectedHead'', JStr (od_expectedProtectedHead d)),
     (''candidateCommit'', JStr (od_candidateCommit d)), (''candidateTree'', JStr (od_candidateTree d)),
     (''policyRevision'', JStr (od_policyRevision d)), (''requiredReviewRevision'', JStr (od_requiredReviewRevision d)),
     (''requiredJobSetRevision'', JStr (od_requiredJobSetRevision d)), (''evidenceClass'', JStr (od_evidenceClass d)),
     (''configBlob'', blob_json (od_configBlob d)), (''script'', ordinary_script_json (od_script d)),
     (''argv'', JArr (map JStr (od_argv d))), (''jobImage'', JStr (od_jobImage d))]"

definition derived_ordinary_descriptor ::
  "TrustedCapacity \<Rightarrow> AuthoritativeNativeReview \<Rightarrow> string \<Rightarrow> ReviewBlob \<Rightarrow> PlannedJob \<Rightarrow> CandidateOrdinaryExecutionDescriptor" where
  "derived_ordinary_descriptor capacity review quality config job =
     \<lparr>od_admissionGeneration = tc_admissionGeneration capacity, od_jobName = pj_jobName job,
      od_runnerBaseImage = tc_runnerBaseImage capacity, od_bounds = tc_bounds capacity,
      od_projectId = rv_projectId review, od_repositoryId = ''root'', od_protectedRef = rv_protectedRef review,
      od_expectedProtectedHead = rv_expectedProtectedHead review, od_candidateCommit = rv_candidateCommit review,
      od_candidateTree = rv_candidateTree review, od_policyRevision = rv_policyRevision review,
      od_requiredReviewRevision = rv_requiredReviewRevision review, od_requiredJobSetRevision = quality,
      od_evidenceClass = ''candidate-controlled'',
      od_configBlob = \<lparr>br_objectId = vb_objectId config, br_sha256 = vb_sha256 config\<rparr>,
      od_script = \<lparr>sr_path = pj_scriptPath job, sr_objectId = pj_scriptObjectId job, sr_sha256 = pj_scriptSha256 job\<rparr>,
      od_argv = candidateArgv, od_jobImage = tc_jobBaseImage capacity\<rparr>"

record ordinary_execution =
  ox_reviewId :: string
  ox_descriptor :: CandidateOrdinaryExecutionDescriptor
  ox_digest :: string

definition deriveAuthoritativeOrdinaryExecutionDescriptor ::
  "project_runtime \<Rightarrow> execution_io \<Rightarrow> string \<Rightarrow> string \<Rightarrow> string \<Rightarrow> TrustedCapacity \<Rightarrow> ordinary_execution option" where
  "deriveAuthoritativeOrdinaryExecutionDescriptor rt io projectId reviewId jobName capacity = do {
     guardO (matches projectPattern projectId \<and> matches hex64Pattern reviewId \<and> matches namePattern jobName
       \<and> trustedCapacity_ok capacity);
     snapshot \<leftarrow> loadAuthoritativeExecutionReview rt io projectId reviewId;
     (inputs, review) \<leftarrow> loadCurrentAuthoritativeExecutionInputs rt io snapshot;
     selected \<leftarrow> find_row (\<lambda>j. pj_jobName j = jobName) (ni_plan inputs);
     guardO (pj_executionKind selected = OrdinarySysbox);
     configBlob \<leftarrow> ni_configBlob inputs;
     descriptor \<leftarrow> candidateOrdinaryExecutionDescriptorSchema (ordinary_descriptor_json
       (derived_ordinary_descriptor capacity review (en_qualityRevision (snd snapshot)) configBlob selected));
     Some \<lparr>ox_reviewId = rv_reviewId review, ox_descriptor = descriptor, ox_digest = descriptorDigest rt descriptor\<rparr> }"

section \<open>Attempts and revocations\<close>

record AuthoritativeOrdinaryAttempt =
  oa_issuanceRequestId :: string
  oa_attemptId :: string
  oa_reviewId :: string
  oa_attempt :: int
  oa_descriptor :: CandidateOrdinaryExecutionDescriptor
  oa_descriptorDigest :: string
  oa_hostId :: string
  oa_capacity :: string
  oa_issuedBy :: string
  oa_issuedAt :: string

record AuthoritativeOrdinaryAttemptRevocation =
  ov_revocationRequestId :: string
  ov_revocationId :: string
  ov_attemptId :: string
  ov_reviewId :: string
  ov_jobName :: string
  ov_attempt :: int
  ov_descriptorDigest :: string
  ov_hostId :: string
  ov_capacity :: string
  ov_revokedBy :: string
  ov_revokedAt :: string

definition authoritativeOrdinaryAttemptSchema :: "project_runtime \<Rightarrow> json \<Rightarrow> AuthoritativeOrdinaryAttempt option" where
  "authoritativeOrdinaryAttemptSchema rt v = do {
     guardO (strict_object v [''schemaVersion'', ''executionKind'', ''issuanceRequestId'', ''attemptId'', ''reviewId'',
       ''attempt'', ''descriptor'', ''descriptorDigest'', ''hostId'', ''capacity'', ''issuedBy'', ''issuedAt''] []);
     let field = get_field v;
     as_literal (JInt 3) (field ''schemaVersion'');
     as_literal (JStr ''ordinary-sysbox'') (field ''executionKind'');
     issuanceRequestId \<leftarrow> zod_checked (zod_uuid rt) (field ''issuanceRequestId'');
     attemptId \<leftarrow> zod_checked (zod_uuid rt) (field ''attemptId'');
     reviewId \<leftarrow> as_matching hex64Pattern (field ''reviewId'');
     attempt \<leftarrow> zod_positive (field ''attempt'');
     descriptor \<leftarrow> Option.bind (field ''descriptor'') candidateOrdinaryExecutionDescriptorSchema;
     digest \<leftarrow> as_matching digestPattern (field ''descriptorDigest'');
     hostId \<leftarrow> as_matching identifierPattern (field ''hostId'');
     capacity \<leftarrow> as_matching identifierPattern (field ''capacity'');
     issuedBy \<leftarrow> zod_checked (\<lambda>s. s \<noteq> []) (field ''issuedBy'');
     issuedAt \<leftarrow> zod_checked (zod_datetime rt) (field ''issuedAt'');
     guardO (descriptorDigest rt descriptor = digest);
     Some \<lparr>oa_issuanceRequestId = issuanceRequestId, oa_attemptId = attemptId, oa_reviewId = reviewId,
       oa_attempt = attempt, oa_descriptor = descriptor, oa_descriptorDigest = digest, oa_hostId = hostId,
       oa_capacity = capacity, oa_issuedBy = issuedBy, oa_issuedAt = issuedAt\<rparr> }"

definition authoritativeOrdinaryAttemptRevocationSchema ::
  "project_runtime \<Rightarrow> json \<Rightarrow> AuthoritativeOrdinaryAttemptRevocation option" where
  "authoritativeOrdinaryAttemptRevocationSchema rt v = do {
     guardO (strict_object v [''schemaVersion'', ''executionKind'', ''revocationRequestId'', ''revocationId'', ''attemptId'',
       ''reviewId'', ''jobName'', ''attempt'', ''descriptorDigest'', ''hostId'', ''capacity'', ''revokedBy'', ''revokedAt''] []);
     let field = get_field v;
     as_literal (JInt 3) (field ''schemaVersion'');
     as_literal (JStr ''ordinary-sysbox'') (field ''executionKind'');
     revocationRequestId \<leftarrow> zod_checked (zod_uuid rt) (field ''revocationRequestId'');
     revocationId \<leftarrow> zod_checked (zod_uuid rt) (field ''revocationId'');
     attemptId \<leftarrow> zod_checked (zod_uuid rt) (field ''attemptId'');
     reviewId \<leftarrow> as_matching hex64Pattern (field ''reviewId'');
     jobName \<leftarrow> as_matching namePattern (field ''jobName'');
     attempt \<leftarrow> zod_positive (field ''attempt'');
     digest \<leftarrow> as_matching digestPattern (field ''descriptorDigest'');
     hostId \<leftarrow> as_matching identifierPattern (field ''hostId'');
     capacity \<leftarrow> as_matching identifierPattern (field ''capacity'');
     revokedBy \<leftarrow> zod_checked (\<lambda>s. s \<noteq> []) (field ''revokedBy'');
     revokedAt \<leftarrow> zod_checked (zod_datetime rt) (field ''revokedAt'');
     Some \<lparr>ov_revocationRequestId = revocationRequestId, ov_revocationId = revocationId, ov_attemptId = attemptId,
       ov_reviewId = reviewId, ov_jobName = jobName, ov_attempt = attempt, ov_descriptorDigest = digest,
       ov_hostId = hostId, ov_capacity = capacity, ov_revokedBy = revokedBy, ov_revokedAt = revokedAt\<rparr> }"

definition ordinary_attempt_json :: "AuthoritativeOrdinaryAttempt \<Rightarrow> json" where
  "ordinary_attempt_json a = JObj [(''schemaVersion'', JInt 3), (''executionKind'', JStr ''ordinary-sysbox''),
     (''issuanceRequestId'', JStr (oa_issuanceRequestId a)), (''attemptId'', JStr (oa_attemptId a)),
     (''reviewId'', JStr (oa_reviewId a)), (''attempt'', JInt (oa_attempt a)),
     (''descriptor'', ordinary_descriptor_json (oa_descriptor a)), (''descriptorDigest'', JStr (oa_descriptorDigest a)),
     (''hostId'', JStr (oa_hostId a)), (''capacity'', JStr (oa_capacity a)), (''issuedBy'', JStr (oa_issuedBy a)),
     (''issuedAt'', JStr (oa_issuedAt a))]"

definition ordinary_revocation_json :: "AuthoritativeOrdinaryAttemptRevocation \<Rightarrow> json" where
  "ordinary_revocation_json r = JObj [(''schemaVersion'', JInt 3), (''executionKind'', JStr ''ordinary-sysbox''),
     (''revocationRequestId'', JStr (ov_revocationRequestId r)), (''revocationId'', JStr (ov_revocationId r)),
     (''attemptId'', JStr (ov_attemptId r)), (''reviewId'', JStr (ov_reviewId r)), (''jobName'', JStr (ov_jobName r)),
     (''attempt'', JInt (ov_attempt r)), (''descriptorDigest'', JStr (ov_descriptorDigest r)),
     (''hostId'', JStr (ov_hostId r)), (''capacity'', JStr (ov_capacity r)), (''revokedBy'', JStr (ov_revokedBy r)),
     (''revokedAt'', JStr (ov_revokedAt r))]"

section \<open>Valid records and their texts\<close>

definition ordinary_descriptor_valid :: "CandidateOrdinaryExecutionDescriptor \<Rightarrow> bool" where
  "ordinary_descriptor_valid d \<longleftrightarrow> od_evidenceClass d = ''candidate-controlled'' \<and> od_argv d = candidateArgv
     \<and> matches generationPattern (od_admissionGeneration d) \<and> matches namePattern (od_jobName d)
     \<and> matches imagePattern (od_runnerBaseImage d) \<and> bounds_valid (od_bounds d)
     \<and> matches namePattern (od_projectId d) \<and> matches namePattern (od_repositoryId d) \<and> head_ref_ok (od_protectedRef d)
     \<and> matches objectIdPattern (od_expectedProtectedHead d) \<and> matches objectIdPattern (od_candidateCommit d)
     \<and> matches objectIdPattern (od_candidateTree d) \<and> matches revisionPattern (od_policyRevision d)
     \<and> matches revisionPattern (od_requiredReviewRevision d) \<and> matches revisionPattern (od_requiredJobSetRevision d)
     \<and> blob_valid (od_configBlob d) \<and> script_valid (od_script d) \<and> matches imagePattern (od_jobImage d)"

definition ordinary_attempt_valid :: "project_runtime \<Rightarrow> AuthoritativeOrdinaryAttempt \<Rightarrow> bool" where
  "ordinary_attempt_valid rt a \<longleftrightarrow> zod_uuid rt (oa_issuanceRequestId a) \<and> zod_uuid rt (oa_attemptId a)
     \<and> matches hex64Pattern (oa_reviewId a) \<and> 0 < oa_attempt a \<and> safe_integer (oa_attempt a)
     \<and> ordinary_descriptor_valid (oa_descriptor a) \<and> matches digestPattern (oa_descriptorDigest a)
     \<and> matches identifierPattern (oa_hostId a) \<and> matches identifierPattern (oa_capacity a) \<and> oa_issuedBy a \<noteq> []
     \<and> zod_datetime rt (oa_issuedAt a) \<and> descriptorDigest rt (oa_descriptor a) = oa_descriptorDigest a"

definition ordinary_revocation_valid :: "project_runtime \<Rightarrow> AuthoritativeOrdinaryAttemptRevocation \<Rightarrow> bool" where
  "ordinary_revocation_valid rt r \<longleftrightarrow> zod_uuid rt (ov_revocationRequestId r) \<and> zod_uuid rt (ov_revocationId r)
     \<and> zod_uuid rt (ov_attemptId r) \<and> matches hex64Pattern (ov_reviewId r) \<and> matches namePattern (ov_jobName r)
     \<and> 0 < ov_attempt r \<and> safe_integer (ov_attempt r) \<and> matches digestPattern (ov_descriptorDigest r)
     \<and> matches identifierPattern (ov_hostId r) \<and> matches identifierPattern (ov_capacity r) \<and> ov_revokedBy r \<noteq> []
     \<and> zod_datetime rt (ov_revokedAt r)"

lemma zod_protectedRef_eq: "zod_protectedRef v = Some s \<longleftrightarrow> v = Some (JStr s) \<and> head_ref_ok s"
  by (auto simp: zod_protectedRef_def head_ref_ok_def safeHeadRef_def bind_eq_Some_conv)

lemma ordinary_script_schema: "script_valid s \<Longrightarrow> zod_script (Some (ordinary_script_json s)) = Some s"
proof -
  assume "script_valid s"
  moreover have "strict_object (ordinary_script_json s) [''path'', ''objectId'', ''sha256''] []"
    unfolding ordinary_script_json_def by (rule strict_JObj) auto
  ultimately show ?thesis
    by (cases s) (simp add: zod_script_def zod_scriptPath_def script_valid_def script_path_ok_def ordinary_script_json_def opt_conv)
qed

lemma ordinary_descriptor_schema_valid:
  "candidateOrdinaryExecutionDescriptorSchema v = Some d \<Longrightarrow> ordinary_descriptor_valid d"
  unfolding candidateOrdinaryExecutionDescriptorSchema_def Let_def zod_bounds_parse zod_blob_parse zod_script_parse
  by (auto simp: opt_conv zod_protectedRef_eq ordinary_descriptor_valid_def
      dest: parseBounds_valid parseConfigBlob_valid parseScript_valid)

lemma ordinary_descriptor_schema_json:
  assumes "ordinary_descriptor_valid d"
  shows "candidateOrdinaryExecutionDescriptorSchema (ordinary_descriptor_json d) = Some d"
proof -
  have "strict_object (ordinary_descriptor_json d) [''admissionGeneration'', ''jobName'', ''runnerBaseImage'', ''bounds'',
       ''projectId'', ''repositoryId'', ''protectedRef'', ''expectedProtectedHead'', ''candidateCommit'', ''candidateTree'',
       ''policyRevision'', ''requiredReviewRevision'', ''requiredJobSetRevision'', ''evidenceClass'', ''configBlob'',
       ''script'', ''argv'', ''jobImage''] []"
    unfolding ordinary_descriptor_json_def by (rule strict_JObj) auto
  with assms show ?thesis
    unfolding candidateOrdinaryExecutionDescriptorSchema_def Let_def opt_conv
    by (cases d) (simp add: ordinary_descriptor_valid_def ordinary_descriptor_json_def zod_protectedRef_eq ordinary_script_schema
        zod_bounds_parse zod_blob_parse parseBounds_json parseConfigBlob_json)
qed

interpretation ordinary_descriptor_codec: codec ordinary_descriptor_json candidateOrdinaryExecutionDescriptorSchema
  ordinary_descriptor_valid
  by unfold_locales (rule ordinary_descriptor_schema_json, assumption, rule ordinary_descriptor_schema_valid)

lemma ordinary_attempt_schema_valid: "authoritativeOrdinaryAttemptSchema rt v = Some a \<Longrightarrow> ordinary_attempt_valid rt a"
  unfolding authoritativeOrdinaryAttemptSchema_def Let_def
  by (auto simp: opt_conv ordinary_attempt_valid_def dest: ordinary_descriptor_schema_valid)

lemma ordinary_attempt_schema_json:
  assumes "ordinary_attempt_valid rt a"
  shows "authoritativeOrdinaryAttemptSchema rt (ordinary_attempt_json a) = Some a"
proof -
  have "strict_object (ordinary_attempt_json a) [''schemaVersion'', ''executionKind'', ''issuanceRequestId'', ''attemptId'',
       ''reviewId'', ''attempt'', ''descriptor'', ''descriptorDigest'', ''hostId'', ''capacity'', ''issuedBy'', ''issuedAt''] []"
    unfolding ordinary_attempt_json_def by (rule strict_JObj) auto
  with assms show ?thesis
    unfolding authoritativeOrdinaryAttemptSchema_def Let_def opt_conv
    by (cases a) (simp add: ordinary_attempt_valid_def ordinary_attempt_json_def ordinary_descriptor_schema_json)
qed

interpretation ordinary_attempt_codec: codec ordinary_attempt_json "authoritativeOrdinaryAttemptSchema rt"
  "ordinary_attempt_valid rt" for rt
  by unfold_locales (rule ordinary_attempt_schema_json, assumption, rule ordinary_attempt_schema_valid)

lemma ordinary_revocation_schema_valid:
  "authoritativeOrdinaryAttemptRevocationSchema rt v = Some r \<Longrightarrow> ordinary_revocation_valid rt r"
  unfolding authoritativeOrdinaryAttemptRevocationSchema_def Let_def by (auto simp: opt_conv ordinary_revocation_valid_def)

lemma ordinary_revocation_schema_json:
  assumes "ordinary_revocation_valid rt r"
  shows "authoritativeOrdinaryAttemptRevocationSchema rt (ordinary_revocation_json r) = Some r"
proof -
  have "strict_object (ordinary_revocation_json r) [''schemaVersion'', ''executionKind'', ''revocationRequestId'', ''revocationId'',
       ''attemptId'', ''reviewId'', ''jobName'', ''attempt'', ''descriptorDigest'', ''hostId'', ''capacity'', ''revokedBy'',
       ''revokedAt''] []"
    unfolding ordinary_revocation_json_def by (rule strict_JObj) auto
  with assms show ?thesis
    unfolding authoritativeOrdinaryAttemptRevocationSchema_def Let_def opt_conv
    by (cases r) (simp add: ordinary_revocation_valid_def ordinary_revocation_json_def)
qed

interpretation ordinary_revocation_codec: codec ordinary_revocation_json "authoritativeOrdinaryAttemptRevocationSchema rt"
  "ordinary_revocation_valid rt" for rt
  by unfold_locales (rule ordinary_revocation_schema_json, assumption, rule ordinary_revocation_schema_valid)

lemma ordinary_attempt_json_ok: "json_ok (ordinary_attempt_json a)"
  by (simp add: ordinary_attempt_json_def ordinary_descriptor_json_def ordinary_script_json_def bounds_json_def blob_json_def
      list_all_iff)

lemma ordinary_revocation_json_ok: "json_ok (ordinary_revocation_json r)"
  by (simp add: ordinary_revocation_json_def)

end
