(* ===== verification/Ordinary_Files.thy ===== *)
theory Ordinary_Files
  imports Ordinary_Attempts
begin

text \<open>
  How attempts and revocations of ordinary jobs are kept on disk (\<open>authoritative-ordinary-attempt-files.ts\<close>) and the
  operations of the store (\<open>authoritative-ordinary-attempt-store.ts\<close>). The store is a tree of folders
  \<open>dim-authoritative-attempts/ordinary-sysbox/{issuances,revocations}/review/job\<close>; a folder is private when it is a
  directory of the service with mode \<open>0700\<close>. The directory of a job holds one file per record. An operation is a sequence of
  calls of the file system, and its outcome is its result together with every tree that it passes through: a
  process that is killed leaves one of them. UUIDs, times, inode numbers and the part of a file that is written when the process dies
  are arguments.
\<close>

section \<open>Folders\<close>

datatype 'a entry = Dir 'a | NotDir

record 'a folder =
  fo_private :: bool
  fo_entries :: "(string \<times> 'a entry) list"

type_synonym review_folder = "authority_directory folder"
type_synonym records_folder = "review_folder folder"
type_synonym kind_folder = "records_folder folder"
type_synonym root_folder = "kind_folder folder"

text \<open>The folder \<open>dim-authoritative-attempts\<close> of a repository, \<open>None\<close> while it does not exist.\<close>

type_synonym ordinary_store = "root_folder option"

text \<open>The errors of the store are conflicts for its callers, those of its files make it unavailable.\<close>

datatype ordinary_error =
    IdentityDuplicated | RevocationDuplicated | RevocationMismatch | RevocationInvalid | IssuanceUsed | JobFull
  | CurrentMissing | AlreadyRevoked
  | FolderNotPrivate | FolderLayout | NoSuchFolder | ReviewPath | JobPath | AttemptBound | AttemptPath | PathConflict
  | NonDirectory | StagingIrregular | StagingNotPrivate | StagingConflict | StagingOwned | SelectorInvalid
  | FileTaken | RecordUnreadable | RecordSchema

definition new_folder :: "'a folder" where
  "new_folder = \<lparr>fo_private = True, fo_entries = []\<rparr>"

definition sub :: "'a folder \<Rightarrow> string \<Rightarrow> 'a entry option" where
  "sub f name = map_of (fo_entries f) name"

fun put_entry :: "string \<Rightarrow> 'a \<Rightarrow> (string \<times> 'a entry) list \<Rightarrow> (string \<times> 'a entry) list" where
  "put_entry name x [] = [(name, Dir x)]"
| "put_entry name x (e # es) = (if fst e = name then (name, Dir x) # es else e # put_entry name x es)"

definition put_dir :: "string \<Rightarrow> 'a \<Rightarrow> 'a folder \<Rightarrow> 'a folder" where
  "put_dir name x f = f\<lparr>fo_entries := put_entry name x (fo_entries f)\<rparr>"

type_synonym ('r, 's) step_outcome = "(ordinary_error, 'r) result \<times> 's"

definition at_dir :: "string \<Rightarrow> ('a \<Rightarrow> ('r, 'a) step_outcome) \<Rightarrow> 'a folder \<Rightarrow> ('r, 'a folder) step_outcome" where
  "at_dir name g f = (case sub f name of
     Some (Dir x) \<Rightarrow> (case g x of (r, y) \<Rightarrow> (r, put_dir name y f))
   | _ \<Rightarrow> (Inl NoSuchFolder, f))"

text \<open>\<open>ensurePrivateDirectory\<close>: an existing directory must be private, a missing one is made.\<close>

definition ensure_dir :: "'a \<Rightarrow> ('a \<Rightarrow> bool) \<Rightarrow> string \<Rightarrow> 'a folder \<Rightarrow> (unit, 'a folder) step_outcome" where
  "ensure_dir fresh private name f = (case sub f name of
     None \<Rightarrow> (Inr (), put_dir name fresh f)
   | Some (Dir x) \<Rightarrow> (if private x then Inr () else Inl FolderNotPrivate, f)
   | Some NotDir \<Rightarrow> (Inl FolderNotPrivate, f))"

definition kind_name :: string where
  "kind_name = ''ordinary-sysbox''"

definition in_kind :: "(kind_folder \<Rightarrow> ('r, kind_folder) step_outcome) \<Rightarrow> ordinary_store \<Rightarrow> ('r, ordinary_store) step_outcome" where
  "in_kind g store = (case store of
     None \<Rightarrow> (Inl NoSuchFolder, None)
   | Some root \<Rightarrow> (case at_dir kind_name g root of (r, root') \<Rightarrow> (r, Some root')))"

definition in_records ::
  "string \<Rightarrow> (records_folder \<Rightarrow> ('r, records_folder) step_outcome) \<Rightarrow> ordinary_store \<Rightarrow> ('r, ordinary_store) step_outcome" where
  "in_records k g = in_kind (at_dir k g)"

definition in_job ::
  "string \<Rightarrow> string \<Rightarrow> string \<Rightarrow> (authority_directory \<Rightarrow> ('r, authority_directory) step_outcome) \<Rightarrow>
     ordinary_store \<Rightarrow> ('r, ordinary_store) step_outcome" where
  "in_job k v j g = in_records k (at_dir v (at_dir j g))"

text \<open>A sequence of calls with the trees it passes through, the first one included; it ends at the first error.\<close>

fun run_steps :: "('s \<Rightarrow> (unit, 's) step_outcome) list \<Rightarrow> 's \<Rightarrow> (unit, 's list) step_outcome" where
  "run_steps [] s = (Inr (), [s])"
| "run_steps (f # fs) s = (case f s of
     (Inl e, t) \<Rightarrow> (Inl e, [s, t])
   | (Inr _, t) \<Rightarrow> (case run_steps fs t of (r, ts) \<Rightarrow> (r, s # ts)))"

section \<open>Layout\<close>

definition make_root :: "ordinary_store \<Rightarrow> (unit, ordinary_store) step_outcome" where
  "make_root store = (case store of
     None \<Rightarrow> (Inr (), Some new_folder)
   | Some root \<Rightarrow> (if fo_private root then Inr () else Inl FolderNotPrivate, store))"

definition make_kind :: "ordinary_store \<Rightarrow> (unit, ordinary_store) step_outcome" where
  "make_kind store = (case store of
     None \<Rightarrow> (Inl NoSuchFolder, None)
   | Some root \<Rightarrow> (case ensure_dir new_folder fo_private kind_name root of (r, root') \<Rightarrow> (r, Some root')))"

definition initializeOrdinaryAttemptStore :: "(ordinary_store \<Rightarrow> (unit, ordinary_store) step_outcome) list" where
  "initializeOrdinaryAttemptStore = [make_root, make_kind, in_kind (ensure_dir new_folder fo_private ''issuances''),
     in_kind (ensure_dir new_folder fo_private ''revocations'')]"

definition assertOrdinaryAttemptStoreLayout :: "ordinary_store \<Rightarrow> (ordinary_error, kind_folder option) result" where
  "assertOrdinaryAttemptStoreLayout store = (case store of
     None \<Rightarrow> Inr None
   | Some root \<Rightarrow>
       if \<not> fo_private root then Inl FolderNotPrivate
       else case fo_entries root of
           [(name, Dir kind)] \<Rightarrow>
             if name \<noteq> kind_name then Inl FolderLayout
             else if \<not> fo_private kind then Inl FolderNotPrivate
             else if length (fo_entries kind) \<noteq> 2
               \<or> list_ex (\<lambda>e. snd e = NotDir \<or> fst e \<notin> set [''issuances'', ''revocations'']) (fo_entries kind)
             then Inl FolderLayout else Inr (Some kind)
         | _ \<Rightarrow> Inl FolderLayout)"

section \<open>The files of a job\<close>

definition maximumRecordBytes :: nat where
  "maximumRecordBytes = 256 * 1024"

definition maximumOrdinaryAttemptsPerJob :: nat where
  "maximumOrdinaryAttemptsPerJob = 256"

definition attemptFilePattern :: rexp where
  "attemptFilePattern = Seq decimalPattern (lit ''.json'')"

definition temporaryFilePattern :: rexp where
  "temporaryFilePattern = Seq (lit ''.'') (Seq decimalPattern (Seq (lit ''.json'') (Seq (lit ''.'') (Seq uuidPattern (lit ''.tmp'')))))"

definition file_name :: "nat \<Rightarrow> string" where
  "file_name n = dec n @ ''.json''"

definition file_number :: "string \<Rightarrow> nat" where
  "file_number name = undec (takeWhile digit name)"

definition temporary_name :: "string \<Rightarrow> string \<Rightarrow> string" where
  "temporary_name base identity = ''.'' @ base @ ''.'' @ identity @ ''.tmp''"

text \<open>The group that the pattern captures: what is between the first dot and the last 41 characters.\<close>

definition final_of :: "string \<Rightarrow> string" where
  "final_of name = take (length name - 42) (drop 1 name)"

definition readReviewJson :: "nat \<Rightarrow> authority_directory \<Rightarrow> string \<Rightarrow> json option" where
  "readReviewJson uid dir name = do {
     i \<leftarrow> map_of (ad_entries dir) name;
     guardO (assertPrivateFile uid (ad_inodes dir i) \<and> nlink dir i = 1 \<and> length (in_text (ad_inodes dir i)) \<le> maximumRecordBytes);
     json_parse (in_text (ad_inodes dir i)) }"

definition recover_entry :: "nat \<Rightarrow> string \<times> nat \<Rightarrow> authority_directory \<Rightarrow> (unit, authority_directory) step_outcome" where
  "recover_entry uid e dir = (case e of (name, i) \<Rightarrow>
     if \<not> matches temporaryFilePattern name then (Inr (), dir)
     else if \<not> in_regular (ad_inodes dir i) then (Inl StagingIrregular, dir)
     else if \<not> assertPrivateFile uid (ad_inodes dir i) \<or> maximumRecordBytes < length (in_text (ad_inodes dir i))
       then (Inl StagingNotPrivate, dir)
     else case map_of (ad_entries dir) (final_of name) of
         Some k \<Rightarrow>
           if \<not> assertPrivateFile uid (ad_inodes dir k) \<or> i \<noteq> k \<or> nlink dir i \<noteq> 2 \<or> nlink dir k \<noteq> 2
           then (Inl StagingConflict, dir) else (Inr (), unlink_entry name dir)
       | None \<Rightarrow> if nlink dir i \<noteq> 1 then (Inl StagingOwned, dir) else (Inr (), unlink_entry name dir))"

fun recover_entries :: "nat \<Rightarrow> (string \<times> nat) list \<Rightarrow> authority_directory \<Rightarrow> (unit, authority_directory) step_outcome" where
  "recover_entries uid [] dir = (Inr (), dir)"
| "recover_entries uid (e # es) dir = (case recover_entry uid e dir of
     (Inl err, d) \<Rightarrow> (Inl err, d) | (Inr _, d) \<Rightarrow> recover_entries uid es d)"

definition recoverTemporaryRecords :: "nat \<Rightarrow> authority_directory \<Rightarrow> (unit, authority_directory) step_outcome" where
  "recoverTemporaryRecords uid dir = recover_entries uid (ad_entries dir) dir"

text \<open>A codec of records: the schema, and the review, the job and the number that a record names.\<close>

record 'a record_codec =
  rc_parse :: "json \<Rightarrow> 'a option"
  rc_identity :: "'a \<Rightarrow> string \<times> string \<times> int"
  rc_contiguous :: bool

definition read_record ::
  "nat \<Rightarrow> 'a record_codec \<Rightarrow> string \<Rightarrow> string \<Rightarrow> authority_directory \<Rightarrow> string \<Rightarrow> int \<Rightarrow> (ordinary_error, 'a) result" where
  "read_record uid c v j dir name n = (case Option.bind (readReviewJson uid dir name) (rc_parse c) of
     None \<Rightarrow> Inl RecordUnreadable
   | Some r \<Rightarrow> if rc_identity c r = (v, j, n) then Inr r else Inl PathConflict)"

definition numbers_ok :: "bool \<Rightarrow> nat list \<Rightarrow> bool" where
  "numbers_ok contiguous ns \<longleftrightarrow> sorted_wrt (<) (0 # ns) \<and> list_all (\<lambda>n. safe_integer (int n)) ns
     \<and> (contiguous \<longrightarrow> ns = [1..<length ns + 1])"

text \<open>The loop of \<open>readRecords\<close> over the entries of one job. Entries whose names are no record names end it with the same
  error wherever they are sorted.\<close>

definition read_job ::
  "nat \<Rightarrow> 'a record_codec \<Rightarrow> string \<Rightarrow> string \<Rightarrow> authority_directory \<Rightarrow> ('a list, authority_directory) step_outcome" where
  "read_job uid c v j dir = (case recoverTemporaryRecords uid dir of
     (Inl e, d) \<Rightarrow> (Inl e, d)
   | (Inr _, d) \<Rightarrow>
       let names = sort_key file_number (map fst (ad_entries d)) in
       (if maximumOrdinaryAttemptsPerJob < length names then Inl AttemptBound
        else if \<not> list_all (\<lambda>e. in_regular (ad_inodes d (snd e)) \<and> matches attemptFilePattern (fst e)) (ad_entries d)
          \<or> \<not> numbers_ok (rc_contiguous c) (map file_number names) then Inl AttemptPath
        else mapR (\<lambda>name. read_record uid c v j d name (int (file_number name))) names, d))"

text \<open>A loop over the directories of a folder in the order of their names.\<close>

fun visit :: "(string \<Rightarrow> 'a \<Rightarrow> ('r list, 'a) step_outcome) \<Rightarrow> string list \<Rightarrow> 'a folder \<Rightarrow> ('r list, 'a folder) step_outcome" where
  "visit g [] f = (Inr [], f)"
| "visit g (name # names) f = (case at_dir name (g name) f of
     (Inl e, f') \<Rightarrow> (Inl e, f')
   | (Inr rs, f') \<Rightarrow> (case visit g names f' of (r, f'') \<Rightarrow> (map_sum id (\<lambda>more. rs @ more) r, f'')))"

definition visit_directories ::
  "(string \<Rightarrow> 'a \<Rightarrow> ('r list, 'a) step_outcome) \<Rightarrow> 'a folder \<Rightarrow> ('r list, 'a folder) step_outcome" where
  "visit_directories g f =
     (if \<not> fo_private f then (Inl FolderNotPrivate, f)
      else if list_ex (\<lambda>e. snd e = NotDir) (fo_entries f) then (Inl NonDirectory, f)
      else visit g (sort (map fst (fo_entries f))) f)"

definition visit_job ::
  "nat \<Rightarrow> 'a record_codec \<Rightarrow> string \<Rightarrow> string \<Rightarrow> authority_directory \<Rightarrow> ('a list, authority_directory) step_outcome" where
  "visit_job uid c v j dir = (if \<not> matches namePattern j then (Inl JobPath, dir) else read_job uid c v j dir)"

definition visit_review :: "nat \<Rightarrow> 'a record_codec \<Rightarrow> string \<Rightarrow> review_folder \<Rightarrow> ('a list, review_folder) step_outcome" where
  "visit_review uid c v f = (if \<not> matches hex64Pattern v then (Inl ReviewPath, f) else visit_directories (visit_job uid c v) f)"

definition readRecords :: "nat \<Rightarrow> 'a record_codec \<Rightarrow> records_folder \<Rightarrow> ('a list, records_folder) step_outcome" where
  "readRecords uid c f = visit_directories (visit_review uid c) f"

definition attempt_codec :: "project_runtime \<Rightarrow> AuthoritativeOrdinaryAttempt record_codec" where
  "attempt_codec rt = \<lparr>rc_parse = authoritativeOrdinaryAttemptSchema rt,
     rc_identity = (\<lambda>a. (oa_reviewId a, od_jobName (oa_descriptor a), oa_attempt a)), rc_contiguous = True\<rparr>"

definition revocation_codec :: "project_runtime \<Rightarrow> AuthoritativeOrdinaryAttemptRevocation record_codec" where
  "revocation_codec rt = \<lparr>rc_parse = authoritativeOrdinaryAttemptRevocationSchema rt,
     rc_identity = (\<lambda>r. (ov_reviewId r, ov_jobName r, ov_attempt r)), rc_contiguous = False\<rparr>"

definition readOrdinaryAttempts ::
  "project_runtime \<Rightarrow> nat \<Rightarrow> ordinary_store \<Rightarrow> (AuthoritativeOrdinaryAttempt list, ordinary_store) step_outcome" where
  "readOrdinaryAttempts rt uid = in_records ''issuances'' (readRecords uid (attempt_codec rt))"

definition readOrdinaryRevocations ::
  "project_runtime \<Rightarrow> nat \<Rightarrow> ordinary_store \<Rightarrow> (AuthoritativeOrdinaryAttemptRevocation list, ordinary_store) step_outcome" where
  "readOrdinaryRevocations rt uid = in_records ''revocations'' (readRecords uid (revocation_codec rt))"

section \<open>The files of one job\<close>

definition find_job :: "nat \<Rightarrow> records_folder \<Rightarrow> string \<Rightarrow> string \<Rightarrow> (ordinary_error, authority_directory option) result" where
  "find_job uid records v j = (case sub records v of
     None \<Rightarrow> Inr None
   | Some NotDir \<Rightarrow> Inl NonDirectory
   | Some (Dir f) \<Rightarrow> (case sub f j of
       None \<Rightarrow> Inr None
     | Some NotDir \<Rightarrow> Inl FolderNotPrivate
     | Some (Dir d) \<Rightarrow> if fo_private f \<and> assertPrivateDirectory uid d then Inr (Some d) else Inl FolderNotPrivate))"

definition records_of :: "kind_folder \<Rightarrow> string \<Rightarrow> (ordinary_error, records_folder) result" where
  "records_of kind k = (case sub kind k of Some (Dir f) \<Rightarrow> if fo_private f then Inr f else Inl FolderNotPrivate | _ \<Rightarrow> Inl NoSuchFolder)"

text \<open>The directory with the attempts of a job and the numbers of its files, \<open>None\<close> when there is no such directory.\<close>

definition selectedOrdinaryAttemptFiles ::
  "nat \<Rightarrow> ordinary_store \<Rightarrow> string \<Rightarrow> string \<Rightarrow> (ordinary_error, (authority_directory \<times> nat list \<times> records_folder) option) result" where
  "selectedOrdinaryAttemptFiles uid store v j =
     (if \<not> matches hex64Pattern v \<or> \<not> matches namePattern j then Inl SelectorInvalid
      else bindR (assertOrdinaryAttemptStoreLayout store) (\<lambda>found. case found of
          None \<Rightarrow> Inr None
        | Some kind \<Rightarrow>
            bindR (records_of kind ''issuances'') (\<lambda>issuances.
            bindR (records_of kind ''revocations'') (\<lambda>revocations.
            bindR (find_job uid issuances v j) (\<lambda>dir. case dir of
                None \<Rightarrow> Inr None
              | Some d \<Rightarrow>
                  let names = sort_key file_number (map fst (ad_entries d)) in
                  if maximumOrdinaryAttemptsPerJob < length names then Inl AttemptBound
                  else if \<not> list_all (\<lambda>e. in_regular (ad_inodes d (snd e))) (ad_entries d)
                    \<or> names \<noteq> map file_name [1..<length names + 1] then Inl AttemptPath
                  else Inr (Some (d, [1..<length names + 1], revocations)))))))"

definition readOrdinaryAttemptsForJob ::
  "project_runtime \<Rightarrow> nat \<Rightarrow> ordinary_store \<Rightarrow> string \<Rightarrow> string \<Rightarrow> (ordinary_error, AuthoritativeOrdinaryAttempt list) result" where
  "readOrdinaryAttemptsForJob rt uid store v j = bindR (selectedOrdinaryAttemptFiles uid store v j) (\<lambda>found. case found of
     None \<Rightarrow> Inr []
   | Some (dir, numbers, _) \<Rightarrow> mapR (\<lambda>n. read_record uid (attempt_codec rt) v j dir (file_name n) (int n)) numbers)"

record CurrentOrdinaryAttempt =
  co_attempt :: AuthoritativeOrdinaryAttempt
  co_revocation :: "AuthoritativeOrdinaryAttemptRevocation option"

text \<open>The revocation of an attempt: \<open>None\<close> when its path does not exist.\<close>

definition read_revocation ::
  "project_runtime \<Rightarrow> nat \<Rightarrow> records_folder \<Rightarrow> string \<Rightarrow> string \<Rightarrow> nat \<Rightarrow>
     (ordinary_error, AuthoritativeOrdinaryAttemptRevocation option) result" where
  "read_revocation rt uid revocations v j n = (case sub revocations v of
     None \<Rightarrow> Inr None
   | Some NotDir \<Rightarrow> Inl NonDirectory
   | Some (Dir f) \<Rightarrow> (case sub f j of
       None \<Rightarrow> Inr None
     | Some NotDir \<Rightarrow> Inl NonDirectory
     | Some (Dir d) \<Rightarrow>
         if map_of (ad_entries d) (file_name n) = None then Inr None
         else if \<not> fo_private f \<or> \<not> assertPrivateDirectory uid d then Inl FolderNotPrivate
         else map_sum id Some (read_record uid (revocation_codec rt) v j d (file_name n) (int n))))"

definition readCurrentOrdinaryAttempt ::
  "project_runtime \<Rightarrow> nat \<Rightarrow> ordinary_store \<Rightarrow> string \<Rightarrow> string \<Rightarrow> (ordinary_error, CurrentOrdinaryAttempt option) result" where
  "readCurrentOrdinaryAttempt rt uid store v j = bindR (selectedOrdinaryAttemptFiles uid store v j) (\<lambda>found. case found of
     None \<Rightarrow> Inr None
   | Some (dir, numbers, revocations) \<Rightarrow>
       if numbers = [] then Inr None
       else let n = last numbers in
         bindR (read_record uid (attempt_codec rt) v j dir (file_name n) (int n)) (\<lambda>attempt.
         bindR (read_revocation rt uid revocations v j n) (\<lambda>revocation.
         Inr (Some \<lparr>co_attempt = attempt, co_revocation = revocation\<rparr>))))"

section \<open>Writing a record\<close>

text \<open>What a write draws: the UUID in the name of its temporary file, the inode of that file, and how much of it
  has been written when the process dies inside the write.\<close>

record write_draw =
  wd_identity :: string
  wd_inode :: nat
  wd_written :: nat

definition new_job :: "nat \<Rightarrow> authority_directory" where
  "new_job uid = \<lparr>ad_uid = uid, ad_mode = 448, ad_entries = [], ad_inodes = (\<lambda>_. no_inode)\<rparr>"

definition open_temporary ::
  "nat \<Rightarrow> write_draw \<Rightarrow> string \<Rightarrow> string \<Rightarrow> authority_directory \<Rightarrow> (unit, authority_directory) step_outcome" where
  "open_temporary uid w base content dir =
     (let name = temporary_name base (wd_identity w) in
      if name \<in> fst ` set (ad_entries dir) then (Inl FileTaken, dir)
      else (Inr (), create_file uid name (wd_inode w) (take (wd_written w) content) dir))"

definition write_temporary :: "nat \<Rightarrow> write_draw \<Rightarrow> string \<Rightarrow> authority_directory \<Rightarrow> (unit, authority_directory) step_outcome" where
  "write_temporary uid w content dir = (Inr (), dir\<lparr>ad_inodes := (ad_inodes dir)(wd_inode w :=
     \<lparr>in_text = content, in_uid = uid, in_mode = 384, in_regular = True\<rparr>)\<rparr>)"

definition link_temporary :: "write_draw \<Rightarrow> string \<Rightarrow> authority_directory \<Rightarrow> (unit, authority_directory) step_outcome" where
  "link_temporary w base dir =
     (if base \<in> fst ` set (ad_entries dir) then (Inl FileTaken, unlink_entry (temporary_name base (wd_identity w)) dir)
      else (Inr (), add_entry base (wd_inode w) dir))"

definition unlink_temporary :: "write_draw \<Rightarrow> string \<Rightarrow> authority_directory \<Rightarrow> (unit, authority_directory) step_outcome" where
  "unlink_temporary w base dir = (Inr (), unlink_entry (temporary_name base (wd_identity w)) dir)"

definition writeRecord ::
  "nat \<Rightarrow> write_draw \<Rightarrow> string \<Rightarrow> string \<Rightarrow> string \<Rightarrow> nat \<Rightarrow> json \<Rightarrow> (ordinary_store \<Rightarrow> (unit, ordinary_store) step_outcome) list" where
  "writeRecord uid w k v j n value =
     (let base = file_name n; content = stringify value @ [CHR 0x0A] in
      [in_records k (ensure_dir new_folder fo_private v),
       in_records k (at_dir v (ensure_dir (new_job uid) (assertPrivateDirectory uid) j)),
       in_job k v j (open_temporary uid w base content), in_job k v j (write_temporary uid w content),
       in_job k v j (link_temporary w base), in_job k v j (unlink_temporary w base)])"

section \<open>The store\<close>

record ordinary_issue =
  oi_issuanceRequestId :: string
  oi_execution :: ordinary_execution
  oi_hostId :: string
  oi_capacity :: string
  oi_issuedBy :: string

record ordinary_revoke =
  or_revocationRequestId :: string
  or_reviewId :: string
  or_jobName :: string
  or_attemptId :: string
  or_revokedBy :: string

definition issueMatches :: "AuthoritativeOrdinaryAttempt \<Rightarrow> ordinary_issue \<Rightarrow> bool" where
  "issueMatches a input \<longleftrightarrow> oa_reviewId a = ox_reviewId (oi_execution input) \<and> oa_descriptorDigest a = ox_digest (oi_execution input)
     \<and> oa_descriptor a = ox_descriptor (oi_execution input) \<and> oa_hostId a = oi_hostId input
     \<and> oa_capacity a = oi_capacity input \<and> oa_issuedBy a = oi_issuedBy input"

definition revocationInputMatches :: "AuthoritativeOrdinaryAttemptRevocation \<Rightarrow> ordinary_revoke \<Rightarrow> bool" where
  "revocationInputMatches r input \<longleftrightarrow> ov_revocationRequestId r = or_revocationRequestId input
     \<and> ov_reviewId r = or_reviewId input \<and> ov_jobName r = or_jobName input \<and> ov_attemptId r = or_attemptId input
     \<and> ov_revokedBy r = or_revokedBy input"

definition revocationMatches :: "AuthoritativeOrdinaryAttemptRevocation \<Rightarrow> AuthoritativeOrdinaryAttempt \<Rightarrow> bool" where
  "revocationMatches r a \<longleftrightarrow> ov_attemptId r = oa_attemptId a \<and> ov_reviewId r = oa_reviewId a
     \<and> ov_jobName r = od_jobName (oa_descriptor a) \<and> ov_attempt r = oa_attempt a
     \<and> ov_descriptorDigest r = oa_descriptorDigest a \<and> ov_hostId r = oa_hostId a \<and> ov_capacity r = oa_capacity a"

definition records_consistent ::
  "AuthoritativeOrdinaryAttempt list \<Rightarrow> AuthoritativeOrdinaryAttemptRevocation list \<Rightarrow> (ordinary_error, unit) result" where
  "records_consistent attempts revocations =
     (if \<not> distinct (map oa_issuanceRequestId attempts) \<or> \<not> distinct (map oa_attemptId attempts) then Inl IdentityDuplicated
      else if \<not> distinct (map ov_revocationRequestId revocations) then Inl RevocationDuplicated
      else if list_all (\<lambda>r. case find_row (\<lambda>a. oa_reviewId a = ov_reviewId r \<and> od_jobName (oa_descriptor a) = ov_jobName r
             \<and> oa_attempt a = ov_attempt r) attempts of None \<Rightarrow> False | Some a \<Rightarrow> revocationMatches r a) revocations
      then Inr () else Inl RevocationMismatch)"

definition assertAuthoritativeOrdinaryAttemptStore ::
  "project_runtime \<Rightarrow> nat \<Rightarrow> ordinary_store \<Rightarrow> (unit, ordinary_store) step_outcome" where
  "assertAuthoritativeOrdinaryAttemptStore rt uid store = (case assertOrdinaryAttemptStoreLayout store of
     Inl e \<Rightarrow> (Inl e, store)
   | Inr None \<Rightarrow> (Inr (), store)
   | Inr (Some _) \<Rightarrow> (case readOrdinaryAttempts rt uid store of (attempts, s) \<Rightarrow>
       (case readOrdinaryRevocations rt uid s of (revocations, t) \<Rightarrow>
         (bindR attempts (\<lambda>as. bindR revocations (\<lambda>rs. records_consistent as rs)), t))))"

definition ordinary_current ::
  "project_runtime \<Rightarrow> nat \<Rightarrow> ordinary_store \<Rightarrow> string \<Rightarrow> string \<Rightarrow> (ordinary_error, CurrentOrdinaryAttempt option) result" where
  "ordinary_current rt uid store v j = bindR (readCurrentOrdinaryAttempt rt uid store v j) (\<lambda>selected. case selected of
     None \<Rightarrow> Inr None
   | Some c \<Rightarrow> (case co_revocation c of
       None \<Rightarrow> Inr (Some c)
     | Some r \<Rightarrow> if revocationMatches r (co_attempt c) then Inr (Some c) else Inl RevocationInvalid))"

text \<open>A request that has been issued before gets its attempt again if that attempt is current and not revoked.\<close>

definition replayed ::
  "project_runtime \<Rightarrow> nat \<Rightarrow> ordinary_store \<Rightarrow> ordinary_issue \<Rightarrow> AuthoritativeOrdinaryAttempt \<Rightarrow>
     (ordinary_error, AuthoritativeOrdinaryAttempt) result" where
  "replayed rt uid store input prior =
     bindR (ordinary_current rt uid store (oa_reviewId prior) (od_jobName (oa_descriptor prior))) (\<lambda>state. case state of
       None \<Rightarrow> Inl IssuanceUsed
     | Some c \<Rightarrow> if co_revocation c = None \<and> oa_attemptId (co_attempt c) = oa_attemptId prior \<and> issueMatches prior input
         then Inr prior else Inl IssuanceUsed)"

definition ordinary_replay ::
  "project_runtime \<Rightarrow> nat \<Rightarrow> ordinary_store \<Rightarrow> ordinary_issue \<Rightarrow> (ordinary_error, AuthoritativeOrdinaryAttempt option) result" where
  "ordinary_replay rt uid store input =
     (if store = None then Inr None
      else bindR (readOrdinaryAttemptsForJob rt uid store (ox_reviewId (oi_execution input))
          (od_jobName (ox_descriptor (oi_execution input)))) (\<lambda>attempts.
        case find_row (\<lambda>a. oa_issuanceRequestId a = oi_issuanceRequestId input) attempts of
          None \<Rightarrow> Inr None
        | Some prior \<Rightarrow> map_sum id Some (replayed rt uid store input prior)))"

text \<open>The attempt that a new request gets, and the record that is written for it.\<close>

definition next_ordinary :: "ordinary_issue \<Rightarrow> string \<Rightarrow> string \<Rightarrow> nat \<Rightarrow> AuthoritativeOrdinaryAttempt" where
  "next_ordinary input attemptId now k = \<lparr>oa_issuanceRequestId = oi_issuanceRequestId input, oa_attemptId = attemptId,
     oa_reviewId = ox_reviewId (oi_execution input), oa_attempt = int k,
     oa_descriptor = ox_descriptor (oi_execution input), oa_descriptorDigest = ox_digest (oi_execution input),
     oa_hostId = oi_hostId input, oa_capacity = oi_capacity input, oa_issuedBy = oi_issuedBy input, oa_issuedAt = now\<rparr>"

definition issue_ordinary ::
  "project_runtime \<Rightarrow> nat \<Rightarrow> ordinary_issue \<Rightarrow> string \<Rightarrow> string \<Rightarrow> ordinary_store \<Rightarrow>
     (ordinary_error, AuthoritativeOrdinaryAttempt + AuthoritativeOrdinaryAttempt) result" where
  "issue_ordinary rt uid input attemptId now store =
     bindR (readOrdinaryAttemptsForJob rt uid store (ox_reviewId (oi_execution input))
       (od_jobName (ox_descriptor (oi_execution input)))) (\<lambda>attempts.
     case find_row (\<lambda>a. oa_issuanceRequestId a = oi_issuanceRequestId input) attempts of
       Some prior \<Rightarrow> map_sum id Inl (replayed rt uid store input prior)
     | None \<Rightarrow>
         let used = (if attempts = [] then 0 else nat (oa_attempt (last attempts))) in
         if maximumOrdinaryAttemptsPerJob \<le> used then Inl JobFull
         else case authoritativeOrdinaryAttemptSchema rt (ordinary_attempt_json (next_ordinary input attemptId now (used + 1))) of
             None \<Rightarrow> Inl RecordSchema
           | Some attempt \<Rightarrow> Inr (Inr attempt))"

definition ordinary_issue_run ::
  "project_runtime \<Rightarrow> nat \<Rightarrow> write_draw \<Rightarrow> ordinary_issue \<Rightarrow> string \<Rightarrow> string \<Rightarrow> ordinary_store \<Rightarrow>
     (AuthoritativeOrdinaryAttempt, ordinary_store list) step_outcome" where
  "ordinary_issue_run rt uid w input attemptId now store = (case run_steps initializeOrdinaryAttemptStore store of
     (Inl e, ts) \<Rightarrow> (Inl e, ts)
   | (Inr _, ts) \<Rightarrow> (case issue_ordinary rt uid input attemptId now (last ts) of
       Inl e \<Rightarrow> (Inl e, ts)
     | Inr (Inl prior) \<Rightarrow> (Inr prior, ts)
     | Inr (Inr attempt) \<Rightarrow>
         (case run_steps (writeRecord uid w ''issuances'' (oa_reviewId attempt) (od_jobName (oa_descriptor attempt))
             (nat (oa_attempt attempt)) (ordinary_attempt_json attempt)) (last ts) of
            (r, us) \<Rightarrow> (map_sum id (\<lambda>_. attempt) r, ts @ us))))"

definition next_revocation ::
  "ordinary_revoke \<Rightarrow> string \<Rightarrow> string \<Rightarrow> AuthoritativeOrdinaryAttempt \<Rightarrow> AuthoritativeOrdinaryAttemptRevocation" where
  "next_revocation input revocationId now a = \<lparr>ov_revocationRequestId = or_revocationRequestId input,
     ov_revocationId = revocationId, ov_attemptId = oa_attemptId a, ov_reviewId = oa_reviewId a,
     ov_jobName = od_jobName (oa_descriptor a), ov_attempt = oa_attempt a, ov_descriptorDigest = oa_descriptorDigest a,
     ov_hostId = oa_hostId a, ov_capacity = oa_capacity a, ov_revokedBy = or_revokedBy input, ov_revokedAt = now\<rparr>"

definition revoke_ordinary ::
  "project_runtime \<Rightarrow> nat \<Rightarrow> ordinary_revoke \<Rightarrow> string \<Rightarrow> string \<Rightarrow> ordinary_store \<Rightarrow>
     (ordinary_error, AuthoritativeOrdinaryAttemptRevocation + AuthoritativeOrdinaryAttemptRevocation) result" where
  "revoke_ordinary rt uid input revocationId now store =
     bindR (ordinary_current rt uid store (or_reviewId input) (or_jobName input)) (\<lambda>state. case state of
       None \<Rightarrow> Inl CurrentMissing
     | Some c \<Rightarrow>
         if oa_attemptId (co_attempt c) \<noteq> or_attemptId input then Inl CurrentMissing
         else case co_revocation c of
             Some r \<Rightarrow> if revocationInputMatches r input then Inr (Inl r) else Inl AlreadyRevoked
           | None \<Rightarrow>
               case authoritativeOrdinaryAttemptRevocationSchema rt (ordinary_revocation_json
                   (next_revocation input revocationId now (co_attempt c))) of
                 None \<Rightarrow> Inl RecordSchema
               | Some revocation \<Rightarrow> Inr (Inr revocation))"

definition ordinary_revoke_run ::
  "project_runtime \<Rightarrow> nat \<Rightarrow> write_draw \<Rightarrow> ordinary_revoke \<Rightarrow> string \<Rightarrow> string \<Rightarrow> ordinary_store \<Rightarrow>
     (AuthoritativeOrdinaryAttemptRevocation, ordinary_store list) step_outcome" where
  "ordinary_revoke_run rt uid w input revocationId now store = (case run_steps initializeOrdinaryAttemptStore store of
     (Inl e, ts) \<Rightarrow> (Inl e, ts)
   | (Inr _, ts) \<Rightarrow> (case revoke_ordinary rt uid input revocationId now (last ts) of
       Inl e \<Rightarrow> (Inl e, ts)
     | Inr (Inl prior) \<Rightarrow> (Inr prior, ts)
     | Inr (Inr revocation) \<Rightarrow>
         (case run_steps (writeRecord uid w ''revocations'' (ov_reviewId revocation) (ov_jobName revocation)
             (nat (ov_attempt revocation)) (ordinary_revocation_json revocation)) (last ts) of
            (r, us) \<Rightarrow> (map_sum id (\<lambda>_. revocation) r, ts @ us))))"

end
