(* ===== verification/Ordinary_Recovery.thy ===== *)
theory Ordinary_Recovery
  imports Ordinary_Files Authority_Recovery
begin

text \<open>
  What a crash can leave in the directory of one job and what reading makes of it: the shapes of a directory, that
  recovery turns each of them into a clean directory with the same records, and that reading gives these records. The
  lemmas are proved once, in the locale \<open>record_kind\<close>, for attempts and for revocations.
\<close>

section \<open>Names\<close>

lemma matches_star_class: "list_all P s \<Longrightarrow> matches (Star (Cls P)) s"
proof -
  assume "list_all P s"
  then have "matches (Rep (Cls P) (length s) (length s)) s" by (simp add: matches_class)
  then show ?thesis by (auto simp: matches_lang)
qed

lemma dot_no_digit [simp]: "\<not> digit CHR ''.''"
  by (simp add: digit_def less_eq_char_def)

lemma takeWhile_digit_dec: "\<not> digit x \<Longrightarrow> takeWhile digit (dec n @ x # w) = dec n"
  using dec_digits[of n] by (subst takeWhile_append2) (auto simp: list_all_iff)

lemma file_number_name [simp]: "file_number (file_name n) = n"
proof -
  have "takeWhile digit (dec n @ CHR ''.'' # ''json'') = dec n" by (rule takeWhile_digit_dec) simp
  then show ?thesis by (simp add: file_number_def file_name_def undec_dec)
qed

lemma file_name_inject [simp]: "file_name m = file_name n \<longleftrightarrow> m = n"
  using file_number_name by metis

lemma decimal_dec: "0 < n \<Longrightarrow> matches decimalPattern (dec n)"
proof -
  assume n: "0 < n"
  obtain h w where d: "dec n = h # w" using dec_nonempty[of n] by (cases "dec n") auto
  have "digit h" "list_all digit w" using dec_digits[of n] by (simp_all add: d)
  moreover have "h \<noteq> CHR ''0''" using dec_head[of n] n by (simp add: d)
  ultimately show ?thesis unfolding decimalPattern_def d matches_Seq_Cls by (auto simp: matches_star_class)
qed

lemma file_name_matches: "0 < n \<Longrightarrow> matches attemptFilePattern (file_name n)"
  unfolding attemptFilePattern_def file_name_def matches_Seq matches_lit using decimal_dec by blast

lemma file_name_head: "\<exists>h w. file_name n = h # w \<and> digit h"
  using dec_digits[of n] dec_nonempty[of n] by (cases "dec n") (auto simp: file_name_def)

lemma file_name_not_temporary [simp]: "\<not> matches temporaryFilePattern (file_name n)"
proof
  assume "matches temporaryFilePattern (file_name n)"
  then have "hd (file_name n) = CHR ''.''" unfolding temporaryFilePattern_def matches_Seq matches_lit by auto
  moreover obtain h w where "file_name n = h # w" "digit h" using file_name_head by blast
  ultimately show False by auto
qed

lemma temporary_name_matches: "0 < n \<Longrightarrow> matches uuidPattern u \<Longrightarrow> matches temporaryFilePattern (temporary_name (file_name n) u)"
  unfolding temporaryFilePattern_def temporary_name_def file_name_def matches_Seq matches_lit
  using decimal_dec by (metis append_assoc append_Cons append_Nil)

lemma temporary_name_new [simp]: "temporary_name b u \<noteq> file_name n" "file_name n \<noteq> temporary_name b u"
  using file_name_head[of n] by (auto simp: temporary_name_def)

lemma final_of_temporary: "matches uuidPattern u \<Longrightarrow> final_of (temporary_name b u) = b"
  using uuid_length[of u] by (simp add: final_of_def temporary_name_def)

section \<open>Directories\<close>

definition record_text :: "('a \<Rightarrow> json) \<Rightarrow> 'a \<Rightarrow> string" where
  "record_text enc r = stringify (enc r) @ [CHR 0x0A]"

definition record_number :: "'a record_codec \<Rightarrow> 'a \<Rightarrow> nat" where
  "record_number c r = nat (snd (snd (rc_identity c r)))"

text \<open>Records that the directory of a job can hold.\<close>

definition job_records :: "'a record_codec \<Rightarrow> ('a \<Rightarrow> json) \<Rightarrow> ('a \<Rightarrow> bool) \<Rightarrow> string \<Rightarrow> string \<Rightarrow> 'a list \<Rightarrow> bool" where
  "job_records c enc valid v j rs \<longleftrightarrow> length rs \<le> maximumOrdinaryAttemptsPerJob \<and> numbers_ok (rc_contiguous c) (map (record_number c) rs)
     \<and> (\<forall>r\<in>set rs. valid r \<and> rc_identity c r = (v, j, int (record_number c r)) \<and> length (record_text enc r) \<le> maximumRecordBytes)"

definition clean ::
  "nat \<Rightarrow> 'a record_codec \<Rightarrow> ('a \<Rightarrow> json) \<Rightarrow> ('a \<Rightarrow> bool) \<Rightarrow> string \<Rightarrow> string \<Rightarrow> authority_directory \<Rightarrow> 'a list \<Rightarrow> bool" where
  "clean uid c enc valid v j dir rs \<longleftrightarrow> assertPrivateDirectory uid dir \<and> job_records c enc valid v j rs
     \<and> map fst (ad_entries dir) = map (\<lambda>r. file_name (record_number c r)) rs
     \<and> map (\<lambda>e. ad_inodes dir (snd e)) (ad_entries dir) = map (\<lambda>r. holds_text uid (record_text enc r)) rs
     \<and> distinct (map snd (ad_entries dir))"

text \<open>Nothing staged; a temporary file without its record; a record that is linked and whose temporary file remains.\<close>

inductive shape ::
  "nat \<Rightarrow> 'a record_codec \<Rightarrow> ('a \<Rightarrow> json) \<Rightarrow> ('a \<Rightarrow> bool) \<Rightarrow> string \<Rightarrow> string \<Rightarrow> authority_directory \<Rightarrow> 'a list \<Rightarrow> bool"
  for uid c enc valid v j where
  shape_clean: "clean uid c enc valid v j dir rs \<Longrightarrow> shape uid c enc valid v j dir rs"
| shape_staged: "clean uid c enc valid v j dir rs \<Longrightarrow> i \<notin> snd ` set (ad_entries dir) \<Longrightarrow> matches uuidPattern u \<Longrightarrow> 0 < n \<Longrightarrow>
    file_name n \<notin> fst ` set (ad_entries dir) \<Longrightarrow> length content \<le> maximumRecordBytes \<Longrightarrow>
    shape uid c enc valid v j (create_file uid (temporary_name (file_name n) u) i content dir) rs"
| shape_published: "clean uid c enc valid v j dir rs \<Longrightarrow> i \<notin> snd ` set (ad_entries dir) \<Longrightarrow> matches uuidPattern u \<Longrightarrow> 0 < n \<Longrightarrow>
    clean uid c enc valid v j (create_file uid (file_name n) i content dir) rs' \<Longrightarrow> length content \<le> maximumRecordBytes \<Longrightarrow>
    shape uid c enc valid v j (add_entry (file_name n) i (create_file uid (temporary_name (file_name n) u) i content dir)) rs'"

lemma recover_entries_append:
  "recover_entries uid (xs @ ys) dir = (case recover_entries uid xs dir of (Inl e, d) \<Rightarrow> (Inl e, d) | (Inr _, d) \<Rightarrow> recover_entries uid ys d)"
  by (induction xs arbitrary: dir) (auto split: prod.split sum.split)

lemma recover_entries_none:
  "(\<And>e. e \<in> set es \<Longrightarrow> \<not> matches temporaryFilePattern (fst e)) \<Longrightarrow> recover_entries uid es dir = (Inr (), dir)"
proof (induction es)
  case (Cons e es)
  have "\<not> matches temporaryFilePattern (fst e)" by (rule Cons.prems) simp
  then have "recover_entry uid e dir = (Inr (), dir)" by (cases e) (simp add: recover_entry_def)
  with Cons show ?case by simp
qed simp

lemma clean_names: "clean uid c enc valid v j dir rs \<Longrightarrow> e \<in> set (ad_entries dir) \<Longrightarrow> \<exists>n. fst e = file_name n"
  unfolding clean_def by (metis (no_types, lifting) image_eqI image_iff image_set)

lemma clean_recovers: "clean uid c enc valid v j dir rs \<Longrightarrow> e \<in> set (ad_entries dir) \<Longrightarrow> \<not> matches temporaryFilePattern (fst e)"
  by (metis clean_names file_name_not_temporary)

lemma clean_other_inode:
  assumes "clean uid c enc valid v j dir rs" "i \<notin> snd ` set (ad_entries dir)"
  shows "clean uid c enc valid v j (dir\<lparr>ad_inodes := (ad_inodes dir)(i := x)\<rparr>) rs"
proof -
  have "map (\<lambda>e. if snd e = i then x else ad_inodes dir (snd e)) (ad_entries dir) = map (\<lambda>e. ad_inodes dir (snd e)) (ad_entries dir)"
    using assms(2) by (intro map_cong) auto
  then show ?thesis using assms(1) by (simp add: clean_def assertPrivateDirectory_def del: map_eq_conv)
qed

lemma unlink_last: "name \<notin> fst ` set es \<Longrightarrow> delete_rows (\<lambda>e. fst e = name) (es @ [(name, i)]) = es"
  unfolding delete_rows_def by (auto simp: filter_id_conv image_iff)

lemma unlink_before_last:
  "name \<notin> fst ` set es \<Longrightarrow> name' \<noteq> name \<Longrightarrow> delete_rows (\<lambda>e. fst e = name) (es @ [(name, i), (name', i)]) = es @ [(name', i)]"
  unfolding delete_rows_def by (auto simp: filter_id_conv image_iff)

lemma nlink_absent: "i \<notin> snd ` set es \<Longrightarrow> count_rows (\<lambda>e. snd e = i) es = 0"
  by (auto simp: count_rows_0)

lemma count_rows_append: "count_rows P (xs @ ys) = count_rows P xs + count_rows P ys"
  by (simp add: count_rows_def)

lemma recover_unlinked:
  assumes "matches temporaryFilePattern name" "ad_inodes dir i = holds_text uid content" "length content \<le> maximumRecordBytes"
    "map_of (ad_entries dir) (final_of name) = None" "nlink dir i = 1"
  shows "recover_entry uid (name, i) dir = (Inr (), unlink_entry name dir)"
  using assms by (simp add: recover_entry_def assertPrivateFile_def holds_text_def)

lemma recover_linked:
  assumes "matches temporaryFilePattern name" "ad_inodes dir i = holds_text uid content" "length content \<le> maximumRecordBytes"
    "map_of (ad_entries dir) (final_of name) = Some i" "nlink dir i = 2"
  shows "recover_entry uid (name, i) dir = (Inr (), unlink_entry name dir)"
  using assms by (simp add: recover_entry_def assertPrivateFile_def holds_text_def)

lemma recover_staged:
  assumes "clean uid c enc valid v j dir rs" "i \<notin> snd ` set (ad_entries dir)" "matches uuidPattern u" "0 < n"
    "file_name n \<notin> fst ` set (ad_entries dir)" "length content \<le> maximumRecordBytes"
  shows "\<exists>d. recoverTemporaryRecords uid (create_file uid (temporary_name (file_name n) u) i content dir) = (Inr (), d)
    \<and> clean uid c enc valid v j d rs"
proof -
  let ?t = "temporary_name (file_name n) u" and ?x = "holds_text uid content"
  let ?d = "create_file uid ?t i content dir"
  have e: "ad_entries ?d = ad_entries dir @ [(?t, i)]" "ad_inodes ?d i = ?x"
    by (simp_all add: create_file_def add_entry_def holds_text_def)
  have f: "map_of (ad_entries ?d) (file_name n) = None" using assms(5) by (simp add: e map_of_eq_None_iff)
  have t: "?t \<notin> fst ` set (ad_entries dir)" using clean_names[OF assms(1)] by fastforce
  have "recover_entry uid (?t, i) ?d = (Inr (), unlink_entry ?t ?d)"
    by (rule recover_unlinked[OF temporary_name_matches[OF assms(4,3)]])
      (use f assms(6) in \<open>simp_all add: final_of_temporary[OF assms(3)] e(2) nlink_def count_rows_append e(1) nlink_absent[OF assms(2)]
        del: map_of_append\<close>)
  then have r: "recoverTemporaryRecords uid ?d = (Inr (), unlink_entry ?t ?d)"
    using recover_entries_none[of "ad_entries dir" uid ?d] clean_recovers[OF assms(1)]
    by (simp add: recoverTemporaryRecords_def e(1) recover_entries_append)
  have "unlink_entry ?t ?d = dir\<lparr>ad_inodes := (ad_inodes dir)(i := ?x)\<rparr>"
    by (simp add: unlink_entry_def create_file_def add_entry_def holds_text_def unlink_last[OF t])
  with r clean_other_inode[OF assms(1,2)] show ?thesis by auto
qed

lemma recover_published:
  assumes "clean uid c enc valid v j dir rs" "i \<notin> snd ` set (ad_entries dir)" "matches uuidPattern u" "0 < n"
    "clean uid c enc valid v j (create_file uid (file_name n) i content dir) rs'" "length content \<le> maximumRecordBytes"
  shows "\<exists>d. recoverTemporaryRecords uid (add_entry (file_name n) i (create_file uid (temporary_name (file_name n) u) i content dir))
    = (Inr (), d) \<and> clean uid c enc valid v j d rs'"
proof -
  let ?t = "temporary_name (file_name n) u" and ?x = "holds_text uid content"
  let ?d = "add_entry (file_name n) i (create_file uid ?t i content dir)"
  have e: "ad_entries ?d = ad_entries dir @ [(?t, i), (file_name n, i)]" "ad_inodes ?d i = ?x"
    by (simp_all add: create_file_def add_entry_def holds_text_def)
  have "distinct (map fst (ad_entries (create_file uid (file_name n) i content dir)))"
  proof -
    have "distinct (map (\<lambda>r. file_name (record_number c r)) rs')"
      using assms(5) unfolding clean_def job_records_def numbers_ok_def
      by (simp add: distinct_map strict_sorted_iff inj_on_def)
    then show ?thesis using assms(5) by (simp add: clean_def)
  qed
  then have n: "file_name n \<notin> fst ` set (ad_entries dir)" by (auto simp: create_file_def add_entry_def)
  have t: "?t \<notin> fst ` set (ad_entries dir)" using clean_names[OF assms(1)] by fastforce
  have f: "map_of (ad_entries ?d) (file_name n) = Some i"
    using n by (simp add: e map_add_def map_of_eq_None_iff[THEN iffD2])
  have "recover_entry uid (?t, i) ?d = (Inr (), unlink_entry ?t ?d)"
    by (rule recover_linked[OF temporary_name_matches[OF assms(4,3)]])
      (use f assms(6) in \<open>simp_all add: final_of_temporary[OF assms(3)] e(2) nlink_def count_rows_append e(1) nlink_absent[OF assms(2)]
        del: map_of_append\<close>)
  then have r: "recoverTemporaryRecords uid ?d = (Inr (), unlink_entry ?t ?d)"
    using recover_entries_none[of "ad_entries dir" uid ?d] clean_recovers[OF assms(1)]
    by (simp add: recoverTemporaryRecords_def e(1) recover_entries_append) (simp add: recover_entry_def)
  have "unlink_entry ?t ?d = create_file uid (file_name n) i content dir"
    by (simp add: unlink_entry_def create_file_def add_entry_def unlink_before_last[OF t])
  with r assms(5) show ?thesis by auto
qed

lemma shape_recovers:
  assumes "shape uid c enc valid v j dir rs"
  obtains d where "recoverTemporaryRecords uid dir = (Inr (), d)" "clean uid c enc valid v j d rs"
proof -
  from assms have "\<exists>d. recoverTemporaryRecords uid dir = (Inr (), d) \<and> clean uid c enc valid v j d rs"
  proof cases
    case shape_clean
    then show ?thesis using recover_entries_none[of "ad_entries dir" uid dir] clean_recovers[OF shape_clean]
      by (auto simp: recoverTemporaryRecords_def)
  qed (use recover_staged recover_published in metis)+
  then show thesis using that by blast
qed

section \<open>Reading\<close>

lemma filter_unique_nth:
  assumes "distinct (map f xs)" "k < length xs"
  shows "filter (\<lambda>x. f x = f (xs ! k)) xs = [xs ! k]"
  using assms
proof (induction xs arbitrary: k)
  case (Cons x xs)
  show ?case
  proof (cases k)
    case 0
    have "filter (\<lambda>y. f y = f x) xs = []" using Cons.prems(1) by (auto simp: filter_empty_conv) (metis image_eqI)
    with 0 show ?thesis by simp
  next
    case (Suc m)
    with Cons.prems have "f x \<noteq> f (xs ! m)" by (auto simp: image_iff)
    with Suc Cons show ?thesis by simp
  qed
qed simp

lemma clean_entry:
  assumes "clean uid c enc valid v j dir rs" "r \<in> set rs"
  obtains i where "map_of (ad_entries dir) (file_name (record_number c r)) = Some i" "nlink dir i = 1"
    "ad_inodes dir i = holds_text uid (record_text enc r)"
proof -
  let ?es = "ad_entries dir"
  have a: "map fst ?es = map (\<lambda>r. file_name (record_number c r)) rs" "distinct (map snd ?es)"
    "map (\<lambda>e. ad_inodes dir (snd e)) ?es = map (\<lambda>r. holds_text uid (record_text enc r)) rs"
    using assms(1) by (simp_all add: clean_def)
  have d: "distinct (map fst ?es)"
    using assms(1) unfolding a(1) clean_def job_records_def numbers_ok_def by (auto simp: distinct_map strict_sorted_iff inj_on_def)
  obtain k where k: "k < length rs" "rs ! k = r" using assms(2) by (auto simp: in_set_conv_nth)
  have l: "length ?es = length rs" using arg_cong[OF a(1), of length] by simp
  have e: "fst (?es ! k) = file_name (record_number c r)" "ad_inodes dir (snd (?es ! k)) = holds_text uid (record_text enc r)"
    using arg_cong[OF a(1), of "\<lambda>l. l ! k"] arg_cong[OF a(3), of "\<lambda>l. l ! k"] k l by simp_all
  have "?es ! k \<in> set ?es" using k l by simp
  then have "map_of ?es (file_name (record_number c r)) = Some (snd (?es ! k))" using d e(1) by (metis map_of_eq_Some_iff prod.collapse)
  moreover have "nlink dir (snd (?es ! k)) = 1"
  proof -
    have "filter (\<lambda>e. snd e = snd (?es ! k)) ?es = [?es ! k]"
      using filter_unique_nth[of snd ?es k] a(2) k(1) l by simp
    then show ?thesis by (simp add: nlink_def count_rows_def)
  qed
  ultimately show thesis using that e(2) by blast
qed

locale record_kind =
  fixes c :: "'a record_codec"
    and enc :: "'a \<Rightarrow> json"
    and valid :: "'a \<Rightarrow> bool"
  assumes parse_enc: "valid r \<Longrightarrow> rc_parse c (enc r) = Some r"
    and enc_ok: "json_ok (enc r)"
begin

lemma read_clean:
  assumes "clean uid c enc valid v j dir rs" "r \<in> set rs"
  shows "read_record uid c v j dir (file_name (record_number c r)) (int (record_number c r)) = Inr r"
proof -
  have r: "valid r" "rc_identity c r = (v, j, int (record_number c r))" "length (record_text enc r) \<le> maximumRecordBytes"
    using assms by (auto simp: clean_def job_records_def)
  obtain i where "map_of (ad_entries dir) (file_name (record_number c r)) = Some i" "nlink dir i = 1"
    "ad_inodes dir i = holds_text uid (record_text enc r)" by (rule clean_entry[OF assms])
  then have "readReviewJson uid dir (file_name (record_number c r)) = Some (enc r)"
    using r(3) json_parse_line[OF enc_ok, of r]
    by (simp add: readReviewJson_def assertPrivateFile_def holds_text_def record_text_def)
  then show ?thesis using r(2) parse_enc[OF r(1)] by (simp add: read_record_def)
qed

lemma clean_sorted:
  assumes "clean uid c enc valid v j dir rs"
  shows "sort_key file_number (map fst (ad_entries dir)) = map (\<lambda>r. file_name (record_number c r)) rs"
proof -
  have "sorted (map file_number (map fst (ad_entries dir)))"
    using assms by (auto simp: clean_def job_records_def numbers_ok_def comp_def strict_sorted_iff)
  then have "sort_key file_number (map fst (ad_entries dir)) = map fst (ad_entries dir)" by (rule sort_key_id_if_sorted)
  with assms show ?thesis by (simp add: clean_def)
qed

lemma read_job_shape:
  assumes "shape uid c enc valid v j dir rs"
  obtains d where "read_job uid c v j dir = (Inr rs, d)" "clean uid c enc valid v j d rs"
proof -
  obtain d where d: "recoverTemporaryRecords uid dir = (Inr (), d)" "clean uid c enc valid v j d rs"
    by (rule shape_recovers[OF assms])
  have j: "job_records c enc valid v j rs" "map fst (ad_entries d) = map (\<lambda>r. file_name (record_number c r)) rs"
    "map (\<lambda>e. ad_inodes d (snd e)) (ad_entries d) = map (\<lambda>r. holds_text uid (record_text enc r)) rs"
    using d(2) by (simp_all add: clean_def)
  have n: "map file_number (map (\<lambda>r. file_name (record_number c r)) rs) = map (record_number c) rs" by (simp add: comp_def)
  have "list_all (\<lambda>e. in_regular (ad_inodes d (snd e)) \<and> matches attemptFilePattern (fst e)) (ad_entries d)"
    unfolding list_all_iff
  proof
    fix e assume e: "e \<in> set (ad_entries d)"
    from e have "ad_inodes d (snd e) \<in> set (map (\<lambda>e. ad_inodes d (snd e)) (ad_entries d))" "fst e \<in> set (map fst (ad_entries d))" by auto
    then obtain r r' where "ad_inodes d (snd e) = holds_text uid (record_text enc r)" "r' \<in> set rs" "fst e = file_name (record_number c r')"
      unfolding j(2,3) by auto
    moreover have "0 < record_number c r'" using j(1) \<open>r' \<in> set rs\<close> by (auto simp: job_records_def numbers_ok_def)
    ultimately show "in_regular (ad_inodes d (snd e)) \<and> matches attemptFilePattern (fst e)"
      by (simp add: holds_text_def file_name_matches)
  qed
  moreover have "mapR (\<lambda>name. read_record uid c v j d name (int (file_number name))) (map (\<lambda>r. file_name (record_number c r)) rs) = Inr rs"
    unfolding mapR_eq_Inr list_all2_map1 using read_clean[OF d(2)] by (simp add: list.rel_refl_strong)
  ultimately have "read_job uid c v j dir = (Inr rs, d)"
    using j(1) unfolding read_job_def d(1) Let_def clean_sorted[OF d(2)] prod.case sum.case
    by (simp add: n job_records_def del: map_map)
  then show thesis using d(2) by (rule that)
qed

end

interpretation attempts: record_kind "attempt_codec rt" ordinary_attempt_json "ordinary_attempt_valid rt" for rt
  by unfold_locales (simp_all add: attempt_codec_def ordinary_attempt_schema_json ordinary_attempt_json_ok)

interpretation revocations: record_kind "revocation_codec rt" ordinary_revocation_json "ordinary_revocation_valid rt" for rt
  by unfold_locales (simp_all add: revocation_codec_def ordinary_revocation_schema_json ordinary_revocation_json_ok)

end
