(* ===== verification/Ordinary_Trees.thy ===== *)
theory Ordinary_Trees
  imports Ordinary_Recovery
begin

text \<open>
  Whole stores of ordinary jobs: the records that a tree of folders holds, that reading the tree gives exactly these
  records and leaves it clean, and that writing a record passes only through trees that hold the old records or the
  old ones with the new one at the end of its job.
\<close>

section \<open>Folders that hold something\<close>

definition folder_ok :: "(string \<Rightarrow> bool) \<Rightarrow> (string \<Rightarrow> 'a \<Rightarrow> 'b \<Rightarrow> bool) \<Rightarrow> 'b \<Rightarrow> 'a folder \<Rightarrow> (string \<Rightarrow> 'b) \<Rightarrow> bool" where
  "folder_ok P Q z f B \<longleftrightarrow> fo_private f \<and> distinct (map fst (fo_entries f))
     \<and> (\<forall>e\<in>set (fo_entries f). P (fst e) \<and> (\<exists>x. snd e = Dir x \<and> Q (fst e) x (B (fst e))))
     \<and> (\<forall>n. n \<notin> fst ` set (fo_entries f) \<longrightarrow> B n = z)"

lemma put_entry_names: "fst ` set (put_entry n x es) = insert n (fst ` set es)"
  by (induction es) auto

lemma put_entry_distinct: "distinct (map fst es) \<Longrightarrow> distinct (map fst (put_entry n x es))"
proof (induction es)
  case (Cons e es)
  then show ?case using put_entry_names[of n x es] by (cases "fst e = n") (auto simp flip: set_map)
qed simp

lemma put_entry_in: "distinct (map fst es) \<Longrightarrow> e \<in> set (put_entry n x es) \<Longrightarrow> e = (n, Dir x) \<or> e \<in> set es \<and> fst e \<noteq> n"
  by (induction es) (auto simp: image_iff split: if_splits)

lemma put_entry_get: "map_of (put_entry n x es) m = (if m = n then Some (Dir x) else map_of es m)"
  by (induction es) auto

lemma put_entry_put [simp]: "put_entry n x (put_entry n y es) = put_entry n x es"
  by (induction es) auto

lemma put_entry_same: "map_of es n = Some (Dir x) \<Longrightarrow> put_entry n x es = es"
  by (induction es) (auto split: if_splits)

lemma sub_put [simp]: "sub (put_dir n x f) m = (if m = n then Some (Dir x) else sub f m)"
  by (simp add: sub_def put_dir_def put_entry_get)

lemma put_put [simp]: "put_dir n x (put_dir n y f) = put_dir n x f"
  by (simp add: put_dir_def)

lemma put_same: "sub f n = Some (Dir x) \<Longrightarrow> put_dir n x f = f"
  by (simp add: sub_def put_dir_def put_entry_same)

lemma folder_put_mono:
  assumes "folder_ok P Q z f B" "P n" "R n x b" "\<And>m y. m \<noteq> n \<Longrightarrow> Q m y (B m) \<Longrightarrow> R m y (B m)"
  shows "folder_ok P R z (put_dir n x f) (B(n := b))"
proof -
  have "P (fst e) \<and> (\<exists>y. snd e = Dir y \<and> R (fst e) y ((B(n := b)) (fst e)))" if e: "e \<in> set (put_entry n x (fo_entries f))" for e
  proof -
    have "distinct (map fst (fo_entries f))" using assms(1) by (simp add: folder_ok_def)
    from put_entry_in[OF this e] show ?thesis
    proof
      assume "e \<in> set (fo_entries f) \<and> fst e \<noteq> n"
      with assms(1,4) show ?thesis unfolding folder_ok_def by fastforce
    qed (use assms(2,3) in simp)
  qed
  with assms(1) show ?thesis unfolding folder_ok_def put_dir_def by (auto simp: put_entry_distinct put_entry_names)
qed

lemma folder_put: "folder_ok P Q z f B \<Longrightarrow> P n \<Longrightarrow> Q n x b \<Longrightarrow> folder_ok P Q z (put_dir n x f) (B(n := b))"
  by (rule folder_put_mono)

lemma folder_sub:
  assumes "folder_ok P Q z f B" "sub f n = Some e"
  obtains x where "e = Dir x" "P n" "Q n x (B n)"
proof -
  have "(n, e) \<in> set (fo_entries f)" using assms(2) by (auto simp: sub_def dest: map_of_SomeD)
  with assms(1) show thesis using that by (fastforce simp: folder_ok_def)
qed

lemma folder_none: "folder_ok P Q z f B \<Longrightarrow> sub f n = None \<Longrightarrow> B n = z"
  by (auto simp: folder_ok_def sub_def map_of_eq_None_iff)

lemma folder_weaken:
  "folder_ok P Q z f B \<Longrightarrow> (\<And>n x b. n \<in> fst ` set (fo_entries f) \<Longrightarrow> Q n x b \<Longrightarrow> Q' n x b) \<Longrightarrow> folder_ok P Q' z f B"
  unfolding folder_ok_def by (meson image_eqI)

lemma folder_new: "folder_ok P Q z new_folder (\<lambda>_. z)"
  by (simp add: folder_ok_def new_folder_def)

lemma visit_ok:
  assumes step: "\<And>n x b. P n \<Longrightarrow> Q n x b \<Longrightarrow> \<exists>rs y. g n x = (Inr rs, y) \<and> Q' n y b \<and> distinct rs \<and> set rs = S b \<and> (\<forall>r\<in>set rs. tag r = n)"
    and weak: "\<And>n x b. Q' n x b \<Longrightarrow> Q n x b"
    and f: "folder_ok P (\<lambda>n x b. if n \<in> D then Q' n x b else Q n x b) z f B" "set names \<subseteq> fst ` set (fo_entries f)" "distinct names"
  shows "\<exists>rs f'. visit g names f = (Inr rs, f') \<and> folder_ok P (\<lambda>n x b. if n \<in> D \<union> set names then Q' n x b else Q n x b) z f' B
    \<and> fst ` set (fo_entries f') = fst ` set (fo_entries f) \<and> distinct rs \<and> set rs = (\<Union>n\<in>set names. S (B n))
    \<and> (\<forall>r\<in>set rs. tag r \<in> set names)"
  using f
proof (induction names arbitrary: D f)
  case (Cons n names)
  obtain e where e: "sub f n = Some e" using Cons.prems(2) by (cases "sub f n") (auto simp: sub_def map_of_eq_None_iff)
  obtain x where x: "e = Dir x" "P n" "if n \<in> D then Q' n x (B n) else Q n x (B n)" by (rule folder_sub[OF Cons.prems(1) e])
  then have "Q n x (B n)" using weak by (metis (full_types))
  from step[OF x(2) this] obtain rs y where y: "g n x = (Inr rs, y)" "Q' n y (B n)" "distinct rs" "set rs = S (B n)" "\<forall>r\<in>set rs. tag r = n" by blast
  let ?f = "put_dir n y f"
  have f2: "folder_ok P (\<lambda>m x b. if m \<in> insert n D then Q' m x b else Q m x b) z ?f B"
    using folder_put_mono[OF Cons.prems(1) x(2), of "\<lambda>m x b. if m \<in> insert n D then Q' m x b else Q m x b" y "B n"] y(2)
    by (simp add: fun_upd_idem)
  have s2: "fst ` set (fo_entries ?f) = fst ` set (fo_entries f)"
    using Cons.prems(2) by (auto simp: put_dir_def put_entry_names)
  obtain rs2 f' where v: "visit g names ?f = (Inr rs2, f')"
    "folder_ok P (\<lambda>m x b. if m \<in> insert n D \<union> set names then Q' m x b else Q m x b) z f' B"
    "fst ` set (fo_entries f') = fst ` set (fo_entries ?f)" "distinct rs2" "set rs2 = (\<Union>n\<in>set names. S (B n))" "\<forall>r\<in>set rs2. tag r \<in> set names"
    using Cons.IH[OF f2] Cons.prems(2,3) s2 by auto
  have "visit g (n # names) f = (Inr (rs @ rs2), f')" using e x(1) y(1) v(1) by (simp add: at_dir_def)
  moreover have "distinct (rs @ rs2)" using y(3,5) v(4,6) Cons.prems(3) by auto
  ultimately show ?case using v s2 y(4,5) by (intro exI[of _ "rs @ rs2"] exI[of _ f']) auto
qed auto

lemma visit_directories_ok:
  assumes step: "\<And>n x b. P n \<Longrightarrow> Q n x b \<Longrightarrow> \<exists>rs y. g n x = (Inr rs, y) \<and> Q' n y b \<and> distinct rs \<and> set rs = S b \<and> (\<forall>r\<in>set rs. tag r = n)"
    and weak: "\<And>n x b. Q' n x b \<Longrightarrow> Q n x b" and f: "folder_ok P Q z f B" "S z = {}"
  shows "\<exists>rs f'. visit_directories g f = (Inr rs, f') \<and> folder_ok P Q' z f' B \<and> distinct rs \<and> set rs = (\<Union>n. S (B n))"
proof -
  have d: "distinct (map fst (fo_entries f))" "fo_private f" "\<not> list_ex (\<lambda>e. snd e = NotDir) (fo_entries f)"
    using f(1) unfolding folder_ok_def list_ex_iff by auto
  have f0: "folder_ok P (\<lambda>n x b. if n \<in> {} then Q' n x b else Q n x b) z f B" using f(1) by simp
  from visit_ok[where g = g and tag = tag and S = S and names = "sort (map fst (fo_entries f))", OF step weak f0] d(1) obtain rs f' where
    v: "visit g (sort (map fst (fo_entries f))) f = (Inr rs, f')"
      "folder_ok P (\<lambda>n x b. if n \<in> fst ` set (fo_entries f) then Q' n x b else Q n x b) z f' B"
      "fst ` set (fo_entries f') = fst ` set (fo_entries f)" "distinct rs" "set rs = (\<Union>n\<in>fst ` set (fo_entries f). S (B n))" by auto
  have "folder_ok P Q' z f' B" using v(3) by (intro folder_weaken[OF v(2)]) simp
  moreover have "S (B n) = {}" if "n \<notin> fst ` set (fo_entries f)" for n using f that by (simp add: folder_ok_def)
  then have "set rs = (\<Union>n. S (B n))" unfolding v(5) by blast
  ultimately show ?thesis using v(1,4) d by (intro exI[of _ rs] exI[of _ f']) (auto simp: visit_directories_def)
qed

section \<open>Folders of records\<close>

text \<open>The records of a kind by their review and job. A predicate says what the directory of a job is: clean, or of a shape that
  a crash leaves.\<close>

type_synonym 'a by_job = "string \<Rightarrow> string \<Rightarrow> 'a list"
type_synonym 'a job_state = "string \<Rightarrow> string \<Rightarrow> authority_directory \<Rightarrow> 'a list \<Rightarrow> bool"

definition records_hold :: "'a job_state \<Rightarrow> records_folder \<Rightarrow> 'a by_job \<Rightarrow> bool" where
  "records_hold J f A \<longleftrightarrow> folder_ok (matches hex64Pattern) (\<lambda>v. folder_ok (matches namePattern) (J v) []) (\<lambda>_. []) f A"

definition all_records :: "'a by_job \<Rightarrow> 'a set" where
  "all_records A = (\<Union>v j. set (A v j))"

definition add_record :: "string \<Rightarrow> string \<Rightarrow> 'a \<Rightarrow> 'a by_job \<Rightarrow> 'a by_job" where
  "add_record v j r A = A(v := (A v)(j := A v j @ [r]))"

lemma add_record_at [simp]: "add_record v j r A v' j' = (if v' = v \<and> j' = j then A v j @ [r] else A v' j')"
  by (simp add: add_record_def)

lemma all_add_record [simp]: "all_records (add_record v j r A) = insert r (all_records A)"
  by (auto simp: all_records_def split: if_splits) (metis UnCI set_append)+

lemma records_weaken: "records_hold J f A \<Longrightarrow> (\<And>v j d rs. J v j d rs \<Longrightarrow> J' v j d rs) \<Longrightarrow> records_hold J' f A"
  unfolding records_hold_def by (blast intro: folder_weaken)

lemma records_new: "records_hold J new_folder (\<lambda>_ _. [])"
  by (simp add: records_hold_def folder_new)

lemma records_put:
  assumes "records_hold J f A" "matches hex64Pattern v" "folder_ok (matches namePattern) (J v) [] y b"
  shows "records_hold J (put_dir v y f) (A(v := b))"
  using assms unfolding records_hold_def by (intro folder_put)

lemma job_records_distinct: "job_records c enc valid v j rs \<Longrightarrow> distinct rs"
  by (auto simp: job_records_def numbers_ok_def strict_sorted_iff distinct_map)

lemma job_records_identity: "job_records c enc valid v j rs \<Longrightarrow> r \<in> set rs \<Longrightarrow> rc_identity c r = (v, j, int (record_number c r))"
  by (auto simp: job_records_def)

lemma clean_job: "clean uid c enc valid v j d rs \<Longrightarrow> job_records c enc valid v j rs"
  by (simp add: clean_def)

context record_kind begin

lemma visit_job_ok:
  assumes "matches namePattern j" "shape uid c enc valid v j d rs"
  shows "\<exists>xs y. visit_job uid c v j d = (Inr xs, y) \<and> clean uid c enc valid v j y rs \<and> distinct xs \<and> set xs = set rs
    \<and> (\<forall>r\<in>set xs. fst (snd (rc_identity c r)) = j)"
proof -
  obtain y where y: "read_job uid c v j d = (Inr rs, y)" "clean uid c enc valid v j y rs" by (rule read_job_shape[OF assms(2)])
  then show ?thesis using assms(1) job_records_distinct[OF clean_job[OF y(2)]] job_records_identity[OF clean_job[OF y(2)]]
    by (intro exI[of _ rs] exI[of _ y]) (auto simp: visit_job_def)
qed

lemma visit_review_ok:
  assumes "matches hex64Pattern v" "folder_ok (matches namePattern) (shape uid c enc valid v) [] f B"
  shows "\<exists>xs y. visit_review uid c v f = (Inr xs, y) \<and> folder_ok (matches namePattern) (clean uid c enc valid v) [] y B
    \<and> distinct xs \<and> set xs = (\<Union>j. set (B j)) \<and> (\<forall>r\<in>set xs. fst (rc_identity c r) = v)"
proof -
  have "\<exists>xs y. visit_directories (visit_job uid c v) f = (Inr xs, y) \<and> folder_ok (matches namePattern) (clean uid c enc valid v) [] y B
    \<and> distinct xs \<and> set xs = (\<Union>j. set (B j))"
    by (rule visit_directories_ok[where S = set and tag = "\<lambda>r. fst (snd (rc_identity c r))", OF visit_job_ok shape_clean assms(2)]) auto
  then obtain xs y where x: "visit_directories (visit_job uid c v) f = (Inr xs, y)"
    "folder_ok (matches namePattern) (clean uid c enc valid v) [] y B" "distinct xs" "set xs = (\<Union>j. set (B j))" by blast
  have "fst (rc_identity c r) = v" if "r \<in> set (B j)" for r j
  proof (cases "sub y j")
    case None
    with that folder_none[OF x(2)] show ?thesis by auto
  next
    case (Some e)
    then obtain d where "clean uid c enc valid v j d (B j)" by (rule folder_sub[OF x(2)])
    then show ?thesis using job_records_identity[OF clean_job that] by simp
  qed
  then show ?thesis using x assms(1) by (intro exI[of _ xs] exI[of _ y]) (auto simp: visit_review_def)
qed

lemma read_all:
  assumes "records_hold (shape uid c enc valid) f A"
  obtains xs f' where "readRecords uid c f = (Inr xs, f')" "records_hold (clean uid c enc valid) f' A" "distinct xs" "set xs = all_records A"
proof -
  have "\<exists>xs f'. visit_directories (visit_review uid c) f = (Inr xs, f')
    \<and> folder_ok (matches hex64Pattern) (\<lambda>v. folder_ok (matches namePattern) (clean uid c enc valid v) []) (\<lambda>_. []) f' A
    \<and> distinct xs \<and> set xs = (\<Union>v. (\<lambda>B. \<Union>j. set (B j)) (A v))"
    using assms unfolding records_hold_def
    by (intro visit_directories_ok[where S = "\<lambda>B. \<Union>j. set (B j)" and tag = "\<lambda>r. fst (rc_identity c r)", OF visit_review_ok])
      (auto intro: folder_weaken shape_clean)
  then show thesis using that by (auto simp: readRecords_def records_hold_def all_records_def)
qed

end

end
