(* ===== verification/Ordinary_Writes.thy ===== *)
theory Ordinary_Writes
  imports Ordinary_Trees
begin

text \<open>
  Writing a record of an ordinary job, call by call: every tree that the write passes through holds the records from before or
  these records with the new one at the end of its job, and the last tree is clean. The argument is the same at each level
  of folders and is made once, for a list of calls that makes a folder and goes on inside it.
\<close>

section \<open>Calls inside a folder\<close>

text \<open>Calls that succeed, passing through old or new states \<open>Q\<close> and ending in a new state \<open>Q'\<close>.\<close>

definition writes :: "('s \<Rightarrow> (unit, 's) step_outcome) list \<Rightarrow> ('s \<Rightarrow> 'b \<Rightarrow> bool) \<Rightarrow> ('s \<Rightarrow> 'b \<Rightarrow> bool) \<Rightarrow> 's \<Rightarrow> 'b \<Rightarrow> 'b \<Rightarrow> bool" where
  "writes gs Q Q' s b b' \<longleftrightarrow> (\<exists>ts. run_steps gs s = (Inr (), ts) \<and> (\<forall>t\<in>set ts. Q t b \<or> Q t b') \<and> ts \<noteq> [] \<and> Q' (last ts) b')"

text \<open>Functions that run a call inside of a bigger state.\<close>

lemma run_steps_inside:
  assumes "\<And>g x. inside g (e x) = (case g x of (r, y) \<Rightarrow> (r, e y))"
  shows "run_steps (map inside gs) (e x) = (case run_steps gs x of (r, ts) \<Rightarrow> (r, map e ts))"
  by (induction gs arbitrary: x) (auto simp: assms split: prod.split sum.split)

lemma at_dir_put: "at_dir n g (put_dir n x f) = (case g x of (r, y) \<Rightarrow> (r, put_dir n y f))"
  by (simp add: at_dir_def split: prod.split)

lemma run_steps_at_dir: "run_steps (map (at_dir n) gs) (put_dir n x f) = (case run_steps gs x of (r, ts) \<Rightarrow> (r, map (\<lambda>y. put_dir n y f) ts))"
  by (rule run_steps_inside[where e = "\<lambda>y. put_dir n y f"]) (rule at_dir_put)

text \<open>The folder that \<open>ensure_dir\<close> finds or makes.\<close>

definition ensured :: "'a \<Rightarrow> ('a \<Rightarrow> bool) \<Rightarrow> string \<Rightarrow> 'a folder \<Rightarrow> 'a \<Rightarrow> bool" where
  "ensured fresh private n f y \<longleftrightarrow> sub f n = None \<and> y = fresh \<or> sub f n = Some (Dir y) \<and> private y"

lemma ensured_run:
  assumes "ensured fresh private n f y" "run_steps gs y = (Inr (), ts)"
  shows "run_steps (ensure_dir fresh private n # map (at_dir n) gs) f = (Inr (), f # map (\<lambda>y. put_dir n y f) ts)"
proof -
  have "ensure_dir fresh private n f = (Inr (), put_dir n y f)"
    using assms(1) put_same[of f n y] by (auto simp: ensured_def ensure_dir_def)
  with assms(2) show ?thesis by (simp add: run_steps_at_dir)
qed

lemma ensured_ok:
  assumes "folder_ok P Q z f B" "Q n fresh z" "\<And>y b. Q n y b \<Longrightarrow> private y"
  obtains y where "ensured fresh private n f y" "Q n y (B n)"
proof (cases "sub f n")
  case None
  with that[of fresh] assms(2) folder_none[OF assms(1)] show thesis by (simp add: ensured_def)
next
  case (Some e)
  then obtain y where "e = Dir y" "Q n y (B n)" by (rule folder_sub[OF assms(1)])
  with that[of y] assms(3) Some show thesis by (auto simp: ensured_def)
qed

lemma writes_inside:
  assumes f: "folder_ok P Q' z f B" "P n" and fresh: "Q' n fresh z" and priv: "\<And>y b. Q' n y b \<Longrightarrow> private y"
    and weak: "\<And>m y b. Q' m y b \<Longrightarrow> Q m y b"
    and inner: "\<And>y. ensured fresh private n f y \<Longrightarrow> Q' n y (B n) \<Longrightarrow> writes gs (Q n) (Q' n) y (B n) b"
  shows "writes (ensure_dir fresh private n # map (at_dir n) gs) (folder_ok P Q z) (folder_ok P Q' z) f B (B(n := b))"
proof -
  obtain y where y: "ensured fresh private n f y" "Q' n y (B n)" by (rule ensured_ok[OF f(1) fresh priv])
  obtain ts where ts: "run_steps gs y = (Inr (), ts)" "\<forall>t\<in>set ts. Q n t (B n) \<or> Q n t b" "ts \<noteq> []" "Q' n (last ts) b"
    using inner[OF y] by (auto simp: writes_def)
  have w: "folder_ok P Q z f B" by (rule folder_weaken[OF f(1) weak])
  have "folder_ok P Q z (put_dir n t f) B \<or> folder_ok P Q z (put_dir n t f) (B(n := b))" if "t \<in> set ts" for t
    using ts(2) that folder_put[OF w f(2), of t "B n"] folder_put[OF w f(2), of t b] by auto
  moreover have "folder_ok P Q' z (put_dir n (last ts) f) (B(n := b))" by (rule folder_put[OF f(1,2) ts(4)])
  ultimately show ?thesis unfolding writes_def ensured_run[OF y(1) ts(1)] using w ts(3)
    by (intro exI[of _ "f # map (\<lambda>y. put_dir n y f) ts"]) (auto simp: last_map)
qed

section \<open>The directory of a job\<close>

definition record_calls :: "nat \<Rightarrow> write_draw \<Rightarrow> string \<Rightarrow> string \<Rightarrow> (authority_directory \<Rightarrow> (unit, authority_directory) step_outcome) list" where
  "record_calls uid w base content = [open_temporary uid w base content, write_temporary uid w content,
     link_temporary w base, unlink_temporary w base]"

lemma clean_snoc:
  assumes "clean uid c enc valid v j d rs" "job_records c enc valid v j (rs @ [r])" "i \<notin> snd ` set (ad_entries d)"
  shows "clean uid c enc valid v j (create_file uid (file_name (record_number c r)) i (record_text enc r) d) (rs @ [r])"
proof -
  have "clean uid c enc valid v j (d\<lparr>ad_inodes := (ad_inodes d)(i := holds_text uid (record_text enc r))\<rparr>) rs"
    by (rule clean_other_inode[OF assms(1,3)])
  with assms(2,3) show ?thesis
    by (simp add: clean_def create_file_def add_entry_def holds_text_def assertPrivateDirectory_def)
qed

lemma snoc_free:
  assumes "clean uid c enc valid v j d rs" "job_records c enc valid v j (rs @ [r])"
  shows "file_name (record_number c r) \<notin> fst ` set (ad_entries d)"
proof -
  have "fst ` set (ad_entries d) = (\<lambda>r. file_name (record_number c r)) ` set rs"
    using assms(1) by (metis clean_def set_map)
  moreover have "record_number c s < record_number c r" if "s \<in> set rs" for s
    using assms(2) that by (auto simp: job_records_def numbers_ok_def sorted_wrt_append)
  ultimately show ?thesis by (metis (no_types, lifting) file_name_inject image_iff less_irrefl)
qed

lemma create_file_again:
  "write_temporary uid w content (create_file uid t (wd_inode w) text d) = (Inr (), create_file uid t (wd_inode w) content d)"
  by (simp add: write_temporary_def create_file_def add_entry_def)

lemma unlink_published:
  assumes "t \<notin> fst ` set (ad_entries d)" "t \<noteq> name"
  shows "unlink_entry t (add_entry name i (create_file uid t i content d)) = create_file uid name i content d"
  using assms by (simp add: unlink_entry_def create_file_def add_entry_def unlink_before_last)

lemma record_calls_write:
  fixes w :: write_draw
  assumes "clean uid c enc valid v j d rs" "job_records c enc valid v j (rs @ [r])" "wd_inode w \<notin> snd ` set (ad_entries d)"
    "matches uuidPattern (wd_identity w)"
  shows "writes (record_calls uid w (file_name (record_number c r)) (record_text enc r)) (shape uid c enc valid v j) (clean uid c enc valid v j) d rs (rs @ [r])"
proof -
  let ?b = "file_name (record_number c r)" and ?i = "wd_inode w" and ?x = "record_text enc r"
  let ?t = "temporary_name ?b (wd_identity w)"
  have t: "?t \<notin> fst ` set (ad_entries d)" using clean_names[OF assms(1)] by fastforce
  have b: "?b \<notin> fst ` set (ad_entries d)" by (rule snoc_free[OF assms(1,2)])
  have n: "0 < record_number c r" "length ?x \<le> maximumRecordBytes"
    using assms(2) by (auto simp: job_records_def numbers_ok_def)
  have s: "shape uid c enc valid v j (create_file uid ?t ?i y d) rs" if "length y \<le> maximumRecordBytes" for y
    by (rule shape_staged[OF assms(1,3,4) n(1) b that])
  have l: "clean uid c enc valid v j (create_file uid ?b ?i ?x d) (rs @ [r])" by (rule clean_snoc[OF assms(1,2,3)])
  have p: "shape uid c enc valid v j (add_entry ?b ?i (create_file uid ?t ?i ?x d)) (rs @ [r])"
    by (rule shape_published[OF assms(1,3,4) n(1) l n(2)])
  have u: "unlink_entry ?t (add_entry ?b ?i (create_file uid ?t ?i ?x d)) = create_file uid ?b ?i ?x d"
    by (rule unlink_published[OF t]) simp
  have "run_steps (record_calls uid w ?b ?x) d = (Inr (), [d, create_file uid ?t ?i (take (wd_written w) ?x) d, create_file uid ?t ?i ?x d,
      add_entry ?b ?i (create_file uid ?t ?i ?x d), create_file uid ?b ?i ?x d])"
    using t b by (simp add: record_calls_def open_temporary_def Let_def create_file_again link_temporary_def unlink_temporary_def u)
      (simp add: create_file_def add_entry_def)
  then show ?thesis unfolding writes_def using shape_clean[OF assms(1)] shape_clean[OF l] s[of "take (wd_written w) ?x"] s[of ?x] p l n(2)
    by (intro exI) auto
qed

section \<open>A folder of records\<close>

definition fresh_inode :: "nat \<Rightarrow> string \<Rightarrow> string \<Rightarrow> records_folder \<Rightarrow> bool" where
  "fresh_inode i v j f \<longleftrightarrow> (case sub f v of Some (Dir y) \<Rightarrow>
     (case sub y j of Some (Dir d) \<Rightarrow> list_all (\<lambda>e. snd e \<noteq> i) (ad_entries d) | _ \<Rightarrow> True) | _ \<Rightarrow> True)"

definition folder_calls ::
  "nat \<Rightarrow> write_draw \<Rightarrow> string \<Rightarrow> string \<Rightarrow> string \<Rightarrow> string \<Rightarrow> (records_folder \<Rightarrow> (unit, records_folder) step_outcome) list" where
  "folder_calls uid w v j base content = ensure_dir new_folder fo_private v # map (at_dir v)
     (ensure_dir (new_job uid) (assertPrivateDirectory uid) j # map (at_dir j) (record_calls uid w base content))"

lemma writeRecord_calls:
  "writeRecord uid w k v j n value = map (in_records k) (folder_calls uid w v j (file_name n) (stringify value @ [CHR 0x0A]))"
  by (simp add: writeRecord_def folder_calls_def record_calls_def in_job_def Let_def)

lemma clean_new_job: "clean uid c enc valid v j (new_job uid) []"
  by (simp add: clean_def new_job_def assertPrivateDirectory_def job_records_def numbers_ok_def)

lemma clean_private: "clean uid c enc valid v j d rs \<Longrightarrow> assertPrivateDirectory uid d"
  by (simp add: clean_def)

lemma fresh_ensured:
  assumes "fresh_inode i v j f" "ensured new_folder p v f y" "ensured (new_job uid) q j y d"
  shows "i \<notin> snd ` set (ad_entries d)"
  using assms by (fastforce simp: fresh_inode_def ensured_def list_all_iff new_folder_def sub_def new_job_def)

lemma folder_calls_write:
  fixes w :: write_draw
  assumes f: "records_hold (clean uid c enc valid) f A" "matches hex64Pattern v" "matches namePattern j"
    and r: "job_records c enc valid v j (A v j @ [r])" and w: "fresh_inode (wd_inode w) v j f" "matches uuidPattern (wd_identity w)"
  shows "writes (folder_calls uid w v j (file_name (record_number c r)) (record_text enc r))
    (records_hold (shape uid c enc valid)) (records_hold (clean uid c enc valid)) f A (add_record v j r A)"
  unfolding folder_calls_def records_hold_def add_record_def
proof (rule writes_inside[OF f(1)[unfolded records_hold_def] f(2)])
  fix y
  assume y: "ensured new_folder fo_private v f y" "folder_ok (matches namePattern) (clean uid c enc valid v) [] y (A v)"
  show "writes (ensure_dir (new_job uid) (assertPrivateDirectory uid) j # map (at_dir j)
      (record_calls uid w (file_name (record_number c r)) (record_text enc r)))
    (folder_ok (matches namePattern) (shape uid c enc valid v) []) (folder_ok (matches namePattern) (clean uid c enc valid v) []) y
    (A v) ((A v)(j := A v j @ [r]))"
    by (rule writes_inside[OF y(2) f(3) clean_new_job])
      (blast intro: clean_private shape_clean record_calls_write[OF _ r fresh_ensured[OF w(1) y(1)] w(2)])+
qed (rule folder_new, simp add: folder_ok_def, erule folder_weaken, erule shape_clean)

end
