(* ===== verification/Ordinary_Store.thy ===== *)
theory Ordinary_Store
  imports Ordinary_Writes
begin

text \<open>
  The store of ordinary attempts as records: what a tree of folders says about attempts and revocations, that the check at
  start-up accepts every tree that a crash leaves and gives the same records back, and what each operation of a running
  process reads and writes.
\<close>

section \<open>Trees\<close>

definition store_tree :: "records_folder \<Rightarrow> records_folder \<Rightarrow> ordinary_store" where
  "store_tree fi fr = Some \<lparr>fo_private = True, fo_entries = [(kind_name, Dir \<lparr>fo_private = True,
     fo_entries = [(''issuances'', Dir fi), (''revocations'', Dir fr)]\<rparr>)]\<rparr>"

type_synonym attempts_by_job = "AuthoritativeOrdinaryAttempt by_job"
type_synonym revocations_by_job = "AuthoritativeOrdinaryAttemptRevocation by_job"

definition job_holds :: "bool \<Rightarrow> nat \<Rightarrow> 'a record_codec \<Rightarrow> ('a \<Rightarrow> json) \<Rightarrow> ('a \<Rightarrow> bool) \<Rightarrow> 'a job_state" where
  "job_holds crashed uid c enc valid = (if crashed then shape uid c enc valid else clean uid c enc valid)"

text \<open>Every revocation is the one of its attempt, and carries the identity of the attempt as its own, as the service requires.\<close>

definition consistent :: "attempts_by_job \<Rightarrow> revocations_by_job \<Rightarrow> bool" where
  "consistent A R \<longleftrightarrow> inj_on oa_issuanceRequestId (all_records A) \<and> inj_on oa_attemptId (all_records A)
     \<and> (\<forall>v j. \<forall>r\<in>set (R v j). ov_revocationRequestId r = ov_attemptId r \<and> (\<exists>a\<in>set (A v j). revocationMatches r a))"

definition attempts_hold :: "project_runtime \<Rightarrow> nat \<Rightarrow> bool \<Rightarrow> records_folder \<Rightarrow> attempts_by_job \<Rightarrow> bool" where
  "attempts_hold rt uid crashed = records_hold (job_holds crashed uid (attempt_codec rt) ordinary_attempt_json (ordinary_attempt_valid rt))"

definition revocations_hold :: "project_runtime \<Rightarrow> nat \<Rightarrow> bool \<Rightarrow> records_folder \<Rightarrow> revocations_by_job \<Rightarrow> bool" where
  "revocations_hold rt uid crashed = records_hold (job_holds crashed uid (revocation_codec rt) ordinary_revocation_json (ordinary_revocation_valid rt))"

definition store_holds :: "project_runtime \<Rightarrow> nat \<Rightarrow> bool \<Rightarrow> ordinary_store \<Rightarrow> attempts_by_job \<Rightarrow> revocations_by_job \<Rightarrow> bool" where
  "store_holds rt uid crashed store A R \<longleftrightarrow> consistent A R \<and>
     (store = None \<and> A = (\<lambda>_ _. []) \<and> R = (\<lambda>_ _. []) \<or>
      (\<exists>fi fr. store = store_tree fi fr \<and> attempts_hold rt uid crashed fi A \<and> revocations_hold rt uid crashed fr R))"

lemma names_differ [simp]: "''issuances'' \<noteq> ''revocations''" "''revocations'' \<noteq> ''issuances''"
  by simp_all

lemma in_records_tree:
  "in_records ''issuances'' g (store_tree fi fr) = (case g fi of (r, f) \<Rightarrow> (r, store_tree f fr))"
  "in_records ''revocations'' h (store_tree fi fr) = (case h fr of (r', f) \<Rightarrow> (r', store_tree fi f))"
  by (simp_all add: in_records_def in_kind_def at_dir_def sub_def put_dir_def store_tree_def split: prod.split)

lemma layout_tree: "assertOrdinaryAttemptStoreLayout (store_tree fi fr) =
  Inr (Some \<lparr>fo_private = True, fo_entries = [(''issuances'', Dir fi), (''revocations'', Dir fr)]\<rparr>)"
  by (simp add: assertOrdinaryAttemptStoreLayout_def store_tree_def)

lemma attempts_private: "attempts_hold rt uid x f A \<Longrightarrow> fo_private f"
  by (simp add: attempts_hold_def records_hold_def folder_ok_def)

lemma revocations_private: "revocations_hold rt uid x f A \<Longrightarrow> fo_private f"
  by (simp add: revocations_hold_def records_hold_def folder_ok_def)

lemma attempts_crashed: "attempts_hold rt uid x f A \<Longrightarrow> attempts_hold rt uid True f A"
  unfolding attempts_hold_def job_holds_def by (cases x) (auto intro: records_weaken shape_clean)

lemma revocations_crashed: "revocations_hold rt uid x f A \<Longrightarrow> revocations_hold rt uid True f A"
  unfolding revocations_hold_def job_holds_def by (cases x) (auto intro: records_weaken shape_clean)

lemma store_crashed: "store_holds rt uid x s A R \<Longrightarrow> store_holds rt uid True s A R"
  unfolding store_holds_def by (blast intro: attempts_crashed revocations_crashed)

lemma empty_consistent: "consistent (\<lambda>_ _. []) (\<lambda>_ _. [])"
  by (simp add: consistent_def all_records_def)

lemma store_new: "store_holds rt uid x (store_tree new_folder new_folder) (\<lambda>_ _. []) (\<lambda>_ _. [])"
  unfolding store_holds_def attempts_hold_def revocations_hold_def by (blast intro: records_new empty_consistent)

lemma records_state:
  assumes "records_hold (job_holds x uid c enc valid) f A"
  shows "matches hex64Pattern v \<and> matches namePattern j \<and> job_records c enc valid v j (A v j) \<or> A v j = []"
proof (cases "sub f v")
  case None
  from folder_none[OF assms[unfolded records_hold_def] this] show ?thesis by simp
next
  case (Some e)
  obtain y where y: "matches hex64Pattern v" "folder_ok (matches namePattern) (job_holds x uid c enc valid v) [] y (A v)"
    by (rule folder_sub[OF assms[unfolded records_hold_def] Some])
  show ?thesis
  proof (cases "sub y j")
    case None
    from folder_none[OF y(2) this] show ?thesis by simp
  next
    case (Some e)
    then obtain d where d: "matches namePattern j" "job_holds x uid c enc valid v j d (A v j)" by (rule folder_sub[OF y(2)])
    from d(2) have "shape uid c enc valid v j d (A v j)" by (auto simp: job_holds_def intro: shape_clean split: if_splits)
    then have "job_records c enc valid v j (A v j)" by cases (auto dest: clean_job)
    with d(1) y(1) show ?thesis by blast
  qed
qed

lemma attempts_records:
  "attempts_hold rt uid x f A \<Longrightarrow> job_records (attempt_codec rt) ordinary_attempt_json (ordinary_attempt_valid rt) v j (A v j)"
  using records_state[of x uid "attempt_codec rt" ordinary_attempt_json "ordinary_attempt_valid rt" f A v j]
  by (auto simp: attempts_hold_def job_records_def numbers_ok_def)

lemma revocations_records:
  "revocations_hold rt uid x f R \<Longrightarrow> job_records (revocation_codec rt) ordinary_revocation_json (ordinary_revocation_valid rt) v j (R v j)"
  using records_state[of x uid "revocation_codec rt" ordinary_revocation_json "ordinary_revocation_valid rt" f R v j]
  by (auto simp: revocations_hold_def job_records_def numbers_ok_def)

section \<open>The check at start-up\<close>

lemma read_attempts:
  assumes "attempts_hold rt uid x fi A"
  obtains as f where "readOrdinaryAttempts rt uid (store_tree fi fr) = (Inr as, store_tree f fr)" "attempts_hold rt uid False f A"
    "distinct as" "set as = all_records A"
proof -
  obtain as f where "readRecords uid (attempt_codec rt) fi = (Inr as, f)" "attempts_hold rt uid False f A" "distinct as" "set as = all_records A"
    using attempts.read_all[of uid rt fi A] attempts_crashed[OF assms] by (auto simp: attempts_hold_def job_holds_def)
  then show thesis using that by (simp add: readOrdinaryAttempts_def in_records_tree)
qed

lemma read_revocations:
  assumes "revocations_hold rt uid x fr R"
  obtains rs f where "readOrdinaryRevocations rt uid (store_tree fi fr) = (Inr rs, store_tree fi f)" "revocations_hold rt uid False f R"
    "distinct rs" "set rs = all_records R"
proof -
  obtain rs f where "readRecords uid (revocation_codec rt) fr = (Inr rs, f)" "revocations_hold rt uid False f R" "distinct rs" "set rs = all_records R"
    using revocations.read_all[of uid rt fr R] revocations_crashed[OF assms] by (auto simp: revocations_hold_def job_holds_def)
  then show thesis using that by (simp add: readOrdinaryRevocations_def in_records_tree)
qed

lemma attempt_identity:
  assumes "attempts_hold rt uid x fi A" "a \<in> set (A v j)"
  shows "oa_reviewId a = v" "od_jobName (oa_descriptor a) = j" "0 < oa_attempt a"
  using attempts_records[OF assms(1), of v j] assms(2)
  by (auto simp: job_records_def attempt_codec_def record_number_def numbers_ok_def)

lemma revocation_fields:
  assumes "revocations_hold rt uid x fr R" "r \<in> set (R v j)"
  shows "ov_reviewId r = v" "ov_jobName r = j" "0 < ov_attempt r"
  using revocations_records[OF assms(1), of v j] assms(2)
  by (auto simp: job_records_def revocation_codec_def record_number_def numbers_ok_def)

lemma job_number_unique:
  assumes "job_records c enc valid v j rs" "r \<in> set rs" "s \<in> set rs" "snd (snd (rc_identity c r)) = snd (snd (rc_identity c s))"
  shows "r = s"
proof -
  have "distinct (map (record_number c) rs)" using assms(1) by (auto simp: job_records_def numbers_ok_def strict_sorted_iff)
  then show ?thesis by (rule unique_by_eq[OF _ assms(2,3)]) (simp add: record_number_def assms(4))
qed

lemma attempt_unique:
  assumes "attempts_hold rt uid x fi A" "a \<in> all_records A" "b \<in> all_records A" "oa_reviewId a = oa_reviewId b"
    "od_jobName (oa_descriptor a) = od_jobName (oa_descriptor b)" "oa_attempt a = oa_attempt b"
  shows "a = b"
proof -
  obtain v j v' j' where p: "a \<in> set (A v j)" "b \<in> set (A v' j')" using assms(2,3) by (auto simp: all_records_def)
  have "v' = v" "j' = j" using attempt_identity[OF assms(1) p(1)] attempt_identity[OF assms(1) p(2)] assms(4,5) by simp_all
  with p job_number_unique[OF attempts_records[OF assms(1)]] assms(6) show ?thesis by (simp add: attempt_codec_def)
qed

lemma revocation_unique:
  assumes "consistent A R" "attempts_hold rt uid x fi A" "revocations_hold rt uid x fr R"
  shows "inj_on ov_revocationRequestId (all_records R)"
proof (rule inj_onI)
  fix r s
  assume rs: "r \<in> all_records R" "s \<in> all_records R" "ov_revocationRequestId r = ov_revocationRequestId s"
  obtain v j v' j' where p: "r \<in> set (R v j)" "s \<in> set (R v' j')" using rs(1,2) by (auto simp: all_records_def)
  obtain a b where a: "a \<in> set (A v j)" "revocationMatches r a" "b \<in> set (A v' j')" "revocationMatches s b"
    using assms(1) p unfolding consistent_def by blast
  have "ov_attemptId r = ov_attemptId s" using assms(1) p rs(3) unfolding consistent_def by metis
  then have "oa_attemptId a = oa_attemptId b" using a(2,4) by (simp add: revocationMatches_def)
  moreover have "a \<in> all_records A" "b \<in> all_records A" using a(1,3) by (auto simp: all_records_def)
  ultimately have "a = b" using assms(1) by (auto simp: consistent_def dest: inj_onD)
  then have "v' = v" "j' = j" using attempt_identity[OF assms(2) a(1)] attempt_identity[OF assms(2) a(3)] by simp_all
  with p a \<open>a = b\<close> job_number_unique[OF revocations_records[OF assms(3)], of r v j s] show "r = s"
    by (simp add: revocationMatches_def revocation_codec_def)
qed

lemma records_consistent_ok:
  assumes "consistent A R" "attempts_hold rt uid x fi A" "revocations_hold rt uid x fr R"
    and as: "distinct as" "set as = all_records A" and rs: "distinct rs" "set rs = all_records R"
  shows "records_consistent as rs = Inr ()"
proof -
  have f: "\<exists>a. find_row (\<lambda>a. oa_reviewId a = ov_reviewId r \<and> od_jobName (oa_descriptor a) = ov_jobName r \<and> oa_attempt a = ov_attempt r) as = Some a
      \<and> revocationMatches r a" if r: "r \<in> set rs" for r
  proof -
    obtain v j where p: "r \<in> set (R v j)" using r rs(2) by (auto simp: all_records_def)
    obtain b where b: "b \<in> set (A v j)" "revocationMatches r b" using assms(1) p unfolding consistent_def by blast
    then have i: "b \<in> set as" using as(2) by (auto simp: all_records_def)
    have m: "oa_reviewId b = ov_reviewId r \<and> od_jobName (oa_descriptor b) = ov_jobName r \<and> oa_attempt b = ov_attempt r"
      using b(2) by (simp add: revocationMatches_def)
    obtain a where a: "find_row (\<lambda>a. oa_reviewId a = ov_reviewId r \<and> od_jobName (oa_descriptor a) = ov_jobName r \<and> oa_attempt a = ov_attempt r) as = Some a"
      using find_row_None[THEN iffD1, rule_format, OF _ i] m by (metis (mono_tags, lifting) not_None_eq)
    have "a = b" using find_row_Some[OF a] i as(2) b(2) by (intro attempt_unique[OF assms(2)]) (auto simp: revocationMatches_def)
    with a b(2) show ?thesis by simp
  qed
  have "list_all (\<lambda>r. case find_row (\<lambda>a. oa_reviewId a = ov_reviewId r \<and> od_jobName (oa_descriptor a) = ov_jobName r
      \<and> oa_attempt a = ov_attempt r) as of None \<Rightarrow> False | Some a \<Rightarrow> revocationMatches r a) rs"
    unfolding list_all_iff using f by fastforce
  then show ?thesis using assms(1) revocation_unique[OF assms(1,2,3)] as rs
    by (simp add: records_consistent_def distinct_map consistent_def)
qed

lemma start_holds:
  assumes "store_holds rt uid x s A R"
  obtains t where "assertAuthoritativeOrdinaryAttemptStore rt uid s = (Inr (), t)" "store_holds rt uid False t A R"
proof (cases s)
  case None
  with assms that[of None] show thesis
    by (auto simp: assertAuthoritativeOrdinaryAttemptStore_def assertOrdinaryAttemptStoreLayout_def store_holds_def store_tree_def)
next
  case (Some root)
  then obtain fi fr where s: "s = store_tree fi fr" "consistent A R" "attempts_hold rt uid x fi A" "revocations_hold rt uid x fr R"
    using assms by (auto simp: store_holds_def)
  obtain as f where as: "readOrdinaryAttempts rt uid s = (Inr as, store_tree f fr)" "attempts_hold rt uid False f A"
    "distinct as" "set as = all_records A" unfolding s(1) by (rule read_attempts[OF s(3)])
  obtain rs f' where rs: "readOrdinaryRevocations rt uid (store_tree f fr) = (Inr rs, store_tree f f')" "revocations_hold rt uid False f' R"
    "distinct rs" "set rs = all_records R" by (rule read_revocations[OF s(4)])
  have "assertAuthoritativeOrdinaryAttemptStore rt uid s = (Inr (), store_tree f f')"
    using as(1) rs(1) records_consistent_ok[OF s(2,3,4) as(3,4) rs(3,4)]
    by (simp add: assertAuthoritativeOrdinaryAttemptStore_def s(1) layout_tree)
  moreover have "store_holds rt uid False (store_tree f f') A R" using s(2) as(2) rs(2) by (auto simp: store_holds_def)
  ultimately show thesis by (rule that)
qed

section \<open>The records of one job\<close>

lemma find_job_hold:
  assumes "records_hold (clean uid c enc valid) f A"
  obtains "A v j = []" "find_job uid f v j = Inr None" "sub f v = None \<or> (\<exists>y. sub f v = Some (Dir y) \<and> sub y j = None)"
  | y d where "find_job uid f v j = Inr (Some d)" "clean uid c enc valid v j d (A v j)" "sub f v = Some (Dir y)" "sub y j = Some (Dir d)"
    "fo_private y"
proof (cases "sub f v")
  case None
  with that(1) folder_none[OF assms[unfolded records_hold_def] this] show thesis by (simp add: find_job_def)
next
  case (Some e)
  obtain y where y: "e = Dir y" "folder_ok (matches namePattern) (clean uid c enc valid v) [] y (A v)"
    by (rule folder_sub[OF assms[unfolded records_hold_def] Some])
  show thesis
  proof (cases "sub y j")
    case None
    with that(1) folder_none[OF y(2) this] Some y(1) show thesis by (simp add: find_job_def)
  next
    case (Some e')
    then obtain d where "e' = Dir d" "clean uid c enc valid v j d (A v j)" by (rule folder_sub[OF y(2)])
    with that(2) Some \<open>sub f v = Some e\<close> y show thesis by (simp add: find_job_def folder_ok_def clean_private)
  qed
qed

lemma contiguous_numbers: "job_records c enc valid v j rs \<Longrightarrow> rc_contiguous c \<Longrightarrow> map (record_number c) rs = [1..<length rs + 1]"
  by (auto simp: job_records_def numbers_ok_def)

lemma clean_regular:
  assumes "clean uid c enc valid v j d rs" "e \<in> set (ad_entries d)"
  shows "in_regular (ad_inodes d (snd e))"
proof -
  have "ad_inodes d (snd e) \<in> set (map (\<lambda>r. holds_text uid (record_text enc r)) rs)"
    using assms unfolding clean_def by (metis (no_types, lifting) image_eqI set_map)
  then show ?thesis by (auto simp: holds_text_def)
qed

context record_kind begin

lemma clean_files:
  assumes "clean uid c enc valid v j d rs" "rc_contiguous c"
  shows "sort_key file_number (map fst (ad_entries d)) = map file_name [1..<length rs + 1]" "length (ad_entries d) = length rs"
    "mapR (\<lambda>n. read_record uid c v j d (file_name n) (int n)) [1..<length rs + 1] = Inr rs"
proof -
  have n: "map (record_number c) rs = [1..<length rs + 1]" by (rule contiguous_numbers[OF clean_job[OF assms(1)] assms(2)])
  show "sort_key file_number (map fst (ad_entries d)) = map file_name [1..<length rs + 1]"
    unfolding clean_sorted[OF assms(1)] n[symmetric] by simp
  show "length (ad_entries d) = length rs" using assms(1) unfolding clean_def by (metis length_map)
  show "mapR (\<lambda>n. read_record uid c v j d (file_name n) (int n)) [1..<length rs + 1] = Inr rs"
    unfolding n[symmetric] mapR_eq_Inr list_all2_map1 using read_clean[OF assms(1)] by (simp add: list.rel_refl_strong)
qed

end

definition selector_ok :: "string \<Rightarrow> string \<Rightarrow> bool" where
  "selector_ok v j \<longleftrightarrow> matches hex64Pattern v \<and> matches namePattern j"

lemma selected_hold:
  assumes "attempts_hold rt uid False fi A" "fo_private fr" "selector_ok v j"
  obtains "A v j = []" "selectedOrdinaryAttemptFiles uid (store_tree fi fr) v j = Inr None"
  | d where "selectedOrdinaryAttemptFiles uid (store_tree fi fr) v j = Inr (Some (d, [1..<length (A v j) + 1], fr))"
    "clean uid (attempt_codec rt) ordinary_attempt_json (ordinary_attempt_valid rt) v j d (A v j)"
proof -
  have h: "records_hold (clean uid (attempt_codec rt) ordinary_attempt_json (ordinary_attempt_valid rt)) fi A"
    using assms(1) by (simp add: attempts_hold_def job_holds_def)
  have r: "records_of \<lparr>fo_private = True, fo_entries = [(''issuances'', Dir fi), (''revocations'', Dir fr)]\<rparr> ''issuances'' = Inr fi"
    "records_of \<lparr>fo_private = True, fo_entries = [(''issuances'', Dir fi), (''revocations'', Dir fr)]\<rparr> ''revocations'' = Inr fr"
    using attempts_private[OF assms(1)] assms(2) by (simp_all add: records_of_def sub_def)
  show thesis
  proof (rule find_job_hold[OF h, of v j])
    assume "A v j = []" "find_job uid fi v j = Inr None"
    then show thesis using that(1) assms(3) by (simp add: selectedOrdinaryAttemptFiles_def layout_tree r selector_ok_def)
  next
    fix y d assume f: "find_job uid fi v j = Inr (Some d)"
      and d: "clean uid (attempt_codec rt) ordinary_attempt_json (ordinary_attempt_valid rt) v j d (A v j)"
    have c: "rc_contiguous (attempt_codec rt)" by (simp add: attempt_codec_def)
    have l: "length (A v j) \<le> maximumOrdinaryAttemptsPerJob" using clean_job[OF d] by (simp add: job_records_def)
    show thesis using that(2)[OF _ d] assms(3) attempts.clean_files(1,2)[OF d c] clean_regular[OF d] l
      by (simp add: selectedOrdinaryAttemptFiles_def layout_tree r f selector_ok_def list_all_iff Let_def del: upt_Suc)
  qed
qed

lemma read_for_job:
  assumes "attempts_hold rt uid False fi A" "fo_private fr" "selector_ok v j"
  shows "readOrdinaryAttemptsForJob rt uid (store_tree fi fr) v j = Inr (A v j)"
proof (rule selected_hold[OF assms])
  fix d
  assume "selectedOrdinaryAttemptFiles uid (store_tree fi fr) v j = Inr (Some (d, [1..<length (A v j) + 1], fr))"
    and d: "clean uid (attempt_codec rt) ordinary_attempt_json (ordinary_attempt_valid rt) v j d (A v j)"
  moreover have "rc_contiguous (attempt_codec rt)" by (simp add: attempt_codec_def)
  ultimately show ?thesis using attempts.clean_files(3)[OF d] by (simp add: readOrdinaryAttemptsForJob_def del: upt_Suc)
qed (simp add: readOrdinaryAttemptsForJob_def)

lemma selector_error: "\<not> selector_ok v j \<Longrightarrow> selectedOrdinaryAttemptFiles uid s v j = Inl SelectorInvalid"
  by (simp add: selectedOrdinaryAttemptFiles_def selector_ok_def)

lemma clean_file_found:
  assumes "clean uid c enc valid v j d rs"
  shows "map_of (ad_entries d) (file_name n) = None \<longleftrightarrow> (\<forall>r\<in>set rs. record_number c r \<noteq> n)"
proof -
  have "fst ` set (ad_entries d) = (\<lambda>r. file_name (record_number c r)) ` set rs" using assms by (metis clean_def set_map)
  then show ?thesis by (auto simp: map_of_eq_None_iff)
qed

lemma read_revocation_hold:
  assumes "revocations_hold rt uid False fr R"
  shows "read_revocation rt uid fr v j n = Inr (find_row (\<lambda>r. record_number (revocation_codec rt) r = n) (R v j))"
proof -
  have h: "records_hold (clean uid (revocation_codec rt) ordinary_revocation_json (ordinary_revocation_valid rt)) fr R"
    using assms by (simp add: revocations_hold_def job_holds_def)
  show ?thesis
  proof (rule find_job_hold[OF h, of v j])
    assume "R v j = []" "sub fr v = None \<or> (\<exists>y. sub fr v = Some (Dir y) \<and> sub y j = None)"
    then show ?thesis by (auto simp: read_revocation_def)
  next
    fix y d
    assume f: "sub fr v = Some (Dir y)" "sub y j = Some (Dir d)" "fo_private y"
      and d: "clean uid (revocation_codec rt) ordinary_revocation_json (ordinary_revocation_valid rt) v j d (R v j)"
    show ?thesis
    proof (cases "find_row (\<lambda>r. record_number (revocation_codec rt) r = n) (R v j)")
      case None
      then have "map_of (ad_entries d) (file_name n) = None" using clean_file_found[OF d, of n] by (simp add: find_row_None)
      with None show ?thesis using f by (simp add: read_revocation_def)
    next
      case (Some r)
      then have r: "r \<in> set (R v j)" "record_number (revocation_codec rt) r = n" using find_row_Some by fast+
      then obtain i where "map_of (ad_entries d) (file_name n) = Some i" using clean_file_found[OF d, of n] by auto
      then show ?thesis using f revocations.read_clean[OF d r(1)] r(2) Some clean_private[OF d] by (simp add: read_revocation_def)
    qed
  qed
qed

lemma last_number:
  assumes "job_records c enc valid v j rs" "rc_contiguous c" "rs \<noteq> []"
  shows "record_number c (last rs) = length rs"
proof -
  have "record_number c (last rs) = last (map (record_number c) rs)" using assms(3) by (simp add: last_map)
  also have "\<dots> = length rs" unfolding contiguous_numbers[OF assms(1,2)] using assms(3) by (cases rs) simp_all
  finally show ?thesis .
qed

text \<open>What the store answers for a job: its last attempt with the revocation of that attempt.\<close>

definition current_of :: "attempts_by_job \<Rightarrow> revocations_by_job \<Rightarrow> string \<Rightarrow> string \<Rightarrow> CurrentOrdinaryAttempt option" where
  "current_of A R v j = (if A v j = [] then None else Some \<lparr>co_attempt = last (A v j),
     co_revocation = find_row (\<lambda>r. revocationMatches r (last (A v j))) (R v j)\<rparr>)"

lemma find_row_cong: "(\<And>r. r \<in> set rs \<Longrightarrow> P r = Q r) \<Longrightarrow> find_row P rs = find_row Q rs"
  by (induction rs) auto

lemma attempt_number: "attempts_hold rt uid x fi A \<Longrightarrow> a \<in> set (A v j) \<Longrightarrow> int (record_number (attempt_codec rt) a) = oa_attempt a"
  using attempt_identity(3) by (fastforce simp: record_number_def attempt_codec_def)

lemma revocation_number: "revocations_hold rt uid x fr R \<Longrightarrow> r \<in> set (R v j) \<Longrightarrow> int (record_number (revocation_codec rt) r) = ov_attempt r"
  using revocation_fields(3) by (fastforce simp: record_number_def revocation_codec_def)

lemma revocation_of_attempt:
  assumes "consistent A R" "attempts_hold rt uid x fi A" "revocations_hold rt uid y fr R" "a \<in> set (A v j)" "r \<in> set (R v j)"
  shows "record_number (revocation_codec rt) r = record_number (attempt_codec rt) a \<longleftrightarrow> revocationMatches r a"
proof
  assume e: "record_number (revocation_codec rt) r = record_number (attempt_codec rt) a"
  obtain b where b: "b \<in> set (A v j)" "revocationMatches r b" using assms(1,5) unfolding consistent_def by blast
  have "oa_attempt b = oa_attempt a" using e b(2) attempt_number[OF assms(2,4)] revocation_number[OF assms(3,5)]
    by (simp add: revocationMatches_def)
  then have "b = a" using job_number_unique[OF attempts_records[OF assms(2)] b(1) assms(4)] by (simp add: attempt_codec_def)
  with b(2) show "revocationMatches r a" by simp
qed (simp add: record_number_def revocationMatches_def attempt_codec_def revocation_codec_def)

lemma current_tree:
  assumes "consistent A R" "attempts_hold rt uid False fi A" "revocations_hold rt uid False fr R" "selector_ok v j"
  shows "ordinary_current rt uid (store_tree fi fr) v j = Inr (current_of A R v j)"
proof (rule selected_hold[OF assms(2) revocations_private[OF assms(3)] assms(4)])
  fix d
  assume s: "selectedOrdinaryAttemptFiles uid (store_tree fi fr) v j = Inr (Some (d, [1..<length (A v j) + 1], fr))"
    and d: "clean uid (attempt_codec rt) ordinary_attempt_json (ordinary_attempt_valid rt) v j d (A v j)"
  show ?thesis
  proof (cases "A v j = []")
    case True
    with s show ?thesis by (simp add: ordinary_current_def readCurrentOrdinaryAttempt_def current_of_def)
  next
    case False
    have n: "record_number (attempt_codec rt) (last (A v j)) = length (A v j)"
      by (rule last_number[OF clean_job[OF d] _ False]) (simp add: attempt_codec_def)
    have u: "[1..<length (A v j) + 1] \<noteq> []" "last [1..<length (A v j) + 1] = length (A v j)" using False by (cases "A v j"; simp)+
    have l: "last (A v j) \<in> set (A v j)" using False by simp
    have r: "read_revocation rt uid fr v j (length (A v j)) = Inr (find_row (\<lambda>r. revocationMatches r (last (A v j))) (R v j))"
      unfolding read_revocation_hold[OF assms(3)] n[symmetric]
      using revocation_of_attempt[OF assms(1,2,3) l] by (simp cong: find_row_cong)
    have "readCurrentOrdinaryAttempt rt uid (store_tree fi fr) v j = Inr (current_of A R v j)"
      using s u r attempts.read_clean[OF d l] False
      by (simp add: readCurrentOrdinaryAttempt_def current_of_def n Let_def del: upt_Suc)
    then show ?thesis using False
      by (auto simp: ordinary_current_def current_of_def dest: find_row_Some split: option.split)
  qed
qed (simp add: ordinary_current_def readCurrentOrdinaryAttempt_def current_of_def)

end
