(* ===== verification/Ordinary_Operations.thy ===== *)
theory Ordinary_Operations
  imports Ordinary_Store
begin

text \<open>
  The operations of the store of ordinary attempts on its records: making the folders, issuing and revoking. Every call of the file system
  is followed, so that each lemma says what the store holds wherever the operation is interrupted: the records from before,
  the ones with the new record, or, while the folders are made for the first time, none at all.
\<close>

section \<open>Making the folders\<close>

text \<open>The trees between the calls that make the folders of the store.\<close>

definition half_made :: "ordinary_store \<Rightarrow> bool" where
  "half_made s \<longleftrightarrow> s = Some new_folder \<or> s = Some (put_dir kind_name new_folder new_folder)
     \<or> s = Some (put_dir kind_name (put_dir ''issuances'' new_folder new_folder) new_folder)"

definition no_records :: "'a by_job" where
  "no_records = (\<lambda>_ _. [])"

lemma make_root_tree: "make_root (store_tree fi fr) = (Inr (), store_tree fi fr)"
  by (simp add: make_root_def store_tree_def)

lemma make_kind_tree: "make_kind (store_tree fi fr) = (Inr (), store_tree fi fr)"
  by (simp add: make_kind_def store_tree_def ensure_dir_def sub_def)

lemma make_records_tree:
  assumes "fo_private fi" "fo_private fr"
  shows "in_kind (ensure_dir new_folder fo_private ''issuances'') (store_tree fi fr) = (Inr (), store_tree fi fr)"
    "in_kind (ensure_dir new_folder fo_private ''revocations'') (store_tree fi fr) = (Inr (), store_tree fi fr)"
  using assms by (simp_all add: in_kind_def at_dir_def store_tree_def ensure_dir_def sub_def put_dir_def)

lemma init_tree:
  "fo_private fi \<Longrightarrow> fo_private fr \<Longrightarrow> run_steps initializeOrdinaryAttemptStore (store_tree fi fr) = (Inr (), replicate 5 (store_tree fi fr))"
  by (simp add: initializeOrdinaryAttemptStore_def make_root_tree make_kind_tree make_records_tree eval_nat_numeral)

lemma init_none: "run_steps initializeOrdinaryAttemptStore None = (Inr (), [None, Some new_folder, Some (put_dir kind_name new_folder new_folder),
    Some (put_dir kind_name (put_dir ''issuances'' new_folder new_folder) new_folder), store_tree new_folder new_folder])"
  by (simp add: initializeOrdinaryAttemptStore_def make_root_def make_kind_def in_kind_def at_dir_def ensure_dir_def sub_def
      put_dir_def new_folder_def store_tree_def)

lemma init_holds:
  assumes "store_holds rt uid False s A R"
  obtains ts fi fr where "run_steps initializeOrdinaryAttemptStore s = (Inr (), ts)" "ts \<noteq> []" "last ts = store_tree fi fr"
    "attempts_hold rt uid False fi A" "revocations_hold rt uid False fr R"
    "\<forall>t\<in>set ts. store_holds rt uid False t A R \<or> half_made t \<and> A = no_records \<and> R = no_records"
    "s = store_tree fi fr \<or> fi = new_folder \<and> fr = new_folder"
proof (cases s)
  case None
  with assms have e: "A = no_records" "R = no_records" by (auto simp: store_holds_def store_tree_def no_records_def)
  have n: "store_holds rt uid False None A R" "store_holds rt uid False (store_tree new_folder new_folder) A R"
    using store_new[of rt uid False] assms None by (simp_all add: e no_records_def)
  from n(2) have h: "attempts_hold rt uid False new_folder A" "revocations_hold rt uid False new_folder R"
    by (auto simp: store_holds_def store_tree_def)
  show thesis by (rule that[OF init_none[folded None] _ _ h]) (use n e None in \<open>auto simp: half_made_def\<close>)
next
  case (Some root)
  then obtain fi fr where s: "s = store_tree fi fr" "attempts_hold rt uid False fi A" "revocations_hold rt uid False fr R"
    using assms by (auto simp: store_holds_def)
  show thesis by (rule that[OF init_tree[OF attempts_private[OF s(2)] revocations_private[OF s(3)], folded s(1)] _ _ s(2,3)])
    (use assms s(1) in \<open>auto simp: eval_nat_numeral\<close>)
qed

section \<open>Writing a record of the store\<close>

definition fresh_for :: "write_draw \<Rightarrow> string \<Rightarrow> string \<Rightarrow> string \<Rightarrow> ordinary_store \<Rightarrow> bool" where
  "fresh_for w k v j s \<longleftrightarrow> matches uuidPattern (wd_identity w) \<and> (case s of None \<Rightarrow> True
     | Some root \<Rightarrow> (case sub root kind_name of Some (Dir kind) \<Rightarrow>
         (case sub kind k of Some (Dir f) \<Rightarrow> fresh_inode (wd_inode w) v j f | _ \<Rightarrow> True) | _ \<Rightarrow> True))"

lemma fresh_tree:
  "fresh_for w ''issuances'' v j (store_tree fi fr) \<longleftrightarrow> matches uuidPattern (wd_identity w) \<and> fresh_inode (wd_inode w) v j fi"
  "fresh_for w ''revocations'' v j (store_tree fi fr) \<longleftrightarrow> matches uuidPattern (wd_identity w) \<and> fresh_inode (wd_inode w) v j fr"
  by (simp_all add: fresh_for_def store_tree_def sub_def)

text \<open>Trees of a call that takes the records \<open>A\<close>, \<open>R\<close> to \<open>A'\<close>, \<open>R'\<close>.\<close>

definition passes ::
  "project_runtime \<Rightarrow> nat \<Rightarrow> ordinary_store list \<Rightarrow> attempts_by_job \<Rightarrow> revocations_by_job \<Rightarrow> attempts_by_job \<Rightarrow> revocations_by_job \<Rightarrow> bool" where
  "passes rt uid ts A R A' R' \<longleftrightarrow> ts \<noteq> [] \<and> store_holds rt uid False (last ts) A' R'
     \<and> (\<forall>t\<in>set ts. store_holds rt uid True t A R \<or> store_holds rt uid True t A' R' \<or> half_made t \<and> A = no_records \<and> R = no_records)"

lemma passes_append: "passes rt uid ts A R A R \<Longrightarrow> passes rt uid us A R A' R' \<Longrightarrow> passes rt uid (ts @ us) A R A' R'"
  unfolding passes_def by auto

lemma init_passes:
  assumes "store_holds rt uid False s A R"
  obtains ts fi fr where "run_steps initializeOrdinaryAttemptStore s = (Inr (), ts)" "last ts = store_tree fi fr"
    "attempts_hold rt uid False fi A" "revocations_hold rt uid False fr R" "passes rt uid ts A R A R"
    "s = store_tree fi fr \<or> fi = new_folder \<and> fr = new_folder"
proof -
  obtain ts fi fr where ts: "run_steps initializeOrdinaryAttemptStore s = (Inr (), ts)" "ts \<noteq> []" "last ts = store_tree fi fr"
    "attempts_hold rt uid False fi A" "revocations_hold rt uid False fr R"
    "\<forall>t\<in>set ts. store_holds rt uid False t A R \<or> half_made t \<and> A = no_records \<and> R = no_records"
    "s = store_tree fi fr \<or> fi = new_folder \<and> fr = new_folder"
    by (rule init_holds[OF assms])
  have "store_holds rt uid False (last ts) A R" using ts(3-5) assms by (auto simp: store_holds_def)
  then have "passes rt uid ts A R A R" unfolding passes_def using ts(2,6) store_crashed by blast
  with ts show thesis using that by blast
qed

lemma write_issuance:
  assumes "attempts_hold rt uid False fi A" "revocations_hold rt uid False fr R" "selector_ok v j" "consistent A R"
    and r: "job_records (attempt_codec rt) ordinary_attempt_json (ordinary_attempt_valid rt) v j (A v j @ [a])"
      "consistent (add_record v j a A) R"
    and w: "fresh_for w ''issuances'' v j (store_tree fi fr)"
  obtains ts where "run_steps (writeRecord uid w ''issuances'' v j (record_number (attempt_codec rt) a) (ordinary_attempt_json a)) (store_tree fi fr) = (Inr (), ts)"
    "passes rt uid ts A R (add_record v j a A) R"
proof -
  have "writes (folder_calls uid w v j (file_name (record_number (attempt_codec rt) a)) (record_text ordinary_attempt_json a))
      (attempts_hold rt uid True) (attempts_hold rt uid False) fi A (add_record v j a A)"
    using assms(1,3) r(1) w[unfolded fresh_tree] unfolding attempts_hold_def job_holds_def selector_ok_def
    by (auto intro!: folder_calls_write)
  then obtain us where us: "run_steps (folder_calls uid w v j (file_name (record_number (attempt_codec rt) a)) (record_text ordinary_attempt_json a)) fi = (Inr (), us)"
    "\<forall>t\<in>set us. attempts_hold rt uid True t A \<or> attempts_hold rt uid True t (add_record v j a A)" "us \<noteq> []"
    "attempts_hold rt uid False (last us) (add_record v j a A)" by (auto simp: writes_def)
  have "run_steps (writeRecord uid w ''issuances'' v j (record_number (attempt_codec rt) a) (ordinary_attempt_json a)) (store_tree fi fr)
      = (Inr (), map (\<lambda>f. store_tree f fr) us)"
    unfolding writeRecord_calls
    by (subst run_steps_inside[where e = "\<lambda>f. store_tree f fr"]) (simp_all add: in_records_tree us(1)[unfolded record_text_def])
  then show thesis
    by (rule that) (use us(2-4) assms(2,4) r(2) revocations_crashed[OF assms(2)] in \<open>auto simp: store_holds_def passes_def last_map\<close>)
qed

lemma write_revocation:
  assumes "attempts_hold rt uid False fi A" "revocations_hold rt uid False fr R" "selector_ok v j" "consistent A R"
    and r: "job_records (revocation_codec rt) ordinary_revocation_json (ordinary_revocation_valid rt) v j (R v j @ [r])"
      "consistent A (add_record v j r R)"
    and w: "fresh_for w ''revocations'' v j (store_tree fi fr)"
  obtains ts where "run_steps (writeRecord uid w ''revocations'' v j (record_number (revocation_codec rt) r) (ordinary_revocation_json r)) (store_tree fi fr) = (Inr (), ts)"
    "passes rt uid ts A R A (add_record v j r R)"
proof -
  have "writes (folder_calls uid w v j (file_name (record_number (revocation_codec rt) r)) (record_text ordinary_revocation_json r))
      (revocations_hold rt uid True) (revocations_hold rt uid False) fr R (add_record v j r R)"
    using assms(2,3) r(1) w[unfolded fresh_tree] unfolding revocations_hold_def job_holds_def selector_ok_def
    by (auto intro!: folder_calls_write)
  then obtain us where us: "run_steps (folder_calls uid w v j (file_name (record_number (revocation_codec rt) r)) (record_text ordinary_revocation_json r)) fr = (Inr (), us)"
    "\<forall>t\<in>set us. revocations_hold rt uid True t R \<or> revocations_hold rt uid True t (add_record v j r R)" "us \<noteq> []"
    "revocations_hold rt uid False (last us) (add_record v j r R)" by (auto simp: writes_def)
  have "run_steps (writeRecord uid w ''revocations'' v j (record_number (revocation_codec rt) r) (ordinary_revocation_json r)) (store_tree fi fr)
      = (Inr (), map (store_tree fi) us)"
    unfolding writeRecord_calls
    by (subst run_steps_inside[where e = "store_tree fi"]) (simp_all add: in_records_tree us(1)[unfolded record_text_def])
  then show thesis
    by (rule that) (use us(2-4) assms(1,4) r(2) attempts_crashed[OF assms(1)] in \<open>auto simp: store_holds_def passes_def last_map\<close>)
qed

lemma consistent_attempt:
  assumes "consistent A R" "oa_issuanceRequestId a \<notin> oa_issuanceRequestId ` all_records A" "oa_attemptId a \<notin> oa_attemptId ` all_records A"
  shows "consistent (add_record v j a A) R"
  using assms unfolding consistent_def all_add_record inj_on_insert by (fastforce split: if_splits)

lemma consistent_revocation:
  assumes "consistent A R" "ov_revocationRequestId r = ov_attemptId r" "a \<in> set (A v j)" "revocationMatches r a"
  shows "consistent A (add_record v j r R)"
  using assms unfolding consistent_def by auto

section \<open>Issuing\<close>

text \<open>The attempts and revocations that the files of a store say, as \<open>assertAuthoritativeOrdinaryAttemptStore\<close> reads them.\<close>

definition attempts_on :: "project_runtime \<Rightarrow> nat \<Rightarrow> ordinary_store \<Rightarrow> AuthoritativeOrdinaryAttempt list" where
  "attempts_on rt uid s = (if s = None then [] else case fst (readOrdinaryAttempts rt uid s) of Inr as \<Rightarrow> as | Inl _ \<Rightarrow> [])"

definition revocations_on :: "project_runtime \<Rightarrow> nat \<Rightarrow> ordinary_store \<Rightarrow> AuthoritativeOrdinaryAttemptRevocation list" where
  "revocations_on rt uid s = (if s = None then [] else case fst (readOrdinaryRevocations rt uid s) of Inr rs \<Rightarrow> rs | Inl _ \<Rightarrow> [])"

lemma store_tree_Some [simp]: "store_tree fi fr \<noteq> None" "None \<noteq> store_tree fi fr"
  by (simp_all add: store_tree_def)

lemma attempts_on_hold:
  assumes "store_holds rt uid x s A R"
  shows "set (attempts_on rt uid s) = all_records A"
proof (cases s)
  case None
  with assms show ?thesis by (auto simp: store_holds_def attempts_on_def all_records_def)
next
  case (Some root)
  then obtain fi fr where s: "s = store_tree fi fr" "attempts_hold rt uid x fi A" "revocations_hold rt uid x fr R"
    using assms by (auto simp: store_holds_def)
  show ?thesis by (rule read_attempts[OF s(2), of fr]) (simp add: attempts_on_def s(1))
qed

lemma revocations_on_hold:
  assumes "store_holds rt uid x s A R"
  shows "set (revocations_on rt uid s) = all_records R"
proof (cases s)
  case None
  with assms show ?thesis by (auto simp: store_holds_def revocations_on_def all_records_def)
next
  case (Some root)
  then obtain fi fr where s: "s = store_tree fi fr" "attempts_hold rt uid x fi A" "revocations_hold rt uid x fr R"
    using assms by (auto simp: store_holds_def)
  show ?thesis by (rule read_revocations[OF s(3), of fi]) (simp add: revocations_on_def s(1))
qed

text \<open>What is assumed of the environment of an issuance: the name and the inode of the temporary file are new, so is the
  UUID of the attempt, the identity of the request is not the one of another job, and the file of the record can be read back.\<close>

definition issue_granted ::
  "project_runtime \<Rightarrow> nat \<Rightarrow> write_draw \<Rightarrow> ordinary_issue \<Rightarrow> string \<Rightarrow> string \<Rightarrow> ordinary_store \<Rightarrow> bool" where
  "issue_granted rt uid w input attemptId now s \<longleftrightarrow>
     (let v = ox_reviewId (oi_execution input); j = od_jobName (ox_descriptor (oi_execution input)) in
      ordinary_descriptor_valid (ox_descriptor (oi_execution input)) \<and> fresh_for w ''issuances'' v j s
      \<and> list_all (\<lambda>a. oa_attemptId a \<noteq> attemptId \<and> (oa_issuanceRequestId a = oi_issuanceRequestId input \<longrightarrow>
          oa_reviewId a = v \<and> od_jobName (oa_descriptor a) = j)) (attempts_on rt uid s)
      \<and> length (record_text ordinary_attempt_json (next_ordinary input attemptId now (length (filter
          (\<lambda>a. oa_reviewId a = v \<and> od_jobName (oa_descriptor a) = j) (attempts_on rt uid s)) + 1))) \<le> maximumRecordBytes)"

lemma attempts_on_distinct:
  assumes "store_holds rt uid x s A R"
  shows "distinct (attempts_on rt uid s)"
proof (cases s)
  case None
  then show ?thesis by (simp add: attempts_on_def)
next
  case (Some root)
  then obtain fi fr where s: "s = store_tree fi fr" "attempts_hold rt uid x fi A"
    using assms by (auto simp: store_holds_def)
  show ?thesis by (rule read_attempts[OF s(2), of fr]) (simp add: attempts_on_def s(1))
qed

lemma attempts_on_job:
  assumes "store_holds rt uid x s A R"
  shows "length (filter (\<lambda>a. oa_reviewId a = v \<and> od_jobName (oa_descriptor a) = j) (attempts_on rt uid s)) = length (A v j)"
proof (cases s)
  case None
  with assms show ?thesis by (auto simp: store_holds_def attempts_on_def)
next
  case (Some root)
  then obtain fi where h: "attempts_hold rt uid x fi A" using assms by (auto simp: store_holds_def)
  let ?l = "filter (\<lambda>a. oa_reviewId a = v \<and> od_jobName (oa_descriptor a) = j) (attempts_on rt uid s)"
  have e: "set ?l = set (A v j)"
    using attempt_identity(1,2)[OF h] attempts_on_hold[OF assms] by (auto simp: all_records_def)
  have d: "distinct (A v j)" by (rule job_records_distinct[OF attempts_records[OF h]])
  have l: "distinct ?l" using attempts_on_distinct[OF assms] by simp
  show ?thesis unfolding distinct_card[OF l, symmetric] distinct_card[OF d, symmetric] e by (rule refl)
qed

lemma attempt_schema_next:
  assumes "ordinary_descriptor_valid (oa_descriptor a)" "authoritativeOrdinaryAttemptSchema rt (ordinary_attempt_json a) = Some b"
  shows "b = a"
  using assms unfolding authoritativeOrdinaryAttemptSchema_def Let_def opt_conv
  by (cases a) (auto simp: ordinary_attempt_json_def ordinary_descriptor_schema_json)

lemma revocation_schema_same:
  assumes "authoritativeOrdinaryAttemptRevocationSchema rt (ordinary_revocation_json r) = Some b"
  shows "b = r"
  using assms unfolding authoritativeOrdinaryAttemptRevocationSchema_def Let_def opt_conv
  by (cases r) (auto simp: ordinary_revocation_json_def)

lemma snoc_attempt:
  assumes "attempts_hold rt uid x fi A" "ordinary_attempt_valid rt a" "oa_reviewId a = v" "od_jobName (oa_descriptor a) = j"
    "oa_attempt a = int (length (A v j) + 1)" "length (A v j) < maximumOrdinaryAttemptsPerJob"
    "length (record_text ordinary_attempt_json a) \<le> maximumRecordBytes"
  shows "job_records (attempt_codec rt) ordinary_attempt_json (ordinary_attempt_valid rt) v j (A v j @ [a])"
proof -
  have j: "job_records (attempt_codec rt) ordinary_attempt_json (ordinary_attempt_valid rt) v j (A v j)" by (rule attempts_records[OF assms(1)])
  have c: "rc_contiguous (attempt_codec rt)" by (simp add: attempt_codec_def)
  have n: "map (record_number (attempt_codec rt)) (A v j @ [a]) = [1..<length (A v j @ [a]) + 1]"
    using contiguous_numbers[OF j c] assms(5) by (simp add: record_number_def attempt_codec_def)
  have "safe_integer (int k)" if "k \<in> set [1..<length (A v j @ [a]) + 1]" for k
  proof -
    have "k \<le> 256" using that assms(6) by (simp add: maximumOrdinaryAttemptsPerJob_def less_Suc_eq_le del: upt_Suc)
    then show ?thesis by (simp add: safe_integer_def)
  qed
  then have "numbers_ok True (map (record_number (attempt_codec rt)) (A v j @ [a]))"
    unfolding n numbers_ok_def list_all_iff by (simp add: sorted_wrt_upt del: upt_Suc)
  with j assms show ?thesis by (auto simp: job_records_def attempt_codec_def record_number_def)
qed

lemma fresh_initialized:
  assumes "fresh_for w k v j s" "s = store_tree fi fr \<or> fi = new_folder \<and> fr = new_folder" "k = ''issuances'' \<or> k = ''revocations''"
  shows "fresh_for w k v j (store_tree fi fr)"
proof -
  have "fresh_inode i v j new_folder" for i by (simp add: fresh_inode_def sub_def new_folder_def)
  moreover have "matches uuidPattern (wd_identity w)" using assms(1) by (simp add: fresh_for_def)
  ultimately show ?thesis using assms fresh_tree[of w v j fi fr] by blast
qed

lemma passes_kept: "passes rt uid ts A R A R \<Longrightarrow> store_holds rt uid False (last ts) A R"
  by (simp add: passes_def)

lemma in_all_records: "r \<in> set (A v j) \<Longrightarrow> r \<in> all_records A"
  by (auto simp: all_records_def)

text \<open>An issuance returns the current attempt of the job for a repeated request, fails and changes nothing, or adds the next attempt.\<close>

lemma replayed_current:
  assumes "consistent A R" "attempts_hold rt uid False fi A" "revocations_hold rt uid False fr R" "selector_ok v j" "prior \<in> set (A v j)"
    "replayed rt uid (store_tree fi fr) input prior = Inr a"
  shows "a = prior" "last (A v j) = a" "find_row (\<lambda>r. revocationMatches r a) (R v j) = None" "issueMatches a input"
proof -
  have i: "oa_reviewId prior = v" "od_jobName (oa_descriptor prior) = j" using attempt_identity[OF assms(2,5)] by simp_all
  have c: "find_row (\<lambda>r. revocationMatches r (last (A v j))) (R v j) = None" "oa_attemptId (last (A v j)) = oa_attemptId prior" "a = prior"
    "issueMatches prior input"
    using assms(5,6) by (auto simp: replayed_def i current_tree[OF assms(1-4)] current_of_def split: if_splits)
  have "A v j \<noteq> []" using assms(5) by auto
  then have "inj_on oa_attemptId (all_records A)" "last (A v j) \<in> all_records A" "prior \<in> all_records A"
    using assms(1) in_all_records[of prior A v j] in_all_records[of "last (A v j)" A v j] assms(5) by (simp_all add: consistent_def)
  then have "last (A v j) = prior" using c(2) by (blast dest: inj_onD)
  with c show "a = prior" "last (A v j) = a" "find_row (\<lambda>r. revocationMatches r a) (R v j) = None" "issueMatches a input" by simp_all
qed

lemma issue_tree:
  assumes "consistent A R" "attempts_hold rt uid False fi A" "revocations_hold rt uid False fr R"
    and v: "v = ox_reviewId (oi_execution input)" and j: "j = od_jobName (ox_descriptor (oi_execution input))"
    and d: "ordinary_descriptor_valid (ox_descriptor (oi_execution input))"
  obtains e where "issue_ordinary rt uid input attemptId now (store_tree fi fr) = Inl e"
  | a where "issue_ordinary rt uid input attemptId now (store_tree fi fr) = Inr (Inl a)" "A v j \<noteq> []" "a = last (A v j)"
    "find_row (\<lambda>r. revocationMatches r a) (R v j) = None" "issueMatches a input" "oa_issuanceRequestId a = oi_issuanceRequestId input"
  | a where "issue_ordinary rt uid input attemptId now (store_tree fi fr) = Inr (Inr a)" "a = next_ordinary input attemptId now (length (A v j) + 1)"
    "length (A v j) < maximumOrdinaryAttemptsPerJob" "ordinary_attempt_valid rt a" "selector_ok v j"
    "oi_issuanceRequestId input \<notin> oa_issuanceRequestId ` set (A v j)"
proof (cases "issue_ordinary rt uid input attemptId now (store_tree fi fr)")
  case (Inr r)
  have s: "selector_ok v j"
  proof (rule ccontr)
    assume "\<not> selector_ok v j"
    then have "issue_ordinary rt uid input attemptId now (store_tree fi fr) = Inl SelectorInvalid"
      by (simp add: issue_ordinary_def v j readOrdinaryAttemptsForJob_def selector_error)
    with Inr show False by simp
  qed
  have rd: "readOrdinaryAttemptsForJob rt uid (store_tree fi fr) v j = Inr (A v j)"
    by (rule read_for_job[OF assms(2) revocations_private[OF assms(3)] s])
  show thesis
  proof (cases "find_row (\<lambda>a. oa_issuanceRequestId a = oi_issuanceRequestId input) (A v j)")
    case (Some prior)
    then obtain a where a: "replayed rt uid (store_tree fi fr) input prior = Inr a" "r = Inl a"
      using Inr rd by (cases "replayed rt uid (store_tree fi fr) input prior") (auto simp: issue_ordinary_def v j)
    have p: "prior \<in> set (A v j)" "oa_issuanceRequestId prior = oi_issuanceRequestId input" using find_row_Some[OF Some] by simp_all
    have "A v j \<noteq> []" using p(1) by auto
    then show thesis using that(2)[of a] replayed_current[OF assms(1-3) s p(1) a(1)] p(2) Inr a(2) by simp
  next
    case None
    let ?used = "if A v j = [] then 0 else nat (oa_attempt (last (A v j)))"
    have u: "?used = length (A v j)"
      using last_number[OF attempts_records[OF assms(2)], of v j] by (simp add: attempt_codec_def record_number_def)
    have i: "issue_ordinary rt uid input attemptId now (store_tree fi fr) = (if maximumOrdinaryAttemptsPerJob \<le> length (A v j) then Inl JobFull
        else case authoritativeOrdinaryAttemptSchema rt (ordinary_attempt_json (next_ordinary input attemptId now (length (A v j) + 1))) of
          None \<Rightarrow> Inl RecordSchema | Some a \<Rightarrow> Inr (Inr a))"
      unfolding issue_ordinary_def v[symmetric] j[symmetric] rd bindR_Inr None u Let_def option.case by (rule refl)
    with Inr obtain a where a: "authoritativeOrdinaryAttemptSchema rt (ordinary_attempt_json (next_ordinary input attemptId now (length (A v j) + 1))) = Some a"
      "r = Inr a" "length (A v j) < maximumOrdinaryAttemptsPerJob" by (auto split: if_splits option.splits)
    have "a = next_ordinary input attemptId now (length (A v j) + 1)"
      by (rule attempt_schema_next[OF _ a(1)]) (simp add: next_ordinary_def d)
    moreover have "oi_issuanceRequestId input \<notin> oa_issuanceRequestId ` set (A v j)" using None by (auto simp: find_row_None)
    ultimately show thesis using that(3)[of a] Inr a(2,3) s ordinary_attempt_schema_valid[OF a(1)] by simp
  qed
qed (rule that(1))

lemma issue_added:
  assumes "attempts_hold rt uid False fi A" "revocations_hold rt uid False fr R" "consistent A R" "selector_ok v j"
    and a: "ordinary_attempt_valid rt a" "oa_reviewId a = v" "od_jobName (oa_descriptor a) = j" "oa_attempt a = int (length (A v j) + 1)"
      "length (A v j) < maximumOrdinaryAttemptsPerJob" "length (record_text ordinary_attempt_json a) \<le> maximumRecordBytes"
    and new: "oa_issuanceRequestId a \<notin> oa_issuanceRequestId ` set (A v j)"
      "\<And>b. b \<in> all_records A \<Longrightarrow> oa_attemptId b \<noteq> oa_attemptId a \<and>
        (oa_issuanceRequestId b = oa_issuanceRequestId a \<longrightarrow> oa_reviewId b = v \<and> od_jobName (oa_descriptor b) = j)"
    and w: "fresh_for w ''issuances'' v j (store_tree fi fr)"
  obtains ts where "run_steps (writeRecord uid w ''issuances'' v j (nat (oa_attempt a)) (ordinary_attempt_json a)) (store_tree fi fr) = (Inr (), ts)"
    "passes rt uid ts A R (add_record v j a A) R"
proof -
  have jr: "job_records (attempt_codec rt) ordinary_attempt_json (ordinary_attempt_valid rt) v j (A v j @ [a])"
    by (rule snoc_attempt[OF assms(1) a])
  have "oa_issuanceRequestId a \<notin> oa_issuanceRequestId ` all_records A"
  proof
    assume "oa_issuanceRequestId a \<in> oa_issuanceRequestId ` all_records A"
    then obtain b v' j' where b: "b \<in> set (A v' j')" "oa_issuanceRequestId b = oa_issuanceRequestId a" by (auto simp: all_records_def)
    then have "v' = v" "j' = j" using new(2)[OF in_all_records[where A = A, OF b(1)]] attempt_identity[OF assms(1) b(1)] by auto
    with b new(1) show False by (metis image_eqI)
  qed
  moreover have "oa_attemptId a \<notin> oa_attemptId ` all_records A" using new(2) by (metis (no_types, lifting) imageE)
  ultimately have "consistent (add_record v j a A) R" by (rule consistent_attempt[OF assms(3)])
  then show thesis using write_issuance[OF assms(1,2,4,3) jr _ w] that by (auto simp: record_number_def attempt_codec_def)
qed

lemma issue_run:
  assumes "store_holds rt uid False s A R" "issue_granted rt uid w input attemptId now s"
    and v: "v = ox_reviewId (oi_execution input)" and j: "j = od_jobName (ox_descriptor (oi_execution input))"
  obtains r ts where "ordinary_issue_run rt uid w input attemptId now s = (r, ts)" "passes rt uid ts A R A R"
    "\<forall>a. r = Inr a \<longrightarrow> A v j \<noteq> [] \<and> a = last (A v j) \<and> find_row (\<lambda>r. revocationMatches r a) (R v j) = None
      \<and> issueMatches a input \<and> oa_issuanceRequestId a = oi_issuanceRequestId input"
    "\<forall>e. r = Inl e \<longrightarrow> issue_ordinary rt uid input attemptId now (last ts) = Inl e"
  | a ts where "ordinary_issue_run rt uid w input attemptId now s = (Inr a, ts)" "passes rt uid ts A R (add_record v j a A) R"
    "a = next_ordinary input attemptId now (length (A v j) + 1)" "selector_ok v j"
proof -
  obtain ts fi fr where ts: "run_steps initializeOrdinaryAttemptStore s = (Inr (), ts)" "last ts = store_tree fi fr"
    "attempts_hold rt uid False fi A" "revocations_hold rt uid False fr R" "passes rt uid ts A R A R"
    "s = store_tree fi fr \<or> fi = new_folder \<and> fr = new_folder" by (rule init_passes[OF assms(1)])
  have c: "consistent A R" using assms(1) by (simp add: store_holds_def)
  have g: "ordinary_descriptor_valid (ox_descriptor (oi_execution input))" "fresh_for w ''issuances'' v j s"
    "\<And>a. a \<in> all_records A \<Longrightarrow> oa_attemptId a \<noteq> attemptId \<and>
      (oa_issuanceRequestId a = oi_issuanceRequestId input \<longrightarrow> oa_reviewId a = v \<and> od_jobName (oa_descriptor a) = j)"
    "length (record_text ordinary_attempt_json (next_ordinary input attemptId now (length (A v j) + 1))) \<le> maximumRecordBytes"
    using assms(2) attempts_on_hold[OF assms(1)] unfolding issue_granted_def Let_def list_all_iff v j attempts_on_job[OF assms(1)] by blast+
  have w: "fresh_for w ''issuances'' v j (store_tree fi fr)" using fresh_initialized[OF g(2) ts(6)] by simp
  show thesis
  proof (rule issue_tree[OF c ts(3,4) v j g(1), of attemptId now])
    fix e assume "issue_ordinary rt uid input attemptId now (store_tree fi fr) = Inl e"
    then show thesis using that(1)[of "Inl e" ts] ts(1,2,5) by (simp add: ordinary_issue_run_def)
  next
    fix a assume "issue_ordinary rt uid input attemptId now (store_tree fi fr) = Inr (Inl a)" "A v j \<noteq> []" "a = last (A v j)"
      "find_row (\<lambda>r. revocationMatches r a) (R v j) = None" "issueMatches a input" "oa_issuanceRequestId a = oi_issuanceRequestId input"
    moreover from this(1) have "ordinary_issue_run rt uid w input attemptId now s = (Inr a, ts)" using ts(1,2) by (simp add: ordinary_issue_run_def)
    ultimately show thesis by (intro that(1)[OF _ ts(5)]) auto
  next
    fix a assume a: "issue_ordinary rt uid input attemptId now (store_tree fi fr) = Inr (Inr a)" "a = next_ordinary input attemptId now (length (A v j) + 1)"
      "length (A v j) < maximumOrdinaryAttemptsPerJob" "ordinary_attempt_valid rt a" "selector_ok v j"
      "oi_issuanceRequestId input \<notin> oa_issuanceRequestId ` set (A v j)"
    have f: "oa_reviewId a = v" "od_jobName (oa_descriptor a) = j" "oa_attempt a = int (length (A v j) + 1)" "oa_attemptId a = attemptId"
      "oa_issuanceRequestId a = oi_issuanceRequestId input" by (simp_all add: a(2) next_ordinary_def v j)
    have l: "length (record_text ordinary_attempt_json a) \<le> maximumRecordBytes" unfolding a(2) by (rule g(4))
    obtain us where us: "run_steps (writeRecord uid w ''issuances'' v j (nat (oa_attempt a)) (ordinary_attempt_json a)) (store_tree fi fr) = (Inr (), us)"
      "passes rt uid us A R (add_record v j a A) R"
    proof (rule issue_added[OF ts(3,4) c a(5,4) f(1-3) a(3) l _ _ w])
      show "oa_issuanceRequestId a \<notin> oa_issuanceRequestId ` set (A v j)" using a(6) f(5) by simp
      show "oa_attemptId b \<noteq> oa_attemptId a \<and> (oa_issuanceRequestId b = oa_issuanceRequestId a \<longrightarrow> oa_reviewId b = v \<and> od_jobName (oa_descriptor b) = j)"
        if "b \<in> all_records A" for b using g(3)[OF that] f(4,5) by simp
    qed
    then have "ordinary_issue_run rt uid w input attemptId now s = (Inr a, ts @ us)"
      using ts(1,2) a(1) f by (simp add: ordinary_issue_run_def)
    then show thesis using that(2) passes_append[OF ts(5) us(2)] a(2,5) by blast
  qed
qed

section \<open>Revoking\<close>

text \<open>The environment of a revocation; the service accepts only requests whose identity is the one of the attempt.\<close>

definition revoke_granted ::
  "project_runtime \<Rightarrow> nat \<Rightarrow> write_draw \<Rightarrow> ordinary_revoke \<Rightarrow> string \<Rightarrow> string \<Rightarrow> ordinary_store \<Rightarrow> bool" where
  "revoke_granted rt uid w input revocationId now s \<longleftrightarrow> or_revocationRequestId input = or_attemptId input
     \<and> fresh_for w ''revocations'' (or_reviewId input) (or_jobName input) s
     \<and> list_all (\<lambda>a. oa_attemptId a = or_attemptId input \<longrightarrow>
         length (record_text ordinary_revocation_json (next_revocation input revocationId now a)) \<le> maximumRecordBytes) (attempts_on rt uid s)"

lemma strict_length:
  assumes "sorted_wrt (<) ns" "\<And>n. n \<in> set ns \<Longrightarrow> 0 < n \<and> n \<le> m"
  shows "length ns \<le> (m :: nat)"
proof -
  have "distinct ns" using assms(1) by (simp add: strict_sorted_iff)
  then have "length ns = card (set ns)" by (simp add: distinct_card)
  also have "\<dots> \<le> card {1..m}" using assms(2) by (intro card_mono) (auto simp: Suc_le_eq)
  finally show ?thesis by simp
qed

lemma revocation_below:
  assumes "consistent A R" "attempts_hold rt uid x fi A" "revocations_hold rt uid y fr R" "r \<in> set (R v j)"
  shows "0 < record_number (revocation_codec rt) r" "record_number (revocation_codec rt) r \<le> length (A v j)"
proof -
  obtain b where b: "b \<in> set (A v j)" "revocationMatches r b" using assms(1,4) unfolding consistent_def by blast
  have n: "record_number (revocation_codec rt) r = record_number (attempt_codec rt) b"
    using revocation_of_attempt[OF assms(1-3) b(1) assms(4)] b(2) by simp
  have "record_number (attempt_codec rt) b \<in> set (map (record_number (attempt_codec rt)) (A v j))" using b(1) by simp
  moreover have "rc_contiguous (attempt_codec rt)" by (simp add: attempt_codec_def)
  ultimately have "record_number (attempt_codec rt) b \<in> set [1..<length (A v j) + 1]"
    by (simp only: contiguous_numbers[OF attempts_records[OF assms(2)]])
  then show "0 < record_number (revocation_codec rt) r" "record_number (revocation_codec rt) r \<le> length (A v j)" unfolding n by auto
qed

lemma snoc_revocation:
  assumes "consistent A R" "attempts_hold rt uid x fi A" "revocations_hold rt uid y fr R" "A v j \<noteq> []"
    and r: "ordinary_revocation_valid rt r" "revocationMatches r (last (A v j))" "length (record_text ordinary_revocation_json r) \<le> maximumRecordBytes"
    and none: "find_row (\<lambda>r. revocationMatches r (last (A v j))) (R v j) = None"
  shows "job_records (revocation_codec rt) ordinary_revocation_json (ordinary_revocation_valid rt) v j (R v j @ [r])"
proof -
  let ?n = "record_number (revocation_codec rt)"
  have l: "last (A v j) \<in> set (A v j)" using assms(4) by simp
  have j: "job_records (revocation_codec rt) ordinary_revocation_json (ordinary_revocation_valid rt) v j (R v j)" by (rule revocations_records[OF assms(3)])
  have a: "job_records (attempt_codec rt) ordinary_attempt_json (ordinary_attempt_valid rt) v j (A v j)" by (rule attempts_records[OF assms(2)])
  have m: "record_number (attempt_codec rt) (last (A v j)) = length (A v j)" by (rule last_number[OF a _ assms(4)]) (simp add: attempt_codec_def)
  have n: "?n r = length (A v j)" using m r(2) by (simp add: record_number_def revocation_codec_def attempt_codec_def revocationMatches_def)
  have below: "0 < ?n s \<and> ?n s < length (A v j)" if s: "s \<in> set (R v j)" for s
  proof -
    have "\<not> revocationMatches s (last (A v j))" using none s by (simp add: find_row_None)
    then have "?n s \<noteq> length (A v j)" using revocation_of_attempt[OF assms(1-3) l s] m by simp
    with revocation_below[OF assms(1-3) s] show ?thesis by simp
  qed
  have sorted: "sorted_wrt (<) (map ?n (R v j @ [r]))" "0 < length (A v j)"
    using j below assms(4) by (auto simp: job_records_def numbers_ok_def sorted_wrt_append n)
  have "k \<le> length (A v j) \<and> 0 < k" if "k \<in> set (map ?n (R v j @ [r]))" for k
    using that below n sorted(2) by (auto simp: less_imp_le)
  then have "length (map ?n (R v j @ [r])) \<le> length (A v j)" by (intro strict_length[OF sorted(1)]) blast
  moreover have "length (A v j) \<le> maximumOrdinaryAttemptsPerJob" using a by (simp add: job_records_def)
  moreover have "safe_integer (int (?n r))" using r(1) by (simp add: ordinary_revocation_valid_def record_number_def revocation_codec_def)
  then have "numbers_ok False (map ?n (R v j @ [r]))"
    using j sorted below n by (auto simp: job_records_def numbers_ok_def)
  moreover have "rc_identity (revocation_codec rt) r = (v, j, int (?n r))"
    using r(1,2) attempt_identity[OF assms(2) l] by (simp add: revocation_codec_def record_number_def revocationMatches_def ordinary_revocation_valid_def)
  ultimately show ?thesis using j r(1,3) by (auto simp: job_records_def) (auto simp: revocation_codec_def)
qed

lemma revoke_tree:
  assumes "consistent A R" "attempts_hold rt uid False fi A" "revocations_hold rt uid False fr R"
    and v: "v = or_reviewId input" and j: "j = or_jobName input"
  obtains e where "revoke_ordinary rt uid input revocationId now (store_tree fi fr) = Inl e"
  | r where "revoke_ordinary rt uid input revocationId now (store_tree fi fr) = Inr (Inl r)" "A v j \<noteq> []"
    "oa_attemptId (last (A v j)) = or_attemptId input" "find_row (\<lambda>r. revocationMatches r (last (A v j))) (R v j) = Some r"
  | a r where "revoke_ordinary rt uid input revocationId now (store_tree fi fr) = Inr (Inr r)" "A v j \<noteq> []" "a = last (A v j)"
    "r = next_revocation input revocationId now a" "oa_attemptId a = or_attemptId input" "ordinary_revocation_valid rt r" "selector_ok v j"
    "find_row (\<lambda>r. revocationMatches r a) (R v j) = None"
proof (cases "revoke_ordinary rt uid input revocationId now (store_tree fi fr)")
  case (Inr x)
  have s: "selector_ok v j"
  proof (rule ccontr)
    assume "\<not> selector_ok v j"
    then have "revoke_ordinary rt uid input revocationId now (store_tree fi fr) = Inl SelectorInvalid"
      by (simp add: revoke_ordinary_def v j ordinary_current_def readCurrentOrdinaryAttempt_def selector_error)
    with Inr show False by simp
  qed
  define r where "r = next_revocation input revocationId now (last (A v j))"
  have i: "revoke_ordinary rt uid input revocationId now (store_tree fi fr) = (if A v j = [] \<or> oa_attemptId (last (A v j)) \<noteq> or_attemptId input
      then Inl CurrentMissing else case find_row (\<lambda>r. revocationMatches r (last (A v j))) (R v j) of
        Some r \<Rightarrow> if revocationInputMatches r input then Inr (Inl r) else Inl AlreadyRevoked
      | None \<Rightarrow> (case authoritativeOrdinaryAttemptRevocationSchema rt (ordinary_revocation_json r) of
          None \<Rightarrow> Inl RecordSchema | Some r \<Rightarrow> Inr (Inr r)))"
    unfolding revoke_ordinary_def v[symmetric] j[symmetric] current_tree[OF assms(1-3) s] r_def by (simp add: current_of_def split: option.split)
  have n: "A v j \<noteq> []" "oa_attemptId (last (A v j)) = or_attemptId input" using i Inr by (auto split: if_splits)
  show thesis
  proof (cases "find_row (\<lambda>r. revocationMatches r (last (A v j))) (R v j)")
    case (Some r)
    with i n Inr have "x = Inl r" by (simp split: if_splits)
    then show thesis using that(2) Inr n Some by simp
  next
    case None
    with i n Inr obtain b where b: "authoritativeOrdinaryAttemptRevocationSchema rt (ordinary_revocation_json r) = Some b" "x = Inr b"
      by (auto split: option.splits)
    have "b = r" by (rule revocation_schema_same[OF b(1)])
    then show thesis using that(3)[of b "last (A v j)"] Inr b n s None ordinary_revocation_schema_valid[OF b(1)] by (simp add: r_def)
  qed
qed (rule that(1))

lemma revoke_added:
  assumes "attempts_hold rt uid False fi A" "revocations_hold rt uid False fr R" "consistent A R" "selector_ok v j" "A v j \<noteq> []"
    and r: "ordinary_revocation_valid rt r" "revocationMatches r (last (A v j))" "length (record_text ordinary_revocation_json r) \<le> maximumRecordBytes"
      "ov_revocationRequestId r = ov_attemptId r"
    and none: "find_row (\<lambda>r. revocationMatches r (last (A v j))) (R v j) = None"
    and w: "fresh_for w ''revocations'' v j (store_tree fi fr)"
  obtains ts where "run_steps (writeRecord uid w ''revocations'' v j (nat (ov_attempt r)) (ordinary_revocation_json r)) (store_tree fi fr) = (Inr (), ts)"
    "passes rt uid ts A R A (add_record v j r R)"
proof -
  have l: "last (A v j) \<in> set (A v j)" using assms(5) by simp
  have "job_records (revocation_codec rt) ordinary_revocation_json (ordinary_revocation_valid rt) v j (R v j @ [r])"
    by (rule snoc_revocation[OF assms(3,1,2,5) r(1-3) none])
  moreover have "consistent A (add_record v j r R)" by (rule consistent_revocation[OF assms(3) r(4) l r(2)])
  ultimately show thesis using write_revocation[OF assms(1,2,4,3) _ _ w] that by (auto simp: record_number_def revocation_codec_def)
qed

lemma revoke_run:
  assumes "store_holds rt uid False s A R" "revoke_granted rt uid w input revocationId now s"
    and v: "v = or_reviewId input" and j: "j = or_jobName input"
  obtains x ts where "ordinary_revoke_run rt uid w input revocationId now s = (x, ts)" "passes rt uid ts A R A R"
    "\<forall>r. x = Inr r \<longrightarrow> A v j \<noteq> [] \<and> oa_attemptId (last (A v j)) = or_attemptId input
      \<and> find_row (\<lambda>r. revocationMatches r (last (A v j))) (R v j) = Some r"
    "\<forall>e. x = Inl e \<longrightarrow> revoke_ordinary rt uid input revocationId now (last ts) = Inl e"
  | r ts where "ordinary_revoke_run rt uid w input revocationId now s = (Inr r, ts)" "passes rt uid ts A R A (add_record v j r R)"
    "A v j \<noteq> []" "r = next_revocation input revocationId now (last (A v j))" "oa_attemptId (last (A v j)) = or_attemptId input"
    "find_row (\<lambda>r. revocationMatches r (last (A v j))) (R v j) = None" "revocationMatches r (last (A v j))"
proof -
  obtain ts fi fr where ts: "run_steps initializeOrdinaryAttemptStore s = (Inr (), ts)" "last ts = store_tree fi fr"
    "attempts_hold rt uid False fi A" "revocations_hold rt uid False fr R" "passes rt uid ts A R A R"
    "s = store_tree fi fr \<or> fi = new_folder \<and> fr = new_folder" by (rule init_passes[OF assms(1)])
  have c: "consistent A R" using assms(1) by (simp add: store_holds_def)
  have g: "or_revocationRequestId input = or_attemptId input" "fresh_for w ''revocations'' v j s"
    "\<And>a. a \<in> all_records A \<Longrightarrow> oa_attemptId a = or_attemptId input \<Longrightarrow>
      length (record_text ordinary_revocation_json (next_revocation input revocationId now a)) \<le> maximumRecordBytes"
    using assms(2) attempts_on_hold[OF assms(1)] unfolding revoke_granted_def list_all_iff v j by blast+
  have w: "fresh_for w ''revocations'' v j (store_tree fi fr)" using fresh_initialized[OF g(2) ts(6)] by simp
  show thesis
  proof (rule revoke_tree[OF c ts(3,4) v j, of revocationId now])
    fix e assume "revoke_ordinary rt uid input revocationId now (store_tree fi fr) = Inl e"
    then show thesis using that(1)[of "Inl e" ts] ts(1,2,5) by (simp add: ordinary_revoke_run_def)
  next
    fix r assume "revoke_ordinary rt uid input revocationId now (store_tree fi fr) = Inr (Inl r)" "A v j \<noteq> []"
      "oa_attemptId (last (A v j)) = or_attemptId input" "find_row (\<lambda>r. revocationMatches r (last (A v j))) (R v j) = Some r"
    then show thesis using that(1)[of "Inr r" ts] ts(1,2,5) by (simp add: ordinary_revoke_run_def)
  next
    fix a r assume r: "revoke_ordinary rt uid input revocationId now (store_tree fi fr) = Inr (Inr r)" "A v j \<noteq> []" "a = last (A v j)"
      "r = next_revocation input revocationId now a" "oa_attemptId a = or_attemptId input" "ordinary_revocation_valid rt r" "selector_ok v j"
      "find_row (\<lambda>r. revocationMatches r a) (R v j) = None"
    have l: "last (A v j) \<in> set (A v j)" using r(2) by simp
    have f: "revocationMatches r (last (A v j))" "ov_reviewId r = v" "ov_jobName r = j" "ov_revocationRequestId r = ov_attemptId r"
      using attempt_identity[OF ts(3) l] g(1) r(5) by (simp_all add: r(3,4) revocationMatches_def next_revocation_def)
    have t: "length (record_text ordinary_revocation_json r) \<le> maximumRecordBytes"
      using g(3)[OF in_all_records[where A = A, OF l]] r(3-5) by simp
    obtain us where us: "run_steps (writeRecord uid w ''revocations'' v j (nat (ov_attempt r)) (ordinary_revocation_json r)) (store_tree fi fr) = (Inr (), us)"
      "passes rt uid us A R A (add_record v j r R)" by (rule revoke_added[OF ts(3,4) c r(7,2,6) f(1) t f(4) r(8)[unfolded r(3)] w])
    then have "ordinary_revoke_run rt uid w input revocationId now s = (Inr r, ts @ us)"
      using ts(1,2) r(1) f by (simp add: ordinary_revoke_run_def)
    then show thesis using that(2) passes_append[OF ts(5) us(2)] r(2-5,8) f(1) by blast
  qed
qed

end
