(* ===== verification/Ordinary_Machine.thy ===== *)
theory Ordinary_Machine
  imports Ordinary_Operations
begin

text \<open>
  The service of ordinary attempts as a machine: it is started, issues, revokes, stops and can be killed at every call
  of the file system. Its invariant is that the files are what the records are, or that the folders of the store were never
  completed. From it: restarts, the records that are kept, what an issuance and a revocation answer.
\<close>

section \<open>The machine\<close>

record ordinary_process =
  op_running :: bool
  op_store :: ordinary_store

inductive ordinary_step :: "project_runtime \<Rightarrow> nat \<Rightarrow> ordinary_process \<Rightarrow> ordinary_process \<Rightarrow> bool" for rt uid where
  ordinary_start: "\<not> op_running p \<Longrightarrow> assertAuthoritativeOrdinaryAttemptStore rt uid (op_store p) = (Inr (), t) \<Longrightarrow>
    ordinary_step rt uid p \<lparr>op_running = True, op_store = t\<rparr>"
| ordinary_refuse: "\<not> op_running p \<Longrightarrow> assertAuthoritativeOrdinaryAttemptStore rt uid (op_store p) = (Inl e, t) \<Longrightarrow>
    ordinary_step rt uid p \<lparr>op_running = False, op_store = t\<rparr>"
| ordinary_issue: "op_running p \<Longrightarrow> issue_granted rt uid w input attemptId now (op_store p) \<Longrightarrow>
    ordinary_issue_run rt uid w input attemptId now (op_store p) = (r, ts) \<Longrightarrow>
    ordinary_step rt uid p \<lparr>op_running = True, op_store = last ts\<rparr>"
| ordinary_issue_killed: "op_running p \<Longrightarrow> issue_granted rt uid w input attemptId now (op_store p) \<Longrightarrow>
    ordinary_issue_run rt uid w input attemptId now (op_store p) = (r, ts) \<Longrightarrow> t \<in> set ts \<Longrightarrow>
    ordinary_step rt uid p \<lparr>op_running = False, op_store = t\<rparr>"
| ordinary_revoke: "op_running p \<Longrightarrow> revoke_granted rt uid w request revocationId now (op_store p) \<Longrightarrow>
    ordinary_revoke_run rt uid w request revocationId now (op_store p) = (r', ts) \<Longrightarrow>
    ordinary_step rt uid p \<lparr>op_running = True, op_store = last ts\<rparr>"
| ordinary_revoke_killed: "op_running p \<Longrightarrow> revoke_granted rt uid w request revocationId now (op_store p) \<Longrightarrow>
    ordinary_revoke_run rt uid w request revocationId now (op_store p) = (r', ts) \<Longrightarrow> t \<in> set ts \<Longrightarrow>
    ordinary_step rt uid p \<lparr>op_running = False, op_store = t\<rparr>"
| ordinary_stop: "op_running p \<Longrightarrow> ordinary_step rt uid p (p\<lparr>op_running := False\<rparr>)"

definition ordinary_initial :: ordinary_process where
  "ordinary_initial = \<lparr>op_running = False, op_store = None\<rparr>"

definition ordinary_reachable :: "project_runtime \<Rightarrow> nat \<Rightarrow> ordinary_process \<Rightarrow> bool" where
  "ordinary_reachable rt uid p \<longleftrightarrow> (ordinary_step rt uid)\<^sup>*\<^sup>* ordinary_initial p"

section \<open>The invariant\<close>

text \<open>What a process has on its files; a folder that was never completed holds nothing.\<close>

definition process_holds :: "project_runtime \<Rightarrow> nat \<Rightarrow> ordinary_process \<Rightarrow> attempts_by_job \<Rightarrow> revocations_by_job \<Rightarrow> bool" where
  "process_holds rt uid p A R \<longleftrightarrow> store_holds rt uid (\<not> op_running p) (op_store p) A R
     \<or> \<not> op_running p \<and> half_made (op_store p) \<and> A = no_records \<and> R = no_records"

text \<open>A step keeps the records and adds at most one.\<close>

definition records_grow :: "'a by_job \<Rightarrow> 'a by_job \<Rightarrow> bool" where
  "records_grow A B \<longleftrightarrow> B = A \<or> (\<exists>v j r. B = add_record v j r A)"

lemma half_made_refused: "half_made s \<Longrightarrow> assertAuthoritativeOrdinaryAttemptStore rt uid s = (Inl FolderLayout, s)"
  by (auto simp: half_made_def assertAuthoritativeOrdinaryAttemptStore_def assertOrdinaryAttemptStoreLayout_def new_folder_def put_dir_def)

lemma passes_state:
  assumes "passes rt uid ts A R A' R'" "t \<in> set ts"
  shows "process_holds rt uid \<lparr>op_running = False, op_store = t\<rparr> A R \<or> process_holds rt uid \<lparr>op_running = False, op_store = t\<rparr> A' R'"
  using assms by (auto simp: passes_def process_holds_def)

lemma passes_last: "passes rt uid ts A R A' R' \<Longrightarrow> process_holds rt uid \<lparr>op_running = True, op_store = last ts\<rparr> A' R'"
  by (simp add: passes_def process_holds_def)

lemma issue_passes:
  assumes "store_holds rt uid False s A R" "issue_granted rt uid w input attemptId now s"
    "ordinary_issue_run rt uid w input attemptId now s = (r, ts)"
  obtains A' where "passes rt uid ts A R A' R" "records_grow A A'"
proof (rule issue_run[OF assms(1,2) refl refl])
  fix x us assume "ordinary_issue_run rt uid w input attemptId now s = (x, us)" "passes rt uid us A R A R"
  then show thesis using that[of A] assms(3) by (simp add: records_grow_def)
next
  fix a us assume "ordinary_issue_run rt uid w input attemptId now s = (Inr a, us)"
    "passes rt uid us A R (add_record (ox_reviewId (oi_execution input)) (od_jobName (ox_descriptor (oi_execution input))) a A) R"
  then show thesis using that[of "add_record (ox_reviewId (oi_execution input)) (od_jobName (ox_descriptor (oi_execution input))) a A"] assms(3) by (auto simp: records_grow_def)
qed

lemma revoke_passes:
  assumes "store_holds rt uid False s A R" "revoke_granted rt uid w input revocationId now s"
    "ordinary_revoke_run rt uid w input revocationId now s = (r, ts)"
  obtains R' where "passes rt uid ts A R A R'" "records_grow R R'"
proof (rule revoke_run[OF assms(1,2) refl refl])
  fix x us assume "ordinary_revoke_run rt uid w input revocationId now s = (x, us)" "passes rt uid us A R A R"
  then show thesis using that[of R] assms(3) by (simp add: records_grow_def)
next
  fix a us assume "ordinary_revoke_run rt uid w input revocationId now s = (Inr a, us)"
    "passes rt uid us A R A (add_record (or_reviewId input) (or_jobName input) a R)"
  then show thesis using that[of "add_record (or_reviewId input) (or_jobName input) a R"] assms(3) by (auto simp: records_grow_def)
qed

text \<open>A start succeeds with the same records, or refuses a store whose folders were never completed.\<close>

lemma start_cases:
  assumes "process_holds rt uid p A R" "\<not> op_running p"
  obtains t where "assertAuthoritativeOrdinaryAttemptStore rt uid (op_store p) = (Inr (), t)" "store_holds rt uid False t A R"
    "store_holds rt uid True (op_store p) A R"
  | "assertAuthoritativeOrdinaryAttemptStore rt uid (op_store p) = (Inl FolderLayout, op_store p)" "half_made (op_store p)"
    "A = no_records" "R = no_records"
proof (cases "store_holds rt uid True (op_store p) A R")
  case True
  show thesis by (rule start_holds[OF True], rule that(1)[OF _ _ True])
next
  case False
  then have h: "half_made (op_store p)" "A = no_records" "R = no_records" using assms by (simp_all add: process_holds_def)
  show thesis by (rule that(2)[OF half_made_refused[OF h(1)] h])
qed

lemma step_holds:
  assumes "ordinary_step rt uid p q" "process_holds rt uid p A R"
  obtains A' R' where "process_holds rt uid q A' R'" "records_grow A A'" "records_grow R R'"
proof -
  have run: "op_running p \<Longrightarrow> store_holds rt uid False (op_store p) A R" using assms(2) by (simp add: process_holds_def)
  have g: "records_grow A A" "records_grow R R" by (simp_all add: records_grow_def)
  from assms(1) show thesis
  proof cases
    case (ordinary_start t)
    show thesis by (rule start_cases[OF assms(2) ordinary_start(2)])
      (use that[OF _ g] ordinary_start in \<open>auto simp: process_holds_def\<close>)
  next
    case (ordinary_refuse e t)
    show thesis by (rule start_cases[OF assms(2) ordinary_refuse(2)])
      (use that[OF _ g] ordinary_refuse in \<open>auto simp: process_holds_def\<close>)
  next
    case (ordinary_issue w input attemptId now r ts)
    then show thesis using issue_passes[OF run ordinary_issue(3,4)] passes_last that g by metis
  next
    case (ordinary_issue_killed w input attemptId now r ts t)
    then show thesis using issue_passes[OF run ordinary_issue_killed(3,4)] passes_state that g by metis
  next
    case (ordinary_revoke w request revocationId now r ts)
    then show thesis using revoke_passes[OF run ordinary_revoke(3,4)] passes_last that g by metis
  next
    case (ordinary_revoke_killed w request revocationId now r ts t)
    then show thesis using revoke_passes[OF run ordinary_revoke_killed(3,4)] passes_state that g by metis
  next
    case ordinary_stop
    then show thesis using that[OF _ g] store_crashed[OF run] by (auto simp: process_holds_def)
  qed
qed

lemma reachable_holds:
  assumes "ordinary_reachable rt uid p"
  obtains A R where "process_holds rt uid p A R"
proof -
  have "\<exists>A R. process_holds rt uid p A R" using assms unfolding ordinary_reachable_def
  proof (induction rule: rtranclp_induct)
    case base
    have "process_holds rt uid ordinary_initial (\<lambda>_ _. []) (\<lambda>_ _. [])"
      by (simp add: process_holds_def ordinary_initial_def store_holds_def empty_consistent)
    then show ?case by blast
  next
    case (step p q)
    then show ?case by (meson step_holds)
  qed
  then show thesis using that by blast
qed

lemma running_holds:
  assumes "ordinary_reachable rt uid p" "op_running p"
  obtains A R where "store_holds rt uid False (op_store p) A R"
  using reachable_holds[OF assms(1)] assms(2) that by (auto simp: process_holds_def)

lemma process_records:
  assumes "process_holds rt uid p A R"
  shows "set (attempts_on rt uid (op_store p)) = all_records A" "set (revocations_on rt uid (op_store p)) = all_records R"
proof -
  have "set (attempts_on rt uid (op_store p)) = all_records A \<and> set (revocations_on rt uid (op_store p)) = all_records R"
  proof (cases "store_holds rt uid (\<not> op_running p) (op_store p) A R")
    case True
    then show ?thesis using attempts_on_hold revocations_on_hold by blast
  next
    case False
    then have "half_made (op_store p)" "A = no_records" "R = no_records" using assms by (simp_all add: process_holds_def)
    then show ?thesis
      by (auto simp: half_made_def attempts_on_def revocations_on_def readOrdinaryAttempts_def readOrdinaryRevocations_def in_records_def
          in_kind_def at_dir_def sub_def put_dir_def new_folder_def readRecords_def visit_directories_def all_records_def no_records_def
          kind_name_def)
  qed
  then show "set (attempts_on rt uid (op_store p)) = all_records A" "set (revocations_on rt uid (op_store p)) = all_records R" by simp_all
qed

lemma records_grow_all: "records_grow A B \<Longrightarrow> all_records A \<subseteq> all_records B"
  by (auto simp: records_grow_def)

lemma step_keeps:
  assumes "ordinary_step rt uid p q" "process_holds rt uid p A R"
  shows "set (attempts_on rt uid (op_store p)) \<subseteq> set (attempts_on rt uid (op_store q))"
    "set (revocations_on rt uid (op_store p)) \<subseteq> set (revocations_on rt uid (op_store q))"
proof -
  obtain A' R' where "process_holds rt uid q A' R'" "records_grow A A'" "records_grow R R'" by (rule step_holds[OF assms])
  then show "set (attempts_on rt uid (op_store p)) \<subseteq> set (attempts_on rt uid (op_store q))"
    "set (revocations_on rt uid (op_store p)) \<subseteq> set (revocations_on rt uid (op_store q))"
    using process_records[OF assms(2)] process_records records_grow_all by metis+
qed

lemma kept_revocation:
  assumes "ordinary_reachable rt uid p" "(ordinary_step rt uid)\<^sup>*\<^sup>* p q" "r \<in> set (revocations_on rt uid (op_store p))"
  shows "r \<in> set (revocations_on rt uid (op_store q))"
  using assms(2,3)
proof (induction rule: rtranclp_induct)
  case (step q q')
  have "ordinary_reachable rt uid q" using assms(1) step.hyps(1) unfolding ordinary_reachable_def by (rule rtranclp_trans)
  then obtain A R where "process_holds rt uid q A R" by (rule reachable_holds)
  then show ?case using step_keeps(2)[OF step.hyps(2)] step.IH step.prems by blast
qed

section \<open>Answers\<close>

lemma current_holds:
  assumes "store_holds rt uid False s A R" "selector_ok v j"
  shows "ordinary_current rt uid s v j = Inr (current_of A R v j)"
proof (cases s)
  case None
  with assms have "current_of A R v j = None" by (auto simp: store_holds_def current_of_def)
  with None assms(2) show ?thesis
    by (simp add: ordinary_current_def readCurrentOrdinaryAttempt_def selectedOrdinaryAttemptFiles_def selector_ok_def
        assertOrdinaryAttemptStoreLayout_def)
next
  case (Some root)
  then obtain fi fr where "s = store_tree fi fr" "attempts_hold rt uid False fi A" "revocations_hold rt uid False fr R" "consistent A R"
    using assms(1) by (auto simp: store_holds_def)
  then show ?thesis using current_tree assms(2) by blast
qed

lemma read_job_holds:
  assumes "store_holds rt uid False s A R" "selector_ok v j"
  shows "readOrdinaryAttemptsForJob rt uid s v j = Inr (A v j)"
proof (cases s)
  case None
  with assms have "A v j = []" by (auto simp: store_holds_def)
  with None assms(2) show ?thesis
    by (simp add: readOrdinaryAttemptsForJob_def selectedOrdinaryAttemptFiles_def selector_ok_def assertOrdinaryAttemptStoreLayout_def)
next
  case (Some root)
  then obtain fi fr where "s = store_tree fi fr" "attempts_hold rt uid False fi A" "revocations_hold rt uid False fr R"
    using assms(1) by (auto simp: store_holds_def)
  then show ?thesis using read_for_job revocations_private assms(2) by blast
qed

lemma selector_holds:
  assumes "store_holds rt uid x s A R" "A v j \<noteq> []"
  shows "selector_ok v j"
proof -
  obtain fi where "attempts_hold rt uid x fi A" using assms by (auto simp: store_holds_def)
  then show ?thesis using records_state assms(2) unfolding attempts_hold_def selector_ok_def by metis
qed

text \<open>What an issuance that answers has: the attempt is the last one of its job and not revoked.\<close>

lemma issue_answer:
  assumes "store_holds rt uid False s A R" "issue_granted rt uid w input attemptId now s"
    "ordinary_issue_run rt uid w input attemptId now s = (Inr a, ts)"
    and v: "v = ox_reviewId (oi_execution input)" and j: "j = od_jobName (ox_descriptor (oi_execution input))"
  obtains A' where "store_holds rt uid False (last ts) A' R" "A' v j \<noteq> []" "last (A' v j) = a" "issueMatches a input"
    "find_row (\<lambda>r. revocationMatches r a) (R v j) = None" "oa_issuanceRequestId a = oi_issuanceRequestId input"
proof (rule issue_run[OF assms(1,2) v j])
  fix r us
  assume "ordinary_issue_run rt uid w input attemptId now s = (r, us)" "passes rt uid us A R A R"
    "\<forall>a. r = Inr a \<longrightarrow> A v j \<noteq> [] \<and> a = last (A v j) \<and> find_row (\<lambda>r. revocationMatches r a) (R v j) = None
      \<and> issueMatches a input \<and> oa_issuanceRequestId a = oi_issuanceRequestId input"
  then show thesis using that[of A] assms(3) by (auto simp: passes_def)
next
  fix b us
  assume b: "ordinary_issue_run rt uid w input attemptId now s = (Inr b, us)" "passes rt uid us A R (add_record v j b A) R"
    "b = next_ordinary input attemptId now (length (A v j) + 1)"
  have h: "store_holds rt uid False (last ts) (add_record v j a A) R" "b = a" using b(1,2) assms(3) by (auto simp: passes_def)
  have "add_record v j a A \<noteq> (\<lambda>_ _. [])"
  proof
    assume "add_record v j a A = (\<lambda>_ _. [])"
    then have "add_record v j a A v j = []" by (rule arg_cong[where f = "\<lambda>B. B v j"])
    then show False by simp
  qed
  then obtain fi where fi: "attempts_hold rt uid False fi (add_record v j a A)" using h(1) by (auto simp: store_holds_def)
  have c: "consistent A R" "consistent (add_record v j a A) R" using assms(1) h(1) by (simp_all add: store_holds_def)
  have "distinct (A v j @ [a])" using job_records_distinct[OF attempts_records[OF fi, of v j]] by simp
  have "\<not> revocationMatches r a" if r: "r \<in> set (R v j)" for r
  proof
    assume m: "revocationMatches r a"
    obtain d where d: "d \<in> set (A v j)" "revocationMatches r d" using c(1) r unfolding consistent_def by blast
    have "oa_attemptId d = oa_attemptId a" using m d(2) by (simp add: revocationMatches_def)
    moreover have i: "inj_on oa_attemptId (insert a (all_records A))" using c(2) by (simp only: consistent_def all_add_record)
    moreover have "d \<in> insert a (all_records A)" using in_all_records[of d A v j] d(1) by simp
    ultimately have "d = a" using inj_onD[OF i, of d a] by simp
    with d(1) \<open>distinct (A v j @ [a])\<close> show False by simp
  qed
  then have "find_row (\<lambda>r. revocationMatches r a) (R v j) = None" by (simp add: find_row_None)
  then show thesis using that[OF h(1)] b(3) h(2) by (simp add: issueMatches_def next_ordinary_def v j)
qed

text \<open>The same request again is answered by the same attempt, and writes nothing.\<close>

lemma issue_again:
  assumes "store_holds rt uid False s A R" "s \<noteq> None" "A v j \<noteq> []" "last (A v j) = a" "issueMatches a input"
    "find_row (\<lambda>r. revocationMatches r a) (R v j) = None" "oa_issuanceRequestId a = oi_issuanceRequestId input"
    and v: "v = ox_reviewId (oi_execution input)" and j: "j = od_jobName (ox_descriptor (oi_execution input))"
  shows "ordinary_issue_run rt uid w input attemptId now s = (Inr a, replicate 5 s)"
proof -
  obtain fi fr where s: "s = store_tree fi fr" "attempts_hold rt uid False fi A" "revocations_hold rt uid False fr R" "consistent A R"
    using assms(1,2) by (auto simp: store_holds_def)
  have sel: "selector_ok v j" by (rule selector_holds[where A = A, OF assms(1,3)])
  have a: "a \<in> set (A v j)" using assms(3,4) by auto
  have "inj_on oa_issuanceRequestId (set (A v j))" using s(4) by (auto simp: consistent_def all_records_def intro: inj_on_subset)
  then have "unique_by oa_issuanceRequestId (A v j)" using job_records_distinct[OF attempts_records[OF s(2)]] by (simp add: distinct_map)
  from find_row_unique[OF this a] have f: "find_row (\<lambda>b. oa_issuanceRequestId b = oi_issuanceRequestId input) (A v j) = Some a"
    by (simp add: assms(7))
  have "replayed rt uid s input a = Inr a"
    using assms(3-6) attempt_identity[OF s(2) a] current_holds[OF assms(1) sel] by (simp add: replayed_def current_of_def)
  then have "issue_ordinary rt uid input attemptId now s = Inr (Inl a)"
    using read_for_job[OF s(2) revocations_private[OF s(3)] sel] f by (simp add: issue_ordinary_def v[symmetric] j[symmetric] s(1))
  moreover have "run_steps initializeOrdinaryAttemptStore s = (Inr (), replicate 5 s)"
    unfolding s(1) by (rule init_tree[OF attempts_private[OF s(2)] revocations_private[OF s(3)]])
  ultimately show ?thesis by (simp add: ordinary_issue_run_def)
qed

lemma revoke_answer:
  assumes "store_holds rt uid False s A R" "revoke_granted rt uid w input revocationId now s"
    "ordinary_revoke_run rt uid w input revocationId now s = (Inr r, ts)" and v: "v = or_reviewId input" and j: "j = or_jobName input"
  obtains R' where "store_holds rt uid False (last ts) A R'" "A v j \<noteq> []" "oa_attemptId (last (A v j)) = or_attemptId input"
    "find_row (\<lambda>r. revocationMatches r (last (A v j))) (R' v j) = Some r"
proof (rule revoke_run[OF assms(1,2) v j])
  fix x us
  assume "ordinary_revoke_run rt uid w input revocationId now s = (x, us)" "passes rt uid us A R A R"
    "\<forall>r. x = Inr r \<longrightarrow> A v j \<noteq> [] \<and> oa_attemptId (last (A v j)) = or_attemptId input
      \<and> find_row (\<lambda>r. revocationMatches r (last (A v j))) (R v j) = Some r"
  then show thesis using that[of R] assms(3) by (auto simp: passes_def)
next
  fix q us
  assume "ordinary_revoke_run rt uid w input revocationId now s = (Inr q, us)" "passes rt uid us A R A (add_record v j q R)" "A v j \<noteq> []"
    "oa_attemptId (last (A v j)) = or_attemptId input" "find_row (\<lambda>r. revocationMatches r (last (A v j))) (R v j) = None"
    "revocationMatches q (last (A v j))"
  then show thesis using that[of "add_record v j q R"] assms(3) by (auto simp: passes_def find_row_append)
qed

text \<open>A new request for a job is answered by its next attempt, the revocation of a current attempt by its revocation.\<close>

lemma issue_next:
  assumes h: "store_holds rt uid False s A R" "issue_granted rt uid w input attemptId now s"
    and v: "v = ox_reviewId (oi_execution input)" and j: "j = od_jobName (ox_descriptor (oi_execution input))"
    and sel: "selector_ok v j" and new: "oi_issuanceRequestId input \<notin> oa_issuanceRequestId ` set (A v j)"
    and room: "length (A v j) < maximumOrdinaryAttemptsPerJob"
    and valid: "ordinary_attempt_valid rt (next_ordinary input attemptId now (length (A v j) + 1))"
  obtains ts where "ordinary_issue_run rt uid w input attemptId now s = (Inr (next_ordinary input attemptId now (length (A v j) + 1)), ts)"
    "passes rt uid ts A R (add_record v j (next_ordinary input attemptId now (length (A v j) + 1)) A) R"
proof (rule issue_run[OF h v j])
  fix r ts
  assume r: "ordinary_issue_run rt uid w input attemptId now s = (r, ts)" "passes rt uid ts A R A R"
    "\<forall>a. r = Inr a \<longrightarrow> A v j \<noteq> [] \<and> a = last (A v j) \<and> find_row (\<lambda>r. revocationMatches r a) (R v j) = None
      \<and> issueMatches a input \<and> oa_issuanceRequestId a = oi_issuanceRequestId input"
    "\<forall>e. r = Inl e \<longrightarrow> issue_ordinary rt uid input attemptId now (last ts) = Inl e"
  have t: "store_holds rt uid False (last ts) A R" using r(2) by (simp add: passes_def)
  have u: "(if A v j = [] then 0 else nat (oa_attempt (last (A v j)))) = length (A v j)"
  proof (cases "A v j = []")
    case False
    then obtain fi where fi: "attempts_hold rt uid False fi A" using t by (auto simp: store_holds_def)
    have "int (record_number (attempt_codec rt) (last (A v j))) = oa_attempt (last (A v j))" using attempt_number[OF fi, of "last (A v j)" v j] False by simp
    moreover have "record_number (attempt_codec rt) (last (A v j)) = length (A v j)"
      by (rule last_number[OF attempts_records[OF fi] _ False]) (simp add: attempt_codec_def)
    ultimately show ?thesis using False by simp
  qed simp
  have n: "find_row (\<lambda>a. oa_issuanceRequestId a = oi_issuanceRequestId input) (A v j) = None"
    unfolding find_row_None using new by (metis image_eqI)
  have "issue_ordinary rt uid input attemptId now (last ts) = Inr (Inr (next_ordinary input attemptId now (length (A v j) + 1)))"
    unfolding issue_ordinary_def v[symmetric] j[symmetric] read_job_holds[OF t sel] bindR_Inr n u Let_def option.case
    using room by (simp only: ordinary_attempt_schema_json[OF valid] option.case not_le[symmetric] if_False)
  moreover have "\<exists>e. r = Inl e"
  proof (cases r)
    case (Inr a)
    with r(3) have a: "A v j \<noteq> []" "a = last (A v j)" "oa_issuanceRequestId a = oi_issuanceRequestId input" by blast+
    then have "a \<in> set (A v j)" by simp
    with a(3) new show ?thesis by (metis image_eqI)
  qed simp
  ultimately show thesis using r(4) by auto
next
  fix a ts assume "ordinary_issue_run rt uid w input attemptId now s = (Inr a, ts)" "passes rt uid ts A R (add_record v j a A) R"
    "a = next_ordinary input attemptId now (length (A v j) + 1)"
  then show thesis using that by blast
qed

lemma revoke_next:
  assumes h: "store_holds rt uid False s A R" "revoke_granted rt uid w input revocationId now s"
    and v: "v = or_reviewId input" and j: "j = or_jobName input"
    and sel: "A v j \<noteq> []" "oa_attemptId (last (A v j)) = or_attemptId input"
    and none: "find_row (\<lambda>r. revocationMatches r (last (A v j))) (R v j) = None"
    and valid: "ordinary_revocation_valid rt (next_revocation input revocationId now (last (A v j)))"
  obtains ts where "ordinary_revoke_run rt uid w input revocationId now s = (Inr (next_revocation input revocationId now (last (A v j))), ts)"
    "passes rt uid ts A R A (add_record v j (next_revocation input revocationId now (last (A v j))) R)"
proof (rule revoke_run[OF h v j])
  fix x ts
  assume r: "ordinary_revoke_run rt uid w input revocationId now s = (x, ts)" "passes rt uid ts A R A R"
    "\<forall>r. x = Inr r \<longrightarrow> A v j \<noteq> [] \<and> oa_attemptId (last (A v j)) = or_attemptId input
      \<and> find_row (\<lambda>r. revocationMatches r (last (A v j))) (R v j) = Some r"
    "\<forall>e. x = Inl e \<longrightarrow> revoke_ordinary rt uid input revocationId now (last ts) = Inl e"
  have t: "store_holds rt uid False (last ts) A R" using r(2) by (simp add: passes_def)
  have "revoke_ordinary rt uid input revocationId now (last ts) = Inr (Inr (next_revocation input revocationId now (last (A v j))))"
    unfolding revoke_ordinary_def v[symmetric] j[symmetric] current_holds[OF t selector_holds[where A = A, OF t sel(1)]]
    using sel none ordinary_revocation_schema_json[OF valid] by (simp add: current_of_def)
  then show thesis using r(3,4) none by (cases x) auto
next
  fix r ts assume "ordinary_revoke_run rt uid w input revocationId now s = (Inr r, ts)" "passes rt uid ts A R A (add_record v j r R)"
    "r = next_revocation input revocationId now (last (A v j))"
  then show thesis using that by blast
qed

end
