(* ===== verification/Ordinary_Guarantees.thy ===== *)
theory Ordinary_Guarantees
  imports Ordinary_Machine Authority_Guarantees
begin

text \<open>
  What the service of ordinary attempts guarantees over all its runs, with an example: one job whose first attempt is issued into a
  store that does not exist yet.
\<close>

section \<open>An example\<close>

definition demo_ordinary_execution :: ordinary_execution where
  "demo_ordinary_execution = \<lparr>ox_reviewId = replicate 64 CHR ''b'', ox_descriptor = \<lparr>od_admissionGeneration = demo_uuid,
     od_jobName = ''test'', od_runnerBaseImage = demo_image, od_bounds = demo_bounds, od_projectId = ''demo'',
     od_repositoryId = ''root'', od_protectedRef = ''refs/heads/main'',
     od_expectedProtectedHead = replicate 40 CHR ''d'', od_candidateCommit = replicate 40 CHR ''e'',
     od_candidateTree = replicate 40 CHR ''f'', od_policyRevision = ''r1'', od_requiredReviewRevision = ''r1'',
     od_requiredJobSetRevision = ''r1'', od_evidenceClass = ''candidate-controlled'',
     od_configBlob = \<lparr>br_objectId = replicate 40 CHR ''d'', br_sha256 = ''sha256:'' @ replicate 64 CHR ''a''\<rparr>,
     od_script = \<lparr>sr_path = ''.dim/ci/jobs/test.bash'', sr_objectId = replicate 40 CHR ''d'',
       sr_sha256 = ''sha256:'' @ replicate 64 CHR ''a''\<rparr>,
     od_argv = candidateArgv, od_jobImage = demo_image\<rparr>, ox_digest = ''sha256:'' @ replicate 64 CHR ''0''\<rparr>"

definition demo_ordinary_issue :: ordinary_issue where
  "demo_ordinary_issue = \<lparr>oi_issuanceRequestId = demo_uuid, oi_execution = demo_ordinary_execution, oi_hostId = ''host1'',
     oi_capacity = ''small'', oi_issuedBy = ''issuer''\<rparr>"

definition demo_draw :: write_draw where
  "demo_draw = \<lparr>wd_identity = demo_uuid, wd_inode = 7, wd_written = 10\<rparr>"

abbreviation demo_now :: string where
  "demo_now \<equiv> ''2026-01-01T00:00:00.000Z''"

definition demo_ordinary_attempt :: AuthoritativeOrdinaryAttempt where
  "demo_ordinary_attempt = next_ordinary demo_ordinary_issue demo_attempt_id demo_now 1"

lemma demo_ordinary_descriptor_valid: "ordinary_descriptor_valid (ox_descriptor demo_ordinary_execution)"
proof -
  have "head_ref_ok ''refs/heads/main''" by code_simp
  then show ?thesis
    using demo_digest demo_hex demo_names demo_image_ok demo_bounds_ok demo_script_ok demo_root_ok uuid_generation[OF demo_uuids(1)]
    by (simp add: ordinary_descriptor_valid_def demo_ordinary_execution_def blob_valid_def script_valid_def)
qed

lemma demo_ordinary_valid: "ordinary_attempt_valid demo_art demo_ordinary_attempt"
proof -
  have "matches hex64Pattern (replicate 64 CHR ''b'')" "matches digestPattern (''sha256:'' @ replicate 64 CHR ''0'')"
    "matches identifierPattern ''host1''" "matches identifierPattern ''small''" by code_simp+
  moreover have "descriptorDigest demo_art d = ''sha256:'' @ replicate 64 CHR ''0''" for d by (simp add: descriptorDigest_def demo_art_def)
  moreover have "ox_reviewId demo_ordinary_execution = replicate 64 CHR ''b''" "ox_digest demo_ordinary_execution = ''sha256:'' @ replicate 64 CHR ''0''"
    by (simp_all add: demo_ordinary_execution_def)
  ultimately show ?thesis using demo_ordinary_descriptor_valid
    by (simp add: ordinary_attempt_valid_def demo_ordinary_attempt_def next_ordinary_def demo_ordinary_issue_def demo_art_def safe_integer_def)
qed

lemma demo_ordinary_text: "length (record_text ordinary_attempt_json demo_ordinary_attempt) \<le> 3000"
  by code_simp

lemma demo_ordinary_job: "ox_reviewId (oi_execution demo_ordinary_issue) = replicate 64 CHR ''b''"
  "od_jobName (ox_descriptor (oi_execution demo_ordinary_issue)) = ''test''"
  by (simp_all add: demo_ordinary_issue_def demo_ordinary_execution_def)

lemma demo_issue_granted: "issue_granted demo_art 0 demo_draw demo_ordinary_issue demo_attempt_id demo_now None"
  using demo_ordinary_descriptor_valid demo_ordinary_text[unfolded demo_ordinary_attempt_def] demo_uuids(1)
  by (simp add: issue_granted_def fresh_for_def demo_draw_def attempts_on_def demo_ordinary_issue_def maximumRecordBytes_def Let_def)

lemma demo_job_selector: "selector_ok (replicate 64 CHR ''b'') ''test''"
proof -
  have "matches hex64Pattern (replicate 64 CHR ''b'')" by code_simp
  with demo_names show ?thesis by (simp add: selector_ok_def)
qed

lemma demo_none: "store_holds rt uid x None (\<lambda>_ _. []) (\<lambda>_ _. [])"
  by (simp add: store_holds_def empty_consistent)

lemma demo_ordinary_run:
  obtains ts where "ordinary_issue_run demo_art 0 demo_draw demo_ordinary_issue demo_attempt_id demo_now None = (Inr demo_ordinary_attempt, ts)"
    "Some new_folder \<in> set ts"
proof -
  let ?v = "replicate 64 CHR ''b''"
  have h: "attempts_hold demo_art 0 False new_folder (\<lambda>_ _. [])" "revocations_hold demo_art 0 False new_folder (\<lambda>_ _. [])"
    by (simp_all add: attempts_hold_def revocations_hold_def records_new)
  have "readOrdinaryAttemptsForJob demo_art 0 (store_tree new_folder new_folder) ?v ''test'' = Inr []"
    using read_for_job[OF h(1) revocations_private[OF h(2)] demo_job_selector] by simp
  then have d: "issue_ordinary demo_art 0 demo_ordinary_issue demo_attempt_id demo_now (store_tree new_folder new_folder) = Inr (Inr demo_ordinary_attempt)"
    using ordinary_attempt_schema_json[OF demo_ordinary_valid, unfolded demo_ordinary_attempt_def] unfolding demo_ordinary_attempt_def
    by (simp add: issue_ordinary_def demo_ordinary_job maximumOrdinaryAttemptsPerJob_def)
  have f: "oa_reviewId demo_ordinary_attempt = ?v" "od_jobName (oa_descriptor demo_ordinary_attempt) = ''test''"
    "oa_attempt demo_ordinary_attempt = int (length ([] :: AuthoritativeOrdinaryAttempt list) + 1)"
    by (simp_all add: demo_ordinary_attempt_def next_ordinary_def demo_ordinary_job)
  have w: "fresh_for demo_draw ''issuances'' ?v ''test'' (store_tree new_folder new_folder)"
    using fresh_initialized[of demo_draw "''issuances''" ?v "''test''" None new_folder new_folder] demo_issue_granted
    by (simp add: issue_granted_def demo_ordinary_job Let_def)
  have m: "length ([] :: AuthoritativeOrdinaryAttempt list) < maximumOrdinaryAttemptsPerJob" by (simp add: maximumOrdinaryAttemptsPerJob_def)
  have l: "length (record_text ordinary_attempt_json demo_ordinary_attempt) \<le> maximumRecordBytes"
    using demo_ordinary_text by (simp add: maximumRecordBytes_def)
  obtain us where us: "run_steps (writeRecord 0 demo_draw ''issuances'' ?v ''test'' (nat (oa_attempt demo_ordinary_attempt))
      (ordinary_attempt_json demo_ordinary_attempt)) (store_tree new_folder new_folder) = (Inr (), us)"
    by (rule issue_added[OF h empty_consistent demo_job_selector demo_ordinary_valid f m l _ _ w]) (simp_all add: all_records_def)
  have "ordinary_issue_run demo_art 0 demo_draw demo_ordinary_issue demo_attempt_id demo_now None
      = (Inr demo_ordinary_attempt, [None, Some new_folder, Some (put_dir kind_name new_folder new_folder),
          Some (put_dir kind_name (put_dir ''issuances'' new_folder new_folder) new_folder), store_tree new_folder new_folder] @ us)"
    by (simp only: ordinary_issue_run_def init_none prod.case sum.case list.simps last.simps simp_thms if_False if_True d us f(1,2) map_sum.simps)
  then show thesis by (rule that) simp
qed

lemma demo_started: "ordinary_reachable demo_art 0 \<lparr>op_running = True, op_store = None\<rparr>"
  unfolding ordinary_reachable_def
proof (rule r_into_rtranclp)
  show "ordinary_step demo_art 0 ordinary_initial \<lparr>op_running = True, op_store = None\<rparr>"
    by (rule ordinary_start)
      (simp_all add: ordinary_initial_def assertAuthoritativeOrdinaryAttemptStore_def assertOrdinaryAttemptStoreLayout_def)
qed

text \<open>The example process after its issuance, running and killed after \<open>t\<close>.\<close>

lemma demo_process:
  obtains ts where "ordinary_issue_run demo_art 0 demo_draw demo_ordinary_issue demo_attempt_id demo_now None = (Inr demo_ordinary_attempt, ts)"
    "ordinary_step demo_art 0 \<lparr>op_running = True, op_store = None\<rparr> \<lparr>op_running = True, op_store = last ts\<rparr>"
    "ordinary_reachable demo_art 0 \<lparr>op_running = True, op_store = last ts\<rparr>"
    "ordinary_reachable demo_art 0 \<lparr>op_running = False, op_store = Some new_folder\<rparr>"
proof -
  obtain ts where ts: "ordinary_issue_run demo_art 0 demo_draw demo_ordinary_issue demo_attempt_id demo_now None = (Inr demo_ordinary_attempt, ts)"
    "Some new_folder \<in> set ts" by (rule demo_ordinary_run)
  have s: "ordinary_step demo_art 0 \<lparr>op_running = True, op_store = None\<rparr> \<lparr>op_running = True, op_store = last ts\<rparr>"
    by (rule ordinary_issue[where w = demo_draw and input = demo_ordinary_issue and attemptId = demo_attempt_id and now = demo_now
          and r = "Inr demo_ordinary_attempt"]) (simp_all add: demo_issue_granted ts(1))
  have k: "ordinary_step demo_art 0 \<lparr>op_running = True, op_store = None\<rparr> \<lparr>op_running = False, op_store = Some new_folder\<rparr>"
    by (rule ordinary_issue_killed[where w = demo_draw and input = demo_ordinary_issue and attemptId = demo_attempt_id and now = demo_now
          and r = "Inr demo_ordinary_attempt" and ts = ts]) (simp_all add: demo_issue_granted ts)
  show thesis using that[OF ts(1) s] s k demo_started unfolding ordinary_reachable_def by (meson rtranclp.rtrancl_into_rtrancl)
qed

lemma demo_after:
  obtains s where "ordinary_reachable demo_art 0 \<lparr>op_running = True, op_store = s\<rparr>" "s \<noteq> None"
    "store_holds demo_art 0 False s (add_record (replicate 64 CHR ''b'') ''test'' demo_ordinary_attempt (\<lambda>_ _. [])) (\<lambda>_ _. [])"
    "\<exists>ts. ordinary_issue_run demo_art 0 demo_draw demo_ordinary_issue demo_attempt_id demo_now None = (Inr demo_ordinary_attempt, ts) \<and> last ts = s"
proof -
  obtain ts where ts: "ordinary_issue_run demo_art 0 demo_draw demo_ordinary_issue demo_attempt_id demo_now None = (Inr demo_ordinary_attempt, ts)"
    "ordinary_reachable demo_art 0 \<lparr>op_running = True, op_store = last ts\<rparr>" by (rule demo_process)
  have h: "store_holds demo_art 0 False (last ts) (add_record (replicate 64 CHR ''b'') ''test'' demo_ordinary_attempt (\<lambda>_ _. [])) (\<lambda>_ _. [])"
    by (rule issue_run[OF demo_none demo_issue_granted refl refl]) (use ts(1) in \<open>auto simp: demo_ordinary_job passes_def\<close>)
  have "last ts \<noteq> None"
  proof
    assume "last ts = None"
    with attempts_on_hold[OF h] show False by (simp add: attempts_on_def all_records_def)
  qed
  with h ts show thesis using that by blast
qed

lemma fresh_exists: "\<exists>i. fresh_inode i v j f"
proof -
  have "\<exists>i. list_all (\<lambda>e. snd e \<noteq> i) (ad_entries d)" for d
  proof -
    obtain i where "i \<notin> snd ` set (ad_entries d)" using ex_new_if_finite[of "snd ` set (ad_entries d)"] by auto
    then show ?thesis by (intro exI[of _ i]) (auto simp: list_all_iff)
  qed
  note fresh = this
  show ?thesis
  proof (cases "\<exists>y d. sub f v = Some (Dir y) \<and> sub y j = Some (Dir d)")
    case True
    then obtain y d where "sub f v = Some (Dir y)" "sub y j = Some (Dir d)" by blast
    with fresh[of d] show ?thesis by (simp add: fresh_inode_def)
  next
    case False
    then show ?thesis by (auto simp: fresh_inode_def split: option.split entry.split)
  qed
qed

lemma fresh_draw: "\<exists>i. fresh_for \<lparr>wd_identity = demo_uuid, wd_inode = i, wd_written = 0\<rparr> k v j s"
proof (cases "\<exists>root kind f. s = Some root \<and> sub root kind_name = Some (Dir kind) \<and> sub kind k = Some (Dir f)")
  case True
  then obtain root kind f where "s = Some root" "sub root kind_name = Some (Dir kind)" "sub kind k = Some (Dir f)" by blast
  then show ?thesis using fresh_exists[of v j f] demo_uuids(1) by (simp add: fresh_for_def)
next
  case False
  then show ?thesis using demo_uuids(1) by (auto simp: fresh_for_def split: option.split entry.split)
qed

definition demo_ordinary_revoke :: ordinary_revoke where
  "demo_ordinary_revoke = \<lparr>or_revocationRequestId = demo_attempt_id, or_reviewId = replicate 64 CHR ''b'', or_jobName = ''test'',
     or_attemptId = demo_attempt_id, or_revokedBy = ''issuer''\<rparr>"

definition demo_ordinary_revocation :: AuthoritativeOrdinaryAttemptRevocation where
  "demo_ordinary_revocation = next_revocation demo_ordinary_revoke demo_claim_id demo_now demo_ordinary_attempt"

lemma demo_revocation_text: "length (record_text ordinary_revocation_json demo_ordinary_revocation) \<le> 3000"
  by code_simp

lemma demo_revocation_valid: "ordinary_revocation_valid demo_art demo_ordinary_revocation"
  using demo_ordinary_valid demo_names
  by (simp add: ordinary_revocation_valid_def demo_ordinary_revocation_def next_revocation_def ordinary_attempt_valid_def
      demo_ordinary_revoke_def demo_art_def demo_ordinary_attempt_def next_ordinary_def demo_ordinary_job)

text \<open>The example goes on: the attempt is revoked, and a second one is issued.\<close>

abbreviation demo_ordinary_records :: attempts_by_job where
  "demo_ordinary_records \<equiv> add_record (replicate 64 CHR ''b'') ''test'' demo_ordinary_attempt (\<lambda>_ _. [])"

lemma demo_revocation_run:
  obtains s w ts where "ordinary_reachable demo_art 0 \<lparr>op_running = True, op_store = s\<rparr>"
    "store_holds demo_art 0 False s demo_ordinary_records (\<lambda>_ _. [])" "revoke_granted demo_art 0 w demo_ordinary_revoke demo_claim_id demo_now s"
    "ordinary_revoke_run demo_art 0 w demo_ordinary_revoke demo_claim_id demo_now s = (Inr demo_ordinary_revocation, ts)"
    "store_holds demo_art 0 False (last ts) demo_ordinary_records (add_record (replicate 64 CHR ''b'') ''test'' demo_ordinary_revocation (\<lambda>_ _. []))"
proof -
  let ?v = "replicate 64 CHR ''b''"
  obtain s where s: "ordinary_reachable demo_art 0 \<lparr>op_running = True, op_store = s\<rparr>" "store_holds demo_art 0 False s demo_ordinary_records (\<lambda>_ _. [])"
    by (rule demo_after)
  obtain i where i: "fresh_for \<lparr>wd_identity = demo_uuid, wd_inode = i, wd_written = 0\<rparr> ''revocations'' ?v ''test'' s" using fresh_draw by blast
  let ?w = "\<lparr>wd_identity = demo_uuid, wd_inode = i, wd_written = 0\<rparr>"
  have e: "set (attempts_on demo_art 0 s) = {demo_ordinary_attempt}" unfolding attempts_on_hold[OF s(2)] all_add_record by (simp add: all_records_def)
  have g: "revoke_granted demo_art 0 ?w demo_ordinary_revoke demo_claim_id demo_now s"
    using i demo_revocation_text unfolding revoke_granted_def list_all_iff e
    by (simp add: demo_ordinary_revoke_def[symmetric] demo_ordinary_revocation_def maximumRecordBytes_def)
      (simp add: demo_ordinary_revoke_def)
  have o: "?v = or_reviewId demo_ordinary_revoke" "''test'' = or_jobName demo_ordinary_revoke"
    "oa_attemptId demo_ordinary_attempt = or_attemptId demo_ordinary_revoke"
    by (simp_all add: demo_ordinary_revoke_def demo_ordinary_attempt_def next_ordinary_def)
  obtain ts where "ordinary_revoke_run demo_art 0 ?w demo_ordinary_revoke demo_claim_id demo_now s = (Inr demo_ordinary_revocation, ts)"
    "passes demo_art 0 ts demo_ordinary_records (\<lambda>_ _. []) demo_ordinary_records (add_record ?v ''test'' demo_ordinary_revocation (\<lambda>_ _. []))"
    by (rule revoke_next[OF s(2) g o(1,2)])
      (simp_all add: o(3) demo_ordinary_revocation_def[symmetric] demo_revocation_valid)
  then show thesis using that[OF s g] by (simp add: passes_def)
qed

definition demo_second_issue :: ordinary_issue where
  "demo_second_issue = demo_ordinary_issue\<lparr>oi_issuanceRequestId := demo_claim_id\<rparr>"

lemma demo_second_text: "length (record_text ordinary_attempt_json (next_ordinary demo_second_issue demo_request demo_now 2)) \<le> 3000"
  by code_simp

lemma demo_second:
  assumes "store_holds demo_art 0 False s demo_ordinary_records R"
  obtains w ts where "issue_granted demo_art 0 w demo_second_issue demo_request demo_now s"
    "ordinary_issue_run demo_art 0 w demo_second_issue demo_request demo_now s = (Inr (next_ordinary demo_second_issue demo_request demo_now 2), ts)"
proof -
  let ?v = "replicate 64 CHR ''b''"
  obtain i where i: "fresh_for \<lparr>wd_identity = demo_uuid, wd_inode = i, wd_written = 0\<rparr> ''issuances'' ?v ''test'' s" using fresh_draw by blast
  let ?w = "\<lparr>wd_identity = demo_uuid, wd_inode = i, wd_written = 0\<rparr>"
  have e: "set (attempts_on demo_art 0 s) = {demo_ordinary_attempt}" unfolding attempts_on_hold[OF assms] all_add_record by (simp add: all_records_def)
  have x: "oi_execution demo_second_issue = oi_execution demo_ordinary_issue" by (simp add: demo_second_issue_def)
  have o: "?v = ox_reviewId (oi_execution demo_second_issue)" "''test'' = od_jobName (ox_descriptor (oi_execution demo_second_issue))"
    by (simp_all add: x demo_ordinary_job)
  have n: "length (demo_ordinary_records ?v ''test'') + 1 = 2" by simp
  have d: "oa_attemptId demo_ordinary_attempt \<noteq> demo_request" "oa_issuanceRequestId demo_ordinary_attempt \<noteq> oi_issuanceRequestId demo_second_issue"
    by (simp_all add: demo_ordinary_attempt_def next_ordinary_def demo_second_issue_def demo_ordinary_issue_def demo_distinct
        demo_attempt_id_def demo_request_def)
  have g: "issue_granted demo_art 0 ?w demo_second_issue demo_request demo_now s"
    unfolding issue_granted_def Let_def o[symmetric] attempts_on_job[OF assms] n list_all_iff e
    using i d demo_ordinary_descriptor_valid demo_second_text by (simp add: x maximumRecordBytes_def) (simp add: demo_ordinary_issue_def)
  have valid: "ordinary_attempt_valid demo_art (next_ordinary demo_second_issue demo_request demo_now 2)"
    using demo_ordinary_valid
    by (simp add: ordinary_attempt_valid_def demo_ordinary_attempt_def next_ordinary_def x demo_second_issue_def safe_integer_def) (simp add: demo_art_def)
  show thesis
    by (rule issue_next[OF assms g o demo_job_selector]) (use that[OF g] d valid in \<open>simp_all add: maximumOrdinaryAttemptsPerJob_def numeral_2_eq_2\<close>)
qed

section \<open>Restarts\<close>

text \<open>C5: Whenever the service of ordinary attempts stops or is killed, at any call of the file system inside an
  issuance or a revocation, the check at the next start accepts its store, removes what the call left behind, and finds
  every attempt and every revocation that was on the files; the only exception is a kill while the folders of the store are made for
  the first time.\<close>

theorem ordinary_store_restarts:
  assumes "ordinary_reachable rt uid p" "\<not> op_running p" "\<not> half_made (op_store p)"
  shows "\<exists>t. assertAuthoritativeOrdinaryAttemptStore rt uid (op_store p) = (Inr (), t)
    \<and> set (attempts_on rt uid t) = set (attempts_on rt uid (op_store p))
    \<and> set (revocations_on rt uid t) = set (revocations_on rt uid (op_store p))"
proof -
  obtain A R where h: "process_holds rt uid p A R" by (rule reachable_holds[OF assms(1)])
  obtain t where t: "assertAuthoritativeOrdinaryAttemptStore rt uid (op_store p) = (Inr (), t)" "store_holds rt uid False t A R"
    by (rule start_cases[OF h assms(2)]) (use assms(3) in auto)
  then show ?thesis using process_records[OF h] attempts_on_hold revocations_on_hold by blast
qed

theorem ordinary_store_restarts_witness:
  "\<exists>s t. ordinary_reachable demo_art 0 \<lparr>op_running = False, op_store = s\<rparr>
    \<and> assertAuthoritativeOrdinaryAttemptStore demo_art 0 s = (Inr (), t) \<and> set (attempts_on demo_art 0 t) = {demo_ordinary_attempt}"
proof -
  obtain s where s: "ordinary_reachable demo_art 0 \<lparr>op_running = True, op_store = s\<rparr>" "store_holds demo_art 0 False s demo_ordinary_records (\<lambda>_ _. [])"
    by (rule demo_after)
  have "ordinary_step demo_art 0 \<lparr>op_running = True, op_store = s\<rparr> \<lparr>op_running = False, op_store = s\<rparr>"
    using ordinary_stop[of "\<lparr>op_running = True, op_store = s\<rparr>" demo_art 0] by simp
  with s(1) have r: "ordinary_reachable demo_art 0 \<lparr>op_running = False, op_store = s\<rparr>"
    unfolding ordinary_reachable_def by (rule rtranclp.rtrancl_into_rtrancl)
  have m: "\<not> half_made s" by (rule start_holds[OF s(2)]) (use half_made_refused[of s demo_art 0] in auto)
  have "set (attempts_on demo_art 0 s) = {demo_ordinary_attempt}"
    unfolding attempts_on_hold[OF s(2)] all_add_record by (simp add: all_records_def)
  then show ?thesis using ordinary_store_restarts[OF r] r m by auto
qed


section \<open>Records\<close>

text \<open>C17: No attempt and no revocation of an ordinary job is ever lost or changed, whatever the service does afterwards and
  wherever it is killed.\<close>

theorem ordinary_records_are_kept:
  assumes "ordinary_reachable rt uid p" "(ordinary_step rt uid)\<^sup>*\<^sup>* p q"
  shows "set (attempts_on rt uid (op_store p)) \<subseteq> set (attempts_on rt uid (op_store q))
    \<and> set (revocations_on rt uid (op_store p)) \<subseteq> set (revocations_on rt uid (op_store q))"
  using assms(2)
proof (induction rule: rtranclp_induct)
  case (step q q')
  have "ordinary_reachable rt uid q" using assms(1) step.hyps(1) unfolding ordinary_reachable_def by (rule rtranclp_trans)
  then obtain A R where "process_holds rt uid q A R" by (rule reachable_holds)
  then show ?case using step_keeps[OF step.hyps(2)] step.IH by blast
qed simp

theorem ordinary_records_are_kept_witness:
  "\<exists>s. ordinary_reachable demo_art 0 \<lparr>op_running = False, op_store = s\<rparr> \<and> demo_ordinary_attempt \<in> set (attempts_on demo_art 0 s)"
proof -
  obtain s where s: "ordinary_reachable demo_art 0 \<lparr>op_running = True, op_store = s\<rparr>" "store_holds demo_art 0 False s demo_ordinary_records (\<lambda>_ _. [])"
    by (rule demo_after)
  have t: "ordinary_step demo_art 0 \<lparr>op_running = True, op_store = s\<rparr> \<lparr>op_running = False, op_store = s\<rparr>"
    using ordinary_stop[of "\<lparr>op_running = True, op_store = s\<rparr>" demo_art 0] by simp
  have "demo_ordinary_attempt \<in> set (attempts_on demo_art 0 s)" unfolding attempts_on_hold[OF s(2)] by simp
  then have "demo_ordinary_attempt \<in> set (attempts_on demo_art 0 (op_store \<lparr>op_running = False, op_store = s\<rparr>))"
    using ordinary_records_are_kept[OF s(1) r_into_rtranclp[where r = "ordinary_step demo_art 0", OF t]] by auto
  moreover have "ordinary_reachable demo_art 0 \<lparr>op_running = False, op_store = s\<rparr>"
    using s(1) t unfolding ordinary_reachable_def by (rule rtranclp.rtrancl_into_rtrancl)
  ultimately show ?thesis by auto
qed

text \<open>C27: In every state of a running service the attempts of a job are numbered from one without a gap, there are at
  most 256 of them, and no two attempts of the store have the same identity.\<close>

theorem ordinary_attempts_are_numbered:
  assumes "ordinary_reachable rt uid p" "op_running p"
  shows "\<exists>n \<le> maximumOrdinaryAttemptsPerJob. oa_attempt ` {a. a \<in> set (attempts_on rt uid (op_store p)) \<and> oa_reviewId a = v
      \<and> od_jobName (oa_descriptor a) = j} = int ` {1..n}
    \<and> distinct (map oa_attemptId (attempts_on rt uid (op_store p)))"
proof -
  obtain A R where h: "store_holds rt uid False (op_store p) A R" by (rule running_holds[OF assms])
  have d: "distinct (map oa_attemptId (attempts_on rt uid (op_store p)))"
    using attempts_on_distinct[OF h] attempts_on_hold[OF h] h by (simp add: distinct_map store_holds_def consistent_def)
  show ?thesis
  proof (cases "op_store p")
    case None
    then show ?thesis using d by (intro exI[of _ 0]) (simp add: attempts_on_def)
  next
    case (Some root)
    then obtain fi where a: "attempts_hold rt uid False fi A" using h by (auto simp: store_holds_def)
    have r: "job_records (attempt_codec rt) ordinary_attempt_json (ordinary_attempt_valid rt) v j (A v j)" by (rule attempts_records[OF a])
    have c: "rc_contiguous (attempt_codec rt)" by (simp add: attempt_codec_def)
    have "{a. a \<in> set (attempts_on rt uid (op_store p)) \<and> oa_reviewId a = v \<and> od_jobName (oa_descriptor a) = j} = set (A v j)"
      using attempt_identity(1,2)[OF a] attempts_on_hold[OF h] by (auto simp: all_records_def)
    moreover have "oa_attempt ` set (A v j) = int ` set (map (record_number (attempt_codec rt)) (A v j))"
      using attempt_number[OF a] by (force simp: image_image)
    moreover have "set [1..<length (A v j) + 1] = {1..length (A v j)}" by auto
    ultimately show ?thesis using d r contiguous_numbers[OF r c] by (intro exI[of _ "length (A v j)"]) (simp add: job_records_def del: upt_Suc)
  qed
qed

theorem ordinary_attempts_are_numbered_witness:
  "\<exists>s n. n \<le> maximumOrdinaryAttemptsPerJob \<and> oa_attempt ` {a. a \<in> set (attempts_on demo_art 0 s) \<and> oa_reviewId a = replicate 64 CHR ''b''
      \<and> od_jobName (oa_descriptor a) = ''test''} = int ` {1..n} \<and> demo_ordinary_attempt \<in> set (attempts_on demo_art 0 s)"
proof -
  obtain s where s: "ordinary_reachable demo_art 0 \<lparr>op_running = True, op_store = s\<rparr>" "store_holds demo_art 0 False s demo_ordinary_records (\<lambda>_ _. [])"
    by (rule demo_after)
  have "demo_ordinary_attempt \<in> set (attempts_on demo_art 0 s)" unfolding attempts_on_hold[OF s(2)] by simp
  then show ?thesis using ordinary_attempts_are_numbered[OF s(1), of "replicate 64 CHR ''b''" "''test''"] by auto
qed

section \<open>Answers\<close>

text \<open>C18: The attempt that an issuance answers is, once the call is over, what the store says to be the current attempt of the
  job, with no revocation; it carries the identity of the request and what the request asked for.\<close>

theorem issued_ordinary_attempt_is_current:
  assumes "ordinary_reachable rt uid p" "op_running p" "issue_granted rt uid w input attemptId now (op_store p)"
    "ordinary_issue_run rt uid w input attemptId now (op_store p) = (Inr a, ts)"
  shows "ordinary_current rt uid (last ts) (ox_reviewId (oi_execution input)) (od_jobName (ox_descriptor (oi_execution input)))
      = Inr (Some \<lparr>co_attempt = a, co_revocation = None\<rparr>)
    \<and> issueMatches a input \<and> oa_issuanceRequestId a = oi_issuanceRequestId input"
proof -
  obtain A R where h: "store_holds rt uid False (op_store p) A R" by (rule running_holds[OF assms(1,2)])
  obtain A' where a: "store_holds rt uid False (last ts) A' R"
    "A' (ox_reviewId (oi_execution input)) (od_jobName (ox_descriptor (oi_execution input))) \<noteq> []"
    "last (A' (ox_reviewId (oi_execution input)) (od_jobName (ox_descriptor (oi_execution input)))) = a" "issueMatches a input"
    "find_row (\<lambda>r. revocationMatches r a) (R (ox_reviewId (oi_execution input)) (od_jobName (ox_descriptor (oi_execution input)))) = None"
    "oa_issuanceRequestId a = oi_issuanceRequestId input" by (rule issue_answer[OF h assms(3,4) refl refl])
  then show ?thesis using current_holds[OF a(1) selector_holds[where A = A', OF a(1,2)]] by (simp add: current_of_def)
qed

theorem issued_ordinary_attempt_is_current_witness:
  "\<exists>s. ordinary_current demo_art 0 s (replicate 64 CHR ''b'') ''test''
    = Inr (Some \<lparr>co_attempt = demo_ordinary_attempt, co_revocation = None\<rparr>) \<and> oa_issuanceRequestId demo_ordinary_attempt = demo_uuid"
proof -
  obtain ts where ts: "ordinary_issue_run demo_art 0 demo_draw demo_ordinary_issue demo_attempt_id demo_now None = (Inr demo_ordinary_attempt, ts)"
    by (rule demo_process)
  show ?thesis
    using issued_ordinary_attempt_is_current[OF demo_started, of demo_draw demo_ordinary_issue demo_attempt_id demo_now demo_ordinary_attempt ts]
      demo_issue_granted ts by (auto simp: demo_ordinary_job) (simp add: demo_ordinary_issue_def)
qed

text \<open>C19: An issuance whose answer is lost can be repeated: the same request is answered by the same attempt, with no other
  attempt made and nothing written, whatever UUID, time and temporary file are drawn for it.\<close>

theorem ordinary_issuance_is_idempotent:
  assumes "ordinary_reachable rt uid p" "op_running p" "issue_granted rt uid w input attemptId now (op_store p)"
    "ordinary_issue_run rt uid w input attemptId now (op_store p) = (Inr a, ts)"
  shows "ordinary_issue_run rt uid w' input attemptId' now' (last ts) = (Inr a, replicate 5 (last ts))"
proof -
  obtain A R where h: "store_holds rt uid False (op_store p) A R" by (rule running_holds[OF assms(1,2)])
  obtain A' where a: "store_holds rt uid False (last ts) A' R"
    "A' (ox_reviewId (oi_execution input)) (od_jobName (ox_descriptor (oi_execution input))) \<noteq> []"
    "last (A' (ox_reviewId (oi_execution input)) (od_jobName (ox_descriptor (oi_execution input)))) = a" "issueMatches a input"
    "find_row (\<lambda>r. revocationMatches r a) (R (ox_reviewId (oi_execution input)) (od_jobName (ox_descriptor (oi_execution input)))) = None"
    "oa_issuanceRequestId a = oi_issuanceRequestId input" by (rule issue_answer[OF h assms(3,4) refl refl])
  have "last ts \<noteq> None"
  proof
    assume "last ts = None"
    with a(1,2) show False by (auto simp: store_holds_def)
  qed
  then show ?thesis by (rule issue_again[OF a(1) _ a(2-6) refl refl])
qed

theorem ordinary_issuance_is_idempotent_witness:
  "\<exists>s. ordinary_issue_run demo_art 0 demo_draw demo_ordinary_issue demo_request demo_now s = (Inr demo_ordinary_attempt, replicate 5 s)"
proof -
  obtain ts where ts: "ordinary_issue_run demo_art 0 demo_draw demo_ordinary_issue demo_attempt_id demo_now None = (Inr demo_ordinary_attempt, ts)"
    by (rule demo_process)
  show ?thesis
    using ordinary_issuance_is_idempotent[OF demo_started, of demo_draw demo_ordinary_issue demo_attempt_id demo_now demo_ordinary_attempt ts
        demo_draw demo_request demo_now] demo_issue_granted ts by auto
qed



text \<open>A revocation that is answered names the current attempt of its job, and from then on the store shows this attempt as
  revoked by it.\<close>

theorem ordinary_revocation_is_current:
  assumes "ordinary_reachable rt uid p" "op_running p" "revoke_granted rt uid w input revocationId now (op_store p)"
    "ordinary_revoke_run rt uid w input revocationId now (op_store p) = (Inr r, ts)"
  shows "\<exists>a. ordinary_current rt uid (last ts) (or_reviewId input) (or_jobName input) = Inr (Some \<lparr>co_attempt = a, co_revocation = Some r\<rparr>)
    \<and> oa_attemptId a = or_attemptId input"
proof -
  obtain A R where h: "store_holds rt uid False (op_store p) A R" by (rule running_holds[OF assms(1,2)])
  obtain R' where r: "store_holds rt uid False (last ts) A R'" "A (or_reviewId input) (or_jobName input) \<noteq> []"
    "oa_attemptId (last (A (or_reviewId input) (or_jobName input))) = or_attemptId input"
    "find_row (\<lambda>r. revocationMatches r (last (A (or_reviewId input) (or_jobName input)))) (R' (or_reviewId input) (or_jobName input)) = Some r"
    by (rule revoke_answer[OF h assms(3,4) refl refl])
  then show ?thesis using current_holds[OF r(1) selector_holds[where A = A, OF r(1,2)]] by (simp add: current_of_def)
qed

theorem ordinary_revocation_is_current_witness:
  "\<exists>s (a :: AuthoritativeOrdinaryAttempt). ordinary_current demo_art 0 s (replicate 64 CHR ''b'') ''test''
    = Inr (Some \<lparr>co_attempt = a, co_revocation = Some demo_ordinary_revocation\<rparr>) \<and> oa_attemptId a = demo_attempt_id"
proof -
  obtain s w ts where s: "ordinary_reachable demo_art 0 \<lparr>op_running = True, op_store = s\<rparr>"
    "revoke_granted demo_art 0 w demo_ordinary_revoke demo_claim_id demo_now s"
    "ordinary_revoke_run demo_art 0 w demo_ordinary_revoke demo_claim_id demo_now s = (Inr demo_ordinary_revocation, ts)" by (rule demo_revocation_run)
  show ?thesis using ordinary_revocation_is_current[OF s(1), of w demo_ordinary_revoke demo_claim_id demo_now demo_ordinary_revocation ts] s(2,3)
    by (auto simp: demo_ordinary_revoke_def)
qed

end
