(* ===== verification/Ordinary_Service.thy ===== *)
theory Ordinary_Service
  imports Ordinary_Guarantees Authority_Service
begin

text \<open>
  The HTTP routes of the authority for ordinary attempts (\<open>native-ordinary-attempt-http.ts\<close>): its identity, execution
  descriptors, attempts and revocations, and the verification of a reservation claim (\<open>ordinary-reservation-claim.ts\<close>)
  that precedes every issuance. A Project has its own store, in its repository; operations run one after the
  other (\<open>serialize\<close>). What a request observes and draws and what the verifier answers are inputs. A request ends with the
  conflict of a claim, a descriptor or the store, or finds the authority unavailable.
\<close>

section \<open>Reservation claims\<close>

record OrdinaryReservationClaim =
  ol_claimId :: string
  ol_issuanceRequestId :: string
  ol_event :: AuthoritativeNativeReviewEvent
  ol_hostId :: string
  ol_capacity :: string
  ol_trusted :: TrustedCapacity

definition zod_natural :: "json option \<Rightarrow> int option" where
  "zod_natural v = do { i \<leftarrow> as_int v; guardO (0 \<le> i); Some i }"

record root_admission =
  ra_projectId :: string
  ra_protectedRef :: string
  ra_rootCommit :: string
  ra_rootTree :: string

definition rootAdmission :: "json option \<Rightarrow> root_admission option" where
  "rootAdmission value = do {
     v \<leftarrow> as_record value;
     guardO (strict_object v [''projectId'', ''repositoryId'', ''importNonce'', ''rootSequence'', ''protectedRef'',
       ''rootCommit'', ''rootTree'', ''policyDigest'', ''capacityConfigDigest'', ''leaseExpiresAt''] []);
     projectId \<leftarrow> as_matching projectPattern (get_field v ''projectId'');
     as_literal (JStr ''root'') (get_field v ''repositoryId'');
     importNonce \<leftarrow> as_matching uuidPattern (get_field v ''importNonce'');
     rootSequence \<leftarrow> zod_natural (get_field v ''rootSequence'');
     protectedRef \<leftarrow> as_string (get_field v ''protectedRef'');
     guardO (startsWith ''refs/heads/'' protectedRef);
     rootCommit \<leftarrow> as_matching objectIdPattern (get_field v ''rootCommit'');
     rootTree \<leftarrow> as_matching objectIdPattern (get_field v ''rootTree'');
     policyDigest \<leftarrow> as_matching hex64Pattern (get_field v ''policyDigest'');
     capacityConfigDigest \<leftarrow> as_matching hex64Pattern (get_field v ''capacityConfigDigest'');
     leaseExpiresAt \<leftarrow> zod_positive (get_field v ''leaseExpiresAt'');
     Some \<lparr>ra_projectId = projectId, ra_protectedRef = protectedRef, ra_rootCommit = rootCommit, ra_rootTree = rootTree\<rparr> }"

definition admission_matches :: "root_admission \<Rightarrow> AuthoritativeNativeReviewEvent \<Rightarrow> bool" where
  "admission_matches a e \<longleftrightarrow> ra_projectId a = re_eventProjectId e \<and> ra_protectedRef a = re_protectedRef e
     \<and> ra_rootCommit a = re_expectedProtectedHead e \<and> length (ra_rootTree a) = length (ra_rootCommit a)"

definition ordinaryReservationClaimSchema :: "json \<Rightarrow> OrdinaryReservationClaim option" where
  "ordinaryReservationClaimSchema v = do {
     guardO (strict_object v [''schemaVersion'', ''serviceId'', ''generationId'', ''serviceEpochId'', ''requestId'', ''claimId'',
       ''issuanceRequestId'', ''demandId'', ''admissionGeneration'', ''eventDigest'', ''event'', ''admission'', ''hostId'',
       ''capacity'', ''runnerBaseImage'', ''jobBaseImage'', ''bounds''] []);
     as_literal (JInt 1) (get_field v ''schemaVersion'');
     as_literal (JStr ''ordinary-main'') (get_field v ''serviceId'');
     generationId \<leftarrow> as_matching hex64Pattern (get_field v ''generationId'');
     serviceEpochId \<leftarrow> as_matching uuidPattern (get_field v ''serviceEpochId'');
     requestId \<leftarrow> as_matching uuidPattern (get_field v ''requestId'');
     claimId \<leftarrow> as_matching uuidPattern (get_field v ''claimId'');
     issuanceRequestId \<leftarrow> as_matching uuidPattern (get_field v ''issuanceRequestId'');
     demandId \<leftarrow> as_matching uuidPattern (get_field v ''demandId'');
     generation \<leftarrow> as_matching uuidPattern (get_field v ''admissionGeneration'');
     eventDigest \<leftarrow> as_matching digestPattern (get_field v ''eventDigest'');
     event \<leftarrow> Option.bind (get_field v ''event'') authoritativeNativeReviewEventSchema;
     guardO (re_executionKind event = OrdinarySysbox);
     admission \<leftarrow> rootAdmission (get_field v ''admission'');
     hostId \<leftarrow> as_matching identifierPattern (get_field v ''hostId'');
     capacity \<leftarrow> as_matching identifierPattern (get_field v ''capacity'');
     runnerBaseImage \<leftarrow> as_matching imagePattern (get_field v ''runnerBaseImage'');
     jobBaseImage \<leftarrow> as_matching imagePattern (get_field v ''jobBaseImage'');
     bounds \<leftarrow> zod_bounds (get_field v ''bounds'');
     guardO (issuanceRequestId = claimId \<and> admission_matches admission event);
     Some \<lparr>ol_claimId = claimId, ol_issuanceRequestId = issuanceRequestId, ol_event = event, ol_hostId = hostId,
       ol_capacity = capacity, ol_trusted = \<lparr>tc_admissionGeneration = generation, tc_jobBaseImage = jobBaseImage,
         tc_runnerBaseImage = runnerBaseImage, tc_bounds = bounds\<rparr>\<rparr> }"

text \<open>What the service of reservations answers; \<open>None\<close> when the request fails.\<close>

record verifier_response =
  vr_statusCode :: int
  vr_contentType :: "string option"
  vr_cacheControl :: "string option"
  vr_bodyBytes :: nat
  vr_json :: "json option"

datatype claim_verdict = ClaimVerified | ClaimRejected int | ClaimUnavailable

definition verifyReservationClaim ::
  "string \<Rightarrow> string \<Rightarrow> OrdinaryReservationClaim \<Rightarrow> verifier_response option \<Rightarrow> claim_verdict" where
  "verifyReservationClaim serviceId requestId claim answer = (case answer of
     None \<Rightarrow> ClaimUnavailable
   | Some r \<Rightarrow>
       if vr_statusCode r = 404 \<or> vr_statusCode r = 409 then ClaimRejected (vr_statusCode r)
       else if vr_statusCode r \<noteq> 200 \<or> vr_contentType r \<noteq> Some ''application/json'' \<or> vr_cacheControl r \<noteq> Some ''no-store''
         \<or> vr_bodyBytes r > 64 * 1024 then ClaimUnavailable
       else case vr_json r of
           None \<Rightarrow> ClaimUnavailable
         | Some body \<Rightarrow>
             if deep_eq body (JObj [(''schemaVersion'', JInt 1), (''serviceId'', JStr serviceId), (''requestId'', JStr requestId),
               (''claimId'', JStr (ol_claimId claim)), (''issuanceRequestId'', JStr (ol_issuanceRequestId claim)),
               (''authorized'', JBool True)]) then ClaimVerified else ClaimUnavailable)"

section \<open>Requests\<close>

record ordinary_ci_config =
  oc_serviceId :: string
  oc_verifierServiceId :: string
  oc_attemptIssuer :: "string \<times> string"
  oc_knownCredentials :: "(string \<times> string) list"

datatype attempt_route = ODescriptor string string | OIssue string string | ORevoke string string

definition attemptRoute :: "reviewer_request \<Rightarrow> attempt_route option" where
  "attemptRoute request =
     (if vq_method request \<noteq> ''POST'' \<or> vq_search request \<noteq> [] then None
      else case split_on CHR ''/'' (vq_pathname request) of
        [[], a, b, projectId, c, d, e, reviewId, action] \<Rightarrow>
          if a \<noteq> ''v1'' \<or> b \<noteq> ''projects'' \<or> c \<noteq> ''repositories'' \<or> d \<noteq> ''root'' \<or> e \<noteq> ''reviews''
            \<or> \<not> matches projectPattern projectId \<or> \<not> matches hex64Pattern reviewId then None
          else if action = ''ordinary-execution-descriptors'' then Some (ODescriptor projectId reviewId)
          else if action = ''job-attempts'' then Some (OIssue projectId reviewId)
          else if action = ''job-attempt-revocations'' then Some (ORevoke projectId reviewId) else None
      | _ \<Rightarrow> None)"

definition attempt_authorized :: "ordinary_ci_config \<Rightarrow> reviewer_request \<Rightarrow> bool" where
  "attempt_authorized config request = basicAuthorized request (fst (oc_attemptIssuer config)) (snd (oc_attemptIssuer config))"

definition attempt_refused :: "ordinary_ci_config \<Rightarrow> reviewer_request \<Rightarrow> reviewer_reply" where
  "attempt_refused config request =
     (if list_ex (\<lambda>c. basicAuthorized request (fst c) (snd c)) (oc_knownCredentials config) then error_reply 403 ''forbidden''
      else error_reply 401 ''unauthorized'')"

definition attempt_body :: "reviewer_request \<Rightarrow> json option" where
  "attempt_body request =
     (if vq_content_type request \<noteq> Some ''application/json'' \<or> vq_body_bytes request > 64 * 1024 then None else vq_json request)"

text \<open>A reply that is too long is replaced by one without a body, here \<open>null\<close>.\<close>

definition attempt_reply :: "int \<Rightarrow> json \<Rightarrow> reviewer_reply" where
  "attempt_reply code body = (if length (stringify body) + 1 > 64 * 1024 then Replied 500 JNull else Replied code body)"

definition attemptIssueRequest :: "json \<Rightarrow> (string \<times> OrdinaryReservationClaim) option" where
  "attemptIssueRequest v = do {
     guardO (strict_object v [''schemaVersion'', ''descriptorDigest'', ''claim''] []);
     as_literal (JInt 1) (get_field v ''schemaVersion'');
     digest \<leftarrow> as_matching digestPattern (get_field v ''descriptorDigest'');
     claim \<leftarrow> Option.bind (get_field v ''claim'') ordinaryReservationClaimSchema;
     Some (digest, claim) }"

definition attemptRevokeRequest :: "project_runtime \<Rightarrow> json \<Rightarrow> (string \<times> string \<times> string) option" where
  "attemptRevokeRequest rt v = do {
     guardO (strict_object v [''schemaVersion'', ''revocationRequestId'', ''jobName'', ''attemptId''] []);
     as_literal (JInt 1) (get_field v ''schemaVersion'');
     revocationRequestId \<leftarrow> zod_checked (zod_uuid rt) (get_field v ''revocationRequestId'');
     jobName \<leftarrow> as_matching namePattern (get_field v ''jobName'');
     attemptId \<leftarrow> zod_checked (zod_uuid rt) (get_field v ''attemptId'');
     guardO (revocationRequestId = attemptId);
     Some (revocationRequestId, jobName, attemptId) }"

section \<open>Handlers\<close>

text \<open>A failure is a conflict with the current authority, or makes it unavailable.\<close>

datatype attempt_failure = Conflicts | Unavailable

fun store_failure :: "ordinary_error \<Rightarrow> attempt_failure" where
  "store_failure e = (if e \<in> set [IdentityDuplicated, RevocationDuplicated, RevocationMismatch, RevocationInvalid, IssuanceUsed, JobFull,
     CurrentMissing, AlreadyRevoked] then Conflicts else Unavailable)"

fun failure_reply :: "attempt_failure \<Rightarrow> reviewer_reply" where
  "failure_reply Conflicts = error_reply 409 ''ordinary attempt tuple conflicts with current authority''"
| "failure_reply Unavailable = error_reply 503 ''ordinary attempt authority is unavailable''"

record ordinary_attempt_io =
  aq_uid :: nat
  aq_generationId :: string
  aq_activated :: bool
  aq_target :: resolution
  aq_execution :: execution_io
  aq_verifierRequestId :: string
  aq_verification :: "verifier_response option"
  aq_hookFails :: bool
  aq_draw :: write_draw
  aq_identity :: string
  aq_now :: string

definition attempt_envelope :: "ordinary_ci_config \<Rightarrow> ordinary_attempt_io \<Rightarrow> (string \<times> json) list \<Rightarrow> json" where
  "attempt_envelope config io body = JObj ([(''schemaVersion'', JInt 1), (''serviceId'', JStr (oc_serviceId config)),
     (''servingGenerationId'', JStr (aq_generationId io))] @ body)"

definition identity_answer :: "ordinary_ci_config \<Rightarrow> ordinary_attempt_io \<Rightarrow> json" where
  "identity_answer config io = JObj [(''schemaVersion'', JInt 1), (''serviceId'', JStr (oc_serviceId config)),
     (''role'', JStr ''native-ordinary-attempt-issuer''),
     (''scope'', JArr (map JStr [''ordinary-descriptor:derive'', ''ordinary-attempt:issue'', ''ordinary-attempt:revoke''])),
     (''generationId'', JStr (aq_generationId io))]"

definition serveOrdinaryDescriptor ::
  "project_runtime \<Rightarrow> ordinary_ci_config \<Rightarrow> ordinary_attempt_io \<Rightarrow> string \<Rightarrow> string \<Rightarrow> string \<times> TrustedCapacity \<Rightarrow> reviewer_reply" where
  "serveOrdinaryDescriptor rt config io projectId reviewId request =
     (case deriveAuthoritativeOrdinaryExecutionDescriptor rt (aq_execution io) projectId reviewId (fst request) (snd request) of
        None \<Rightarrow> failure_reply Conflicts
      | Some x \<Rightarrow> attempt_reply 200 (attempt_envelope config io [(''kind'', JStr ''ordinary-sysbox''), (''reviewId'', JStr (ox_reviewId x)),
          (''descriptor'', ordinary_descriptor_json (ox_descriptor x)), (''digest'', JStr (ox_digest x))]))"

text \<open>What an issuance is asked for, once the claim names the path and the descriptor is derived again.\<close>

definition ordinary_issue_of ::
  "project_runtime \<Rightarrow> ordinary_ci_config \<Rightarrow> ordinary_attempt_io \<Rightarrow> string \<Rightarrow> string \<Rightarrow> string \<Rightarrow> OrdinaryReservationClaim \<Rightarrow>
     (attempt_failure, ordinary_issue) result" where
  "ordinary_issue_of rt config io projectId reviewId expectedDigest claim =
     (if aq_hookFails io then Inl Unavailable
      else if re_eventProjectId (ol_event claim) \<noteq> projectId \<or> re_reviewId (ol_event claim) \<noteq> reviewId then Inl Conflicts
      else case deriveAuthoritativeOrdinaryExecutionDescriptor rt (aq_execution io) projectId reviewId
            (re_jobName (ol_event claim)) (ol_trusted claim) of
          None \<Rightarrow> Inl Conflicts
        | Some execution \<Rightarrow>
            if ox_digest execution \<noteq> expectedDigest then Inl Conflicts
            else case resolve_target rt (aq_target io) projectId of
                None \<Rightarrow> Inl Unavailable
              | Some target \<Rightarrow> Inr \<lparr>oi_issuanceRequestId = ol_issuanceRequestId claim, oi_execution = execution,
                  oi_hostId = ol_hostId claim, oi_capacity = ol_capacity claim, oi_issuedBy = fst (oc_attemptIssuer config)\<rparr>)"

text \<open>A rejected claim is only answered by an attempt that it was issued before.\<close>

definition issue_verified ::
  "project_runtime \<Rightarrow> ordinary_attempt_io \<Rightarrow> claim_verdict \<Rightarrow> ordinary_issue \<Rightarrow> ordinary_store \<Rightarrow>
     (attempt_failure, AuthoritativeOrdinaryAttempt) result \<times> ordinary_store" where
  "issue_verified rt io verdict input store = (case verdict of
     ClaimUnavailable \<Rightarrow> (Inl Unavailable, store)
   | ClaimRejected code \<Rightarrow>
       if code \<noteq> 409 then (Inl Conflicts, store)
       else (case ordinary_replay rt (aq_uid io) store input of
           Inl e \<Rightarrow> (Inl (store_failure e), store)
         | Inr None \<Rightarrow> (Inl Conflicts, store)
         | Inr (Some attempt) \<Rightarrow> (Inr attempt, store))
   | ClaimVerified \<Rightarrow>
       (case ordinary_issue_run rt (aq_uid io) (aq_draw io) input (aq_identity io) (aq_now io) store of
          (Inl e, ts) \<Rightarrow> (Inl (store_failure e), last ts)
        | (Inr attempt, ts) \<Rightarrow> (Inr attempt, last ts)))"

definition serveOrdinaryIssue ::
  "project_runtime \<Rightarrow> ordinary_ci_config \<Rightarrow> ordinary_attempt_io \<Rightarrow> string \<Rightarrow> string \<Rightarrow> string \<times> OrdinaryReservationClaim \<Rightarrow>
     ordinary_store \<Rightarrow> reviewer_reply \<times> ordinary_store" where
  "serveOrdinaryIssue rt config io projectId reviewId request store =
     (case ordinary_issue_of rt config io projectId reviewId (fst request) (snd request) of
        Inl e \<Rightarrow> (failure_reply e, store)
      | Inr input \<Rightarrow>
          (case issue_verified rt io (verifyReservationClaim (oc_verifierServiceId config) (aq_verifierRequestId io) (snd request)
              (aq_verification io)) input store of
             (Inl e, s) \<Rightarrow> (failure_reply e, s)
           | (Inr attempt, s) \<Rightarrow> (attempt_reply 201 (attempt_envelope config io [(''attempt'', ordinary_attempt_json attempt)]), s)))"

definition ordinary_revoke_of :: "ordinary_ci_config \<Rightarrow> string \<Rightarrow> string \<times> string \<times> string \<Rightarrow> ordinary_revoke" where
  "ordinary_revoke_of config reviewId request = (case request of (revocationRequestId, jobName, attemptId) \<Rightarrow>
     \<lparr>or_revocationRequestId = revocationRequestId, or_reviewId = reviewId, or_jobName = jobName, or_attemptId = attemptId,
      or_revokedBy = fst (oc_attemptIssuer config)\<rparr>)"

definition serveOrdinaryRevoke ::
  "project_runtime \<Rightarrow> ordinary_ci_config \<Rightarrow> ordinary_attempt_io \<Rightarrow> string \<Rightarrow> string \<Rightarrow> string \<times> string \<times> string \<Rightarrow>
     ordinary_store \<Rightarrow> reviewer_reply \<times> ordinary_store" where
  "serveOrdinaryRevoke rt config io projectId reviewId request store =
     (case resolve_target rt (aq_target io) projectId of
        None \<Rightarrow> (failure_reply Unavailable, store)
      | Some target \<Rightarrow>
          (case ordinary_revoke_run rt (aq_uid io) (aq_draw io) (ordinary_revoke_of config reviewId request) (aq_identity io) (aq_now io) store of
             (Inl e, ts) \<Rightarrow> (failure_reply (store_failure e), last ts)
           | (Inr revocation, ts) \<Rightarrow>
               (attempt_reply 201 (attempt_envelope config io [(''revocation'', ordinary_revocation_json revocation)]), last ts)))"

definition handleOrdinaryAttempt ::
  "project_runtime \<Rightarrow> ordinary_ci_config \<Rightarrow> ordinary_attempt_io \<Rightarrow> reviewer_request \<Rightarrow> (string \<Rightarrow> ordinary_store) \<Rightarrow>
     reviewer_reply \<times> (string \<Rightarrow> ordinary_store)" where
  "handleOrdinaryAttempt rt config io request stores =
     (if vq_method request = ''GET'' \<and> vq_search request = []
        \<and> vq_pathname request = ''/v1/native-ordinary-attempt-authority/identity'' then
        (if \<not> attempt_authorized config request then attempt_refused config request
         else attempt_reply 200 (identity_answer config io), stores)
      else case attemptRoute request of
        None \<Rightarrow> (NotHandled, stores)
      | Some route \<Rightarrow>
          if \<not> attempt_authorized config request then (attempt_refused config request, stores)
          else if vq_generation_id request \<noteq> Some (aq_generationId io) then
            (error_reply 409 ''attempt authority generation conflicts with service startup'', stores)
          else if \<not> aq_activated io then (failure_reply Unavailable, stores)
          else (let invalid = (error_reply 400 ''attempt authority request is invalid'', stores) in
            case attempt_body request of
              None \<Rightarrow> invalid
            | Some body \<Rightarrow> (case route of
                ODescriptor p v \<Rightarrow> (case descriptorRequest body of
                    None \<Rightarrow> invalid
                  | Some r \<Rightarrow> (serveOrdinaryDescriptor rt config io p v r, stores))
              | OIssue p v \<Rightarrow> (case attemptIssueRequest body of
                    None \<Rightarrow> invalid
                  | Some r \<Rightarrow> (case serveOrdinaryIssue rt config io p v r (stores p) of (reply, s) \<Rightarrow> (reply, stores(p := s))))
              | ORevoke p v \<Rightarrow> (case attemptRevokeRequest rt body of
                    None \<Rightarrow> invalid
                  | Some r \<Rightarrow> (case serveOrdinaryRevoke rt config io p v r (stores p) of (reply, s) \<Rightarrow> (reply, stores(p := s)))))))"

section \<open>What an attempt is issued for\<close>

lemma ordinary_script_parsed: "zod_script (Some (ordinary_script_json s)) = Some t \<Longrightarrow> t = s"
  by (cases s) (auto simp: zod_script_def zod_scriptPath_def ordinary_script_json_def opt_conv)

lemma ordinary_descriptor_json_parsed:
  "candidateOrdinaryExecutionDescriptorSchema (ordinary_descriptor_json d) = Some e \<Longrightarrow> e = d"
  unfolding candidateOrdinaryExecutionDescriptorSchema_def Let_def opt_conv zod_bounds_parse zod_blob_parse
  by (cases d) (auto simp: ordinary_descriptor_json_def candidateArgv_def map_eq_Cons_conv zod_protectedRef_eq
      dest: parts_json_parsed ordinary_script_parsed)

lemma ordinary_for_current_review:
  assumes "deriveAuthoritativeOrdinaryExecutionDescriptor rt io p v jobName capacity = Some x"
  obtains target envelope blob where "resolve_target rt (xe_current io) p = Some target"
    "readAuthoritativeNativeReviewEnvelope (xe_current_reviews io) v = Some envelope"
    "nativeHumanReviewStaleReasons (xe_current_freshness io) target (en_review envelope) = []"
    "readCandidateBlob (ca_read (xe_candidate io)) (rv_candidateTree (en_review envelope)) (sr_path (od_script (ox_descriptor x))) (1024 * 1024) = Some blob"
    "sr_objectId (od_script (ox_descriptor x)) = gb_objectId blob" "sr_sha256 (od_script (ox_descriptor x)) = bytes_digest rt (gb_bytes blob)"
    "od_projectId (ox_descriptor x) = p" "od_jobName (ox_descriptor x) = jobName"
    "od_candidateCommit (ox_descriptor x) = rv_candidateCommit (en_review envelope)"
    "od_candidateTree (ox_descriptor x) = rv_candidateTree (en_review envelope)"
    "od_expectedProtectedHead (ox_descriptor x) = rv_expectedProtectedHead (en_review envelope)"
    "ordinary_descriptor_valid (ox_descriptor x)" "ox_digest x = descriptorDigest rt (ox_descriptor x)" "ox_reviewId x = v"
proof -
  from assms obtain target envelope inputs review selected config where
    1: "loadAuthoritativeExecutionReview rt io p v = Some (target, envelope)"
      "loadCurrentAuthoritativeExecutionInputs rt io (target, envelope) = Some (inputs, review)"
      "find_row (\<lambda>j. pj_jobName j = jobName) (ni_plan inputs) = Some selected"
      "candidateOrdinaryExecutionDescriptorSchema (ordinary_descriptor_json
         (derived_ordinary_descriptor capacity review (en_qualityRevision envelope) config selected)) = Some (ox_descriptor x)"
      "ox_digest x = descriptorDigest rt (ox_descriptor x)" "ox_reviewId x = rv_reviewId review"
    unfolding deriveAuthoritativeOrdinaryExecutionDescriptor_def by (auto simp: opt_conv)
  have e: "readAuthoritativeNativeReviewEnvelope (xe_snapshot_reviews io) v = Some envelope" "rv_projectId (en_review envelope) = p"
    using 1(1) by (auto simp: loadAuthoritativeExecutionReview_def opt_conv)
  have rid: "rv_reviewId (en_review envelope) = v" by (rule read_envelope(2)[OF e(1)])
  have 2: "loadAuthoritativeNativeCandidateJobInputs rt io p (rv_candidateCommit (en_review envelope)) (rv_candidateTree (en_review envelope)) = Some inputs"
      "resolve_target rt (xe_current io) p = Some target"
      "readAuthoritativeNativeReviewEnvelope (xe_current_reviews io) v = Some envelope"
      "nativeHumanReviewStaleReasons (xe_current_freshness io) target (en_review envelope) = []" "review = en_review envelope"
    using 1(2) e(2) rid by (auto simp: loadCurrentAuthoritativeExecutionInputs_def Let_def opt_conv)
  from 2(1) obtain t where 3: "readNativeCandidateJobInputsFromGit rt (xe_candidate io) t = Some inputs"
      "ct_candidateTree t = rv_candidateTree (en_review envelope)"
    unfolding loadAuthoritativeNativeCandidateJobInputs_def by (auto simp: opt_conv)
  have d: "ox_descriptor x = derived_ordinary_descriptor capacity review (en_qualityRevision envelope) config selected"
    by (rule ordinary_descriptor_json_parsed[OF 1(4)])
  have sel: "selected \<in> set (ni_plan inputs)" "pj_jobName selected = jobName" using find_row_Some[OF 1(3)] by auto
  obtain blob where "readCandidateBlob (ca_read (xe_candidate io)) (ct_candidateTree t) (pj_scriptPath selected) (1024 * 1024) = Some blob"
      "pj_scriptObjectId selected = gb_objectId blob" "pj_scriptSha256 selected = bytes_digest rt (gb_bytes blob)"
    by (rule plan_entry_script[OF 3(1) sel(1)])
  then show thesis using 1(5,6) 2 3(2) e(2) sel(2) rid ordinary_descriptor_schema_valid[OF 1(4)]
    by (intro that[OF 2(2-4), of blob]) (simp_all add: d derived_ordinary_descriptor_def)
qed

text \<open>Whatever way an attempt is answered, it is the one that is asked for.\<close>

lemma replayed_matches: "replayed rt uid store input prior = Inr a \<Longrightarrow> a = prior \<and> issueMatches a input"
  by (auto simp: replayed_def bindR_eq_Inr split: option.splits if_splits)

lemma issued_matches:
  assumes "ordinary_issue_run rt uid w input attemptId now store = (Inr a, ts)"
    "ordinary_descriptor_valid (ox_descriptor (oi_execution input))"
  shows "issueMatches a input \<and> oa_issuanceRequestId a = oi_issuanceRequestId input"
proof -
  obtain s where "issue_ordinary rt uid input attemptId now s = Inr (Inl a) \<or> issue_ordinary rt uid input attemptId now s = Inr (Inr a)"
    using assms(1) by (auto simp: ordinary_issue_run_def map_sum_def split: prod.splits sum.splits)
  then obtain attempts where d: "(case find_row (\<lambda>a. oa_issuanceRequestId a = oi_issuanceRequestId input) attempts of
      Some prior \<Rightarrow> map_sum id Inl (replayed rt uid s input prior)
    | None \<Rightarrow> (let used = (if attempts = [] then 0 else nat (oa_attempt (last attempts))) in
        if maximumOrdinaryAttemptsPerJob \<le> used then Inl JobFull
        else case authoritativeOrdinaryAttemptSchema rt (ordinary_attempt_json (next_ordinary input attemptId now (used + 1))) of
            None \<Rightarrow> Inl RecordSchema | Some attempt \<Rightarrow> Inr (Inr attempt))) \<in> {Inr (Inl a), Inr (Inr a)}"
    unfolding issue_ordinary_def bindR_eq_Inr by blast
  show ?thesis
  proof (cases "find_row (\<lambda>a. oa_issuanceRequestId a = oi_issuanceRequestId input) attempts")
    case (Some prior)
    then have "replayed rt uid s input prior = Inr a" using d by (cases "replayed rt uid s input prior") auto
    then show ?thesis using replayed_matches find_row_Some[OF Some] by blast
  next
    case None
    then obtain n where "authoritativeOrdinaryAttemptSchema rt (ordinary_attempt_json (next_ordinary input attemptId now n)) = Some a"
      using d by (auto simp: Let_def split: if_splits option.splits)
    then have "a = next_ordinary input attemptId now n" by (rule attempt_schema_next[rotated]) (simp add: next_ordinary_def assms(2))
    then show ?thesis by (simp add: issueMatches_def next_ordinary_def)
  qed
qed

lemma replay_matches:
  assumes "ordinary_replay rt uid store input = Inr (Some a)"
  shows "issueMatches a input \<and> oa_issuanceRequestId a = oi_issuanceRequestId input"
proof -
  obtain attempts prior where p: "find_row (\<lambda>a. oa_issuanceRequestId a = oi_issuanceRequestId input) attempts = Some prior"
    "map_sum id Some (replayed rt uid store input prior) = Inr (Some a)"
    using assms by (auto simp: ordinary_replay_def bindR_eq_Inr split: if_splits option.splits)
  then have "replayed rt uid store input prior = Inr a" by (cases "replayed rt uid store input prior") auto
  then show ?thesis using replayed_matches find_row_Some[OF p(1)] by blast
qed

lemma verified_matches:
  assumes "issue_verified rt io verdict input store = (Inr a, s)" "ordinary_descriptor_valid (ox_descriptor (oi_execution input))"
  shows "issueMatches a input \<and> oa_issuanceRequestId a = oi_issuanceRequestId input" "verdict = ClaimVerified \<or> verdict = ClaimRejected 409"
  using assms issued_matches[OF _ assms(2)] replay_matches
  by (auto simp: issue_verified_def split: claim_verdict.splits if_splits sum.splits option.splits prod.splits)

lemma claim_identities: "attemptIssueRequest body = Some (digest, claim) \<Longrightarrow> ol_issuanceRequestId claim = ol_claimId claim"
  by (auto simp: attemptIssueRequest_def ordinaryReservationClaimSchema_def opt_conv)

lemma failure_no_success: "failure_reply e \<noteq> Replied 201 b" "failure_reply e \<noteq> Replied 200 b"
  by (cases e; simp add: error_reply_def)+

lemma attempt_reply_success: "attempt_reply code body = Replied 201 b \<longleftrightarrow> code = 201 \<and> body = b \<and> length (stringify body) + 1 \<le> 64 * 1024"
  by (auto simp: attempt_reply_def)

lemma route_is_post: "attemptRoute request = Some route \<Longrightarrow> vq_method request = ''POST''"
  by (auto simp: attemptRoute_def split: if_splits)

lemma issue_handled:
  assumes "handleOrdinaryAttempt rt config io request stores = (Replied 201 reply, stores')" "attemptRoute request = Some (OIssue p v)"
  obtains body r where "attempt_body request = Some body" "attemptIssueRequest body = Some r"
    "serveOrdinaryIssue rt config io p v r (stores p) = (Replied 201 reply, stores' p)"
  using assms route_is_post[OF assms(2)] failure_no_success(1)
  by (auto simp: handleOrdinaryAttempt_def Let_def attempt_refused_def error_reply_def split: if_splits option.splits prod.splits)


section \<open>What a request may do\<close>

text \<open>C26: Only the configured issuer changes the attempts of ordinary jobs, and only in the activated generation that it
  names: a request that changes anything carries the issuer's credentials and either issues for a claim that the service of reservations
  verified for this very request, or revokes; and it changes the store of no Project but the one in its path.\<close>

theorem ordinary_attempts_act_for_the_issuer:
  assumes "handleOrdinaryAttempt rt config io request stores = (reply, stores')" "stores' \<noteq> stores"
  shows "attempt_authorized config request \<and> vq_generation_id request = Some (aq_generationId io) \<and> aq_activated io
    \<and> (\<exists>p v. stores' = stores(p := stores' p) \<and> (attemptRoute request = Some (ORevoke p v)
        \<or> attemptRoute request = Some (OIssue p v) \<and> (\<exists>body digest claim. attempt_body request = Some body
            \<and> attemptIssueRequest body = Some (digest, claim)
            \<and> verifyReservationClaim (oc_verifierServiceId config) (aq_verifierRequestId io) claim (aq_verification io) = ClaimVerified)))"
proof -
  obtain route body where r: "attemptRoute request = Some route" "attempt_authorized config request"
    "vq_generation_id request = Some (aq_generationId io)" "aq_activated io" "attempt_body request = Some body"
    using assms by (auto simp: handleOrdinaryAttempt_def Let_def split: if_splits option.splits)
  have g: "vq_method request \<noteq> ''GET''" using route_is_post[OF r(1)] by simp
  show ?thesis
  proof (cases route)
    case (OIssue p v)
    obtain d claim s where i: "attemptIssueRequest body = Some (d, claim)" "serveOrdinaryIssue rt config io p v (d, claim) (stores p) = (reply, s)"
      "stores' = stores(p := s)"
      using assms r g OIssue by (auto simp: handleOrdinaryAttempt_def Let_def split: if_splits option.splits prod.splits)
    have "s \<noteq> stores p" using i(3) assms(2) by auto
    then have "verifyReservationClaim (oc_verifierServiceId config) (aq_verifierRequestId io) claim (aq_verification io) = ClaimVerified"
      using i(2) by (auto simp: serveOrdinaryIssue_def issue_verified_def split: sum.splits prod.splits claim_verdict.splits if_splits option.splits)
    with r i OIssue show ?thesis by auto
  next
    case (ORevoke p v)
    then show ?thesis using assms r g by (auto simp: handleOrdinaryAttempt_def Let_def split: if_splits option.splits prod.splits)
  qed (use assms r g in \<open>auto simp: handleOrdinaryAttempt_def Let_def split: if_splits option.splits prod.splits\<close>)
qed

end
