(* ===== verification/Ordinary_Examples.thy ===== *)
theory Ordinary_Examples
  imports Ordinary_Service Authority_Examples
begin

text \<open>
  A request for an attempt of an ordinary job at work: the Project, the review and the candidate tree of the other examples, with a
  runner configuration that has one ordinary job, a verified claim, and a store that does not exist yet.
\<close>

section \<open>The candidate\<close>

definition demo_ordinary_document :: yaml where
  "demo_ordinary_document = demo_map [(''schemaVersion'', demo_node (YScalar (JInt 4))), (''ordinary'', demo_map [(''jobs'',
     demo_map [(''test'', demo_map [(''script'', demo_node (YScalar (JStr ''.dim/ci/jobs/test.bash''))),
       (''argv'', demo_node (YSeq (map (\<lambda>a. demo_node (YScalar (JStr a))) candidateArgv)))])])]),
     (''qemu'', demo_map [(''jobs'', demo_map [])])]"

definition demo_ordinary_candidate :: candidate_io where
  "demo_ordinary_candidate = demo_candidate_io\<lparr>ca_parseDocument := (\<lambda>_. Some demo_ordinary_document)\<rparr>"

definition demo_test_job :: PlannedJob where
  "demo_test_job = demo_qemu_job\<lparr>pj_executionKind := OrdinarySysbox\<rparr>"

lemma demo_ordinary_yaml: "yaml_strict demo_ordinary_document"
  "strict_object (yaml_value demo_ordinary_document) [''schemaVersion'', ''ordinary'', ''qemu''] []"
  "as_literal (JInt 4) (get_field (yaml_value demo_ordinary_document) ''schemaVersion'') = Some ()"
  "jobGroupSchema Qemu (get_field (yaml_value demo_ordinary_document) ''qemu'') = Some []"
  "jobGroupSchema OrdinarySysbox (get_field (yaml_value demo_ordinary_document) ''ordinary'')
     = Some [\<lparr>cj_name = ''test'', cj_kind = OrdinarySysbox, cj_script = ''.dim/ci/jobs/test.bash''\<rparr>]"
  by code_simp+

lemma demo_ordinary_jobs: "parseNativeCandidateJobConfig (ca_parseDocument demo_ordinary_candidate) ''config''
    = Some [\<lparr>cj_name = ''test'', cj_kind = OrdinarySysbox, cj_script = ''.dim/ci/jobs/test.bash''\<rparr>]"
proof -
  have "parseStrictYaml (ca_parseDocument demo_ordinary_candidate) ''config'' = Some (yaml_value demo_ordinary_document)"
    unfolding parseStrictYaml_def using demo_ordinary_yaml(1) demo_yaml(2,3) by (simp add: demo_ordinary_candidate_def)
  then show ?thesis unfolding parseNativeCandidateJobConfig_def using demo_ordinary_yaml(2-5) by (simp add: canonicalJobs_def as_literal_def)
qed

lemma demo_ordinary_inputs:
  "readNativeCandidateJobInputsFromGit demo_prt demo_ordinary_candidate \<lparr>ct_protectedRef = demo_main, ct_expectedProtectedHead = demo_head,
     ct_candidateCommit = demo_candidate, ct_candidateTree = demo_candidate_tree\<rparr>
   = Some \<lparr>ni_configBlob = Some demo_config_blob, ni_plan = [demo_test_job]\<rparr>"
proof -
  have v: "ca_before demo_ordinary_candidate = demo_candidate_view" "ca_read demo_ordinary_candidate = demo_candidate_view"
    "ca_after demo_ordinary_candidate = demo_candidate_view" by (simp_all add: demo_ordinary_candidate_def demo_candidate_io_def)
  have d: "bytes_digest demo_prt bytes = ''sha256:'' @ demo_digest" for bytes by (simp add: bytes_digest_def demo_prt_def)
  show ?thesis
    by (simp add: readNativeCandidateJobInputsFromGit_def v demo_candidate_objects demo_entries(3) demo_blobs[simplified] demo_ordinary_jobs
        planned_entry_def d demo_config_blob_def demo_test_job_def demo_qemu_job_def)
qed

section \<open>The request\<close>

definition demo_ordinary_io :: execution_io where
  "demo_ordinary_io = demo_execution\<lparr>xe_candidate := demo_ordinary_candidate\<rparr>"

definition demo_reviewed_ordinary :: CandidateOrdinaryExecutionDescriptor where
  "demo_reviewed_ordinary = derived_ordinary_descriptor demo_capacity demo_review demo_digest demo_config_blob demo_test_job"

lemma demo_reviewed_ordinary_parses:
  "candidateOrdinaryExecutionDescriptorSchema (ordinary_descriptor_json demo_reviewed_ordinary) = Some demo_reviewed_ordinary"
  by code_simp

definition demo_reviewed_execution :: ordinary_execution where
  "demo_reviewed_execution = \<lparr>ox_reviewId = demo_digest, ox_descriptor = demo_reviewed_ordinary, ox_digest = ''sha256:'' @ demo_digest\<rparr>"

lemma demo_ordinary_derived:
  "deriveAuthoritativeOrdinaryExecutionDescriptor demo_prt demo_ordinary_io ''alpha'' demo_digest ''test'' demo_capacity
   = Some demo_reviewed_execution"
proof -
  have e: "readAuthoritativeNativeReviewEnvelope [demo_envelope] demo_digest = Some demo_envelope" by code_simp
  have m: "matches projectPattern ''alpha''" "matches namePattern ''test''" "matches objectIdPattern demo_candidate"
    "matches objectIdPattern demo_candidate_tree" by code_simp+
  have r: "resolve_target demo_prt demo_resolution ''alpha'' = Some demo_target"
    by (simp add: resolve_target_def demo_resolution_def demo_resolved)
  have f: "en_review demo_envelope = demo_review" "en_qualityRevision demo_envelope = demo_digest" "rv_projectId demo_review = ''alpha''"
    "rv_reviewId demo_review = demo_digest" "rv_candidateCommit demo_review = demo_candidate"
    "rv_candidateTree demo_review = demo_candidate_tree" by (simp_all add: demo_envelope_def demo_review_def)
  have s: "loadAuthoritativeExecutionReview demo_prt demo_ordinary_io ''alpha'' demo_digest = Some (demo_target, demo_envelope)"
    by (simp add: loadAuthoritativeExecutionReview_def demo_ordinary_io_def demo_execution_def r e f demo_fresh)
  have i: "loadAuthoritativeNativeCandidateJobInputs demo_prt demo_ordinary_io ''alpha'' demo_candidate demo_candidate_tree
      = Some \<lparr>ni_configBlob = Some demo_config_blob, ni_plan = [demo_test_job]\<rparr>"
    by (simp add: loadAuthoritativeNativeCandidateJobInputs_def m demo_ordinary_io_def demo_execution_def r demo_target_fields demo_ordinary_inputs)
  have c: "loadCurrentAuthoritativeExecutionInputs demo_prt demo_ordinary_io (demo_target, demo_envelope)
      = Some (\<lparr>ni_configBlob = Some demo_config_blob, ni_plan = [demo_test_job]\<rparr>, demo_review)"
    unfolding loadCurrentAuthoritativeExecutionInputs_def
    by (simp add: f i Let_def) (simp add: demo_ordinary_io_def demo_execution_def r e f demo_fresh)
  have j: "pj_jobName demo_test_job = ''test''" "pj_executionKind demo_test_job = OrdinarySysbox"
    by (simp_all add: demo_test_job_def demo_qemu_job_def)
  have g: "descriptorDigest demo_prt demo_reviewed_ordinary = ''sha256:'' @ demo_digest" by (simp add: descriptorDigest_def demo_prt_def)
  show ?thesis
    unfolding deriveAuthoritativeOrdinaryExecutionDescriptor_def
    by (simp add: m demo_project_hex(1) demo_capacity_ok s c j f demo_reviewed_ordinary_parses[unfolded demo_reviewed_ordinary_def]
        g[unfolded demo_reviewed_ordinary_def] find_row_def demo_reviewed_execution_def demo_reviewed_ordinary_def)
qed

definition demo_ordinary_event :: AuthoritativeNativeReviewEvent where
  "demo_ordinary_event = demo_review_event\<lparr>re_jobName := ''test''\<rparr>"

definition demo_ordinary_claim :: json where
  "demo_ordinary_claim = JObj [(''schemaVersion'', JInt 1), (''serviceId'', JStr ''ordinary-main''), (''generationId'', JStr demo_digest),
     (''serviceEpochId'', JStr demo_uuid), (''requestId'', JStr demo_uuid), (''claimId'', JStr demo_uuid),
     (''issuanceRequestId'', JStr demo_uuid), (''demandId'', JStr demo_uuid), (''admissionGeneration'', JStr demo_uuid),
     (''eventDigest'', JStr (''sha256:'' @ demo_digest)), (''event'', review_event_json demo_ordinary_event),
     (''admission'', JObj [(''projectId'', JStr ''alpha''), (''repositoryId'', JStr ''root''), (''importNonce'', JStr demo_uuid),
       (''rootSequence'', JInt 0), (''protectedRef'', JStr demo_main), (''rootCommit'', JStr demo_head), (''rootTree'', JStr demo_head),
       (''policyDigest'', JStr demo_digest), (''capacityConfigDigest'', JStr demo_digest), (''leaseExpiresAt'', JInt 1)]),
     (''hostId'', JStr ''host1''), (''capacity'', JStr ''small''), (''runnerBaseImage'', JStr demo_image),
     (''jobBaseImage'', JStr demo_image), (''bounds'', bounds_json demo_bounds)]"

definition demo_ordinary_body :: json where
  "demo_ordinary_body = JObj [(''schemaVersion'', JInt 1), (''descriptorDigest'', JStr (''sha256:'' @ demo_digest)),
     (''claim'', demo_ordinary_claim)]"

definition demo_reserved_claim :: OrdinaryReservationClaim where
  "demo_reserved_claim = \<lparr>ol_claimId = demo_uuid, ol_issuanceRequestId = demo_uuid, ol_event = demo_ordinary_event, ol_hostId = ''host1'',
     ol_capacity = ''small'', ol_trusted = demo_capacity\<rparr>"

definition demo_attempt_ci :: ordinary_ci_config where
  "demo_attempt_ci = \<lparr>oc_serviceId = ''native-main'', oc_verifierServiceId = ''ordinary-main'', oc_attemptIssuer = (''issuer'', ''pw''),
     oc_knownCredentials = []\<rparr>"

definition demo_verification :: verifier_response where
  "demo_verification = \<lparr>vr_statusCode = 200, vr_contentType = Some ''application/json'', vr_cacheControl = Some ''no-store'', vr_bodyBytes = 300,
     vr_json = Some (JObj [(''schemaVersion'', JInt 1), (''serviceId'', JStr ''ordinary-main''), (''requestId'', JStr demo_request),
       (''claimId'', JStr demo_uuid), (''issuanceRequestId'', JStr demo_uuid), (''authorized'', JBool True)])\<rparr>"

definition demo_attempt_io :: ordinary_attempt_io where
  "demo_attempt_io = \<lparr>aq_uid = 0, aq_generationId = demo_digest, aq_activated = True, aq_target = demo_resolution,
     aq_execution = demo_ordinary_io, aq_verifierRequestId = demo_request, aq_verification = Some demo_verification, aq_hookFails = False,
     aq_draw = demo_draw, aq_identity = demo_attempt_id, aq_now = demo_now\<rparr>"

definition demo_ordinary_request :: reviewer_request where
  "demo_ordinary_request = \<lparr>vq_method = ''POST'',
     vq_pathname = ''/v1/projects/alpha/repositories/root/reviews/'' @ demo_digest @ ''/job-attempts'', vq_search = [],
     vq_authorization = Some (''Basic '' @ base64 (''issuer'' @ '':'' @ ''pw'')), vq_generation_id = Some demo_digest,
     vq_content_type = Some ''application/json'', vq_body_bytes = 3000, vq_json = Some demo_ordinary_body\<rparr>"

lemma demo_ordinary_parsed: "attemptIssueRequest demo_ordinary_body = Some (''sha256:'' @ demo_digest, demo_reserved_claim)"
  by code_simp

lemma demo_ordinary_verified: "verifyReservationClaim ''ordinary-main'' demo_request demo_reserved_claim (Some demo_verification) = ClaimVerified"
  by code_simp

lemma demo_ordinary_route: "attemptRoute demo_ordinary_request = Some (OIssue ''alpha'' demo_digest)"
  by code_simp

section \<open>The attempt\<close>

definition demo_reviewed_input :: ordinary_issue where
  "demo_reviewed_input = \<lparr>oi_issuanceRequestId = demo_uuid, oi_execution = demo_reviewed_execution, oi_hostId = ''host1'',
     oi_capacity = ''small'', oi_issuedBy = ''issuer''\<rparr>"

definition demo_answered :: AuthoritativeOrdinaryAttempt where
  "demo_answered = next_ordinary demo_reviewed_input demo_attempt_id demo_now 1"

lemma demo_answered_text: "length (record_text ordinary_attempt_json demo_answered) \<le> 3000"
  by code_simp

lemma demo_answered_reply: "length (stringify (attempt_envelope demo_attempt_ci demo_attempt_io [(''attempt'', ordinary_attempt_json demo_answered)])) \<le> 3000"
  by code_simp

lemma demo_reviewed_names: "demo_digest = ox_reviewId (oi_execution demo_reviewed_input)"
  "''test'' = od_jobName (ox_descriptor (oi_execution demo_reviewed_input))"
  by (simp_all add: demo_reviewed_input_def demo_reviewed_execution_def demo_reviewed_ordinary_def derived_ordinary_descriptor_def
      demo_test_job_def demo_qemu_job_def)

lemma demo_reviewed_selector: "selector_ok demo_digest ''test''"
  using demo_project_hex(1) demo_names by (simp add: selector_ok_def)

lemma demo_answered_valid: "ordinary_attempt_valid demo_prt demo_answered"
proof -
  have "matches digestPattern (''sha256:'' @ demo_digest)" "matches identifierPattern ''host1''" "matches identifierPattern ''small''" by code_simp+
  moreover have "descriptorDigest demo_prt d = ''sha256:'' @ demo_digest" for d by (simp add: descriptorDigest_def demo_prt_def)
  ultimately show ?thesis using ordinary_descriptor_schema_valid[OF demo_reviewed_ordinary_parses] demo_project_hex(1)
    by (simp add: ordinary_attempt_valid_def demo_answered_def next_ordinary_def demo_reviewed_input_def demo_reviewed_execution_def
        demo_prt_def safe_integer_def)
qed

lemma demo_answered_run:
  obtains ts where "ordinary_issue_run demo_prt 0 demo_draw demo_reviewed_input demo_attempt_id demo_now None = (Inr demo_answered, ts)" "last ts \<noteq> None"
proof -
  have x: "ox_descriptor (oi_execution demo_reviewed_input) = demo_reviewed_ordinary"
    by (simp add: demo_reviewed_input_def demo_reviewed_execution_def)
  have g: "issue_granted demo_prt 0 demo_draw demo_reviewed_input demo_attempt_id demo_now None"
    using ordinary_descriptor_schema_valid[OF demo_reviewed_ordinary_parses] demo_answered_text[unfolded demo_answered_def] demo_uuids(1)
    by (simp add: issue_granted_def fresh_for_def demo_draw_def attempts_on_def maximumRecordBytes_def Let_def x)
  have n: "next_ordinary demo_reviewed_input demo_attempt_id demo_now (length ([] :: AuthoritativeOrdinaryAttempt list) + 1) = demo_answered"
    by (simp add: demo_answered_def)
  obtain ts where ts: "ordinary_issue_run demo_prt 0 demo_draw demo_reviewed_input demo_attempt_id demo_now None = (Inr demo_answered, ts)"
    "passes demo_prt 0 ts (\<lambda>_ _. []) (\<lambda>_ _. []) (add_record demo_digest ''test'' demo_answered (\<lambda>_ _. [])) (\<lambda>_ _. [])"
    using issue_next[OF demo_none g demo_reviewed_names demo_reviewed_selector, unfolded n] demo_answered_valid
    by (auto simp: maximumOrdinaryAttemptsPerJob_def)
  have "last ts \<noteq> None"
  proof
    assume "last ts = None"
    then show False using attempts_on_hold[of demo_prt 0 False "last ts"] ts(2) by (fastforce simp: passes_def attempts_on_def all_add_record)
  qed
  with ts(1) show thesis by (rule that)
qed

lemma demo_ordinary_reply:
  obtains t where "handleOrdinaryAttempt demo_prt demo_attempt_ci demo_attempt_io demo_ordinary_request (\<lambda>_. None)
    = (Replied 201 (attempt_envelope demo_attempt_ci demo_attempt_io [(''attempt'', ordinary_attempt_json demo_answered)]), (\<lambda>_. None)(''alpha'' := t))"
    "t \<noteq> None"
proof -
  obtain ts where ts: "ordinary_issue_run demo_prt 0 demo_draw demo_reviewed_input demo_attempt_id demo_now None = (Inr demo_answered, ts)" "last ts \<noteq> None"
    by (rule demo_answered_run)
  have io: "aq_uid demo_attempt_io = 0" "aq_draw demo_attempt_io = demo_draw" "aq_identity demo_attempt_io = demo_attempt_id"
    "aq_now demo_attempt_io = demo_now" "aq_verification demo_attempt_io = Some demo_verification" "aq_verifierRequestId demo_attempt_io = demo_request"
    "aq_generationId demo_attempt_io = demo_digest" "aq_activated demo_attempt_io" "\<not> aq_hookFails demo_attempt_io"
    "aq_execution demo_attempt_io = demo_ordinary_io" "aq_target demo_attempt_io = demo_resolution" by (simp_all add: demo_attempt_io_def)
  have r: "resolve_target demo_prt demo_resolution ''alpha'' = Some demo_target"
    by (simp add: resolve_target_def demo_resolution_def demo_resolved)
  have c: "re_eventProjectId (ol_event demo_reserved_claim) = ''alpha''" "re_reviewId (ol_event demo_reserved_claim) = demo_digest" "re_jobName (ol_event demo_reserved_claim) = ''test''"
    "ol_trusted demo_reserved_claim = demo_capacity" "ox_digest demo_reviewed_execution = ''sha256:'' @ demo_digest"
    by (simp_all add: demo_reserved_claim_def demo_ordinary_event_def demo_review_event_def demo_reviewed_execution_def)
  have i: "ordinary_issue_of demo_prt demo_attempt_ci demo_attempt_io ''alpha'' demo_digest (''sha256:'' @ demo_digest) demo_reserved_claim = Inr demo_reviewed_input"
    by (simp add: ordinary_issue_of_def io c demo_ordinary_derived r demo_reviewed_input_def) (simp add: demo_reserved_claim_def demo_attempt_ci_def)
  have v: "oc_verifierServiceId demo_attempt_ci = ''ordinary-main''" by (simp add: demo_attempt_ci_def)
  have s: "serveOrdinaryIssue demo_prt demo_attempt_ci demo_attempt_io ''alpha'' demo_digest (''sha256:'' @ demo_digest, demo_reserved_claim) None
      = (Replied 201 (attempt_envelope demo_attempt_ci demo_attempt_io [(''attempt'', ordinary_attempt_json demo_answered)]), last ts)"
    unfolding serveOrdinaryIssue_def fst_conv snd_conv i v io demo_ordinary_verified
    using demo_answered_reply by (simp add: issue_verified_def io ts(1) attempt_reply_def)
  have q: "vq_method demo_ordinary_request = ''POST''" "attempt_authorized demo_attempt_ci demo_ordinary_request"
    "vq_generation_id demo_ordinary_request = Some demo_digest" "attempt_body demo_ordinary_request = Some demo_ordinary_body"
    by (simp_all add: demo_ordinary_request_def attempt_authorized_def basicAuthorized_def demo_attempt_ci_def attempt_body_def)
  show thesis
    by (rule that[OF _ ts(2)]) (simp add: handleOrdinaryAttempt_def q demo_ordinary_route io demo_ordinary_parsed s[unfolded append.simps])
qed


theorem ordinary_attempts_act_for_the_issuer_witness:
  "\<exists>stores. snd (handleOrdinaryAttempt demo_prt demo_attempt_ci demo_attempt_io demo_ordinary_request (\<lambda>_. None)) = stores
    \<and> stores ''alpha'' \<noteq> None \<and> stores ''beta'' = None \<and> attempt_authorized demo_attempt_ci demo_ordinary_request
    \<and> vq_generation_id demo_ordinary_request = Some demo_digest"
proof -
  obtain t where h: "handleOrdinaryAttempt demo_prt demo_attempt_ci demo_attempt_io demo_ordinary_request (\<lambda>_. None)
    = (Replied 201 (attempt_envelope demo_attempt_ci demo_attempt_io [(''attempt'', ordinary_attempt_json demo_answered)]), (\<lambda>_. None)(''alpha'' := t))"
    "t \<noteq> None"
    by (rule demo_ordinary_reply)
  have d: "(\<lambda>_. None)(''alpha'' := t) \<noteq> (\<lambda>_. None)" using h(2) by (auto dest: fun_cong[of _ _ "''alpha''"])
  from ordinary_attempts_act_for_the_issuer[OF h(1) d] h show ?thesis by (simp add: demo_attempt_io_def)
qed

end
