(* ===== verification/Spec2Isabelle.thy ===== *)
theory Spec2Isabelle
  imports Qemu_Serving Project_History Review_History Authority_Examples Ordinary_Examples
begin

text \<open>
  Verification library of the native control plane of \<open>dev-infra-manager\<close>.

  \<^bold>\<open>The program.\<close> The control plane owns the protected branches of Projects. A Project is registered and its root
  repository imported once, under a policy. A proposal against the protected branch becomes a review: an envelope with the
  exact candidate commit, its changed paths, the reviewers and the jobs that the policy requires. Human reviewers approve
  or revoke, jobs run in containers or in QEMU machines, and when everything the policy asks for is present the candidate is
  promoted: the protected branch moves to it. QEMU jobs are queued by a scheduler with its own database; workers on the
  QEMU hosts claim them, execute them and report their results. Before a claimed job runs, native Git issues an attempt for it,
  bound to the reviewed candidate, and records its result; it also issues and revokes the attempts of jobs in containers. Processes may be killed at any moment, so each part
  keeps durable records and recovers from them. The sources are below \<open>src/core/packages/core/src\<close> (the QEMU
  scheduler and the host worker) and \<open>src/core/packages/native-git/src\<close> (Projects, reviews and promotion).

  \<^bold>\<open>How the source is modelled.\<close> A record type of the source is a record, a union of literals a datatype, a thrown
  error an \<^term>\<open>Inl\<close> result or \<^term>\<open>None\<close>. A table of a SQLite database is a list of rows in the order of insertion;
  constraints, unique indices and foreign keys are checked by the insert operations, and a transaction that throws
  leaves the old database because an error carries no state. A file store is the list of its records in the order of
  their names. JSON is a datatype whose objects keep the order of their members, so that texts are equal exactly when the
  values are. A string is its list of UTF-8 bytes. Clocks, random identifiers and everything that another process answers
  (Git, the container runtime, the peer of an HTTP connection) are arguments. The functions of
  Node and of packages whose code is not in the repository (SHA-256, \<open>Date.parse\<close>, \<open>URL\<close>, the UUID and date formats
  of \<open>zod\<close>) are fields of the records \<open>runtime\<close> and \<open>project_runtime\<close>; the theorems assume of them at
  most that a digest is 64 hexadecimal digits (\<open>sha_hex\<close>). Two strings with one digest are excluded only where a theorem
  says so.

  \<^bold>\<open>Shared theories.\<close>
  \<^item> \<open>Prelude\<close>: results, rows of a table, reachable states, and the interfaces \<open>safe_machine\<close> (an initial state and
    steps that keep an invariant) and \<open>codec\<close> (a parser and a printer that are inverse on valid values).
  \<^item> \<open>Js_Regex\<close>: the regular expressions of the source, decided by derivatives and shown to decide their language.
  \<^item> \<open>Js_Json\<close>, \<open>Js_Stringify\<close>, \<open>Js_Parse\<close>, \<open>Js_Base64\<close>: JSON values and accessors, \<open>JSON.stringify\<close>,
    \<open>JSON.parse\<close> and that it reads back what was written, decimal numbers, base64.

  \<^bold>\<open>QEMU jobs.\<close>
  \<^item> \<open>Qemu_Event\<close>, \<open>Qemu_Terminal\<close>, \<open>Qemu_Descriptor\<close>: the review event, the terminal event with the completion and
    the execution descriptor (\<open>nativeQemuReviewEvent.ts\<close>, \<open>nativeQemuTerminalEvent.ts\<close>, \<open>nativeQemuAssignment.ts\<close>), each an
    interpretation of \<open>codec\<close>.
  \<^item> \<open>Qemu_Store\<close>: the database of the scheduler and every operation on it (\<open>nativeQemuSchedulerStore.ts\<close>,
    \<open>nativeQemuSchedulerRows.ts\<close>, \<open>nativeQemuSchedulerDatabase.ts\<close>). \<open>Qemu_Invariant\<close>, \<open>Qemu_Safety\<close> and \<open>Qemu_Machine\<close> state
    its invariant, show that every operation keeps it and interpret \<open>safe_machine\<close>. \<open>Qemu_Progress\<close> and
    \<open>Qemu_Scheduler\<close>, \<open>Qemu_Delivery\<close>, \<open>Qemu_Reopen\<close>, \<open>Qemu_Stuck\<close> hold what follows: exclusive claims, the order of the queue,
    exactly one result per claim, the validation at start-up, and two ways in which an event or a report is lost.
  \<^item> \<open>Qemu_Host\<close>, \<open>Qemu_Worker\<close>, \<open>Qemu_Wire\<close>: the journal, the connection file and the loop of the host worker
    (\<open>nativeQemuHostJournalState.ts\<close>, \<open>nativeQemuConnection.ts\<close>, \<open>nativeQemuHostService.ts\<close>). A history is a sequence of
    iterations, each cut off after any of its effects.
  \<^item> \<open>Qemu_Config\<close>, \<open>Qemu_Service\<close>, \<open>Qemu_Serving\<close>: the configuration and the HTTP routes of the scheduler and the
    reporter (\<open>nativeQemuSchedulerConfig.ts\<close>, \<open>nativeQemuSchedulerService.ts\<close>, \<open>nativeQemuResultReporter.ts\<close>). Every request is
    shown to be a sequence of steps of the store.
  \<^item> \<open>Qemu_Examples\<close>: the data of the examples.

  \<^bold>\<open>Projects and promotion.\<close>
  \<^item> \<open>Project_Policy\<close>, \<open>Project_Registry\<close>, \<open>Project_Import\<close>, \<open>Project_Promotion\<close>: the policy and its normal form, registration
    and activation, the phases of an import, and the promotion transitions with the fold that gives the current
    head (\<open>native-imported-root-policy.ts\<close>, \<open>native-project-registry-state.ts\<close>, \<open>native-bundle-activation.ts\<close>,
    \<open>native-project-root-import-*.ts\<close>, \<open>native-project-root-promotion-*.ts\<close>, \<open>native-bundle-state-validation.ts\<close>).
    \<open>Project_Invariant\<close> and \<open>Project_Machine\<close> give the invariant of this database and interpret \<open>safe_machine\<close>.
  \<^item> \<open>Project_Review\<close>, \<open>Review_Git\<close>: the schemas and digests of reviews and what is read from Git: the raw diff, references,
    the required reviewers (\<open>authoritative-native-review-*.ts\<close>, \<open>native-root-import-proof-git.ts\<close>).
  \<^item> \<open>Review_Decisions\<close>, \<open>Reviewer_Service\<close>, \<open>Review_History\<close>: approvals and revocations, the HTTP service of the human
    reviewers, and what stays true of the decisions (\<open>authoritative-native-approval-*.ts\<close>,
    \<open>authoritative-native-revocation-*.ts\<close>, \<open>authoritative-native-decision-store.ts\<close>, \<open>native-human-reviewer-*.ts\<close>).
  \<^item> \<open>Project_Service\<close>: resolving the target, the freshness of a review, the authorization, the compare and swap of the
    protected branch and the recovery of unfinished promotions (\<open>native-installed-promotion.ts\<close>,
    \<open>native-project-root-promotion-recovery.ts\<close>, \<open>promotion-git.ts\<close>, \<open>current-qemu-terminal-evidence.ts\<close> and what they call).
  \<^item> \<open>Project_Safety\<close>, \<open>Project_Recovery\<close>, \<open>Project_History\<close>: a promotion performs steps of the database machine and moves the
    branch only to an authorised candidate; an interrupted promotion is completed; the history of a protected branch is a
    chain of reviewed transitions. \<open>Project_Examples\<close> and \<open>Project_Promoted\<close> hold the concrete Project of the examples.

  \<^bold>\<open>The QEMU authority of native Git.\<close>
  \<^item> \<open>Authority_State\<close>: attempts and statuses of QEMU jobs, their schemas, the consistency rules of the whole state and what
    counts as its successor (\<open>native-qemu-authority-state.ts\<close>, \<open>qemu-execution-descriptor.ts\<close>); the descriptors that
    native Git accepts are the ones that the host accepts, up to the rules for branch names, with one digest.
  \<^item> \<open>Authority_Files\<close>: the directory that holds the state, publication by write, link, rename and unlink, recovery at the next
    read (\<open>native-qemu-authority-files.ts\<close>) and the operations on it. \<open>Authority_Recovery\<close> gives the shapes a directory can
    have and what reading and publishing make of each; \<open>Authority_History\<close> proves, in the locale \<open>authority_operation\<close>
    for every operation at once, that an operation leaves one of these shapes wherever it is stopped, and interprets
    \<open>monotone_machine\<close>; \<open>Authority_Guarantees\<close> holds what follows for the attempts of a job.
  \<^item> \<open>Candidate_Inputs\<close>: reading blobs of the candidate tree, the runner configuration, the plan and the descriptor of a job
    of a current review (\<open>candidate-execution-git.ts\<close>, \<open>native-candidate-job-*.ts\<close>,
    \<open>authoritative-execution-review-inputs.ts\<close>, \<open>authoritative-qemu-execution-descriptor.ts\<close>).
  \<^item> \<open>Authority_Service\<close>: the HTTP routes (\<open>native-qemu-authority-http.ts\<close>): who may do what, and that an issued attempt
    runs a script of the reviewed candidate. \<open>Authority_Examples\<close> holds a request at work.

  \<^bold>\<open>Attempts of ordinary jobs.\<close>
  \<^item> \<open>Ordinary_Attempts\<close>: the descriptor of a job in a container, its digest and its derivation from a current review, and the
    records of attempts and revocations (\<open>candidate-execution-schema.ts\<close>, \<open>candidate-execution.ts\<close>,
    \<open>authoritative-ordinary-execution-descriptor.ts\<close>, \<open>authoritative-ordinary-attempt-schema.ts\<close>), interpretations of \<open>codec\<close>.
  \<^item> \<open>Ordinary_Files\<close>: the tree of folders that keeps one file per record, every operation on it as a sequence of calls of
    the file system, and the store (\<open>authoritative-ordinary-attempt-files.ts\<close>, \<open>authoritative-ordinary-attempt-store.ts\<close>).
  \<^item> \<open>Ordinary_Recovery\<close>: the directory of a job, with the files that an interrupted write leaves, and what recovery and
    reading make of it, in the locale \<open>record_kind\<close> that attempts and revocations interpret. \<open>Ordinary_Trees\<close> and
    \<open>Ordinary_Store\<close> lift this to reviews and to the store, \<open>Ordinary_Writes\<close> and \<open>Ordinary_Operations\<close> follow a write
    call by call.
  \<^item> \<open>Ordinary_Machine\<close>: the service that starts, issues, revokes, stops and is killed at any call of an operation, and its
    invariant: the files hold exactly the records, or the folders of the store were never completed. \<open>Ordinary_Guarantees\<close>
    holds what follows: it starts again with every record, attempts are numbered and current, and a revoked attempt is never issued again.
  \<^item> \<open>Ordinary_Service\<close>: the claims of the service of reservations and the HTTP routes (\<open>ordinary-reservation-claim.ts\<close>,
    \<open>native-ordinary-attempt-http.ts\<close>): an answered attempt runs a script of the reviewed candidate under a verified claim.
    \<open>Ordinary_Examples\<close> holds a request at work.

  \<^bold>\<open>Hypotheses on the environment.\<close> \<open>swap_transactional\<close> and \<open>swap_available\<close> state the documented behaviour of
  \<open>git update-ref --stdin\<close>: a transaction that verifies old values is applied as a whole or not at all, and it succeeds
  when the old values are the expected ones. \<open>promotion_ready\<close> says that the stored reviews were created by the service,
  that the stored decisions satisfy the invariant of their store and that the number of transitions is below the largest
  safe integer.
  \<open>run_ok\<close> says that the identifier and the inode number that a publication draws are new and that a digest is a digest;
  a directory is taken to keep after a crash what the completed calls have put there, in their order.
  \<open>issue_granted\<close> and \<open>revoke_granted\<close> say the same of the identifiers and the inode number of an operation on ordinary
  attempts, that one issuance request is not used for two jobs, that what it is given has the types of its caller, and that the
  text of its record is within the bound. The recovery at a
  start of this service is one step, so a second kill during it is not considered.
  \<open>digests_distinct\<close> says that the records of one promotion have different digests.

  \<^bold>\<open>Loops and bounds.\<close> All functions are total. The claim loop of the scheduler is given fuel, and one more
  than the number of unfinished events is shown to be enough for an answer; the loops over rows and records are structural. Integers are those
  of JavaScript: the parsers reject what is not a safe integer, and the sequence of a protected head is shown to stay one.

  \<^bold>\<open>Not modelled.\<close> The container and machine executors, the installer, the command line, the web interface, the
  controller and its plugins, and the Git transport run processes and services whose behaviour is not in this
  repository. The runner of ordinary jobs, the statuses it reports and the service that
  reserves its capacity are left out: the evidence of a status is an input of the promotion, the answer of that service an input of
  the issuance. Opening
  databases and the publication of review and decision files are left to the operating system. Git and the YAML
  library are not part of the repository: their answers are inputs.
\<close>

end
